(* ===== verification/Peer_Prelude.thy ===== *)
theory Peer_Prelude
  imports Main "HOL-Library.Word" "HOL-Library.Char_ord" "HOL-Library.List_Lexorder"
    "HOL-Library.Multiset" "HOL-Library.Sublist"
begin

text \<open>
  The library shared by every component theory: machine integers, \<open>Option\<close> combinators,
  \<open>HashMap\<close>s, bounded \<open>VecDeque\<close>s, Rust orderings and the stable \<open>sort_by\<close>, and the parts of
  \<open>str\<close> the peer uses. Nothing here is specific to one source file; the definitions are the
  standard-library operations the sources call.

  Conventions. A Rust \<open>u8/u16/u32/u64/usize\<close> value is a \<open>nat\<close>; every operation that can leave
  the range of its type is written with its saturation or wrap-around. A Rust \<open>String\<close> is the
  list of its UTF-8 bytes, as \<open>char list\<close>. An \<open>f64\<close> is its IEEE bit pattern.
\<close>

named_theorems hm_simps \<open>hash map rules\<close>
named_theorems str_simps \<open>evaluation of string operations\<close>

unbundle bit_operations_syntax

section \<open>Machine integers\<close>

definition u8_max :: nat where "u8_max = 255"
definition u16_max :: nat where "u16_max = 65535"
definition u32_max :: nat where "u32_max = 4294967295"
definition u64_max :: nat where "u64_max = 18446744073709551615"

text \<open>\<open>saturating_add\<close> of the type whose largest value is \<open>M\<close>; \<open>saturating_sub\<close> is subtraction
  on \<open>nat\<close>.\<close>

definition sat_add :: "nat \<Rightarrow> nat \<Rightarrow> nat \<Rightarrow> nat" where
  "sat_add M a b = min M (a + b)"

definition sat_sub :: "nat \<Rightarrow> nat \<Rightarrow> nat" where
  "sat_sub a b = a - b"

text \<open>\<open>x as u32\<close> truncates; \<open>+\<close> on \<open>u32\<close> wraps in a release build.\<close>

definition as_u32 :: "nat \<Rightarrow> nat" where
  "as_u32 n = n mod 2 ^ 32"

definition wrap_add32 :: "nat \<Rightarrow> nat \<Rightarrow> nat" where
  "wrap_add32 a b = (a + b) mod 2 ^ 32"

definition as_u8 :: "nat \<Rightarrow> nat" where
  "as_u8 n = n mod 2 ^ 8"

definition wrap_add64 :: "nat \<Rightarrow> nat \<Rightarrow> nat" where
  "wrap_add64 a b = (a + b) mod 2 ^ 64"

definition wrap_mul64 :: "nat \<Rightarrow> nat \<Rightarrow> nat" where
  "wrap_mul64 a b = (a * b) mod 2 ^ 64"

lemma sat_add_le [simp]: "sat_add M a b \<le> M"
  by (simp add: sat_add_def)

lemma sat_add_mono: "a \<le> M \<Longrightarrow> a \<le> sat_add M a b"
  by (simp add: sat_add_def)

lemma sat_add_exact: "a + b \<le> M \<Longrightarrow> sat_add M a b = a + b"
  by (simp add: sat_add_def)

lemma sat_add_assoc: "sat_add M (sat_add M a b) c = sat_add M a (b + c)"
  by (simp add: sat_add_def min_def)

lemma sat_add_commute: "sat_add M a b = sat_add M b a"
  by (simp add: sat_add_def add.commute)

lemma wrap_add32_exact: "a + b < 2 ^ 32 \<Longrightarrow> wrap_add32 a b = a + b"
  by (simp add: wrap_add32_def)

lemma as_u32_exact: "n < 2 ^ 32 \<Longrightarrow> as_u32 n = n"
  by (simp add: as_u32_def)

lemma as_u32_bound [simp]: "as_u32 n < 2 ^ 32"
  by (simp add: as_u32_def)

lemma wrap_add32_bound [simp]: "wrap_add32 a b < 2 ^ 32"
  by (simp add: wrap_add32_def)

section \<open>Options\<close>

definition unwrap_or :: "'a option \<Rightarrow> 'a \<Rightarrow> 'a" where
  "unwrap_or x d = (case x of Some v \<Rightarrow> v | None \<Rightarrow> d)"

definition opt_or :: "'a option \<Rightarrow> 'a option \<Rightarrow> 'a option" where
  "opt_or x y = (case x of Some v \<Rightarrow> Some v | None \<Rightarrow> y)"

definition opt_filter :: "('a \<Rightarrow> bool) \<Rightarrow> 'a option \<Rightarrow> 'a option" where
  "opt_filter P x = (case x of Some v \<Rightarrow> if P v then Some v else None | None \<Rightarrow> None)"

lemma unwrap_or_simps [simp]: "unwrap_or (Some v) d = v" "unwrap_or None d = d"
  by (simp_all add: unwrap_or_def)

lemma opt_or_simps [simp]: "opt_or (Some v) y = Some v" "opt_or None y = y"
  by (simp_all add: opt_or_def)

lemma opt_filter_simps [simp]:
  "opt_filter P None = None" "opt_filter P (Some v) = (if P v then Some v else None)"
  by (simp_all add: opt_filter_def)

section \<open>Hash maps\<close>

text \<open>
  A \<open>HashMap\<close> is an association list with distinct keys; the order of the list is one possible
  iteration order, which the code never controls. Lookups, inserts and removals are therefore
  stated through \<open>hm_get\<close>; a function that iterates is stated for every such list.
\<close>

type_synonym ('k, 'v) hmap = "('k \<times> 'v) list"

definition hm_empty :: "('k, 'v) hmap" where "hm_empty = []"

definition hm_get :: "('k, 'v) hmap \<Rightarrow> 'k \<Rightarrow> 'v option" where
  "hm_get m k = map_of m k"

definition hm_contains :: "('k, 'v) hmap \<Rightarrow> 'k \<Rightarrow> bool" where
  "hm_contains m k = (hm_get m k \<noteq> None)"

definition hm_remove :: "'k \<Rightarrow> ('k, 'v) hmap \<Rightarrow> ('k, 'v) hmap" where
  "hm_remove k m = filter (\<lambda>(k', v). k' \<noteq> k) m"

definition hm_insert :: "'k \<Rightarrow> 'v \<Rightarrow> ('k, 'v) hmap \<Rightarrow> ('k, 'v) hmap" where
  "hm_insert k v m = (k, v) # hm_remove k m"

definition hm_retain :: "('k \<Rightarrow> 'v \<Rightarrow> bool) \<Rightarrow> ('k, 'v) hmap \<Rightarrow> ('k, 'v) hmap" where
  "hm_retain P m = filter (\<lambda>(k, v). P k v) m"

text \<open>\<open>if let Some(v) = m.get_mut(k) { f(v) }\<close> and \<open>f(m.entry(k).or_insert(d))\<close>.\<close>

definition hm_modify :: "'k \<Rightarrow> ('v \<Rightarrow> 'v) \<Rightarrow> ('k, 'v) hmap \<Rightarrow> ('k, 'v) hmap" where
  "hm_modify k f m = map (\<lambda>(k', v). (k', if k' = k then f v else v)) m"

definition hm_entry :: "'k \<Rightarrow> 'v \<Rightarrow> ('v \<Rightarrow> 'v) \<Rightarrow> ('k, 'v) hmap \<Rightarrow> ('k, 'v) hmap" where
  "hm_entry k d f m =
     (if hm_contains m k then hm_modify k f m else hm_insert k (f d) m)"

definition hm_keys :: "('k, 'v) hmap \<Rightarrow> 'k list" where "hm_keys m = map fst m"
definition hm_values :: "('k, 'v) hmap \<Rightarrow> 'v list" where "hm_values m = map snd m"

definition hm_wf :: "('k, 'v) hmap \<Rightarrow> bool" where
  "hm_wf m = distinct (map fst m)"

lemma hm_get_empty [simp, hm_simps]: "hm_get hm_empty k = None" "hm_get [] k = None"
  by (simp_all add: hm_get_def hm_empty_def)

lemma hm_get_Cons [simp, hm_simps]:
  "hm_get ((k', v) # m) k = (if k' = k then Some v else hm_get m k)"
  by (simp add: hm_get_def)

lemma hm_get_remove [simp, hm_simps]:
  "hm_get (hm_remove k m) k' = (if k' = k then None else hm_get m k')"
  by (induction m) (auto simp: hm_get_def hm_remove_def)

lemma hm_get_insert [simp, hm_simps]:
  "hm_get (hm_insert k v m) k' = (if k' = k then Some v else hm_get m k')"
  by (simp add: hm_insert_def)

lemma hm_get_modify [simp, hm_simps]:
  "hm_get (hm_modify k f m) k' =
     (if k' = k then map_option f (hm_get m k) else hm_get m k')"
  by (induction m) (auto simp: hm_get_def hm_modify_def)

lemma hm_get_entry [simp, hm_simps]:
  "hm_get (hm_entry k d f m) k' =
     (if k' = k then Some (f (unwrap_or (hm_get m k) d)) else hm_get m k')"
  by (auto simp: hm_entry_def hm_contains_def)

lemma hm_get_SomeD: "hm_get m k = Some v \<Longrightarrow> (k, v) \<in> set m"
  by (simp add: hm_get_def map_of_SomeD)

lemma hm_wf_get: "hm_wf m \<Longrightarrow> (k, v) \<in> set m \<longleftrightarrow> hm_get m k = Some v"
  by (auto simp: hm_wf_def hm_get_def)

lemma hm_get_retain [hm_simps]:
  "hm_wf m \<Longrightarrow> hm_get (hm_retain P m) k =
     (case hm_get m k of None \<Rightarrow> None | Some v \<Rightarrow> if P k v then Some v else None)"
proof (induction m)
  case (Cons a m)
  obtain k' v' where "a = (k', v')" by (cases a)
  moreover have "k' \<notin> fst ` set m \<Longrightarrow> hm_get (filter (\<lambda>(k, v). P k v) m) k' = None"
    by (force simp: hm_get_def map_of_eq_None_iff)
  ultimately show ?case
    using Cons by (auto simp: hm_wf_def hm_retain_def split: option.splits)
qed (simp add: hm_retain_def)

lemma hm_wf_empty [simp, hm_simps]: "hm_wf hm_empty" "hm_wf []"
  by (simp_all add: hm_wf_def hm_empty_def)

lemma hm_wf_remove [simp, hm_simps]: "hm_wf m \<Longrightarrow> hm_wf (hm_remove k m)"
  by (simp add: hm_wf_def hm_remove_def distinct_map_filter)

lemma hm_wf_retain [simp, hm_simps]: "hm_wf m \<Longrightarrow> hm_wf (hm_retain P m)"
  by (simp add: hm_wf_def hm_retain_def distinct_map_filter)

lemma hm_wf_insert [simp, hm_simps]: "hm_wf m \<Longrightarrow> hm_wf (hm_insert k v m)"
  by (auto simp: hm_wf_def hm_insert_def hm_remove_def distinct_map_filter)

lemma hm_keys_modify: "map fst (hm_modify k f m) = map fst m"
  by (induction m) (auto simp: hm_modify_def)

lemma hm_wf_modify [simp, hm_simps]: "hm_wf m \<Longrightarrow> hm_wf (hm_modify k f m)"
  by (simp add: hm_wf_def hm_keys_modify)

lemma hm_wf_entry [simp, hm_simps]: "hm_wf m \<Longrightarrow> hm_wf (hm_entry k d f m)"
  by (simp add: hm_entry_def)

lemma hm_contains_iff: "hm_contains m k \<longleftrightarrow> k \<in> set (hm_keys m)"
  by (auto simp: hm_contains_def hm_get_def hm_keys_def map_of_eq_None_iff)

lemma hm_contains_get: "hm_contains m k \<longleftrightarrow> (\<exists>v. hm_get m k = Some v)"
  by (auto simp: hm_contains_def)

text \<open>The map as a list: one entry at a time, and how many values satisfy a predicate.\<close>

lemma hm_Cons:
  "hm_values [] = []" "hm_values ((k, v) # m) = v # hm_values m"
  "hm_remove k' [] = []" "hm_remove k' ((k, v) # m) = (if k = k' then hm_remove k' m else (k, v) # hm_remove k' m)"
  "hm_modify k' f [] = []"
  "hm_modify k' f ((k, v) # m) = (k, if k = k' then f v else v) # hm_modify k' f m"
  "hm_retain P [] = []" "hm_retain P ((k, v) # m) = (if P k v then (k, v) # hm_retain P m else hm_retain P m)"
  "hm_wf ((k, v) # m) = (hm_get m k = None \<and> hm_wf m)"
  by (simp_all add: hm_values_def hm_remove_def hm_modify_def hm_retain_def hm_wf_def hm_get_def
      map_of_eq_None_iff)

lemma hm_remove_absent: "hm_get m k = None \<Longrightarrow> hm_remove k m = m"
  by (induction m) (auto simp: hm_Cons split: if_splits)

lemma hm_modify_absent: "hm_get m k = None \<Longrightarrow> hm_modify k f m = m"
  by (induction m) (auto simp: hm_Cons split: if_splits)

lemma values_insert_filter:
  "hm_get m k = None \<Longrightarrow> filter P (hm_values (hm_insert k v m)) = filter P (v # hm_values m)"
  by (simp add: hm_insert_def hm_remove_absent hm_Cons)

lemma values_remove_filter:
  "hm_wf m \<Longrightarrow> hm_get m k = Some v \<Longrightarrow>
   length (filter P (hm_values m)) =
     length (filter P (hm_values (hm_remove k m))) + (if P v then 1 else 0)"
proof (induction m)
  case (Cons a m)
  obtain k' v' where a: "a = (k', v')" by (cases a)
  show ?case
  proof (cases "k' = k")
    case True
    with Cons.prems show ?thesis by (simp add: a hm_Cons hm_remove_absent)
  next
    case False
    with Cons show ?thesis by (simp add: a hm_Cons)
  qed
qed simp

lemma values_modify_filter:
  "hm_wf m \<Longrightarrow> hm_get m k = Some v \<Longrightarrow> P (f v) = P v \<Longrightarrow>
   length (filter P (hm_values (hm_modify k f m))) = length (filter P (hm_values m))"
proof (induction m)
  case (Cons a m)
  obtain k' v' where a: "a = (k', v')" by (cases a)
  show ?case
  proof (cases "k' = k")
    case True
    with Cons.prems show ?thesis by (simp add: a hm_Cons hm_modify_absent)
  next
    case False
    with Cons show ?thesis by (simp add: a hm_Cons)
  qed
qed simp

section \<open>Vectors\<close>

text \<open>\<open>if let Some(x) = v.iter_mut().find(P) { f(x) }\<close>: only the first match changes.\<close>

fun update_first :: "('a \<Rightarrow> bool) \<Rightarrow> ('a \<Rightarrow> 'a) \<Rightarrow> 'a list \<Rightarrow> 'a list" where
  "update_first P f [] = []"
| "update_first P f (x # xs) = (if P x then f x # xs else x # update_first P f xs)"

text \<open>\<open>v.iter().enumerate().filter_map(|(i, x)| g(x).map(|y| (i, y)))\<close> followed by a loop that
  writes \<open>f y v[i]\<close> back: the scheduler's read phase and write phase.\<close>

definition indexed_updates :: "('a \<Rightarrow> 'u option) \<Rightarrow> 'a list \<Rightarrow> (nat \<times> 'u) list" where
  "indexed_updates g xs =
     List.map_filter (\<lambda>(i, x). map_option (\<lambda>u. (i, u)) (g x)) (List.enumerate 0 xs)"

definition write_updates :: "('u \<Rightarrow> 'a \<Rightarrow> 'a) \<Rightarrow> (nat \<times> 'u) list \<Rightarrow> 'a list \<Rightarrow> 'a list" where
  "write_updates f us xs = foldl (\<lambda>ys (i, u). ys[i := f u (ys ! i)]) xs us"

lemma update_first_id: "find P xs = None \<Longrightarrow> update_first P f xs = xs"
  by (induction xs) (auto split: if_splits)

lemma length_update_first [simp]: "length (update_first P f xs) = length xs"
  by (induction xs) auto

lemma map_update_first: "(\<And>x. P x \<Longrightarrow> g (f x) = g x) \<Longrightarrow> map g (update_first P f xs) = map g xs"
  by (induction xs) auto

lemma find_update_first:
  "(\<And>x. P x \<Longrightarrow> P (f x)) \<Longrightarrow> find P (update_first P f xs) = map_option f (find P xs)"
  by (induction xs) auto

lemma find_update_first_other:
  "(\<And>x. P x \<Longrightarrow> \<not> Q x \<and> \<not> Q (f x)) \<Longrightarrow> find Q (update_first P f xs) = find Q xs"
  by (induction xs) auto

lemma find_append: "find P (xs @ ys) = (case find P xs of Some x \<Rightarrow> Some x | None \<Rightarrow> find P ys)"
  by (induction xs) auto

lemma find_filter_other: "(\<And>x. P x \<Longrightarrow> Q x) \<Longrightarrow> find P (filter Q xs) = find P xs"
  by (induction xs) auto

lemma find_Some_prop: "find P xs = Some x \<Longrightarrow> P x \<and> x \<in> set xs"
  by (induction xs) (auto split: if_splits)

lemma map_filter_enumerate_Cons:
  "List.map_filter (\<lambda>(i, x). map_option (Pair i) (g x)) (List.enumerate n (x # xs)) =
     (case g x of None \<Rightarrow> [] | Some u \<Rightarrow> [(n, u)])
       @ List.map_filter (\<lambda>(i, x). map_option (Pair i) (g x)) (List.enumerate (Suc n) xs)"
  by (simp add: List.map_filter_def split: option.splits)

text \<open>Reading first and writing back by index is a map.\<close>

lemma write_indexed_shift:
  "foldl (\<lambda>ys (i, u). ys[i := f u (ys ! i)]) (pre @ xs)
     (List.map_filter (\<lambda>(i, x). map_option (Pair i) (g x)) (List.enumerate (length pre) xs))
   = pre @ map (\<lambda>x. case g x of None \<Rightarrow> x | Some u \<Rightarrow> f u x) xs"
proof (induction xs arbitrary: pre)
  case (Cons x xs)
  show ?case
  proof (cases "g x")
    case None
    with Cons.IH [of "pre @ [x]"] show ?thesis by (simp add: map_filter_enumerate_Cons del: enumerate_simps)
  next
    case (Some u)
    with Cons.IH [of "pre @ [f u x]"] show ?thesis by (simp add: map_filter_enumerate_Cons del: enumerate_simps)
  qed
qed (simp add: List.map_filter_def)

lemma write_indexed_updates:
  "write_updates f (indexed_updates g xs) xs = map (\<lambda>x. case g x of None \<Rightarrow> x | Some u \<Rightarrow> f u x) xs"
  using write_indexed_shift [of f "[]" xs g]
  by (simp add: write_updates_def indexed_updates_def)

lemma indexed_updates_Nil: "indexed_updates g xs = [] \<longleftrightarrow> (\<forall>x\<in>set xs. g x = None)"
proof -
  have "List.map_filter (\<lambda>(i, x). map_option (Pair i) (g x)) (List.enumerate n xs) = []
      \<longleftrightarrow> (\<forall>x\<in>set xs. g x = None)" for n
    by (induction xs arbitrary: n) (auto simp: map_filter_enumerate_Cons List.map_filter_def split: option.splits)
  then show ?thesis by (simp add: indexed_updates_def)
qed

lemma length_concat_nonempty: "list_all (\<lambda>c. c \<noteq> []) cs \<Longrightarrow> length cs \<le> length (concat cs)"
proof (induction cs)
  case (Cons c cs)
  then show ?case by (cases c) auto
qed simp

end
