(* ===== verification/Rust_Str.thy ===== *)
theory Rust_Str
  imports Peer_Prelude
begin

text \<open>
  The operations of \<open>str\<close> the peer uses, on the UTF-8 bytes of the string, and the bounded
  \<open>VecDeque\<close>. Each is written to compute, so that closed instances evaluate by \<open>simp\<close>.
\<close>

section \<open>Trimming\<close>

text \<open>The UTF-8 encodings of the characters with the Unicode property \<open>White_Space\<close>.\<close>

definition white_space :: "string list" where
  "white_space =
     [[CHR 0x09], [CHR 0x0A], [CHR 0x0B], [CHR 0x0C], [CHR 0x0D], [CHR 0x20],
      [CHR 0xC2, CHR 0x85], [CHR 0xC2, CHR 0xA0],
      [CHR 0xE1, CHR 0x9A, CHR 0x80],
      [CHR 0xE2, CHR 0x80, CHR 0x80], [CHR 0xE2, CHR 0x80, CHR 0x81],
      [CHR 0xE2, CHR 0x80, CHR 0x82], [CHR 0xE2, CHR 0x80, CHR 0x83],
      [CHR 0xE2, CHR 0x80, CHR 0x84], [CHR 0xE2, CHR 0x80, CHR 0x85],
      [CHR 0xE2, CHR 0x80, CHR 0x86], [CHR 0xE2, CHR 0x80, CHR 0x87],
      [CHR 0xE2, CHR 0x80, CHR 0x88], [CHR 0xE2, CHR 0x80, CHR 0x89],
      [CHR 0xE2, CHR 0x80, CHR 0x8A],
      [CHR 0xE2, CHR 0x80, CHR 0xA8], [CHR 0xE2, CHR 0x80, CHR 0xA9],
      [CHR 0xE2, CHR 0x80, CHR 0xAF], [CHR 0xE2, CHR 0x81, CHR 0x9F],
      [CHR 0xE3, CHR 0x80, CHR 0x80]]"

fun strip_ws :: "string list \<Rightarrow> nat \<Rightarrow> string \<Rightarrow> string" where
  "strip_ws ws 0 s = s"
| "strip_ws ws (Suc n) s =
     (case find (\<lambda>w. prefix w s) ws of
        None \<Rightarrow> s
      | Some w \<Rightarrow> strip_ws ws n (drop (length w) s))"

text \<open>Every character stripped has at least one byte, so \<open>length s\<close> rounds are enough.\<close>

definition trim_start :: "string \<Rightarrow> string" where
  "trim_start s = strip_ws white_space (length s) s"

definition trim_end :: "string \<Rightarrow> string" where
  "trim_end s = rev (strip_ws (map rev white_space) (length s) (rev s))"

definition trim :: "string \<Rightarrow> string" where
  "trim s = trim_end (trim_start s)"

lemma strip_ws_id: "find (\<lambda>w. prefix w s) ws = None \<Longrightarrow> strip_ws ws n s = s"
  by (cases n) auto

text \<open>A string of ASCII bytes is untouched when it neither starts nor ends with a space byte.\<close>

definition ws_byte :: "char \<Rightarrow> bool" where
  "ws_byte c = (c \<in> set [CHR 0x09, CHR 0x0A, CHR 0x0B, CHR 0x0C, CHR 0x0D, CHR 0x20]
     \<or> (of_char c :: nat) \<ge> 128)"

lemma white_space_bytes:
  "list_all (\<lambda>w. w \<noteq> [] \<and> ws_byte (hd w) \<and> ws_byte (last w)) white_space"
  by (simp add: white_space_def ws_byte_def)

lemma white_space_memD:
  "w \<in> set white_space \<Longrightarrow> w \<noteq> [] \<and> ws_byte (hd w) \<and> ws_byte (last w)"
  using white_space_bytes by (simp add: list_all_iff)

lemma no_prefix_ws: "\<not> ws_byte c \<Longrightarrow> find (\<lambda>w. prefix w (c # s)) white_space = None"
  using white_space_memD by (fastforce simp: find_None_iff prefix_Cons)

lemma no_prefix_ws_rev:
  "\<not> ws_byte c \<Longrightarrow> find (\<lambda>w. prefix w (c # s)) (map rev white_space) = None"
  using white_space_memD by (fastforce simp: find_None_iff prefix_Cons hd_rev)

lemma find_ws_Nil [simp]:
  "find (\<lambda>w. prefix w []) white_space = None" "find (\<lambda>w. prefix w []) (map rev white_space) = None"
  using white_space_memD by (fastforce simp: find_None_iff)+

lemma trim_start_id: "s = [] \<or> \<not> ws_byte (hd s) \<Longrightarrow> trim_start s = s"
  by (cases s) (auto simp: trim_start_def no_prefix_ws strip_ws_id simp del: strip_ws.simps(2))

lemma trim_end_id: "s = [] \<or> \<not> ws_byte (last s) \<Longrightarrow> trim_end s = s"
proof (cases s rule: rev_cases)
  case (snoc ys y)
  assume "s = [] \<or> \<not> ws_byte (last s)"
  with snoc show ?thesis
    by (simp add: trim_end_def strip_ws_id no_prefix_ws_rev del: strip_ws.simps)
qed (simp add: trim_end_def)

lemma trim_id: "s = [] \<or> \<not> ws_byte (hd s) \<and> \<not> ws_byte (last s) \<Longrightarrow> trim s = s"
  by (auto simp: trim_def trim_start_id trim_end_id)

lemma trim_Nil [simp]: "trim [] = []"
  by (rule trim_id) simp

section \<open>Splitting, prefixes, case\<close>

fun split_once :: "'a \<Rightarrow> 'a list \<Rightarrow> ('a list \<times> 'a list) option" where
  "split_once c [] = None"
| "split_once c (x # xs) =
     (if x = c then Some ([], xs)
      else (case split_once c xs of None \<Rightarrow> None | Some (a, b) \<Rightarrow> Some (x # a, b)))"

definition rsplit_once :: "char \<Rightarrow> string \<Rightarrow> (string \<times> string) option" where
  "rsplit_once c s =
     (case split_once c (rev s) of None \<Rightarrow> None | Some (a, b) \<Rightarrow> Some (rev b, rev a))"

fun split_char :: "char \<Rightarrow> string \<Rightarrow> string list" where
  "split_char c [] = [[]]"
| "split_char c (x # xs) =
     (if x = c then [] # split_char c xs
      else (case split_char c xs of [] \<Rightarrow> [[x]] | p # ps \<Rightarrow> (x # p) # ps))"

definition strip_prefix_str :: "string \<Rightarrow> string \<Rightarrow> string option" where
  "strip_prefix_str p s = (if prefix p s then Some (drop (length p) s) else None)"

definition trim_end_matches :: "char \<Rightarrow> string \<Rightarrow> string" where
  "trim_end_matches c s = rev (dropWhile (\<lambda>x. x = c) (rev s))"

definition contains_char :: "char \<Rightarrow> string \<Rightarrow> bool" where
  "contains_char c s = (c \<in> set s)"

fun contains_str :: "string \<Rightarrow> string \<Rightarrow> bool" where
  "contains_str p [] = (p = [])"
| "contains_str p (x # xs) = (prefix p (x # xs) \<or> contains_str p xs)"

definition ascii_lower :: "char \<Rightarrow> char" where
  "ascii_lower c = (let n = (of_char c :: nat) in
     if 65 \<le> n \<and> n \<le> 90 then char_of (n + 32) else c)"

definition ascii_upper :: "char \<Rightarrow> char" where
  "ascii_upper c = (let n = (of_char c :: nat) in
     if 97 \<le> n \<and> n \<le> 122 then char_of (n - 32) else c)"

definition to_ascii_lowercase :: "string \<Rightarrow> string" where
  "to_ascii_lowercase s = map ascii_lower s"

definition to_ascii_uppercase :: "string \<Rightarrow> string" where
  "to_ascii_uppercase s = map ascii_upper s"

definition eq_ignore_ascii_case :: "string \<Rightarrow> string \<Rightarrow> bool" where
  "eq_ignore_ascii_case a b = (to_ascii_lowercase a = to_ascii_lowercase b)"

lemma split_once_Some: "split_once c s = Some (a, b) \<Longrightarrow> s = a @ c # b \<and> c \<notin> set a"
  by (induction c s arbitrary: a b rule: split_once.induct)
     (simp_all split: if_split_asm option.split_asm prod.split_asm, fastforce+)

lemma split_once_append [simp]: "c \<notin> set a \<Longrightarrow> split_once c (a @ c # b) = Some (a, b)"
  by (induction a) auto

lemma split_once_None: "split_once c s = None \<longleftrightarrow> c \<notin> set s"
  by (induction s) (auto split: option.splits)

lemma rsplit_once_append [simp]: "c \<notin> set b \<Longrightarrow> rsplit_once c (a @ c # b) = Some (a, b)"
  by (simp add: rsplit_once_def)

lemma rsplit_once_None: "rsplit_once c s = None \<longleftrightarrow> c \<notin> set s"
proof -
  have "rsplit_once c s = None \<longleftrightarrow> split_once c (rev s) = None"
    by (auto simp: rsplit_once_def split: option.splits)
  then show ?thesis by (simp add: split_once_None)
qed

lemma rsplit_once_Some:
  assumes "rsplit_once c s = Some (a, b)"
  shows "s = a @ c # b \<and> c \<notin> set b"
proof -
  from assms have "split_once c (rev s) = Some (rev b, rev a)"
    by (auto simp: rsplit_once_def split: option.splits)
  then have "rev s = rev b @ c # rev a" "c \<notin> set b" by (auto dest: split_once_Some)
  then show ?thesis by (simp add: rev_swap)
qed

lemma dropWhile_hd_False: "dropWhile P xs = [] \<or> \<not> P (hd (dropWhile P xs))"
  by (induction xs) auto

lemma trim_end_matches_last: "trim_end_matches c s = [] \<or> last (trim_end_matches c s) \<noteq> c"
  using dropWhile_hd_False [of "\<lambda>x. x = c" "rev s"]
  by (auto simp: trim_end_matches_def last_rev)

lemma trim_end_matches_id: "s = [] \<or> last s \<noteq> c \<Longrightarrow> trim_end_matches c s = s"
  by (cases s rule: rev_cases) (auto simp: trim_end_matches_def)

section \<open>Decimal numbers\<close>

definition digit_val :: "char \<Rightarrow> nat option" where
  "digit_val c = (let n = (of_char c :: nat) in
     if 48 \<le> n \<and> n \<le> 57 then Some (n - 48) else None)"

fun digits_val :: "nat \<Rightarrow> string \<Rightarrow> nat option" where
  "digits_val acc [] = Some acc"
| "digits_val acc (c # cs) =
     (case digit_val c of None \<Rightarrow> None | Some d \<Rightarrow> digits_val (10 * acc + d) cs)"

text \<open>\<open>str::parse\<close> at the unsigned type with largest value \<open>M\<close>: one leading \<open>+\<close> is accepted.\<close>

definition parse_uint :: "nat \<Rightarrow> string \<Rightarrow> nat option" where
  "parse_uint M s =
     (let ds = (case s of c # cs \<Rightarrow> if c = CHR ''+'' then cs else s | [] \<Rightarrow> [])
      in if ds = [] then None
         else (case digits_val 0 ds of None \<Rightarrow> None | Some n \<Rightarrow> if n \<le> M then Some n else None))"

definition digit_char :: "nat \<Rightarrow> char" where
  "digit_char d = char_of (48 + d)"

lemma digit_chars [str_simps]:
  "digit_char 0 = CHR ''0''" "digit_char 1 = CHR ''1''" "digit_char 2 = CHR ''2''"
  "digit_char 3 = CHR ''3''" "digit_char 4 = CHR ''4''" "digit_char 5 = CHR ''5''"
  "digit_char 6 = CHR ''6''" "digit_char 7 = CHR ''7''" "digit_char 8 = CHR ''8''"
  "digit_char 9 = CHR ''9''" "digit_char (Suc 0) = CHR ''1''"
  by code_simp+

fun show_nat :: "nat \<Rightarrow> string" where
  "show_nat n = (if n < 10 then [digit_char n] else show_nat (n div 10) @ [digit_char (n mod 10)])"

declare show_nat.simps [simp del]

text \<open>\<open>{:02}\<close>.\<close>

definition show_pad2 :: "nat \<Rightarrow> string" where
  "show_pad2 n = (if n < 10 then CHR ''0'' # show_nat n else show_nat n)"

lemma of_digit_char: "d < 10 \<Longrightarrow> (of_char (digit_char d) :: nat) = 48 + d"
  by (simp add: digit_char_def of_char_of)

lemma digit_val_digit_char [simp]: "d < 10 \<Longrightarrow> digit_val (digit_char d) = Some d"
  by (simp add: digit_val_def of_digit_char)

lemma digits_val_append:
  "digits_val acc (xs @ ys) = (case digits_val acc xs of None \<Rightarrow> None | Some n \<Rightarrow> digits_val n ys)"
  by (induction xs arbitrary: acc) (auto split: option.splits)

lemma digits_val_show_nat: "digits_val 0 (show_nat n) = Some n"
proof (induction n rule: show_nat.induct)
  case (1 n)
  show ?case
  proof (cases "n < 10")
    case True
    then show ?thesis by (simp add: show_nat.simps [of n])
  next
    case False
    with 1 show ?thesis by (simp add: show_nat.simps [of n] digits_val_append)
  qed
qed

lemma show_nat_nonempty [simp]: "show_nat n \<noteq> []"
  by (simp add: show_nat.simps [of n])

lemma show_nat_digits: "c \<in> set (show_nat n) \<Longrightarrow> \<exists>d<10. c = digit_char d"
proof (induction n rule: show_nat.induct)
  case (1 n)
  then show ?case
    by (cases "n < 10") (auto simp: show_nat.simps [of n] intro: exI [of _ "n mod 10"])
qed

lemma digit_char_range: "d < 10 \<Longrightarrow> 48 \<le> (of_char (digit_char d) :: nat) \<and> of_char (digit_char d) \<le> (57 :: nat)"
  by (simp add: of_digit_char)

lemma digit_char_neq: "d < 10 \<Longrightarrow> (of_char c :: nat) < 48 \<or> 57 < (of_char c :: nat) \<Longrightarrow> digit_char d \<noteq> c"
  using digit_char_range by fastforce

lemma show_nat_not_in: "(of_char c :: nat) < 48 \<or> 57 < (of_char c :: nat) \<Longrightarrow> c \<notin> set (show_nat n)"
  using show_nat_digits digit_char_neq by metis

lemma ws_byte_code: "ws_byte c \<Longrightarrow> (of_char c :: nat) \<le> 32 \<or> 128 \<le> (of_char c :: nat)"
  by (auto simp: ws_byte_def)

lemma digit_char_not_ws: "d < 10 \<Longrightarrow> \<not> ws_byte (digit_char d)"
  using ws_byte_code digit_char_range by fastforce

lemma show_nat_not_ws: "c \<in> set (show_nat n) \<Longrightarrow> \<not> ws_byte c"
  using show_nat_digits digit_char_not_ws by blast

lemma parse_uint_digits:
  "ds \<noteq> [] \<Longrightarrow> hd ds \<noteq> CHR ''+'' \<Longrightarrow> digits_val 0 ds = Some n \<Longrightarrow> n \<le> M \<Longrightarrow> parse_uint M ds = Some n"
  by (cases ds) (auto simp: parse_uint_def)

lemma show_nat_hd: "hd (show_nat n) \<noteq> CHR ''+''"
  using show_nat_not_in [of "CHR ''+''" n] hd_in_set [OF show_nat_nonempty, of n]
  by (intro notI) simp

lemma parse_uint_show_nat: "n \<le> M \<Longrightarrow> parse_uint M (show_nat n) = Some n"
  by (rule parse_uint_digits) (simp_all add: show_nat_hd digits_val_show_nat)

lemma parse_uint_show_pad2: "n \<le> M \<Longrightarrow> parse_uint M (show_pad2 n) = Some n"
proof (cases "n < 10")
  case True
  assume "n \<le> M"
  have "digits_val 0 (CHR ''0'' # show_nat n) = Some n"
    using digits_val_show_nat [of n] by (simp add: digit_val_def)
  with True \<open>n \<le> M\<close> show ?thesis
    by (simp add: show_pad2_def parse_uint_digits)
next
  case False
  assume "n \<le> M"
  with False show ?thesis by (simp add: show_pad2_def parse_uint_show_nat)
qed

lemma show_pad2_chars:
  "c \<in> set (show_pad2 n) \<Longrightarrow> 48 \<le> (of_char c :: nat) \<and> (of_char c :: nat) \<le> 57"
proof -
  assume "c \<in> set (show_pad2 n)"
  then have "c = CHR ''0'' \<or> c \<in> set (show_nat n)"
    by (auto simp: show_pad2_def split: if_splits)
  then show ?thesis using show_nat_digits [of c n] digit_char_range by auto
qed

lemma parse_uint_bound: "parse_uint M s = Some n \<Longrightarrow> n \<le> M"
  by (auto simp: parse_uint_def Let_def split: if_splits option.splits list.splits)

section \<open>Bounded queues\<close>

text \<open>\<open>push_capped\<close> of \<open>peer_stats.rs\<close> (and \<open>push_ring\<close> of \<open>gpu_history.rs\<close>): the oldest entry
  leaves when the buffer is full. The list is the \<open>VecDeque\<close> from front to back.\<close>

definition push_capped :: "'a list \<Rightarrow> nat \<Rightarrow> 'a \<Rightarrow> 'a list" where
  "push_capped buf cap item =
     (let buf = (if length buf \<ge> cap then tl buf else buf) in buf @ [item])"

locale ring_buffer =
  fixes push :: "'b \<Rightarrow> 'a \<Rightarrow> 'b" and contents :: "'b \<Rightarrow> 'a list" and cap :: nat
  assumes cap_pos: "0 < cap"
    and push_contents: "length (contents b) \<le> cap \<Longrightarrow>
      contents (push b x) = drop (Suc (length (contents b)) - cap) (contents b @ [x])"
begin

lemma push_length: "length (contents b) \<le> cap \<Longrightarrow> length (contents (push b x)) \<le> cap"
  by (simp add: push_contents)

lemma push_last: "length (contents b) \<le> cap \<Longrightarrow> last (contents (push b x)) = x"
  using cap_pos by (simp add: push_contents)

text \<open>After any number of pushes the buffer holds exactly the latest \<open>cap\<close> items, in order.\<close>

lemma push_all:
  assumes "length (contents b) \<le> cap"
  shows "contents (foldl push b xs) =
      drop (length (contents b @ xs) - cap) (contents b @ xs)"
  using assms
proof (induction xs arbitrary: b)
  case (Cons x xs)
  let ?c = "contents b"
  have "contents (foldl push b (x # xs)) = contents (foldl push (push b x) xs)" by simp
  also have "\<dots> = drop (length (contents (push b x) @ xs) - cap) (contents (push b x) @ xs)"
    by (rule Cons.IH) (rule push_length [OF Cons.prems])
  also have "contents (push b x) @ xs = drop (Suc (length ?c) - cap) (?c @ x # xs)"
    using Cons.prems cap_pos by (cases "length ?c = cap") (simp_all add: push_contents Suc_diff_le)
  also have "drop (length (drop (Suc (length ?c) - cap) (?c @ x # xs)) - cap)
      (drop (Suc (length ?c) - cap) (?c @ x # xs))
    = drop (length (?c @ x # xs) - cap) (?c @ x # xs)"
    using Cons.prems by (cases "length ?c = cap") (simp_all del: drop_append add: Suc_diff_le)
  finally show ?case .
qed simp

end

lemma push_capped_contents:
  "0 < cap \<Longrightarrow> length b \<le> cap \<Longrightarrow>
   push_capped b cap x = drop (Suc (length b) - cap) (b @ [x])"
  by (cases "length b = cap") (auto simp: push_capped_def Let_def drop_Suc Suc_diff_le)

lemma push_capped_length [simp]: "0 < cap \<Longrightarrow> length b \<le> cap \<Longrightarrow> length (push_capped b cap x) \<le> cap"
  by (simp add: push_capped_contents)

lemma set_push_capped: "set (push_capped b cap x) \<subseteq> insert x (set b)"
  by (cases b) (auto simp: push_capped_def Let_def)

end
