(* ===== verification/Lobby_Url.thy ===== *)
theory Lobby_Url
  imports Rust_Str
begin

text \<open>
  \<open>peer/src/lobby_url.rs\<close>: how a lobby host string becomes a host, a port and a TLS decision, and
  the base URLs built from it. The value of the environment variable \<open>MTRXAI_LOBBY_TLS\<close> is the
  argument \<open>tls_var\<close>; a panic (the slice \<open>..=end\<close> of an unterminated \<open>[\<close>) is \<open>None\<close>.
\<close>

record parsed_lobby_host =
  host_port :: string
  tls :: bool

definition lobby_tls_env :: "string option \<Rightarrow> bool" where
  "lobby_tls_env tls_var =
     unwrap_or (map_option (\<lambda>v. v = ''1'' \<or> eq_ignore_ascii_case v ''true'') tls_var) False"

definition host_uses_tls_by_default :: "string \<Rightarrow> bool" where
  "host_uses_tls_by_default host =
     (eq_ignore_ascii_case host ''mtrxai.net''
      \<or> suffix ''.mtrxai.net'' (to_ascii_lowercase host))"

text \<open>For a bracketed host, \<open>find(']')\<close> without a match gives \<open>len()\<close>, and \<open>..=len\<close> is out of
  range.\<close>

definition split_host_port :: "string \<Rightarrow> (string \<times> nat option) option" where
  "split_host_port hp =
     (if prefix ''['' hp then
        (case split_once (CHR '']'') hp of
           None \<Rightarrow> None
         | Some (inner, rest) \<Rightarrow>
             Some (inner @ '']'',
               Option.bind (strip_prefix_str '':'' rest) (parse_uint u16_max)))
      else
        (case rsplit_once (CHR '':'') hp of
           None \<Rightarrow> Some (hp, None)
         | Some (host, port) \<Rightarrow>
             (case parse_uint u16_max port of
                None \<Rightarrow> Some (hp, None)
              | Some p \<Rightarrow>
                  if contains_char (CHR '':'') host \<and> \<not> prefix ''['' host then Some (hp, None)
                  else Some (host, Some p))))"

definition strip_scheme :: "string \<Rightarrow> string \<times> bool" where
  "strip_scheme input =
     (case opt_or (strip_prefix_str ''https://'' input) (strip_prefix_str ''HTTPS://'' input) of
        Some rest \<Rightarrow> (rest, True)
      | None \<Rightarrow>
          (case opt_or (strip_prefix_str ''http://'' input) (strip_prefix_str ''HTTP://'' input) of
             Some rest \<Rightarrow> (rest, False)
           | None \<Rightarrow> (input, False)))"

definition parse_lobby_host :: "string option \<Rightarrow> string \<Rightarrow> parsed_lobby_host option" where
  "parse_lobby_host tls_var raw =
     (let (input, tls0) = strip_scheme (trim raw);
          input = trim_end_matches (CHR ''/'') input;
          tls1 = (tls0 \<or> lobby_tls_env tls_var)
      in case split_host_port input of
           None \<Rightarrow> None
         | Some (host, port) \<Rightarrow>
             (let tls2 = (tls1 \<or> host_uses_tls_by_default host);
                  port = unwrap_or port (if tls2 then 443 else 8080)
              in Some \<lparr>host_port = host @ '':'' @ show_nat port, tls = (tls2 \<or> port = 443)\<rparr>))"

definition normalize_lobby_host :: "string option \<Rightarrow> string \<Rightarrow> string option" where
  "normalize_lobby_host tls_var raw = map_option host_port (parse_lobby_host tls_var raw)"

definition lobby_http_base :: "string option \<Rightarrow> string \<Rightarrow> string option" where
  "lobby_http_base tls_var hp =
     map_option (\<lambda>p. (if tls p then ''https'' else ''http'') @ ''://'' @ host_port p)
       (parse_lobby_host tls_var hp)"

definition lobby_ws_base :: "string option \<Rightarrow> string \<Rightarrow> string option" where
  "lobby_ws_base tls_var hp =
     map_option (\<lambda>p. (if tls p then ''wss'' else ''ws'') @ ''://'' @ host_port p)
       (parse_lobby_host tls_var hp)"

definition lobby_api_url :: "string option \<Rightarrow> string \<Rightarrow> string \<Rightarrow> string option" where
  "lobby_api_url tls_var hp path =
     (let path = (if prefix ''/'' path then path else ''/'' @ path)
      in map_option (\<lambda>base. base @ path) (lobby_http_base tls_var hp))"

definition ollama_http_timeout_secs :: "string option \<Rightarrow> nat" where
  "ollama_http_timeout_secs timeout_var = unwrap_or (Option.bind timeout_var (parse_uint u64_max)) 3600"

section \<open>Plain hosts\<close>

text \<open>A host name or IPv4 address as the configuration holds it: no colon, slash, bracket or
  space byte.\<close>

definition plain_host :: "string \<Rightarrow> bool" where
  "plain_host h \<longleftrightarrow> h \<noteq> [] \<and> CHR '':'' \<notin> set h \<and> CHR ''/'' \<notin> set h \<and> CHR ''['' \<notin> set h
     \<and> (\<forall>c\<in>set h. \<not> ws_byte c)"

lemma show_nat_last: "last (show_nat n) \<noteq> CHR ''/''" "\<not> ws_byte (last (show_nat n))"
proof -
  have l: "last (show_nat n) \<in> set (show_nat n)" by simp
  then show "\<not> ws_byte (last (show_nat n))" by (rule show_nat_not_ws)
  show "last (show_nat n) \<noteq> CHR ''/''" using l show_nat_not_in [of "CHR ''/''" n] by force
qed

lemma no_slash_scheme: "CHR ''/'' \<notin> set s \<Longrightarrow> strip_scheme s = (s, False)"
  by (auto simp: strip_scheme_def strip_prefix_str_def prefix_def)

lemma split_plain_host_port:
  assumes h: "plain_host h" and p: "p \<le> u16_max"
  shows "split_host_port (h @ CHR '':'' # show_nat p) = Some (h, Some p)"
proof -
  let ?s = "h @ CHR '':'' # show_nat p"
  have "rsplit_once (CHR '':'') ?s = Some (h, show_nat p)"
    by (rule rsplit_once_append) (simp add: show_nat_not_in)
  moreover have "\<not> prefix ''['' ?s" using h by (cases h) (auto simp: plain_host_def)
  ultimately show ?thesis
    using h p by (auto simp: split_host_port_def parse_uint_show_nat contains_char_def plain_host_def)
qed

lemma parse_plain_host_port:
  assumes h: "plain_host h" and p: "p \<le> u16_max"
  shows "parse_lobby_host tls_var (h @ '':'' @ show_nat p) =
    Some \<lparr>host_port = h @ '':'' @ show_nat p,
          tls = (lobby_tls_env tls_var \<or> host_uses_tls_by_default h \<or> p = 443)\<rparr>"
proof -
  let ?s = "h @ CHR '':'' # show_nat p"
  have "trim ?s = ?s"
    by (rule trim_id) (use h in \<open>auto simp: plain_host_def show_nat_last hd_append\<close>)
  moreover have "strip_scheme ?s = (?s, False)"
    by (rule no_slash_scheme) (use h in \<open>auto simp: plain_host_def show_nat_not_in\<close>)
  moreover have "trim_end_matches (CHR ''/'') ?s = ?s"
    by (rule trim_end_matches_id) (simp add: show_nat_last)
  moreover have "split_host_port ?s = Some (h, Some p)"
    by (rule split_plain_host_port [OF h p])
  ultimately show ?thesis by (simp add: parse_lobby_host_def Let_def disj_ac)
qed

lemma parse_https_plain:
  assumes h: "plain_host h" and p: "p \<le> u16_max"
  shows "parse_lobby_host tls_var (''https://'' @ h @ '':'' @ show_nat p) =
    Some \<lparr>host_port = h @ '':'' @ show_nat p, tls = True\<rparr>"
proof -
  let ?s = "h @ CHR '':'' # show_nat p"
  have "trim (''https://'' @ ?s) = ''https://'' @ ?s"
    by (rule trim_id) (auto simp: show_nat_last, auto simp: ws_byte_def)
  moreover have "strip_scheme (''https://'' @ ?s) = (?s, True)"
    by (simp add: strip_scheme_def strip_prefix_str_def)
  moreover have "trim_end_matches (CHR ''/'') ?s = ?s"
    by (rule trim_end_matches_id) (simp add: show_nat_last)
  moreover have "split_host_port ?s = Some (h, Some p)"
    by (rule split_plain_host_port [OF h p])
  ultimately show ?thesis by (simp add: parse_lobby_host_def Let_def)
qed

section \<open>Properties\<close>

text \<open>A \<open>host:port\<close> string with a plain host and a valid port is a fixed point of
  \<open>normalize_lobby_host\<close>, and its URL scheme is https exactly for port 443, an
  \<open>mtrxai.net\<close> host or the environment override.\<close>

theorem lobby_host_normal_form:
  assumes "plain_host h" and "p \<le> u16_max"
  shows "normalize_lobby_host tls_var (h @ '':'' @ show_nat p) = Some (h @ '':'' @ show_nat p)
    \<and> lobby_http_base tls_var (h @ '':'' @ show_nat p) =
        Some ((if lobby_tls_env tls_var \<or> host_uses_tls_by_default h \<or> p = 443
               then ''https'' else ''http'') @ ''://'' @ h @ '':'' @ show_nat p)"
  by (simp only: normalize_lobby_host_def lobby_http_base_def parse_plain_host_port [OF assms]
      option.map parsed_lobby_host.simps)

theorem lobby_host_normal_form_witness:
  "normalize_lobby_host None (''lobby'' @ '':'' @ show_nat 8080) = Some (''lobby'' @ '':'' @ show_nat 8080)"
  using lobby_host_normal_form [of "''lobby''" 8080 None]
  by (simp add: plain_host_def u16_max_def ws_byte_def)

text \<open>An explicit \<open>https://\<close> scheme on a port other than 443 survives one parse but not the
  normalisation that \<open>load_client_config\<close> and \<open>apply_cli_overrides\<close> store: for a host outside
  \<open>mtrxai.net\<close> and without the environment override, the normalised host is contacted over plain
  http.\<close>

theorem lobby_normalize_forgets_https:
  assumes "plain_host h" and "p \<le> u16_max" and "p \<noteq> 443"
    and "\<not> lobby_tls_env tls_var" and "\<not> host_uses_tls_by_default h"
  shows "map_option tls (parse_lobby_host tls_var (''https://'' @ h @ '':'' @ show_nat p)) = Some True
    \<and> Option.bind (normalize_lobby_host tls_var (''https://'' @ h @ '':'' @ show_nat p))
        (lobby_http_base tls_var) = Some (''http://'' @ h @ '':'' @ show_nat p)"
proof -
  have "normalize_lobby_host tls_var (''https://'' @ h @ '':'' @ show_nat p)
      = Some (h @ '':'' @ show_nat p)"
    by (simp only: normalize_lobby_host_def parse_https_plain [OF assms(1,2)]
        option.map parsed_lobby_host.simps)
  then show ?thesis
    using assms(3-) parse_https_plain [OF assms(1,2), of tls_var]
      parse_plain_host_port [OF assms(1,2), of tls_var]
    by (simp add: lobby_http_base_def)
qed

theorem lobby_normalize_forgets_https_witness:
  "Option.bind (normalize_lobby_host None (''https://'' @ ''lobby'' @ '':'' @ show_nat 8443))
     (lobby_http_base None) = Some (''http://'' @ ''lobby'' @ '':'' @ show_nat 8443)"
  using lobby_normalize_forgets_https [of "''lobby''" 8443 None]
  by (simp add: plain_host_def u16_max_def ws_byte_def lobby_tls_env_def host_uses_tls_by_default_def
      eq_ignore_ascii_case_def to_ascii_lowercase_def ascii_lower_def suffix_def)

text \<open>A host string with an unbracketed colon (a bare IPv6 address) gets a port appended by
  every normalisation, so it never reaches a fixed point.\<close>

theorem lobby_colon_host_grows:
  assumes "CHR '':'' \<in> set h" and "CHR ''['' \<notin> set h" and "CHR ''/'' \<notin> set h"
    and "\<forall>c\<in>set h. \<not> ws_byte c"
    and "\<not> lobby_tls_env tls_var"
    and "\<not> host_uses_tls_by_default (h @ '':8080'')"
  shows "normalize_lobby_host tls_var (h @ '':8080'') = Some (h @ '':8080:8080'')"
proof -
  have sn: "show_nat 8080 = ''8080''" by (simp add: show_nat.simps str_simps)
  let ?s = "h @ CHR '':'' # show_nat 8080"
  have "trim ?s = ?s"
    by (rule trim_id) (use assms in \<open>auto simp: show_nat_last hd_append\<close>)
  moreover have "strip_scheme ?s = (?s, False)"
    using assms(3) by (intro no_slash_scheme) (auto simp: sn)
  moreover have "trim_end_matches (CHR ''/'') ?s = ?s"
    by (rule trim_end_matches_id) (simp add: show_nat_last)
  moreover have "split_host_port ?s = Some (?s, None)"
  proof -
    have "rsplit_once (CHR '':'') ?s = Some (h, show_nat 8080)"
      by (rule rsplit_once_append) (simp add: show_nat_not_in)
    moreover have "\<not> prefix ''['' ?s" "\<not> prefix ''['' h" using assms(1,2) by (cases h; auto)+
    ultimately show ?thesis
      using assms(1) by (auto simp: split_host_port_def parse_uint_show_nat contains_char_def u16_max_def)
  qed
  ultimately show ?thesis
    using assms(5,6) by (simp add: normalize_lobby_host_def parse_lobby_host_def Let_def sn)
qed

theorem lobby_colon_host_grows_witness:
  "normalize_lobby_host None ('':'' @ '':1'' @ '':8080'') = Some (''::1'' @ '':8080:8080'')"
  using lobby_colon_host_grows [of "''::1''" None]
  by (simp add: ws_byte_def lobby_tls_env_def host_uses_tls_by_default_def
      eq_ignore_ascii_case_def to_ascii_lowercase_def ascii_lower_def suffix_def)

text \<open>An unterminated bracketed host makes the host splitter slice out of range, so parsing
  panics; with the closing bracket it returns.\<close>

theorem lobby_bracket_panic:
  "split_host_port (''['' @ s) = None \<longleftrightarrow> CHR '']'' \<notin> set s"
  using split_once_None [of "CHR '']''" "''['' @ s"]
  by (auto simp: split_host_port_def split: option.splits)

end
