(* ===== verification/Client_Config.thy ===== *)
theory Client_Config
  imports Lobby_Url
begin

text \<open>
  \<open>peer/src/client_config.rs\<close>: the persisted configuration of the peer and its pure operations.
  The records keep the fields of the structs in their order, prefixed by the struct
  (\<open>cm_\<close> ClusterMembership, \<open>sm_\<close> SwarmMembership, \<open>se_\<close> LlmServerEntry, \<open>cfg_\<close> ClientConfig).
  The process environment is an argument \<open>env\<close> (\<open>std::env::var(k).ok()\<close>), a fresh
  \<open>Uuid::new_v4()\<close> an argument. The locale \<open>network_membership\<close> is what the scheduler, the
  pause/connect actions and the managers need of a membership; clusters and swarms both provide it.
\<close>

section \<open>Memberships\<close>

datatype network_mode = Cluster | Swarm | Both

record cluster_membership =
  cm_cluster_id :: string
  cm_name :: "string option"
  cm_visibility :: "string option"
  cm_accepting_jobs :: "bool option"
  cm_connected :: "bool option"
  cm_room_secret :: "string option"
  cm_cluster_password :: "string option"
  cm_require_e2ee :: "bool option"
  cm_require_tee :: "bool option"
  cm_required_attestation_flags :: "nat option"
  cm_schedule_enabled :: "bool option"
  cm_schedule_start :: "string option"
  cm_schedule_end :: "string option"

definition cluster_accepts_jobs :: "cluster_membership \<Rightarrow> bool" where
  "cluster_accepts_jobs c = unwrap_or (cm_accepting_jobs c) True"

definition cluster_is_connected :: "cluster_membership \<Rightarrow> bool" where
  "cluster_is_connected c = unwrap_or (cm_connected c) True"

record swarm_membership =
  sm_swarm_id :: string
  sm_name :: "string option"
  sm_p2p_token :: string
  sm_bootnodes :: "string list"
  sm_accepting_jobs :: "bool option"
  sm_connected :: "bool option"
  sm_require_e2ee :: "bool option"
  sm_require_tee :: "bool option"
  sm_required_attestation_flags :: "nat option"
  sm_schedule_enabled :: "bool option"
  sm_schedule_start :: "string option"
  sm_schedule_end :: "string option"

definition swarm_accepts_jobs :: "swarm_membership \<Rightarrow> bool" where
  "swarm_accepts_jobs s = unwrap_or (sm_accepting_jobs s) True"

definition swarm_is_connected :: "swarm_membership \<Rightarrow> bool" where
  "swarm_is_connected s = unwrap_or (sm_connected s) True"

definition parse_network_mode :: "string \<Rightarrow> network_mode" where
  "parse_network_mode raw =
     (let v = to_ascii_lowercase (trim raw)
      in if v = ''swarm'' then Swarm else if v = ''both'' then Both else Cluster)"

type_synonym environment = "string \<Rightarrow> string option"

definition network_mode_from_env :: "environment \<Rightarrow> network_mode" where
  "network_mode_from_env env =
     unwrap_or (map_option parse_network_mode (env ''MTRXAI_P2P_MODE'')) Cluster"

definition default_bootnodes_from_env :: "environment \<Rightarrow> string list" where
  "default_bootnodes_from_env env =
     unwrap_or
       (map_option (\<lambda>s. filter (\<lambda>p. p \<noteq> []) (map trim (split_char (CHR '','') s)))
         (env ''MTRXAI_BOOTNODES'')) []"

text \<open>\<open>fetched\<close> is the answer of the lobby's bootnode endpoint.\<close>

definition resolve_swarm_bootnodes :: "environment \<Rightarrow> string list \<Rightarrow> swarm_membership \<Rightarrow> string list" where
  "resolve_swarm_bootnodes env fetched m =
     (if sm_bootnodes m \<noteq> [] then sm_bootnodes m
      else let from_env = default_bootnodes_from_env env
           in if from_env \<noteq> [] then from_env else fetched)"

section \<open>Model servers\<close>

record custom_model_entry =
  cme_id :: string
  cme_name :: "string option"
  cme_url :: "string option"
  cme_tool_calling :: "bool option"
  cme_vision :: "bool option"
  cme_max_input_tokens :: "nat option"
  cme_max_output_tokens :: "nat option"

definition display_name :: "custom_model_entry \<Rightarrow> string" where
  "display_name m = unwrap_or (opt_filter (\<lambda>s. s \<noteq> []) (cme_name m)) (cme_id m)"

record llm_server_entry =
  se_id :: string
  se_kind :: string
  se_url :: string
  se_label :: "string option"
  se_attached :: bool
  se_order :: nat
  se_source :: string
  se_api_type :: "string option"
  se_models :: "custom_model_entry list"
  se_advertise_to_cluster :: bool

text \<open>\<open>to_lowercase\<close> against an ASCII name without the letter k: only ASCII letters can reach it,
  so the ASCII lower case decides.\<close>

definition is_custom_server_kind :: "string \<Rightarrow> bool" where
  "is_custom_server_kind kind =
     (to_ascii_lowercase kind \<in> set [''custom'', ''customendpoint''])"

definition is_inference_cell_kind :: "string \<Rightarrow> bool" where
  "is_inference_cell_kind kind =
     (to_ascii_lowercase kind \<in> set [''inference-cell'', ''inference_cell''])"

datatype entry_error = NoModels | EmptyModelId | UnsupportedApiType string

definition validate_custom_server_entry :: "llm_server_entry \<Rightarrow> entry_error + unit" where
  "validate_custom_server_entry e =
     (if \<not> is_custom_server_kind (se_kind e) then Inr ()
      else if se_models e = [] then Inl NoModels
      else if \<exists>m\<in>set (se_models e). trim (cme_id m) = [] then Inl EmptyModelId
      else (case se_api_type e of
              None \<Rightarrow> Inr ()
            | Some t \<Rightarrow> if t \<noteq> [] \<and> t \<noteq> ''chat-completions'' then Inl (UnsupportedApiType t)
                        else Inr ()))"

definition normalize_backend_label :: "string \<Rightarrow> string" where
  "normalize_backend_label s =
     (if is_custom_server_kind s then ''custom''
      else let l = to_ascii_lowercase s
      in if l = ''vllm'' then ''vllm''
      else if l \<in> set [''llamacpp'', ''llama.cpp''] then ''llamacpp''
      else if l \<in> set [''inference-cell'', ''inference_cell''] then ''inference-cell''
      else if l \<in> set [''lmstudio'', ''lm-studio''] then ''lmstudio''
      else if l = ''localai'' then ''localai''
      else if l = ''tgi'' then ''tgi''
      else if l \<in> set [''tensorrt'', ''tensorrt-llm''] then ''tensorrt''
      else if l = ''openai'' then ''openai''
      else ''ollama'')"

section \<open>The configuration\<close>

record client_config =
  cfg_peer_id :: "string option"
  cfg_service_id :: "string option"
  cfg_service_name :: "string option"
  cfg_clusters :: "cluster_membership list"
  cfg_swarms :: "swarm_membership list"
  cfg_p2p_mode :: network_mode
  cfg_cluster :: "string option"
  cfg_lobby_host :: string
  cfg_setup_complete :: bool
  cfg_llm_backend :: "string option"
  cfg_llm_url :: "string option"
  cfg_llm_servers :: "llm_server_entry list"
  cfg_hidden_models :: "string list"
  cfg_auto_approve_run_model_request :: bool
  cfg_auto_approve_inference_connections :: bool
  cfg_allow_unattested_peers :: bool
  cfg_ollama_tls_insecure :: bool
  cfg_default_num_predict :: "nat option"
  cfg_default_num_ctx :: "nat option"
  cfg_proxy_token :: "string option"
  cfg_require_tee_for_inference :: "bool option"
  cfg_gpu_cc_mode :: "bool option"
  cfg_default_schedule_enabled :: "bool option"
  cfg_default_schedule_start :: "string option"
  cfg_default_schedule_end :: "string option"
  cfg_gpu_thermal_guard_enabled :: "bool option"
  cfg_gpu_thermal_threshold_c :: "nat option"
  cfg_gpu_thermal_duration_secs :: "nat option"
  cfg_gpu_thermal_cooldown_c :: "nat option"
  cfg_gpu_thermal_auto_resume :: "bool option"

record gpu_thermal_settings =
  gts_enabled :: bool
  gts_threshold_c :: nat
  gts_duration_secs :: nat
  gts_cooldown_c :: nat
  gts_auto_resume :: bool

definition effective_gpu_thermal_settings :: "client_config \<Rightarrow> gpu_thermal_settings" where
  "effective_gpu_thermal_settings cfg =
     \<lparr>gts_enabled = unwrap_or (cfg_gpu_thermal_guard_enabled cfg) True,
      gts_threshold_c = unwrap_or (cfg_gpu_thermal_threshold_c cfg) 85,
      gts_duration_secs = unwrap_or (cfg_gpu_thermal_duration_secs cfg) 60,
      gts_cooldown_c = unwrap_or (cfg_gpu_thermal_cooldown_c cfg) 75,
      gts_auto_resume = unwrap_or (cfg_gpu_thermal_auto_resume cfg) True\<rparr>"

definition default_lobby_host :: string where
  "default_lobby_host = ''127.0.0.1:8080''"

definition default_client_config :: client_config where
  "default_client_config =
     \<lparr>cfg_peer_id = None, cfg_service_id = None, cfg_service_name = None,
      cfg_clusters = [], cfg_swarms = [], cfg_p2p_mode = Cluster, cfg_cluster = None,
      cfg_lobby_host = default_lobby_host, cfg_setup_complete = False,
      cfg_llm_backend = None, cfg_llm_url = None, cfg_llm_servers = [], cfg_hidden_models = [],
      cfg_auto_approve_run_model_request = False, cfg_auto_approve_inference_connections = True,
      cfg_allow_unattested_peers = False, cfg_ollama_tls_insecure = True,
      cfg_default_num_predict = None, cfg_default_num_ctx = None, cfg_proxy_token = None,
      cfg_require_tee_for_inference = None, cfg_gpu_cc_mode = None,
      cfg_default_schedule_enabled = None, cfg_default_schedule_start = None,
      cfg_default_schedule_end = None, cfg_gpu_thermal_guard_enabled = None,
      cfg_gpu_thermal_threshold_c = None, cfg_gpu_thermal_duration_secs = None,
      cfg_gpu_thermal_cooldown_c = None, cfg_gpu_thermal_auto_resume = None\<rparr>"

definition effective_ollama_tls_insecure :: "environment \<Rightarrow> client_config \<Rightarrow> bool" where
  "effective_ollama_tls_insecure env cfg =
     (if cfg_ollama_tls_insecure cfg then True
      else (case env ''MTRXAI_OLLAMA_TLS_INSECURE'' of
              Some v \<Rightarrow> v \<in> set [''1'', ''true'', ''TRUE'', ''yes'', ''YES'']
            | None \<Rightarrow> False))"

definition env_positive :: "environment \<Rightarrow> string \<Rightarrow> nat option" where
  "env_positive env key = opt_filter (\<lambda>n. n > 0) (Option.bind (env key) (parse_uint u64_max))"

definition effective_default_num_predict :: "environment \<Rightarrow> client_config \<Rightarrow> nat option" where
  "effective_default_num_predict env cfg =
     opt_or (cfg_default_num_predict cfg) (env_positive env ''MTRXAI_DEFAULT_NUM_PREDICT'')"

definition effective_default_num_ctx :: "environment \<Rightarrow> client_config \<Rightarrow> nat option" where
  "effective_default_num_ctx env cfg =
     opt_or (cfg_default_num_ctx cfg) (env_positive env ''MTRXAI_DEFAULT_NUM_CTX'')"

definition has_attached_llm_servers :: "client_config \<Rightarrow> bool" where
  "has_attached_llm_servers cfg = list_ex se_attached (cfg_llm_servers cfg)"

section \<open>Membership operations\<close>

text \<open>What \<open>upsert_cluster\<close> and \<open>upsert_swarm\<close> copy into an entry that is already there.\<close>

definition merge_cluster :: "cluster_membership \<Rightarrow> cluster_membership \<Rightarrow> cluster_membership" where
  "merge_cluster c x =
     (let x = (if cm_name c \<noteq> None then x\<lparr>cm_name := cm_name c\<rparr> else x)
      in if cm_visibility c \<noteq> None then x\<lparr>cm_visibility := cm_visibility c\<rparr> else x)"

definition merge_swarm :: "swarm_membership \<Rightarrow> swarm_membership \<Rightarrow> swarm_membership" where
  "merge_swarm s x =
     (let x = (if sm_name s \<noteq> None then x\<lparr>sm_name := sm_name s\<rparr> else x);
          x = (if sm_p2p_token s \<noteq> [] then x\<lparr>sm_p2p_token := sm_p2p_token s\<rparr> else x)
      in if sm_bootnodes s \<noteq> [] then x\<lparr>sm_bootnodes := sm_bootnodes s\<rparr> else x)"

definition upsert_cluster :: "cluster_membership \<Rightarrow> client_config \<Rightarrow> client_config" where
  "upsert_cluster c cfg =
     (if find (\<lambda>x. cm_cluster_id x = cm_cluster_id c) (cfg_clusters cfg) \<noteq> None
      then cfg\<lparr>cfg_clusters :=
             update_first (\<lambda>x. cm_cluster_id x = cm_cluster_id c)
               (merge_cluster c) (cfg_clusters cfg)\<rparr>
      else cfg\<lparr>cfg_clusters := cfg_clusters cfg @ [c]\<rparr>)"

definition remove_cluster :: "string \<Rightarrow> client_config \<Rightarrow> client_config" where
  "remove_cluster i cfg =
     (let cs = filter (\<lambda>c. cm_cluster_id c \<noteq> i) (cfg_clusters cfg);
          cfg = cfg\<lparr>cfg_clusters := cs\<rparr>
      in if cs = [] then cfg\<lparr>cfg_cluster := None\<rparr> else cfg)"

definition find_cluster :: "client_config \<Rightarrow> string \<Rightarrow> cluster_membership option" where
  "find_cluster cfg i = find (\<lambda>c. cm_cluster_id c = i) (cfg_clusters cfg)"

record cluster_response =
  cr_cluster_id :: string
  cr_name :: "string option"
  cr_visibility :: "string option"
  cr_continent :: "string option"
  cr_require_e2ee :: "bool option"
  cr_required_attestation_flags :: "nat option"

definition membership_from_response :: "cluster_response \<Rightarrow> string option \<Rightarrow> cluster_membership" where
  "membership_from_response r room_secret =
     (let stored = unwrap_or room_secret []
      in \<lparr>cm_cluster_id = cr_cluster_id r, cm_name = cr_name r,
          cm_visibility = opt_or (cr_visibility r) (Some ''public''),
          cm_accepting_jobs = Some True, cm_connected = Some True,
          cm_room_secret = Some stored, cm_cluster_password = Some stored,
          cm_require_e2ee = cr_require_e2ee r, cm_require_tee = None,
          cm_required_attestation_flags = cr_required_attestation_flags r,
          cm_schedule_enabled = None, cm_schedule_start = None, cm_schedule_end = None\<rparr>)"

definition upsert_swarm :: "swarm_membership \<Rightarrow> client_config \<Rightarrow> client_config" where
  "upsert_swarm s cfg =
     (if find (\<lambda>x. sm_swarm_id x = sm_swarm_id s) (cfg_swarms cfg) \<noteq> None
      then cfg\<lparr>cfg_swarms :=
             update_first (\<lambda>x. sm_swarm_id x = sm_swarm_id s)
               (merge_swarm s) (cfg_swarms cfg)\<rparr>
      else cfg\<lparr>cfg_swarms := cfg_swarms cfg @ [s]\<rparr>)"

definition remove_swarm :: "string \<Rightarrow> client_config \<Rightarrow> client_config" where
  "remove_swarm i cfg = cfg\<lparr>cfg_swarms := filter (\<lambda>s. sm_swarm_id s \<noteq> i) (cfg_swarms cfg)\<rparr>"

definition find_swarm :: "client_config \<Rightarrow> string \<Rightarrow> swarm_membership option" where
  "find_swarm cfg i = find (\<lambda>s. sm_swarm_id s = i) (cfg_swarms cfg)"

definition find_swarm_by_token :: "client_config \<Rightarrow> string \<Rightarrow> swarm_membership option" where
  "find_swarm_by_token cfg token = find (\<lambda>s. sm_p2p_token s = token) (cfg_swarms cfg)"

definition ensure_p2p_mode_for_swarms :: "client_config \<Rightarrow> client_config" where
  "ensure_p2p_mode_for_swarms cfg =
     (if cfg_swarms cfg = [] then cfg
      else if cfg_p2p_mode cfg = Cluster
      then cfg\<lparr>cfg_p2p_mode := (if cfg_clusters cfg = [] then Swarm else Both)\<rparr>
      else cfg)"

text \<open>\<open>id1\<close> and \<open>id2\<close> are the two fresh UUIDs, the second drawn only when no token is given.\<close>

definition create_swarm_membership ::
  "environment \<Rightarrow> string \<Rightarrow> string \<Rightarrow> string option \<Rightarrow> string option \<Rightarrow> swarm_membership" where
  "create_swarm_membership env id1 id2 name token =
     \<lparr>sm_swarm_id = id1, sm_name = name, sm_p2p_token = unwrap_or token id2,
      sm_bootnodes = default_bootnodes_from_env env,
      sm_accepting_jobs = Some True, sm_connected = Some True,
      sm_require_e2ee = None, sm_require_tee = None, sm_required_attestation_flags = None,
      sm_schedule_enabled = None, sm_schedule_start = None, sm_schedule_end = None\<rparr>"

definition invalidate_local_peer_identity :: "client_config \<Rightarrow> client_config" where
  "invalidate_local_peer_identity cfg =
     cfg\<lparr>cfg_peer_id := None, cfg_service_id := None, cfg_service_name := None,
         cfg_setup_complete := False, cfg_clusters := [], cfg_swarms := [], cfg_cluster := None\<rparr>"

section \<open>What every network membership provides\<close>

locale network_membership =
  fixes ident :: "'m \<Rightarrow> string"
    and connected :: "'m \<Rightarrow> bool option" and set_connected :: "bool \<Rightarrow> 'm \<Rightarrow> 'm"
    and accepting :: "'m \<Rightarrow> bool option" and set_accepting :: "bool \<Rightarrow> 'm \<Rightarrow> 'm"
    and schedule :: "'m \<Rightarrow> bool option \<times> string option \<times> string option"
    and merge :: "'m \<Rightarrow> 'm \<Rightarrow> 'm"
  assumes connected_set [simp]: "connected (set_connected b m) = Some b"
    and accepting_set [simp]: "accepting (set_accepting b m) = Some b"
    and connected_frame [simp]: "accepting (set_connected b m) = accepting m"
    and accepting_frame [simp]: "connected (set_accepting b m) = connected m"
    and ident_frame [simp]: "ident (set_connected b m) = ident m" "ident (set_accepting b m) = ident m"
      "ident (merge n m) = ident m"
    and schedule_frame [simp]: "schedule (set_connected b m) = schedule m"
      "schedule (set_accepting b m) = schedule m"
    and merge_frame [simp]: "connected (merge n m) = connected m" "accepting (merge n m) = accepting m"
begin

definition upsert :: "'m \<Rightarrow> 'm list \<Rightarrow> 'm list" where
  "upsert n ms = (if find (\<lambda>x. ident x = ident n) ms \<noteq> None
     then update_first (\<lambda>x. ident x = ident n) (merge n) ms else ms @ [n])"

lemma upsert_distinct: "distinct (map ident ms) \<Longrightarrow> distinct (map ident (upsert n ms))"
  by (auto simp: upsert_def map_update_first find_None_iff image_iff)

lemma upsert_find:
  "find (\<lambda>x. ident x = i) (upsert n ms) =
     (if i = ident n
      then Some (case find (\<lambda>x. ident x = i) ms of None \<Rightarrow> n | Some m \<Rightarrow> merge n m)
      else find (\<lambda>x. ident x = i) ms)"
proof (cases "find (\<lambda>x. ident x = ident n) ms")
  case None
  then show ?thesis by (auto simp: upsert_def find_append split: option.splits)
next
  case (Some m)
  then show ?thesis
    by (auto simp: upsert_def find_update_first intro!: find_update_first_other)
qed

lemma upsert_idents: "set (map ident (upsert n ms)) = insert (ident n) (set (map ident ms))"
proof (cases "find (\<lambda>x. ident x = ident n) ms")
  case None
  then show ?thesis by (simp add: upsert_def)
next
  case (Some m)
  then have "ident n \<in> set (map ident ms)" using find_Some_prop [OF Some] by (metis image_eqI list.set_map)
  with Some show ?thesis by (simp add: upsert_def map_update_first insert_absorb del: set_map)
qed

lemma upsert_keeps_connection:
  "find (\<lambda>x. ident x = i) ms = Some m \<Longrightarrow>
   \<exists>m'. find (\<lambda>x. ident x = i) (upsert n ms) = Some m' \<and> connected m' = connected m
      \<and> accepting m' = accepting m"
  by (auto simp: upsert_find)

lemma bulk_set_connected:
  "\<forall>m\<in>set (map (set_connected b) ms). connected m = Some b"
  "map accepting (map (set_connected b) ms) = map accepting ms"
  "map ident (map (set_connected b) ms) = map ident ms"
  by auto

lemma bulk_set_accepting:
  "\<forall>m\<in>set (map (set_accepting b) ms). accepting m = Some b"
  "map connected (map (set_accepting b) ms) = map connected ms"
  "map ident (map (set_accepting b) ms) = map ident ms"
  by auto

end

definition set_cluster_connected :: "bool \<Rightarrow> cluster_membership \<Rightarrow> cluster_membership" where
  "set_cluster_connected b c = c\<lparr>cm_connected := Some b\<rparr>"

definition set_cluster_accepting :: "bool \<Rightarrow> cluster_membership \<Rightarrow> cluster_membership" where
  "set_cluster_accepting b c = c\<lparr>cm_accepting_jobs := Some b\<rparr>"

definition set_swarm_connected :: "bool \<Rightarrow> swarm_membership \<Rightarrow> swarm_membership" where
  "set_swarm_connected b s = s\<lparr>sm_connected := Some b\<rparr>"

definition set_swarm_accepting :: "bool \<Rightarrow> swarm_membership \<Rightarrow> swarm_membership" where
  "set_swarm_accepting b s = s\<lparr>sm_accepting_jobs := Some b\<rparr>"

abbreviation "cluster_schedule_fields_of c \<equiv>
  (cm_schedule_enabled c, cm_schedule_start c, cm_schedule_end c)"

abbreviation "swarm_schedule_fields_of s \<equiv>
  (sm_schedule_enabled s, sm_schedule_start s, sm_schedule_end s)"

interpretation cl: network_membership cm_cluster_id cm_connected set_cluster_connected
  cm_accepting_jobs set_cluster_accepting "\<lambda>c. cluster_schedule_fields_of c" merge_cluster
  by unfold_locales
     (auto simp: set_cluster_connected_def set_cluster_accepting_def merge_cluster_def Let_def)

interpretation sw: network_membership sm_swarm_id sm_connected set_swarm_connected
  sm_accepting_jobs set_swarm_accepting "\<lambda>s. swarm_schedule_fields_of s" merge_swarm
  by unfold_locales
     (auto simp: set_swarm_connected_def set_swarm_accepting_def merge_swarm_def Let_def)

lemma upsert_cluster_eq: "upsert_cluster c cfg = cfg\<lparr>cfg_clusters := cl.upsert c (cfg_clusters cfg)\<rparr>"
  by (simp add: upsert_cluster_def cl.upsert_def)

lemma upsert_swarm_eq: "upsert_swarm s cfg = cfg\<lparr>cfg_swarms := sw.upsert s (cfg_swarms cfg)\<rparr>"
  by (simp add: upsert_swarm_def sw.upsert_def)

lemma find_cluster_after_upsert_id: "find_cluster (upsert_cluster c cfg) (cm_cluster_id c) \<noteq> None"
  by (simp add: find_cluster_def upsert_cluster_eq cl.upsert_find)

section \<open>Properties\<close>

text \<open>The identifiers of a configuration are unique.\<close>

definition config_wf :: "client_config \<Rightarrow> bool" where
  "config_wf cfg \<longleftrightarrow> distinct (map cm_cluster_id (cfg_clusters cfg))
     \<and> distinct (map sm_swarm_id (cfg_swarms cfg))"

lemma config_wf_upsert_cluster: "config_wf cfg \<Longrightarrow> config_wf (upsert_cluster c cfg)"
  by (simp add: config_wf_def upsert_cluster_eq cl.upsert_distinct)

lemma config_wf_upsert_swarm: "config_wf cfg \<Longrightarrow> config_wf (upsert_swarm s cfg)"
  by (simp add: config_wf_def upsert_swarm_eq sw.upsert_distinct)

lemma config_wf_remove_cluster: "config_wf cfg \<Longrightarrow> config_wf (remove_cluster i cfg)"
  by (simp add: config_wf_def remove_cluster_def Let_def distinct_map_filter)

lemma config_wf_remove_swarm: "config_wf cfg \<Longrightarrow> config_wf (remove_swarm i cfg)"
  by (simp add: config_wf_def remove_swarm_def distinct_map_filter)

lemma config_wf_invalidate: "config_wf (invalidate_local_peer_identity cfg)"
  by (simp add: config_wf_def invalidate_local_peer_identity_def)

lemma config_wf_ensure: "config_wf cfg \<Longrightarrow> config_wf (ensure_p2p_mode_for_swarms cfg)"
  by (simp add: config_wf_def ensure_p2p_mode_for_swarms_def)

text \<open>The edits the API and the bootstrap make, as one step type.\<close>

datatype config_edit =
    UpsertCluster cluster_membership | RemoveCluster string
  | UpsertSwarm swarm_membership | RemoveSwarm string
  | EnsureP2p | Invalidate

fun apply_edit :: "config_edit \<Rightarrow> client_config \<Rightarrow> client_config" where
  "apply_edit (UpsertCluster c) cfg = upsert_cluster c cfg"
| "apply_edit (RemoveCluster i) cfg = remove_cluster i cfg"
| "apply_edit (UpsertSwarm s) cfg = upsert_swarm s cfg"
| "apply_edit (RemoveSwarm i) cfg = remove_swarm i cfg"
| "apply_edit EnsureP2p cfg = ensure_p2p_mode_for_swarms cfg"
| "apply_edit Invalidate cfg = invalidate_local_peer_identity cfg"

text \<open>No sequence of membership edits ever makes two clusters or two swarms share an id.\<close>

theorem config_edits_keep_ids_unique:
  "config_wf cfg \<Longrightarrow> config_wf (fold apply_edit es cfg)"
proof (induction es arbitrary: cfg)
  case (Cons e es)
  have "config_wf (apply_edit e cfg)"
    using Cons.prems
    by (cases e) (simp_all add: config_wf_upsert_cluster config_wf_upsert_swarm
        config_wf_remove_cluster config_wf_remove_swarm config_wf_invalidate config_wf_ensure)
  with Cons.IH show ?case by simp
qed simp

theorem config_edits_keep_ids_unique_witness:
  "config_wf (fold apply_edit [RemoveCluster ''c1'', Invalidate, EnsureP2p] default_client_config)"
  by (rule config_edits_keep_ids_unique) (simp add: config_wf_def default_client_config_def)

text \<open>Looking a cluster up after \<open>upsert_cluster\<close>: a new id gets exactly the given membership;
  a known id keeps its stored password, connection and pause state and only takes over the name
  and visibility (so a password changed on rejoin is not stored); other ids are untouched.\<close>

theorem find_cluster_after_upsert:
  "find_cluster (upsert_cluster c cfg) i =
     (if i = cm_cluster_id c
      then Some (case find_cluster cfg i of None \<Rightarrow> c | Some old \<Rightarrow>
             old\<lparr>cm_name := opt_or (cm_name c) (cm_name old),
                 cm_visibility := opt_or (cm_visibility c) (cm_visibility old)\<rparr>)
      else find_cluster cfg i)"
proof -
  have "merge_cluster c old =
      old\<lparr>cm_name := opt_or (cm_name c) (cm_name old),
          cm_visibility := opt_or (cm_visibility c) (cm_visibility old)\<rparr>" for old
    by (cases "cm_name c"; cases "cm_visibility c") (simp_all add: merge_cluster_def)
  then show ?thesis
    by (simp add: find_cluster_def upsert_cluster_eq cl.upsert_find split: option.split)
qed

text \<open>Removing a cluster removes that id and no other, and clears the default cluster when none
  is left.\<close>

theorem find_cluster_after_remove:
  "find_cluster (remove_cluster i cfg) j = (if j = i then None else find_cluster cfg j)
   \<and> cfg_cluster (remove_cluster i cfg) =
       (if cfg_clusters (remove_cluster i cfg) = [] then None else cfg_cluster cfg)"
proof -
  have cs: "cfg_clusters (remove_cluster i cfg) = filter (\<lambda>c. cm_cluster_id c \<noteq> i) (cfg_clusters cfg)"
    by (simp add: remove_cluster_def Let_def)
  have "find_cluster (remove_cluster i cfg) i = None"
    by (auto simp: find_cluster_def cs find_None_iff)
  moreover have "j \<noteq> i \<Longrightarrow> find_cluster (remove_cluster i cfg) j = find_cluster cfg j"
    unfolding find_cluster_def cs by (rule find_filter_other) auto
  ultimately show ?thesis by (auto simp: remove_cluster_def Let_def)
qed

end
