(* ===== verification/Client_Bootstrap.thy ===== *)
theory Client_Bootstrap
  imports Client_Config
begin

text \<open>
  The start-up half of \<open>peer/src/client_config.rs\<close> and \<open>migrate_config\<close> of
  \<open>peer/src/llm_registry.rs\<close>: loading and migrating the configuration, the identity and
  credentials from the environment, docker registration and the command-line overrides. File
  contents, JSON decoding of a configuration and the lobby's HTTP answers are arguments. A panic
  of the lobby-host parser is \<open>None\<close>.
\<close>

section \<open>Loading\<close>

text \<open>\<open>new_id\<close> is the fresh UUID of a migrated server entry.\<close>

definition migrate_config :: "string \<Rightarrow> client_config \<Rightarrow> client_config" where
  "migrate_config new_id cfg =
     (if cfg_llm_servers cfg \<noteq> [] then cfg
      else (case cfg_llm_url cfg of
              None \<Rightarrow> cfg
            | Some url \<Rightarrow>
                cfg\<lparr>cfg_llm_servers :=
                  [\<lparr>se_id = new_id,
                    se_kind = unwrap_or (map_option normalize_backend_label (cfg_llm_backend cfg)) ''ollama'',
                    se_url = url, se_label = None, se_attached = True, se_order = 0,
                    se_source = ''migration'', se_api_type = None, se_models = [],
                    se_advertise_to_cluster = True\<rparr>]\<rparr>))"

definition legacy_client_config :: "string \<times> string \<Rightarrow> client_config" where
  "legacy_client_config l =
     default_client_config
       \<lparr>cfg_peer_id := Some (fst l), cfg_service_id := Some (snd l),
        cfg_setup_complete := (snd l \<noteq> [] \<and> fst l \<noteq> []),
        cfg_llm_backend := Some ''ollama'', cfg_llm_url := Some ''http://127.0.0.1:11434''\<rparr>"

text \<open>\<open>main\<close> and \<open>legacy\<close> are the contents of the two files, when they can be read; \<open>decode\<close> and
  \<open>decode_legacy\<close> are \<open>serde_json::from_str\<close>.\<close>

definition load_client_config ::
  "environment \<Rightarrow> (string \<Rightarrow> client_config option) \<Rightarrow> (string \<Rightarrow> (string \<times> string) option)
   \<Rightarrow> string option \<Rightarrow> string option \<Rightarrow> string \<Rightarrow> client_config option" where
  "load_client_config env decode decode_legacy main legacy new_id =
     (let cfg = (case main of
                   Some content \<Rightarrow> unwrap_or (decode content) default_client_config
                 | None \<Rightarrow>
                     (case legacy of
                        Some content \<Rightarrow>
                          (case decode_legacy content of
                             Some l \<Rightarrow> legacy_client_config l
                           | None \<Rightarrow> default_client_config)
                      | None \<Rightarrow> default_client_config));
          cfg = migrate_config new_id cfg
      in map_option (\<lambda>h. cfg\<lparr>cfg_lobby_host := h\<rparr>)
           (normalize_lobby_host (env ''MTRXAI_LOBBY_TLS'') (cfg_lobby_host cfg)))"

section \<open>Environment\<close>

definition env_non_empty :: "environment \<Rightarrow> string \<Rightarrow> string option" where
  "env_non_empty env key = opt_filter (\<lambda>s. s \<noteq> []) (map_option trim (env key))"

definition apply_env_identity :: "environment \<Rightarrow> client_config \<Rightarrow> client_config" where
  "apply_env_identity env cfg =
     cfg\<lparr>cfg_peer_id := opt_or (cfg_peer_id cfg) (env_non_empty env ''MTRXAI_PEER_ID''),
         cfg_service_id := opt_or (cfg_service_id cfg) (env_non_empty env ''MTRXAI_SERVICE_ID''),
         cfg_service_name := opt_or (cfg_service_name cfg) (env_non_empty env ''MTRXAI_SERVICE_NAME'')\<rparr>"

definition env_service_credentials :: "environment \<Rightarrow> string option \<times> string option" where
  "env_service_credentials env =
     (env_non_empty env ''MTRXAI_SERVICE_NAME'', env_non_empty env ''MTRXAI_SERVICE_PASSWORD'')"

definition service_credentials_for_registration :: "environment \<Rightarrow> string option \<times> string option" where
  "service_credentials_for_registration env =
     (case env_service_credentials env of
        (Some n, Some p) \<Rightarrow> (Some n, Some p)
      | _ \<Rightarrow> (None, None))"

definition default_public_cluster_name :: "environment \<Rightarrow> client_config \<Rightarrow> string" where
  "default_public_cluster_name env cfg =
     unwrap_or
       (opt_or (opt_filter (\<lambda>s. trim s \<noteq> []) (env ''MTRXAI_CLUSTER_NAME''))
         (opt_or (opt_filter (\<lambda>s. trim s \<noteq> []) (env ''MTRXAI_ROOM_NAME''))
           (cfg_cluster cfg)))
       ''europe''"

section \<open>Registration\<close>

record register_peer_response =
  rr_peer_id :: string
  rr_service_id :: string
  rr_service_name :: string
  rr_credit_balance :: int

definition apply_register_response :: "register_peer_response \<Rightarrow> client_config \<Rightarrow> client_config" where
  "apply_register_response r cfg =
     cfg\<lparr>cfg_peer_id := Some (rr_peer_id r), cfg_service_id := Some (rr_service_id r),
         cfg_service_name := Some (rr_service_name r)\<rparr>"

definition is_invite_only_registration :: "string \<Rightarrow> bool" where
  "is_invite_only_registration mode = (mode = ''invite_only'' \<or> mode = ''invitation'')"

definition is_register_mode :: "string \<Rightarrow> bool" where
  "is_register_mode mode = (mode = ''register'')"

definition requires_credentials_registration :: "string \<Rightarrow> bool" where
  "requires_credentials_registration mode = (is_invite_only_registration mode \<or> is_register_mode mode)"

text \<open>
  The lobby's registration endpoint: peer id, service name and password to an error or a response.
  \<open>create_new_service\<close> is always false and the e-mail always absent on this path. \<open>Inr None\<close> says
  that no registration was attempted.
\<close>

type_synonym register_call =
  "string option \<Rightarrow> string option \<Rightarrow> string option \<Rightarrow> string + register_peer_response"

definition try_bootstrap_registration ::
  "environment \<Rightarrow> register_call \<Rightarrow> client_config \<Rightarrow> string option
   \<Rightarrow> string + register_peer_response option" where
  "try_bootstrap_registration env register cfg lobby_mode =
     (let (name, password) = service_credentials_for_registration env;
          has_creds = (name \<noteq> None \<and> password \<noteq> None);
          requires = unwrap_or (map_option requires_credentials_registration lobby_mode) False
      in if requires then
           if cfg_peer_id cfg \<noteq> None then
             map_sum id Some (register (cfg_peer_id cfg) name password)
           else if has_creds then map_sum id Some (register None name password)
           else Inr None
         else map_sum id Some (register (cfg_peer_id cfg) name password))"

text \<open>\<open>join\<close> is the answer of \<open>/api/clusters/join\<close>; \<open>saved\<close> says whether writing the file
  succeeded. The configuration is mutated in place, so it is returned with the error too.\<close>

definition complete_docker_bootstrap_after_registration ::
  "(string \<Rightarrow> string + cluster_response) \<Rightarrow> (client_config \<Rightarrow> bool) \<Rightarrow> client_config
   \<Rightarrow> register_peer_response \<Rightarrow> string \<Rightarrow> client_config \<times> (string + unit)" where
  "complete_docker_bootstrap_after_registration join saved cfg reg cluster_name =
     (let cfg = apply_register_response reg cfg
      in case join cluster_name of
           Inl e \<Rightarrow> (cfg, Inl e)
         | Inr resp \<Rightarrow>
             (let cfg = upsert_cluster (membership_from_response resp (Some [])) cfg;
                  cfg = cfg\<lparr>cfg_cluster := Some cluster_name\<rparr>;
                  cfg = (if cfg_llm_backend cfg = None then cfg\<lparr>cfg_llm_backend := Some ''ollama''\<rparr> else cfg);
                  cfg = cfg\<lparr>cfg_setup_complete :=
                    (cfg_peer_id cfg \<noteq> None \<and> cfg_service_id cfg \<noteq> None
                     \<and> cfg_clusters cfg \<noteq> [] \<and> has_attached_llm_servers cfg)\<rparr>
              in (cfg, if saved cfg then Inr () else Inl ''save'')))"

text \<open>The wait for the lobby: one probe per second until one succeeds; \<open>None\<close> is a wait that
  never ends. \<open>probe n\<close> is the outcome of the \<open>n\<close>-th probe.\<close>

partial_function (option) wait_for_lobby :: "(nat \<Rightarrow> bool) \<Rightarrow> nat \<Rightarrow> nat option" where
  "wait_for_lobby probe n = (if probe n then Some n else wait_for_lobby probe (Suc n))"

definition docker_bootstrap_skipped :: "environment \<Rightarrow> client_config \<Rightarrow> bool" where
  "docker_bootstrap_skipped env cfg =
     (\<not> (env ''MTRXAI_FORCE_DOCKER_ROOM'' = Some ''1'' \<or> env ''MTRXAI_FORCE_DOCKER_CLUSTER'' = Some ''1'')
      \<and> cfg_clusters cfg \<noteq> [] \<and> cfg_setup_complete cfg)"

text \<open>\<open>lobby_mode\<close> is the registration mode the lobby reports, when it answers. A failed
  registration is logged and setup is left to the web UI; a failed join is returned.\<close>

definition bootstrap_docker_peer ::
  "environment \<Rightarrow> (nat \<Rightarrow> bool) \<Rightarrow> string option \<Rightarrow> register_call
   \<Rightarrow> (string \<Rightarrow> string + cluster_response) \<Rightarrow> (client_config \<Rightarrow> bool) \<Rightarrow> client_config
   \<Rightarrow> (client_config \<times> (string + unit)) option" where
  "bootstrap_docker_peer env probe lobby_mode register join saved cfg =
     (if docker_bootstrap_skipped env cfg then Some (cfg, Inr ())
      else let cluster_name = default_public_cluster_name env cfg
      in case wait_for_lobby probe 0 of
           None \<Rightarrow> None
         | Some _ \<Rightarrow>
             (let cfg = apply_env_identity env cfg
              in Some (case try_bootstrap_registration env register cfg lobby_mode of
                   Inr (Some reg) \<Rightarrow>
                     complete_docker_bootstrap_after_registration join saved cfg reg cluster_name
                 | Inr None \<Rightarrow> (cfg, Inr ())
                 | Inl e \<Rightarrow> (cfg, Inr ()))))"

section \<open>Command line\<close>

definition cli_server :: "string \<Rightarrow> string \<Rightarrow> string \<Rightarrow> llm_server_entry" where
  "cli_server new_id kind url =
     \<lparr>se_id = new_id, se_kind = kind, se_url = url, se_label = None, se_attached = True,
      se_order = 0, se_source = ''cli'', se_api_type = None, se_models = [],
      se_advertise_to_cluster = True\<rparr>"

definition upsert_inference_cell_server :: "string \<Rightarrow> string \<Rightarrow> client_config \<Rightarrow> client_config" where
  "upsert_inference_cell_server new_id url cfg =
     (if find (\<lambda>s. is_inference_cell_kind (se_kind s)) (cfg_llm_servers cfg) \<noteq> None
      then cfg\<lparr>cfg_llm_servers :=
             update_first (\<lambda>s. is_inference_cell_kind (se_kind s))
               (\<lambda>s. s\<lparr>se_url := url, se_attached := True, se_source := ''cli''\<rparr>)
               (cfg_llm_servers cfg)\<rparr>
      else cfg\<lparr>cfg_llm_servers := cfg_llm_servers cfg @ [cli_server new_id ''inference-cell'' url]\<rparr>)"

definition set_backend_if_none :: "string \<Rightarrow> client_config \<Rightarrow> client_config" where
  "set_backend_if_none b cfg =
     (if cfg_llm_backend cfg = None then cfg\<lparr>cfg_llm_backend := Some b\<rparr> else cfg)"

definition apply_cli_overrides ::
  "environment \<Rightarrow> string \<Rightarrow> string \<Rightarrow> string option \<Rightarrow> client_config \<Rightarrow> client_config option" where
  "apply_cli_overrides env new_id lobby_host llm_host cfg =
     (case normalize_lobby_host (env ''MTRXAI_LOBBY_TLS'') lobby_host of
        None \<Rightarrow> None
      | Some h \<Rightarrow>
          (let cfg = cfg\<lparr>cfg_lobby_host := h\<rparr>;
               cfg = (if cfg_p2p_mode cfg = Cluster
                      then cfg\<lparr>cfg_p2p_mode := network_mode_from_env env\<rparr> else cfg);
               cell = opt_filter (\<lambda>u. u \<noteq> [])
                 (map_option (\<lambda>u. trim_end_matches (CHR ''/'') (trim u)) (env ''MTRXAI_INFERENCE_CELL_URL''))
           in Some (case cell of
                Some url \<Rightarrow>
                  (let cfg = upsert_inference_cell_server new_id url cfg;
                       cfg = set_backend_if_none ''inference-cell'' (cfg\<lparr>cfg_llm_url := Some url\<rparr>)
                   in if cfg_peer_id cfg \<noteq> None \<and> cfg_service_id cfg \<noteq> None
                         \<and> cfg_clusters cfg \<noteq> [] \<and> has_attached_llm_servers cfg
                      then cfg\<lparr>cfg_setup_complete := True\<rparr> else cfg)
              | None \<Rightarrow>
                  (case llm_host of
                     None \<Rightarrow> cfg
                   | Some host \<Rightarrow>
                       (let url = ''http://'' @ host;
                            cfg = (if cfg_llm_servers cfg = []
                                   then cfg\<lparr>cfg_llm_servers := [cli_server new_id ''ollama'' url]\<rparr>
                                   else cfg);
                            cfg = set_backend_if_none ''ollama'' (cfg\<lparr>cfg_llm_url := Some url\<rparr>)
                        in if cfg_peer_id cfg \<noteq> None \<and> cfg_service_id cfg \<noteq> None
                              \<and> cfg_clusters cfg \<noteq> []
                           then cfg\<lparr>cfg_setup_complete := True\<rparr> else cfg)))))"

section \<open>Properties\<close>

definition setup_ready :: "client_config \<Rightarrow> bool" where
  "setup_ready cfg \<longleftrightarrow> cfg_peer_id cfg \<noteq> None \<and> cfg_service_id cfg \<noteq> None
     \<and> cfg_clusters cfg \<noteq> [] \<and> has_attached_llm_servers cfg"

lemma upsert_cluster_frame [simp]:
  "cfg_peer_id (upsert_cluster c cfg) = cfg_peer_id cfg"
  "cfg_service_id (upsert_cluster c cfg) = cfg_service_id cfg"
  "cfg_llm_servers (upsert_cluster c cfg) = cfg_llm_servers cfg"
  "cfg_llm_backend (upsert_cluster c cfg) = cfg_llm_backend cfg"
  by (simp_all add: upsert_cluster_eq)

lemma upsert_cluster_nonempty [simp]: "cfg_clusters (upsert_cluster c cfg) \<noteq> []"
  using cl.upsert_idents [of c "cfg_clusters cfg"] by (auto simp: upsert_cluster_eq)

lemma wait_for_lobby_returns:
  assumes "probe (n + k)"
  shows "\<exists>m. wait_for_lobby probe n = Some m \<and> n \<le> m \<and> m \<le> n + k \<and> probe m"
  using assms
proof (induction k arbitrary: n)
  case 0
  then show ?case by (simp add: wait_for_lobby.simps [of probe n])
next
  case (Suc k)
  show ?case
  proof (cases "probe n")
    case False
    with Suc.IH [of "Suc n"] Suc.prems show ?thesis
      by (auto simp: wait_for_lobby.simps [of probe n] dest: Suc_leD)
  qed (simp add: wait_for_lobby.simps [of probe n])
qed

lemma membership_from_response_id [simp]:
  "cm_cluster_id (membership_from_response r x) = cr_cluster_id r"
  by (simp add: membership_from_response_def Let_def)

lemma complete_bootstrap_result:
  assumes "join name = Inr resp"
  obtains cfg3 where
    "fst (complete_docker_bootstrap_after_registration join saved cfg reg name) =
       cfg3\<lparr>cfg_setup_complete := setup_ready cfg3\<rparr>"
    "cfg_peer_id cfg3 \<noteq> None" "cfg_service_id cfg3 \<noteq> None"
    "cfg_llm_servers cfg3 = cfg_llm_servers cfg"
    "cfg_clusters cfg3 = cfg_clusters
       (upsert_cluster (membership_from_response resp (Some [])) (apply_register_response reg cfg))"
proof -
  let ?c2 = "(upsert_cluster (membership_from_response resp (Some []))
    (apply_register_response reg cfg))\<lparr>cfg_cluster := Some name\<rparr>"
  let ?c3 = "if cfg_llm_backend ?c2 = None then ?c2\<lparr>cfg_llm_backend := Some ''ollama''\<rparr> else ?c2"
  have "fst (complete_docker_bootstrap_after_registration join saved cfg reg name) =
      ?c3\<lparr>cfg_setup_complete := setup_ready ?c3\<rparr>"
    using assms
    unfolding complete_docker_bootstrap_after_registration_def setup_ready_def Let_def by simp
  then show thesis
    by (rule that) (simp_all add: apply_register_response_def)
qed

text \<open>A docker bootstrap that registers and joins leaves \<open>setup_complete\<close> true exactly when the
  peer has an attached model server, that is exactly when identity, cluster and server are all
  there; the membership it stores is found again under the id the lobby answered.\<close>

theorem docker_bootstrap_setup:
  assumes "join name = Inr resp"
    and "cfg' = fst (complete_docker_bootstrap_after_registration join saved cfg reg name)"
  shows "(cfg_setup_complete cfg' \<longleftrightarrow> has_attached_llm_servers cfg)
    \<and> (cfg_setup_complete cfg' \<longleftrightarrow> setup_ready cfg')
    \<and> find_cluster cfg' (cr_cluster_id resp) \<noteq> None"
proof -
  obtain c3 where
    c3: "cfg' = c3\<lparr>cfg_setup_complete := setup_ready c3\<rparr>"
      "cfg_peer_id c3 \<noteq> None" "cfg_service_id c3 \<noteq> None" "cfg_llm_servers c3 = cfg_llm_servers cfg"
      "cfg_clusters c3 = cfg_clusters
         (upsert_cluster (membership_from_response resp (Some [])) (apply_register_response reg cfg))"
    by (rule complete_bootstrap_result [of join name resp saved cfg reg])
       (use assms in \<open>simp_all\<close>)
  have "find_cluster (upsert_cluster (membership_from_response resp (Some []))
      (apply_register_response reg cfg)) (cr_cluster_id resp) \<noteq> None"
    using find_cluster_after_upsert_id [of "membership_from_response resp (Some [])"] by simp
  with c3 show ?thesis
    by (simp add: setup_ready_def has_attached_llm_servers_def find_cluster_def)
qed

definition sample_response :: cluster_response where
  "sample_response = \<lparr>cr_cluster_id = ''c1'', cr_name = None, cr_visibility = None,
     cr_continent = None, cr_require_e2ee = None, cr_required_attestation_flags = None\<rparr>"

definition sample_registration :: register_peer_response where
  "sample_registration = \<lparr>rr_peer_id = ''p'', rr_service_id = ''s'', rr_service_name = ''n'',
     rr_credit_balance = 0\<rparr>"

theorem docker_bootstrap_setup_witness:
  "\<not> cfg_setup_complete (fst (complete_docker_bootstrap_after_registration
       (\<lambda>_. Inr sample_response) (\<lambda>_. True) default_client_config sample_registration ''europe''))"
  using docker_bootstrap_setup [where join = "\<lambda>_. Inr sample_response" and resp = sample_response
      and saved = "\<lambda>_. True" and cfg = default_client_config and reg = sample_registration
      and name = "''europe''", OF refl refl]
  by (simp add: has_attached_llm_servers_def default_client_config_def)

text \<open>With a model host on the command line the overrides declare the setup complete although
  every configured model server is detached, so the peer is not ready to serve.\<close>

theorem cli_override_setup_without_server:
  assumes "normalize_lobby_host (env ''MTRXAI_LOBBY_TLS'') lobby = Some h"
    and "env ''MTRXAI_INFERENCE_CELL_URL'' = None"
    and "cfg_llm_servers cfg \<noteq> []" and "\<not> has_attached_llm_servers cfg"
    and "cfg_peer_id cfg \<noteq> None" and "cfg_service_id cfg \<noteq> None" and "cfg_clusters cfg \<noteq> []"
  shows "\<exists>cfg'. apply_cli_overrides env new_id lobby (Some host) cfg = Some cfg'
    \<and> cfg_setup_complete cfg' \<and> \<not> setup_ready cfg'"
  using assms
  by (auto simp: apply_cli_overrides_def Let_def set_backend_if_none_def setup_ready_def
      has_attached_llm_servers_def)

definition detached_config :: client_config where
  "detached_config = default_client_config
     \<lparr>cfg_peer_id := Some ''p'', cfg_service_id := Some ''s'',
      cfg_clusters := [membership_from_response sample_response None],
      cfg_llm_servers := [(cli_server ''x'' ''ollama'' ''u'')\<lparr>se_attached := False\<rparr>]\<rparr>"

theorem cli_override_setup_without_server_witness:
  "\<exists>cfg'. apply_cli_overrides (\<lambda>_. None) ''id'' (''lobby'' @ '':'' @ show_nat 8080) (Some ''h'') detached_config
     = Some cfg' \<and> cfg_setup_complete cfg' \<and> \<not> setup_ready cfg'"
proof (rule cli_override_setup_without_server)
  show "normalize_lobby_host None (''lobby'' @ '':'' @ show_nat 8080) = Some (''lobby'' @ '':'' @ show_nat 8080)"
    by (simp only: normalize_lobby_host_def, subst parse_plain_host_port)
       (simp_all add: plain_host_def u16_max_def ws_byte_def)
qed (simp_all add: detached_config_def default_client_config_def has_attached_llm_servers_def cli_server_def)

text \<open>The docker bootstrap returns exactly when it is skipped or some probe of the lobby
  succeeds; it never gives up in between.\<close>

theorem docker_bootstrap_returns:
  "(\<exists>r. bootstrap_docker_peer env probe mode register join saved cfg = Some r)
   \<longleftrightarrow> docker_bootstrap_skipped env cfg \<or> (\<exists>n. probe n)"
proof -
  have "(\<exists>m. wait_for_lobby probe 0 = Some m) \<longleftrightarrow> (\<exists>n. probe n)"
  proof
    assume "\<exists>m. wait_for_lobby probe 0 = Some m"
    then obtain m where m: "wait_for_lobby probe 0 = Some m" ..
    show "\<exists>n. probe n"
    proof (rule wait_for_lobby.raw_induct [where P = "\<lambda>p n m. \<exists>n. p n", OF _ m])
      fix w p n m
      assume IH: "\<And>p n m. w p n = Some m \<Longrightarrow> \<exists>n. p n"
        and eq: "(if p n then Some n else w p (Suc n)) = Some m"
      then show "\<exists>n. p n" by (cases "p n") auto
    qed
  next
    assume "\<exists>n. probe n"
    then show "\<exists>m. wait_for_lobby probe 0 = Some m"
      using wait_for_lobby_returns [of probe 0] by auto
  qed
  then show ?thesis
    by (auto simp: bootstrap_docker_peer_def Let_def split: option.splits)
qed

end
