(* ===== verification/Network_Control.thy ===== *)
theory Network_Control
  imports Client_Config
begin

text \<open>
  \<open>peer/src/network_scheduler.rs\<close> and \<open>peer/src/network_actions.rs\<close>: the daily connection windows
  and the connect/disconnect/pause-all actions. An operation that takes the configuration lock,
  writes the file and notifies the managers returns the new configuration, the notifications it
  sends and its result; \<open>saved\<close> says whether writing the file succeeded. Local time is a day
  number and a minute of the day. The membership loops are proved once, in
  \<open>network_membership\<close>.
\<close>

section \<open>Windows\<close>

record resolved_schedule =
  rs_enabled :: bool
  rs_start_mins :: nat
  rs_end_mins :: nat

datatype schedule_window = Inside | Outside

definition parse_hhmm :: "string \<Rightarrow> nat option" where
  "parse_hhmm value =
     (case split_once (CHR '':'') (trim value) of
        None \<Rightarrow> None
      | Some (h, m) \<Rightarrow>
          (case parse_uint u32_max h of
             None \<Rightarrow> None
           | Some hour \<Rightarrow>
               (case parse_uint u32_max m of
                  None \<Rightarrow> None
                | Some minute \<Rightarrow>
                    if hour > 23 \<or> minute > 59 then None else Some (hour * 60 + minute))))"

definition format_hhmm :: "nat \<Rightarrow> string" where
  "format_hhmm mins = show_pad2 (mins div 60) @ '':'' @ show_pad2 (mins mod 60)"

definition is_inside_window :: "nat \<Rightarrow> nat \<Rightarrow> nat \<Rightarrow> bool" where
  "is_inside_window start_mins end_mins now_mins =
     (if start_mins = end_mins then True
      else if start_mins < end_mins then now_mins \<ge> start_mins \<and> now_mins < end_mins
      else now_mins \<ge> start_mins \<or> now_mins < end_mins)"

definition window_state :: "nat \<Rightarrow> nat \<Rightarrow> nat \<Rightarrow> schedule_window" where
  "window_state start_mins end_mins now_mins =
     (if is_inside_window start_mins end_mins now_mins then Inside else Outside)"

definition resolve_schedule ::
  "bool option \<Rightarrow> string option \<Rightarrow> string option \<Rightarrow> bool option \<Rightarrow> string option \<Rightarrow> string option
   \<Rightarrow> resolved_schedule" where
  "resolve_schedule member_enabled member_start member_end default_enabled default_start default_end =
     (let start_raw = unwrap_or (opt_or member_start default_start) ''09:00'';
          end_raw = unwrap_or (opt_or member_end default_end) ''17:00''
      in \<lparr>rs_enabled = unwrap_or (opt_or member_enabled default_enabled) False,
          rs_start_mins = unwrap_or (parse_hhmm start_raw) (9 * 60),
          rs_end_mins = unwrap_or (parse_hhmm end_raw) (17 * 60)\<rparr>)"

definition resolve_cluster_schedule :: "client_config \<Rightarrow> cluster_membership \<Rightarrow> resolved_schedule" where
  "resolve_cluster_schedule cfg c =
     resolve_schedule (cm_schedule_enabled c) (cm_schedule_start c) (cm_schedule_end c)
       (cfg_default_schedule_enabled cfg) (cfg_default_schedule_start cfg) (cfg_default_schedule_end cfg)"

definition resolve_swarm_schedule :: "client_config \<Rightarrow> swarm_membership \<Rightarrow> resolved_schedule" where
  "resolve_swarm_schedule cfg s =
     resolve_schedule (sm_schedule_enabled s) (sm_schedule_start s) (sm_schedule_end s)
       (cfg_default_schedule_enabled cfg) (cfg_default_schedule_start cfg) (cfg_default_schedule_end cfg)"

text \<open>\<open>day\<close> is the local date as a day number since 1970-01-01. \<open>and_hms_opt\<close> refuses an hour
  above 23. The naive local time is read as UTC (\<open>and_utc\<close>).\<close>

definition next_transition_unix :: "nat \<Rightarrow> nat \<Rightarrow> resolved_schedule \<Rightarrow> nat option" where
  "next_transition_unix day now_mins schedule =
     (if \<not> rs_enabled schedule then None
      else let inside = is_inside_window (rs_start_mins schedule) (rs_end_mins schedule) now_mins;
               target_mins = (if inside then rs_end_mins schedule else rs_start_mins schedule)
      in if target_mins div 60 \<ge> 24 then None
         else let target = day * 86400 + target_mins * 60;
                  target = (if inside \<and> target_mins \<le> now_mins then target + 86400 else target);
                  target = (if \<not> inside \<and> target_mins \<le> now_mins then target + 86400 else target)
              in Some target)"

record schedule_status_fields =
  ss_schedule_enabled :: bool
  ss_schedule_start :: "string option"
  ss_schedule_end :: "string option"
  ss_schedule_next_transition_at :: "nat option"
  ss_schedule_inside_window :: bool

definition schedule_status_from_resolved ::
  "nat \<Rightarrow> nat \<Rightarrow> resolved_schedule \<Rightarrow> schedule_status_fields" where
  "schedule_status_from_resolved day now_mins sch =
     \<lparr>ss_schedule_enabled = rs_enabled sch,
      ss_schedule_start = (if rs_enabled sch then Some (format_hhmm (rs_start_mins sch)) else None),
      ss_schedule_end = (if rs_enabled sch then Some (format_hhmm (rs_end_mins sch)) else None),
      ss_schedule_next_transition_at = next_transition_unix day now_mins sch,
      ss_schedule_inside_window = is_inside_window (rs_start_mins sch) (rs_end_mins sch) now_mins\<rparr>"

definition cluster_schedule_fields ::
  "nat \<Rightarrow> nat \<Rightarrow> client_config \<Rightarrow> cluster_membership \<Rightarrow> schedule_status_fields" where
  "cluster_schedule_fields day now_mins cfg c =
     schedule_status_from_resolved day now_mins (resolve_cluster_schedule cfg c)"

definition swarm_schedule_fields ::
  "nat \<Rightarrow> nat \<Rightarrow> client_config \<Rightarrow> swarm_membership \<Rightarrow> schedule_status_fields" where
  "swarm_schedule_fields day now_mins cfg s =
     schedule_status_from_resolved day now_mins (resolve_swarm_schedule cfg s)"

section \<open>The scheduler step\<close>

datatype notification = NotifyClusters | NotifySwarms

definition schedule_update :: "resolved_schedule \<Rightarrow> nat \<Rightarrow> bool \<Rightarrow> bool option" where
  "schedule_update sch now_mins current =
     (if \<not> rs_enabled sch then None
      else let want_connected = (window_state (rs_start_mins sch) (rs_end_mins sch) now_mins = Inside)
           in if current \<noteq> want_connected then Some want_connected else None)"

definition apply_schedules ::
  "(client_config \<Rightarrow> bool) \<Rightarrow> nat \<Rightarrow> client_config \<Rightarrow> client_config \<times> notification list \<times> bool" where
  "apply_schedules saved now_mins cfg =
     (let cluster_updates = indexed_updates
            (\<lambda>c. schedule_update (resolve_cluster_schedule cfg c) now_mins (cluster_is_connected c))
            (cfg_clusters cfg);
          cfg1 = cfg\<lparr>cfg_clusters :=
            write_updates set_cluster_connected cluster_updates (cfg_clusters cfg)\<rparr>;
          swarm_updates = indexed_updates
            (\<lambda>s. schedule_update (resolve_swarm_schedule cfg1 s) now_mins (swarm_is_connected s))
            (cfg_swarms cfg1);
          cfg2 = cfg1\<lparr>cfg_swarms :=
            write_updates set_swarm_connected swarm_updates (cfg_swarms cfg1)\<rparr>;
          changed = (cluster_updates \<noteq> [] \<or> swarm_updates \<noteq> [])
      in if changed \<and> \<not> saved cfg2 then (cfg2, [], False)
         else (cfg2, if changed then [NotifyClusters, NotifySwarms] else [], changed))"

section \<open>Actions on all networks\<close>

definition network_all_disconnected :: "client_config \<Rightarrow> bool" where
  "network_all_disconnected cfg =
     (let clusters = list_all (\<lambda>c. \<not> cluster_is_connected c) (cfg_clusters cfg);
          swarms = list_all (\<lambda>s. \<not> swarm_is_connected s) (cfg_swarms cfg)
      in (cfg_clusters cfg = [] \<or> clusters) \<and> (cfg_swarms cfg = [] \<or> swarms))"

definition network_all_paused :: "client_config \<Rightarrow> bool" where
  "network_all_paused cfg =
     (let clusters = list_all (\<lambda>c. \<not> cluster_accepts_jobs c)
            (filter cluster_is_connected (cfg_clusters cfg));
          swarms = list_all (\<lambda>s. \<not> swarm_accepts_jobs s)
            (filter swarm_is_connected (cfg_swarms cfg));
          has_connected = (list_ex cluster_is_connected (cfg_clusters cfg)
            \<or> list_ex swarm_is_connected (cfg_swarms cfg))
      in has_connected \<and> clusters \<and> swarms)"

text \<open>The common end of the three actions: write the file, then notify both managers.\<close>

definition save_and_notify ::
  "(client_config \<Rightarrow> bool) \<Rightarrow> client_config \<Rightarrow> client_config \<times> notification list \<times> (string + unit)" where
  "save_and_notify saved cfg =
     (if saved cfg then (cfg, [NotifyClusters, NotifySwarms], Inr ()) else (cfg, [], Inl ''save''))"

definition disconnect_all ::
  "(client_config \<Rightarrow> bool) \<Rightarrow> client_config \<Rightarrow> client_config \<times> notification list \<times> (string + unit)" where
  "disconnect_all saved cfg =
     save_and_notify saved
       (cfg\<lparr>cfg_clusters := map (set_cluster_connected False) (cfg_clusters cfg),
            cfg_swarms := map (set_swarm_connected False) (cfg_swarms cfg)\<rparr>)"

definition connect_all ::
  "(client_config \<Rightarrow> bool) \<Rightarrow> client_config \<Rightarrow> client_config \<times> notification list \<times> (string + unit)" where
  "connect_all saved cfg =
     save_and_notify saved
       (cfg\<lparr>cfg_clusters := map (set_cluster_connected True) (cfg_clusters cfg),
            cfg_swarms := map (set_swarm_connected True) (cfg_swarms cfg)\<rparr>)"

definition set_pause_all ::
  "(client_config \<Rightarrow> bool) \<Rightarrow> bool \<Rightarrow> client_config \<Rightarrow> client_config \<times> notification list \<times> (string + unit)" where
  "set_pause_all saved paused cfg =
     save_and_notify saved
       (cfg\<lparr>cfg_clusters := map (set_cluster_accepting (\<not> paused)) (cfg_clusters cfg),
            cfg_swarms := map (set_swarm_accepting (\<not> paused)) (cfg_swarms cfg)\<rparr>)"

section \<open>Lemmas\<close>

lemma schedule_update_None_iff:
  "schedule_update sch now cur = None \<longleftrightarrow>
     (rs_enabled sch \<longrightarrow> cur = is_inside_window (rs_start_mins sch) (rs_end_mins sch) now)"
  by (auto simp: schedule_update_def window_state_def Let_def)

lemma schedule_update_Some:
  "schedule_update sch now cur = Some b \<Longrightarrow>
     rs_enabled sch \<and> b = is_inside_window (rs_start_mins sch) (rs_end_mins sch) now \<and> cur \<noteq> b"
  by (auto simp: schedule_update_def window_state_def Let_def split: if_splits)

text \<open>One membership after the scheduler's write-back, for any provider of the interface.\<close>

context network_membership
begin

definition scheduled :: "('m \<Rightarrow> resolved_schedule) \<Rightarrow> nat \<Rightarrow> 'm \<Rightarrow> 'm" where
  "scheduled sch now m =
     (case schedule_update (sch m) now (unwrap_or (connected m) True) of
        None \<Rightarrow> m | Some b \<Rightarrow> set_connected b m)"

lemma scheduled_frame:
  "ident (scheduled sch now m) = ident m" "accepting (scheduled sch now m) = accepting m"
  "schedule (scheduled sch now m) = schedule m"
  by (simp_all add: scheduled_def split: option.split)

lemma scheduled_state:
  "unwrap_or (connected (scheduled sch now m)) True =
     (if rs_enabled (sch m) then is_inside_window (rs_start_mins (sch m)) (rs_end_mins (sch m)) now
      else unwrap_or (connected m) True)"
  by (auto simp: scheduled_def schedule_update_None_iff dest!: schedule_update_Some split: option.split)

lemma scheduled_disabled: "\<not> rs_enabled (sch m) \<Longrightarrow> scheduled sch now m = m"
  by (simp add: scheduled_def schedule_update_def)

lemma scheduled_settled:
  "(\<And>b m. sch (set_connected b m) = sch m) \<Longrightarrow>
   schedule_update (sch (scheduled sch now m)) now (unwrap_or (connected (scheduled sch now m)) True) = None"
  unfolding schedule_update_None_iff scheduled_state
  by (simp add: scheduled_def split: option.split)

end

lemma resolve_cluster_schedule_set [simp]:
  "resolve_cluster_schedule cfg (set_cluster_connected b c) = resolve_cluster_schedule cfg c"
  "resolve_cluster_schedule (cfg\<lparr>cfg_clusters := cs\<rparr>) c = resolve_cluster_schedule cfg c"
  "resolve_cluster_schedule (cfg\<lparr>cfg_swarms := ss\<rparr>) c = resolve_cluster_schedule cfg c"
  by (simp_all add: resolve_cluster_schedule_def set_cluster_connected_def)

lemma resolve_swarm_schedule_set [simp]:
  "resolve_swarm_schedule cfg (set_swarm_connected b s) = resolve_swarm_schedule cfg s"
  "resolve_swarm_schedule (cfg\<lparr>cfg_clusters := cs\<rparr>) s = resolve_swarm_schedule cfg s"
  "resolve_swarm_schedule (cfg\<lparr>cfg_swarms := ss\<rparr>) s = resolve_swarm_schedule cfg s"
  by (simp_all add: resolve_swarm_schedule_def set_swarm_connected_def)

abbreviation "scheduled_clusters cfg now \<equiv>
  map (cl.scheduled (resolve_cluster_schedule cfg) now) (cfg_clusters cfg)"

abbreviation "scheduled_swarms cfg now \<equiv>
  map (sw.scheduled (resolve_swarm_schedule cfg) now) (cfg_swarms cfg)"

definition schedules_settled :: "nat \<Rightarrow> client_config \<Rightarrow> bool" where
  "schedules_settled now cfg \<longleftrightarrow>
     (\<forall>c\<in>set (cfg_clusters cfg).
        schedule_update (resolve_cluster_schedule cfg c) now (cluster_is_connected c) = None)
     \<and> (\<forall>s\<in>set (cfg_swarms cfg).
        schedule_update (resolve_swarm_schedule cfg s) now (swarm_is_connected s) = None)"

text \<open>The two read-then-write loops are one map over each list.\<close>

lemma apply_schedules_eq:
  "apply_schedules saved now cfg =
     (let cfg' = cfg\<lparr>cfg_clusters := scheduled_clusters cfg now, cfg_swarms := scheduled_swarms cfg now\<rparr>;
          changed = (\<not> schedules_settled now cfg)
      in if changed \<and> \<not> saved cfg' then (cfg', [], False)
         else (cfg', if changed then [NotifyClusters, NotifySwarms] else [], changed))"
  by (simp add: apply_schedules_def Let_def write_indexed_updates indexed_updates_Nil
      schedules_settled_def cl.scheduled_def sw.scheduled_def cluster_is_connected_def
      swarm_is_connected_def cong: map_cong)

lemma apply_schedules_fst:
  "fst (apply_schedules saved now cfg) =
     cfg\<lparr>cfg_clusters := scheduled_clusters cfg now, cfg_swarms := scheduled_swarms cfg now\<rparr>"
  by (simp add: apply_schedules_eq Let_def)

lemma schedules_settled_after: "schedules_settled now (fst (apply_schedules saved now cfg))"
  unfolding apply_schedules_fst schedules_settled_def
  using cl.scheduled_settled [of "resolve_cluster_schedule cfg" now]
    sw.scheduled_settled [of "resolve_swarm_schedule cfg" now]
  by (auto simp: cluster_is_connected_def swarm_is_connected_def)

lemma apply_schedules_settled: "schedules_settled now cfg \<Longrightarrow> snd (apply_schedules saved now cfg) = ([], False)"
  by (simp add: apply_schedules_eq Let_def)

section \<open>Properties\<close>

lemma hhmm_roundtrip_raw:
  assumes "m < 1440"
  shows "parse_hhmm (format_hhmm m) = Some m"
proof -
  let ?h = "show_pad2 (m div 60)" and ?m = "show_pad2 (m mod 60)"
  have digits: "c \<in> set ?h \<or> c \<in> set ?m \<Longrightarrow> \<not> ws_byte c \<and> c \<noteq> CHR '':''" for c
    using show_pad2_chars [of c] ws_byte_code [of c] by fastforce
  have ne: "?h \<noteq> []" "?m \<noteq> []" by (simp_all add: show_pad2_def)
  have "trim (?h @ CHR '':'' # ?m) = ?h @ CHR '':'' # ?m"
    by (rule trim_id) (use digits ne in \<open>auto simp: hd_append\<close>)
  moreover have "split_once (CHR '':'') (?h @ CHR '':'' # ?m) = Some (?h, ?m)"
    by (rule split_once_append) (use digits in blast)
  moreover have "m div 60 \<le> 23" "m mod 60 \<le> 59" using assms by auto
  ultimately show ?thesis
    by (simp add: parse_hhmm_def format_hhmm_def parse_uint_show_pad2 u32_max_def)
qed

lemma parse_hhmm_bound: "parse_hhmm s = Some m \<Longrightarrow> m < 1440"
  by (auto simp: parse_hhmm_def split: option.splits if_splits)

text \<open>The resolved window of a member depends on times only through the minute they denote:
  a formatted minute of the day is read back exactly, and whatever the strings say the window lies
  within the day.\<close>

theorem resolve_schedule_times:
  "rs_start_mins (resolve_schedule en (Some (format_hhmm (m mod 1440))) me de ds dn) = m mod 1440
   \<and> rs_end_mins (resolve_schedule en ms None de ds (Some (format_hhmm (m mod 1440)))) = m mod 1440
   \<and> rs_start_mins (resolve_schedule en ms me de ds dn) < 1440
   \<and> rs_end_mins (resolve_schedule en ms me de ds dn) < 1440"
proof -
  have "unwrap_or (parse_hhmm s) d < 1440" if "d < 1440" for s d
    using parse_hhmm_bound that by (cases "parse_hhmm s") auto
  then show ?thesis by (simp add: resolve_schedule_def Let_def hhmm_roundtrip_raw)
qed

text \<open>The next transition the status reports is the first minute, within the next day, at which
  the window flips: until then every minute is on the same side as now, and at it the side
  changes. (The result is read as local wall-clock seconds, the way the code builds it.)\<close>

theorem next_transition_is_first_flip:
  assumes "rs_enabled sch" and "rs_start_mins sch < 1440" and "rs_end_mins sch < 1440"
    and "rs_start_mins sch \<noteq> rs_end_mins sch" and "now < 1440"
  shows "\<exists>d. 0 < d \<and> d \<le> 1440
    \<and> next_transition_unix day now sch = Some (60 * (day * 1440 + now + d))
    \<and> (\<forall>e<d. is_inside_window (rs_start_mins sch) (rs_end_mins sch) ((now + e) mod 1440)
           = is_inside_window (rs_start_mins sch) (rs_end_mins sch) now)
    \<and> is_inside_window (rs_start_mins sch) (rs_end_mins sch) ((now + d) mod 1440)
           \<noteq> is_inside_window (rs_start_mins sch) (rs_end_mins sch) now"
proof -
  define st en where "st = rs_start_mins sch" and "en = rs_end_mins sch"
  define inside where "inside = is_inside_window st en now"
  define tgt where "tgt = (if inside then en else st)"
  define d where "d = (if tgt \<le> now then tgt + 1440 - now else tgt - now)"
  have b: "st < 1440" "en < 1440" "st \<noteq> en" "now < 1440" "tgt < 1440"
    using assms by (auto simp: st_def en_def tgt_def)
  have "next_transition_unix day now sch = Some (60 * (day * 1440 + now + d))"
  proof -
    have "next_transition_unix day now sch =
        Some (if tgt \<le> now then day * 86400 + tgt * 60 + 86400 else day * 86400 + tgt * 60)"
    proof (cases inside)
      case True
      with b have "tgt div 60 < 24" by simp
      with True assms(1) show ?thesis
        by (simp add: next_transition_unix_def Let_def tgt_def inside_def [symmetric] st_def [symmetric] en_def [symmetric])
    next
      case False
      with b have "tgt div 60 < 24" by simp
      with False assms(1) show ?thesis
        by (simp add: next_transition_unix_def Let_def tgt_def inside_def [symmetric] st_def [symmetric] en_def [symmetric])
    qed
    moreover have "tgt \<le> now \<Longrightarrow> tgt * 60 + 86400 = 60 * now + 60 * (tgt + 1440 - now)"
      and "\<not> tgt \<le> now \<Longrightarrow> tgt * 60 = 60 * now + 60 * (tgt - now)" using b by arith+
    ultimately show ?thesis by (simp add: d_def)
  qed
  moreover have "0 < d" "d \<le> 1440" using b by (auto simp: d_def)
  moreover have "is_inside_window st en ((now + e) mod 1440) = inside" if "e < d" for e
  proof -
    have "(now + e) mod 1440 = (if now + e < 1440 then now + e else now + e - 1440)"
      using that b \<open>d \<le> 1440\<close> by (simp add: mod_if)
    then show ?thesis
      using that b unfolding inside_def d_def tgt_def is_inside_window_def
      by (auto split: if_splits)
  qed
  moreover have "is_inside_window st en ((now + d) mod 1440) \<noteq> inside"
  proof -
    have "(now + d) mod 1440 = tgt" using b by (auto simp: d_def mod_if)
    then show ?thesis using b by (auto simp: inside_def tgt_def is_inside_window_def split: if_splits)
  qed
  ultimately show ?thesis unfolding inside_def st_def en_def by blast
qed

theorem next_transition_is_first_flip_witness:
  "\<exists>d. 0 < d \<and> next_transition_unix 2 600 \<lparr>rs_enabled = True, rs_start_mins = 540, rs_end_mins = 1020\<rparr>
     = Some (60 * (2 * 1440 + 600 + d))"
  using next_transition_is_first_flip [of "\<lparr>rs_enabled = True, rs_start_mins = 540, rs_end_mins = 1020\<rparr>" 600 2]
  by auto

text \<open>One scheduler step puts every cluster and swarm with an enabled schedule on the side of
  its window, leaves the others, all ids and all pause flags alone, and a second step in the same
  minute changes nothing and notifies nobody.\<close>

theorem apply_schedules_enforces:
  fixes saved now cfg
  defines "cfg' \<equiv> fst (apply_schedules saved now cfg)"
  shows "map cluster_is_connected (cfg_clusters cfg') =
      map (\<lambda>c. let s = resolve_cluster_schedule cfg c in
              if rs_enabled s then is_inside_window (rs_start_mins s) (rs_end_mins s) now
              else cluster_is_connected c) (cfg_clusters cfg)
    \<and> map swarm_is_connected (cfg_swarms cfg') =
      map (\<lambda>m. let s = resolve_swarm_schedule cfg m in
              if rs_enabled s then is_inside_window (rs_start_mins s) (rs_end_mins s) now
              else swarm_is_connected m) (cfg_swarms cfg)
    \<and> map cm_cluster_id (cfg_clusters cfg') = map cm_cluster_id (cfg_clusters cfg)
    \<and> map cm_accepting_jobs (cfg_clusters cfg') = map cm_accepting_jobs (cfg_clusters cfg)
    \<and> map sm_accepting_jobs (cfg_swarms cfg') = map sm_accepting_jobs (cfg_swarms cfg)
    \<and> apply_schedules saved now cfg' = (cfg', [], False)"
proof -
  have "fst (apply_schedules saved now cfg') = cfg'"
    unfolding apply_schedules_eq using schedules_settled_after [of now saved cfg]
    by (simp add: cfg'_def apply_schedules_fst Let_def schedules_settled_def cl.scheduled_def
        sw.scheduled_def cluster_is_connected_def swarm_is_connected_def cong: map_cong)
  then have "apply_schedules saved now cfg' = (cfg', [], False)"
    using apply_schedules_settled [OF schedules_settled_after [of now saved cfg, folded cfg'_def], of saved]
    by (metis prod.collapse)
  then show ?thesis
    by (simp add: cfg'_def apply_schedules_fst cluster_is_connected_def swarm_is_connected_def
        cl.scheduled_state sw.scheduled_state cl.scheduled_frame sw.scheduled_frame Let_def)
qed

text \<open>A scheduler step whose file write fails has already changed the configuration in memory
  but notifies nobody and reports no change; every later step in that minute then sees nothing to
  do, so the managers are never told of the transition.\<close>

theorem failed_save_loses_transition:
  assumes "\<not> schedules_settled now cfg"
    and "apply_schedules (\<lambda>_. False) now cfg = (cfg', notified, changed)"
  shows "notified = [] \<and> \<not> changed \<and> schedules_settled now cfg' \<and> cfg' \<noteq> cfg
    \<and> snd (apply_schedules saved now cfg') = ([], False)"
proof -
  have st: "schedules_settled now cfg'"
    using schedules_settled_after [of now "\<lambda>_. False" cfg] assms(2) by simp
  moreover have "cfg' \<noteq> cfg" using st assms(1) by auto
  ultimately show ?thesis
    using assms apply_schedules_settled [OF st, of saved] by (simp add: apply_schedules_eq Let_def)
qed

definition off_hours_config :: client_config where
  "off_hours_config = default_client_config\<lparr>cfg_default_schedule_enabled := Some True,
     cfg_default_schedule_start := Some (format_hhmm 540), cfg_default_schedule_end := Some (format_hhmm 1020),
     cfg_clusters := [membership_from_response \<lparr>cr_cluster_id = ''c1'', cr_name = None,
       cr_visibility = None, cr_continent = None, cr_require_e2ee = None,
       cr_required_attestation_flags = None\<rparr> None]\<rparr>"

theorem failed_save_loses_transition_witness:
  "fst (snd (apply_schedules (\<lambda>_. False) 60 off_hours_config)) = []"
proof -
  have r: "resolve_cluster_schedule off_hours_config (hd (cfg_clusters off_hours_config)) =
      \<lparr>rs_enabled = True, rs_start_mins = 540, rs_end_mins = 1020\<rparr>"
    by (simp add: resolve_cluster_schedule_def resolve_schedule_def off_hours_config_def
        hhmm_roundtrip_raw membership_from_response_def default_client_config_def)
  have "\<not> schedules_settled 60 off_hours_config"
    using r by (simp add: schedules_settled_def off_hours_config_def schedule_update_None_iff
        is_inside_window_def cluster_is_connected_def membership_from_response_def Let_def)
  with failed_save_loses_transition [of 60 off_hours_config _ _ _ "\<lambda>_. True"] show ?thesis
    by (cases "apply_schedules (\<lambda>_. False) 60 off_hours_config") auto
qed

text \<open>After \<open>disconnect_all\<close> nothing is connected and after \<open>connect_all\<close> everything is, with
  the pause flags untouched; \<open>set_pause_all True\<close> pauses the peer exactly when it is connected to
  something, and pausing then resuming leaves everything accepting jobs. Each returns an error, and
  notifies nobody, exactly when the file cannot be written.\<close>

theorem bulk_actions:
  "network_all_disconnected (fst (disconnect_all saved cfg))
   \<and> list_all cluster_is_connected (cfg_clusters (fst (connect_all saved cfg)))
   \<and> list_all swarm_is_connected (cfg_swarms (fst (connect_all saved cfg)))
   \<and> map cm_accepting_jobs (cfg_clusters (fst (connect_all saved cfg))) = map cm_accepting_jobs (cfg_clusters cfg)
   \<and> (network_all_paused (fst (set_pause_all saved True cfg)) \<longleftrightarrow> \<not> network_all_disconnected cfg)
   \<and> list_all cluster_accepts_jobs (cfg_clusters (fst (set_pause_all saved False (fst (set_pause_all saved True cfg)))))
   \<and> list_all swarm_accepts_jobs (cfg_swarms (fst (set_pause_all saved False (fst (set_pause_all saved True cfg)))))
   \<and> (fst (snd (set_pause_all saved paused cfg)) = [] \<longleftrightarrow> snd (snd (set_pause_all saved paused cfg)) \<noteq> Inr ())"
  by (auto simp: disconnect_all_def connect_all_def set_pause_all_def save_and_notify_def
      network_all_disconnected_def network_all_paused_def Let_def list_all_iff list_ex_iff
      cluster_is_connected_def swarm_is_connected_def cluster_accepts_jobs_def swarm_accepts_jobs_def
      o_def)

end
