(* ===== verification/Connect_Allowance.thy ===== *)
theory Connect_Allowance
  imports Peer_Prelude
begin

text \<open>
  \<open>peer/src/connect_allowance.rs\<close>: one-time permissions to open an inference connection. An
  \<open>Instant\<close> and a \<open>Duration\<close> are nanoseconds; an operation that reads the clock twice takes both
  readings. The abstract contract is the locale \<open>one_time_tokens\<close>: what a validation may answer
  depends on the latest grant only, and consumes it.
\<close>

record connection_allowance =
  ca_requester_peer_id :: string
  ca_model :: string
  ca_expires_at :: nat

record connection_allowance_store =
  allowances :: "(string, connection_allowance) hmap"
  ttl :: nat

definition allowance_store_new :: "nat \<Rightarrow> connection_allowance_store" where
  "allowance_store_new t = \<lparr>allowances = hm_empty, ttl = t\<rparr>"

definition purge_expired :: "nat \<Rightarrow> connection_allowance_store \<Rightarrow> connection_allowance_store" where
  "purge_expired now st = st\<lparr>allowances := hm_retain (\<lambda>_ a. ca_expires_at a > now) (allowances st)\<rparr>"

definition grant ::
  "nat \<Rightarrow> nat \<Rightarrow> string \<Rightarrow> string \<Rightarrow> string \<Rightarrow> connection_allowance_store \<Rightarrow> connection_allowance_store" where
  "grant now1 now2 req_id requester model st =
     (let st = purge_expired now1 st
      in st\<lparr>allowances := hm_insert req_id
             \<lparr>ca_requester_peer_id = requester, ca_model = model, ca_expires_at = now2 + ttl st\<rparr>
             (allowances st)\<rparr>)"

definition validate_and_consume ::
  "nat \<Rightarrow> nat \<Rightarrow> string \<Rightarrow> string \<Rightarrow> connection_allowance_store
   \<Rightarrow> connection_allowance_store \<times> string option" where
  "validate_and_consume now1 now2 req_id requester st =
     (let st = purge_expired now1 st
      in case hm_get (allowances st) req_id of
           None \<Rightarrow> (st, None)
         | Some a \<Rightarrow>
             (let st = st\<lparr>allowances := hm_remove req_id (allowances st)\<rparr>
              in if ca_expires_at a \<le> now2 then (st, None)
                 else if ca_requester_peer_id a \<noteq> requester then (st, None)
                 else (st, Some (ca_model a))))"

definition store_wf :: "connection_allowance_store \<Rightarrow> bool" where
  "store_wf st = hm_wf (allowances st)"

section \<open>The contract\<close>

text \<open>\<open>pending s r\<close> is what a store still holds for request \<open>r\<close>. A validation answers from it and
  always consumes it; nothing but a grant adds to it.\<close>

locale one_time_tokens =
  fixes wf :: "'s \<Rightarrow> bool" and pending :: "'s \<Rightarrow> 'r \<Rightarrow> 'a option"
    and issue :: "'t \<Rightarrow> 'r \<Rightarrow> 'g \<Rightarrow> 's \<Rightarrow> 's" and use :: "'t \<Rightarrow> 'r \<Rightarrow> 'p \<Rightarrow> 's \<Rightarrow> 's \<times> 'o option"
    and clean :: "'t \<Rightarrow> 's \<Rightarrow> 's"
  assumes wf_issue: "wf s \<Longrightarrow> wf (issue t r g s)" and wf_use: "wf s \<Longrightarrow> wf (fst (use t r p s))"
    and wf_clean: "wf s \<Longrightarrow> wf (clean t s)"
    and issue_other: "wf s \<Longrightarrow> r' \<noteq> r \<Longrightarrow> pending (issue t r g s) r' \<in> {None, pending s r'}"
    and use_other: "wf s \<Longrightarrow> r' \<noteq> r \<Longrightarrow> pending (fst (use t r p s)) r' \<in> {None, pending s r'}"
    and use_consumes: "wf s \<Longrightarrow> pending (fst (use t r p s)) r = None"
    and use_needs: "wf s \<Longrightarrow> snd (use t r p s) \<noteq> None \<Longrightarrow> pending s r \<noteq> None"
    and clean_sub: "wf s \<Longrightarrow> pending (clean t s) r' \<in> {None, pending s r'}"

datatype ('t, 'r, 'g, 'p) token_event = Issue 't 'r 'g | Use 't 'r 'p | Clean 't

text \<open>The store after a list of events, with the answer of every validation.\<close>

fun tok_step ::
  "('t \<Rightarrow> 'r \<Rightarrow> 'g \<Rightarrow> 's \<Rightarrow> 's) \<Rightarrow> ('t \<Rightarrow> 'r \<Rightarrow> 'p \<Rightarrow> 's \<Rightarrow> 's \<times> 'o option) \<Rightarrow> ('t \<Rightarrow> 's \<Rightarrow> 's)
   \<Rightarrow> ('t, 'r, 'g, 'p) token_event \<Rightarrow> 's \<Rightarrow> 's \<times> ('r \<times> bool) list" where
  "tok_step i u c (Issue t r g) s = (i t r g s, [])"
| "tok_step i u c (Use t r p) s = (let (s', out) = u t r p s in (s', [(r, out \<noteq> None)]))"
| "tok_step i u c (Clean t) s = (c t s, [])"

fun tok_run ::
  "('t \<Rightarrow> 'r \<Rightarrow> 'g \<Rightarrow> 's \<Rightarrow> 's) \<Rightarrow> ('t \<Rightarrow> 'r \<Rightarrow> 'p \<Rightarrow> 's \<Rightarrow> 's \<times> 'o option) \<Rightarrow> ('t \<Rightarrow> 's \<Rightarrow> 's)
   \<Rightarrow> ('t, 'r, 'g, 'p) token_event list \<Rightarrow> 's \<Rightarrow> 's \<times> ('r \<times> bool) list" where
  "tok_run i u c [] s = (s, [])"
| "tok_run i u c (e # es) s =
     (let (s1, o1) = tok_step i u c e s; (s2, o2) = tok_run i u c es s1 in (s2, o1 @ o2))"

definition issued :: "'r \<Rightarrow> ('t, 'r, 'g, 'p) token_event list \<Rightarrow> nat" where
  "issued r es = length (filter (\<lambda>e. case e of Issue _ r' _ \<Rightarrow> r' = r | _ \<Rightarrow> False) es)"

definition accepted :: "'r \<Rightarrow> ('r \<times> bool) list \<Rightarrow> nat" where
  "accepted r outs = count_list outs (r, True)"

context one_time_tokens
begin

abbreviation "step \<equiv> tok_step issue use clean"
abbreviation "run \<equiv> tok_run issue use clean"

definition held :: "'s \<Rightarrow> 'r \<Rightarrow> nat" where
  "held s r = (if pending s r = None then 0 else 1)"

lemma step_balance:
  assumes "wf s"
  shows "wf (fst (step e s)) \<and>
    accepted r (snd (step e s)) + held (fst (step e s)) r \<le> issued r [e] + held s r"
proof (cases e)
  case (Issue t r' g)
  then show ?thesis
    using assms wf_issue issue_other [OF assms, of r r' t g] by (auto simp: accepted_def held_def issued_def)
next
  case (Use t r' p)
  obtain s' out where u: "use t r' p s = (s', out)" by (cases "use t r' p s")
  show ?thesis
  proof (cases "r' = r")
    case True
    then show ?thesis
      using Use u assms wf_use [OF assms, of t r p] use_consumes [OF assms, of t r p]
        use_needs [OF assms, of t r p] by (auto simp: accepted_def held_def issued_def)
  next
    case False
    then show ?thesis
      using Use u assms wf_use [OF assms, of t r' p] use_other [OF assms, of r r' t p]
      by (auto simp: accepted_def held_def issued_def)
  qed
next
  case (Clean t)
  then show ?thesis
    using assms wf_clean clean_sub [OF assms, of t r] by (auto simp: accepted_def held_def issued_def)
qed

lemma run_balance:
  "wf s \<Longrightarrow> wf (fst (run es s)) \<and>
    accepted r (snd (run es s)) + held (fst (run es s)) r \<le> issued r es + held s r"
proof (induction es arbitrary: s)
  case Nil
  then show ?case by (simp add: accepted_def issued_def)
next
  case (Cons e es)
  obtain s1 o1 where s1: "step e s = (s1, o1)" by (cases "step e s")
  obtain s2 o2 where s2: "run es s1 = (s2, o2)" by (cases "run es s1")
  have "issued r (e # es) = issued r [e] + issued r es"
    by (simp add: issued_def split: token_event.split)
  moreover have "accepted r (o1 @ o2) = accepted r o1 + accepted r o2"
    by (simp add: accepted_def)
  ultimately show ?case
    using step_balance [OF Cons.prems, of e r] Cons.IH [of s1] s1 s2 by simp
qed

lemma accepted_at_most_issued:
  "wf s \<Longrightarrow> pending s r = None \<Longrightarrow> accepted r (snd (run es s)) \<le> issued r es"
  using run_balance [of s es r] by (simp add: held_def)

end

section \<open>The store meets the contract\<close>

abbreviation "issue_allowance \<equiv> \<lambda>(t1, t2) r (p, m) st. grant t1 t2 r p m st"
abbreviation "use_allowance \<equiv> \<lambda>(t1, t2) r p st. validate_and_consume t1 t2 r p st"
abbreviation "clean_allowances \<equiv> \<lambda>(t1, t2) st. purge_expired t1 st"

definition pending_allowance :: "connection_allowance_store \<Rightarrow> string \<Rightarrow> connection_allowance option" where
  "pending_allowance st r = hm_get (allowances st) r"

lemma pending_purge:
  "store_wf st \<Longrightarrow> pending_allowance (purge_expired now st) r =
     opt_filter (\<lambda>a. ca_expires_at a > now) (pending_allowance st r)"
  by (simp add: pending_allowance_def purge_expired_def store_wf_def hm_get_retain opt_filter_def)

lemma store_wf_ops [simp]:
  "store_wf st \<Longrightarrow> store_wf (purge_expired now st)"
  "store_wf st \<Longrightarrow> store_wf (grant now1 now2 r p m st)"
  "store_wf st \<Longrightarrow> store_wf (fst (validate_and_consume now1 now2 r p st))"
  by (auto simp: store_wf_def purge_expired_def grant_def validate_and_consume_def Let_def
      split: option.split)

lemma pending_grant:
  "store_wf st \<Longrightarrow> pending_allowance (grant now1 now2 r p m st) r' =
     (if r' = r then Some \<lparr>ca_requester_peer_id = p, ca_model = m, ca_expires_at = now2 + ttl st\<rparr>
      else pending_allowance (purge_expired now1 st) r')"
  by (simp add: grant_def pending_allowance_def purge_expired_def Let_def)

lemma pending_validate:
  "store_wf st \<Longrightarrow> pending_allowance (fst (validate_and_consume now1 now2 r p st)) r' =
     (if r' = r then None else pending_allowance (purge_expired now1 st) r')"
  by (auto simp: validate_and_consume_def pending_allowance_def Let_def split: option.split)

lemma validate_result:
  "store_wf st \<Longrightarrow> snd (validate_and_consume now1 now2 r p st) =
     (case pending_allowance st r of
        None \<Rightarrow> None
      | Some a \<Rightarrow> if now1 < ca_expires_at a \<and> now2 < ca_expires_at a \<and> ca_requester_peer_id a = p
                  then Some (ca_model a) else None)"
  using pending_purge [of st now1 r]
  by (auto simp: validate_and_consume_def pending_allowance_def Let_def split: option.splits)

interpretation ca: one_time_tokens store_wf pending_allowance issue_allowance use_allowance clean_allowances
  by unfold_locales
     (auto simp: pending_grant pending_validate pending_purge validate_result opt_filter_def
       split: option.splits if_splits)

definition allowance_run ::
  "(nat \<times> nat, string, string \<times> string, string) token_event list \<Rightarrow> connection_allowance_store
   \<Rightarrow> connection_allowance_store \<times> (string \<times> bool) list" where
  "allowance_run es st = tok_run issue_allowance use_allowance clean_allowances es st"

section \<open>Properties\<close>

text \<open>A validation succeeds exactly when the latest grant for the request is still held, names
  this requester and has not expired at either clock reading, and then answers the granted model;
  every validation, successful or not, uses the allowance up.\<close>

theorem validate_and_consume_exact:
  assumes "store_wf st"
  shows "snd (validate_and_consume t1 t2 r p (grant g1 g2 r p' m st)) =
      (if p' = p \<and> t1 < g2 + ttl st \<and> t2 < g2 + ttl st then Some m else None)
    \<and> snd (validate_and_consume t3 t4 r q (fst (validate_and_consume t1 t2 r p (grant g1 g2 r p' m st)))) = None"
  using assms by (auto simp: validate_result pending_grant pending_validate)

theorem validate_and_consume_exact_witness:
  "snd (validate_and_consume 5 6 ''req1'' ''peer-a'' (grant 1 2 ''req1'' ''peer-a'' ''llama3'' (allowance_store_new 60)))
     = Some ''llama3''"
  using validate_and_consume_exact [of "allowance_store_new 60" 5 6 "''req1''" "''peer-a''" 1 2 "''peer-a''" "''llama3''"]
  by (simp add: store_wf_def allowance_store_new_def)

text \<open>In any interleaving of grants, validations and purges, at any clock readings, the number
  of accepted validations of a request id never exceeds the number of grants for it: an allowance
  cannot be replayed.\<close>

theorem allowance_not_replayed:
  "accepted r (snd (allowance_run es (allowance_store_new t))) \<le> issued r es"
  unfolding allowance_run_def
  by (rule ca.accepted_at_most_issued)
     (simp_all add: store_wf_def allowance_store_new_def pending_allowance_def)

end
