(* ===== verification/Rust_Order.thy ===== *)
theory Rust_Order
  imports Peer_Prelude
begin

text \<open>
  \<open>std::cmp::Ordering\<close>, the stable \<open>slice::sort_by\<close>, \<open>Iterator::max_by_key\<close> and the IEEE
  comparison of \<open>f64\<close>. The locale \<open>comparator\<close> is the contract \<open>sort_by\<close> asks of its closure;
  inside it, the result is shown to be the sorted, stable permutation of the input.
\<close>

section \<open>Orderings\<close>

datatype ordering = Less | Equal | Greater

fun ord_reverse :: "ordering \<Rightarrow> ordering" where
  "ord_reverse Less = Greater"
| "ord_reverse Equal = Equal"
| "ord_reverse Greater = Less"

fun ord_then :: "ordering \<Rightarrow> ordering \<Rightarrow> ordering" where
  "ord_then Equal o2 = o2"
| "ord_then o1 o2 = o1"

definition ord_cmp :: "'a::linorder \<Rightarrow> 'a \<Rightarrow> ordering" where
  "ord_cmp a b = (if a < b then Less else if a = b then Equal else Greater)"

lemma ord_cmp_simps [simp]:
  "ord_cmp a b = Less \<longleftrightarrow> a < b" "ord_cmp a b = Equal \<longleftrightarrow> a = b" "ord_cmp a b = Greater \<longleftrightarrow> b < a"
  "ord_cmp a a = Equal"
  by (auto simp: ord_cmp_def)

lemma ord_cmp_reverse: "ord_cmp b a = ord_reverse (ord_cmp a b)"
  by (auto simp: ord_cmp_def)

lemma ord_reverse_eq [simp]:
  "ord_reverse o1 = Less \<longleftrightarrow> o1 = Greater" "ord_reverse o1 = Equal \<longleftrightarrow> o1 = Equal"
  "ord_reverse o1 = Greater \<longleftrightarrow> o1 = Less"
  by (cases o1; simp)+

lemma ord_then_eq [simp]:
  "ord_then o1 o2 = Less \<longleftrightarrow> o1 = Less \<or> o1 = Equal \<and> o2 = Less"
  "ord_then o1 o2 = Equal \<longleftrightarrow> o1 = Equal \<and> o2 = Equal"
  "ord_then o1 o2 = Greater \<longleftrightarrow> o1 = Greater \<or> o1 = Equal \<and> o2 = Greater"
  by (cases o1; simp)+

section \<open>The stable sort\<close>

fun insort_by :: "('a \<Rightarrow> 'a \<Rightarrow> ordering) \<Rightarrow> 'a \<Rightarrow> 'a list \<Rightarrow> 'a list" where
  "insort_by cmp x [] = [x]"
| "insort_by cmp x (y # ys) =
     (if cmp x y = Greater then y # insort_by cmp x ys else x # y # ys)"

fun sort_by :: "('a \<Rightarrow> 'a \<Rightarrow> ordering) \<Rightarrow> 'a list \<Rightarrow> 'a list" where
  "sort_by cmp [] = []"
| "sort_by cmp (x # xs) = insort_by cmp x (sort_by cmp xs)"

definition sort_by_key :: "('a \<Rightarrow> 'b::linorder) \<Rightarrow> 'a list \<Rightarrow> 'a list" where
  "sort_by_key k xs = sort_by (\<lambda>a b. ord_cmp (k a) (k b)) xs"

lemma mset_insort_by [simp]: "mset (insort_by cmp x xs) = add_mset x (mset xs)"
  by (induction xs) auto

lemma mset_sort_by [simp]: "mset (sort_by cmp xs) = mset xs"
  by (induction xs) auto

lemma set_sort_by [simp]: "set (sort_by cmp xs) = set xs"
  by (metis mset_sort_by set_mset_mset)

lemma length_sort_by [simp]: "length (sort_by cmp xs) = length xs"
  by (metis mset_sort_by size_mset)

lemma sort_by_singleton [simp]: "sort_by cmp [x] = [x]"
  by simp

text \<open>
  The contract of \<open>sort_by\<close>'s closure, on the elements \<open>dom\<close> that are sorted: a total preorder.
  (For an \<open>f64\<close> key the code uses \<open>partial_cmp(..).unwrap_or(Equal)\<close>, which is one only when no
  key is NaN, hence the domain.)
\<close>

locale comparator =
  fixes cmp :: "'a \<Rightarrow> 'a \<Rightarrow> ordering" and dom :: "'a \<Rightarrow> bool"
  assumes cmp_refl: "dom x \<Longrightarrow> cmp x x = Equal"
    and cmp_swap: "dom x \<Longrightarrow> dom y \<Longrightarrow> cmp y x = ord_reverse (cmp x y)"
    and cmp_trans: "dom x \<Longrightarrow> dom y \<Longrightarrow> dom z \<Longrightarrow> cmp x y \<noteq> Greater \<Longrightarrow> cmp y z \<noteq> Greater
      \<Longrightarrow> cmp x z \<noteq> Greater"
begin

abbreviation leq :: "'a \<Rightarrow> 'a \<Rightarrow> bool" where
  "leq x y \<equiv> cmp x y \<noteq> Greater"

lemma leq_total: "dom x \<Longrightarrow> dom y \<Longrightarrow> leq x y \<or> leq y x"
  by (cases "cmp x y") (auto simp: cmp_swap [of x y])

lemma sorted_insort:
  assumes "dom x" "\<forall>y\<in>set ys. dom y" "sorted_wrt leq ys"
  shows "sorted_wrt leq (insort_by cmp x ys)"
  using assms
proof (induction ys)
  case (Cons y ys)
  have set_ins: "set (insort_by cmp x ys) = insert x (set ys)"
    by (metis mset_insort_by set_mset_add_mset_insert set_mset_mset)
  show ?case
  proof (cases "cmp x y = Greater")
    case True
    then have "leq y x" using Cons.prems by (auto simp: cmp_swap [of x y])
    with True Cons set_ins show ?thesis by auto
  next
    case False
    then have "leq x y" by simp
    moreover have "leq x z" if "z \<in> set ys" for z
      using that \<open>leq x y\<close> Cons.prems cmp_trans [of x y z] by auto
    ultimately show ?thesis using False Cons.prems by auto
  qed
qed simp

lemma sort_by_sorted: "\<forall>x\<in>set xs. dom x \<Longrightarrow> sorted_wrt leq (sort_by cmp xs)"
  by (induction xs) (auto intro!: sorted_insort)

text \<open>Elements that compare \<open>Equal\<close> to \<open>a\<close> keep their order.\<close>

lemma filter_insort_equal:
  assumes "dom a" "dom x" "\<forall>y\<in>set ys. dom y"
  shows "filter (\<lambda>y. cmp a y = Equal) (insort_by cmp x ys)
       = filter (\<lambda>y. cmp a y = Equal) (x # ys)"
  using assms
proof (induction ys)
  case (Cons y ys)
  have "\<not> (cmp a x = Equal \<and> cmp a y = Equal)" if "cmp x y = Greater"
  proof
    assume eq: "cmp a x = Equal \<and> cmp a y = Equal"
    then have "cmp x a \<noteq> Greater" using Cons.prems cmp_swap [of a x] by simp
    with eq have "cmp x y \<noteq> Greater" using Cons.prems cmp_trans [of x a y] by simp
    with that show False by simp
  qed
  with Cons show ?case by auto
qed simp

lemma sort_by_stable:
  assumes "dom a" "\<forall>x\<in>set xs. dom x"
  shows "filter (\<lambda>y. cmp a y = Equal) (sort_by cmp xs) = filter (\<lambda>y. cmp a y = Equal) xs"
  using assms by (induction xs) (auto simp: filter_insort_equal)

lemma sort_by_hd_least:
  assumes "\<forall>x\<in>set xs. dom x" "sort_by cmp xs = y # ys" "z \<in> set xs"
  shows "leq y z"
proof -
  have "sorted_wrt leq (y # ys)" using sort_by_sorted [OF assms(1)] assms(2) by simp
  moreover have "z \<in> set (y # ys)" using assms(2,3) set_sort_by [of cmp xs] by simp
  moreover have "leq y y"
  proof -
    have "y \<in> set xs" using assms(2) set_sort_by [of cmp xs] by (metis list.set_intros(1))
    with assms(1) show ?thesis by (simp add: cmp_refl)
  qed
  ultimately show ?thesis by auto
qed

end

text \<open>Sorting by a key of a linear order meets the contract everywhere.\<close>

interpretation key_cmp: comparator "\<lambda>a b. ord_cmp (k a) (k b)" "\<lambda>_. True"
  for k :: "'a \<Rightarrow> 'b::linorder"
  by unfold_locales (auto simp: ord_cmp_def split: if_splits)

lemma sort_by_key_sorted: "sorted (map k (sort_by_key k xs))"
  using key_cmp.sort_by_sorted [of xs k]
  by (simp add: sort_by_key_def sorted_wrt_map not_less)

lemma mset_sort_by_key [simp]: "mset (sort_by_key k xs) = mset xs"
  by (simp add: sort_by_key_def)

lemma set_sort_by_key [simp]: "set (sort_by_key k xs) = set xs"
  by (simp add: sort_by_key_def)

text \<open>Comparators built from keys, chained by \<open>Ordering::then\<close>.\<close>

lemma comparator_key: "comparator (\<lambda>a b. ord_cmp (k a) (k b)) D"
  by unfold_locales (simp, rule ord_cmp_reverse, simp)

lemma comparator_key_reversed: "comparator (\<lambda>a b. ord_cmp (k b) (k a)) D"
  by unfold_locales (simp, rule ord_cmp_reverse, simp)

lemma sort_by_descending: "sorted_wrt (\<lambda>a b. k b \<le> k a) (sort_by (\<lambda>a b. ord_cmp (k b) (k a)) xs)"
proof -
  have "sorted_wrt (\<lambda>a b. ord_cmp (k b) (k a) \<noteq> Greater) (sort_by (\<lambda>a b. ord_cmp (k b) (k a)) xs)"
    by (rule comparator.sort_by_sorted [OF comparator_key_reversed [of k "\<lambda>_. True"]]) simp
  then show ?thesis by (rule sorted_wrt_mono_rel [rotated]) (auto simp: ord_cmp_def split: if_splits)
qed

lemma comparator_cong:
  "comparator c D \<Longrightarrow> (\<And>x y. D x \<Longrightarrow> D y \<Longrightarrow> c' x y = c x y) \<Longrightarrow> comparator c' D"
  unfolding comparator_def by metis

lemma comparator_then:
  assumes "comparator c1 D" "comparator c2 D"
  shows "comparator (\<lambda>a b. ord_then (c1 a b) (c2 a b)) D"
proof unfold_locales
  fix x assume "D x"
  then show "ord_then (c1 x x) (c2 x x) = Equal"
    by (simp add: comparator.cmp_refl [OF assms(1)] comparator.cmp_refl [OF assms(2)])
next
  fix x y assume "D x" "D y"
  then have "c1 y x = ord_reverse (c1 x y)" "c2 y x = ord_reverse (c2 x y)"
    using comparator.cmp_swap [OF assms(1)] comparator.cmp_swap [OF assms(2)] by blast+
  then show "ord_then (c1 y x) (c2 y x) = ord_reverse (ord_then (c1 x y) (c2 x y))"
    by (cases "c1 x y") simp_all
next
  fix x y z assume D: "D x" "D y" "D z"
    and le: "ord_then (c1 x y) (c2 x y) \<noteq> Greater" "ord_then (c1 y z) (c2 y z) \<noteq> Greater"
  then have xy: "c1 x y \<noteq> Greater" and yz: "c1 y z \<noteq> Greater" by auto
  note t = comparator.cmp_trans [OF assms(1)] and sw = comparator.cmp_swap [OF assms(1)]
  have xz: "c1 x z \<noteq> Greater" by (rule t [OF D xy yz])
  show "ord_then (c1 x z) (c2 x z) \<noteq> Greater"
  proof (cases "c1 x z = Equal")
    case True
    then have zx: "c1 z x \<noteq> Greater" using sw [OF D(1,3)] by simp
    have "c1 y x \<noteq> Greater" by (rule t [OF D(2,3,1) yz zx])
    then have exy: "c1 x y = Equal" using xy sw [OF D(1,2)] by (cases "c1 x y") simp_all
    have "c1 z y \<noteq> Greater" by (rule t [OF D(3,1,2) zx xy])
    then have "c1 y z = Equal" using yz sw [OF D(2,3)] by (cases "c1 y z") simp_all
    with exy le have "c2 x z \<noteq> Greater"
      using comparator.cmp_trans [OF assms(2) D] by simp
    with True show ?thesis by simp
  next
    case False
    with xz show ?thesis by simp
  qed
qed

lemma sort_by_map: "sort_by cmp (map f xs) = map f (sort_by (\<lambda>a b. cmp (f a) (f b)) xs)"
proof -
  have "insort_by cmp (f x) (map f ys) = map f (insort_by (\<lambda>a b. cmp (f a) (f b)) x ys)" for x ys
    by (induction ys) auto
  then show ?thesis by (induction xs) auto
qed

section \<open>\<open>max_by_key\<close>: the last of the largest\<close>

fun max_by_key_from :: "('a \<Rightarrow> 'b::linorder) \<Rightarrow> 'a \<Rightarrow> 'a list \<Rightarrow> 'a" where
  "max_by_key_from k best [] = best"
| "max_by_key_from k best (x # xs) =
     max_by_key_from k (if k best \<le> k x then x else best) xs"

fun max_by_key :: "('a \<Rightarrow> 'b::linorder) \<Rightarrow> 'a list \<Rightarrow> 'a option" where
  "max_by_key k [] = None"
| "max_by_key k (x # xs) = Some (max_by_key_from k x xs)"

lemma max_by_key_from_props:
  "max_by_key_from k b xs \<in> insert b (set xs) \<and>
   (\<forall>x\<in>insert b (set xs). k x \<le> k (max_by_key_from k b xs))"
proof (induction xs arbitrary: b)
  case (Cons x xs)
  show ?case
    using Cons.IH [of x] Cons.IH [of b] by (auto intro: order_trans)
qed simp

lemma max_by_key_Some:
  "max_by_key k xs = Some m \<Longrightarrow> m \<in> set xs \<and> (\<forall>x\<in>set xs. k x \<le> k m)"
  using max_by_key_from_props [of k] by (cases xs) fastforce+

lemma max_by_key_None [simp]: "max_by_key k xs = None \<longleftrightarrow> xs = []"
  by (cases xs) auto

section \<open>\<open>f64\<close>\<close>

text \<open>
  An \<open>f64\<close> is its 64-bit pattern. \<open>f64_key\<close> orders the non-NaN patterns as IEEE does: sign and
  magnitude, with both zeros equal; \<open>partial_cmp\<close> is \<open>None\<close> exactly when one side is NaN.
\<close>

type_synonym f64 = "64 word"

definition f64_magnitude :: "f64 \<Rightarrow> int" where
  "f64_magnitude x = uint (x AND 0x7FFFFFFFFFFFFFFF)"

definition f64_is_nan :: "f64 \<Rightarrow> bool" where
  "f64_is_nan x = (f64_magnitude x > 0x7FF0000000000000)"

definition f64_key :: "f64 \<Rightarrow> int" where
  "f64_key x = (if bit x 63 then - f64_magnitude x else f64_magnitude x)"

definition f64_partial_cmp :: "f64 \<Rightarrow> f64 \<Rightarrow> ordering option" where
  "f64_partial_cmp a b =
     (if f64_is_nan a \<or> f64_is_nan b then None else Some (ord_cmp (f64_key a) (f64_key b)))"

text \<open>\<open>f64::MAX\<close>, and the idiom \<open>partial_cmp(..).unwrap_or(Ordering::Equal)\<close>.\<close>

definition f64_MAX :: f64 where "f64_MAX = 0x7FEFFFFFFFFFFFFF"

definition f64_cmp_or_equal :: "f64 \<Rightarrow> f64 \<Rightarrow> ordering" where
  "f64_cmp_or_equal a b = unwrap_or (f64_partial_cmp a b) Equal"

lemma f64_MAX_not_nan [simp]: "\<not> f64_is_nan f64_MAX"
  by (simp add: f64_is_nan_def f64_magnitude_def f64_MAX_def)

lemma f64_cmp_numbers:
  "\<not> f64_is_nan a \<Longrightarrow> \<not> f64_is_nan b \<Longrightarrow> f64_cmp_or_equal a b = ord_cmp (f64_key a) (f64_key b)"
  by (simp add: f64_cmp_or_equal_def f64_partial_cmp_def)

end
