(* ===== verification/Peer_Types.thy ===== *)
theory Peer_Types
  imports Rust_Order
begin

text \<open>
  The data peers exchange about themselves: the status of a host's GPUs and where a peer is. The
  structs are those of the protocol crate, with the fields the peer's own constructors spell out
  (\<open>gpu/util.rs\<close>, \<open>p2p_protocol.rs\<close>); every \<open>u8\<close>, \<open>u32\<close> and \<open>u64\<close> is a \<open>nat\<close>.
\<close>

record gpu_device_info =
  gd_index :: nat
  gd_name :: string
  gd_producer :: "string option"
  gd_architecture :: "string option"
  gd_driver_version :: "string option"
  gd_pci_bus_id :: "string option"
  gd_utilization_pct :: nat
  gd_memory_utilization_pct :: "nat option"
  gd_memory_used_mb :: nat
  gd_memory_total_mb :: nat
  gd_temperature_c :: "nat option"
  gd_power_draw_w :: "nat option"
  gd_power_limit_w :: "nat option"
  gd_fan_speed_pct :: "nat option"

record gpu_host_status =
  gh_available :: bool
  gh_utilization_pct :: nat
  gh_memory_used_mb :: nat
  gh_memory_total_mb :: nat
  gh_memory_free_mb :: nat
  gh_name :: "string option"
  gh_producer :: "string option"
  gh_architecture :: "string option"
  gh_driver_version :: "string option"
  gh_cuda_version :: "string option"
  gh_device_count :: "nat option"
  gh_temperature_c :: "nat option"
  gh_memory_utilization_pct :: "nat option"
  gh_power_draw_w :: "nat option"
  gh_source :: "string option"
  gh_sampled_at_unix :: "nat option"
  gh_devices :: "gpu_device_info list option"

record peer_info =
  pi_lat :: f64
  pi_lon :: f64
  pi_asn :: string
  pi_city :: "string option"
  pi_country :: "string option"

end
