(* ===== verification/Gpu_Guard.thy ===== *)
theory Gpu_Guard
  imports Network_Control Peer_Types
begin

text \<open>
  The GPU side of the peer: \<open>gpu_history.rs\<close> (two bounded rings of samples),
  \<open>gpu_thermal_guard.rs\<close> (the guard that pauses every network when the card stays hot) and the
  vendor-independent part of \<open>gpu/aggregate.rs\<close> and \<open>gpu/util.rs\<close>. The probes that read a card
  (\<open>gpu/nvidia.rs\<close>, \<open>amd.rs\<close>, ...) run external commands and are the input of this theory.

  \<open>Instant\<close>s are milliseconds of the monotonic clock, \<open>unix_now()\<close> is an argument, and whether
  \<open>save_client_config\<close> succeeds is the predicate \<open>saved\<close>, as in \<open>Network_Control\<close>.
\<close>

section \<open>Samples\<close>

record gpu_sample =
  gs_ts_unix :: nat
  gs_utilization_pct :: nat
  gs_memory_used_mb :: nat
  gs_memory_utilization_pct :: "nat option"
  gs_temperature_c :: "nat option"
  gs_power_draw_w :: "nat option"

record gpu_history =
  ghist_short :: "gpu_sample list"
  ghist_long :: "gpu_sample list"

definition sample_from_status :: "nat \<Rightarrow> gpu_host_status \<Rightarrow> gpu_sample" where
  "sample_from_status unix gpu =
     \<lparr>gs_ts_unix = unwrap_or (gh_sampled_at_unix gpu) unix,
      gs_utilization_pct = gh_utilization_pct gpu,
      gs_memory_used_mb = gh_memory_used_mb gpu,
      gs_memory_utilization_pct = gh_memory_utilization_pct gpu,
      gs_temperature_c = gh_temperature_c gpu,
      gs_power_draw_w = gh_power_draw_w gpu\<rparr>"

section \<open>The history\<close>

definition SHORT_CAP :: nat where "SHORT_CAP = 60"
definition LONG_CAP :: nat where "LONG_CAP = 60"
definition LONG_INTERVAL_SECS :: nat where "LONG_INTERVAL_SECS = 60"

definition push_ring :: "gpu_sample list \<Rightarrow> nat \<Rightarrow> gpu_sample \<Rightarrow> gpu_sample list" where
  "push_ring buf cap sample =
     (let buf = (if length buf \<ge> cap then tl buf else buf) in buf @ [sample])"

record gpu_history_tracker =
  ht_short :: "gpu_sample list"
  ht_long :: "gpu_sample list"
  ht_last_long_at :: "nat option"

definition history_new :: gpu_history_tracker where
  "history_new = \<lparr>ht_short = [], ht_long = [], ht_last_long_at = None\<rparr>"

definition long_due :: "nat option \<Rightarrow> nat \<Rightarrow> bool" where
  "long_due prev now = (case prev of Some t \<Rightarrow> (now - t) div 1000 \<ge> LONG_INTERVAL_SECS | None \<Rightarrow> True)"

definition history_record ::
  "nat \<Rightarrow> nat \<Rightarrow> gpu_host_status \<Rightarrow> gpu_history_tracker \<Rightarrow> gpu_history_tracker" where
  "history_record now unix gpu tr =
     (if \<not> gh_available gpu then tr
      else (let sample = sample_from_status unix gpu;
                tr = tr\<lparr>ht_short := push_ring (ht_short tr) SHORT_CAP sample\<rparr>
            in if long_due (ht_last_long_at tr) now
               then tr\<lparr>ht_long := push_ring (ht_long tr) LONG_CAP sample, ht_last_long_at := Some now\<rparr>
               else tr))"

definition history_snapshot :: "gpu_history_tracker \<Rightarrow> gpu_history" where
  "history_snapshot tr = \<lparr>ghist_short = ht_short tr, ghist_long = ht_long tr\<rparr>"

text \<open>Both buffers are rings of the shared interface.\<close>

interpretation short_ring: ring_buffer "\<lambda>b. push_ring b SHORT_CAP" "\<lambda>b. b" SHORT_CAP
  by unfold_locales (auto simp: push_ring_def SHORT_CAP_def Let_def drop_Suc tl_append split: list.splits)

interpretation long_ring: ring_buffer "\<lambda>b. push_ring b LONG_CAP" "\<lambda>b. b" LONG_CAP
  by unfold_locales (auto simp: push_ring_def LONG_CAP_def Let_def drop_Suc tl_append split: list.splits)

text \<open>What the rings should hold of a run of the monitor loop: every sample of an available card, and
  of these the ones at least a minute after the previous one kept.\<close>

type_synonym probe = "nat \<times> nat \<times> gpu_host_status"

definition probe_samples :: "probe list \<Rightarrow> (nat \<times> gpu_sample) list" where
  "probe_samples ps =
     map (\<lambda>(now, unix, gpu). (now, sample_from_status unix gpu))
       (filter (\<lambda>(now, unix, gpu). gh_available gpu) ps)"

fun thin_minutes :: "nat option \<Rightarrow> (nat \<times> gpu_sample) list \<Rightarrow> (nat \<times> gpu_sample) list" where
  "thin_minutes prev [] = []"
| "thin_minutes prev ((t, s) # xs) =
     (if long_due prev t then (t, s) # thin_minutes (Some t) xs else thin_minutes prev xs)"

definition record_all :: "probe list \<Rightarrow> gpu_history_tracker \<Rightarrow> gpu_history_tracker" where
  "record_all ps tr = foldl (\<lambda>tr (now, unix, gpu). history_record now unix gpu tr) tr ps"

lemma record_all_rings:
  "ht_short (record_all ps tr) =
     foldl (\<lambda>b. push_ring b SHORT_CAP) (ht_short tr) (map snd (probe_samples ps))
   \<and> ht_long (record_all ps tr) =
     foldl (\<lambda>b. push_ring b LONG_CAP) (ht_long tr)
       (map snd (thin_minutes (ht_last_long_at tr) (probe_samples ps)))"
proof (induction ps arbitrary: tr)
  case (Cons p ps)
  obtain now unix gpu where p: "p = (now, unix, gpu)" by (cases p)
  show ?case
    using Cons.IH [of "history_record now unix gpu tr"]
    by (simp add: p record_all_def probe_samples_def history_record_def Let_def)
qed (simp add: record_all_def probe_samples_def)

lemma thin_minutes_spaced:
  "sorted_wrt (\<lambda>a b. fst a + 60000 \<le> fst b) (thin_minutes prev xs)
   \<and> (\<forall>t. prev = Some t \<longrightarrow> (\<forall>x\<in>set (thin_minutes prev xs). t + 60000 \<le> fst x))"
proof (induction prev xs rule: thin_minutes.induct)
  case (2 prev t s xs)
  have due: "prev = Some t0 \<Longrightarrow> long_due prev t \<Longrightarrow> t0 + 60000 \<le> t" for t0
    by (simp add: long_due_def LONG_INTERVAL_SECS_def)
  show ?case
  proof (cases "long_due prev t")
    case True
    with 2(1) have IH: "sorted_wrt (\<lambda>a b. fst a + 60000 \<le> fst b) (thin_minutes (Some t) xs)"
      "\<forall>x\<in>set (thin_minutes (Some t) xs). t + 60000 \<le> fst x" by auto
    with True due show ?thesis by (auto intro: order_trans [OF _ add_leD1] simp: add.commute)
  next
    case False
    with 2(2) show ?thesis by auto
  qed
qed simp

text \<open>After any run of the monitor from a new tracker, the short buffer is exactly the last 60
  samples of an available card in order, the long buffer is exactly the last 60 of the samples kept
  at one-minute spacing, and those are at least 60 seconds apart.\<close>

theorem history_holds_latest_samples:
  "ghist_short (history_snapshot (record_all ps history_new)) =
     drop (length (probe_samples ps) - 60) (map snd (probe_samples ps))
   \<and> ghist_long (history_snapshot (record_all ps history_new)) =
     drop (length (thin_minutes None (probe_samples ps)) - 60)
       (map snd (thin_minutes None (probe_samples ps)))
   \<and> sorted_wrt (\<lambda>a b. fst a + 60000 \<le> fst b) (thin_minutes None (probe_samples ps))"
  using record_all_rings [of ps history_new] thin_minutes_spaced [of None "probe_samples ps"]
    short_ring.push_all [of "[]" "map snd (probe_samples ps)"]
    long_ring.push_all [of "[]" "map snd (thin_minutes None (probe_samples ps))"]
  by (simp add: history_snapshot_def history_new_def SHORT_CAP_def LONG_CAP_def)

section \<open>The thermal guard\<close>

record gpu_thermal_guard_status =
  tgs_active :: bool
  tgs_triggered_at :: "nat option"
  tgs_peak_temp_c :: "nat option"
  tgs_threshold_c :: nat
  tgs_caused_pause :: bool

definition default_guard_status :: gpu_thermal_guard_status where
  "default_guard_status =
     \<lparr>tgs_active = False, tgs_triggered_at = None, tgs_peak_temp_c = None,
      tgs_threshold_c = 0, tgs_caused_pause = False\<rparr>"

record thermal_tracker =
  tg_over_since :: "nat option"
  tg_peak_temp_c :: "nat option"
  tg_caused_pause :: bool

definition thermal_tracker_default :: thermal_tracker where
  "thermal_tracker_default = \<lparr>tg_over_since = None, tg_peak_temp_c = None, tg_caused_pause = False\<rparr>"

definition max_temp_c :: "gpu_host_status \<Rightarrow> nat option" where
  "max_temp_c gpu =
     (case gh_devices gpu of
        None \<Rightarrow> gh_temperature_c gpu
      | Some devices \<Rightarrow>
          foldl (\<lambda>mx dev. case gd_temperature_c dev of
                    Some t \<Rightarrow> Some (case mx of Some m \<Rightarrow> max m t | None \<Rightarrow> t)
                  | None \<Rightarrow> mx)
            (gh_temperature_c gpu) devices)"

text \<open>The state \<open>evaluate\<close> reads and writes: its own fields, the configuration behind the lock, and
  \<open>AppState::gpu_thermal_guard\<close>; and the notifications it sends.\<close>

record guard_state =
  gst_tracker :: thermal_tracker
  gst_config :: client_config
  gst_status :: gpu_thermal_guard_status

definition reset_if_inactive :: "guard_state \<Rightarrow> guard_state" where
  "reset_if_inactive g =
     (if tg_caused_pause (gst_tracker g) then g
      else let st = gst_status g;
               tr = gst_tracker g
           in g\<lparr>gst_tracker := tr\<lparr>tg_over_since := None, tg_peak_temp_c := None\<rparr>,
                gst_status := (if tgs_active st \<and> \<not> tgs_caused_pause st
                               then default_guard_status else st)\<rparr>)"

definition guard_hot ::
  "(client_config \<Rightarrow> bool) \<Rightarrow> nat \<Rightarrow> nat \<Rightarrow> gpu_thermal_settings \<Rightarrow> nat \<Rightarrow> guard_state
     \<Rightarrow> guard_state \<times> notification list" where
  "guard_hot saved now unix settings temp g =
     (let tr = gst_tracker g;
          tr = (case tg_over_since tr of
                  None \<Rightarrow> tr\<lparr>tg_over_since := Some now, tg_peak_temp_c := Some temp\<rparr>
                | Some _ \<Rightarrow> tr\<lparr>tg_peak_temp_c :=
                    Some (case tg_peak_temp_c tr of Some p \<Rightarrow> max p temp | None \<Rightarrow> temp)\<rparr>);
          elapsed = (case tg_over_since tr of Some t \<Rightarrow> (now - t) div 1000 | None \<Rightarrow> 0)
      in if elapsed \<ge> gts_duration_secs settings \<and> \<not> tg_caused_pause tr
         then (case set_pause_all saved True (gst_config g) of (cfg, sent, res) \<Rightarrow>
                 (case res of
                    Inr _ \<Rightarrow>
                      (g\<lparr>gst_tracker := tr\<lparr>tg_caused_pause := True\<rparr>, gst_config := cfg,
                         gst_status :=
                           \<lparr>tgs_active = True, tgs_triggered_at = Some unix,
                            tgs_peak_temp_c = tg_peak_temp_c tr,
                            tgs_threshold_c = gts_threshold_c settings,
                            tgs_caused_pause = True\<rparr>\<rparr>, sent)
                  | Inl _ \<Rightarrow> (g\<lparr>gst_tracker := tr, gst_config := cfg\<rparr>, sent)))
         else (g\<lparr>gst_tracker := tr,
                 gst_status := (if \<not> tgs_active (gst_status g)
                    then (gst_status g)\<lparr>tgs_threshold_c := gts_threshold_c settings\<rparr>
                    else gst_status g)\<rparr>, []))"

definition guard_cool ::
  "(client_config \<Rightarrow> bool) \<Rightarrow> gpu_thermal_settings \<Rightarrow> guard_state
     \<Rightarrow> guard_state \<times> notification list" where
  "guard_cool saved settings g =
     (let tr = (gst_tracker g)\<lparr>tg_over_since := None, tg_peak_temp_c := None\<rparr>
      in if tg_caused_pause tr \<and> gts_auto_resume settings
         then (case set_pause_all saved False (gst_config g) of (cfg, sent, res) \<Rightarrow>
                 (case res of
                    Inr _ \<Rightarrow> (g\<lparr>gst_tracker := tr\<lparr>tg_caused_pause := False\<rparr>, gst_config := cfg,
                                 gst_status := default_guard_status\<rparr>, sent)
                  | Inl _ \<Rightarrow> (g\<lparr>gst_tracker := tr, gst_config := cfg\<rparr>, sent)))
         else if tg_caused_pause tr
         then (g\<lparr>gst_tracker := tr, gst_status := (gst_status g)\<lparr>tgs_active := False\<rparr>\<rparr>, [])
         else (g\<lparr>gst_tracker := tr\<rparr>, []))"

definition guard_evaluate ::
  "(client_config \<Rightarrow> bool) \<Rightarrow> nat \<Rightarrow> nat \<Rightarrow> gpu_host_status \<Rightarrow> client_config \<Rightarrow> guard_state
     \<Rightarrow> guard_state \<times> notification list" where
  "guard_evaluate saved now unix gpu cfg g =
     (let settings = effective_gpu_thermal_settings cfg
      in if \<not> gts_enabled settings \<or> \<not> gh_available gpu then (reset_if_inactive g, [])
         else (case max_temp_c gpu of
                 None \<Rightarrow> (g, [])
               | Some temp \<Rightarrow>
                   if temp \<ge> gts_threshold_c settings then guard_hot saved now unix settings temp g
                   else if temp \<le> gts_cooldown_c settings then guard_cool saved settings g
                   else (g\<lparr>gst_tracker := (gst_tracker g)\<lparr>tg_over_since := None\<rparr>\<rparr>, [])))"

text \<open>One turn of the monitor loop, with the configuration read just before \<open>evaluate\<close>.\<close>

definition guard_tick ::
  "(client_config \<Rightarrow> bool) \<Rightarrow> probe \<Rightarrow> guard_state \<Rightarrow> guard_state \<times> notification list" where
  "guard_tick saved p g =
     (case p of (now, unix, gpu) \<Rightarrow> guard_evaluate saved now unix gpu (gst_config g) g)"

text \<open>\<open>set_pause_all\<close> was called with \<open>True\<close> and its change was saved.\<close>

definition guard_pauses :: "(client_config \<Rightarrow> bool) \<Rightarrow> probe \<Rightarrow> guard_state \<Rightarrow> bool" where
  "guard_pauses saved p g =
     (\<not> tg_caused_pause (gst_tracker g)
      \<and> tg_caused_pause (gst_tracker (fst (guard_tick saved p g))))"

fun guard_run ::
  "(client_config \<Rightarrow> bool) \<Rightarrow> probe list \<Rightarrow> guard_state \<Rightarrow> guard_state \<times> notification list" where
  "guard_run saved [] g = (g, [])"
| "guard_run saved (p # ps) g =
     (case guard_tick saved p g of (g1, sent1) \<Rightarrow>
        case guard_run saved ps g1 of (g2, sent2) \<Rightarrow> (g2, sent1 @ sent2))"

text \<open>Readings of a probe against the threshold.\<close>

abbreviation guard_settings :: "guard_state \<Rightarrow> gpu_thermal_settings" where
  "guard_settings g \<equiv> effective_gpu_thermal_settings (gst_config g)"

definition probe_gpu :: "probe \<Rightarrow> gpu_host_status" where
  "probe_gpu p = snd (snd p)"

definition hot_probe :: "nat \<Rightarrow> probe \<Rightarrow> bool" where
  "hot_probe thr p = (gh_available (probe_gpu p) \<and>
     (case max_temp_c (probe_gpu p) of Some t \<Rightarrow> thr \<le> t | None \<Rightarrow> False))"

definition not_cooler :: "nat \<Rightarrow> probe \<Rightarrow> bool" where
  "not_cooler thr p = (gh_available (probe_gpu p) \<and>
     (case max_temp_c (probe_gpu p) of Some t \<Rightarrow> thr \<le> t | None \<Rightarrow> True))"

definition probe_temps :: "probe list \<Rightarrow> nat list" where
  "probe_temps ps = List.map_filter (\<lambda>p. max_temp_c (probe_gpu p)) ps"

definition everyone_paused :: "client_config \<Rightarrow> bool" where
  "everyone_paused cfg = (list_all (\<lambda>c. \<not> cluster_accepts_jobs c) (cfg_clusters cfg)
     \<and> list_all (\<lambda>s. \<not> swarm_accepts_jobs s) (cfg_swarms cfg))"

text \<open>Reachable states of the monitor loop: ticks in the order of the probes, and, between two
  ticks, any change of the configuration by the rest of the peer that keeps the thermal settings.\<close>

inductive guard_reach ::
  "(client_config \<Rightarrow> bool) \<Rightarrow> guard_state \<Rightarrow> probe list \<Rightarrow> guard_state \<Rightarrow> bool"
  for saved :: "client_config \<Rightarrow> bool" and g0 :: guard_state where
  reach_start: "guard_reach saved g0 [] g0"
| reach_tick: "guard_reach saved g0 ps g \<Longrightarrow> guard_reach saved g0 (ps @ [p]) (fst (guard_tick saved p g))"
| reach_config: "guard_reach saved g0 ps g \<Longrightarrow>
    effective_gpu_thermal_settings cfg = guard_settings g \<Longrightarrow>
    guard_reach saved g0 ps (g\<lparr>gst_config := cfg\<rparr>)"

lemma set_pause_all_cases:
  "(saved (fst (set_pause_all saved b cfg)) \<longrightarrow>
      set_pause_all saved b cfg = (fst (set_pause_all saved b cfg), [NotifyClusters, NotifySwarms], Inr ()))
   \<and> (\<not> saved (fst (set_pause_all saved b cfg)) \<longrightarrow>
      set_pause_all saved b cfg = (fst (set_pause_all saved b cfg), [], Inl ''save''))
   \<and> effective_gpu_thermal_settings (fst (set_pause_all saved b cfg)) = effective_gpu_thermal_settings cfg"
  by (simp add: set_pause_all_def save_and_notify_def effective_gpu_thermal_settings_def)

lemma set_pause_all_True_paused: "everyone_paused (fst (set_pause_all saved True cfg))"
  by (simp add: set_pause_all_def save_and_notify_def everyone_paused_def list_all_iff
      cluster_accepts_jobs_def swarm_accepts_jobs_def)

lemma pause_cfg_split:
  obtains cfg' sent res where "set_pause_all saved b cfg = (cfg', sent, res)"
    "cfg' = fst (set_pause_all saved b cfg)"
    "res = (if saved cfg' then Inr () else Inl ''save'')"
    "sent = (if saved cfg' then [NotifyClusters, NotifySwarms] else [])"
    "effective_gpu_thermal_settings cfg' = effective_gpu_thermal_settings cfg"
    "b \<Longrightarrow> everyone_paused cfg'"
  by (rule that [of "fst (set_pause_all saved b cfg)"
        "if saved (fst (set_pause_all saved b cfg)) then [NotifyClusters, NotifySwarms] else []"
        "if saved (fst (set_pause_all saved b cfg)) then Inr () else Inl ''save''"])
     (use set_pause_all_cases [of saved b cfg] set_pause_all_True_paused [of saved cfg] in
       \<open>cases b; simp\<close>)+

lemmas guard_defs = guard_tick_def guard_evaluate_def guard_hot_def guard_cool_def
  reset_if_inactive_def Let_def

text \<open>A tick never changes the thermal settings.\<close>

lemma tick_settings [simp]: "guard_settings (fst (guard_tick saved p g)) = guard_settings g"
proof -
  obtain now unix gpu where p: "p = (now, unix, gpu)" by (cases p)
  obtain c1 s1 r1 where 1: "set_pause_all saved True (gst_config g) = (c1, s1, r1)"
    "effective_gpu_thermal_settings c1 = guard_settings g" by (rule pause_cfg_split)
  obtain c2 s2 r2 where 2: "set_pause_all saved False (gst_config g) = (c2, s2, r2)"
    "effective_gpu_thermal_settings c2 = guard_settings g" by (rule pause_cfg_split)
  show ?thesis
    by (cases r1; cases r2; cases "tg_over_since (gst_tracker g)")
       (simp_all add: p guard_defs 1 2 split: option.split)
qed

lemma reach_settings: "guard_reach saved g0 ps g \<Longrightarrow> guard_settings g = guard_settings g0"
  by (induction rule: guard_reach.induct) simp_all

text \<open>What a tick does to the timer while the guard has not paused, by kind of probe.\<close>

definition heat_run :: "probe list \<Rightarrow> guard_state \<Rightarrow> bool" where
  "heat_run ps g =
     (\<exists>pre p0 rest. ps = pre @ p0 # rest
        \<and> tg_over_since (gst_tracker g) = Some (fst p0)
        \<and> hot_probe (gts_threshold_c (guard_settings g)) p0
        \<and> list_all (not_cooler (gts_threshold_c (guard_settings g))) rest
        \<and> tg_peak_temp_c (gst_tracker g) = Some (Max (set (probe_temps (p0 # rest)))))"

definition timer_inv :: "probe list \<Rightarrow> guard_state \<Rightarrow> bool" where
  "timer_inv ps g =
     (tg_over_since (gst_tracker g) = None \<or> tg_caused_pause (gst_tracker g) \<or> heat_run ps g)"

lemma heat_runI:
  "tg_over_since (gst_tracker g) = Some (fst p0) \<Longrightarrow> ps = pre @ p0 # rest \<Longrightarrow>
   hot_probe (gts_threshold_c (guard_settings g)) p0 \<Longrightarrow>
   list_all (not_cooler (gts_threshold_c (guard_settings g))) rest \<Longrightarrow>
   tg_peak_temp_c (gst_tracker g) = Some (Max (set (probe_temps (p0 # rest)))) \<Longrightarrow> heat_run ps g"
  unfolding heat_run_def by blast

lemma probe_temps_snoc:
  "probe_temps (ps @ [p]) = probe_temps ps @ (case max_temp_c (probe_gpu p) of None \<Rightarrow> [] | Some t \<Rightarrow> [t])"
  by (simp add: probe_temps_def List.map_filter_def split: option.split)

lemma hot_probe_temps: "hot_probe thr p \<Longrightarrow> probe_temps (p # ps) \<noteq> []"
  by (auto simp: hot_probe_def probe_temps_def List.map_filter_def split: option.splits)

lemma hot_tick_tracker:
  assumes "gts_enabled (guard_settings g)" "gh_available gpu" "max_temp_c gpu = Some temp"
    "gts_threshold_c (guard_settings g) \<le> temp"
  shows "tg_over_since (gst_tracker (fst (guard_tick saved (now, unix, gpu) g)))
        = Some (unwrap_or (tg_over_since (gst_tracker g)) now)
     \<and> tg_peak_temp_c (gst_tracker (fst (guard_tick saved (now, unix, gpu) g)))
        = Some (if tg_over_since (gst_tracker g) = None then temp
                else (case tg_peak_temp_c (gst_tracker g) of Some p \<Rightarrow> max p temp | None \<Rightarrow> temp))
     \<and> (tg_caused_pause (gst_tracker g) \<longrightarrow> tg_caused_pause (gst_tracker (fst (guard_tick saved (now, unix, gpu) g))))"
proof -
  obtain c1 s1 r1 where 1: "set_pause_all saved True (gst_config g) = (c1, s1, r1)" by (rule pause_cfg_split)
  show ?thesis using assms
    by (cases r1; cases "tg_over_since (gst_tracker g)")
       (simp_all add: guard_defs 1 split: option.split)
qed

lemma other_tick_tracker:
  assumes "\<not> (gts_enabled (guard_settings g) \<and> hot_probe (gts_threshold_c (guard_settings g)) p)"
  shows "tg_caused_pause (gst_tracker (fst (guard_tick saved p g))) \<longrightarrow> tg_caused_pause (gst_tracker g)"
    and "tg_over_since (gst_tracker (fst (guard_tick saved p g))) = None
       \<or> tg_caused_pause (gst_tracker (fst (guard_tick saved p g)))
       \<or> (not_cooler (gts_threshold_c (guard_settings g)) p \<and> max_temp_c (probe_gpu p) = None
          \<and> gst_tracker (fst (guard_tick saved p g)) = gst_tracker g)"
proof -
  obtain now unix gpu where p: "p = (now, unix, gpu)" by (cases p)
  obtain c2 s2 r2 where 2: "set_pause_all saved False (gst_config g) = (c2, s2, r2)" by (rule pause_cfg_split)
  show "tg_caused_pause (gst_tracker (fst (guard_tick saved p g))) \<longrightarrow> tg_caused_pause (gst_tracker g)"
    using assms
    by (cases r2) (auto simp: p guard_defs 2 hot_probe_def probe_gpu_def split: option.splits)
  show "tg_over_since (gst_tracker (fst (guard_tick saved p g))) = None
       \<or> tg_caused_pause (gst_tracker (fst (guard_tick saved p g)))
       \<or> (not_cooler (gts_threshold_c (guard_settings g)) p \<and> max_temp_c (probe_gpu p) = None
          \<and> gst_tracker (fst (guard_tick saved p g)) = gst_tracker g)"
    using assms
    by (cases r2) (auto simp: p guard_defs 2 hot_probe_def not_cooler_def probe_gpu_def split: option.splits)
qed

lemma hot_tick_run:
  assumes "gts_enabled (guard_settings g)" "hot_probe (gts_threshold_c (guard_settings g)) p"
    and "timer_inv ps g" "\<not> tg_caused_pause (gst_tracker g)"
  shows "heat_run (ps @ [p]) (fst (guard_tick saved p g))"
proof -
  obtain now unix gpu where p: "p = (now, unix, gpu)" by (cases p)
  from assms(2) obtain temp where t: "gh_available gpu" "max_temp_c gpu = Some temp"
      "gts_threshold_c (guard_settings g) \<le> temp"
    by (auto simp: hot_probe_def p probe_gpu_def split: option.splits)
  note h = hot_tick_tracker [OF assms(1) t, of saved now unix]
  have nc: "not_cooler (gts_threshold_c (guard_settings g)) p"
    using assms(2) by (auto simp: hot_probe_def not_cooler_def split: option.splits)
  show ?thesis
  proof (cases "tg_over_since (gst_tracker g)")
    case None
    have "probe_temps [p] = [temp]" by (simp add: probe_temps_def List.map_filter_def p probe_gpu_def t)
    with None h assms(2) show ?thesis by (intro heat_runI [of _ p _ ps "[]"]) (simp_all add: p)
  next
    case (Some t0)
    with assms(3,4) obtain pre p0 rest where r: "ps = pre @ p0 # rest" "t0 = fst p0"
      "hot_probe (gts_threshold_c (guard_settings g)) p0"
      "list_all (not_cooler (gts_threshold_c (guard_settings g))) rest"
      "tg_peak_temp_c (gst_tracker g) = Some (Max (set (probe_temps (p0 # rest))))"
      by (auto simp: timer_inv_def heat_run_def)
    have "Max (set (probe_temps (p0 # rest @ [p]))) = max (Max (set (probe_temps (p0 # rest)))) temp"
      using hot_probe_temps [OF r(3), of rest] probe_temps_snoc [of "p0 # rest" p]
      by (simp add: p probe_gpu_def t max.commute)
    with h Some r nc show ?thesis
      by (intro heat_runI [of _ p0 _ pre "rest @ [p]"]) (simp_all add: p)
  qed
qed

lemma hot_tick_keeps_caused:
  assumes "gts_enabled (guard_settings g)" "hot_probe (gts_threshold_c (guard_settings g)) p"
    and "tg_caused_pause (gst_tracker g)"
  shows "tg_caused_pause (gst_tracker (fst (guard_tick saved p g)))"
proof -
  obtain now unix gpu where p: "p = (now, unix, gpu)" by (cases p)
  from assms(2) obtain temp where t: "gh_available gpu" "max_temp_c gpu = Some temp"
      "gts_threshold_c (guard_settings g) \<le> temp"
    by (auto simp: hot_probe_def p probe_gpu_def split: option.splits)
  show ?thesis using hot_tick_tracker [OF assms(1) t] assms(3) by (simp add: p)
qed

lemma timer_inv_tick:
  assumes "timer_inv ps g"
  shows "timer_inv (ps @ [p]) (fst (guard_tick saved p g))"
proof (cases "gts_enabled (guard_settings g) \<and> hot_probe (gts_threshold_c (guard_settings g)) p")
  case True
  then show ?thesis
    using hot_tick_run [OF _ _ assms, of p saved] hot_tick_keeps_caused [of g p saved]
    unfolding timer_inv_def by blast
next
  case False
  note o = other_tick_tracker [OF False, of saved]
  show ?thesis
  proof (cases "tg_over_since (gst_tracker (fst (guard_tick saved p g))) = None
      \<or> tg_caused_pause (gst_tracker (fst (guard_tick saved p g)))")
    case True
    then show ?thesis by (auto simp: timer_inv_def)
  next
    case F: False
    with o(2) have n: "not_cooler (gts_threshold_c (guard_settings g)) p" "max_temp_c (probe_gpu p) = None"
      "gst_tracker (fst (guard_tick saved p g)) = gst_tracker g" by auto
    with F assms obtain pre p0 rest where r: "tg_over_since (gst_tracker g) = Some (fst p0)"
        "ps = pre @ p0 # rest"
        "hot_probe (gts_threshold_c (guard_settings g)) p0"
        "list_all (not_cooler (gts_threshold_c (guard_settings g))) rest"
        "tg_peak_temp_c (gst_tracker g) = Some (Max (set (probe_temps (p0 # rest))))"
      by (auto simp: timer_inv_def heat_run_def)
    have "probe_temps (p0 # rest @ [p]) = probe_temps (p0 # rest)"
      using probe_temps_snoc [of "p0 # rest" p] n(2) by simp
    with r n have "heat_run (ps @ [p]) (fst (guard_tick saved p g))"
      by (intro heat_runI [of _ p0 _ pre "rest @ [p]"]) simp_all
    then show ?thesis by (simp add: timer_inv_def)
  qed
qed

lemma reach_timer_inv:
  "guard_reach saved g0 ps g \<Longrightarrow> tg_over_since (gst_tracker g0) = None \<Longrightarrow> timer_inv ps g"
proof (induction rule: guard_reach.induct)
  case (reach_config ps g cfg)
  then show ?case by (auto simp: timer_inv_def heat_run_def)
qed (simp_all add: timer_inv_tick, simp add: timer_inv_def)

text \<open>What a tick that pauses does.\<close>

lemma pausing_tick:
  assumes "guard_pauses saved p g"
  shows "gts_enabled (guard_settings g) \<and> hot_probe (gts_threshold_c (guard_settings g)) p
    \<and> gts_duration_secs (guard_settings g) \<le> (fst p - unwrap_or (tg_over_since (gst_tracker g)) (fst p)) div 1000
    \<and> everyone_paused (gst_config (fst (guard_tick saved p g)))
    \<and> snd (guard_tick saved p g) = [NotifyClusters, NotifySwarms]
    \<and> tgs_active (gst_status (fst (guard_tick saved p g)))
    \<and> tgs_peak_temp_c (gst_status (fst (guard_tick saved p g)))
        = tg_peak_temp_c (gst_tracker (fst (guard_tick saved p g)))"
proof -
  obtain now unix gpu where p: "p = (now, unix, gpu)" by (cases p)
  have hot: "gts_enabled (guard_settings g) \<and> hot_probe (gts_threshold_c (guard_settings g)) p"
    using assms other_tick_tracker(1) [of g p saved] unfolding guard_pauses_def by blast
  then obtain temp where t: "gh_available gpu" "max_temp_c gpu = Some temp"
      "gts_threshold_c (guard_settings g) \<le> temp"
    by (auto simp: hot_probe_def p probe_gpu_def split: option.splits)
  obtain c1 s1 r1 where 1: "set_pause_all saved True (gst_config g) = (c1, s1, r1)"
    "r1 = (if saved c1 then Inr () else Inl ''save'')"
    "s1 = (if saved c1 then [NotifyClusters, NotifySwarms] else [])"
    "everyone_paused c1" by (rule pause_cfg_split [of saved True]) auto
  show ?thesis using assms hot t
    by (cases "tg_over_since (gst_tracker g)"; cases "saved c1")
       (auto simp: guard_pauses_def p guard_defs 1(1) 1(2) 1(3) 1(4) split: if_splits)
qed


section \<open>Runs of the guard\<close>

definition paused_ok :: "guard_state \<Rightarrow> bool" where
  "paused_ok g = (tg_caused_pause (gst_tracker g) \<longrightarrow> everyone_paused (gst_config g) \<and> tgs_active (gst_status g))"

lemma hot_tick_live:
  assumes "gts_enabled (guard_settings g)" "hot_probe (gts_threshold_c (guard_settings g)) p"
  shows "tg_over_since (gst_tracker (fst (guard_tick (\<lambda>_. True) p g)))
           = Some (unwrap_or (tg_over_since (gst_tracker g)) (fst p))
     \<and> (paused_ok g \<longrightarrow> paused_ok (fst (guard_tick (\<lambda>_. True) p g)))
     \<and> (gts_duration_secs (guard_settings g)
          \<le> (fst p - unwrap_or (tg_over_since (gst_tracker g)) (fst p)) div 1000
        \<longrightarrow> tg_caused_pause (gst_tracker (fst (guard_tick (\<lambda>_. True) p g))))"
proof -
  obtain now unix gpu where p: "p = (now, unix, gpu)" by (cases p)
  from assms(2) obtain temp where t: "gh_available gpu" "max_temp_c gpu = Some temp"
      "gts_threshold_c (guard_settings g) \<le> temp"
    by (auto simp: hot_probe_def p probe_gpu_def split: option.splits)
  obtain c1 where 1: "set_pause_all (\<lambda>_. True) True (gst_config g) = (c1, [NotifyClusters, NotifySwarms], Inr ())"
      "everyone_paused c1"
    using set_pause_all_cases [of "\<lambda>_. True" True "gst_config g"]
      set_pause_all_True_paused [of "\<lambda>_. True" "gst_config g"] that by blast
  show ?thesis using assms t
    by (cases "tg_over_since (gst_tracker g)"; cases "tg_caused_pause (gst_tracker g)")
       (simp_all add: paused_ok_def p guard_defs 1)
qed

lemma guard_run_Cons:
  "fst (guard_run saved (p # ps) g) = fst (guard_run saved ps (fst (guard_tick saved p g)))"
  "snd (guard_run saved (p # ps) g) =
     snd (guard_tick saved p g) @ snd (guard_run saved ps (fst (guard_tick saved p g)))"
  by (simp_all split: prod.split)

lemma guard_run_append:
  "fst (guard_run saved (ps @ qs) g) = fst (guard_run saved qs (fst (guard_run saved ps g)))"
  by (induction ps arbitrary: g) (simp_all add: guard_run_Cons del: guard_run.simps(2))

lemma run_settings [simp]: "guard_settings (fst (guard_run saved ps g)) = guard_settings g"
  by (induction ps arbitrary: g) (simp_all add: guard_run_Cons del: guard_run.simps(2))

lemma hot_run_live:
  assumes "gts_enabled (guard_settings g)" "list_all (hot_probe (gts_threshold_c (guard_settings g))) ps"
    and "ps \<noteq> []" "paused_ok g"
    and "gts_duration_secs (guard_settings g)
      \<le> (fst (last ps) - unwrap_or (tg_over_since (gst_tracker g)) (fst (hd ps))) div 1000"
  shows "tg_caused_pause (gst_tracker (fst (guard_run (\<lambda>_. True) ps g)))
     \<and> paused_ok (fst (guard_run (\<lambda>_. True) ps g))"
  using assms
proof (induction ps arbitrary: g)
  case (Cons p ps)
  note t = hot_tick_live [of g p]
  show ?case
  proof (cases "ps = []")
    case True
    with t Cons.prems show ?thesis by (simp add: guard_run_Cons del: guard_run.simps(2))
  next
    case False
    with t Cons.prems Cons.IH [of "fst (guard_tick (\<lambda>_. True) p g)"]
    show ?thesis by (simp add: guard_run_Cons del: guard_run.simps(2))
  qed
qed simp

definition cool_probe :: "gpu_thermal_settings \<Rightarrow> probe \<Rightarrow> bool" where
  "cool_probe st p = (gh_available (probe_gpu p) \<and>
     (case max_temp_c (probe_gpu p) of
        Some t \<Rightarrow> t < gts_threshold_c st \<and> t \<le> gts_cooldown_c st | None \<Rightarrow> False))"

lemma cool_tick_resumes:
  assumes "gts_enabled (guard_settings g)" "gts_auto_resume (guard_settings g)"
    and "cool_probe (guard_settings g) p" "tg_caused_pause (gst_tracker g)"
  shows "gst_tracker (fst (guard_tick (\<lambda>_. True) p g)) = thermal_tracker_default
     \<and> gst_status (fst (guard_tick (\<lambda>_. True) p g)) = default_guard_status
     \<and> gst_config (fst (guard_tick (\<lambda>_. True) p g)) = fst (set_pause_all (\<lambda>_. True) False (gst_config g))"
proof -
  obtain now unix gpu where p: "p = (now, unix, gpu)" by (cases p)
  obtain c1 where 1: "set_pause_all (\<lambda>_. True) False (gst_config g) = (c1, [NotifyClusters, NotifySwarms], Inr ())"
    using set_pause_all_cases [of "\<lambda>_. True" False "gst_config g"] that by blast
  from assms(3) obtain temp where t: "gh_available gpu" "max_temp_c gpu = Some temp"
      "temp < gts_threshold_c (guard_settings g)" "temp \<le> gts_cooldown_c (guard_settings g)"
    by (auto simp: cool_probe_def p probe_gpu_def split: option.splits)
  show ?thesis using assms(1,2,4) t
    by (simp add: p guard_defs 1 thermal_tracker_default_def)
qed

text \<open>C36: A card that stays hot is acted on, and the peer comes back. From a state in which the
  guard has not triggered, a run of readings at or over the threshold that spans \<open>duration_secs\<close>
  always ends with every membership paused and the guard reported active; the first reading at or
  below the cooldown then, with \<open>auto_resume\<close>, clears the guard completely and lets every membership
  accept jobs again.\<close>

theorem guard_pauses_then_resumes:
  assumes "gst_tracker g = thermal_tracker_default" "gts_enabled (guard_settings g)"
    and "list_all (hot_probe (gts_threshold_c (guard_settings g))) ps" "ps \<noteq> []"
    and "gts_duration_secs (guard_settings g) \<le> (fst (last ps) - fst (hd ps)) div 1000"
    and "gts_auto_resume (guard_settings g)" "cool_probe (guard_settings g) p"
  shows "everyone_paused (gst_config (fst (guard_run (\<lambda>_. True) ps g)))
     \<and> tgs_active (gst_status (fst (guard_run (\<lambda>_. True) ps g)))
     \<and> gst_tracker (fst (guard_run (\<lambda>_. True) (ps @ [p]) g)) = thermal_tracker_default
     \<and> gst_status (fst (guard_run (\<lambda>_. True) (ps @ [p]) g)) = default_guard_status
     \<and> list_all cluster_accepts_jobs (cfg_clusters (gst_config (fst (guard_run (\<lambda>_. True) (ps @ [p]) g))))
     \<and> list_all swarm_accepts_jobs (cfg_swarms (gst_config (fst (guard_run (\<lambda>_. True) (ps @ [p]) g))))"
proof -
  let ?g = "fst (guard_run (\<lambda>_. True) ps g)"
  have run: "tg_caused_pause (gst_tracker ?g) \<and> paused_ok ?g"
    using assms by (intro hot_run_live) (simp_all add: thermal_tracker_default_def paused_ok_def)
  have tick: "fst (guard_run (\<lambda>_. True) (ps @ [p]) g) = fst (guard_tick (\<lambda>_. True) p ?g)"
    by (simp add: guard_run_append guard_run_Cons del: guard_run.simps(2))
  from run assms have c: "gst_tracker (fst (guard_tick (\<lambda>_. True) p ?g)) = thermal_tracker_default
     \<and> gst_status (fst (guard_tick (\<lambda>_. True) p ?g)) = default_guard_status
     \<and> gst_config (fst (guard_tick (\<lambda>_. True) p ?g)) = fst (set_pause_all (\<lambda>_. True) False (gst_config ?g))"
    by (intro cool_tick_resumes) simp_all
  show ?thesis unfolding tick using run c
    by (simp add: paused_ok_def set_pause_all_def save_and_notify_def list_all_iff
        cluster_accepts_jobs_def swarm_accepts_jobs_def)
qed

lemma latched_tick:
  assumes "tg_caused_pause (gst_tracker g)" "\<not> gts_auto_resume (guard_settings g)"
  shows "tg_caused_pause (gst_tracker (fst (guard_tick saved p g)))
     \<and> gst_config (fst (guard_tick saved p g)) = gst_config g \<and> snd (guard_tick saved p g) = []"
proof -
  obtain now unix gpu where p: "p = (now, unix, gpu)" by (cases p)
  show ?thesis using assms
    by (cases "tg_over_since (gst_tracker g)") (auto simp: p guard_defs split: option.split)
qed

text \<open>With \<open>auto_resume\<close> off, a guard that has paused the peer once never acts again. Whatever
  configuration it meets afterwards (for instance after the user resumed by hand) and whatever the
  probes report, the configuration is left alone, nobody is notified, and the flag that blocks a
  second pause stays set: a cold card clears the timer and the reported status but not that flag.\<close>

theorem guard_never_pauses_twice_without_auto_resume:
  assumes "tg_caused_pause (gst_tracker g)" "\<not> gts_auto_resume (guard_settings g)"
  shows "gst_config (fst (guard_run saved ps g)) = gst_config g
     \<and> snd (guard_run saved ps g) = []
     \<and> tg_caused_pause (gst_tracker (fst (guard_run saved ps g)))"
  using assms
proof (induction ps arbitrary: g)
  case (Cons p ps)
  note t = latched_tick [OF Cons.prems, of saved p]
  with Cons.IH [of "fst (guard_tick saved p g)"] Cons.prems
  show ?case by (simp add: guard_run_Cons del: guard_run.simps(2))
qed simp

section \<open>Aggregating the devices of a host\<close>

definition unavailable_gpu_status :: "nat \<Rightarrow> gpu_host_status" where
  "unavailable_gpu_status unix =
     \<lparr>gh_available = False, gh_utilization_pct = 0, gh_memory_used_mb = 0, gh_memory_total_mb = 0,
      gh_memory_free_mb = 0, gh_name = None, gh_producer = None, gh_architecture = None,
      gh_driver_version = None, gh_cuda_version = None, gh_device_count = None,
      gh_temperature_c = None, gh_memory_utilization_pct = None, gh_power_draw_w = None,
      gh_source = Some ''unavailable'', gh_sampled_at_unix = Some unix, gh_devices = None\<rparr>"

text \<open>\<open>to_uppercase\<close> is Unicode's; only its table is left open, as the argument \<open>up\<close>.\<close>

definition infer_producer :: "(string \<Rightarrow> string) \<Rightarrow> string \<Rightarrow> string option \<Rightarrow> string option" where
  "infer_producer up name runner =
     (let upper = up name;
          runner_has = (\<lambda>t. case runner of Some r \<Rightarrow> contains_str t r | None \<Rightarrow> False)
      in if contains_str ''NVIDIA'' upper \<or> runner_has ''cuda'' then Some ''NVIDIA''
         else if contains_str ''AMD'' upper \<or> contains_str ''RADEON'' upper \<or> runner_has ''rocm''
         then Some ''AMD''
         else if contains_str ''INTEL'' upper then Some ''Intel''
         else if contains_str ''APPLE'' upper \<or> contains_str ''M1'' upper \<or> contains_str ''M2'' upper
           \<or> contains_str ''M3'' upper \<or> contains_str ''M4'' upper then Some ''Apple''
         else None)"

text \<open>Sums are \<open>u64\<close>/\<open>u32\<close> additions, which wrap in a release build.\<close>

definition avg_optional_u8 :: "nat list \<Rightarrow> nat option" where
  "avg_optional_u8 values =
     (let count = length values;
          total = fold (\<lambda>v acc. wrap_add64 acc v) values 0
      in if count = 0 then None else Some (as_u8 (min (total div count) 255)))"

definition pct_from_used_total :: "nat \<Rightarrow> nat \<Rightarrow> nat" where
  "pct_from_used_total used tot =
     (if tot = 0 then 0 else as_u8 (min (wrap_mul64 used 100 div tot) 100))"

definition parse_optional_uint :: "nat \<Rightarrow> string \<Rightarrow> nat option" where
  "parse_optional_uint M raw =
     (let trimmed = trim raw
      in if trimmed = [] \<or> eq_ignore_ascii_case trimmed ''[N/A]'' \<or> trimmed = ''N/A'' then None
         else parse_uint M trimmed)"

definition parse_optional_u8 :: "string \<Rightarrow> nat option" where
  "parse_optional_u8 raw = parse_optional_uint u8_max raw"

definition parse_optional_u32 :: "string \<Rightarrow> nat option" where
  "parse_optional_u32 raw = parse_optional_uint u32_max raw"

definition host_producer_from_devices ::
  "(string \<Rightarrow> string) \<Rightarrow> gpu_device_info list \<Rightarrow> string list \<Rightarrow> string option" where
  "host_producer_from_devices up devices names =
     (let producers = List.map_filter gd_producer devices;
          producers = (if producers = [] then List.map_filter (\<lambda>n. infer_producer up n None) names
                       else producers);
          unique = remdups producers
      in if unique = [] then None
         else if length unique = 1 then Some (hd unique) else Some ''Mixed'')"

fun join_with :: "string \<Rightarrow> string list \<Rightarrow> string" where
  "join_with sep [] = []"
| "join_with sep [x] = x"
| "join_with sep (x # y # xs) = x @ sep @ join_with sep (y # xs)"

definition sum_u64 :: "nat list \<Rightarrow> nat" where
  "sum_u64 xs = fold (\<lambda>v acc. wrap_add64 acc v) xs 0"

definition sum_u32 :: "nat list \<Rightarrow> nat" where
  "sum_u32 xs = fold (\<lambda>v acc. wrap_add32 acc v) xs 0"

definition aggregate_gpu_devices ::
  "(string \<Rightarrow> string) \<Rightarrow> nat \<Rightarrow> gpu_device_info list \<Rightarrow> string option \<Rightarrow> string \<Rightarrow> gpu_host_status" where
  "aggregate_gpu_devices up unix devices cuda_version source =
     (let device_count = as_u8 (min (length devices) u8_max);
          used = sum_u64 (map gd_memory_used_mb devices);
          total = sum_u64 (map gd_memory_total_mb devices);
          power_total = sum_u32 (List.map_filter gd_power_draw_w devices);
          names = map gd_name devices
      in \<lparr>gh_available = True,
          gh_utilization_pct =
            (if device_count > 0
             then as_u8 (sum_u64 (map gd_utilization_pct devices) div device_count) else 0),
          gh_memory_used_mb = used,
          gh_memory_total_mb = total,
          gh_memory_free_mb = sat_sub total used,
          gh_name = (if names = [] then None else Some (join_with '', '' names)),
          gh_producer = host_producer_from_devices up devices names,
          gh_architecture = map_option (\<lambda>d. the (gd_architecture d))
            (find (\<lambda>d. gd_architecture d \<noteq> None) devices),
          gh_driver_version = map_option (\<lambda>d. the (gd_driver_version d))
            (find (\<lambda>d. gd_driver_version d \<noteq> None) devices),
          gh_cuda_version = cuda_version,
          gh_device_count = Some device_count,
          gh_temperature_c = avg_optional_u8 (List.map_filter gd_temperature_c devices),
          gh_memory_utilization_pct =
            (if total > 0 then Some (as_u8 (min (wrap_mul64 used 100 div total) 100)) else None),
          gh_power_draw_w = (if power_total = 0 then None else Some power_total),
          gh_source = Some source,
          gh_sampled_at_unix = Some unix,
          gh_devices = Some devices\<rparr>)"

text \<open>\<open>statuses.pop().unwrap()\<close> on the single status, otherwise all devices renumbered.\<close>

definition merge_vendor_statuses ::
  "(string \<Rightarrow> string) \<Rightarrow> nat \<Rightarrow> gpu_host_status list \<Rightarrow> gpu_host_status" where
  "merge_vendor_statuses up unix statuses =
     (case statuses of
        [s] \<Rightarrow> s
      | _ \<Rightarrow>
         (let sources = List.map_filter gh_source statuses;
              cuda_version = (case List.map_filter gh_cuda_version statuses of [] \<Rightarrow> None | v # _ \<Rightarrow> Some v);
              devices = concat (List.map_filter gh_devices statuses);
              devices = map (\<lambda>(idx, d). d\<lparr>gd_index := as_u8 (min idx u8_max)\<rparr>) (List.enumerate 0 devices);
              source = join_with ''+'' sources
          in (aggregate_gpu_devices up unix devices cuda_version source)\<lparr>gh_source := Some source\<rparr>))"

lemma sum_u64_mod: "sum_u64 xs = sum_list xs mod 2 ^ 64"
proof -
  have "fold (\<lambda>v acc. wrap_add64 acc v) xs a mod 2 ^ 64 = (a + sum_list xs) mod 2 ^ 64" for a
    by (induction xs arbitrary: a) (simp_all add: wrap_add64_def mod_add_left_eq add.assoc)
  moreover have "fold (\<lambda>v acc. wrap_add64 acc v) xs 0 < 2 ^ 64"
    by (induction xs rule: rev_induct) (simp_all add: wrap_add64_def)
  ultimately show ?thesis unfolding sum_u64_def by (metis mod_less add_0)
qed

lemma sum_list_le_mult: "\<forall>x\<in>set xs. x \<le> (b::nat) \<Longrightarrow> sum_list xs \<le> b * length xs"
  by (induction xs) auto

lemma sum_list_ge_mult: "\<forall>x\<in>set xs. (b::nat) \<le> x \<Longrightarrow> b * length xs \<le> sum_list xs"
  by (induction xs) auto

lemma average_between:
  assumes "xs \<noteq> []" "\<forall>x\<in>set xs. lo \<le> x \<and> x \<le> (hi::nat)"
  shows "lo \<le> sum_list xs div length xs \<and> sum_list xs div length xs \<le> hi"
proof -
  have "length xs > 0" using assms(1) by simp
  moreover have "sum_list xs \<le> hi * length xs" "lo * length xs \<le> sum_list xs"
    using assms(2) by (auto intro: sum_list_le_mult sum_list_ge_mult)
  ultimately show ?thesis
    by (metis div_le_mono div_mult_self_is_m less_imp_neq)
qed

lemma sum_map_mono: "\<forall>d\<in>set ds. f d \<le> (g d :: nat) \<Longrightarrow> sum_list (map f ds) \<le> sum_list (map g ds)"
  by (induction ds) auto

text \<open>With at most 255 devices, each reporting a percentage and no more memory used than it has,
  the host status is a true aggregate: the utilisation is the floor of the mean and stays within
  any bounds the devices' values share, used plus free memory is the total, and the memory
  percentage is at most 100.\<close>

theorem aggregate_is_mean:
  assumes "devices \<noteq> []" "length devices \<le> 255"
    and "\<forall>d\<in>set devices. lo \<le> gd_utilization_pct d \<and> gd_utilization_pct d \<le> hi"
    and "hi \<le> 255"
    and "\<forall>d\<in>set devices. gd_memory_used_mb d \<le> gd_memory_total_mb d"
    and "sum_list (map gd_memory_total_mb devices) < 2 ^ 57"
  shows "gh_utilization_pct (aggregate_gpu_devices up unix devices cuda src)
        = sum_list (map gd_utilization_pct devices) div length devices
    \<and> lo \<le> gh_utilization_pct (aggregate_gpu_devices up unix devices cuda src)
    \<and> gh_utilization_pct (aggregate_gpu_devices up unix devices cuda src) \<le> hi
    \<and> gh_memory_used_mb (aggregate_gpu_devices up unix devices cuda src)
       + gh_memory_free_mb (aggregate_gpu_devices up unix devices cuda src)
      = sum_list (map gd_memory_total_mb devices)
    \<and> pred_option (\<lambda>pct. pct \<le> 100)
        (gh_memory_utilization_pct (aggregate_gpu_devices up unix devices cuda src))"
proof -
  let ?u = "map gd_utilization_pct devices"
  have n: "as_u8 (min (length devices) u8_max) = length devices"
    using assms(2) by (simp add: as_u8_def u8_max_def)
  have avg: "lo \<le> sum_list ?u div length devices" "sum_list ?u div length devices \<le> hi"
    using average_between [of ?u lo hi] assms(1,3) by auto
  have "sum_list ?u \<le> hi * length devices" using sum_list_le_mult [of ?u hi] assms(3) by simp
  also have "\<dots> \<le> 255 * 255" using assms(2,4) by (intro mult_mono) auto
  finally have u: "sum_u64 ?u = sum_list ?u" by (simp add: sum_u64_mod)
  have le: "sum_list (map gd_memory_used_mb devices) \<le> sum_list (map gd_memory_total_mb devices)"
    using assms(5) by (rule sum_map_mono)
  then have m: "sum_u64 (map gd_memory_used_mb devices) = sum_list (map gd_memory_used_mb devices)"
    "sum_u64 (map gd_memory_total_mb devices) = sum_list (map gd_memory_total_mb devices)"
    using assms(6) by (simp_all add: sum_u64_mod)
  have "as_u8 (sum_list ?u div length devices) = sum_list ?u div length devices"
    using avg assms(4) by (simp add: as_u8_def)
  then show ?thesis
    using assms(1) avg n u m le
    by (simp add: aggregate_gpu_devices_def Let_def sat_sub_def as_u8_def)
qed

section \<open>The properties at concrete inputs\<close>

definition gpu_at :: "nat \<Rightarrow> gpu_host_status" where
  "gpu_at t = (unavailable_gpu_status 0)\<lparr>gh_available := True, gh_temperature_c := Some t\<rparr>"

definition fresh_guard :: guard_state where
  "fresh_guard = \<lparr>gst_tracker = thermal_tracker_default, gst_config = default_client_config,
     gst_status = default_guard_status\<rparr>"

lemma fresh_settings [simp]:
  "guard_settings fresh_guard = \<lparr>gts_enabled = True, gts_threshold_c = 85, gts_duration_secs = 60,
     gts_cooldown_c = 75, gts_auto_resume = True\<rparr>"
  by (simp add: fresh_guard_def default_client_config_def effective_gpu_thermal_settings_def)

lemma fresh_tracker [simp]: "gst_tracker fresh_guard = thermal_tracker_default"
  by (simp add: fresh_guard_def)

lemma probe_at [simp]:
  "hot_probe thr (now, unix, gpu_at t) \<longleftrightarrow> thr \<le> t"
  "cool_probe st (now, unix, gpu_at t) \<longleftrightarrow> t < gts_threshold_c st \<and> t \<le> gts_cooldown_c st"
  by (simp_all add: hot_probe_def cool_probe_def probe_gpu_def gpu_at_def unavailable_gpu_status_def max_temp_c_def)

theorem guard_pauses_then_resumes_witness:
  "everyone_paused (gst_config (fst (guard_run (\<lambda>_. True) [(0, 0, gpu_at 90), (60000, 60, gpu_at 91)] fresh_guard)))
   \<and> gst_tracker (fst (guard_run (\<lambda>_. True) ([(0, 0, gpu_at 90), (60000, 60, gpu_at 91)] @ [(70000, 70, gpu_at 60)]) fresh_guard))
       = thermal_tracker_default"
  using guard_pauses_then_resumes [of fresh_guard "[(0, 0, gpu_at 90), (60000, 60, gpu_at 91)]" "(70000, 70, gpu_at 60)"]
  by simp


theorem guard_never_pauses_twice_without_auto_resume_witness:
  "snd (guard_run (\<lambda>_. True) [(0, 0, gpu_at 60), (1000, 1, gpu_at 99), (200000, 200, gpu_at 99)]
     (fresh_guard\<lparr>gst_tracker := thermal_tracker_default\<lparr>tg_caused_pause := True\<rparr>,
        gst_config := default_client_config\<lparr>cfg_gpu_thermal_auto_resume := Some False\<rparr>\<rparr>)) = []"
  by (rule guard_never_pauses_twice_without_auto_resume [THEN conjunct2, THEN conjunct1])
     (simp_all add: effective_gpu_thermal_settings_def)

definition device_with :: "nat \<Rightarrow> nat \<Rightarrow> gpu_device_info" where
  "device_with util used =
     \<lparr>gd_index = 0, gd_name = ''GPU'', gd_producer = None, gd_architecture = None,
      gd_driver_version = None, gd_pci_bus_id = None, gd_utilization_pct = util,
      gd_memory_utilization_pct = None, gd_memory_used_mb = used, gd_memory_total_mb = 8000,
      gd_temperature_c = None, gd_power_draw_w = None, gd_power_limit_w = None, gd_fan_speed_pct = None\<rparr>"

theorem aggregate_is_mean_witness:
  "gh_utilization_pct (aggregate_gpu_devices id 0 [device_with 10 1000, device_with 81 2000] None ''x'') = 45"
  using aggregate_is_mean [of "[device_with 10 1000, device_with 81 2000]" 10 81 id 0 None "''x''"]
  by (simp add: device_with_def flip: numeral_2_eq_2)

end
