(* ===== verification/Peer_Stats.thy ===== *)
theory Peer_Stats
  imports Complex_Main Rust_Str
begin

text \<open>
  \<open>peer_stats.rs\<close>: the per-peer traffic accounting behind the dashboard and its warnings. The
  tracker keeps two maps, the accumulators by peer and the exchanges in flight by request id; an
  \<open>Instant\<close> is milliseconds of the monotonic clock and \<open>unix_now()\<close> an argument.

  \<open>f64\<close> values: \<open>requests_per_min\<close> and the error ratio are quotients of integers below 129, where
  IEEE arithmetic and its comparison with \<open>30.0\<close> and \<open>0.5\<close> are exact; \<open>tokens_per_sec\<close> is the
  exact quotient, before rounding.
\<close>

definition ROLLING_WINDOW_SECS :: nat where "ROLLING_WINDOW_SECS = 60"
definition TOKEN_SAMPLE_CAP :: nat where "TOKEN_SAMPLE_CAP = 128"
definition REQUEST_TS_CAP :: nat where "REQUEST_TS_CAP = 128"
definition RECENT_OUTCOMES_CAP :: nat where "RECENT_OUTCOMES_CAP = 10"
definition HIGH_REQUEST_RATE_PER_MIN :: nat where "HIGH_REQUEST_RATE_PER_MIN = 30"
definition MIN_REQUESTS_FOR_ERROR_RATE :: nat where "MIN_REQUESTS_FOR_ERROR_RATE = 3"
definition LARGE_PAYLOAD_BYTES :: nat where "LARGE_PAYLOAD_BYTES = 400 * 1024"
definition SLOW_RESPONSE_MS :: nat where "SLOW_RESPONSE_MS = 120000"
definition MIN_REQUESTS_FOR_SLOW :: nat where "MIN_REQUESTS_FOR_SLOW = 3"

lemmas stats_consts = ROLLING_WINDOW_SECS_def TOKEN_SAMPLE_CAP_def REQUEST_TS_CAP_def
  RECENT_OUTCOMES_CAP_def HIGH_REQUEST_RATE_PER_MIN_def MIN_REQUESTS_FOR_ERROR_RATE_def
  LARGE_PAYLOAD_BYTES_def SLOW_RESPONSE_MS_def MIN_REQUESTS_FOR_SLOW_def

record active_exchange =
  ax_peer_id :: string
  ax_model :: string
  ax_started_at :: nat
  ax_bytes_sent :: nat
  ax_bytes_received :: nat
  ax_last_partial_tokens :: nat

record peer_accum =
  pa_session_tokens :: nat
  pa_total_requests :: nat
  pa_total_errors :: nat
  pa_active_requests :: nat
  pa_bytes_sent :: nat
  pa_bytes_received :: nat
  pa_last_bytes_sent :: nat
  pa_duration_sum_ms :: nat
  pa_duration_count :: nat
  pa_last_model :: "string option"
  pa_last_request_at_unix :: nat
  pa_token_mismatch_count :: nat
  pa_token_samples :: "(nat \<times> nat) list"
  pa_request_timestamps :: "nat list"
  pa_recent_outcomes :: "bool list"

definition accum_default :: peer_accum where
  "accum_default =
     \<lparr>pa_session_tokens = 0, pa_total_requests = 0, pa_total_errors = 0, pa_active_requests = 0,
      pa_bytes_sent = 0, pa_bytes_received = 0, pa_last_bytes_sent = 0, pa_duration_sum_ms = 0,
      pa_duration_count = 0, pa_last_model = None, pa_last_request_at_unix = 0,
      pa_token_mismatch_count = 0, pa_token_samples = [], pa_request_timestamps = [],
      pa_recent_outcomes = []\<rparr>"

record peer_stats_tracker =
  st_peers :: "(string, peer_accum) hmap"
  st_active :: "(string, active_exchange) hmap"

definition stats_new :: peer_stats_tracker where
  "stats_new = \<lparr>st_peers = hm_empty, st_active = hm_empty\<rparr>"

section \<open>Operations\<close>

definition on_request_start ::
  "nat \<Rightarrow> nat \<Rightarrow> string \<Rightarrow> string \<Rightarrow> string \<Rightarrow> nat \<Rightarrow> peer_stats_tracker \<Rightarrow> peer_stats_tracker" where
  "on_request_start unix ms req_id peer_id model bytes_sent tr =
     tr\<lparr>st_peers := hm_entry peer_id accum_default
          (\<lambda>a. a\<lparr>pa_active_requests := sat_add u32_max (pa_active_requests a) 1,
                 pa_bytes_sent := sat_add u64_max (pa_bytes_sent a) bytes_sent,
                 pa_last_bytes_sent := bytes_sent,
                 pa_request_timestamps := push_capped (pa_request_timestamps a) REQUEST_TS_CAP unix\<rparr>)
          (st_peers tr),
        st_active := hm_insert req_id
          \<lparr>ax_peer_id = peer_id, ax_model = model, ax_started_at = ms, ax_bytes_sent = bytes_sent,
           ax_bytes_received = 0, ax_last_partial_tokens = 0\<rparr> (st_active tr)\<rparr>"

definition on_stream_progress ::
  "nat \<Rightarrow> string \<Rightarrow> nat \<Rightarrow> nat \<Rightarrow> peer_stats_tracker \<Rightarrow> peer_stats_tracker" where
  "on_stream_progress unix req_id bytes_received partial_tokens tr =
     (case hm_get (st_active tr) req_id of
        None \<Rightarrow> tr
      | Some active \<Rightarrow>
          (let active1 = active\<lparr>ax_bytes_received := sat_add u64_max (ax_bytes_received active) bytes_received\<rparr>;
               grows = (partial_tokens > ax_last_partial_tokens active1);
               delta = partial_tokens - ax_last_partial_tokens active1;
               active2 = (if grows then active1\<lparr>ax_last_partial_tokens := partial_tokens\<rparr> else active1);
               peers1 = (if grows
                 then hm_entry (ax_peer_id active) accum_default
                   (\<lambda>a. a\<lparr>pa_token_samples := push_capped (pa_token_samples a) TOKEN_SAMPLE_CAP (unix, delta)\<rparr>)
                   (st_peers tr)
                 else st_peers tr);
               peers2 = hm_modify (ax_peer_id active)
                 (\<lambda>a. a\<lparr>pa_bytes_received := sat_add u64_max (pa_bytes_received a) bytes_received\<rparr>) peers1
           in tr\<lparr>st_peers := peers2, st_active := hm_modify req_id (\<lambda>_. active2) (st_active tr)\<rparr>))"

definition on_request_complete ::
  "nat \<Rightarrow> nat \<Rightarrow> string \<Rightarrow> nat \<Rightarrow> nat \<Rightarrow> peer_stats_tracker \<Rightarrow> peer_stats_tracker" where
  "on_request_complete unix ms req_id tokens bytes_received tr =
     (case hm_get (st_active tr) req_id of
        None \<Rightarrow> tr
      | Some active \<Rightarrow>
          tr\<lparr>st_active := hm_remove req_id (st_active tr),
             st_peers := hm_entry (ax_peer_id active) accum_default
               (\<lambda>a. a\<lparr>pa_active_requests := sat_sub (pa_active_requests a) 1,
                      pa_total_requests := sat_add u32_max (pa_total_requests a) 1,
                      pa_session_tokens := sat_add u64_max (pa_session_tokens a) tokens,
                      pa_bytes_sent := sat_add u64_max (pa_bytes_sent a) (ax_bytes_sent active),
                      pa_bytes_received := sat_add u64_max (pa_bytes_received a) bytes_received,
                      pa_last_bytes_sent := ax_bytes_sent active,
                      pa_duration_sum_ms := sat_add u64_max (pa_duration_sum_ms a)
                        (sat_sub ms (ax_started_at active)),
                      pa_duration_count := sat_add u32_max (pa_duration_count a) 1,
                      pa_last_model := Some (ax_model active),
                      pa_last_request_at_unix := unix,
                      pa_token_samples := push_capped (pa_token_samples a) TOKEN_SAMPLE_CAP (unix, tokens),
                      pa_recent_outcomes := push_capped (pa_recent_outcomes a) RECENT_OUTCOMES_CAP True\<rparr>)
               (st_peers tr)\<rparr>)"

definition on_request_error :: "string \<Rightarrow> peer_stats_tracker \<Rightarrow> peer_stats_tracker" where
  "on_request_error req_id tr =
     (case hm_get (st_active tr) req_id of
        None \<Rightarrow> tr
      | Some active \<Rightarrow>
          tr\<lparr>st_active := hm_remove req_id (st_active tr),
             st_peers := hm_entry (ax_peer_id active) accum_default
               (\<lambda>a. a\<lparr>pa_active_requests := sat_sub (pa_active_requests a) 1,
                      pa_total_errors := sat_add u32_max (pa_total_errors a) 1,
                      pa_recent_outcomes := push_capped (pa_recent_outcomes a) RECENT_OUTCOMES_CAP False\<rparr>)
               (st_peers tr)\<rparr>)"

definition on_token_mismatch :: "string \<Rightarrow> peer_stats_tracker \<Rightarrow> peer_stats_tracker" where
  "on_token_mismatch peer_id tr =
     tr\<lparr>st_peers := hm_entry peer_id accum_default
          (\<lambda>a. a\<lparr>pa_token_mismatch_count := sat_add u32_max (pa_token_mismatch_count a) 1\<rparr>) (st_peers tr)\<rparr>"

definition stats_remove_peer :: "string \<Rightarrow> peer_stats_tracker \<Rightarrow> peer_stats_tracker" where
  "stats_remove_peer peer_id tr =
     tr\<lparr>st_peers := hm_remove peer_id (st_peers tr),
        st_active := hm_retain (\<lambda>_ a. ax_peer_id a \<noteq> peer_id) (st_active tr)\<rparr>"

definition tracked_peer_ids :: "peer_stats_tracker \<Rightarrow> string list" where
  "tracked_peer_ids tr = hm_keys (st_peers tr)"

section \<open>The snapshot\<close>

record peer_traffic_stats =
  pts_tokens_per_sec :: rat
  pts_requests_per_min :: nat
  pts_session_tokens :: nat
  pts_lifetime_tokens :: nat
  pts_total_requests :: nat
  pts_active_requests :: nat
  pts_error_count :: nat
  pts_bytes_sent :: nat
  pts_bytes_received :: nat
  pts_avg_duration_ms :: nat
  pts_last_model :: "string option"
  pts_token_mismatch_count :: nat
  pts_warnings :: "string list"

definition tokens_in_window :: "nat \<Rightarrow> string \<Rightarrow> peer_stats_tracker \<Rightarrow> nat" where
  "tokens_in_window cutoff peer_id tr =
     (case hm_get (st_peers tr) peer_id of
        None \<Rightarrow> 0
      | Some a \<Rightarrow>
          (let sampled = foldl (\<lambda>acc (ts, tokens). if ts \<ge> cutoff then sat_add u64_max acc tokens else acc)
                 0 (pa_token_samples a)
           in foldl (\<lambda>acc x. if ax_peer_id x = peer_id \<and> ax_last_partial_tokens x > 0
                then sat_add u64_max acc (ax_last_partial_tokens x) else acc)
                sampled (hm_values (st_active tr))))"

text \<open>\<open>errors / len >= 0.5\<close> and \<open>count as f64 * (60.0 / 60.0)\<close> on these small integers.\<close>

definition stats_warnings :: "nat \<Rightarrow> peer_accum \<Rightarrow> nat \<Rightarrow> string list" where
  "stats_warnings requests_per_min a avg_duration_ms =
     (if requests_per_min > HIGH_REQUEST_RATE_PER_MIN then [''high_request_rate''] else [])
     @ (if pa_token_mismatch_count a > 0 then [''token_mismatch''] else [])
     @ (if pa_last_bytes_sent a > LARGE_PAYLOAD_BYTES then [''large_payload''] else [])
     @ (if pa_total_requests a \<ge> MIN_REQUESTS_FOR_SLOW \<and> avg_duration_ms > SLOW_RESPONSE_MS
        then [''slow_response''] else [])
     @ (if length (pa_recent_outcomes a) \<ge> MIN_REQUESTS_FOR_ERROR_RATE
          \<and> 2 * length (filter (\<lambda>ok. \<not> ok) (pa_recent_outcomes a)) \<ge> length (pa_recent_outcomes a)
        then [''high_error_rate''] else [])"

definition stats_snapshot :: "nat \<Rightarrow> string \<Rightarrow> nat \<Rightarrow> peer_stats_tracker \<Rightarrow> peer_traffic_stats" where
  "stats_snapshot unix peer_id lifetime_tokens tr =
     (let accum = hm_get (st_peers tr) peer_id;
          cutoff = sat_sub unix ROLLING_WINDOW_SECS;
          a = unwrap_or accum accum_default;
          avg = (if pa_duration_count a > 0 then pa_duration_sum_ms a div pa_duration_count a else 0);
          requests_per_min = length (filter (\<lambda>ts. ts \<ge> cutoff) (pa_request_timestamps a))
      in \<lparr>pts_tokens_per_sec = of_nat (tokens_in_window cutoff peer_id tr) / 60,
          pts_requests_per_min = requests_per_min,
          pts_session_tokens = pa_session_tokens a,
          pts_lifetime_tokens = lifetime_tokens,
          pts_total_requests = pa_total_requests a,
          pts_active_requests = pa_active_requests a,
          pts_error_count = pa_total_errors a,
          pts_bytes_sent = pa_bytes_sent a,
          pts_bytes_received = pa_bytes_received a,
          pts_avg_duration_ms = avg,
          pts_last_model = pa_last_model a,
          pts_token_mismatch_count = pa_token_mismatch_count a,
          pts_warnings = stats_warnings requests_per_min a avg\<rparr>)"

record peer_connection_view =
  pcv_peer_id :: string
  pcv_cluster_id :: "string option"
  pcv_swarm_id :: "string option"
  pcv_direction :: string
  pcv_since_secs :: nat
  pcv_data_channel_open :: bool
  pcv_blocked :: bool
  pcv_attestation_flags :: nat
  pcv_stats :: "peer_traffic_stats option"

text \<open>\<open>None\<close> is a poisoned lock: the views are left alone.\<close>

definition refresh_live_stats ::
  "nat \<Rightarrow> peer_connection_view list \<Rightarrow> peer_stats_tracker option \<Rightarrow> (string, nat) hmap
     \<Rightarrow> peer_connection_view list" where
  "refresh_live_stats unix peers lock lifetime_totals =
     (case lock of
        None \<Rightarrow> peers
      | Some tr \<Rightarrow> map (\<lambda>p. p\<lparr>pcv_stats := Some (stats_snapshot unix (pcv_peer_id p)
            (unwrap_or (hm_get lifetime_totals (pcv_peer_id p)) 0) tr)\<rparr>) peers)"

section \<open>Histories of events\<close>

datatype stats_event =
    ReqStart nat nat string string string nat
  | ReqProgress nat string nat nat
  | ReqComplete nat nat string nat nat
  | ReqError string
  | TokenMismatch string
  | PeerGone string

fun stats_step :: "stats_event \<Rightarrow> peer_stats_tracker \<Rightarrow> peer_stats_tracker" where
  "stats_step (ReqStart unix ms r p m b) tr = on_request_start unix ms r p m b tr"
| "stats_step (ReqProgress unix r b k) tr = on_stream_progress unix r b k tr"
| "stats_step (ReqComplete unix ms r k b) tr = on_request_complete unix ms r k b tr"
| "stats_step (ReqError r) tr = on_request_error r tr"
| "stats_step (TokenMismatch p) tr = on_token_mismatch p tr"
| "stats_step (PeerGone p) tr = stats_remove_peer p tr"

text \<open>How many requests of a peer are in flight, read off the map of exchanges; and how many it
  was sent since it was last removed, read off the history.\<close>

definition in_flight :: "string \<Rightarrow> peer_stats_tracker \<Rightarrow> nat" where
  "in_flight p tr = length (filter (\<lambda>a. ax_peer_id a = p) (hm_values (st_active tr)))"

fun starts_of :: "string \<Rightarrow> stats_event list \<Rightarrow> nat" where
  "starts_of p [] = 0"
| "starts_of p (ReqStart _ _ _ q _ _ # evs) = (if p = q then Suc (starts_of p evs) else starts_of p evs)"
| "starts_of p (PeerGone q # evs) = (if p = q then 0 else starts_of p evs)"
| "starts_of p (_ # evs) = starts_of p evs"

text \<open>Histories, latest event first. A request id is not reused while in flight (ids are UUIDs), and
  a peer is sent fewer than \<open>2^32 - 1\<close> requests before it is removed.\<close>

inductive stats_reach :: "stats_event list \<Rightarrow> peer_stats_tracker \<Rightarrow> bool" where
  stats_init: "stats_reach [] stats_new"
| stats_start: "stats_reach evs tr \<Longrightarrow> hm_get (st_active tr) r = None \<Longrightarrow>
    starts_of p evs < u32_max \<Longrightarrow>
    stats_reach (ReqStart unix ms r p m b # evs) (stats_step (ReqStart unix ms r p m b) tr)"
| stats_other: "stats_reach evs tr \<Longrightarrow> (\<forall>unix ms r p m b. ev \<noteq> ReqStart unix ms r p m b) \<Longrightarrow>
    stats_reach (ev # evs) (stats_step ev tr)"

definition accum_of :: "string \<Rightarrow> peer_stats_tracker \<Rightarrow> peer_accum" where
  "accum_of p tr = unwrap_or (hm_get (st_peers tr) p) accum_default"

text \<open>Active, completed and failed requests of a peer and those in flight, and when they agree.\<close>

definition counters :: "string \<Rightarrow> peer_stats_tracker \<Rightarrow> nat \<times> nat \<times> nat \<times> nat" where
  "counters p tr = (pa_active_requests (accum_of p tr), pa_total_requests (accum_of p tr),
     pa_total_errors (accum_of p tr), in_flight p tr)"

fun ledger_ok :: "nat \<Rightarrow> nat \<times> nat \<times> nat \<times> nat \<Rightarrow> bool" where
  "ledger_ok n (act, fin, failed, flying) =
     (act = flying \<and> fin + failed + flying = n \<and> n \<le> u32_max)"

definition stats_inv :: "stats_event list \<Rightarrow> peer_stats_tracker \<Rightarrow> bool" where
  "stats_inv evs tr =
     (hm_wf (st_peers tr) \<and> hm_wf (st_active tr) \<and>
      (\<forall>p. ledger_ok (starts_of p evs) (counters p tr)))"

lemmas stats_defs = on_request_start_def on_stream_progress_def on_request_complete_def
  on_request_error_def on_token_mismatch_def stats_remove_peer_def Let_def

lemma values_retain_filter:
  "length (filter (\<lambda>a. ax_peer_id a = p) (hm_values (hm_retain (\<lambda>_ a. ax_peer_id a \<noteq> q) m))) =
     (if p = q then 0 else length (filter (\<lambda>a. ax_peer_id a = p) (hm_values m)))"
  by (induction m) (auto simp: hm_Cons)

text \<open>The effect of each operation on the four counters.\<close>

lemmas counter_defs = counters_def accum_of_def in_flight_def accum_default_def

lemma counters_start:
  assumes "hm_get (st_active tr) r = None"
  shows "counters p (on_request_start unix ms r q m b tr) =
    (if p = q then (sat_add u32_max (pa_active_requests (accum_of p tr)) 1,
        pa_total_requests (accum_of p tr), pa_total_errors (accum_of p tr), Suc (in_flight p tr))
     else counters p tr)"
  using assms by (auto simp: stats_defs counter_defs values_insert_filter)

lemma counters_finish:
  assumes "hm_wf (st_active tr)" "hm_get (st_active tr) r = Some x"
  shows "counters p (on_request_complete unix ms r k b tr) =
    (if p = ax_peer_id x then (pa_active_requests (accum_of p tr) - 1,
        sat_add u32_max (pa_total_requests (accum_of p tr)) 1, pa_total_errors (accum_of p tr),
        in_flight p tr - 1)
     else counters p tr)"
    and "counters p (on_request_error r tr) =
    (if p = ax_peer_id x then (pa_active_requests (accum_of p tr) - 1,
        pa_total_requests (accum_of p tr), sat_add u32_max (pa_total_errors (accum_of p tr)) 1,
        in_flight p tr - 1)
     else counters p tr)"
    and "ax_peer_id x = p \<Longrightarrow> 0 < in_flight p tr"
  using assms values_remove_filter [OF assms, of "\<lambda>a. ax_peer_id a = p"]
  by (auto simp: stats_defs counter_defs sat_sub_def)

lemma counters_progress:
  assumes "hm_wf (st_active tr)"
  shows "counters p (on_stream_progress unix r b k tr) = counters p tr"
proof (cases "hm_get (st_active tr) r")
  case (Some x)
  show ?thesis
    using values_modify_filter [OF assms Some, of "\<lambda>a. ax_peer_id a = p"] Some
    by (auto simp: stats_defs counter_defs map_option_case unwrap_or_def split: option.split)
qed (simp add: stats_defs)

lemma counters_other:
  "counters p (on_token_mismatch q tr) = counters p tr"
  "counters p (stats_remove_peer q tr) = (if p = q then (0, 0, 0, 0) else counters p tr)"
  by (auto simp: stats_defs counter_defs values_retain_filter)

lemma stats_wf_step:
  "hm_wf (st_peers tr) \<Longrightarrow> hm_wf (st_active tr) \<Longrightarrow>
   hm_wf (st_peers (stats_step ev tr)) \<and> hm_wf (st_active (stats_step ev tr))"
  by (cases ev) (simp_all add: stats_defs split: option.split)

lemma ledger_start:
  "ledger_ok n (counters p tr) \<Longrightarrow> n < u32_max \<Longrightarrow>
   ledger_ok (Suc n) (sat_add u32_max (pa_active_requests (accum_of p tr)) 1,
     pa_total_requests (accum_of p tr), pa_total_errors (accum_of p tr), Suc (in_flight p tr))"
  by (simp add: counters_def sat_add_def)

lemma ledger_finish:
  "ledger_ok n (counters p tr) \<Longrightarrow> 0 < in_flight p tr \<Longrightarrow>
   ledger_ok n (pa_active_requests (accum_of p tr) - 1,
     sat_add u32_max (pa_total_requests (accum_of p tr)) 1, pa_total_errors (accum_of p tr), in_flight p tr - 1)
   \<and> ledger_ok n (pa_active_requests (accum_of p tr) - 1,
     pa_total_requests (accum_of p tr), sat_add u32_max (pa_total_errors (accum_of p tr)) 1, in_flight p tr - 1)"
  by (simp add: counters_def sat_add_def)

lemma stats_inv_reach: "stats_reach evs tr \<Longrightarrow> stats_inv evs tr"
proof (induction rule: stats_reach.induct)
  case stats_init
  show ?case by (simp add: stats_inv_def stats_new_def counter_defs hm_empty_def hm_values_def)
next
  case (stats_start evs tr r p unix ms m b)
  then show ?case
    using stats_wf_step [of tr "ReqStart unix ms r p m b"] counters_start [OF stats_start.hyps(2)]
      ledger_start [of "starts_of p evs" p tr]
    by (simp add: stats_inv_def)
next
  case (stats_other evs tr ev)
  have inv: "hm_wf (st_peers tr)" "hm_wf (st_active tr)"
    "\<And>p. ledger_ok (starts_of p evs) (counters p tr)"
    using stats_other.IH by (auto simp: stats_inv_def)
  note wf = stats_wf_step [OF inv(1,2), of ev]
  have "ledger_ok (starts_of p (ev # evs)) (counters p (stats_step ev tr))" for p
  proof (cases ev)
    case (ReqComplete unix ms r k b)
    show ?thesis
    proof (cases "hm_get (st_active tr) r")
      case (Some x)
      show ?thesis
        using ledger_finish [OF inv(3), of p] inv(3) [of p] counters_finish(3) [OF inv(2) Some, of p]
        unfolding ReqComplete stats_step.simps starts_of.simps counters_finish(1) [OF inv(2) Some]
        by (cases "p = ax_peer_id x") (simp_all del: ledger_ok.simps)
    qed (use inv(3) in \<open>simp add: ReqComplete on_request_complete_def\<close>)
  next
    case (ReqError r)
    show ?thesis
    proof (cases "hm_get (st_active tr) r")
      case (Some x)
      show ?thesis
        using ledger_finish [OF inv(3), of p] inv(3) [of p] counters_finish(3) [OF inv(2) Some, of p]
        unfolding ReqError stats_step.simps starts_of.simps counters_finish(2) [OF inv(2) Some]
        by (cases "p = ax_peer_id x") (simp_all del: ledger_ok.simps)
    qed (use inv(3) in \<open>simp add: ReqError on_request_error_def\<close>)
  qed (use stats_other.hyps inv counters_progress [OF inv(2)] counters_other in simp_all)
  with wf show ?case by (simp add: stats_inv_def)
qed

section \<open>Properties\<close>

text \<open>C14: In every history where a request id is not reused while in flight, the snapshot of a peer
  reports as active exactly its exchanges still in flight, and active, completed and failed
  requests together are the requests sent to it since it was last removed: no request is lost,
  counted twice or left active by completions, errors, unknown ids or removals.\<close>

theorem request_ledger:
  assumes "stats_reach evs tr"
  shows "pts_active_requests (stats_snapshot unix p life tr) = in_flight p tr
    \<and> pts_total_requests (stats_snapshot unix p life tr)
      + pts_error_count (stats_snapshot unix p life tr)
      + pts_active_requests (stats_snapshot unix p life tr) = starts_of p evs"
  using stats_inv_reach [OF assms]
  by (auto simp: stats_inv_def counters_def stats_snapshot_def Let_def accum_of_def)

theorem request_ledger_witness:
  "pts_active_requests (stats_snapshot 9 ''p'' 0
     (stats_step (ReqStart 2 2000 ''b'' ''p'' ''m'' 5) (stats_step (ReqStart 1 1000 ''a'' ''p'' ''m'' 5) stats_new)))
   = in_flight ''p'' (stats_step (ReqStart 2 2000 ''b'' ''p'' ''m'' 5)
       (stats_step (ReqStart 1 1000 ''a'' ''p'' ''m'' 5) stats_new))"
proof -
  have "stats_reach [ReqStart 2 2000 ''b'' ''p'' ''m'' 5, ReqStart 1 1000 ''a'' ''p'' ''m'' 5]
     (stats_step (ReqStart 2 2000 ''b'' ''p'' ''m'' 5) (stats_step (ReqStart 1 1000 ''a'' ''p'' ''m'' 5) stats_new))"
    by (intro stats_start stats_init)
       (simp_all add: stats_new_def on_request_start_def u32_max_def)
  from request_ledger [OF this, of 9 "''p''" 0] show ?thesis by (rule conjunct1)
qed

text \<open>Both outcome buffers of an accumulator are rings.\<close>

interpretation outcomes: ring_buffer "\<lambda>b. push_capped b RECENT_OUTCOMES_CAP" "\<lambda>b. b :: bool list" RECENT_OUTCOMES_CAP
  by unfold_locales (simp_all add: RECENT_OUTCOMES_CAP_def push_capped_contents)

interpretation samples: ring_buffer "\<lambda>b. push_capped b TOKEN_SAMPLE_CAP" "\<lambda>b. b :: (nat \<times> nat) list" TOKEN_SAMPLE_CAP
  by unfold_locales (simp_all add: TOKEN_SAMPLE_CAP_def push_capped_contents)

text \<open>One request after another to a peer, with the outcome of each.\<close>

definition exchange :: "nat \<Rightarrow> nat \<Rightarrow> string \<Rightarrow> bool \<Rightarrow> peer_stats_tracker \<Rightarrow> peer_stats_tracker" where
  "exchange unix ms p ok tr =
     (let tr = on_request_start unix ms ''r'' p ''m'' 0 tr
      in if ok then on_request_complete unix ms ''r'' 0 0 tr else on_request_error ''r'' tr)"

definition exchanges :: "nat \<Rightarrow> nat \<Rightarrow> string \<Rightarrow> bool list \<Rightarrow> peer_stats_tracker \<Rightarrow> peer_stats_tracker" where
  "exchanges unix ms p oks tr = foldl (\<lambda>tr ok. exchange unix ms p ok tr) tr oks"

lemma exchange_outcomes:
  "pa_recent_outcomes (accum_of p (exchange unix ms p ok tr)) =
     push_capped (pa_recent_outcomes (accum_of p tr)) RECENT_OUTCOMES_CAP ok"
  by (simp add: exchange_def stats_defs accum_of_def)

lemma exchanges_outcomes:
  "pa_recent_outcomes (accum_of p (exchanges unix ms p oks tr)) =
     foldl (\<lambda>b. push_capped b RECENT_OUTCOMES_CAP) (pa_recent_outcomes (accum_of p tr)) oks"
  by (induction oks arbitrary: tr) (simp_all add: exchanges_def exchange_outcomes)

lemma high_error_rate_iff:
  "''high_error_rate'' \<in> set (pts_warnings (stats_snapshot unix p life tr)) \<longleftrightarrow>
     3 \<le> length (pa_recent_outcomes (accum_of p tr)) \<and>
     length (pa_recent_outcomes (accum_of p tr))
       \<le> 2 * length (filter (\<lambda>ok. \<not> ok) (pa_recent_outcomes (accum_of p tr)))"
  by (auto simp: stats_snapshot_def Let_def stats_warnings_def accum_of_def MIN_REQUESTS_FOR_ERROR_RATE_def)

text \<open>The error-rate warning looks at exactly the last ten outcomes: after any sequence of
  exchanges with a peer it is raised if and only if there were at least three and at least half of
  the last ten (or of all, when fewer) failed.\<close>

theorem error_rate_warning_window:
  "''high_error_rate'' \<in> set (pts_warnings (stats_snapshot unix p life (exchanges unix ms p oks stats_new)))
   \<longleftrightarrow> 3 \<le> length oks \<and>
       length (drop (length oks - 10) oks)
         \<le> 2 * length (filter (\<lambda>ok. \<not> ok) (drop (length oks - 10) oks))"
proof -
  have "pa_recent_outcomes (accum_of p (exchanges unix ms p oks stats_new)) = drop (length oks - 10) oks"
    unfolding exchanges_outcomes using outcomes.push_all [of "[]" oks]
    by (simp add: stats_new_def accum_of_def accum_default_def RECENT_OUTCOMES_CAP_def)
  then show ?thesis by (auto simp: high_error_rate_iff)
qed

text \<open>What one exchange adds to the counters. The request's bytes are added when it starts and
  again when it completes, so \<open>bytes_sent\<close> is twice what was sent; and the tokens of a streamed
  answer are counted twice in the rolling rate, while it streams (as samples and as the exchange's
  running total) and after it completes (as samples of the deltas and of the final total).\<close>

theorem exchange_counted_twice:
  assumes "k \<le> u32_max" "0 < k" "b \<le> u32_max"
  shows "pts_bytes_sent (stats_snapshot unix p life
      (on_request_complete unix ms r k n (on_request_start unix ms r p m b stats_new))) = 2 * b
    \<and> pts_tokens_per_sec (stats_snapshot unix p life
      (on_stream_progress unix r n k (on_request_start unix ms r p m b stats_new))) = of_nat (2 * k) / 60
    \<and> pts_tokens_per_sec (stats_snapshot unix p life
      (on_request_complete unix ms r k n
        (on_stream_progress unix r n k (on_request_start unix ms r p m b stats_new)))) = of_nat (2 * k) / 60"
  using assms
  by (simp add: stats_snapshot_def stats_defs stats_new_def accum_default_def tokens_in_window_def
      hm_entry_def hm_contains_def hm_insert_def hm_empty_def hm_Cons push_capped_def TOKEN_SAMPLE_CAP_def
      sat_add_def u64_max_def u32_max_def sat_sub_def)

theorem exchange_counted_twice_witness:
  "pts_bytes_sent (stats_snapshot 100 ''p'' 0
      (on_request_complete 100 7 ''r'' 600 200 (on_request_start 100 7 ''r'' ''p'' ''m'' 50 stats_new))) = 100"
  using exchange_counted_twice [of 600 50 100 "''p''" 0 7 "''r''" 200 "''m''"] by (simp add: u32_max_def)

end
