(* ===== verification/Json_Value.thy ===== *)
theory Json_Value
  imports Rust_Order Rust_Str
begin

text \<open>
  \<open>serde_json::Value\<close> as the peer uses it. An object is a \<open>serde_json::Map\<close>, which without the
  \<open>preserve_order\<close> feature is a \<open>BTreeMap\<close>: a list of fields sorted by key. A number is one of
  the three representations \<open>serde_json\<close> keeps apart.
\<close>

datatype jnum = PosInt nat | NegInt int | Float f64

datatype json =
    JNull
  | JBool bool
  | JNum jnum
  | JStr string
  | JArr "json list"
  | JObj "(string \<times> json) list"

section \<open>Maps\<close>

fun jmap_insert :: "string \<Rightarrow> json \<Rightarrow> (string \<times> json) list \<Rightarrow> (string \<times> json) list" where
  "jmap_insert k v [] = [(k, v)]"
| "jmap_insert k v ((k', v') # m) =
     (if k = k' then (k, v) # m
      else if k < k' then (k, v) # (k', v') # m
      else (k', v') # jmap_insert k v m)"

definition jmap_of :: "(string \<times> json) list \<Rightarrow> (string \<times> json) list" where
  "jmap_of kvs = foldl (\<lambda>m (k, v). jmap_insert k v m) [] kvs"

definition jmap_wf :: "(string \<times> json) list \<Rightarrow> bool" where
  "jmap_wf m = sorted_wrt (<) (map fst m)"

text \<open>The macro \<open>json!({ k: v, ... })\<close>.\<close>

definition json_obj :: "(string \<times> json) list \<Rightarrow> json" where
  "json_obj kvs = JObj (jmap_of kvs)"

definition json_nat :: "nat \<Rightarrow> json" where "json_nat n = JNum (PosInt n)"
definition json_opt :: "('a \<Rightarrow> json) \<Rightarrow> 'a option \<Rightarrow> json" where
  "json_opt f x = (case x of Some v \<Rightarrow> f v | None \<Rightarrow> JNull)"

section \<open>Accessors\<close>

text \<open>\<open>v.get(k)\<close>: \<open>None\<close> unless \<open>v\<close> is an object with the field.\<close>

fun jget :: "string \<Rightarrow> json \<Rightarrow> json option" where
  "jget k (JObj m) = map_of m k"
| "jget k _ = None"

fun as_str :: "json \<Rightarrow> string option" where
  "as_str (JStr s) = Some s"
| "as_str _ = None"

fun as_bool :: "json \<Rightarrow> bool option" where
  "as_bool (JBool b) = Some b"
| "as_bool _ = None"

fun as_u64 :: "json \<Rightarrow> nat option" where
  "as_u64 (JNum (PosInt n)) = Some n"
| "as_u64 _ = None"

fun as_array :: "json \<Rightarrow> json list option" where
  "as_array (JArr xs) = Some xs"
| "as_array _ = None"

fun as_object :: "json \<Rightarrow> (string \<times> json) list option" where
  "as_object (JObj m) = Some m"
| "as_object _ = None"

definition is_null :: "json \<Rightarrow> bool" where
  "is_null v = (v = JNull)"

text \<open>The chain \<open>v.get(k).and_then(|x| x.as_...())\<close>.\<close>

definition get_str :: "string \<Rightarrow> json \<Rightarrow> string option" where
  "get_str k v = Option.bind (jget k v) as_str"

definition get_bool :: "string \<Rightarrow> json \<Rightarrow> bool option" where
  "get_bool k v = Option.bind (jget k v) as_bool"

definition get_u64 :: "string \<Rightarrow> json \<Rightarrow> nat option" where
  "get_u64 k v = Option.bind (jget k v) as_u64"

text \<open>\<open>v[k] = x\<close> on an object or on \<open>null\<close> (which becomes an object); on any other value the
  index operator panics, written \<open>None\<close>.\<close>

fun jset :: "string \<Rightarrow> json \<Rightarrow> json \<Rightarrow> json option" where
  "jset k x (JObj m) = Some (JObj (jmap_insert k x m))"
| "jset k x JNull = Some (JObj [(k, x)])"
| "jset k x _ = None"

lemma map_of_jmap_insert [simp]:
  "map_of (jmap_insert k v m) k' = (if k' = k then Some v else map_of m k')"
  by (induction k v m rule: jmap_insert.induct) auto

lemma jget_insert [simp]:
  "jget k' (JObj (jmap_insert k v m)) = (if k' = k then Some v else map_of m k')"
  by simp

lemma fst_jmap_insert: "fst ` set (jmap_insert k v m) = insert k (fst ` set m)"
  by (induction k v m rule: jmap_insert.induct) auto

lemma jmap_insert_nonempty [simp]: "jmap_insert k v m \<noteq> []"
  by (cases "(k, v, m)" rule: jmap_insert.cases) auto

lemma jmap_wf_Nil [simp]: "jmap_wf []"
  by (simp add: jmap_wf_def)

lemma jmap_wf_insert [simp]: "jmap_wf m \<Longrightarrow> jmap_wf (jmap_insert k v m)"
proof (induction k v m rule: jmap_insert.induct)
  case (2 k v k' v' m)
  have "k' < x" if "\<not> k < k'" "k \<noteq> k'" "x \<in> fst ` set (jmap_insert k v m)" for x
    using that 2(2) by (auto simp: fst_jmap_insert jmap_wf_def)
  with 2 show ?case by (auto simp: jmap_wf_def intro: less_trans)
qed (simp add: jmap_wf_def)

lemma jmap_wf_foldl: "jmap_wf m \<Longrightarrow> jmap_wf (foldl (\<lambda>m (k, v). jmap_insert k v m) m kvs)"
  by (induction kvs arbitrary: m) auto

lemma jmap_wf_of [simp]: "jmap_wf (jmap_of kvs)"
  by (simp add: jmap_of_def jmap_wf_foldl)

lemma map_of_foldl:
  "map_of (foldl (\<lambda>m (k, v). jmap_insert k v m) m kvs) k =
     opt_or (map_of (rev kvs) k) (map_of m k)"
  by (induction kvs arbitrary: m) (auto simp: opt_or_def map_add_def split: option.splits)

lemma map_of_jmap_of [simp]: "map_of (jmap_of kvs) k = map_of (rev kvs) k"
  by (simp add: jmap_of_def map_of_foldl opt_or_def split: option.splits)

lemma jget_json_obj [simp]: "jget k (json_obj kvs) = map_of (rev kvs) k"
  by (simp add: json_obj_def)

text \<open>A sorted map is determined by its lookups.\<close>

lemma jmap_wf_Cons:
  "jmap_wf ((k, v) # m) \<longleftrightarrow> jmap_wf m \<and> (\<forall>x\<in>fst ` set m. k < x)"
  by (auto simp: jmap_wf_def)

lemma jmap_hd_least:
  assumes "jmap_wf ((k, v) # m)" "map_of ((k, v) # m) k' = Some w"
  shows "k \<le> k'"
proof -
  from assms(2) have "k' \<in> fst ` set ((k, v) # m)" by (metis domI dom_map_of_conv_image_fst)
  with assms(1) show ?thesis by (auto simp: jmap_wf_Cons)
qed

lemma jmap_ext:
  "jmap_wf m1 \<Longrightarrow> jmap_wf m2 \<Longrightarrow> (\<And>k. map_of m1 k = map_of m2 k) \<Longrightarrow> m1 = m2"
proof (induction m1 arbitrary: m2)
  case Nil
  have "map_of m2 = Map.empty" using Nil(3) by (intro ext) (metis map_of.simps(1))
  then show ?case by simp
next
  case (Cons p m1)
  obtain k v where p: "p = (k, v)" by (cases p)
  have "map_of m2 k = Some v" using Cons.prems(3) [of k] by (simp add: p)
  then obtain k' v' m2' where m2: "m2 = (k', v') # m2'" by (cases m2) auto
  have "k \<le> k'"
    using Cons.prems(3) [of k'] by (intro jmap_hd_least [OF Cons.prems(1) [unfolded p], of k' v']) (simp add: p m2)
  moreover have "k' \<le> k"
    using jmap_hd_least [OF Cons.prems(2) [unfolded m2], of k v] \<open>map_of m2 k = Some v\<close> by (simp add: m2)
  ultimately have kk: "k' = k" by simp
  with \<open>map_of m2 k = Some v\<close> have vv: "v' = v" by (simp add: m2)
  have "m1 = m2'"
  proof (rule Cons.IH)
    show "jmap_wf m1" "jmap_wf m2'" using Cons.prems(1,2) by (auto simp: p m2 jmap_wf_Cons)
    fix x
    have "k \<notin> fst ` set m1" "k \<notin> fst ` set m2'"
      using Cons.prems(1,2) by (auto simp: p m2 jmap_wf_Cons kk)
    then have "map_of m1 k = None" "map_of m2' k = None" by (simp_all add: map_of_eq_None_iff)
    then show "map_of m1 x = map_of m2' x"
      using Cons.prems(3) [of x] by (cases "x = k") (simp_all add: p m2 kk)
  qed
  then show ?case by (simp add: p m2 kk vv)
qed

end
