(* ===== verification/P2p_Protocol.thy ===== *)
theory P2p_Protocol
  imports Json_Value Peer_Types
begin

text \<open>
  The libp2p messages of \<open>p2p_protocol.rs\<close>: what a peer gossips about itself, how the catalogue is
  made small enough for gossipsub, and the line framing of a stream. \<open>serde_json\<close>'s encoder and
  \<open>SHA-256\<close> are arguments (\<open>encode_len\<close>, \<open>sha256_hex\<close>).
\<close>

definition GOSSIP_CATALOG_MAX_BYTES :: nat where "GOSSIP_CATALOG_MAX_BYTES = 48 * 1024"
definition STREAM_MAX :: nat where "STREAM_MAX = 4 * 1024 * 1024"

section \<open>Topics and keys\<close>

definition token_namespace :: "(string \<Rightarrow> string) \<Rightarrow> string \<Rightarrow> string" where
  "token_namespace sha256_hex p2p_token = sha256_hex p2p_token"

definition catalog_topic :: "(string \<Rightarrow> string) \<Rightarrow> string \<Rightarrow> string" where
  "catalog_topic sha256_hex p2p_token = ''mtrxai/catalog/'' @ token_namespace sha256_hex p2p_token"

definition model_start_topic :: "(string \<Rightarrow> string) \<Rightarrow> string \<Rightarrow> string" where
  "model_start_topic sha256_hex p2p_token = ''mtrxai/modelstart/'' @ token_namespace sha256_hex p2p_token"

definition dht_peer_record_key :: "(string \<Rightarrow> string) \<Rightarrow> string \<Rightarrow> string \<Rightarrow> string" where
  "dht_peer_record_key sha256_hex p2p_token peer_id =
     ''mtrxai/swarm/'' @ token_namespace sha256_hex p2p_token @ ''/peer/'' @ peer_id"

section \<open>Gossip\<close>

record catalog_update =
  cu_peer_id :: string
  cu_models :: "json list"
  cu_peer_info :: "peer_info option"
  cu_gpu_host :: "gpu_host_status option"
  cu_accepting_jobs :: bool
  cu_listen_addrs :: "string list"
  cu_tee_capable :: "bool option"
  cu_gpu_model :: "string option"
  cu_attestation_expiry :: "nat option"
  cu_trust_level :: "string option"
  cu_provider_static_pk :: "string option"

datatype gossip_message =
    CatalogUpdate catalog_update
  | ModelStartRequest string string string
  | ModelStartOffer string string string string nat "nat option" "bool option"
  | ModelStartProgress string string "nat option" "string option" "string option"
  | ModelStartRespond string bool string

record cached_peer_record =
  cpr_peer_id :: string
  cpr_models :: "json list"
  cpr_peer_info :: "peer_info option"
  cpr_gpu_host :: "gpu_host_status option"
  cpr_accepting_jobs :: bool
  cpr_listen_addrs :: "string list"
  cpr_tee_capable :: bool
  cpr_trust_level :: "string option"
  cpr_gpu_model :: "string option"
  cpr_provider_static_pk :: "string option"

definition detail_keys :: "string list" where
  "detail_keys = [''parameter_size'', ''quantization_level'', ''family'', ''families'', ''format'', ''parent_model'']"

definition meta_keys :: "string list" where
  "meta_keys = [''size'', ''digest'', ''modified_at'']"

text \<open>Inserting the fields of \<open>src\<close> named by \<open>keys\<close> that it has.\<close>

definition copy_keys :: "(string \<Rightarrow> json option) \<Rightarrow> string list \<Rightarrow> (string \<times> json) list \<Rightarrow> (string \<times> json) list" where
  "copy_keys src keys m =
     foldl (\<lambda>m k. case src k of Some v \<Rightarrow> jmap_insert k v m | None \<Rightarrow> m) m keys"

definition json_or_null :: "json option \<Rightarrow> json" where
  "json_or_null v = unwrap_or v JNull"

definition compact_status :: "json \<Rightarrow> json" where
  "compact_status status =
     json_obj [(''loaded'', unwrap_or (jget ''loaded'' status) (JBool False)),
               (''cpu_pct'', json_or_null (jget ''cpu_pct'' status)),
               (''gpu_pct'', json_or_null (jget ''gpu_pct'' status))]"

definition compact_model :: "json \<Rightarrow> json option" where
  "compact_model m =
     (case get_str ''name'' m of
        None \<Rightarrow> None
      | Some name \<Rightarrow>
          (let c0 = jmap_of [(''name'', JStr name)];
               c1 = (case jget ''_status'' m of
                       Some status \<Rightarrow> jmap_insert ''_status'' (compact_status status) c0
                     | None \<Rightarrow> c0);
               c2 = (case Option.bind (jget ''details'' m) as_object of
                       Some details \<Rightarrow>
                         (let slim = copy_keys (map_of details) detail_keys []
                          in if slim = [] then c1 else jmap_insert ''details'' (JObj slim) c1)
                     | None \<Rightarrow> c1)
           in Some (JObj (copy_keys (\<lambda>k. jget k m) meta_keys c2))))"

definition compact_models_for_gossip :: "json list \<Rightarrow> json list" where
  "compact_models_for_gossip models = List.map_filter compact_model models"

definition compact_gpu_for_gossip :: "gpu_host_status option \<Rightarrow> gpu_host_status option" where
  "compact_gpu_for_gossip gpu = map_option
     (\<lambda>g. g\<lparr>gh_producer := None, gh_architecture := None, gh_driver_version := None,
            gh_cuda_version := None, gh_device_count := None, gh_temperature_c := None,
            gh_memory_utilization_pct := None, gh_power_draw_w := None, gh_source := None,
            gh_sampled_at_unix := None, gh_devices := None\<rparr>) gpu"

definition compact_peer_info_for_gossip :: "peer_info option \<Rightarrow> peer_info option" where
  "compact_peer_info_for_gossip info =
     map_option (\<lambda>p. p\<lparr>pi_city := None, pi_country := None\<rparr>) info"

text \<open>\<open>encode_len msg\<close> is \<open>encode_gossip(msg).map(len)\<close>, \<open>None\<close> when encoding fails; \<open>usize::MAX\<close>
  is then over the limit. Every turn of the loop drops the GPU, drops the position, or halves a list
  of at least two models.\<close>

definition gossip_fits :: "(gossip_message \<Rightarrow> nat option) \<Rightarrow> gossip_message \<Rightarrow> bool" where
  "gossip_fits encode_len msg =
     (case encode_len msg of Some n \<Rightarrow> n \<le> GOSSIP_CATALOG_MAX_BYTES | None \<Rightarrow> False)"

function fit_catalog_update :: "(gossip_message \<Rightarrow> nat option) \<Rightarrow> catalog_update \<Rightarrow> catalog_update" where
  "fit_catalog_update encode_len u =
     (if gossip_fits encode_len (CatalogUpdate u) then u
      else if cu_gpu_host u \<noteq> None then fit_catalog_update encode_len (u\<lparr>cu_gpu_host := None\<rparr>)
      else if cu_peer_info u \<noteq> None then fit_catalog_update encode_len (u\<lparr>cu_peer_info := None\<rparr>)
      else if length (cu_models u) > 1
      then fit_catalog_update encode_len (u\<lparr>cu_models := take (length (cu_models u) div 2) (cu_models u)\<rparr>)
      else u\<lparr>cu_models := []\<rparr>)"
  by pat_completeness auto
termination
  by (relation "measure (\<lambda>(_, u). (if cu_gpu_host u \<noteq> None then 1 else 0)
       + (if cu_peer_info u \<noteq> None then 1 else 0) + length (cu_models u))")
     auto

declare fit_catalog_update.simps [simp del]

definition fit_catalog_gossip :: "(gossip_message \<Rightarrow> nat option) \<Rightarrow> gossip_message \<Rightarrow> gossip_message" where
  "fit_catalog_gossip encode_len msg =
     (case msg of CatalogUpdate u \<Rightarrow> CatalogUpdate (fit_catalog_update encode_len u) | _ \<Rightarrow> msg)"

section \<open>Stream framing\<close>

text \<open>\<open>encode_stream_line\<close> after \<open>to_string\<close>, and the byte loop of \<open>read_stream_message\<close>: the message
  and what follows it, or the error. The stream is the bytes the peer will ever send before closing.\<close>

datatype stream_error = StreamClosed | StreamTooLarge

definition encode_stream_line :: "string \<Rightarrow> string" where
  "encode_stream_line json_text = json_text @ [CHR 0x0A]"

fun read_stream_bytes :: "string \<Rightarrow> string \<Rightarrow> stream_error + (string \<times> string)" where
  "read_stream_bytes buf [] = Inl StreamClosed"
| "read_stream_bytes buf (b # bs) =
     (if b = CHR 0x0A then Inr (buf, bs)
      else if length (buf @ [b]) > STREAM_MAX then Inl StreamTooLarge
      else read_stream_bytes (buf @ [b]) bs)"

section \<open>Lemmas\<close>

lemma map_of_copy_keys:
  "map_of (copy_keys src keys m) k = (if k \<in> set keys \<and> src k \<noteq> None then src k else map_of m k)"
  by (induction keys arbitrary: m) (auto simp: copy_keys_def split: option.split)

lemma jmap_wf_copy_keys [simp]: "jmap_wf m \<Longrightarrow> jmap_wf (copy_keys src keys m)"
  by (induction keys arbitrary: m) (auto simp: copy_keys_def split: option.split)

lemma copy_keys_idem: "copy_keys (map_of (copy_keys src keys [])) keys [] = copy_keys src keys []"
  by (rule jmap_ext) (auto simp: map_of_copy_keys)

lemma compact_status_idem: "compact_status (compact_status st) = compact_status st"
  by (simp add: compact_status_def json_or_null_def)

text \<open>The fields of a compacted model, as lookups.\<close>

definition slim_details :: "json \<Rightarrow> json option" where
  "slim_details m =
     (case Option.bind (jget ''details'' m) as_object of
        None \<Rightarrow> None
      | Some details \<Rightarrow>
          (let slim = copy_keys (map_of details) detail_keys [] in if slim = [] then None else Some (JObj slim)))"

definition compact_fields :: "json \<Rightarrow> string \<Rightarrow> json option" where
  "compact_fields m k =
     (if k \<in> set meta_keys then jget k m
      else if k = ''details'' then slim_details m
      else if k = ''_status'' then map_option compact_status (jget ''_status'' m)
      else if k = ''name'' then map_option JStr (get_str ''name'' m)
      else None)"

lemma compact_model_fields:
  "compact_model m = Some c \<longleftrightarrow>
     get_str ''name'' m \<noteq> None \<and> (\<exists>fs. c = JObj fs \<and> jmap_wf fs \<and> map_of fs = compact_fields m)"
proof (cases "get_str ''name'' m")
  case (Some name)
  then obtain fs where c: "compact_model m = Some (JObj fs)" "jmap_wf fs" "map_of fs = compact_fields m"
    by (simp add: compact_model_def Let_def compact_fields_def [abs_def] slim_details_def fun_eq_iff
        map_of_copy_keys meta_keys_def split: option.split)
  show ?thesis
    using Some c by (auto simp: c(3) [symmetric] intro: jmap_ext)
qed (simp add: compact_model_def)

lemma slim_details_idem:
  "slim_details (JObj fs) = slim_details m" if "map_of fs = compact_fields m"
proof -
  have "map_of fs ''details'' = slim_details m" using that by (simp add: compact_fields_def meta_keys_def)
  then show ?thesis
    by (auto simp: slim_details_def Let_def copy_keys_idem split: option.splits if_splits)
qed

lemma compact_fields_idem:
  assumes "map_of fs = compact_fields m"
  shows "compact_fields (JObj fs) = compact_fields m"
proof
  fix k
  have "map_of fs ''name'' = map_option JStr (get_str ''name'' m)"
    "map_of fs ''_status'' = map_option compact_status (jget ''_status'' m)"
    "\<And>k. k \<in> set meta_keys \<Longrightarrow> map_of fs k = jget k m"
    using assms by (simp_all add: compact_fields_def meta_keys_def)
  then show "compact_fields (JObj fs) k = compact_fields m k"
    unfolding compact_fields_def
    by (simp add: slim_details_idem [OF assms] get_str_def option.map_comp comp_def compact_status_idem
        option.map_ident split: option.split)
       (cases "get_str ''name'' m"; simp add: get_str_def)
qed

lemma compact_model_idem:
  assumes "compact_model m = Some c"
  shows "compact_model c = Some c"
proof -
  from assms obtain fs where c: "get_str ''name'' m \<noteq> None" "c = JObj fs" "jmap_wf fs"
    "map_of fs = compact_fields m" by (auto simp: compact_model_fields)
  have "map_of fs ''name'' = map_option JStr (get_str ''name'' m)"
    using c(4) by (simp add: compact_fields_def meta_keys_def)
  then have "get_str ''name'' c \<noteq> None"
    using c(1,2) by (auto simp: get_str_def)
  with c show ?thesis by (auto simp: compact_model_fields compact_fields_idem)
qed

lemma fit_keeps:
  "cu_peer_id (fit_catalog_update el u) = cu_peer_id u
   \<and> cu_accepting_jobs (fit_catalog_update el u) = cu_accepting_jobs u
   \<and> cu_provider_static_pk (fit_catalog_update el u) = cu_provider_static_pk u
   \<and> prefix (cu_models (fit_catalog_update el u)) (cu_models u)
   \<and> (cu_gpu_host (fit_catalog_update el u) = cu_gpu_host u \<or> cu_gpu_host (fit_catalog_update el u) = None)
   \<and> (cu_peer_info (fit_catalog_update el u) = cu_peer_info u \<or>
      cu_peer_info (fit_catalog_update el u) = None \<and> cu_gpu_host (fit_catalog_update el u) = None)
   \<and> (cu_models (fit_catalog_update el u) = cu_models u \<or>
      cu_peer_info (fit_catalog_update el u) = None \<and> cu_gpu_host (fit_catalog_update el u) = None)"
proof (induction el u rule: fit_catalog_update.induct)
  case (1 el u)
  consider "gossip_fits el (CatalogUpdate u)"
    | (gpu) "\<not> gossip_fits el (CatalogUpdate u)" "cu_gpu_host u \<noteq> None"
    | (info) "\<not> gossip_fits el (CatalogUpdate u)" "cu_gpu_host u = None" "cu_peer_info u \<noteq> None"
    | (half) "\<not> gossip_fits el (CatalogUpdate u)" "cu_gpu_host u = None" "cu_peer_info u = None"
        "1 < length (cu_models u)"
    | (drop) "\<not> gossip_fits el (CatalogUpdate u)" "cu_gpu_host u = None" "cu_peer_info u = None"
        "\<not> 1 < length (cu_models u)" by blast
  then show ?case
  proof cases
    case gpu
    then have eq: "fit_catalog_update el u = fit_catalog_update el (u\<lparr>cu_gpu_host := None\<rparr>)"
      by (simp add: fit_catalog_update.simps [of el u])
    show ?thesis using "1.IH"(1) [OF gpu] by (auto simp: eq)
  next
    case info
    then have eq: "fit_catalog_update el u = fit_catalog_update el (u\<lparr>cu_peer_info := None\<rparr>)"
      by (simp add: fit_catalog_update.simps [of el u])
    show ?thesis using "1.IH"(2) info by (auto simp: eq)
  next
    case half
    then have eq: "fit_catalog_update el u = fit_catalog_update el
        (u\<lparr>cu_models := take (length (cu_models u) div 2) (cu_models u)\<rparr>)"
      by (simp add: fit_catalog_update.simps [of el u])
    show ?thesis using "1.IH"(3) half
      by (auto simp: eq intro: prefix_order.trans [OF _ take_is_prefix])
  qed (simp_all add: fit_catalog_update.simps)
qed

lemma fit_result:
  "gossip_fits el (CatalogUpdate (fit_catalog_update el u)) \<or>
   cu_gpu_host (fit_catalog_update el u) = None \<and> cu_peer_info (fit_catalog_update el u) = None
   \<and> cu_models (fit_catalog_update el u) = []"
proof (induction el u rule: fit_catalog_update.induct)
  case (1 el u)
  then show ?case by (subst (1 2 3 4) fit_catalog_update.simps) auto
qed

section \<open>Properties\<close>


lemma read_stream_spec:
  "length buf \<le> STREAM_MAX \<Longrightarrow>
   read_stream_bytes buf s =
     (let line = takeWhile (\<lambda>b. b \<noteq> CHR 0x0A) s
      in if length (buf @ line) > STREAM_MAX then Inl StreamTooLarge
         else if line = s then Inl StreamClosed
         else Inr (buf @ line, drop (Suc (length line)) s))"
proof (induction buf s rule: read_stream_bytes.induct)
  case (2 buf b bs)
  show ?case
  proof (cases "b = CHR 0x0A")
    case True
    with 2(2) show ?thesis by (simp add: Let_def)
  next
    case nl: False
    show ?thesis
    proof (cases "length (buf @ [b]) > STREAM_MAX")
      case True
      with nl show ?thesis by (simp add: Let_def)
    next
      case False
      with nl 2(1) show ?thesis by (auto simp: Let_def)
    qed
  qed
qed (simp add: Let_def)

text \<open>Framing. Reading from a stream returns exactly the bytes before the first line feed and
  leaves exactly what follows it; the only errors are a line longer than 4 MiB, reported whatever
  follows, and a stream that closes inside a line. So an encoded message without line feed of at
  most 4 MiB is read back whole and the next one is still there.\<close>

theorem stream_framing:
  assumes "CHR 0x0A \<notin> set m" "length m \<le> STREAM_MAX"
  shows "read_stream_bytes [] (encode_stream_line m @ rest) = Inr (m, rest)
   \<and> read_stream_bytes [] s =
     (let line = takeWhile (\<lambda>b. b \<noteq> CHR 0x0A) s
      in if length line > STREAM_MAX then Inl StreamTooLarge
         else if line = s then Inl StreamClosed
         else Inr (line, drop (Suc (length line)) s))"
proof -
  have "takeWhile (\<lambda>b. b \<noteq> CHR 0x0A) (m @ CHR 0x0A # rest) = m"
    using assms(1) by (induction m) auto
  then show ?thesis
    using assms(2) read_stream_spec [of "[]" s] read_stream_spec [of "[]" "encode_stream_line m @ rest"]
    by (auto simp: encode_stream_line_def Let_def)
qed

theorem stream_framing_witness:
  "read_stream_bytes [] (encode_stream_line ''{}'' @ ''x'') = Inr (''{}'', ''x'')"
  by (rule stream_framing [THEN conjunct1]) (simp_all add: STREAM_MAX_def)

end
