(* ===== verification/Peer_Ranking.thy ===== *)
theory Peer_Ranking
  imports P2p_Protocol
begin

text \<open>
  \<open>peer_ranking.rs\<close>: which peer answers a request. The scores come from the protocol crate
  (\<open>peer_load_score\<close>, \<open>haversine_km\<close>, \<open>asn_key\<close>) and are the arguments \<open>load\<close>, \<open>km\<close> and \<open>asn\<close>; what
  the ranking needs of them is only that they return numbers, the hypothesis \<open>not NaN\<close> below.
\<close>

section \<open>Ranking\<close>

definition has_name :: "string \<Rightarrow> json \<Rightarrow> bool" where
  "has_name model m = (get_str ''name'' m = Some model)"

definition find_model :: "string \<Rightarrow> cached_peer_record \<Rightarrow> json option" where
  "find_model model peer = find (has_name model) (cpr_models peer)"

definition bool_cmp :: "bool \<Rightarrow> bool \<Rightarrow> ordering" where
  "bool_cmp a b = ord_cmp (if a then (1::nat) else 0) (if b then 1 else 0)"

definition model_loaded :: "json \<Rightarrow> bool" where
  "model_loaded m = unwrap_or (Option.bind (jget ''_status'' m) (get_bool ''loaded'')) False"

type_synonym load_fn = "json \<Rightarrow> gpu_host_status option \<Rightarrow> f64"
type_synonym distance_fn = "f64 \<Rightarrow> f64 \<Rightarrow> f64 \<Rightarrow> f64 \<Rightarrow> f64"

definition rank_candidate ::
  "(string \<Rightarrow> string) \<Rightarrow> distance_fn \<Rightarrow> load_fn \<Rightarrow> peer_info option \<Rightarrow> string \<Rightarrow> string \<Rightarrow> string set
     \<Rightarrow> cached_peer_record \<Rightarrow> (string \<times> bool \<times> f64 \<times> f64) option" where
  "rank_candidate asn km load requester model me blocked peer =
     (if cpr_peer_id peer = me then None
      else if cpr_peer_id peer \<in> blocked then None
      else (case find_model model peer of
              None \<Rightarrow> None
            | Some model_entry \<Rightarrow>
                (let same_asn = (case (requester, cpr_peer_info peer) of
                       (Some req, Some info) \<Rightarrow> asn (pi_asn info) = asn (pi_asn req) | _ \<Rightarrow> False);
                     distance_km = (case (requester, cpr_peer_info peer) of
                       (Some req, Some info) \<Rightarrow> km (pi_lat req) (pi_lon req) (pi_lat info) (pi_lon info)
                     | _ \<Rightarrow> f64_MAX)
                 in Some (cpr_peer_id peer, same_asn, distance_km, load model_entry (cpr_gpu_host peer)))))"

definition rank_cmp :: "string \<times> bool \<times> f64 \<times> f64 \<Rightarrow> string \<times> bool \<times> f64 \<times> f64 \<Rightarrow> ordering" where
  "rank_cmp a b =
     (case (a, b) of ((_, asn1, km1, l1), (_, asn2, km2, l2)) \<Rightarrow>
        ord_then (ord_then (ord_reverse (bool_cmp asn1 asn2)) (f64_cmp_or_equal km1 km2))
          (f64_cmp_or_equal l1 l2))"

definition rank_peers_for_model ::
  "(string \<Rightarrow> string) \<Rightarrow> distance_fn \<Rightarrow> load_fn \<Rightarrow> peer_info option \<Rightarrow> string
     \<Rightarrow> cached_peer_record list \<Rightarrow> string \<Rightarrow> string set \<Rightarrow> string list" where
  "rank_peers_for_model asn km load requester model peers me blocked =
     map fst (sort_by rank_cmp
       (List.map_filter (rank_candidate asn km load requester model me blocked) peers))"

definition RTT_UNKNOWN :: nat where "RTT_UNKNOWN = u64_max div 2"

definition swarm_candidate ::
  "load_fn \<Rightarrow> string \<Rightarrow> string \<Rightarrow> string set \<Rightarrow> (string, nat) hmap \<Rightarrow> bool \<Rightarrow> cached_peer_record
     \<Rightarrow> (string \<times> bool \<times> bool \<times> nat \<times> f64) option" where
  "swarm_candidate load model me blocked latency_ms require_tee peer =
     (if cpr_peer_id peer = me then None
      else if cpr_peer_id peer \<in> blocked then None
      else if \<not> cpr_accepting_jobs peer then None
      else if require_tee \<and> \<not> cpr_tee_capable peer then None
      else (case find_model model peer of
              None \<Rightarrow> None
            | Some model_entry \<Rightarrow>
                Some (cpr_peer_id peer,
                      cpr_tee_capable peer \<or> cpr_trust_level peer = Some ''tee_gpu'',
                      model_loaded model_entry,
                      unwrap_or (hm_get latency_ms (cpr_peer_id peer)) RTT_UNKNOWN,
                      load model_entry (cpr_gpu_host peer))))"

definition swarm_cmp ::
  "string \<times> bool \<times> bool \<times> nat \<times> f64 \<Rightarrow> string \<times> bool \<times> bool \<times> nat \<times> f64 \<Rightarrow> ordering" where
  "swarm_cmp a b =
     (case (a, b) of ((_, tee1, ld1, rtt1, l1), (_, tee2, ld2, rtt2, l2)) \<Rightarrow>
        ord_then (ord_then (ord_then (bool_cmp tee2 tee1) (bool_cmp ld2 ld1)) (ord_cmp rtt1 rtt2))
          (f64_cmp_or_equal l1 l2))"

definition rank_swarm_peers_for_model_with_tee ::
  "load_fn \<Rightarrow> string \<Rightarrow> cached_peer_record list \<Rightarrow> string \<Rightarrow> string set \<Rightarrow> (string, nat) hmap \<Rightarrow> bool
     \<Rightarrow> string list" where
  "rank_swarm_peers_for_model_with_tee load model peers me blocked latency_ms require_tee =
     map fst (sort_by swarm_cmp
       (List.map_filter (swarm_candidate load model me blocked latency_ms require_tee) peers))"

definition rank_swarm_peers_for_model ::
  "load_fn \<Rightarrow> string \<Rightarrow> cached_peer_record list \<Rightarrow> string \<Rightarrow> string set \<Rightarrow> (string, nat) hmap \<Rightarrow> string list" where
  "rank_swarm_peers_for_model load model peers me blocked latency_ms =
     rank_swarm_peers_for_model_with_tee load model peers me blocked latency_ms False"

section \<open>Choosing a provider\<close>

definition peer_can_host :: "gpu_host_status option \<Rightarrow> nat \<Rightarrow> bool \<Rightarrow> bool" where
  "peer_can_host gpu_host vram_needed_mb accepting_jobs =
     (if \<not> accepting_jobs then False
      else (case gpu_host of
              None \<Rightarrow> False
            | Some gpu \<Rightarrow> gh_available gpu \<and> gh_memory_free_mb gpu \<ge> vram_needed_mb))"

definition can_host :: "nat \<Rightarrow> cached_peer_record \<Rightarrow> bool" where
  "can_host vram p = peer_can_host (cpr_gpu_host p) vram (cpr_accepting_jobs p)"

definition first_model_load :: "load_fn \<Rightarrow> cached_peer_record \<Rightarrow> f64" where
  "first_model_load load p =
     load (case cpr_models p of m # _ \<Rightarrow> m | [] \<Rightarrow> json_obj []) (cpr_gpu_host p)"

definition provider_candidates ::
  "load_fn \<Rightarrow> nat \<Rightarrow> string \<Rightarrow> cached_peer_record list \<Rightarrow> (string \<times> f64) list" where
  "provider_candidates load vram me peers =
     List.map_filter (\<lambda>p. if cpr_peer_id p = me then None
        else if \<not> can_host vram p then None
        else Some (cpr_peer_id p, first_model_load load p)) peers"

definition select_provider_peer ::
  "load_fn \<Rightarrow> cached_peer_record list \<Rightarrow> nat \<Rightarrow> string \<Rightarrow> string option" where
  "select_provider_peer load peers vram me =
     (if (case find (\<lambda>p. cpr_peer_id p = me) peers of Some r \<Rightarrow> can_host vram r | None \<Rightarrow> False)
      then Some me
      else (case sort_by (\<lambda>a b. f64_cmp_or_equal (snd a) (snd b)) (provider_candidates load vram me peers) of
              [] \<Rightarrow> None | (i, _) # _ \<Rightarrow> Some i))"

definition peers_with_loaded_model :: "cached_peer_record list \<Rightarrow> string \<Rightarrow> string list" where
  "peers_with_loaded_model peers model =
     concat (map (\<lambda>p. map (\<lambda>_. cpr_peer_id p)
       (filter (\<lambda>m. has_name model m \<and> model_loaded m) (cpr_models p))) peers)"

section \<open>Ordering\<close>

definition num_load :: "load_fn \<Rightarrow> bool" where
  "num_load load = (\<forall>m g. \<not> f64_is_nan (load m g))"

definition num_distance :: "distance_fn \<Rightarrow> bool" where
  "num_distance km = (\<forall>a b c d. \<not> f64_is_nan (km a b c d))"

lemma bool_cmp_simps [simp]:
  "bool_cmp a b = Less \<longleftrightarrow> \<not> a \<and> b" "bool_cmp a b = Greater \<longleftrightarrow> a \<and> \<not> b" "bool_cmp a b = Equal \<longleftrightarrow> a = b"
  by (auto simp: bool_cmp_def)

text \<open>The three comparators of the file meet \<open>sort_by\<close>'s contract on candidates with numbers.\<close>

lemma rank_contract: "comparator rank_cmp (\<lambda>(_, _, d, l). \<not> f64_is_nan d \<and> \<not> f64_is_nan l)"
  by (rule comparator_cong [OF comparator_then [OF comparator_then [OF
        comparator_key_reversed [of "\<lambda>c. if fst (snd c) then 1 else 0 :: nat"]
        comparator_key [of "\<lambda>c. f64_key (fst (snd (snd c)))"]]
        comparator_key [of "\<lambda>c. f64_key (snd (snd (snd c)))"]]])
     (auto simp: rank_cmp_def bool_cmp_def ord_cmp_reverse [symmetric] f64_cmp_numbers)

lemma swarm_contract: "comparator swarm_cmp (\<lambda>(_, _, _, _, l). \<not> f64_is_nan l)"
  by (rule comparator_cong [OF comparator_then [OF comparator_then [OF comparator_then [OF
        comparator_key_reversed [of "\<lambda>c. if fst (snd c) then 1 else 0 :: nat"]
        comparator_key_reversed [of "\<lambda>c. if fst (snd (snd c)) then 1 else 0 :: nat"]]
        comparator_key [of "\<lambda>c. fst (snd (snd (snd c)))"]]
        comparator_key [of "\<lambda>c. f64_key (snd (snd (snd (snd c))))"]]])
     (auto simp: swarm_cmp_def bool_cmp_def f64_cmp_numbers)

interpretation rank: comparator rank_cmp "\<lambda>(_, _, d, l). \<not> f64_is_nan d \<and> \<not> f64_is_nan l"
  by (rule rank_contract)

interpretation swarm_rank: comparator swarm_cmp "\<lambda>(_, _, _, _, l). \<not> f64_is_nan l"
  by (rule swarm_contract)

interpretation provider_rank: comparator "\<lambda>a b. f64_cmp_or_equal (snd a) (snd b)" "\<lambda>a. \<not> f64_is_nan (snd a)"
  by (rule comparator_cong [OF comparator_key [of "\<lambda>a. f64_key (snd a)"]]) (simp add: f64_cmp_numbers)

section \<open>Properties\<close>

text \<open>Who may be asked, and who comes first, as a specification over peer records.\<close>

definition swarm_eligible :: "string \<Rightarrow> string \<Rightarrow> string set \<Rightarrow> bool \<Rightarrow> cached_peer_record \<Rightarrow> bool" where
  "swarm_eligible model me blocked tee p =
     (cpr_peer_id p \<noteq> me \<and> cpr_peer_id p \<notin> blocked \<and> cpr_accepting_jobs p
      \<and> (tee \<longrightarrow> cpr_tee_capable p) \<and> list_ex (has_name model) (cpr_models p))"

definition tee_peer :: "cached_peer_record \<Rightarrow> bool" where
  "tee_peer p = (cpr_tee_capable p \<or> cpr_trust_level p = Some ''tee_gpu'')"

definition entry_of :: "string \<Rightarrow> cached_peer_record \<Rightarrow> json" where
  "entry_of model p = the (find_model model p)"

definition rtt_of :: "(string, nat) hmap \<Rightarrow> cached_peer_record \<Rightarrow> nat" where
  "rtt_of latency p = unwrap_or (hm_get latency (cpr_peer_id p)) RTT_UNKNOWN"

definition load_key :: "load_fn \<Rightarrow> string \<Rightarrow> cached_peer_record \<Rightarrow> int" where
  "load_key load model p = f64_key (load (entry_of model p) (cpr_gpu_host p))"

definition swarm_before ::
  "load_fn \<Rightarrow> string \<Rightarrow> (string, nat) hmap \<Rightarrow> cached_peer_record \<Rightarrow> cached_peer_record \<Rightarrow> bool" where
  "swarm_before load model latency p q =
     (tee_peer p \<and> \<not> tee_peer q \<or> tee_peer p = tee_peer q \<and>
       (model_loaded (entry_of model p) \<and> \<not> model_loaded (entry_of model q)
        \<or> model_loaded (entry_of model p) = model_loaded (entry_of model q) \<and>
          (rtt_of latency p < rtt_of latency q
           \<or> rtt_of latency p = rtt_of latency q \<and> load_key load model p \<le> load_key load model q)))"

lemma find_model_Some_iff: "find_model model p \<noteq> None \<longleftrightarrow> list_ex (has_name model) (cpr_models p)"
  by (auto simp: find_model_def find_None_iff list_ex_iff)

lemma swarm_candidate_eq:
  "swarm_candidate load model me blocked latency tee p =
     (if swarm_eligible model me blocked tee p
      then Some (cpr_peer_id p, tee_peer p, model_loaded (entry_of model p), rtt_of latency p,
                 load (entry_of model p) (cpr_gpu_host p))
      else None)"
  using find_model_Some_iff [of model p]
  by (auto simp: swarm_candidate_def swarm_eligible_def tee_peer_def entry_of_def rtt_of_def
      split: option.split)

lemma map_filter_if:
  "List.map_filter (\<lambda>x. if P x then Some (f x) else None) xs = map f (filter P xs)"
  by (induction xs) (auto simp: List.map_filter_def)

lemma sorted_wrt_map_imp:
  "sorted_wrt R (map f xs) \<Longrightarrow> (\<And>x y. R (f x) (f y) \<Longrightarrow> S x y) \<Longrightarrow> sorted_wrt S xs"
  by (simp add: sorted_wrt_map) (rule sorted_wrt_mono_rel)


definition some_peer :: "string \<Rightarrow> cached_peer_record" where
  "some_peer i = \<lparr>cpr_peer_id = i, cpr_models = [json_obj [(''name'', JStr ''m'')]], cpr_peer_info = None,
     cpr_gpu_host = None, cpr_accepting_jobs = True, cpr_listen_addrs = [], cpr_tee_capable = False,
     cpr_trust_level = None, cpr_gpu_model = None, cpr_provider_static_pk = None\<rparr>"


definition lobby_eligible :: "string \<Rightarrow> string \<Rightarrow> string set \<Rightarrow> cached_peer_record \<Rightarrow> bool" where
  "lobby_eligible model me blocked p =
     (cpr_peer_id p \<noteq> me \<and> cpr_peer_id p \<notin> blocked \<and> list_ex (has_name model) (cpr_models p))"

definition same_asn :: "(string \<Rightarrow> string) \<Rightarrow> peer_info option \<Rightarrow> cached_peer_record \<Rightarrow> bool" where
  "same_asn asn requester p = (case (requester, cpr_peer_info p) of
     (Some req, Some info) \<Rightarrow> asn (pi_asn info) = asn (pi_asn req) | _ \<Rightarrow> False)"

definition distance_to :: "distance_fn \<Rightarrow> peer_info option \<Rightarrow> cached_peer_record \<Rightarrow> f64" where
  "distance_to km requester p = (case (requester, cpr_peer_info p) of
     (Some req, Some info) \<Rightarrow> km (pi_lat req) (pi_lon req) (pi_lat info) (pi_lon info) | _ \<Rightarrow> f64_MAX)"

definition lobby_before ::
  "(string \<Rightarrow> string) \<Rightarrow> distance_fn \<Rightarrow> load_fn \<Rightarrow> peer_info option \<Rightarrow> string
     \<Rightarrow> cached_peer_record \<Rightarrow> cached_peer_record \<Rightarrow> bool" where
  "lobby_before asn km load requester model p q =
     (same_asn asn requester p \<and> \<not> same_asn asn requester q \<or>
      same_asn asn requester p = same_asn asn requester q \<and>
       (f64_key (distance_to km requester p) < f64_key (distance_to km requester q)
        \<or> f64_key (distance_to km requester p) = f64_key (distance_to km requester q)
          \<and> load_key load model p \<le> load_key load model q))"

lemma rank_candidate_eq:
  "rank_candidate asn km load requester model me blocked p =
     (if lobby_eligible model me blocked p
      then Some (cpr_peer_id p, same_asn asn requester p, distance_to km requester p,
                 load (entry_of model p) (cpr_gpu_host p))
      else None)"
  using find_model_Some_iff [of model p]
  by (auto simp: rank_candidate_def lobby_eligible_def same_asn_def distance_to_def entry_of_def Let_def
      split: option.splits)

lemma distance_number: "num_distance km \<Longrightarrow> \<not> f64_is_nan (distance_to km requester p)"
  by (auto simp: distance_to_def num_distance_def split: option.split)

text \<open>Ranking in a cluster lists exactly the peers serving the model, less the requester and the
  blocked ones, in order of preference: the requester's network first, then the nearest, then the
  least loaded, a peer of unknown position counting as farthest. A peer that accepts no jobs is still
  listed.\<close>

theorem lobby_ranking_exact:
  assumes "num_load load" "num_distance km"
  shows "\<exists>ps. rank_peers_for_model asn km load requester model peers me blocked = map cpr_peer_id ps
     \<and> mset ps = mset (filter (lobby_eligible model me blocked) peers)
     \<and> sorted_wrt (lobby_before asn km load requester model) ps"
proof -
  let ?key = "\<lambda>p. (cpr_peer_id p, same_asn asn requester p, distance_to km requester p,
                 load (entry_of model p) (cpr_gpu_host p))"
  let ?es = "filter (lobby_eligible model me blocked) peers"
  let ?ps = "sort_by (\<lambda>a b. rank_cmp (?key a) (?key b)) ?es"
  have "sorted_wrt rank.leq (sort_by rank_cmp (map ?key ?es))"
    using assms by (intro rank.sort_by_sorted) (auto simp: num_load_def distance_number)
  then have "sorted_wrt (lobby_before asn km load requester model) ?ps"
    unfolding sort_by_map
    by (rule sorted_wrt_map_imp) (use assms in
       \<open>auto simp: rank_cmp_def f64_cmp_numbers num_load_def distance_number lobby_before_def load_key_def not_less\<close>)
  moreover have "rank_peers_for_model asn km load requester model peers me blocked = map cpr_peer_id ?ps"
    by (simp add: rank_peers_for_model_def rank_candidate_eq [abs_def] map_filter_if sort_by_map)
  ultimately show ?thesis by (intro exI [of _ ?ps]) simp
qed

theorem lobby_ranking_exact_witness:
  "\<exists>ps. rank_peers_for_model id (\<lambda>_ _ _ _. 0) (\<lambda>_ _. 0) None ''m'' [some_peer ''a'', some_peer ''b''] ''b'' {}
        = map cpr_peer_id ps
     \<and> mset ps = mset (filter (lobby_eligible ''m'' ''b'' {}) [some_peer ''a'', some_peer ''b''])
     \<and> sorted_wrt (lobby_before id (\<lambda>_ _ _ _. 0) (\<lambda>_ _. 0) None ''m'') ps"
  by (rule lobby_ranking_exact) (simp_all add: num_load_def num_distance_def f64_is_nan_def f64_magnitude_def)

text \<open>The provider of a model start. The requester hosts it itself whenever it can; otherwise the
  choice is a peer that can host it, of least load among all that can; and nobody is chosen only
  when nobody can.\<close>

theorem provider_choice:
  assumes "num_load load" and "distinct (map cpr_peer_id peers)"
  shows "case select_provider_peer load peers vram me of
      None \<Rightarrow> \<not> list_ex (can_host vram) peers
    | Some i \<Rightarrow> list_ex (\<lambda>p. cpr_peer_id p = i \<and> can_host vram p
        \<and> (i = me \<or> list_all (\<lambda>q. can_host vram q \<longrightarrow>
              f64_key (first_model_load load p) \<le> f64_key (first_model_load load q)
              \<and> cpr_peer_id q \<noteq> me) peers)) peers"
proof -
  have uniq: "find (\<lambda>p. cpr_peer_id p = me) peers = Some r" if "r \<in> set peers" "cpr_peer_id r = me" for r
    using assms(2) that by (induction peers) force+
  let ?cs = "provider_candidates load vram me peers"
  have cs: "?cs = map (\<lambda>p. (cpr_peer_id p, first_model_load load p))
      (filter (\<lambda>p. cpr_peer_id p \<noteq> me \<and> can_host vram p) peers)"
    unfolding provider_candidates_def
    by (simp add: map_filter_if [symmetric]) (rule arg_cong2 [where f = List.map_filter]; auto)
  have nums: "\<forall>x\<in>set ?cs. \<not> f64_is_nan (snd x)"
    using assms(1) by (auto simp: cs first_model_load_def num_load_def)
  show ?thesis
  proof (cases "case find (\<lambda>p. cpr_peer_id p = me) peers of Some r \<Rightarrow> can_host vram r | None \<Rightarrow> False")
    case True
    then obtain r where "find (\<lambda>p. cpr_peer_id p = me) peers = Some r" "can_host vram r"
      by (auto split: option.splits)
    with True show ?thesis
      by (auto simp: select_provider_peer_def list_ex_iff dest!: find_Some_prop)
  next
    case False
    then have me: "\<not> can_host vram q" if "q \<in> set peers" "cpr_peer_id q = me" for q
      using uniq [OF that] by simp
    show ?thesis
    proof (cases "sort_by (\<lambda>a b. f64_cmp_or_equal (snd a) (snd b)) ?cs")
      case Nil
      then have "set ?cs = {}" by (metis set_sort_by list.set(1))
      with Nil False me show ?thesis
        by (auto simp: select_provider_peer_def cs list_ex_iff)
    next
      case (Cons c rest)
      have "c \<in> set ?cs" using Cons by (metis set_sort_by list.set_intros(1))
      then obtain p where p: "p \<in> set peers" "cpr_peer_id p \<noteq> me" "can_host vram p"
          "c = (cpr_peer_id p, first_model_load load p)" by (auto simp: cs)
      have "f64_key (first_model_load load p) \<le> f64_key (first_model_load load q)"
        if "q \<in> set peers" "can_host vram q" for q
      proof -
        have "(cpr_peer_id q, first_model_load load q) \<in> set ?cs" using that me by (auto simp: cs)
        from provider_rank.sort_by_hd_least [OF nums Cons this] assms(1) show ?thesis
          by (simp add: p(4) f64_cmp_numbers first_model_load_def num_load_def not_less)
      qed
      with Cons False p me show ?thesis
        by (auto simp: select_provider_peer_def list_ex_iff list_all_iff split: prod.split)
    qed
  qed
qed

theorem provider_choice_witness:
  "case select_provider_peer (\<lambda>_ _. 0) [some_peer ''a''] 100 ''b'' of
      None \<Rightarrow> \<not> list_ex (can_host 100) [some_peer ''a'']
    | Some i \<Rightarrow> list_ex (\<lambda>p. cpr_peer_id p = i \<and> can_host 100 p
        \<and> (i = ''b'' \<or> list_all (\<lambda>q. can_host 100 q \<longrightarrow>
              f64_key (first_model_load (\<lambda>_ _. 0) p) \<le> f64_key (first_model_load (\<lambda>_ _. 0) q)
              \<and> cpr_peer_id q \<noteq> ''b'') [some_peer ''a''])) [some_peer ''a'']"
  by (rule provider_choice) (simp_all add: num_load_def f64_is_nan_def f64_magnitude_def)

end
