(* ===== verification/Utf8_Chunks.thy ===== *)
theory Utf8_Chunks
  imports Rust_Str
begin

text \<open>
  UTF-8 and the two places of \<open>cluster_dc_e2ee.rs\<close> that cut a string at character boundaries:
  \<open>chunk_utf8\<close>, for a request body, and the piece \<open>flush_encrypted_response_chunks\<close> drains from an
  answer. A \<open>str\<close> is its bytes, valid UTF-8 by Rust's invariant, which \<open>utf8_valid\<close> states.
\<close>

section \<open>UTF-8\<close>

definition in_range :: "nat \<Rightarrow> nat \<Rightarrow> char \<Rightarrow> bool" where
  "in_range lo hi c = (lo \<le> of_char c \<and> (of_char c :: nat) \<le> hi)"

definition is_cont :: "char \<Rightarrow> bool" where
  "is_cont c = in_range 0x80 0xBF c"

text \<open>The well-formed sequences of the Unicode standard (table 3-7).\<close>

fun utf8_valid :: "string \<Rightarrow> bool" where
  "utf8_valid [] = True"
| "utf8_valid (a # s) =
     (if in_range 0 0x7F a then utf8_valid s
      else if in_range 0xC2 0xDF a then
        (case s of b # s1 \<Rightarrow> is_cont b \<and> utf8_valid s1 | _ \<Rightarrow> False)
      else if in_range 0xE0 0xEF a then
        (case s of b # c # s1 \<Rightarrow>
           in_range (if in_range 0xE0 0xE0 a then 0xA0 else 0x80) (if in_range 0xED 0xED a then 0x9F else 0xBF) b
           \<and> is_cont c \<and> utf8_valid s1 | _ \<Rightarrow> False)
      else if in_range 0xF0 0xF4 a then
        (case s of b # c # d # s1 \<Rightarrow>
           in_range (if in_range 0xF0 0xF0 a then 0x90 else 0x80) (if in_range 0xF4 0xF4 a then 0x8F else 0xBF) b
           \<and> is_cont c \<and> is_cont d \<and> utf8_valid s1 | _ \<Rightarrow> False)
      else False)"

text \<open>\<open>s.is_char_boundary(i)\<close>.\<close>

definition is_char_boundary :: "string \<Rightarrow> nat \<Rightarrow> bool" where
  "is_char_boundary s i = (i = 0 \<or> i = length s \<or> i < length s \<and> \<not> is_cont (s ! i))"

lemma cont_not_lead:
  "is_cont a \<Longrightarrow> \<not> in_range 0 0x7F a \<and> \<not> in_range 0xC2 0xDF a \<and> \<not> in_range 0xE0 0xEF a \<and> \<not> in_range 0xF0 0xF4 a"
  by (auto simp: is_cont_def in_range_def)

lemma in_range_cont: "in_range lo hi b \<Longrightarrow> 0x80 \<le> lo \<Longrightarrow> hi \<le> 0xBF \<Longrightarrow> is_cont b"
  by (auto simp: is_cont_def in_range_def)

text \<open>A non-empty valid string is one character of at most four bytes, its first byte no
  continuation and the others continuations, and a valid rest.\<close>

lemma utf8_split:
  assumes "utf8_valid s" "s \<noteq> []"
  obtains ch rest where "s = ch @ rest" "ch \<noteq> []" "length ch \<le> 4" "\<not> is_cont (hd ch)"
    "list_all is_cont (tl ch)" "utf8_valid rest" "\<forall>t. utf8_valid (ch @ t) = utf8_valid t"
proof -
  obtain a s0 where s: "s = a # s0" using assms(2) by (cases s) auto
  have a: "\<not> is_cont a" using assms(1) cont_not_lead [of a] by (auto simp: s split: if_splits)
  consider (one) "in_range 0 0x7F a"
    | (two) "\<not> in_range 0 0x7F a" "in_range 0xC2 0xDF a"
    | (three) "\<not> in_range 0 0x7F a" "\<not> in_range 0xC2 0xDF a" "in_range 0xE0 0xEF a"
    | (four) "\<not> in_range 0 0x7F a" "\<not> in_range 0xC2 0xDF a" "\<not> in_range 0xE0 0xEF a" "in_range 0xF0 0xF4 a"
    using assms(1) by (auto simp: s split: if_splits)
  then show thesis
  proof cases
    case one
    with assms(1) a show thesis by (intro that [of "[a]" s0]) (simp_all add: s)
  next
    case two
    with assms(1) obtain b s1 where "s0 = b # s1" "is_cont b" "utf8_valid s1"
      by (auto simp: s split: list.splits)
    with two a show thesis by (intro that [of "[a, b]" s1]) (simp_all add: s)
  next
    case three
    with assms(1) obtain b c s1 where x: "s0 = b # c # s1"
        "in_range (if in_range 0xE0 0xE0 a then 0xA0 else 0x80) (if in_range 0xED 0xED a then 0x9F else 0xBF) b"
        "is_cont c" "utf8_valid s1"
      by (auto simp: s split: list.splits)
    moreover have "is_cont b" by (rule in_range_cont [OF x(2)]) simp_all
    ultimately show thesis using three a by (intro that [of "[a, b, c]" s1]) (simp_all add: s)
  next
    case four
    with assms(1) obtain b c d s1 where x: "s0 = b # c # d # s1"
        "in_range (if in_range 0xF0 0xF0 a then 0x90 else 0x80) (if in_range 0xF4 0xF4 a then 0x8F else 0xBF) b"
        "is_cont c" "is_cont d" "utf8_valid s1"
      by (auto simp: s split: list.splits)
    moreover have "is_cont b" by (rule in_range_cont [OF x(2)]) simp_all
    ultimately show thesis using four a by (intro that [of "[a, b, c, d]" s1]) (simp_all add: s)
  qed
qed

lemma utf8_valid_induct [consumes 1, case_names Nil Char]:
  assumes "utf8_valid s" and "P []"
    and "\<And>ch rest. ch \<noteq> [] \<Longrightarrow> length ch \<le> 4 \<Longrightarrow> \<not> is_cont (hd ch) \<Longrightarrow> list_all is_cont (tl ch) \<Longrightarrow>
      utf8_valid rest \<Longrightarrow> (\<forall>t. utf8_valid (ch @ t) = utf8_valid t) \<Longrightarrow> P rest \<Longrightarrow> P (ch @ rest)"
  shows "P s"
  using assms(1)
proof (induction s rule: length_induct)
  case (1 s)
  show ?case
  proof (cases "s = []")
    case False
    obtain ch rest where c: "s = ch @ rest" "ch \<noteq> []" "length ch \<le> 4" "\<not> is_cont (hd ch)"
      "list_all is_cont (tl ch)" "utf8_valid rest" "\<forall>t. utf8_valid (ch @ t) = utf8_valid t"
      by (rule utf8_split [OF 1(2) False])
    then have "P rest" using 1(1) by simp
    with c assms(3) show ?thesis by simp
  qed (simp add: assms(2))
qed

lemma cont_inside:
  assumes "list_all is_cont (tl ch)" "0 < i" "i < length ch"
  shows "is_cont ((ch @ rest) ! i)"
  using assms by (cases ch) (auto simp: list_all_length nth_append nth_Cons')

text \<open>Cutting a valid string at a boundary leaves two valid strings.\<close>

lemma utf8_cut:
  assumes "utf8_valid s" "is_char_boundary s i"
  shows "utf8_valid (take i s) \<and> utf8_valid (drop i s)"
  using assms
proof (induction arbitrary: i rule: utf8_valid_induct)
  case (Char ch rest)
  consider "i = 0" | "0 < i" "i < length ch" | "length ch \<le> i" by linarith
  then show ?case
  proof cases
    case 2
    with cont_inside [OF Char(4) 2, of rest] Char.prems show ?thesis
      by (auto simp: is_char_boundary_def)
  next
    case 3
    then have "is_char_boundary rest (i - length ch)"
      using Char.prems by (auto simp: is_char_boundary_def nth_append)
    with Char.IH [of "i - length ch"] Char(6) 3 show ?thesis by simp
  qed (use Char in simp)
qed simp

lemma boundary_near:
  assumes "utf8_valid s" "i \<le> length s"
  shows "\<exists>j\<le>i. i < j + 4 \<and> is_char_boundary s j"
  using assms
proof (induction arbitrary: i rule: utf8_valid_induct)
  case Nil
  then show ?case by (auto simp: is_char_boundary_def)
next
  case (Char ch rest)
  show ?case
  proof (cases "i < length ch")
    case True
    with Char(2) show ?thesis by (intro exI [of _ 0]) (simp add: is_char_boundary_def)
  next
    case False
    with Char.IH [of "i - length ch"] Char.prems
    have "\<exists>j\<le>i - length ch. i - length ch < j + 4 \<and> is_char_boundary rest j" by simp
    then obtain j where
      j: "j \<le> i - length ch" "i - length ch < j + 4" "is_char_boundary rest j" by blast
    show ?thesis
    proof (cases "j = 0 \<and> rest \<noteq> []")
      case True
      then obtain c r where r: "rest = c # r" by (cases rest) auto
      obtain ch2 rest2 where "rest = ch2 @ rest2" "ch2 \<noteq> []" "\<not> is_cont (hd ch2)"
        by (rule utf8_split [OF Char(5)]) (simp_all add: r)
      then have "\<not> is_cont c" by (cases ch2) (auto simp: r)
      with j True r False show ?thesis
        by (intro exI [of _ "length ch"]) (auto simp: is_char_boundary_def)
    next
      case c: False
      with j False show ?thesis
        by (intro exI [of _ "length ch + j"]) (auto simp: is_char_boundary_def nth_append)
    qed
  qed
qed

section \<open>Cutting\<close>

text \<open>\<open>while e > lo && !s.is_char_boundary(e) { e -= 1 }\<close> and
  \<open>while e < s.len() && !s.is_char_boundary(e) { e += 1 }\<close>.\<close>

fun back_to_boundary :: "string \<Rightarrow> nat \<Rightarrow> nat \<Rightarrow> nat" where
  "back_to_boundary s lo 0 = 0"
| "back_to_boundary s lo (Suc e) =
     (if Suc e > lo \<and> \<not> is_char_boundary s (Suc e) then back_to_boundary s lo e else Suc e)"

function forward_to_boundary :: "string \<Rightarrow> nat \<Rightarrow> nat" where
  "forward_to_boundary s e =
     (if e < length s \<and> \<not> is_char_boundary s e then forward_to_boundary s (Suc e) else e)"
  by pat_completeness auto
termination by (relation "measure (\<lambda>(s, e). length s - e)") auto

declare forward_to_boundary.simps [simp del]

definition chunk_end :: "string \<Rightarrow> nat \<Rightarrow> nat \<Rightarrow> nat" where
  "chunk_end s max_bytes start =
     (let e = back_to_boundary s start (min (start + max_bytes) (length s))
      in if e = start then forward_to_boundary s (min (start + 1) (length s)) else e)"

lemma back_to_boundary_le: "back_to_boundary s lo e \<le> e"
  by (induction s lo e rule: back_to_boundary.induct) auto

lemma back_to_boundary_stop:
  "back_to_boundary s lo e \<le> lo \<or> is_char_boundary s (back_to_boundary s lo e)"
  by (induction s lo e rule: back_to_boundary.induct) auto

lemma back_to_boundary_ge:
  "j \<le> e \<Longrightarrow> is_char_boundary s j \<or> j \<le> lo \<Longrightarrow> j \<le> back_to_boundary s lo e"
  by (induction s lo e rule: back_to_boundary.induct) (auto simp: le_Suc_eq)

lemma forward_to_boundary_props:
  "e \<le> length s \<Longrightarrow> e \<le> forward_to_boundary s e \<and> forward_to_boundary s e \<le> length s
     \<and> is_char_boundary s (forward_to_boundary s e)"
proof (induction s e rule: forward_to_boundary.induct)
  case (1 s e)
  show ?case
  proof (cases "e < length s \<and> \<not> is_char_boundary s e")
    case True
    with 1 show ?thesis by (subst (1 2 3) forward_to_boundary.simps) auto
  next
    case False
    with 1(2) show ?thesis by (subst (1 2 3) forward_to_boundary.simps) (auto simp: is_char_boundary_def)
  qed
qed

lemma chunk_end_props:
  assumes "start < length s"
  shows "start < chunk_end s m start \<and> chunk_end s m start \<le> length s
    \<and> is_char_boundary s (chunk_end s m start)"
proof -
  let ?e = "back_to_boundary s start (min (start + m) (length s))"
  have ge: "start \<le> ?e" using assms by (intro back_to_boundary_ge) auto
  have le: "?e \<le> length s" using back_to_boundary_le [of s start "min (start + m) (length s)"] by simp
  show ?thesis
  proof (cases "?e = start")
    case True
    with assms forward_to_boundary_props [of "Suc start" s] show ?thesis
      by (simp add: chunk_end_def Let_def)
  next
    case False
    with ge le back_to_boundary_stop [of s start "min (start + m) (length s)"] show ?thesis
      by (simp add: chunk_end_def Let_def)
  qed
qed

function chunk_utf8_from :: "string \<Rightarrow> nat \<Rightarrow> nat \<Rightarrow> string list" where
  "chunk_utf8_from s max_bytes start =
     (if start < length s
      then (let e = chunk_end s max_bytes start
            in take (e - start) (drop start s) # chunk_utf8_from s max_bytes e)
      else [])"
  by pat_completeness auto
termination
  by (relation "measure (\<lambda>(s, m, start). length s - start)") (auto simp: chunk_end_props diff_less_mono2)

declare chunk_utf8_from.simps [simp del]

definition chunk_utf8 :: "string \<Rightarrow> nat \<Rightarrow> string list" where
  "chunk_utf8 s max_bytes = chunk_utf8_from s max_bytes 0"

lemma concat_chunk_utf8_from: "concat (chunk_utf8_from s m start) = drop start s"
proof (induction s m start rule: chunk_utf8_from.induct)
  case (1 s m start)
  show ?case
  proof (cases "start < length s")
    case True
    note e = chunk_end_props [OF True, of m]
    have "drop start s = take (chunk_end s m start - start) (drop start s) @ drop (chunk_end s m start) s"
      using e by (metis append_take_drop_id drop_drop le_add_diff_inverse2 less_imp_le)
    with 1 True show ?thesis by (subst chunk_utf8_from.simps) (simp add: Let_def)
  qed (simp add: chunk_utf8_from.simps)
qed

lemma boundary_drop:
  "start \<le> i \<Longrightarrow> i \<le> length s \<Longrightarrow> is_char_boundary s i \<Longrightarrow> is_char_boundary (drop start s) (i - start)"
  by (auto simp: is_char_boundary_def)

lemma chunk_utf8_from_pieces:
  "utf8_valid (drop start s) \<Longrightarrow> start \<le> length s \<Longrightarrow>
   list_all (\<lambda>c. c \<noteq> [] \<and> utf8_valid c \<and> (4 \<le> m \<longrightarrow> length c \<le> m)) (chunk_utf8_from s m start)"
proof (induction s m start rule: chunk_utf8_from.induct)
  case (1 s m start)
  show ?case
  proof (cases "start < length s")
    case True
    note e = chunk_end_props [OF True, of m]
    let ?e = "chunk_end s m start"
    have cut: "utf8_valid (take (?e - start) (drop start s))"
      "utf8_valid (drop ?e s)"
      using utf8_cut [OF "1.prems"(1) boundary_drop [of start ?e s]] e by simp_all
    have len: "?e - start \<le> m" if m: "4 \<le> m"
    proof -
      have "\<exists>j\<le>min m (length s - start). min m (length s - start) < j + 4 \<and> is_char_boundary (drop start s) j"
        using boundary_near [OF "1.prems"(1), of "min m (length s - start)"] by simp
      then obtain j where j: "j \<le> min m (length s - start)" "min m (length s - start) < j + 4"
        "is_char_boundary (drop start s) j" by blast
      have bj: "0 < j \<Longrightarrow> is_char_boundary s (start + j)"
        using j(3) True by (auto simp: is_char_boundary_def)
      show ?thesis
      proof (cases "length s - start \<le> m")
        case True
        with e show ?thesis by linarith
      next
        case False
        with j m have j0: "0 < j" by simp
        with j bj have "start + j \<le> back_to_boundary s start (min (start + m) (length s))"
          by (intro back_to_boundary_ge) auto
        with j0 have "?e = back_to_boundary s start (min (start + m) (length s))"
          by (simp add: chunk_end_def Let_def)
        with back_to_boundary_le [of s start "min (start + m) (length s)"] show ?thesis by linarith
      qed
    qed
    have IH: "list_all (\<lambda>c. c \<noteq> [] \<and> utf8_valid c \<and> (4 \<le> m \<longrightarrow> length c \<le> m)) (chunk_utf8_from s m ?e)"
      using "1.IH" [OF True refl] cut(2) e by simp
    with True e cut(1) len show ?thesis
      by (subst chunk_utf8_from.simps) (auto simp: Let_def)
  qed (simp add: chunk_utf8_from.simps)
qed

text \<open>The size of the next piece of an answer, at most \<open>limit\<close> bytes, \<open>None\<close> when more bytes must arrive first.\<close>

definition text_take :: "nat \<Rightarrow> string \<Rightarrow> bool \<Rightarrow> nat option" where
  "text_take limit pending fin =
     (if length pending \<ge> limit
      then (let e = back_to_boundary pending 0 (min limit (length pending))
            in if e = 0 then None else Some e)
      else if fin then (if length pending = 0 then None else Some (length pending))
      else None)"

definition STREAM_CHUNK_BYTES :: nat where "STREAM_CHUNK_BYTES = 1024"

definition flush_take :: "string \<Rightarrow> bool \<Rightarrow> nat option" where
  "flush_take = text_take STREAM_CHUNK_BYTES"

lemma text_take_shrinks: "text_take limit pending fin = Some n \<Longrightarrow> 0 < n \<and> 0 < length pending"
  by (cases pending) (auto simp: text_take_def Let_def split: if_splits)

lemma text_take_Some:
  assumes "utf8_valid pending" "text_take limit pending fin = Some n"
  shows "0 < n \<and> n \<le> length pending \<and> n \<le> limit \<and> utf8_valid (take n pending) \<and> utf8_valid (drop n pending)"
proof -
  have n: "0 < n \<and> n \<le> length pending \<and> n \<le> limit \<and> is_char_boundary pending n"
    using assms(2) back_to_boundary_le [of pending 0 limit] back_to_boundary_stop [of pending 0 limit]
    by (auto simp: text_take_def Let_def is_char_boundary_def split: if_splits)
  with utf8_cut [OF assms(1)] show ?thesis by blast
qed

lemma text_take_None:
  assumes "utf8_valid pending" "text_take limit pending fin = None" "4 \<le> limit" "fin \<or> limit \<le> length pending"
  shows "pending = []"
proof (rule ccontr)
  assume ne: "pending \<noteq> []"
  show False
  proof (cases "length pending \<ge> limit")
    case True
    then obtain j where "j \<le> limit" "limit < j + 4" "is_char_boundary pending j"
      using boundary_near [OF assms(1) True] by blast
    then have "j \<le> back_to_boundary pending 0 limit" "0 < j"
      using assms(3) by (auto intro: back_to_boundary_ge)
    with assms(2) True show False by (simp add: text_take_def Let_def min_absorb1)
  next
    case False
    with assms(2,4) ne show False by (simp add: text_take_def)
  qed
qed

lemma flush_take_Some:
  assumes "utf8_valid pending" "flush_take pending fin = Some n"
  shows "0 < n \<and> n \<le> length pending \<and> n \<le> STREAM_CHUNK_BYTES
    \<and> utf8_valid (take n pending) \<and> utf8_valid (drop n pending)"
  using text_take_Some [OF assms(1)] assms(2) by (simp add: flush_take_def)

lemma flush_take_None:
  assumes "utf8_valid pending" "flush_take pending True = None"
  shows "pending = []"
  using text_take_None [OF assms(1)] assms(2) by (simp add: flush_take_def STREAM_CHUNK_BYTES_def)

text \<open>C38: Cutting a request body into encrypted chunks loses and splits nothing: the pieces, in order,
  are the body; each is non-empty, valid UTF-8 on its own (so it survives \<open>String::from_utf8\<close> on the
  other side) and at most the limit long.\<close>

theorem chunk_utf8_exact:
  assumes "utf8_valid s" "4 \<le> m"
  shows "concat (chunk_utf8 s m) = s
    \<and> list_all (\<lambda>c. c \<noteq> [] \<and> utf8_valid c \<and> length c \<le> m) (chunk_utf8 s m)"
  using concat_chunk_utf8_from [of s m 0] chunk_utf8_from_pieces [of 0 s m] assms
  by (simp add: chunk_utf8_def list_all_iff)

theorem chunk_utf8_exact_witness:
  "concat (chunk_utf8 [CHR 0xE2, CHR 0x82, CHR 0xAC, CHR 0xE2, CHR 0x82, CHR 0xAC] 4)
    = [CHR 0xE2, CHR 0x82, CHR 0xAC, CHR 0xE2, CHR 0x82, CHR 0xAC]"
  by (rule chunk_utf8_exact [THEN conjunct1]) (simp_all add: in_range_def is_cont_def)

end
