(* ===== verification/Proxy_Crypto.thy ===== *)
theory Proxy_Crypto
  imports Client_Config P2p_Protocol Utf8_Chunks
begin

text \<open>
  The end-to-end encryption of proxied requests: \<open>crypto/*\<close>, \<open>security/proxy_auth.rs\<close>,
  \<open>security/flags.rs\<close>, \<open>proxy_e2ee.rs\<close> and the provider's half in \<open>inference_sidecar.rs\<close>.

  The primitives (ChaCha20-Poly1305, X25519, SHA-256, HMAC-SHA-256) are the record \<open>primitives\<close>,
  an argument of everything that uses them. \<open>primitives_ok\<close> states what the code relies on: opening
  what was sealed under the same key, nonce and associated data gives the plaintext, the two
  Diffie-Hellman computations agree, and public keys and digests have 32 bytes. Random bytes are
  arguments. Byte arrays and strings are both \<open>char list\<close>; \<open>String::from_utf8\<close> is \<open>utf8_valid\<close>.
\<close>

section \<open>Primitives\<close>

record primitives =
  prim_seal :: "string \<Rightarrow> string \<Rightarrow> string \<Rightarrow> string \<Rightarrow> string option"
  prim_open :: "string \<Rightarrow> string \<Rightarrow> string \<Rightarrow> string \<Rightarrow> string option"
  prim_pub :: "string \<Rightarrow> string"
  prim_dh :: "string \<Rightarrow> string \<Rightarrow> string"
  prim_sha256 :: "string \<Rightarrow> string"
  prim_hmac :: "string \<Rightarrow> string \<Rightarrow> string"

definition primitives_ok :: "primitives \<Rightarrow> bool" where
  "primitives_ok P =
     ((\<forall>k n a m c. prim_seal P k n a m = Some c \<longrightarrow> prim_open P k n a c = Some m)
      \<and> (\<forall>s t. prim_dh P s (prim_pub P t) = prim_dh P t (prim_pub P s))
      \<and> (\<forall>s. length (prim_pub P s) = 32)
      \<and> (\<forall>m. length (prim_sha256 P m) = 32))"

datatype e2ee_error =
    ErrNonce | ErrEncrypt | ErrNonceLength | ErrDecrypt | ErrMissingSecret | ErrEphemeralKey
  | ErrStore | ErrUtf8 | ErrJson | ErrPkHex | ErrPkLength | ErrRemote string | Panicked

text \<open>\<open>hex::encode\<close> and \<open>hex::decode\<close>.\<close>

definition hex_digit :: "nat \<Rightarrow> char" where
  "hex_digit n = ''0123456789abcdef'' ! n"

definition hex_encode :: "string \<Rightarrow> string" where
  "hex_encode bs = concat (map (\<lambda>b. [hex_digit (of_char b div 16), hex_digit (of_char b mod 16)]) bs)"

definition hex_val :: "char \<Rightarrow> nat option" where
  "hex_val c = (if in_range 48 57 c then Some (of_char c - 48)
     else if in_range 97 102 c then Some (of_char c - 87)
     else if in_range 65 70 c then Some (of_char c - 55) else None)"

fun hex_decode :: "string \<Rightarrow> string option" where
  "hex_decode [] = Some []"
| "hex_decode [_] = None"
| "hex_decode (a # b # s) =
     (case (hex_val a, hex_val b, hex_decode s) of
        (Some x, Some y, Some t) \<Rightarrow> Some (char_of (16 * x + y) # t) | _ \<Rightarrow> None)"

section \<open>Constant-time comparison\<close>

definition byte_of :: "char \<Rightarrow> 8 word" where
  "byte_of c = of_nat (of_char c)"

definition constant_time_eq :: "string \<Rightarrow> string \<Rightarrow> bool" where
  "constant_time_eq a b =
     (if length a \<noteq> length b then False
      else foldl (\<lambda>acc (x, y). acc OR (byte_of x XOR byte_of y)) (0 :: 8 word) (zip a b) = 0)"

section \<open>Envelope\<close>

definition AAD_VERSION :: nat where "AAD_VERSION = 1"

definition build_aad :: "string \<Rightarrow> string \<Rightarrow> string \<Rightarrow> string" where
  "build_aad req_id path room_id =
     ''mtrxai-v'' @ show_nat AAD_VERSION @ ''|'' @ req_id @ ''|'' @ path @ ''|'' @ room_id"

definition encrypt_payload ::
  "primitives \<Rightarrow> string option \<Rightarrow> string \<Rightarrow> string \<Rightarrow> string \<Rightarrow> string \<Rightarrow> string
     \<Rightarrow> e2ee_error + (string \<times> string)" where
  "encrypt_payload P nonce session_key req_id path room_id plaintext =
     (case nonce of
        None \<Rightarrow> Inl ErrNonce
      | Some n \<Rightarrow>
          (case prim_seal P session_key n (build_aad req_id path room_id) plaintext of
             None \<Rightarrow> Inl ErrEncrypt
           | Some c \<Rightarrow> Inr (n, c)))"

definition decrypt_payload ::
  "primitives \<Rightarrow> string \<Rightarrow> string \<Rightarrow> string \<Rightarrow> string \<Rightarrow> string \<times> string \<Rightarrow> e2ee_error + string" where
  "decrypt_payload P session_key req_id path room_id payload =
     (if length (fst payload) \<noteq> 12 then Inl ErrNonceLength
      else (case prim_open P session_key (fst payload) (build_aad req_id path room_id) (snd payload) of
              None \<Rightarrow> Inl ErrDecrypt
            | Some m \<Rightarrow> Inr m))"

section \<open>Keys\<close>

definition auth_hash_from_secret :: "primitives \<Rightarrow> string \<Rightarrow> string" where
  "auth_hash_from_secret P secret = hex_encode (prim_sha256 P secret)"

definition verify_auth_hash :: "primitives \<Rightarrow> string \<Rightarrow> string \<Rightarrow> bool" where
  "verify_auth_hash P secret stored_hash = constant_time_eq (auth_hash_from_secret P secret) stored_hash"

definition derive_room_root_key :: "primitives \<Rightarrow> string \<Rightarrow> string \<Rightarrow> string" where
  "derive_room_root_key P room_secret room_id =
     prim_sha256 P (''mtrxai-room-root-v1'' @ room_secret @ room_id)"

record room_static_keys =
  rk_public :: string
  rk_secret :: string

definition derive_static_keypair_from_room_root :: "primitives \<Rightarrow> string \<Rightarrow> room_static_keys" where
  "derive_static_keypair_from_room_root P room_root =
     (let seed = take 32 (prim_sha256 P (room_root @ ''static-x25519''))
      in \<lparr>rk_public = prim_pub P seed, rk_secret = seed\<rparr>)"

text \<open>The table of room keys; \<open>get_ok\<close> and \<open>put_ok\<close> say whether the two database calls succeed.\<close>

record key_store =
  ks_rooms :: "(string, string) hmap"
  ks_get_ok :: bool
  ks_put_ok :: bool

definition load_room_static_keypair ::
  "primitives \<Rightarrow> key_store \<Rightarrow> string \<Rightarrow> string \<Rightarrow> (e2ee_error + room_static_keys) \<times> key_store" where
  "load_room_static_keypair P ks room_id room_root =
     (let derived = derive_static_keypair_from_room_root P room_root;
          blob = rk_public derived @ rk_secret derived
      in if \<not> ks_get_ok ks then (Inl ErrStore, ks)
         else if (case hm_get (ks_rooms ks) room_id of
                    Some stored \<Rightarrow> length stored = 64 \<and> take 32 stored = rk_public derived
                      \<and> drop 32 stored = rk_secret derived
                  | None \<Rightarrow> False)
         then (Inr derived, ks)
         else if \<not> ks_put_ok ks then (Inl ErrStore, ks)
         else (Inr derived, ks\<lparr>ks_rooms := hm_insert room_id blob (ks_rooms ks)\<rparr>))"

definition hkdf_session_key :: "primitives \<Rightarrow> string \<Rightarrow> string \<Rightarrow> string \<Rightarrow> string" where
  "hkdf_session_key P shared req_id room_id =
     prim_sha256 P (''mtrxai-session-key-v1'' @ shared @ req_id @ room_id)"

definition derive_session_key :: "primitives \<Rightarrow> string \<Rightarrow> string \<Rightarrow> string \<Rightarrow> string \<Rightarrow> string" where
  "derive_session_key P room_static_secret consumer_ephemeral_public req_id room_id =
     hkdf_session_key P (prim_dh P room_static_secret consumer_ephemeral_public) req_id room_id"

definition derive_session_key_consumer :: "primitives \<Rightarrow> string \<Rightarrow> string \<Rightarrow> string \<Rightarrow> string \<Rightarrow> string" where
  "derive_session_key_consumer P consumer_ephemeral_secret provider_static_public req_id room_id =
     hkdf_session_key P (prim_dh P consumer_ephemeral_secret provider_static_public) req_id room_id"

section \<open>Membership proofs\<close>

definition PROXY_AUTH_MAX_SKEW_SECS :: nat where "PROXY_AUTH_MAX_SKEW_SECS = 300"

record proxy_auth_proof =
  pap_peer_id :: string
  pap_timestamp :: nat
  pap_mac :: string

text \<open>\<open>timestamp.to_le_bytes()\<close>.\<close>

fun le_bytes :: "nat \<Rightarrow> nat \<Rightarrow> string" where
  "le_bytes 0 n = []"
| "le_bytes (Suc k) n = char_of (n mod 256) # le_bytes k (n div 256)"

definition compute_mac :: "primitives \<Rightarrow> string \<Rightarrow> string \<Rightarrow> nat \<Rightarrow> string" where
  "compute_mac P p2p_token peer_id timestamp =
     hex_encode (prim_hmac P p2p_token (''mtrxai-proxy-auth-v1'' @ peer_id @ le_bytes 8 timestamp))"

definition build_proxy_auth :: "primitives \<Rightarrow> nat \<Rightarrow> string \<Rightarrow> string \<Rightarrow> proxy_auth_proof" where
  "build_proxy_auth P now p2p_token peer_id =
     \<lparr>pap_peer_id = peer_id, pap_timestamp = now, pap_mac = compute_mac P p2p_token peer_id now\<rparr>"

definition abs_diff :: "nat \<Rightarrow> nat \<Rightarrow> nat" where
  "abs_diff a b = (if a \<le> b then b - a else a - b)"

definition verify_proxy_auth :: "primitives \<Rightarrow> nat \<Rightarrow> proxy_auth_proof \<Rightarrow> string \<Rightarrow> string \<Rightarrow> bool" where
  "verify_proxy_auth P now prf p2p_token expected_peer_id =
     (if pap_peer_id prf \<noteq> expected_peer_id then False
      else if abs_diff (pap_timestamp prf) now > PROXY_AUTH_MAX_SKEW_SECS then False
      else constant_time_eq (pap_mac prf)
             (compute_mac P p2p_token (pap_peer_id prf) (pap_timestamp prf)))"

section \<open>Flags\<close>

definition flag_value :: "bool \<Rightarrow> string option \<Rightarrow> bool" where
  "flag_value dflt v =
     (case v of Some s \<Rightarrow> s = ''1'' \<or> eq_ignore_ascii_case s ''true'' | None \<Rightarrow> dflt)"

definition env_truthy :: "environment \<Rightarrow> string \<Rightarrow> bool" where
  "env_truthy env name = flag_value False (env name)"

definition e2ee_enabled :: "environment \<Rightarrow> bool" where
  "e2ee_enabled env = flag_value True (env ''MTRXAI_E2EE_ENABLED'')"

definition require_tee :: "environment \<Rightarrow> bool" where
  "require_tee env = env_truthy env ''MTRXAI_REQUIRE_TEE''"

definition inference_sidecar_enabled :: "environment \<Rightarrow> bool" where
  "inference_sidecar_enabled env = flag_value False (env ''MTRXAI_INFERENCE_SIDECAR'')"

definition proxy_bind_host :: "environment \<Rightarrow> string" where
  "proxy_bind_host env =
     unwrap_or (opt_filter (\<lambda>s. trim s \<noteq> []) (env ''MTRXAI_PROXY_BIND'')) ''127.0.0.1''"

section \<open>Rooms\<close>

definition e2ee_room_id_for_swarm_token :: "primitives \<Rightarrow> string \<Rightarrow> string" where
  "e2ee_room_id_for_swarm_token P p2p_token =
     token_namespace (\<lambda>t. hex_encode (prim_sha256 P t)) p2p_token"

definition e2ee_room_id_for_swarm_membership :: "primitives \<Rightarrow> client_config \<Rightarrow> string \<Rightarrow> string option" where
  "e2ee_room_id_for_swarm_membership P cfg swarm_id =
     map_option (\<lambda>s. e2ee_room_id_for_swarm_token P (sm_p2p_token s))
       (find (\<lambda>s. sm_swarm_id s = swarm_id) (cfg_swarms cfg))"

definition room_id_for_proxy ::
  "primitives \<Rightarrow> client_config \<Rightarrow> string option \<Rightarrow> string option \<Rightarrow> string option" where
  "room_id_for_proxy P cfg cluster_id swarm_id =
     (case cluster_id of
        Some cid \<Rightarrow> Some cid
      | None \<Rightarrow> Option.bind swarm_id (e2ee_room_id_for_swarm_membership P cfg))"

definition cluster_effective_room_secret :: "string \<Rightarrow> string option \<Rightarrow> string" where
  "cluster_effective_room_secret cluster_id password = cluster_id @ '':'' @ unwrap_or password []"

definition cluster_password_from_membership :: "cluster_membership \<Rightarrow> string option" where
  "cluster_password_from_membership c = opt_or (cm_cluster_password c) (cm_room_secret c)"

definition swarm_room :: "primitives \<Rightarrow> string \<Rightarrow> swarm_membership \<Rightarrow> bool" where
  "swarm_room P room_id s =
     (e2ee_room_id_for_swarm_token P (sm_p2p_token s) = room_id \<or> sm_swarm_id s = room_id)"

definition room_secret_for_proxy :: "primitives \<Rightarrow> client_config \<Rightarrow> string \<Rightarrow> string option" where
  "room_secret_for_proxy P cfg room_id =
     (case find (\<lambda>c. cm_cluster_id c = room_id) (cfg_clusters cfg) of
        Some c \<Rightarrow> Some (cluster_effective_room_secret (cm_cluster_id c) (cluster_password_from_membership c))
      | None \<Rightarrow> map_option sm_p2p_token (find (swarm_room P room_id) (cfg_swarms cfg)))"

definition decode_provider_static_public :: "string \<Rightarrow> e2ee_error + string" where
  "decode_provider_static_public hex =
     (case hex_decode (trim hex) of
        None \<Rightarrow> Inl ErrPkHex
      | Some bytes \<Rightarrow> if length bytes \<noteq> 32 then Inl ErrPkLength else Inr bytes)"

text \<open>The keys of the room, shared by every operation below: secret, root, static pair.\<close>

definition room_keys ::
  "primitives \<Rightarrow> key_store \<Rightarrow> client_config \<Rightarrow> string \<Rightarrow> (e2ee_error + room_static_keys) \<times> key_store" where
  "room_keys P ks cfg room_id =
     (case room_secret_for_proxy P cfg room_id of
        None \<Rightarrow> (Inl ErrMissingSecret, ks)
      | Some secret \<Rightarrow> load_room_static_keypair P ks room_id (derive_room_root_key P secret room_id))"

definition provider_static_public_key ::
  "primitives \<Rightarrow> key_store \<Rightarrow> client_config \<Rightarrow> string \<Rightarrow> (e2ee_error + string) \<times> key_store" where
  "provider_static_public_key P ks cfg room_id =
     (case room_keys P ks cfg room_id of
        (Inl e, ks) \<Rightarrow> (Inl e, ks) | (Inr k, ks) \<Rightarrow> (Inr (rk_public k), ks))"

definition resolve_provider_static_public ::
  "primitives \<Rightarrow> key_store \<Rightarrow> client_config \<Rightarrow> string \<Rightarrow> string option \<Rightarrow> (e2ee_error + string) \<times> key_store" where
  "resolve_provider_static_public P ks cfg room_id catalog_pk_hex =
     (case catalog_pk_hex of
        None \<Rightarrow> provider_static_public_key P ks cfg room_id
      | Some hex \<Rightarrow>
          (case decode_provider_static_public hex of
             Inr pk \<Rightarrow> (Inr pk, ks)
           | Inl _ \<Rightarrow> provider_static_public_key P ks cfg room_id))"

definition proxy_auth_for_room ::
  "primitives \<Rightarrow> nat \<Rightarrow> client_config \<Rightarrow> string \<Rightarrow> string \<Rightarrow> proxy_auth_proof option" where
  "proxy_auth_for_room P now cfg peer_id room_id =
     (case find (\<lambda>c. cm_cluster_id c = room_id) (cfg_clusters cfg) of
        Some c \<Rightarrow> Some (build_proxy_auth P now
            (cluster_effective_room_secret (cm_cluster_id c) (cluster_password_from_membership c)) peer_id)
      | None \<Rightarrow>
          (case find (swarm_room P room_id) (cfg_swarms cfg) of
             Some s \<Rightarrow> Some (build_proxy_auth P now (sm_p2p_token s) peer_id)
           | None \<Rightarrow> map_option (\<lambda>t. build_proxy_auth P now t peer_id) (cfg_proxy_token cfg)))"

section \<open>Consumer and provider\<close>

definition chunk_path :: "string \<Rightarrow> nat \<Rightarrow> string" where
  "chunk_path path seq = path @ ''#chunk/'' @ show_nat seq"

record encrypted_request =
  er_req_id :: string
  er_path :: string
  er_room_id :: string
  er_consumer_pk :: string
  er_nonce :: string
  er_ciphertext :: string
  er_aad_version :: nat
  er_auth :: "proxy_auth_proof option"

text \<open>\<open>eph\<close> is the random ephemeral secret, \<open>plain\<close> the serialised body (\<open>None\<close>: \<open>to_vec\<close> failed).\<close>

definition encrypt_proxy_request ::
  "primitives \<Rightarrow> key_store \<Rightarrow> client_config \<Rightarrow> nat \<Rightarrow> string \<Rightarrow> string option \<Rightarrow> string \<Rightarrow> string \<Rightarrow> string
     \<Rightarrow> string option \<Rightarrow> string \<Rightarrow> string \<Rightarrow> (e2ee_error + (encrypted_request \<times> string)) \<times> key_store" where
  "encrypt_proxy_request P ks cfg now eph nonce peer_id req_id path plain room_id provider_pk =
     (case room_keys P ks cfg room_id of
        (Inl e, ks) \<Rightarrow> (Inl e, ks)
      | (Inr _, ks) \<Rightarrow>
          (let session_key = derive_session_key_consumer P eph provider_pk req_id room_id
           in (case plain of
                 None \<Rightarrow> (Inl ErrJson, ks)
               | Some body \<Rightarrow>
                   (case encrypt_payload P nonce session_key req_id path room_id body of
                      Inl e \<Rightarrow> (Inl e, ks)
                    | Inr (n, c) \<Rightarrow>
                        (Inr (\<lparr>er_req_id = req_id, er_path = path, er_room_id = room_id,
                               er_consumer_pk = prim_pub P eph, er_nonce = n, er_ciphertext = c,
                               er_aad_version = AAD_VERSION,
                               er_auth = proxy_auth_for_room P now cfg peer_id room_id\<rparr>, eph), ks)))))"

definition encrypt_proxy_request_chunk ::
  "primitives \<Rightarrow> string option \<Rightarrow> string \<Rightarrow> string \<Rightarrow> string \<Rightarrow> string \<Rightarrow> string \<Rightarrow> nat \<Rightarrow> string
     \<Rightarrow> e2ee_error + (string \<times> string)" where
  "encrypt_proxy_request_chunk P nonce eph provider_pk room_id req_id path seq plaintext =
     encrypt_payload P nonce (derive_session_key_consumer P eph provider_pk req_id room_id)
       req_id (chunk_path path seq) room_id plaintext"

definition encrypt_proxy_chunk ::
  "primitives \<Rightarrow> key_store \<Rightarrow> client_config \<Rightarrow> string option \<Rightarrow> string \<Rightarrow> string \<Rightarrow> string \<Rightarrow> nat \<Rightarrow> string
     \<Rightarrow> string \<Rightarrow> (e2ee_error + (string \<times> string)) \<times> key_store" where
  "encrypt_proxy_chunk P ks cfg nonce room_id req_id path seq consumer_pk plaintext =
     (if length consumer_pk \<noteq> 32 then (Inl ErrEphemeralKey, ks)
      else (case room_keys P ks cfg room_id of
              (Inl e, ks) \<Rightarrow> (Inl e, ks)
            | (Inr keys, ks) \<Rightarrow>
                (encrypt_payload P nonce (derive_session_key P (rk_secret keys) consumer_pk req_id room_id)
                   req_id (chunk_path path seq) room_id plaintext, ks)))"

definition utf8_result :: "e2ee_error + string \<Rightarrow> e2ee_error + string" where
  "utf8_result r = (case r of Inl e \<Rightarrow> Inl e | Inr m \<Rightarrow> if utf8_valid m then Inr m else Inl ErrUtf8)"

definition decrypt_proxy_chunk ::
  "primitives \<Rightarrow> key_store \<Rightarrow> client_config \<Rightarrow> string \<Rightarrow> string \<Rightarrow> nat \<Rightarrow> string \<Rightarrow> string \<Rightarrow> string
     \<Rightarrow> string \<Rightarrow> string \<Rightarrow> (e2ee_error + string) \<times> key_store" where
  "decrypt_proxy_chunk P ks cfg req_id path seq room_id eph provider_pk nonce ciphertext =
     (case room_keys P ks cfg room_id of
        (Inl e, ks) \<Rightarrow> (Inl e, ks)
      | (Inr _, ks) \<Rightarrow>
          (utf8_result (decrypt_payload P (derive_session_key_consumer P eph provider_pk req_id room_id)
             req_id (chunk_path path seq) room_id (nonce, ciphertext)), ks))"

record encrypted_response =
  eres_nonce :: string
  eres_ciphertext :: string
  eres_error :: "string option"

definition decrypt_proxy_response ::
  "primitives \<Rightarrow> key_store \<Rightarrow> client_config \<Rightarrow> string \<Rightarrow> string \<Rightarrow> string \<Rightarrow> string \<Rightarrow> string
     \<Rightarrow> encrypted_response \<Rightarrow> (e2ee_error + string) \<times> key_store" where
  "decrypt_proxy_response P ks cfg req_id path room_id eph provider_pk msg =
     (case eres_error msg of
        Some err \<Rightarrow> (Inl (ErrRemote err), ks)
      | None \<Rightarrow>
          (case room_keys P ks cfg room_id of
             (Inl e, ks) \<Rightarrow> (Inl e, ks)
           | (Inr _, ks) \<Rightarrow>
               (utf8_result (decrypt_payload P (derive_session_key_consumer P eph provider_pk req_id room_id)
                  req_id path room_id (eres_nonce msg, eres_ciphertext msg)), ks)))"

text \<open>The provider's half, in \<open>inference_sidecar.rs\<close>; \<open>parse\<close> is \<open>serde_json::from_slice\<close>.\<close>

definition decrypt_inbound ::
  "primitives \<Rightarrow> key_store \<Rightarrow> client_config \<Rightarrow> string \<Rightarrow> string \<Rightarrow> string \<Rightarrow> string \<Rightarrow> string \<Rightarrow> string
     \<Rightarrow> (e2ee_error + string) \<times> key_store" where
  "decrypt_inbound P ks cfg room_id req_id aad_path consumer_pk nonce ciphertext =
     (if length consumer_pk \<noteq> 32 then (Inl ErrEphemeralKey, ks)
      else (case room_keys P ks cfg room_id of
              (Inl e, ks) \<Rightarrow> (Inl e, ks)
            | (Inr keys, ks) \<Rightarrow>
                (decrypt_payload P (derive_session_key P (rk_secret keys) consumer_pk req_id room_id)
                   req_id aad_path room_id (nonce, ciphertext), ks)))"

definition decrypt_inbound_request ::
  "primitives \<Rightarrow> (string \<Rightarrow> json option) \<Rightarrow> key_store \<Rightarrow> client_config \<Rightarrow> string \<Rightarrow> string \<Rightarrow> string \<Rightarrow> string
     \<Rightarrow> string \<Rightarrow> string \<Rightarrow> (e2ee_error + json) \<times> key_store" where
  "decrypt_inbound_request P parse ks cfg room_id req_id path consumer_pk nonce ciphertext =
     (case decrypt_inbound P ks cfg room_id req_id path consumer_pk nonce ciphertext of
        (Inl e, ks) \<Rightarrow> (Inl e, ks)
      | (Inr plain, ks) \<Rightarrow> (case parse plain of None \<Rightarrow> Inl ErrJson | Some v \<Rightarrow> Inr v, ks))"

definition decrypt_inbound_request_chunk ::
  "primitives \<Rightarrow> key_store \<Rightarrow> client_config \<Rightarrow> string \<Rightarrow> string \<Rightarrow> string \<Rightarrow> nat \<Rightarrow> string \<Rightarrow> string \<Rightarrow> string
     \<Rightarrow> (e2ee_error + string) \<times> key_store" where
  "decrypt_inbound_request_chunk P ks cfg room_id req_id path seq consumer_pk nonce ciphertext =
     (case decrypt_inbound P ks cfg room_id req_id (chunk_path path seq) consumer_pk nonce ciphertext of
        (r, ks) \<Rightarrow> (utf8_result r, ks))"

definition encrypt_outbound_response ::
  "primitives \<Rightarrow> key_store \<Rightarrow> client_config \<Rightarrow> string option \<Rightarrow> string \<Rightarrow> string \<Rightarrow> string \<Rightarrow> string \<Rightarrow> string
     \<Rightarrow> (e2ee_error + (string \<times> string)) \<times> key_store" where
  "encrypt_outbound_response P ks cfg nonce room_id req_id path consumer_pk plaintext =
     (if length consumer_pk \<noteq> 32 then (Inl Panicked, ks)
      else (case room_keys P ks cfg room_id of
              (Inl e, ks) \<Rightarrow> (Inl e, ks)
            | (Inr keys, ks) \<Rightarrow>
                (encrypt_payload P nonce (derive_session_key P (rk_secret keys) consumer_pk req_id room_id)
                   req_id path room_id plaintext, ks)))"

definition verify_inbound_auth ::
  "primitives \<Rightarrow> nat \<Rightarrow> client_config \<Rightarrow> proxy_auth_proof option \<Rightarrow> string option" where
  "verify_inbound_auth P now cfg auth =
     (case auth of
        None \<Rightarrow> None
      | Some prf \<Rightarrow>
          (let ok = (\<lambda>t. verify_proxy_auth P now prf t (pap_peer_id prf));
               token = opt_or (map_option sm_p2p_token (find (\<lambda>s. ok (sm_p2p_token s)) (cfg_swarms cfg)))
                 (opt_filter ok (cfg_proxy_token cfg))
           in if token \<noteq> None then None else Some ''Proxy auth failed''))"

section \<open>Comparison, proofs and associated data\<close>

lemma byte_xor: "byte_of x XOR byte_of y = 0 \<longleftrightarrow> x = y"
proof -
  have "unat (byte_of c) = of_char c" for c
  proof -
    have "(of_char c :: nat) mod 256 < 256" by simp
    then have "(of_char c :: nat) < 256" by (simp only: of_char_mod_256)
    then show ?thesis by (simp add: byte_of_def unat_of_nat)
  qed
  then have "byte_of x = byte_of y \<longleftrightarrow> x = y" by (metis char_of_char)
  moreover have "byte_of x XOR byte_of y = 0 \<longleftrightarrow> byte_of x = byte_of y"
    by (auto simp: bit_eq_iff bit_xor_iff)
  ultimately show ?thesis by simp
qed

lemma foldl_or_zero:
  "foldl (\<lambda>acc (x, y). acc OR (f x y)) (a :: 8 word) ps = 0 \<longleftrightarrow> a = 0 \<and> (\<forall>(x, y)\<in>set ps. f x y = 0)"
  by (induction ps arbitrary: a) (auto simp: or_eq_0_iff)

lemma constant_time_eq_iff: "constant_time_eq a b \<longleftrightarrow> a = b"
proof (cases "length a = length b")
  case True
  have "(\<forall>(x, y)\<in>set (zip a b). x = y) \<longleftrightarrow> a = b"
    using True by (induction a b rule: list_induct2) auto
  with True show ?thesis by (simp add: constant_time_eq_def foldl_or_zero byte_xor)
qed (auto simp: constant_time_eq_def)

text \<open>A membership proof is accepted exactly when it names the expected peer, its time is within
  five minutes of the verifier's clock on either side, and its MAC is the one of that peer and time
  under the room's token; the constant-time comparison of the two strings decides equality.\<close>

theorem proof_accepted_iff:
  "(verify_proxy_auth P now prf token peer \<longleftrightarrow>
      pap_peer_id prf = peer \<and> pap_timestamp prf \<le> now + 300 \<and> now \<le> pap_timestamp prf + 300
      \<and> pap_mac prf = compute_mac P token peer (pap_timestamp prf))
   \<and> (verify_proxy_auth P now (build_proxy_auth P t token p) token peer \<longleftrightarrow>
      p = peer \<and> t \<le> now + 300 \<and> now \<le> t + 300)
   \<and> (constant_time_eq a b \<longleftrightarrow> a = b)"
  by (auto simp: verify_proxy_auth_def build_proxy_auth_def constant_time_eq_iff
      PROXY_AUTH_MAX_SKEW_SECS_def abs_diff_def)

lemma split_at_bar:
  "c \<notin> set a \<Longrightarrow> c \<notin> set a' \<Longrightarrow> a @ c # x = a' @ c # x' \<Longrightarrow> a = a' \<and> x = x'"
  by (metis split_once_append option.inject prod.inject)

lemma build_aad_inj:
  assumes "CHR ''|'' \<notin> set r" "CHR ''|'' \<notin> set r'" "CHR ''|'' \<notin> set p" "CHR ''|'' \<notin> set p'"
    and "build_aad r p m = build_aad r' p' m'"
  shows "r = r' \<and> p = p' \<and> m = m'"
proof -
  have "r @ CHR ''|'' # p @ CHR ''|'' # m = r' @ CHR ''|'' # p' @ CHR ''|'' # m'"
    using assms(5) by (simp add: build_aad_def)
  from split_at_bar [OF assms(1,2) this]
  have "r = r'" and "p @ CHR ''|'' # m = p' @ CHR ''|'' # m'" by auto
  with split_at_bar [OF assms(3,4)] show ?thesis by blast
qed

lemma show_nat_inj: "show_nat a = show_nat b \<Longrightarrow> a = b"
  by (metis digits_val_show_nat option.inject)

lemma chunk_path_inj: "chunk_path p i = chunk_path p j \<Longrightarrow> i = j"
  by (auto simp: chunk_path_def dest: show_nat_inj)

lemma chunk_path_not_bar: "CHR ''|'' \<notin> set p \<Longrightarrow> CHR ''|'' \<notin> set (chunk_path p i)"
  by (simp add: chunk_path_def show_nat_not_in)

lemma show_nat_no_hash: "CHR ''#'' \<notin> set (show_nat n)" "CHR ''/'' \<notin> set (show_nat n)"
  by (simp_all add: show_nat_not_in)

lemma chunk_path_length: "length p < length (chunk_path p i)"
  by (simp add: chunk_path_def)

text \<open>The associated data of a message binds its request, its path and its room (when request and
  path have no bar), and that of a chunk also its place: two chunks of one request, or a chunk and the
  whole request, never have the same, so neither can stand in for the other.\<close>

theorem associated_data_binds:
  assumes "CHR ''|'' \<notin> set r" "CHR ''|'' \<notin> set r'" "CHR ''|'' \<notin> set p" "CHR ''|'' \<notin> set p'"
  shows "(build_aad r p m = build_aad r' p' m' \<longleftrightarrow> r = r' \<and> p = p' \<and> m = m')
    \<and> (build_aad r (chunk_path p i) m = build_aad r' (chunk_path p j) m' \<longleftrightarrow> r = r' \<and> i = j \<and> m = m')
    \<and> build_aad r (chunk_path p i) m \<noteq> build_aad r' p m'"
proof (intro conjI)
  show "build_aad r p m = build_aad r' p' m' \<longleftrightarrow> r = r' \<and> p = p' \<and> m = m'"
    using build_aad_inj [OF assms] by blast
  show "build_aad r (chunk_path p i) m = build_aad r' (chunk_path p j) m' \<longleftrightarrow> r = r' \<and> i = j \<and> m = m'"
    using build_aad_inj [OF assms(1,2) chunk_path_not_bar chunk_path_not_bar] assms(3) chunk_path_inj by blast
  show "build_aad r (chunk_path p i) m \<noteq> build_aad r' p m'"
    using build_aad_inj [OF assms(1,2) chunk_path_not_bar assms(3)] assms(3) chunk_path_length [of p i]
    by (metis less_irrefl)
qed

theorem associated_data_binds_witness:
  "build_aad ''r'' (chunk_path ''/api/chat'' 1) ''room'' \<noteq> build_aad ''r'' ''/api/chat'' ''room''"
  using associated_data_binds [of "''r''" "''r''" "''/api/chat''" "''/api/chat''" "''room''" "''room''" 1 0] by simp

section \<open>Key agreement\<close>

definition room_pair :: "primitives \<Rightarrow> string \<Rightarrow> string \<Rightarrow> room_static_keys" where
  "room_pair P secret room_id = derive_static_keypair_from_room_root P (derive_room_root_key P secret room_id)"

definition store_ok :: "key_store \<Rightarrow> bool" where
  "store_ok ks = (ks_get_ok ks \<and> ks_put_ok ks)"

lemma load_pair:
  assumes "primitives_ok P" "load_room_static_keypair P ks room_id root = (Inr keys, ks')"
  shows "keys = derive_static_keypair_from_room_root P root
    \<and> hm_get (ks_rooms ks') room_id = Some (rk_public keys @ rk_secret keys)
    \<and> (\<forall>r. r \<noteq> room_id \<longrightarrow> hm_get (ks_rooms ks') r = hm_get (ks_rooms ks) r)"
  using assms(2)
  by (auto simp: load_room_static_keypair_def Let_def split: if_splits option.splits)
     (metis append_take_drop_id)

lemma load_pair_total: "store_ok ks \<Longrightarrow>
    fst (load_room_static_keypair P ks room_id root) = Inr (derive_static_keypair_from_room_root P root)
  \<and> store_ok (snd (load_room_static_keypair P ks room_id root))"
  by (auto simp: load_room_static_keypair_def Let_def store_ok_def)

lemma room_keys_total:
  "store_ok ks \<Longrightarrow> room_secret_for_proxy P cfg room_id = Some secret \<Longrightarrow>
   \<exists>ks'. room_keys P ks cfg room_id = (Inr (room_pair P secret room_id), ks') \<and> store_ok ks'"
  using load_pair_total [of ks P room_id "derive_room_root_key P secret room_id"]
  by (cases "load_room_static_keypair P ks room_id (derive_room_root_key P secret room_id)")
     (auto simp: room_keys_def room_pair_def)

lemma room_keys_secret:
  "room_keys P ks cfg room_id = (Inr keys, ks') \<Longrightarrow>
   \<exists>secret. room_secret_for_proxy P cfg room_id = Some secret"
  by (auto simp: room_keys_def split: option.splits)

lemma room_pair_secret:
  "primitives_ok P \<Longrightarrow> rk_public (room_pair P secret room) = prim_pub P (rk_secret (room_pair P secret room))"
  by (simp add: room_pair_def derive_static_keypair_from_room_root_def Let_def)

lemma session_keys_agree:
  assumes "primitives_ok P"
  shows "derive_session_key_consumer P eph (rk_public (room_pair P secret room)) req_id room_id
    = derive_session_key P (rk_secret (room_pair P secret room)) (prim_pub P eph) req_id room_id"
  using assms room_pair_secret [OF assms]
  by (simp add: derive_session_key_consumer_def derive_session_key_def primitives_ok_def)

lemma open_sealed:
  assumes "primitives_ok P" "encrypt_payload P nonce key req path room m = Inr (n, c)"
    and "pred_option (\<lambda>b. length b = 12) nonce"
  shows "decrypt_payload P key req path room (n, c) = Inr m"
  using assms
  by (auto simp: encrypt_payload_def decrypt_payload_def primitives_ok_def split: option.splits)

text \<open>Loading a room's key pair always yields the pair derived from the room's secret, whatever the
  database held (a stale or damaged record is replaced), and leaves exactly that pair stored for the
  room and every other room untouched. So the pair is a function of the secret and the room: all
  members agree on it.\<close>

theorem room_pair_canonical:
  assumes "primitives_ok P" "room_keys P ks cfg room_id = (Inr keys, ks')"
  shows "\<exists>secret. room_secret_for_proxy P cfg room_id = Some secret
      \<and> keys = room_pair P secret room_id
      \<and> hm_get (ks_rooms ks') room_id = Some (rk_public keys @ rk_secret keys)
      \<and> (\<forall>r. r = room_id \<or> hm_get (ks_rooms ks') r = hm_get (ks_rooms ks) r)
      \<and> room_keys P ks' cfg room_id = (if ks_get_ok ks' then Inr keys else Inl ErrStore, ks')"
proof -
  from room_keys_secret [OF assms(2)] obtain secret where s: "room_secret_for_proxy P cfg room_id = Some secret" ..
  with assms(2) have l: "load_room_static_keypair P ks room_id (derive_room_root_key P secret room_id) = (Inr keys, ks')"
    by (simp add: room_keys_def)
  note p = load_pair [OF assms(1) l]
  have "length (rk_public keys) = 32" "length (rk_secret keys) = 32"
    using p assms(1) by (auto simp: derive_static_keypair_from_room_root_def Let_def primitives_ok_def)
  with p s have "room_keys P ks' cfg room_id = (if ks_get_ok ks' then Inr keys else Inl ErrStore, ks')"
    by (simp add: room_keys_def load_room_static_keypair_def Let_def)
  with s p show ?thesis by (auto simp: room_pair_def)
qed


text \<open>Stand-ins for the primitives that satisfy \<open>primitives_ok\<close>, for evaluation: sealing prefixes the
  associated data, public keys and digests are truncations.\<close>

definition pad32 :: "string \<Rightarrow> string" where
  "pad32 s = take 32 (s @ replicate 32 (CHR ''0''))"

definition toy_primitives :: primitives where
  "toy_primitives =
     \<lparr>prim_seal = (\<lambda>k n a m. Some (a @ m)), prim_open = (\<lambda>k n a c. Some (drop (length a) c)),
      prim_pub = pad32, prim_dh = (\<lambda>s p. []), prim_sha256 = pad32, prim_hmac = (\<lambda>k m. pad32 (k @ m))\<rparr>"

lemma toy_ok: "primitives_ok toy_primitives"
  by (auto simp: primitives_ok_def toy_primitives_def pad32_def min_def)

definition toy_store :: key_store where
  "toy_store = \<lparr>ks_rooms = [], ks_get_ok = True, ks_put_ok = True\<rparr>"

definition member_of :: "string \<Rightarrow> string option \<Rightarrow> client_config" where
  "member_of cid password = default_client_config\<lparr>cfg_clusters :=
     [\<lparr>cm_cluster_id = cid, cm_name = None, cm_visibility = None, cm_accepting_jobs = None,
       cm_connected = None, cm_room_secret = None, cm_cluster_password = password,
       cm_require_e2ee = None, cm_require_tee = None, cm_required_attestation_flags = None,
       cm_schedule_enabled = None, cm_schedule_start = None, cm_schedule_end = None\<rparr>]\<rparr>"

lemma member_secret:
  "room_secret_for_proxy P (member_of cid pw) cid = Some (cluster_effective_room_secret cid pw)"
  by (simp add: member_of_def room_secret_for_proxy_def cluster_password_from_membership_def opt_or_def
      split: option.split)

lemma toy_store_ok: "store_ok toy_store"
  by (simp add: store_ok_def toy_store_def)

theorem room_pair_canonical_witness:
  "\<exists>secret. room_secret_for_proxy toy_primitives (member_of ''c'' None) ''c'' = Some secret
     \<and> fst (room_keys toy_primitives toy_store (member_of ''c'' None) ''c'')
       = Inr (room_pair toy_primitives secret ''c'')"
proof -
  obtain ks' where k: "room_keys toy_primitives toy_store (member_of ''c'' None) ''c'' =
      (Inr (room_pair toy_primitives (cluster_effective_room_secret ''c'' None) ''c''), ks')"
    using room_keys_total [OF toy_store_ok member_secret] by blast
  from room_pair_canonical [OF toy_ok k] show ?thesis by (auto simp: k)
qed


text \<open>In a cluster without password the room secret is the cluster's id and a colon, so what
  members encrypt to each other is readable by anyone who sees the message and knows the id, the
  lobby included: the private key of the room follows from the id alone.\<close>

theorem public_cluster_readable_by_anyone:
  assumes "primitives_ok P" "store_ok ks"
    and "find (\<lambda>c. cm_cluster_id c = room) (cfg_clusters cfg) = Some c"
    and "unwrap_or (cluster_password_from_membership c) [] = []"
    and "fst (resolve_provider_static_public P ks cfg room None) = Inr provider_pk"
    and "pred_option (\<lambda>b. length b = 12) nonce"
    and "fst (encrypt_proxy_request P ks cfg now eph nonce peer req path (Some plain) room provider_pk) = Inr (msg, eph')"
  shows "decrypt_payload P
      (derive_session_key P (rk_secret (room_pair P (room @ '':'') room)) (er_consumer_pk msg) (er_req_id msg) room)
      (er_req_id msg) (er_path msg) room (er_nonce msg, er_ciphertext msg) = Inr plain"
proof -
  have sec: "room_secret_for_proxy P cfg room = Some (room @ '':'')"
    using assms(3,4) find_Some_prop [OF assms(3)]
    by (simp add: room_secret_for_proxy_def cluster_effective_room_secret_def)
  let ?k = "room_pair P (room @ '':'') room"
  obtain ks' where k: "room_keys P ks cfg room = (Inr ?k, ks')" using room_keys_total [OF assms(2) sec] by blast
  have pk: "provider_pk = rk_public ?k"
    using assms(5) by (simp add: resolve_provider_static_public_def provider_static_public_key_def k)
  let ?key = "derive_session_key P (rk_secret ?k) (prim_pub P eph) req room"
  have sk: "derive_session_key_consumer P eph provider_pk req room = ?key"
    by (simp add: pk session_keys_agree [OF assms(1)])
  have m: "encrypt_payload P nonce ?key req path room plain = Inr (er_nonce msg, er_ciphertext msg)"
    "er_consumer_pk msg = prim_pub P eph" "er_req_id msg = req" "er_path msg = path"
    using assms(7) by (auto simp: encrypt_proxy_request_def k Let_def sk split: sum.splits prod.splits)
  from open_sealed [OF assms(1) m(1) assms(6)] show ?thesis by (simp add: m(2-4))
qed

theorem public_cluster_readable_by_anyone_witness:
  "\<exists>msg :: encrypted_request. decrypt_payload toy_primitives
      (derive_session_key toy_primitives (rk_secret (room_pair toy_primitives (''c'' @ '':'') ''c''))
         (er_consumer_pk msg) (er_req_id msg) ''c'')
      (er_req_id msg) (er_path msg) ''c'' (er_nonce msg, er_ciphertext msg) = Inr ''{}''"
proof -
  let ?cfg = "member_of ''c'' None"
  let ?pk = "rk_public (room_pair toy_primitives (''c'' @ '':'') ''c'')"
  let ?msg = "\<lparr>er_req_id = ''r'', er_path = ''/p'', er_room_id = ''c'', er_consumer_pk = pad32 ''eph'',
     er_nonce = ''twelve bytes'', er_ciphertext = build_aad ''r'' ''/p'' ''c'' @ ''{}'',
     er_aad_version = AAD_VERSION, er_auth = proxy_auth_for_room toy_primitives 0 ?cfg ''me'' ''c''\<rparr>"
  have sec: "room_secret_for_proxy toy_primitives ?cfg ''c'' = Some (''c'' @ '':'')"
    using member_secret [of toy_primitives "''c''" None] by (simp add: cluster_effective_room_secret_def)
  obtain ks' where k: "room_keys toy_primitives toy_store ?cfg ''c'' = (Inr (room_pair toy_primitives (''c'' @ '':'') ''c''), ks')"
    using room_keys_total [OF toy_store_ok sec] by blast
  have prims: "prim_seal toy_primitives = (\<lambda>k n a m. Some (a @ m))" "prim_pub toy_primitives = pad32"
    by (simp_all add: toy_primitives_def)
  have f: "find (\<lambda>c. cm_cluster_id c = ''c'') (cfg_clusters ?cfg) = Some (hd (cfg_clusters ?cfg))"
    "unwrap_or (cluster_password_from_membership (hd (cfg_clusters ?cfg))) [] = []"
    by (simp_all add: member_of_def cluster_password_from_membership_def)
  have pk: "fst (resolve_provider_static_public toy_primitives toy_store ?cfg ''c'' None) = Inr ?pk"
    by (simp add: resolve_provider_static_public_def provider_static_public_key_def k)
  have enc: "fst (encrypt_proxy_request toy_primitives toy_store ?cfg 0 ''eph'' (Some ''twelve bytes'') ''me'' ''r'' ''/p''
      (Some ''{}'') ''c'' ?pk) = Inr (?msg, ''eph'')"
    by (simp add: encrypt_proxy_request_def k encrypt_payload_def prims)
  show ?thesis
    by (rule exI [of _ ?msg], rule public_cluster_readable_by_anyone [OF toy_ok toy_store_ok f pk _ enc]) simp
qed

text \<open>The sidecar's check of a membership proof looks only at swarm tokens and the proxy token,
  never at the room: a peer that only serves clusters refuses every proof, the one the consumer
  builds for its cluster included (which the direct check accepts); and a request that carries no
  proof at all passes.\<close>

theorem sidecar_rejects_cluster_proofs:
  "room_secret_for_proxy P (member_of cid pw) cid = Some (cluster_effective_room_secret cid pw)
   \<and> map_option (\<lambda>prf. verify_proxy_auth P now prf (cluster_effective_room_secret cid pw) peer)
        (proxy_auth_for_room P now (member_of cid pw) peer cid) = Some True
   \<and> verify_inbound_auth P now (cfg\<lparr>cfg_swarms := [], cfg_proxy_token := None\<rparr>) (Some prf)
        = Some ''Proxy auth failed''
   \<and> verify_inbound_auth P now cfg None = None"
  using member_secret [of P cid pw]
  by (simp add: verify_inbound_auth_def Let_def proxy_auth_for_room_def member_of_def
      cluster_password_from_membership_def verify_proxy_auth_def build_proxy_auth_def abs_diff_def
      constant_time_eq_iff opt_or_def split: option.split)

end
