(* ===== verification/Request_Defaults.thy ===== *)
theory Request_Defaults
  imports Json_Value
begin

text \<open>
  The request rewriting every proxied body goes through (\<open>agent_compat.rs\<close>): asking an OpenAI stream
  for its usage, and giving Ollama an explicit output cap and context window. Each operation
  changes the body in place and says whether it did; here it returns both.
\<close>

definition I64_MAX :: nat where "I64_MAX = 9223372036854775807"

text \<open>\<open>as_i64\<close>.\<close>

fun as_i64 :: "json \<Rightarrow> int option" where
  "as_i64 (JNum (PosInt n)) = (if n \<le> I64_MAX then Some (int n) else None)"
| "as_i64 (JNum (NegInt i)) = Some i"
| "as_i64 _ = None"

text \<open>\<open>obj.entry(k).or_insert_with(|| json!({}))\<close>, and then \<open>as_object_mut\<close> and an insert.\<close>

definition entry_object :: "string \<Rightarrow> (string \<times> json) list \<Rightarrow> json" where
  "entry_object k obj = unwrap_or (map_of obj k) (json_obj [])"

definition ensure_stream_usage :: "json \<Rightarrow> json \<times> bool" where
  "ensure_stream_usage body =
     (if \<not> unwrap_or (get_bool ''stream'' body) False then (body, False)
      else (case body of
              JObj obj \<Rightarrow>
                (let fresh = (map_of obj ''stream_options'' = None)
                 in (case entry_object ''stream_options'' obj of
                       JObj opts \<Rightarrow>
                         (if map_of opts ''include_usage'' = None
                          then (JObj (jmap_insert ''stream_options''
                                  (JObj (jmap_insert ''include_usage'' (JBool True) opts)) obj), True)
                          else (JObj (jmap_insert ''stream_options'' (JObj opts) obj), fresh))
                     | other \<Rightarrow> (JObj (jmap_insert ''stream_options'' other obj), fresh)))
            | _ \<Rightarrow> (body, False)))"

definition option_field :: "string \<Rightarrow> json \<Rightarrow> json option" where
  "option_field k body = Option.bind (jget ''options'' body) (jget k)"

text \<open>Writing \<open>options.<k>\<close>: only when \<open>options\<close> is absent or an object.\<close>

definition set_option :: "string \<Rightarrow> nat \<Rightarrow> (string \<times> json) list \<Rightarrow> json \<times> bool" where
  "set_option k n obj =
     (case entry_object ''options'' obj of
        JObj opts \<Rightarrow> (JObj (jmap_insert ''options'' (JObj (jmap_insert k (json_nat n) opts)) obj), True)
      | other \<Rightarrow> (JObj (jmap_insert ''options'' other obj), False))"

datatype predict_choice = Keep | Unset | Set nat

definition choose_predict :: "json \<Rightarrow> nat option \<Rightarrow> predict_choice" where
  "choose_predict body default_predict =
     (let existing = Option.bind (option_field ''num_predict'' body) as_i64;
          from_request = opt_or (get_u64 ''max_tokens'' body) default_predict;
          resolved = (case from_request of Some n \<Rightarrow> Set n | None \<Rightarrow> Unset)
      in if existing = Some (-1) then Keep
         else (case existing of
                 Some n \<Rightarrow>
                   if n \<le> 0 then resolved
                   else (case default_predict of
                           Some d \<Rightarrow> if nat n \<ge> d then Keep else Set d
                         | None \<Rightarrow> Keep)
               | None \<Rightarrow> resolved))"

definition ensure_ollama_predict_options_with_default :: "json \<Rightarrow> nat option \<Rightarrow> json \<times> bool" where
  "ensure_ollama_predict_options_with_default body default_predict =
     (case body of
        JObj obj \<Rightarrow>
          (case choose_predict body default_predict of
             Set n \<Rightarrow> set_option ''num_predict'' n obj
           | _ \<Rightarrow> (body, False))
      | _ \<Rightarrow> (body, False))"

definition ensure_ollama_ctx_options_with_default :: "json \<Rightarrow> nat option \<Rightarrow> json \<times> bool" where
  "ensure_ollama_ctx_options_with_default body default_ctx =
     (case opt_filter (\<lambda>n. n > 0) default_ctx of
        None \<Rightarrow> (body, False)
      | Some d \<Rightarrow>
          (case body of
             JObj obj \<Rightarrow>
               (case Option.bind (option_field ''num_ctx'' body) as_u64 of
                  Some n \<Rightarrow> if n \<ge> d then (body, False) else set_option ''num_ctx'' d obj
                | None \<Rightarrow> set_option ''num_ctx'' d obj)
           | _ \<Rightarrow> (body, False)))"

text \<open>\<open>parse\<close> and \<open>print\<close> are \<open>serde_json\<close>'s.\<close>

definition apply_ollama_body_defaults_with_default ::
  "(string \<Rightarrow> json option) \<Rightarrow> (json \<Rightarrow> string option) \<Rightarrow> string \<Rightarrow> nat option \<Rightarrow> nat option \<Rightarrow> string" where
  "apply_ollama_body_defaults_with_default parse print body default_predict default_ctx =
     (case parse body of
        None \<Rightarrow> body
      | Some v \<Rightarrow>
          (let v = fst (ensure_ollama_predict_options_with_default v default_predict);
               v = fst (ensure_ollama_ctx_options_with_default v default_ctx)
           in unwrap_or (print v) body))"

section \<open>Lemmas\<close>

lemma set_option_other:
  "k' \<noteq> ''options'' \<Longrightarrow> jget k' (fst (set_option k n obj)) = map_of obj k'"
  by (auto simp: set_option_def split: json.split)

lemma predict_other_fields:
  "k \<noteq> ''options'' \<Longrightarrow> jget k (fst (ensure_ollama_predict_options_with_default body d)) = jget k body"
  by (auto simp: ensure_ollama_predict_options_with_default_def set_option_other
      split: json.split predict_choice.split)

lemma ctx_other_fields:
  "k \<noteq> ''options'' \<Longrightarrow> jget k (fst (ensure_ollama_ctx_options_with_default body d)) = jget k body"
  by (auto simp: ensure_ollama_ctx_options_with_default_def set_option_other
      split: json.split option.split)

text \<open>The cap a request should end up with: \<open>-1\<close> is kept, a positive cap is raised to the default,
  otherwise \<open>max_tokens\<close>, otherwise the default.\<close>

definition intended_cap :: "int option \<Rightarrow> nat option \<Rightarrow> nat option \<Rightarrow> int option" where
  "intended_cap existing max_tokens d =
     (case existing of
        Some n \<Rightarrow>
          if n = -1 then Some n
          else if n > 0 then Some (max n (int (unwrap_or d 0)))
          else (case opt_or max_tokens d of Some k \<Rightarrow> Some (int k) | None \<Rightarrow> Some n)
      | None \<Rightarrow> map_option int (opt_or max_tokens d))"

definition cap_of :: "json \<Rightarrow> int option" where
  "cap_of body = Option.bind (option_field ''num_predict'' body) as_i64"

definition ctx_of :: "json \<Rightarrow> nat option" where
  "ctx_of body = Option.bind (option_field ''num_ctx'' body) as_u64"

lemma cap_set:
  "entry_object ''options'' obj = JObj opts \<Longrightarrow> n \<le> I64_MAX \<Longrightarrow>
   cap_of (fst (set_option ''num_predict'' n obj)) = Some (int n)
   \<and> ctx_of (fst (set_option ''num_predict'' n obj)) = ctx_of (JObj obj)"
  by (auto simp: cap_of_def ctx_of_def option_field_def set_option_def json_nat_def entry_object_def
      unwrap_or_def json_obj_def jmap_of_def split: option.splits)

lemma ctx_set:
  "entry_object ''options'' obj = JObj opts \<Longrightarrow>
   ctx_of (fst (set_option ''num_ctx'' n obj)) = Some n
   \<and> cap_of (fst (set_option ''num_ctx'' n obj)) = cap_of (JObj obj)"
  by (auto simp: cap_of_def ctx_of_def option_field_def set_option_def json_nat_def entry_object_def
      unwrap_or_def json_obj_def jmap_of_def split: option.splits)

lemma predict_cap:
  assumes "entry_object ''options'' obj = JObj opts"
    and "pred_option (\<lambda>n. n \<le> I64_MAX) (get_u64 ''max_tokens'' (JObj obj))" "pred_option (\<lambda>n. n \<le> I64_MAX) d"
  shows "cap_of (fst (ensure_ollama_predict_options_with_default (JObj obj) d))
      = intended_cap (cap_of (JObj obj)) (get_u64 ''max_tokens'' (JObj obj)) d
    \<and> ctx_of (fst (ensure_ollama_predict_options_with_default (JObj obj) d)) = ctx_of (JObj obj)"
proof (cases "choose_predict (JObj obj) d")
  case Keep
  then show ?thesis
    by (auto simp: ensure_ollama_predict_options_with_default_def choose_predict_def cap_of_def [symmetric]
        intended_cap_def Let_def split: option.splits if_splits)
next
  case Unset
  then show ?thesis
    by (auto simp: ensure_ollama_predict_options_with_default_def choose_predict_def cap_of_def [symmetric]
        intended_cap_def Let_def split: option.splits if_splits)
next
  case (Set n)
  then have "n \<le> I64_MAX" using assms(2,3)
    by (auto simp: choose_predict_def opt_or_def Let_def split: option.splits if_splits)
  with cap_set [OF assms(1)] Set show ?thesis
    by (auto simp: ensure_ollama_predict_options_with_default_def choose_predict_def cap_of_def [symmetric]
        intended_cap_def Let_def split: option.splits if_splits)
qed

text \<open>For a request whose \<open>options\<close> is absent or an object, the output cap afterwards is the
  intended one, the context window is the larger of the request's and the default, neither step
  disturbs the other's field, and nothing outside \<open>options\<close> changes.\<close>

theorem defaults_respected:
  assumes "entry_object ''options'' obj = JObj opts" "0 < c"
    and "pred_option (\<lambda>n. n \<le> I64_MAX) (get_u64 ''max_tokens'' (JObj obj))" "pred_option (\<lambda>n. n \<le> I64_MAX) d"
  shows "cap_of (fst (ensure_ollama_predict_options_with_default (JObj obj) d))
      = intended_cap (cap_of (JObj obj)) (get_u64 ''max_tokens'' (JObj obj)) d
    \<and> ctx_of (fst (ensure_ollama_predict_options_with_default (JObj obj) d)) = ctx_of (JObj obj)
    \<and> ctx_of (fst (ensure_ollama_ctx_options_with_default (JObj obj) (Some c)))
      = Some (max (unwrap_or (ctx_of (JObj obj)) 0) c)
    \<and> cap_of (fst (ensure_ollama_ctx_options_with_default (JObj obj) (Some c))) = cap_of (JObj obj)
    \<and> (k = ''options'' \<or>
       jget k (fst (ensure_ollama_predict_options_with_default (JObj obj) d)) = map_of obj k
       \<and> jget k (fst (ensure_ollama_ctx_options_with_default (JObj obj) (Some c))) = map_of obj k)"
proof -
  have "ctx_of (fst (ensure_ollama_ctx_options_with_default (JObj obj) (Some c)))
      = Some (max (unwrap_or (ctx_of (JObj obj)) 0) c)
    \<and> cap_of (fst (ensure_ollama_ctx_options_with_default (JObj obj) (Some c))) = cap_of (JObj obj)"
    using assms(2) ctx_set [OF assms(1)]
    by (auto simp: ensure_ollama_ctx_options_with_default_def ctx_of_def [symmetric] split: option.split)
  with predict_cap [OF assms(1,3,4)] predict_other_fields [of k "JObj obj" d]
    ctx_other_fields [of k "JObj obj" "Some c"] show ?thesis by auto
qed

theorem defaults_respected_witness:
  "cap_of (fst (ensure_ollama_predict_options_with_default (json_obj [(''max_tokens'', json_nat 512)]) (Some 4096)))
    = Some 512"
  using defaults_respected [of "jmap_of [(''max_tokens'', json_nat 512)]" "[]" 1 "Some 4096" "''k''"]
  by (simp add: json_obj_def [symmetric] entry_object_def jmap_of_def [symmetric] get_u64_def json_nat_def
      I64_MAX_def cap_of_def option_field_def intended_cap_def)
     (simp add: json_obj_def jmap_of_def)

text \<open>The rewriting is not idempotent, and a proxied request goes through it twice (once in the
  consumer's proxy, once at the provider). A client's \<open>max_tokens\<close> below the default is honoured by
  the first pass and then raised to the provider's default by the second.\<close>

theorem max_tokens_lost_on_second_pass:
  assumes "map_of obj ''options'' = None" "map_of obj ''max_tokens'' = Some (json_nat m)"
    and "0 < m" "m < d2" "d2 \<le> I64_MAX"
  shows "cap_of (fst (ensure_ollama_predict_options_with_default (JObj obj) d1)) = Some (int m)
    \<and> cap_of (fst (ensure_ollama_predict_options_with_default
          (fst (ensure_ollama_predict_options_with_default (JObj obj) d1)) (Some d2))) = Some (int d2)"
proof -
  have e: "entry_object ''options'' obj = JObj []"
    by (simp add: entry_object_def assms(1) json_obj_def jmap_of_def)
  have first: "fst (ensure_ollama_predict_options_with_default (JObj obj) d1)
      = JObj (jmap_insert ''options'' (JObj [(''num_predict'', json_nat m)]) obj)"
    by (simp add: ensure_ollama_predict_options_with_default_def choose_predict_def option_field_def
        assms(1,2) get_u64_def json_nat_def Let_def set_option_def e)
  have "fst (ensure_ollama_predict_options_with_default
          (JObj (jmap_insert ''options'' (JObj [(''num_predict'', json_nat m)]) obj)) (Some d2))
      = JObj (jmap_insert ''options'' (JObj [(''num_predict'', json_nat d2)])
          (jmap_insert ''options'' (JObj [(''num_predict'', json_nat m)]) obj))"
    using assms(3-5)
    by (simp add: ensure_ollama_predict_options_with_default_def choose_predict_def option_field_def
        json_nat_def Let_def set_option_def entry_object_def)
  with first show ?thesis
    using assms(3-5) by (simp add: cap_of_def option_field_def json_nat_def)
qed

theorem max_tokens_lost_on_second_pass_witness:
  "cap_of (fst (ensure_ollama_predict_options_with_default
          (fst (ensure_ollama_predict_options_with_default (JObj [(''max_tokens'', json_nat 100)]) (Some 4096)))
          (Some 4096))) = Some 4096"
  using max_tokens_lost_on_second_pass [of "[(''max_tokens'', json_nat 100)]" 100 4096 "Some 4096"]
  by (simp add: I64_MAX_def)

end
