(* ===== verification/Token_Usage.thy ===== *)
theory Token_Usage
  imports Json_Value
begin

text \<open>
  \<open>token_usage.rs\<close>: how the peer reads the token counts it is paid for out of a streamed answer,
  in the OpenAI form (a \<open>usage\<close> object) and in the Ollama form (\<open>done\<close> with
  \<open>prompt_eval_count\<close> and \<open>eval_count\<close>). \<open>serde_json::from_str\<close> is the argument \<open>parse\<close>.
\<close>

record token_usage =
  tu_prompt :: nat
  tu_completion :: nat
  tu_total :: nat

definition NL :: char where "NL = CHR 0x0A"
definition CR :: char where "CR = CHR 0x0D"

text \<open>\<open>str::lines\<close>: pieces ended by a line feed, less a carriage return before it; a last piece
  without line feed is a line when it is not empty.\<close>

definition strip_cr :: "string \<Rightarrow> string" where
  "strip_cr l = (if l \<noteq> [] \<and> last l = CR then butlast l else l)"

definition str_lines :: "string \<Rightarrow> string list" where
  "str_lines s =
     (let pieces = split_char NL s
      in map strip_cr (butlast pieces) @ (if last pieces = [] then [] else [last pieces]))"

definition parse_stream_line :: "(string \<Rightarrow> json option) \<Rightarrow> string \<Rightarrow> json option" where
  "parse_stream_line parse line =
     (let line = trim line
      in if line = [] \<or> line = ''[DONE]'' \<or> line = ''data: [DONE]'' then None
         else parse (unwrap_or (strip_prefix_str ''data: '' line) line))"

text \<open>\<open>as u32\<close> truncates and \<open>prompt + completion\<close> wraps in \<open>u32\<close> (a release build).\<close>

definition openai_usage :: "json \<Rightarrow> token_usage option" where
  "openai_usage v =
     (case jget ''usage'' v of
        None \<Rightarrow> None
      | Some usage \<Rightarrow>
          (let prompt = as_u32 (unwrap_or (get_u64 ''prompt_tokens'' usage) 0);
               completion = as_u32 (unwrap_or (get_u64 ''completion_tokens'' usage) 0);
               tot = as_u32 (unwrap_or (get_u64 ''total_tokens'' usage) (prompt + completion))
           in if prompt > 0 \<or> completion > 0 \<or> tot > 0
              then Some \<lparr>tu_prompt = prompt, tu_completion = completion, tu_total = tot\<rparr>
              else None))"

definition parse_usage_from_value :: "json \<Rightarrow> token_usage option" where
  "parse_usage_from_value v =
     (case openai_usage v of
        Some u \<Rightarrow> Some u
      | None \<Rightarrow>
          (if \<not> unwrap_or (get_bool ''done'' v) False then None
           else (let prompt = as_u32 (unwrap_or (get_u64 ''prompt_eval_count'' v) 0);
                     completion = as_u32 (unwrap_or (get_u64 ''eval_count'' v) 0)
                 in if prompt = 0 \<and> completion = 0 then None
                    else Some \<lparr>tu_prompt = prompt, tu_completion = completion,
                               tu_total = wrap_add32 prompt completion\<rparr>)))"

definition line_usage :: "(string \<Rightarrow> json option) \<Rightarrow> string \<Rightarrow> token_usage option" where
  "line_usage parse line = Option.bind (parse_stream_line parse line) parse_usage_from_value"

definition parse_usage_from_buffer :: "(string \<Rightarrow> json option) \<Rightarrow> string \<Rightarrow> token_usage option" where
  "parse_usage_from_buffer parse buffer =
     foldl (\<lambda>latest line. case line_usage parse line of Some u \<Rightarrow> Some u | None \<Rightarrow> latest)
       None (str_lines buffer)"

definition accumulate_and_parse_usage ::
  "(string \<Rightarrow> json option) \<Rightarrow> string \<Rightarrow> string \<Rightarrow> string \<times> token_usage option" where
  "accumulate_and_parse_usage parse buffer chunk =
     (let buffer = buffer @ chunk
      in (buffer,
          foldl (\<lambda>latest line. case line_usage parse line of Some u \<Rightarrow> Some u | None \<Rightarrow> latest)
            None (str_lines buffer)))"

record redacted_credit_report =
  rcr_req_id :: string
  rcr_model :: string
  rcr_prompt_tokens :: nat
  rcr_completion_tokens :: nat
  rcr_total_tokens :: nat
  rcr_role :: string

definition redacted_credit_report_of ::
  "string \<Rightarrow> string \<Rightarrow> token_usage \<Rightarrow> string \<Rightarrow> redacted_credit_report" where
  "redacted_credit_report_of req_id model usage role =
     \<lparr>rcr_req_id = req_id, rcr_model = model, rcr_prompt_tokens = tu_prompt usage,
      rcr_completion_tokens = tu_completion usage, rcr_total_tokens = tu_total usage,
      rcr_role = role\<rparr>"

section \<open>Lemmas\<close>

text \<open>The usage of the last line that reports one.\<close>

definition last_report :: "(string \<Rightarrow> json option) \<Rightarrow> string list \<Rightarrow> token_usage option" where
  "last_report parse ls =
     (case rev (List.map_filter (line_usage parse) ls) of [] \<Rightarrow> None | u # _ \<Rightarrow> Some u)"

lemma foldl_last_report:
  "foldl (\<lambda>latest line. case line_usage parse line of Some u \<Rightarrow> Some u | None \<Rightarrow> latest) None ls
     = last_report parse ls"
  by (induction ls rule: rev_induct)
     (simp_all add: last_report_def List.map_filter_def split: option.split list.split)

lemma parse_usage_last_report: "parse_usage_from_buffer parse b = last_report parse (str_lines b)"
  by (simp add: parse_usage_from_buffer_def foldl_last_report)

lemma last_report_snoc_blank: "last_report parse (ls @ [[]]) = last_report parse ls"
  by (simp add: last_report_def List.map_filter_def line_usage_def parse_stream_line_def
      trim_def trim_start_def trim_end_def)

lemma split_char_nonempty [simp]: "split_char c s \<noteq> []"
  by (induction s) (auto split: list.split)

lemma split_char_plain: "c \<notin> set a \<Longrightarrow> split_char c a = [a]"
  by (induction a) auto

lemma split_char_append: "c \<notin> set a \<Longrightarrow> split_char c (a @ c # b) = a # split_char c b"
  by (induction a) auto

text \<open>A line on the wire: its text and whether it ends in CR LF or LF only.\<close>

definition wire_line :: "string \<times> bool \<Rightarrow> string" where
  "wire_line l = fst l @ (if snd l then [CR] else []) @ [NL]"

definition clean_line :: "string \<times> bool \<Rightarrow> bool" where
  "clean_line l = (NL \<notin> set (fst l) \<and> (fst l = [] \<or> last (fst l) \<noteq> CR))"

lemma split_wire:
  "list_all clean_line ls \<Longrightarrow> NL \<notin> set tail \<Longrightarrow>
   split_char NL (concat (map wire_line ls) @ tail)
     = map (\<lambda>l. fst l @ (if snd l then [CR] else [])) ls @ [tail]"
proof (induction ls)
  case (Cons l ls)
  have "NL \<notin> set (fst l @ (if snd l then [CR] else []))"
    using Cons.prems by (auto simp: clean_line_def NL_def CR_def)
  from split_char_append [OF this] Cons show ?case
    by (simp add: wire_line_def)
qed (simp add: split_char_plain)

lemma lines_wire:
  assumes "list_all clean_line ls" "NL \<notin> set tail"
  shows "str_lines (concat (map wire_line ls) @ tail) = map fst ls @ (if tail = [] then [] else [tail])"
proof -
  have "strip_cr (fst l @ (if snd l then [CR] else [])) = fst l" if "l \<in> set ls" for l
    using assms(1) that by (auto simp: strip_cr_def clean_line_def list_all_iff)
  then have "map (strip_cr \<circ> (\<lambda>l. fst l @ (if snd l then [CR] else []))) ls = map fst ls"
    by simp
  then show ?thesis
    by (simp add: str_lines_def split_wire [OF assms] Let_def)
qed

text \<open>Reading the bill off a stream. However the answer is cut into chunks, and whether its
  lines end in LF or CR LF, the usage held after the last chunk is the one on the last line that
  reports any, an unfinished last line included.\<close>

theorem streamed_usage_is_last_report:
  assumes "list_all clean_line ls" "NL \<notin> set tail"
    and "concat chunks = concat (map wire_line ls) @ tail" "chunks \<noteq> []"
  shows "snd (foldl (\<lambda>(buf, _) c. accumulate_and_parse_usage parse buf c) ([], None) chunks)
     = last_report parse (map fst ls @ [tail])"
proof -
  have "foldl (\<lambda>(buf, _) c. accumulate_and_parse_usage parse buf c) (b, u) cs
     = (b @ concat cs, if cs = [] then u else parse_usage_from_buffer parse (b @ concat cs))" for b u cs
    by (induction cs arbitrary: b u) (simp_all add: accumulate_and_parse_usage_def parse_usage_from_buffer_def Let_def)
  then have "snd (foldl (\<lambda>(buf, _) c. accumulate_and_parse_usage parse buf c) ([], None) chunks)
     = parse_usage_from_buffer parse (concat (map wire_line ls) @ tail)"
    using assms(3,4) by simp
  then show ?thesis
    by (simp add: parse_usage_last_report lines_wire [OF assms(1,2)] last_report_snoc_blank)
qed

theorem streamed_usage_is_last_report_witness:
  "snd (foldl (\<lambda>(buf, _) c. accumulate_and_parse_usage (\<lambda>_. Some JNull) buf c) ([], None) [''a'', [NL] @ ''b''])
     = last_report (\<lambda>_. Some JNull) [''a'', ''b'']"
  using streamed_usage_is_last_report [of "[(''a'', False)]" "''b''" "[''a'', [NL] @ ''b'']" "\<lambda>_. Some JNull"]
  by (simp add: clean_line_def wire_line_def NL_def CR_def)

text \<open>Both dialects agree: an answer that carries the same counts (each below \<open>2^32\<close>, as is their sum) in the OpenAI form, with or without
  a total, or in the Ollama form, is billed the same.\<close>

theorem usage_dialects_agree:
  assumes "0 < p" "p + c < 2 ^ 32"
  shows "parse_usage_from_value (json_obj [(''usage'', json_obj
        [(''prompt_tokens'', json_nat p), (''completion_tokens'', json_nat c), (''total_tokens'', json_nat (p + c))])])
      = Some \<lparr>tu_prompt = p, tu_completion = c, tu_total = p + c\<rparr>
    \<and> parse_usage_from_value (json_obj [(''usage'', json_obj
        [(''prompt_tokens'', json_nat p), (''completion_tokens'', json_nat c)])])
      = Some \<lparr>tu_prompt = p, tu_completion = c, tu_total = p + c\<rparr>
    \<and> parse_usage_from_value (json_obj [(''done'', JBool True),
        (''prompt_eval_count'', json_nat p), (''eval_count'', json_nat c)])
      = Some \<lparr>tu_prompt = p, tu_completion = c, tu_total = p + c\<rparr>"
  using assms
  by (simp add: parse_usage_from_value_def openai_usage_def get_u64_def get_bool_def json_nat_def
      as_u32_def wrap_add32_def Let_def)

theorem usage_dialects_agree_witness:
  "parse_usage_from_value (json_obj [(''done'', JBool True),
        (''prompt_eval_count'', json_nat 10), (''eval_count'', json_nat 25)])
      = Some \<lparr>tu_prompt = 10, tu_completion = 25, tu_total = 35\<rparr>"
  using usage_dialects_agree [of 10 25] by simp

end
