(* ===== verification/Cluster_E2ee.thy ===== *)
theory Cluster_E2ee
  imports Proxy_Crypto Request_Defaults Token_Usage
begin

text \<open>
  \<open>cluster_dc_e2ee.rs\<close>: encrypted proxying over a WebRTC data channel. The consumer sends a request
  whole or in chunks; the provider reassembles and decrypts it, checks it and streams the answer back
  in encrypted chunks; the consumer puts those in order. The maps behind the locks are \<open>hmap\<close>s.

  A channel is what it does with a message: \<open>wire m\<close> is the length of its JSON (\<open>None\<close> when
  serialising fails) and \<open>up m\<close> whether \<open>send_text\<close> succeeds; what was sent is returned.
\<close>

section \<open>Messages\<close>

datatype dc_message =
    EncRequest encrypted_request
  | EncRequestStart string string string string nat "proxy_auth_proof option"
  | EncRequestChunk string nat string string nat
  | EncRequestEnd string
  | EncResponse string string string nat "string option" "bool option"
  | EncStreamChunk string nat string string nat bool

definition MAX_DC_WIRE_BYTES :: nat where "MAX_DC_WIRE_BYTES = 8 * 1024"
definition MAX_E2EE_PLAINTEXT_CHUNK_BYTES :: nat where "MAX_E2EE_PLAINTEXT_CHUNK_BYTES = 1024"

record dc_channel =
  ch_wire :: "dc_message \<Rightarrow> nat option"
  ch_up :: "dc_message \<Rightarrow> bool"

definition wire_fits :: "dc_channel \<Rightarrow> dc_message \<Rightarrow> bool" where
  "wire_fits ch msg = (case ch_wire ch msg of Some n \<Rightarrow> n \<le> MAX_DC_WIRE_BYTES | None \<Rightarrow> False)"

text \<open>\<open>send_stream_message\<close> succeeds when the message serialises, fits and goes out.\<close>

definition send_stream_message :: "dc_channel \<Rightarrow> dc_message \<Rightarrow> bool" where
  "send_stream_message ch msg =
     (case ch_wire ch msg of
        None \<Rightarrow> False
      | Some n \<Rightarrow> if n > MAX_DC_WIRE_BYTES then False else ch_up ch msg)"

section \<open>The consumer's request\<close>

record consumer_state =
  cs_ephemeral_secret :: string
  cs_path :: string
  cs_room_id :: string
  cs_provider_pk :: string
  cs_aad_version :: nat

text \<open>The chunk loop: each piece is encrypted and sent before the next; it stops at the first failure.\<close>

fun send_request_chunks ::
  "primitives \<Rightarrow> dc_channel \<Rightarrow> (nat \<Rightarrow> string option) \<Rightarrow> string \<Rightarrow> string \<Rightarrow> string \<Rightarrow> string \<Rightarrow> string \<Rightarrow> nat
     \<Rightarrow> string list \<Rightarrow> dc_message list \<times> bool" where
  "send_request_chunks P ch nonces eph provider_pk room_id req_id path seq [] = ([], True)"
| "send_request_chunks P ch nonces eph provider_pk room_id req_id path seq (chunk # chunks) =
     (case encrypt_proxy_request_chunk P (nonces seq) eph provider_pk room_id req_id path (as_u32 seq) chunk of
        Inl _ \<Rightarrow> ([], False)
      | Inr (nonce, ciphertext) \<Rightarrow>
          (let m = EncRequestChunk req_id (as_u32 seq) nonce ciphertext AAD_VERSION
           in if send_stream_message ch m
              then (case send_request_chunks P ch nonces eph provider_pk room_id req_id path (Suc seq) chunks of
                      (sent, ok) \<Rightarrow> (m # sent, ok))
              else ([], False)))"

text \<open>\<open>body\<close> is the serialised request; \<open>eph1\<close>, \<open>nonce1\<close> are drawn for the whole message, \<open>eph2\<close> and
  \<open>nonces\<close> for the chunks. \<open>None\<close> is an error of any of the steps.\<close>

definition send_encrypted_proxy_request ::
  "primitives \<Rightarrow> dc_channel \<Rightarrow> key_store \<Rightarrow> client_config \<Rightarrow> nat \<Rightarrow> string \<Rightarrow> string option \<Rightarrow> string
     \<Rightarrow> (nat \<Rightarrow> string option) \<Rightarrow> string \<Rightarrow> string \<Rightarrow> string \<Rightarrow> string option \<Rightarrow> string \<Rightarrow> string option
     \<Rightarrow> consumer_state option \<times> dc_message list \<times> key_store" where
  "send_encrypted_proxy_request P ch ks cfg now eph1 nonce1 eph2 nonces peer_id req_id path body room_id catalog_pk =
     (case resolve_provider_static_public P ks cfg room_id catalog_pk of
        (Inl _, ks) \<Rightarrow> (None, [], ks)
      | (Inr provider_pk, ks) \<Rightarrow>
          (case encrypt_proxy_request P ks cfg now eph1 nonce1 peer_id req_id path body room_id provider_pk of
             (Inl _, ks) \<Rightarrow> (None, [], ks)
           | (Inr (msg, eph), ks) \<Rightarrow>
               (if wire_fits ch (EncRequest msg)
                then (if send_stream_message ch (EncRequest msg)
                      then (Some \<lparr>cs_ephemeral_secret = eph, cs_path = er_path msg, cs_room_id = er_room_id msg,
                              cs_provider_pk = provider_pk, cs_aad_version = AAD_VERSION\<rparr>, [EncRequest msg], ks)
                      else (None, [], ks))
                else (let body_str = the body;
                          start = EncRequestStart req_id path room_id (prim_pub P eph2) AAD_VERSION
                            (proxy_auth_for_room P now cfg peer_id room_id)
                      in if \<not> send_stream_message ch start then (None, [], ks)
                         else (case send_request_chunks P ch nonces eph2 provider_pk room_id req_id path 0
                                 (chunk_utf8 body_str MAX_E2EE_PLAINTEXT_CHUNK_BYTES) of
                                 (sent, False) \<Rightarrow> (None, start # sent, ks)
                               | (sent, True) \<Rightarrow>
                                   (if send_stream_message ch (EncRequestEnd req_id)
                                    then (Some \<lparr>cs_ephemeral_secret = eph2, cs_path = path, cs_room_id = room_id,
                                            cs_provider_pk = provider_pk, cs_aad_version = AAD_VERSION\<rparr>,
                                          start # sent @ [EncRequestEnd req_id], ks)
                                    else (None, start # sent, ks)))))))"

section \<open>The provider's reassembly\<close>

record pending_incoming =
  pi_path :: string
  pi_room_id :: string
  pi_consumer_pk :: string
  pi_aad_version :: nat
  pi_auth :: "proxy_auth_proof option"
  pi_chunks :: "(nat \<times> string \<times> string) list"

type_synonym pending_requests = "(string, pending_incoming) hmap"

definition handle_encrypted_request_start ::
  "string \<Rightarrow> string \<Rightarrow> string \<Rightarrow> string \<Rightarrow> nat \<Rightarrow> proxy_auth_proof option \<Rightarrow> pending_requests \<Rightarrow> pending_requests" where
  "handle_encrypted_request_start req_id path room_id consumer_pk aad_version auth pending =
     hm_insert req_id \<lparr>pi_path = path, pi_room_id = room_id, pi_consumer_pk = consumer_pk,
       pi_aad_version = aad_version, pi_auth = auth, pi_chunks = []\<rparr> pending"

definition handle_encrypted_request_chunk ::
  "string \<Rightarrow> nat \<Rightarrow> string \<Rightarrow> string \<Rightarrow> pending_requests \<Rightarrow> pending_requests" where
  "handle_encrypted_request_chunk req_id seq nonce ciphertext pending =
     hm_modify req_id (\<lambda>e. e\<lparr>pi_chunks := pi_chunks e @ [(seq, nonce, ciphertext)]\<rparr>) pending"

text \<open>What the end of a request leads to: nothing (unknown id), an error sent back, or the body handed
  to \<open>dispatch_cluster_encrypted_proxy_body\<close>.\<close>

datatype end_outcome = Ignored | BadChunk e2ee_error | BadJson | DispatchBody pending_incoming json

fun decrypt_chunks ::
  "primitives \<Rightarrow> client_config \<Rightarrow> pending_incoming \<Rightarrow> string \<Rightarrow> key_store \<Rightarrow> (nat \<times> string \<times> string) list
     \<Rightarrow> (e2ee_error + string) \<times> key_store" where
  "decrypt_chunks P cfg inc req_id ks [] = (Inr [], ks)"
| "decrypt_chunks P cfg inc req_id ks ((seq, nonce, ciphertext) # rest) =
     (case decrypt_inbound_request_chunk P ks cfg (pi_room_id inc) req_id (pi_path inc) seq
             (pi_consumer_pk inc) nonce ciphertext of
        (Inl e, ks) \<Rightarrow> (Inl e, ks)
      | (Inr part, ks) \<Rightarrow>
          (case decrypt_chunks P cfg inc req_id ks rest of
             (Inl e, ks) \<Rightarrow> (Inl e, ks) | (Inr s, ks) \<Rightarrow> (Inr (part @ s), ks)))"

definition handle_encrypted_request_end ::
  "primitives \<Rightarrow> (string \<Rightarrow> json option) \<Rightarrow> key_store \<Rightarrow> client_config \<Rightarrow> string \<Rightarrow> pending_requests
     \<Rightarrow> pending_requests \<times> key_store \<times> end_outcome" where
  "handle_encrypted_request_end P parse ks cfg req_id pending =
     (case hm_get pending req_id of
        None \<Rightarrow> (pending, ks, Ignored)
      | Some inc \<Rightarrow>
          (case decrypt_chunks P cfg inc req_id ks (sort_by_key fst (pi_chunks inc)) of
             (Inl e, ks) \<Rightarrow> (hm_remove req_id pending, ks, BadChunk e)
           | (Inr body_str, ks) \<Rightarrow>
               (hm_remove req_id pending, ks,
                case parse body_str of None \<Rightarrow> BadJson | Some v \<Rightarrow> DispatchBody inc v)))"

section \<open>The consumer's stream\<close>

record stream_chunk_data =
  sc_seq :: nat
  sc_nonce :: string
  sc_ciphertext :: string
  sc_done :: bool

record pending_stream =
  ps_path :: string
  ps_room_id :: string
  ps_ephemeral_secret :: string
  ps_provider_pk :: string
  ps_aad_version :: nat
  ps_next_seq :: nat
  ps_reorder :: "(nat, stream_chunk_data) hmap"

definition init_pending_encrypted_stream :: "consumer_state \<Rightarrow> pending_stream" where
  "init_pending_encrypted_stream st =
     \<lparr>ps_path = cs_path st, ps_room_id = cs_room_id st, ps_ephemeral_secret = cs_ephemeral_secret st,
      ps_provider_pk = cs_provider_pk st, ps_aad_version = cs_aad_version st, ps_next_seq = 0,
      ps_reorder = hm_empty\<rparr>"

datatype stream_outcome = StreamError | Waiting | Progress "string list" | Finished "string list"

text \<open>The loop that drains the chunks in order; \<open>None\<close> for the state means the entry was removed. The
  third component is the list of parts.\<close>

function drain_stream ::
  "(pending_stream \<Rightarrow> stream_chunk_data \<Rightarrow> e2ee_error + string) \<Rightarrow> pending_stream \<Rightarrow> string list
     \<Rightarrow> pending_stream option \<times> stream_outcome" where
  "drain_stream dec ctx parts =
     (case hm_get (ps_reorder ctx) (ps_next_seq ctx) of
        None \<Rightarrow> (Some ctx, if parts = [] then Waiting else Progress parts)
      | Some chunk \<Rightarrow>
          (let ctx = ctx\<lparr>ps_reorder := hm_remove (ps_next_seq ctx) (ps_reorder ctx)\<rparr>
           in (case dec ctx chunk of
                 Inl _ \<Rightarrow> (Some ctx, StreamError)
               | Inr part \<Rightarrow>
                   (if sc_done chunk then (None, Finished (parts @ [part]))
                    else drain_stream dec (ctx\<lparr>ps_next_seq := wrap_add32 (ps_next_seq ctx) 1\<rparr>) (parts @ [part])))))"
  by pat_completeness auto

lemma length_hm_remove: "hm_get m k = Some v \<Longrightarrow> length (hm_remove k m) < length m"
  by (induction m) (auto simp: hm_remove_def hm_get_def split: if_splits intro: le_imp_less_Suc)

termination drain_stream
  by (relation "measure (\<lambda>(_, ctx, _). length (ps_reorder ctx))") (auto simp: length_hm_remove)

declare drain_stream.simps [simp del]

type_synonym pending_streams = "(string, pending_stream) hmap"

definition set_stream :: "string \<Rightarrow> pending_stream option \<Rightarrow> pending_streams \<Rightarrow> pending_streams" where
  "set_stream req_id st streams =
     (case st of Some s \<Rightarrow> hm_modify req_id (\<lambda>_. s) streams | None \<Rightarrow> hm_remove req_id streams)"

definition stream_decrypt ::
  "primitives \<Rightarrow> key_store \<Rightarrow> client_config \<Rightarrow> string \<Rightarrow> pending_stream \<Rightarrow> stream_chunk_data \<Rightarrow> e2ee_error + string" where
  "stream_decrypt P ks cfg req_id ctx chunk =
     fst (decrypt_proxy_chunk P ks cfg req_id (ps_path ctx) (sc_seq chunk) (ps_room_id ctx)
       (ps_ephemeral_secret ctx) (ps_provider_pk ctx) (sc_nonce chunk) (sc_ciphertext chunk))"

definition handle_encrypted_stream_chunk ::
  "(pending_stream \<Rightarrow> stream_chunk_data \<Rightarrow> e2ee_error + string) \<Rightarrow> string \<Rightarrow> stream_chunk_data \<Rightarrow> pending_streams
     \<Rightarrow> pending_streams \<times> stream_outcome" where
  "handle_encrypted_stream_chunk dec req_id chunk streams =
     (case hm_get streams req_id of
        None \<Rightarrow> (streams, StreamError)
      | Some ctx \<Rightarrow>
          (case drain_stream dec (ctx\<lparr>ps_reorder := hm_insert (sc_seq chunk) chunk (ps_reorder ctx)\<rparr>) [] of
             (st, out) \<Rightarrow> (set_stream req_id st streams, out)))"

section \<open>The provider's answer\<close>

definition verify_encrypted_request_auth_async ::
  "primitives \<Rightarrow> nat \<Rightarrow> client_config \<Rightarrow> proxy_auth_proof option \<Rightarrow> string \<Rightarrow> string option" where
  "verify_encrypted_request_auth_async P now cfg auth room_id =
     (case auth of
        None \<Rightarrow> None
      | Some prf \<Rightarrow>
          (case room_secret_for_proxy P cfg room_id of
             None \<Rightarrow> None
           | Some secret \<Rightarrow>
               if verify_proxy_auth P now prf secret (pap_peer_id prf) then None
               else Some ''Proxy auth failed''))"

text \<open>Draining what is pending of an answer. \<open>enc seq piece\<close> is \<open>encrypt_proxy_chunk\<close>; the result is
  whether all went well, what is still pending, the next sequence number and the messages sent.\<close>

lemma flush_take_shrinks: "flush_take pending fin = Some n \<Longrightarrow> 0 < n \<and> 0 < length pending"
  using text_take_shrinks [of STREAM_CHUNK_BYTES pending fin n] by (simp add: flush_take_def)

function flush_encrypted_response_chunks ::
  "dc_channel \<Rightarrow> (nat \<Rightarrow> string \<Rightarrow> e2ee_error + (string \<times> string)) \<Rightarrow> string \<Rightarrow> nat \<Rightarrow> bool \<Rightarrow> string \<Rightarrow> nat
     \<Rightarrow> bool \<times> string \<times> nat \<times> dc_message list" where
  "flush_encrypted_response_chunks ch enc req_id aad_version fin pending seq =
     (case flush_take pending fin of
        None \<Rightarrow> (True, pending, seq, [])
      | Some n \<Rightarrow>
          (let chunk = take n pending;
               pending = drop n pending;
               is_done = (fin \<and> pending = [])
           in (case enc seq chunk of
                 Inl _ \<Rightarrow> (False, pending, seq, [])
               | Inr (nonce, ct) \<Rightarrow>
                   (let m = EncStreamChunk req_id seq nonce ct aad_version is_done
                    in if \<not> send_stream_message ch m then (False, pending, seq, [])
                       else (case flush_encrypted_response_chunks ch enc req_id aad_version fin pending
                                    (wrap_add32 seq 1) of
                               (ok, pending, seq, sent) \<Rightarrow> (ok, pending, seq, m # sent))))))"
  by pat_completeness auto
termination
  by (relation "measure (\<lambda>(_, _, _, _, _, pending, _). length pending)") (auto dest: flush_take_shrinks)

declare flush_encrypted_response_chunks.simps [simp del]

section \<open>Dispatch\<close>

text \<open>What \<open>dispatch_cluster_encrypted_proxy_body\<close> does, in order: messages to the consumer, statistics,
  the hand-over to the sidecar or the model. The tokens of a finished answer are those of
  \<open>Token_Usage\<close>.\<close>

datatype dispatch_effect =
    SendError string
  | StatsStart string string nat
  | StatsProgress nat nat
  | StatsError
  | StatsComplete nat nat
  | ToSidecar json
  | SendAck
  | ForwardChat string json string
  | SendChunk dc_message
  | ReportUsage token_usage nat nat

text \<open>The answer of the model is a list of byte chunks; one that is not UTF-8 is skipped, and a failed
  flush ends the answer. Then comes a last flush with \<open>done\<close>. \<open>buffer\<close> is the text received so far,
  \<open>pending\<close> the part not yet sent.\<close>

fun stream_answer ::
  "dc_channel \<Rightarrow> (nat \<Rightarrow> string \<Rightarrow> e2ee_error + (string \<times> string)) \<Rightarrow> (string \<Rightarrow> json option) \<Rightarrow> string \<Rightarrow> nat
     \<Rightarrow> string list \<Rightarrow> string \<Rightarrow> string \<Rightarrow> nat \<Rightarrow> bool \<times> dispatch_effect list" where
  "stream_answer ch enc parse req_id ver [] buffer pending seq =
     (case flush_encrypted_response_chunks ch enc req_id ver True pending seq of
        (ok, _, _, sent) \<Rightarrow> (ok, map SendChunk sent))"
| "stream_answer ch enc parse req_id ver (b # bs) buffer pending seq =
     (let is_text = utf8_valid b;
          acc = accumulate_and_parse_usage parse buffer b;
          tokens = (case snd acc of Some u \<Rightarrow> tu_total u | None \<Rightarrow> 0);
          progress = (if is_text then [StatsProgress (length b) tokens] else []);
          buffer = (if is_text then fst acc else buffer);
          pending = (if is_text then pending @ b else pending)
      in (case flush_encrypted_response_chunks ch enc req_id ver False pending seq of
            (False, _, _, sent) \<Rightarrow> (False, progress @ map SendChunk sent)
          | (True, pending, seq, sent) \<Rightarrow>
              (case stream_answer ch enc parse req_id ver bs buffer pending seq of
                 (ok, rest) \<Rightarrow> (ok, progress @ map SendChunk sent @ rest))))"

text \<open>The rest of the peer as the dispatcher sees it: the model's answer to \<open>forward_chat_stream\<close>
  (an error or the chunks of the stream), the block list, and \<open>approved_proxy_models\<close>.\<close>

record provider_env =
  pe_config :: client_config
  pe_sidecar :: bool
  pe_blocked :: "string set"
  pe_answer :: "string \<Rightarrow> json \<Rightarrow> string \<Rightarrow> string + string list"
  pe_environment :: environment

definition body_model :: "json \<Rightarrow> string" where
  "body_model body = unwrap_or (get_str ''model'' body) ''unknown''"

definition body_defaults :: "environment \<Rightarrow> client_config \<Rightarrow> json \<Rightarrow> json" where
  "body_defaults env cfg body =
     (let body = fst (ensure_stream_usage body);
          body = fst (ensure_ollama_predict_options_with_default body (effective_default_num_predict env cfg))
      in fst (ensure_ollama_ctx_options_with_default body (effective_default_num_ctx env cfg)))"

definition prepare_body :: "provider_env \<Rightarrow> json \<Rightarrow> json" where
  "prepare_body env body = body_defaults (pe_environment env) (pe_config env) body"

text \<open>\<open>Some e\<close>: refused with \<open>e\<close>. The approval of a connection is consumed when it is looked up.\<close>

definition admission ::
  "provider_env \<Rightarrow> string \<Rightarrow> string \<Rightarrow> string \<Rightarrow> (string, string) hmap option
     \<Rightarrow> string option \<times> (string, string) hmap option" where
  "admission env consumer cluster_id model approved =
     (if consumer \<in> pe_blocked env then (Some ''Peer is blocked'', approved)
      else if \<not> unwrap_or (map_option cluster_accepts_jobs (find_cluster (pe_config env) cluster_id)) True
      then (Some ''Peer is in maintenance mode'', approved)
      else (case approved of
              None \<Rightarrow> (None, None)
            | Some models \<Rightarrow>
                (case hm_get models consumer of
                   None \<Rightarrow> (None, Some models)
                 | Some expected \<Rightarrow>
                     (if expected \<noteq> model then Some ''Model does not match approved connection'' else None,
                      Some (hm_remove consumer models)))))"

definition dispatch_body ::
  "primitives \<Rightarrow> (string \<Rightarrow> json option) \<Rightarrow> (json \<Rightarrow> string option) \<Rightarrow> dc_channel
     \<Rightarrow> (nat \<Rightarrow> string \<Rightarrow> e2ee_error + (string \<times> string)) \<Rightarrow> provider_env \<Rightarrow> nat \<Rightarrow> string \<Rightarrow> string \<Rightarrow> string
     \<Rightarrow> string \<Rightarrow> string \<Rightarrow> nat \<Rightarrow> proxy_auth_proof option \<Rightarrow> json \<Rightarrow> (string, string) hmap option
     \<Rightarrow> dispatch_effect list \<times> (string, string) hmap option" where
  "dispatch_body P parse print ch enc env now req_id path room_id cluster_id consumer aad_version auth body approved =
     (case verify_encrypted_request_auth_async P now (pe_config env) auth room_id of
        Some err \<Rightarrow> ([SendError err], approved)
      | None \<Rightarrow>
          if pe_sidecar env then ([ToSidecar body], approved)
          else
            (let request_bytes = length (unwrap_or (print body) []);
                 model = body_model body;
                 start = StatsStart consumer model request_bytes
             in (case admission env consumer cluster_id model approved of
                   (Some err, approved) \<Rightarrow> ([start, SendError err, StatsError], approved)
                 | (None, approved) \<Rightarrow>
                     (let body = prepare_body env body
                      in if \<not> send_stream_message ch (EncResponse req_id [] [] aad_version None (Some True))
                         then ([start, StatsError], approved)
                         else (case pe_answer env path body model of
                                 Inl e \<Rightarrow>
                                   ([start, SendAck, ForwardChat path body model,
                                     SendError (''Proxy Error: '' @ e), StatsError], approved)
                               | Inr chunks \<Rightarrow>
                                   (case stream_answer ch enc parse req_id aad_version chunks [] [] 0 of
                                      (False, effs) \<Rightarrow>
                                        ([start, SendAck, ForwardChat path body model] @ effs @ [StatsError],
                                         approved)
                                    | (True, effs) \<Rightarrow>
                                        (let text = concat (filter utf8_valid chunks);
                                             usage = unwrap_or (parse_usage_from_buffer parse text)
                                               \<lparr>tu_prompt = 0, tu_completion = 0, tu_total = 0\<rparr>
                                         in ([start, SendAck, ForwardChat path body model] @ effs @
                                             [StatsComplete (tu_total usage) (length text),
                                              ReportUsage usage (length text) request_bytes], approved))))))))"

text \<open>A whole request: decrypted, then dispatched; a failure is sent back and counted.\<close>

definition dispatch_cluster_encrypted_proxy_request ::
  "primitives \<Rightarrow> (string \<Rightarrow> json option) \<Rightarrow> (json \<Rightarrow> string option) \<Rightarrow> dc_channel
     \<Rightarrow> (nat \<Rightarrow> string \<Rightarrow> e2ee_error + (string \<times> string)) \<Rightarrow> provider_env \<Rightarrow> key_store \<Rightarrow> nat \<Rightarrow> string
     \<Rightarrow> string \<Rightarrow> encrypted_request \<Rightarrow> (string, string) hmap option
     \<Rightarrow> (e2ee_error + dispatch_effect list) \<times> (string, string) hmap option \<times> key_store" where
  "dispatch_cluster_encrypted_proxy_request P parse print ch enc env ks now cluster_id consumer msg approved =
     (case decrypt_inbound_request P parse ks (pe_config env) (er_room_id msg) (er_req_id msg) (er_path msg)
             (er_consumer_pk msg) (er_nonce msg) (er_ciphertext msg) of
        (Inl e, ks) \<Rightarrow> (Inl e, approved, ks)
      | (Inr body, ks) \<Rightarrow>
          (case dispatch_body P parse print ch enc env now (er_req_id msg) (er_path msg) (er_room_id msg)
                  cluster_id consumer (er_aad_version msg) (er_auth msg) body approved of
             (effs, approved) \<Rightarrow> (Inr effs, approved, ks)))"

section \<open>Receiving\<close>

text \<open>What the provider's \<open>on_message\<close> does with the parts of a chunked request before its end.\<close>

fun deliver :: "dc_message \<Rightarrow> pending_requests \<Rightarrow> pending_requests" where
  "deliver (EncRequestStart req_id path room_id consumer_pk aad_version auth) pending =
     handle_encrypted_request_start req_id path room_id consumer_pk aad_version auth pending"
| "deliver (EncRequestChunk req_id seq nonce ciphertext _) pending =
     handle_encrypted_request_chunk req_id seq nonce ciphertext pending"
| "deliver _ pending = pending"

end
