(* ===== verification/Cluster_Flow.thy ===== *)
theory Cluster_Flow
  imports Cluster_E2ee
begin

text \<open>
  Properties of \<open>Cluster_E2ee\<close>: a chunked request arrives whole in whatever order its chunks come, the
  consumer hands on an answer in order, the provider sends all of it, and the model is only asked
  after the checks.
\<close>

section \<open>Chunked requests\<close>

fun concerns :: "string \<Rightarrow> dc_message \<Rightarrow> bool" where
  "concerns r (EncRequestStart req_id _ _ _ _ _) = (req_id = r)"
| "concerns r (EncRequestChunk req_id _ _ _ _) = (req_id = r)"
| "concerns r (EncRequest _) = False"
| "concerns r (EncRequestEnd _) = False"
| "concerns r (EncResponse _ _ _ _ _ _) = False"
| "concerns r (EncStreamChunk _ _ _ _ _ _) = False"

definition chunk_payload :: "dc_message \<Rightarrow> nat \<times> string \<times> string" where
  "chunk_payload m = (case m of EncRequestChunk _ seq n c _ \<Rightarrow> (seq, n, c) | _ \<Rightarrow> (0, [], []))"

definition is_request_chunk :: "dc_message \<Rightarrow> bool" where
  "is_request_chunk m = (case m of EncRequestChunk _ _ _ _ _ \<Rightarrow> True | _ \<Rightarrow> False)"

text \<open>Only the request's own messages matter to what is pending for it.\<close>

lemma deliver_other: "\<not> concerns r m \<Longrightarrow> hm_get (deliver m p) r = hm_get p r"
  by (cases m) (auto simp: handle_encrypted_request_start_def handle_encrypted_request_chunk_def)

lemma deliver_own:
  "concerns r m \<Longrightarrow> hm_get p r = hm_get q r \<Longrightarrow> hm_get (deliver m p) r = hm_get (deliver m q) r"
  by (cases m) (auto simp: handle_encrypted_request_start_def handle_encrypted_request_chunk_def)

lemma deliver_filter:
  "hm_get p r = hm_get q r \<Longrightarrow>
   hm_get (fold deliver msgs p) r = hm_get (fold deliver (filter (concerns r) msgs) q) r"
proof (induction msgs arbitrary: p q)
  case (Cons m msgs)
  show ?case
  proof (cases "concerns r m")
    case True
    with Cons.IH [OF deliver_own [OF True Cons.prems]] show ?thesis by simp
  next
    case False
    have "hm_get (deliver m p) r = hm_get q r" using deliver_other [OF False] Cons.prems by simp
    with Cons.IH [OF this] False show ?thesis by simp
  qed
qed simp

lemma deliver_chunks:
  assumes "hm_get p r = Some inc" "list_all (\<lambda>m. is_request_chunk m \<and> concerns r m) ms"
  shows "hm_get (fold deliver ms p) r = Some (inc\<lparr>pi_chunks := pi_chunks inc @ map chunk_payload ms\<rparr>)"
  using assms
proof (induction ms arbitrary: p inc)
  case (Cons m ms)
  then obtain s n c v where m: "m = EncRequestChunk r s n c v"
    by (cases m) (auto simp: is_request_chunk_def)
  have "hm_get (deliver m p) r = Some (inc\<lparr>pi_chunks := pi_chunks inc @ [chunk_payload m]\<rparr>)"
    using Cons.prems(1) by (simp add: m handle_encrypted_request_chunk_def chunk_payload_def)
  from Cons.IH [OF this] Cons.prems(2) show ?case by simp
qed simp

text \<open>What the chunk loop sent: one message per piece, numbered, each the encryption of its piece.\<close>

definition seals ::
  "primitives \<Rightarrow> (nat \<Rightarrow> string option) \<Rightarrow> string \<Rightarrow> string \<Rightarrow> string \<Rightarrow> string \<Rightarrow> string \<Rightarrow> nat \<Rightarrow> string
     \<Rightarrow> dc_message \<Rightarrow> bool" where
  "seals P nonces eph pk room req path i piece m =
     (\<exists>n c. m = EncRequestChunk req (as_u32 i) n c AAD_VERSION
       \<and> encrypt_proxy_request_chunk P (nonces i) eph pk room req path (as_u32 i) piece = Inr (n, c))"

lemma send_request_chunks_seals:
  "send_request_chunks P ch nonces eph pk room req path k pieces = (sent, True) \<Longrightarrow>
   length sent = length pieces \<and>
   (\<forall>i<length pieces. seals P nonces eph pk room req path (k + i) (pieces ! i) (sent ! i))"
proof (induction pieces arbitrary: k sent)
  case (Cons p ps)
  from Cons.prems obtain n c sent' where
    e: "encrypt_proxy_request_chunk P (nonces k) eph pk room req path (as_u32 k) p = Inr (n, c)"
    and s: "sent = EncRequestChunk req (as_u32 k) n c AAD_VERSION # sent'"
    and r: "send_request_chunks P ch nonces eph pk room req path (Suc k) ps = (sent', True)"
    by (auto simp: Let_def split: sum.splits prod.splits if_splits)
  note IH = Cons.IH [OF r]
  show ?case
  proof (intro conjI allI impI)
    show "length sent = length (p # ps)" using IH s by simp
  next
    fix i assume "i < length (p # ps)"
    then show "seals P nonces eph pk room req path (k + i) ((p # ps) ! i) (sent ! i)"
      using IH s e by (cases i) (auto simp: seals_def)
  qed
qed simp

lemma seals_chunk: "seals P ns e pk room r path i piece m \<Longrightarrow> is_request_chunk m \<and> concerns r m"
  by (auto simp: seals_def is_request_chunk_def)

lemma sort_distinct_keys:
  assumes "mset ys = mset xs" "sorted (map k xs)" "distinct (map k xs)"
  shows "sort_by_key k ys = xs"
proof (rule map_sorted_distinct_set_unique)
  have m: "mset (sort_by_key k ys) = mset xs" using assms(1) by simp
  have "mset (map k (sort_by_key k ys)) = mset (map k xs)" using m by (simp only: mset_map)
  then show "distinct (map k (sort_by_key k ys))" using assms(3) mset_eq_imp_distinct_iff by blast
  show s: "set (sort_by_key k ys) = set xs" using m mset_eq_setD by blast
  show "inj_on k (set (sort_by_key k ys) \<union> set xs)" using s assms(3) by (simp add: distinct_map)
qed (use assms sort_by_key_sorted in auto)

definition opens ::
  "primitives \<Rightarrow> client_config \<Rightarrow> pending_incoming \<Rightarrow> string \<Rightarrow> nat \<times> string \<times> string \<Rightarrow> string \<Rightarrow> bool" where
  "opens P cfg inc r x part =
     (\<forall>ks. store_ok ks \<longrightarrow>
        (\<exists>ks'. decrypt_inbound_request_chunk P ks cfg (pi_room_id inc) r (pi_path inc) (fst x) (pi_consumer_pk inc)
             (fst (snd x)) (snd (snd x)) = (Inr part, ks') \<and> store_ok ks'))"

lemma decrypt_chunks_join:
  assumes "list_all2 (opens P cfg inc r) cs parts" "store_ok ks"
  shows "\<exists>ks'. decrypt_chunks P cfg inc r ks cs = (Inr (concat parts), ks') \<and> store_ok ks'"
  using assms
proof (induction cs parts arbitrary: ks rule: list_all2_induct)
  case (Cons x cs part parts)
  obtain s n c where x: "x = (s, n, c)" by (cases x)
  from Cons(1) Cons.prems obtain ks1 where
    "decrypt_inbound_request_chunk P ks cfg (pi_room_id inc) r (pi_path inc) s (pi_consumer_pk inc) n c = (Inr part, ks1)"
    "store_ok ks1" by (auto simp: x opens_def)
  moreover from Cons.IH [OF this(2)] obtain ks2 where
    "decrypt_chunks P cfg inc r ks1 cs = (Inr (concat parts), ks2)" "store_ok ks2" by blast
  ultimately show ?case by (simp add: x)
qed simp

lemma chunk_opens:
  assumes P: "primitives_ok P" and sec: "room_secret_for_proxy P cfg room = Some secret"
    and e: "encrypt_proxy_request_chunk P nonce eph (rk_public (room_pair P secret room)) room req path seq piece
      = Inr (n, c)"
    and n12: "pred_option (\<lambda>b. length b = 12) nonce" and u: "utf8_valid piece" and ks: "store_ok ks"
  shows "\<exists>ks'. decrypt_inbound_request_chunk P ks cfg room req path seq (prim_pub P eph) n c = (Inr piece, ks')
    \<and> store_ok ks'"
proof -
  obtain ks' where k: "room_keys P ks cfg room = (Inr (room_pair P secret room), ks')" "store_ok ks'"
    using room_keys_total [OF ks sec] by blast
  have len: "length (prim_pub P eph) = 32" using P by (simp add: primitives_ok_def)
  have "encrypt_payload P nonce (derive_session_key P (rk_secret (room_pair P secret room)) (prim_pub P eph) req room)
      req (chunk_path path seq) room piece = Inr (n, c)"
    using e by (simp add: encrypt_proxy_request_chunk_def session_keys_agree [OF P])
  from open_sealed [OF P this n12] k show ?thesis
    by (simp add: decrypt_inbound_request_chunk_def decrypt_inbound_def len u utf8_result_def)
qed

lemma request_chunks_open:
  assumes P: "primitives_ok P" and sec: "room_secret_for_proxy P cfg room = Some secret" and ks: "store_ok ks"
    and n12: "\<And>i. pred_option (\<lambda>b. length b = 12) (nonces i)"
    and len: "length sent = length pieces"
    and seals: "\<forall>i<length pieces. seals P nonces eph (rk_public (room_pair P secret room)) room req path i
        (pieces ! i) (sent ! i)"
    and u: "list_all utf8_valid pieces"
    and inc: "pi_room_id inc = room" "pi_path inc = path" "pi_consumer_pk inc = prim_pub P eph"
  shows "\<exists>ks'. decrypt_chunks P cfg inc req ks (map chunk_payload sent) = (Inr (concat pieces), ks') \<and> store_ok ks'"
proof (rule decrypt_chunks_join [OF _ ks], rule list_all2_all_nthI)
  show "length (map chunk_payload sent) = length pieces" using len by simp
  fix i assume "i < length (map chunk_payload sent)"
  then have i: "i < length pieces" "i < length sent" using len by auto
  then obtain n c where m: "sent ! i = EncRequestChunk req (as_u32 i) n c AAD_VERSION"
    and e: "encrypt_proxy_request_chunk P (nonces i) eph (rk_public (room_pair P secret room)) room req path
        (as_u32 i) (pieces ! i) = Inr (n, c)"
    using seals by (auto simp: seals_def)
  have v: "utf8_valid (pieces ! i)" using u i(1) by (simp add: list_all_length)
  show "opens P cfg inc req (map chunk_payload sent ! i) (pieces ! i)"
    using chunk_opens [OF P sec e n12 v] i(2) by (simp add: m chunk_payload_def inc opens_def)
qed

lemma seals_sorted:
  assumes "length sent = length pieces" "length pieces < 2 ^ 32"
    and "\<forall>i<length pieces. seals P nonces eph pk room req path i (pieces ! i) (sent ! i)"
  shows "map fst (map chunk_payload sent) = [0..<length pieces]"
proof (rule nth_equalityI)
  fix i assume "i < length (map fst (map chunk_payload sent))"
  with assms show "map fst (map chunk_payload sent) ! i = [0..<length pieces] ! i"
    by (auto simp: seals_def chunk_payload_def as_u32_exact)
qed (simp add: assms(1))

text \<open>The three kinds of outcome of a chunked send.\<close>

lemma chunked_send:
  assumes "send_encrypted_proxy_request P ch ks cfg now eph1 nonce1 eph2 nonces peer req path (Some body) room None
      = (Some st, start # chunks @ [EncRequestEnd req], ks')"
    and "store_ok ks" and sec: "room_secret_for_proxy P cfg room = Some secret"
  shows "start = EncRequestStart req path room (prim_pub P eph2) AAD_VERSION (proxy_auth_for_room P now cfg peer room)
    \<and> send_request_chunks P ch nonces eph2 (rk_public (room_pair P secret room)) room req path 0
        (chunk_utf8 body MAX_E2EE_PLAINTEXT_CHUNK_BYTES) = (chunks, True)
    \<and> st = \<lparr>cs_ephemeral_secret = eph2, cs_path = path, cs_room_id = room,
        cs_provider_pk = rk_public (room_pair P secret room), cs_aad_version = AAD_VERSION\<rparr>"
proof -
  obtain ks1 where k: "room_keys P ks cfg room = (Inr (room_pair P secret room), ks1)"
    using room_keys_total [OF assms(2) sec] by blast
  have "resolve_provider_static_public P ks cfg room None = (Inr (rk_public (room_pair P secret room)), ks1)"
    by (simp add: resolve_provider_static_public_def provider_static_public_key_def k)
  with assms(1) show ?thesis
    by (auto simp: send_encrypted_proxy_request_def Let_def split: sum.splits prod.splits if_splits bool.splits)
qed

text \<open>C2: A request too long for one message arrives whole. Whatever the consumer sent in chunks, when the
  provider has received the start message, then the chunks in any order and mixed with the messages of
  other requests, and then the end, it dispatches exactly the body that was sent (or reports that the
  body is not JSON), under the path, the room and the proof of the start message, and forgets the
  request.\<close>

theorem chunked_request_reassembled:
  assumes P: "primitives_ok P" and ks: "store_ok ks1" "store_ok ks2"
    and sec: "room_secret_for_proxy P cfg1 room = Some secret" "room_secret_for_proxy P cfg2 room = Some secret"
    and n12: "\<forall>i. pred_option (\<lambda>b. length b = 12) (nonces i)"
    and body: "utf8_valid body" "length body < 2 ^ 32"
    and sent: "send_encrypted_proxy_request P ch ks1 cfg1 now eph1 nonce1 eph2 nonces peer req path (Some body)
      room None = (Some st, start # chunks @ [EncRequestEnd req], ks1')"
    and arr: "filter (concerns req) msgs = start # arrived" "mset arrived = mset chunks"
    and res: "handle_encrypted_request_end P parse ks2 cfg2 req (fold deliver msgs pending) = (pending', ks2', out)"
  shows "hm_get pending' req = None
    \<and> (\<exists>inc. out = (case parse body of None \<Rightarrow> BadJson | Some v \<Rightarrow> DispatchBody inc v)
        \<and> pi_path inc = path \<and> pi_room_id inc = room \<and> pi_consumer_pk inc = prim_pub P eph2
        \<and> pi_auth inc = proxy_auth_for_room P now cfg1 peer room)"
proof -
  let ?pieces = "chunk_utf8 body MAX_E2EE_PLAINTEXT_CHUNK_BYTES"
  note c = chunked_send [OF sent ks(1) sec(1)]
  have pc: "concat ?pieces = body" "list_all (\<lambda>c. c \<noteq> [] \<and> utf8_valid c) ?pieces"
    using concat_chunk_utf8_from [of body _ 0]
      chunk_utf8_from_pieces [of 0 body MAX_E2EE_PLAINTEXT_CHUNK_BYTES] body(1)
    by (auto simp: chunk_utf8_def list_all_iff)
  have few: "length ?pieces < 2 ^ 32"
    using length_concat_nonempty [of ?pieces] pc body(2) by (simp add: list_all_iff)
  note s = send_request_chunks_seals [OF c [THEN conjunct2, THEN conjunct1]]
  have own: "list_all (\<lambda>m. is_request_chunk m \<and> concerns req m) chunks"
    using s seals_chunk by (fastforce simp: list_all_length)
  have own': "list_all (\<lambda>m. is_request_chunk m \<and> concerns req m) arrived"
    using own mset_eq_setD [OF arr(2)] by (simp add: list_all_iff)
  define inc where "inc = \<lparr>pi_path = path, pi_room_id = room, pi_consumer_pk = prim_pub P eph2,
      pi_aad_version = AAD_VERSION, pi_auth = proxy_auth_for_room P now cfg1 peer room,
      pi_chunks = map chunk_payload arrived\<rparr>"
  have "hm_get (fold deliver msgs pending) req = hm_get (fold deliver arrived (deliver start pending)) req"
    using deliver_filter [OF refl, where r = req and msgs = msgs and p = pending] arr(1) by simp
  then have got: "hm_get (fold deliver msgs pending) req = Some inc"
    using deliver_chunks [OF _ own', where p = "deliver start pending"] c
    by (simp add: handle_encrypted_request_start_def inc_def)
  have keys: "map fst (map chunk_payload chunks) = [0..<length ?pieces]"
    by (rule seals_sorted) (use s few in auto)
  have ord: "sort_by_key fst (map chunk_payload arrived) = map chunk_payload chunks"
    by (rule sort_distinct_keys) (simp only: mset_map arr(2), simp_all only: keys, simp_all)
  have "\<exists>ks'. decrypt_chunks P cfg2 inc req ks2 (map chunk_payload chunks) = (Inr (concat ?pieces), ks') \<and> store_ok ks'"
    by (rule request_chunks_open [OF P sec(2) ks(2), where nonces = nonces and eph = eph2])
       (use s n12 pc(2) in \<open>auto simp: inc_def list_all_iff\<close>)
  moreover have pc_inc: "pi_chunks inc = map chunk_payload arrived" by (simp add: inc_def)
  ultimately obtain ks3 where d: "decrypt_chunks P cfg2 inc req ks2 (map chunk_payload chunks) = (Inr body, ks3)"
    using pc(1) by auto
  have "pending' = hm_remove req (fold deliver msgs pending)"
    and "out = (case parse body of None \<Rightarrow> BadJson | Some v \<Rightarrow> DispatchBody inc v)"
    using res got ord d by (auto simp: handle_encrypted_request_end_def pc_inc)
  moreover have "pi_path inc = path" "pi_room_id inc = room" "pi_consumer_pk inc = prim_pub P eph2"
    "pi_auth inc = proxy_auth_for_room P now cfg1 peer room" by (simp_all add: inc_def)
  ultimately show ?thesis by auto
qed

theorem chunked_request_reassembled_witness:
  "\<exists>inc. snd (snd (handle_encrypted_request_end toy_primitives (\<lambda>s. Some (JStr s)) toy_store
       (member_of ''c'' (Some ''pw'')) ''r''
       (fold deliver [EncRequestStart ''r'' ''/p'' ''c'' (pad32 ''eph'') AAD_VERSION
            (proxy_auth_for_room toy_primitives 0 (member_of ''c'' (Some ''pw'')) ''me'' ''c''),
          EncRequestStart ''other'' [] [] [] 1 None,
          EncRequestChunk ''r'' 0 ''twelve bytes'' (build_aad ''r'' (chunk_path ''/p'' 0) ''c'' @ ''{}'') AAD_VERSION]
        hm_empty)))
     = DispatchBody inc (JStr ''{}'')"
proof -
  let ?cfg = "member_of ''c'' (Some ''pw'')"
  let ?P = toy_primitives
  let ?ch = "\<lparr>ch_wire = (\<lambda>m. Some (case m of EncRequest _ \<Rightarrow> 9000 | _ \<Rightarrow> 100)), ch_up = (\<lambda>_. True)\<rparr>"
  let ?start = "EncRequestStart ''r'' ''/p'' ''c'' (pad32 ''eph'') AAD_VERSION (proxy_auth_for_room ?P 0 ?cfg ''me'' ''c'')"
  let ?chunk = "EncRequestChunk ''r'' 0 ''twelve bytes'' (build_aad ''r'' (chunk_path ''/p'' 0) ''c'' @ ''{}'') AAD_VERSION"
  let ?pk = "rk_public (room_pair ?P (cluster_effective_room_secret ''c'' (Some ''pw'')) ''c'')"
  have prims: "prim_seal ?P = (\<lambda>k n a m. Some (a @ m))" "prim_pub ?P = pad32"
    by (simp_all add: toy_primitives_def)
  have one: "chunk_utf8 ''{}'' MAX_E2EE_PLAINTEXT_CHUNK_BYTES = [''{}'']"
    by (simp add: chunk_utf8_def chunk_utf8_from.simps chunk_end_def Let_def MAX_E2EE_PLAINTEXT_CHUNK_BYTES_def
        is_char_boundary_def)
  obtain ks1 where k: "room_keys ?P toy_store ?cfg ''c'' =
      (Inr (room_pair ?P (cluster_effective_room_secret ''c'' (Some ''pw'')) ''c''), ks1)" "store_ok ks1"
    using room_keys_total [OF toy_store_ok member_secret] by blast
  obtain ks2 where k2: "room_keys ?P ks1 ?cfg ''c'' =
      (Inr (room_pair ?P (cluster_effective_room_secret ''c'' (Some ''pw'')) ''c''), ks2)"
    using room_keys_total [OF k(2) member_secret] by blast
  have sent: "send_encrypted_proxy_request ?P ?ch toy_store ?cfg 0 ''eph'' (Some ''twelve bytes'') ''eph''
      (\<lambda>_. Some ''twelve bytes'') ''me'' ''r'' ''/p'' (Some ''{}'') ''c'' None =
      (Some \<lparr>cs_ephemeral_secret = ''eph'', cs_path = ''/p'', cs_room_id = ''c'', cs_provider_pk = ?pk,
         cs_aad_version = AAD_VERSION\<rparr>, ?start # [?chunk] @ [EncRequestEnd ''r''], ks2)"
    by (simp add: send_encrypted_proxy_request_def resolve_provider_static_public_def
        provider_static_public_key_def k(1) k2 encrypt_proxy_request_def encrypt_payload_def prims Let_def wire_fits_def
        MAX_DC_WIRE_BYTES_def one send_stream_message_def encrypt_proxy_request_chunk_def as_u32_def)
  let ?msgs = "[?start, EncRequestStart ''other'' [] [] [] 1 None, ?chunk]"
  let ?res = "handle_encrypted_request_end ?P (\<lambda>s. Some (JStr s)) toy_store ?cfg ''r'' (fold deliver ?msgs hm_empty)"
  obtain p' k' out where res: "?res = (p', k', out)" by (cases ?res)
  have flt: "filter (concerns ''r'') ?msgs = ?start # [?chunk]" by simp
  from chunked_request_reassembled [OF toy_ok toy_store_ok toy_store_ok member_secret member_secret _ _ _ sent flt refl res]
  have "\<exists>inc. out = DispatchBody inc (JStr ''{}'')" by (auto simp: in_range_def)
  then show ?thesis unfolding res by simp
qed

section \<open>The answer, in order\<close>

text \<open>The outcomes of a series of stream chunks, and the parts they hand to the requester.\<close>

fun stream_outcomes ::
  "(pending_stream \<Rightarrow> stream_chunk_data \<Rightarrow> e2ee_error + string) \<Rightarrow> string \<Rightarrow> stream_chunk_data list
     \<Rightarrow> pending_streams \<Rightarrow> stream_outcome list" where
  "stream_outcomes dec req_id [] streams = []"
| "stream_outcomes dec req_id (c # cs) streams =
     (case handle_encrypted_stream_chunk dec req_id c streams of
        (streams, out) \<Rightarrow> out # stream_outcomes dec req_id cs streams)"

fun outcome_parts :: "stream_outcome \<Rightarrow> string list" where
  "outcome_parts StreamError = []"
| "outcome_parts Waiting = []"
| "outcome_parts (Progress ps) = ps"
| "outcome_parts (Finished ps) = ps"

fun is_finished :: "stream_outcome \<Rightarrow> bool" where
  "is_finished (Finished _) = True"
| "is_finished StreamError = False"
| "is_finished Waiting = False"
| "is_finished (Progress _) = False"

definition same_stream :: "pending_stream \<Rightarrow> pending_stream \<Rightarrow> bool" where
  "same_stream a b = (ps_path a = ps_path b \<and> ps_room_id a = ps_room_id b
     \<and> ps_ephemeral_secret a = ps_ephemeral_secret b \<and> ps_provider_pk a = ps_provider_pk b)"

text \<open>The numbered chunks \<open>chunk 0 \<dots> chunk (n - 1)\<close> of an answer, all of which decrypt under the stream
  \<open>base\<close>, the last and only the last marked \<open>done\<close>.\<close>

definition answer_chunks ::
  "(pending_stream \<Rightarrow> stream_chunk_data \<Rightarrow> e2ee_error + string) \<Rightarrow> pending_stream \<Rightarrow> nat \<Rightarrow> (nat \<Rightarrow> stream_chunk_data)
     \<Rightarrow> (nat \<Rightarrow> string) \<Rightarrow> bool" where
  "answer_chunks dec base n chunk part =
     (0 < n \<and> n \<le> 2 ^ 32 \<and> (\<forall>i<n. sc_seq (chunk i) = i \<and> sc_done (chunk i) = (Suc i = n)
        \<and> (\<forall>ctx. same_stream ctx base \<longrightarrow> dec ctx (chunk i) = Inr (part i))))"

text \<open>The stream has handed on \<open>k\<close> chunks, those in \<open>S\<close> have arrived.\<close>

definition stream_at ::
  "pending_stream \<Rightarrow> nat \<Rightarrow> (nat \<Rightarrow> stream_chunk_data) \<Rightarrow> nat set \<Rightarrow> nat \<Rightarrow> pending_stream \<Rightarrow> bool" where
  "stream_at base n chunk S k ctx =
     (same_stream ctx base \<and> ps_next_seq ctx = k \<and> k < n \<and> {..<k} \<subseteq> S
      \<and> (\<forall>j\<ge>k. hm_get (ps_reorder ctx) j = (if j \<in> S then Some (chunk j) else None)))"

lemma stream_at_step:
  assumes "stream_at base n chunk S k ctx" "k \<in> S" "Suc k < n" "n \<le> 2 ^ 32"
  shows "stream_at base n chunk S (Suc k) (ctx\<lparr>ps_reorder := hm_remove k (ps_reorder ctx), ps_next_seq := wrap_add32 k 1\<rparr>)"
proof -
  have "wrap_add32 k 1 = Suc k" using assms(3,4) by (simp add: wrap_add32_exact)
  with assms show ?thesis by (auto simp: stream_at_def same_stream_def less_Suc_eq)
qed

lemma drain_in_order:
  assumes A: "answer_chunks dec base n chunk part" and S: "S \<subseteq> {..<n}" and at: "stream_at base n chunk S k ctx"
  shows "if {..<n} \<subseteq> S then drain_stream dec ctx acc = (None, Finished (acc @ map part [k..<n]))
    else \<exists>k' ctx'. k \<le> k' \<and> k' \<notin> S \<and> stream_at base n chunk S k' ctx'
      \<and> drain_stream dec ctx acc = (Some ctx', if acc @ map part [k..<k'] = [] then Waiting else Progress (acc @ map part [k..<k']))"
  using at
proof (induction "n - k" arbitrary: k ctx acc rule: less_induct)
  case less
  have k: "k < n" "ps_next_seq ctx = k" "same_stream ctx base" "{..<k} \<subseteq> S"
    and get: "hm_get (ps_reorder ctx) k = (if k \<in> S then Some (chunk k) else None)"
    using less.prems by (auto simp: stream_at_def)
  show ?case
  proof (cases "k \<in> S")
    case False
    then have "drain_stream dec ctx acc = (Some ctx, if acc = [] then Waiting else Progress acc)"
      by (simp add: drain_stream.simps [of dec ctx] k(2) get)
    moreover have "\<not> {..<n} \<subseteq> S" using False k(1) by blast
    ultimately show ?thesis using False less.prems by (intro if_not_P [THEN iffD2]) (auto intro!: exI [of _ k])
  next
    case True
    let ?c1 = "ctx\<lparr>ps_reorder := hm_remove k (ps_reorder ctx)\<rparr>"
    let ?c2 = "ctx\<lparr>ps_reorder := hm_remove k (ps_reorder ctx), ps_next_seq := wrap_add32 k 1\<rparr>"
    have dec: "dec ?c1 (chunk k) = Inr (part k)" "sc_done (chunk k) = (Suc k = n)"
      using A k by (auto simp: answer_chunks_def same_stream_def)
    have step: "drain_stream dec ctx acc =
        (if Suc k = n then (None, Finished (acc @ [part k])) else drain_stream dec ?c2 (acc @ [part k]))"
      by (simp add: drain_stream.simps [of dec ctx] k(2) get True dec Let_def)
    show ?thesis
    proof (cases "Suc k = n")
      case fin: True
      then have "{..<n} \<subseteq> S" using k(4) True by (auto simp: less_Suc_eq)
      moreover have "[k..<n] = [k]" using fin by (simp flip: fin)
      ultimately show ?thesis using step fin by simp
    next
      case False
      with k(1) have lt: "Suc k < n" by simp
      have n: "n \<le> 2 ^ 32" using A by (simp add: answer_chunks_def)
      have "stream_at base n chunk S (Suc k) ?c2" by (rule stream_at_step [OF less.prems True lt n])
      note IH = less.hyps [OF diff_less_mono2 [OF lessI k(1)] this, of "acc @ [part k]"]
      have cons: "Suc k \<le> k' \<Longrightarrow> [k..<k'] = k # [Suc k..<k']" for k' by (simp add: upt_rec)
      show ?thesis
      proof (cases "{..<n} \<subseteq> S")
        case all: True
        with IH step False lt cons [of n] show ?thesis by simp
      next
        case miss: False
        from IH have "\<exists>k' ctx'. Suc k \<le> k' \<and> k' \<notin> S \<and> stream_at base n chunk S k' ctx' \<and>
            drain_stream dec ?c2 (acc @ [part k]) = (Some ctx', if (acc @ [part k]) @ map part [Suc k..<k'] = [] then Waiting
              else Progress ((acc @ [part k]) @ map part [Suc k..<k']))" by (simp only: miss if_False)
        then obtain k' ctx' where k': "Suc k \<le> k'" "k' \<notin> S" "stream_at base n chunk S k' ctx'"
          "drain_stream dec ?c2 (acc @ [part k]) = (Some ctx', Progress (acc @ part k # map part [Suc k..<k']))"
          by auto
        then have "drain_stream dec ctx acc = (Some ctx', Progress (acc @ map part [k..<k']))" "k \<le> k'"
          using step False cons [of k'] by simp_all
        with miss k' cons [of k'] show ?thesis by (auto intro!: exI [of _ k'] exI [of _ ctx'])
      qed
    qed
  qed
qed

lemma outcomes_gone:
  "hm_get streams r = None \<Longrightarrow> stream_outcomes dec r cs streams = replicate (length cs) StreamError"
  by (induction cs) (simp_all add: handle_encrypted_stream_chunk_def)

lemma stream_at_arrival:
  assumes "stream_at base n chunk S k ctx"
  shows "stream_at base n chunk (insert i S) k (ctx\<lparr>ps_reorder := hm_insert i (chunk i) (ps_reorder ctx)\<rparr>)"
  using assms by (auto simp: stream_at_def same_stream_def)

lemma stream_outcomes_in_order:
  assumes A: "answer_chunks dec base n chunk part"
    and "hm_get streams r = Some ctx" "stream_at base n chunk S k ctx" "k \<notin> S" "S \<union> set is \<subseteq> {..<n}"
  shows "\<exists>k'. k \<le> k' \<and> k' \<le> n \<and> {..<k'} \<subseteq> S \<union> set is \<and> k' \<notin> S \<union> set is
    \<and> concat (map outcome_parts (stream_outcomes dec r (map chunk is) streams)) = map part [k..<k']
    \<and> (list_ex is_finished (stream_outcomes dec r (map chunk is) streams) \<longleftrightarrow> k' = n)"
  using assms(2-)
proof (induction "is" arbitrary: streams ctx S k)
  case Nil
  then show ?case by (intro exI [of _ k]) (auto simp: stream_at_def)
next
  case (Cons i "is")
  let ?S = "insert i S"
  let ?c = "ctx\<lparr>ps_reorder := hm_insert i (chunk i) (ps_reorder ctx)\<rparr>"
  have i: "i < n" "sc_seq (chunk i) = i" using A Cons.prems(4) by (auto simp: answer_chunks_def)
  have sub: "?S \<subseteq> {..<n}" using Cons.prems(4) by auto
  note drain = drain_in_order [OF A sub stream_at_arrival [OF Cons.prems(2)], of "[]"]
  have h: "handle_encrypted_stream_chunk dec r (chunk i) streams =
      (set_stream r (fst (drain_stream dec ?c [])) streams, snd (drain_stream dec ?c []))"
    using Cons.prems(1) i(2) by (simp add: handle_encrypted_stream_chunk_def split: prod.split)
  have Sset: "S \<union> set (i # is) = ?S \<union> set is" by auto
  show ?case
  proof (cases "{..<n} \<subseteq> ?S")
    case True
    with drain have d: "drain_stream dec ?c [] = (None, Finished (map part [k..<n]))" by simp
    have gone: "hm_get (set_stream r None streams) r = None" by (simp add: set_stream_def)
    show ?thesis
      using True Cons.prems(2,4) sub outcomes_gone [OF gone, of dec "map chunk is"]
      by (intro exI [of _ n]) (auto simp: h d stream_at_def list_ex_iff)
  next
    case False
    from drain have "\<exists>k1 c1. k \<le> k1 \<and> k1 \<notin> ?S \<and> stream_at base n chunk ?S k1 c1 \<and> drain_stream dec ?c [] =
        (Some c1, if [] @ map part [k..<k1] = [] then Waiting else Progress ([] @ map part [k..<k1]))"
      by (simp only: False if_False)
    then obtain k1 c1 where k1: "k \<le> k1" "k1 \<notin> ?S" "stream_at base n chunk ?S k1 c1"
      and d: "drain_stream dec ?c [] =
        (Some c1, if [] @ map part [k..<k1] = [] then Waiting else Progress ([] @ map part [k..<k1]))"
      by blast
    have got: "hm_get (set_stream r (Some c1) streams) r = Some c1"
      using Cons.prems(1) by (simp add: set_stream_def)
    from Cons.IH [OF got k1(3,2)] Cons.prems(4) sub obtain k2 where k2: "k1 \<le> k2" "k2 \<le> n" "{..<k2} \<subseteq> ?S \<union> set is"
      "k2 \<notin> ?S \<union> set is"
      "concat (map outcome_parts (stream_outcomes dec r (map chunk is) (set_stream r (Some c1) streams))) = map part [k1..<k2]"
      "list_ex is_finished (stream_outcomes dec r (map chunk is) (set_stream r (Some c1) streams)) \<longleftrightarrow> k2 = n"
      by (auto simp: Sset)
    have parts: "outcome_parts (snd (drain_stream dec ?c [])) = map part [k..<k1]"
      "\<not> is_finished (snd (drain_stream dec ?c []))" by (auto simp: d)
    have "map part [k..<k1] @ map part [k1..<k2] = map part [k..<k2]"
      using k1(1) k2(1) by (metis le_Suc_ex map_append upt_add_eq_append le_add1 add.assoc)
    with k1(1) k2 parts show ?thesis
      by (intro exI [of _ k2]) (simp add: h d Sset)
  qed
qed

lemma sealed_chunk_opens:
  assumes P: "primitives_ok P" and ks: "store_ok ks" "store_ok ksp"
    and sec: "room_secret_for_proxy P cfg room = Some secret" "room_secret_for_proxy P cfgp room = Some secret"
    and e: "fst (encrypt_proxy_chunk P ksp cfgp nonce room req path seq (prim_pub P eph) piece) = Inr (n, c)"
    and n12: "pred_option (\<lambda>b. length b = 12) nonce" and u: "utf8_valid piece"
  shows "fst (decrypt_proxy_chunk P ks cfg req path seq room eph (rk_public (room_pair P secret room)) n c) = Inr piece"
proof -
  let ?k = "room_pair P secret room"
  obtain ks1 where k1: "room_keys P ks cfg room = (Inr ?k, ks1)" using room_keys_total [OF ks(1) sec(1)] by blast
  obtain ks2 where k2: "room_keys P ksp cfgp room = (Inr ?k, ks2)" using room_keys_total [OF ks(2) sec(2)] by blast
  have len: "length (prim_pub P eph) = 32" using P by (simp add: primitives_ok_def)
  have "encrypt_payload P nonce (derive_session_key P (rk_secret ?k) (prim_pub P eph) req room) req (chunk_path path seq)
      room piece = Inr (n, c)" using e by (simp add: encrypt_proxy_chunk_def k2 len)
  from open_sealed [OF P this n12] show ?thesis
    by (simp add: decrypt_proxy_chunk_def k1 session_keys_agree [OF P] utf8_result_def u)
qed

text \<open>C5: The requester gets the answer in order and once. However the encrypted chunks of an answer
  arrive, out of order or more than once, what is handed on is exactly the parts up to the first
  missing chunk, each once, and the stream is reported finished exactly when every chunk has come.\<close>

theorem stream_delivered_in_order:
  assumes P: "primitives_ok P" and ks: "store_ok ks" "\<forall>i. store_ok (ksp i)"
    and sec: "room_secret_for_proxy P cfg room = Some secret" "room_secret_for_proxy P cfgp room = Some secret"
    and n: "0 < n" "n \<le> 2 ^ 32"
    and st: "cs_room_id st = room" "cs_provider_pk st = rk_public (room_pair P secret room)"
    and sealed: "\<forall>i<n. fst (encrypt_proxy_chunk P (ksp i) cfgp (nonce i) room req (cs_path st) i
        (prim_pub P (cs_ephemeral_secret st)) (part i)) = Inr (sc_nonce (chunk i), sc_ciphertext (chunk i))
      \<and> sc_seq (chunk i) = i \<and> sc_done (chunk i) = (Suc i = n)
      \<and> pred_option (\<lambda>b. length b = 12) (nonce i) \<and> utf8_valid (part i)"
    and arr: "set is \<subseteq> {..<n}" "hm_get streams req = Some (init_pending_encrypted_stream st)"
    and outs: "outs = stream_outcomes (stream_decrypt P ks cfg req) req (map chunk is) streams"
  shows "\<exists>k\<le>n. concat (map outcome_parts outs) = map part [0..<k] \<and> {..<k} \<subseteq> set is \<and> k \<notin> set is
    \<and> (list_ex is_finished outs \<longleftrightarrow> {..<n} \<subseteq> set is)"
proof -
  let ?base = "init_pending_encrypted_stream st"
  have A: "answer_chunks (stream_decrypt P ks cfg req) ?base n chunk part"
    using n sealed sealed_chunk_opens [OF P ks(1) ks(2) [THEN spec] sec]
    by (auto simp: answer_chunks_def stream_decrypt_def same_stream_def init_pending_encrypted_stream_def st)
  have at: "stream_at ?base n chunk {} 0 ?base"
    using n by (simp add: stream_at_def same_stream_def init_pending_encrypted_stream_def)
  have "\<exists>k'\<ge>0. k' \<le> n \<and> {..<k'} \<subseteq> {} \<union> set is \<and> k' \<notin> {} \<union> set is
    \<and> concat (map outcome_parts outs) = map part [0..<k'] \<and> (list_ex is_finished outs \<longleftrightarrow> k' = n)"
    unfolding outs by (rule stream_outcomes_in_order [OF A arr(2) at]) (use arr(1) in auto)
  then obtain k where k: "k \<le> n" "{..<k} \<subseteq> set is" "k \<notin> set is" "concat (map outcome_parts outs) = map part [0..<k]"
    "list_ex is_finished outs \<longleftrightarrow> k = n" by auto
  then have "k = n \<longleftrightarrow> {..<n} \<subseteq> set is" by (auto simp: le_less)
  with k show ?thesis by blast
qed

theorem stream_delivered_in_order_witness:
  "list_ex is_finished (stream_outcomes (stream_decrypt toy_primitives toy_store (member_of ''c'' (Some ''pw'')) ''r'') ''r''
     (map (\<lambda>i. \<lparr>sc_seq = i, sc_nonce = ''twelve bytes'', sc_ciphertext = build_aad ''r'' (chunk_path ''/p'' i) ''c'' @ ''ab'',
        sc_done = (Suc i = 3)\<rparr>) [2, 0, 0, 1])
     [(''r'', init_pending_encrypted_stream \<lparr>cs_ephemeral_secret = ''eph'', cs_path = ''/p'', cs_room_id = ''c'',
        cs_provider_pk = rk_public (room_pair toy_primitives (cluster_effective_room_secret ''c'' (Some ''pw'')) ''c''),
        cs_aad_version = AAD_VERSION\<rparr>)])"
proof -
  let ?P = toy_primitives
  let ?cfg = "member_of ''c'' (Some ''pw'')"
  let ?st = "\<lparr>cs_ephemeral_secret = ''eph'', cs_path = ''/p'', cs_room_id = ''c'',
        cs_provider_pk = rk_public (room_pair ?P (cluster_effective_room_secret ''c'' (Some ''pw'')) ''c''),
        cs_aad_version = AAD_VERSION\<rparr>"
  let ?chunk = "\<lambda>i. \<lparr>sc_seq = i, sc_nonce = ''twelve bytes'', sc_ciphertext = build_aad ''r'' (chunk_path ''/p'' i) ''c'' @ ''ab'',
        sc_done = (Suc i = 3)\<rparr>"
  obtain ks' where k: "room_keys ?P toy_store ?cfg ''c'' =
      (Inr (room_pair ?P (cluster_effective_room_secret ''c'' (Some ''pw'')) ''c''), ks')"
    using room_keys_total [OF toy_store_ok member_secret] by blast
  have prims: "prim_seal ?P = (\<lambda>k n a m. Some (a @ m))" "length (prim_pub ?P ''eph'') = 32"
    by (simp_all add: toy_primitives_def pad32_def)
  have "\<exists>k\<le>3. concat (map outcome_parts (stream_outcomes (stream_decrypt ?P toy_store ?cfg ''r'') ''r''
        (map ?chunk [2, 0, 0, 1]) [(''r'', init_pending_encrypted_stream ?st)])) = map (\<lambda>_. ''ab'') [0..<k]
      \<and> {..<k} \<subseteq> set [2, 0, 0, 1] \<and> k \<notin> set [2, 0, 0, 1]
      \<and> (list_ex is_finished (stream_outcomes (stream_decrypt ?P toy_store ?cfg ''r'') ''r''
        (map ?chunk [2, 0, 0, 1]) [(''r'', init_pending_encrypted_stream ?st)]) \<longleftrightarrow> {..<3::nat} \<subseteq> set [2, 0, 0, 1])"
    by (rule stream_delivered_in_order [where st = ?st and ksp = "\<lambda>_. toy_store" and nonce = "\<lambda>_. Some ''twelve bytes''"
          and cfgp = ?cfg and chunk = ?chunk and req = "''r''",
          OF toy_ok toy_store_ok _ member_secret member_secret _ _ _ _ _ _ _ refl])
       (auto simp: toy_store_ok encrypt_proxy_chunk_def k prims encrypt_payload_def in_range_def)
  moreover have "{..<3} \<subseteq> set [2, 0, 0, 1::nat]" by auto
  ultimately show ?thesis by blast
qed

end
