(* ===== verification/Cluster_Answer.thy ===== *)
theory Cluster_Answer
  imports Cluster_Flow
begin

text \<open>
  Properties of the provider's side of \<open>Cluster_E2ee\<close>: what of the model's answer is sent, in which
  pieces and with which last message, and what has to hold before the model is asked at all.
\<close>

section \<open>Sending an answer\<close>

text \<open>The messages for the pieces of an answer; \<open>fin\<close>: the last is marked \<open>done\<close>.\<close>

fun numbered ::
  "(nat \<Rightarrow> string \<Rightarrow> e2ee_error + (string \<times> string)) \<Rightarrow> string \<Rightarrow> nat \<Rightarrow> bool \<Rightarrow> nat \<Rightarrow> string list \<Rightarrow> dc_message list" where
  "numbered enc req ver fin seq [] = []"
| "numbered enc req ver fin seq (p # ps) =
     EncStreamChunk req seq (fst (projr (enc seq p))) (snd (projr (enc seq p))) ver (fin \<and> ps = [])
       # numbered enc req ver fin (Suc seq) ps"

lemma numbered_append:
  "ys \<noteq> [] \<or> \<not> fin \<Longrightarrow>
   numbered enc req ver False seq xs @ numbered enc req ver fin (seq + length xs) ys = numbered enc req ver fin seq (xs @ ys)"
proof (induction xs arbitrary: seq)
  case (Cons x xs)
  from Cons.IH [OF Cons.prems, of "Suc seq"] Cons.prems show ?case by auto
qed simp

fun marked_done :: "dc_message \<Rightarrow> bool" where
  "marked_done (EncStreamChunk _ _ _ _ _ d) = d"
| "marked_done (EncRequest _) = False"
| "marked_done (EncRequestStart _ _ _ _ _ _) = False"
| "marked_done (EncRequestChunk _ _ _ _ _) = False"
| "marked_done (EncRequestEnd _) = False"
| "marked_done (EncResponse _ _ _ _ _ _) = False"

lemma numbered_not_done: "\<not> fin \<Longrightarrow> list_all (\<lambda>m. \<not> marked_done m) (numbered enc req ver fin seq ps)"
  by (induction ps arbitrary: seq) auto

definition good_piece :: "string \<Rightarrow> bool" where
  "good_piece p = (p \<noteq> [] \<and> utf8_valid p \<and> length p \<le> STREAM_CHUNK_BYTES)"

lemma utf8_valid_append: "utf8_valid s \<Longrightarrow> utf8_valid (s @ t) = utf8_valid t"
  by (induction rule: utf8_valid_induct) simp_all

text \<open>A channel and an encryption that never fail.\<close>

definition all_sent ::
  "dc_channel \<Rightarrow> (nat \<Rightarrow> string \<Rightarrow> e2ee_error + (string \<times> string)) \<Rightarrow> bool" where
  "all_sent ch enc = ((\<forall>m. send_stream_message ch m) \<and> (\<forall>i p. \<not> isl (enc i p)))"

lemma flush_step:
  assumes "all_sent ch enc" "flush_take pending fin = Some k"
  shows "flush_encrypted_response_chunks ch enc req ver fin pending seq =
    (case flush_encrypted_response_chunks ch enc req ver fin (drop k pending) (wrap_add32 seq 1) of
       (ok, p, s, sent) \<Rightarrow> (ok, p, s, EncStreamChunk req seq (fst (projr (enc seq (take k pending))))
         (snd (projr (enc seq (take k pending)))) ver (fin \<and> drop k pending = []) # sent))"
proof -
  have "\<not> isl (enc seq (take k pending))" using assms(1) by (simp add: all_sent_def)
  then obtain n c where "enc seq (take k pending) = Inr (n, c)" by (cases "enc seq (take k pending)") auto
  with assms show ?thesis
    by (simp add: flush_encrypted_response_chunks.simps [of ch enc req ver fin pending] all_sent_def Let_def)
qed

lemma flush_sends:
  assumes ok: "all_sent ch enc"
  shows "utf8_valid pending \<Longrightarrow> seq + length pending < 2 ^ 32 \<Longrightarrow>
    \<exists>pieces rest. flush_encrypted_response_chunks ch enc req ver fin pending seq
        = (True, rest, seq + length pieces, numbered enc req ver (fin \<and> pieces \<noteq> []) seq pieces)
      \<and> concat pieces @ rest = pending \<and> list_all good_piece pieces \<and> utf8_valid rest \<and> (fin \<longrightarrow> rest = [])
      \<and> flush_take rest fin = None \<and> length pieces \<le> length pending"
proof (induction "length pending" arbitrary: pending seq rule: less_induct)
  case less
  show ?case
  proof (cases "flush_take pending fin")
    case None
    then have "flush_encrypted_response_chunks ch enc req ver fin pending seq = (True, pending, seq, [])"
      by (simp add: flush_encrypted_response_chunks.simps [of ch enc req ver fin pending])
    moreover have "fin \<Longrightarrow> pending = []" using flush_take_None [of pending] less.prems(1) None by auto
    ultimately show ?thesis using None less.prems(1) by (intro exI [of _ "[]"] exI [of _ pending]) simp
  next
    case (Some k)
    note t = flush_take_Some [OF less.prems(1) Some]
    have shorter: "length (drop k pending) < length pending" using t by (simp only: length_drop) linarith
    have seq: "wrap_add32 seq (Suc 0) = Suc seq" using less.prems(2) t by (simp add: wrap_add32_exact)
    have fits: "Suc seq + length (drop k pending) < 2 ^ 32"
      using shorter less.prems(2) by linarith
    obtain ps rest where IH: "flush_encrypted_response_chunks ch enc req ver fin (drop k pending) (Suc seq)
          = (True, rest, Suc seq + length ps, numbered enc req ver (fin \<and> ps \<noteq> []) (Suc seq) ps)"
      "concat ps @ rest = drop k pending" "list_all good_piece ps" "utf8_valid rest" "fin \<longrightarrow> rest = []"
      "flush_take rest fin = None" "length ps \<le> length (drop k pending)"
      using less.hyps [OF shorter _ fits] t by blast
    have split: "take k pending @ concat ps @ rest = pending" using IH(2) by simp
    have end_iff: "(fin \<and> drop k pending = []) = (fin \<and> ps = [])"
      using IH(2,3,5) by (cases ps) (auto simp: good_piece_def)
    have nums: "numbered enc req ver (fin \<and> ps \<noteq> []) (Suc seq) ps = numbered enc req ver fin (Suc seq) ps"
      by (cases ps) auto
    have "take k pending \<noteq> []" using t by auto
    then have good: "list_all good_piece (take k pending # ps)" using IH(3) t by (auto simp: good_piece_def)
    have "flush_encrypted_response_chunks ch enc req ver fin pending seq =
        (True, rest, seq + length (take k pending # ps), numbered enc req ver fin seq (take k pending # ps))"
      using IH(1) by (simp only: flush_step [OF ok Some] end_iff) (simp add: seq nums)
    with IH(4-7) good split shorter show ?thesis
      by (intro exI [of _ "take k pending # ps"] exI [of _ rest]) auto
  qed
qed

definition chunks_sent :: "dispatch_effect list \<Rightarrow> dc_message list" where
  "chunks_sent effs = List.map_filter (\<lambda>e. case e of SendChunk m \<Rightarrow> Some m | _ \<Rightarrow> None) effs"

lemma chunks_sent_simps [simp]:
  "chunks_sent [] = []" "chunks_sent (a @ b) = chunks_sent a @ chunks_sent b"
  "chunks_sent (map SendChunk ms) = ms" "chunks_sent (StatsProgress x y # effs) = chunks_sent effs"
  "chunks_sent (SendChunk m # effs) = m # chunks_sent effs"
  by (simp_all add: chunks_sent_def map_filter_def comp_def)

lemma flush_more:
  "concat ps1 @ rest = pending @ b \<Longrightarrow> concat ps2 = rest @ text \<Longrightarrow> concat (ps1 @ ps2) = pending @ b @ text"
  by (metis append.assoc concat_append)

lemma stream_answer_sends:
  assumes ok: "all_sent ch enc"
  shows "utf8_valid pending \<Longrightarrow> seq + length pending + length (concat bs) < 2 ^ 32 \<Longrightarrow>
    \<exists>pieces fin effs. stream_answer ch enc parse req ver bs buffer pending seq = (True, effs)
      \<and> chunks_sent effs = numbered enc req ver fin seq pieces \<and> (pieces = [] \<longrightarrow> \<not> fin)
      \<and> concat pieces = pending @ concat (filter utf8_valid bs) \<and> list_all good_piece pieces"
proof (induction bs arbitrary: buffer pending seq)
  case Nil
  obtain ps rest where f: "flush_encrypted_response_chunks ch enc req ver True pending seq
      = (True, rest, seq + length ps, numbered enc req ver (True \<and> ps \<noteq> []) seq ps)"
    "concat ps @ rest = pending" "list_all good_piece ps" "True \<longrightarrow> rest = []"
    using flush_sends [OF ok Nil.prems(1), where seq = seq and fin = True and req = req and ver = ver] Nil.prems(2) by auto
  then show ?case by (intro exI [of _ ps] exI [of _ "ps \<noteq> []"]) simp
next
  case (Cons b bs)
  let ?pending = "if utf8_valid b then pending @ b else pending"
  let ?buffer = "if utf8_valid b then fst (accumulate_and_parse_usage parse buffer b) else buffer"
  have v: "utf8_valid ?pending" using Cons.prems(1) utf8_valid_append by auto
  have room: "seq + length ?pending < 2 ^ 32" using Cons.prems(2) by simp
  obtain ps rest where f: "flush_encrypted_response_chunks ch enc req ver False ?pending seq
      = (True, rest, seq + length ps, numbered enc req ver False seq ps)"
    "concat ps @ rest = ?pending" "list_all good_piece ps" "utf8_valid rest"
    using flush_sends [OF ok v room, where fin = False and req = req and ver = ver] by auto
  have lens: "length ps \<le> length (concat ps)"
    using f(3) by (intro length_concat_nonempty) (auto simp: good_piece_def list_all_iff)
  have "length ?pending = length (concat ps) + length rest" using arg_cong [OF f(2), of length] by (simp only: length_append)
  with lens Cons.prems(2) have fits: "seq + length ps + length rest + length (concat bs) < 2 ^ 32"
    by (simp split: if_splits)
  from Cons.IH [OF f(4) fits, of ?buffer] obtain qs fin effs where IH:
    "stream_answer ch enc parse req ver bs ?buffer rest (seq + length ps) = (True, effs)"
    "chunks_sent effs = numbered enc req ver fin (seq + length ps) qs" "qs = [] \<longrightarrow> \<not> fin"
    "concat qs = rest @ concat (filter utf8_valid bs)" "list_all good_piece qs" by blast
  have nums: "numbered enc req ver False seq ps @ numbered enc req ver fin (seq + length ps) qs =
      numbered enc req ver fin seq (ps @ qs)" using IH(3) by (intro numbered_append) auto
  have whole: "concat (ps @ qs) = pending @ concat (filter utf8_valid (b # bs))"
    using f(2) IH(4) by (auto split: if_splits)
  show ?case
    using f(1,3) IH(1-3,5) nums whole
    by (intro exI [of _ "ps @ qs"] exI [of _ fin]) (auto simp: Let_def)
qed

definition toy_channel :: dc_channel where
  "toy_channel = \<lparr>ch_wire = (\<lambda>_. Some 1), ch_up = (\<lambda>_. True)\<rparr>"

lemma toy_all_sent: "all_sent toy_channel (\<lambda>i p. Inr ([], p))"
  by (simp add: all_sent_def toy_channel_def send_stream_message_def MAX_DC_WIRE_BYTES_def)

text \<open>All of an answer is sent, in order: over a working channel the provider sends numbered chunks
  whose pieces, in order, make up the answer, each a non-empty valid UTF-8 string of at most 1024
  bytes, with \<open>done\<close> on none but possibly the last. The answer here is what \<open>String::from_utf8\<close> accepts
  of the network's chunks: a chunk that ends inside a character is dropped.\<close>

theorem answer_sent_whole:
  assumes "all_sent ch enc" "length (concat bs) < 2 ^ 32"
  shows "\<exists>pieces fin effs. stream_answer ch enc parse req ver bs [] [] 0 = (True, effs)
    \<and> chunks_sent effs = numbered enc req ver fin 0 pieces
    \<and> concat pieces = concat (filter utf8_valid bs) \<and> list_all good_piece pieces"
  using stream_answer_sends [OF assms(1), of "[]" 0 bs parse req ver "[]"] assms(2) by auto

theorem answer_sent_whole_witness:
  "\<exists>pieces fin effs. stream_answer toy_channel (\<lambda>i p. Inr ([], p)) (\<lambda>_. None) ''r'' 1 [''ab'', [CHR 0xC3], [CHR 0xA9]] [] [] 0
      = (True, effs)
    \<and> chunks_sent effs = numbered (\<lambda>i p. Inr ([], p)) ''r'' 1 fin 0 pieces \<and> concat pieces = ''ab'' \<and> list_all good_piece pieces"
proof -
  have "concat (filter utf8_valid [''ab'', [CHR 0xC3], [CHR 0xA9]]) = ''ab''" by (simp add: in_range_def)
  with answer_sent_whole [OF toy_all_sent, of "[''ab'', [CHR 0xC3], [CHR 0xA9]]" "\<lambda>_. None" "''r''" 1]
  show ?thesis by simp
qed

text \<open>A requester that never gets a chunk marked \<open>done\<close> never finishes.\<close>

definition none_done :: "pending_stream \<Rightarrow> bool" where
  "none_done ctx = (\<forall>k c. hm_get (ps_reorder ctx) k = Some c \<longrightarrow> \<not> sc_done c)"

lemma drain_not_done:
  "none_done ctx \<Longrightarrow> \<not> is_finished (snd (drain_stream dec ctx acc))
     \<and> pred_option none_done (fst (drain_stream dec ctx acc))"
proof (induction dec ctx acc rule: drain_stream.induct)
  case (1 dec ctx acc)
  show ?case
  proof (cases "hm_get (ps_reorder ctx) (ps_next_seq ctx)")
    case None
    then show ?thesis using 1(2) by (simp add: drain_stream.simps [of dec ctx])
  next
    case (Some c)
    let ?c = "ctx\<lparr>ps_reorder := hm_remove (ps_next_seq ctx) (ps_reorder ctx)\<rparr>"
    have nd: "none_done ?c" "\<not> sc_done c" "none_done (?c\<lparr>ps_next_seq := k\<rparr>)" for k
      using 1(2) Some by (auto simp: none_done_def)
    show ?thesis
    proof (cases "dec ?c c")
      case (Inr part)
      from "1.IH" [OF Some refl Inr nd(2) nd(3)] show ?thesis
        by (simp add: drain_stream.simps [of dec ctx] Some Inr nd Let_def)
    qed (simp add: drain_stream.simps [of dec ctx] Some nd Let_def)
  qed
qed

lemma outcomes_not_done:
  "pred_option none_done (hm_get streams r) \<Longrightarrow> list_all (\<lambda>c. \<not> sc_done c) cs \<Longrightarrow>
   \<not> list_ex is_finished (stream_outcomes dec r cs streams)"
proof (induction cs arbitrary: streams)
  case (Cons c cs)
  show ?case
  proof (cases "hm_get streams r")
    case None
    then show ?thesis by (simp del: stream_outcomes.simps add: outcomes_gone list_ex_iff)
  next
    case (Some ctx)
    let ?c = "ctx\<lparr>ps_reorder := hm_insert (sc_seq c) c (ps_reorder ctx)\<rparr>"
    have "none_done ?c" using Cons.prems Some by (auto simp: none_done_def)
    note d = drain_not_done [OF this, of dec "[]"]
    have "pred_option none_done (hm_get (set_stream r (fst (drain_stream dec ?c [])) streams) r)"
      using d Some by (auto simp: set_stream_def split: option.split)
    from Cons.IH [OF this] Cons.prems(2) d Some show ?thesis
      by (simp add: handle_encrypted_stream_chunk_def case_prod_unfold)
  qed
qed simp

fun chunk_of_message :: "dc_message \<Rightarrow> stream_chunk_data" where
  "chunk_of_message (EncStreamChunk _ seq n c _ d) = \<lparr>sc_seq = seq, sc_nonce = n, sc_ciphertext = c, sc_done = d\<rparr>"
| "chunk_of_message _ = \<lparr>sc_seq = 0, sc_nonce = [], sc_ciphertext = [], sc_done = False\<rparr>"

lemma chunk_of_message_done: "\<not> marked_done m \<Longrightarrow> \<not> sc_done (chunk_of_message m)"
  by (cases m) auto

lemma full_block_flush:
  assumes "length b = STREAM_CHUNK_BYTES"
  shows "flush_take b fin = Some STREAM_CHUNK_BYTES" "flush_take [] fin = None"
proof -
  have "is_char_boundary b STREAM_CHUNK_BYTES" using assms by (simp add: is_char_boundary_def)
  then have "back_to_boundary b 0 STREAM_CHUNK_BYTES = STREAM_CHUNK_BYTES"
    using back_to_boundary_ge [where s = b and lo = 0 and e = STREAM_CHUNK_BYTES and j = STREAM_CHUNK_BYTES]
      back_to_boundary_le [where s = b and lo = 0 and e = STREAM_CHUNK_BYTES] by (simp add: STREAM_CHUNK_BYTES_def)
  with assms show "flush_take b fin = Some STREAM_CHUNK_BYTES"
    by (simp add: flush_take_def text_take_def Let_def STREAM_CHUNK_BYTES_def)
qed (simp add: flush_take_def text_take_def STREAM_CHUNK_BYTES_def)

lemma full_blocks_answer:
  assumes ok: "all_sent ch enc"
  shows "list_all (\<lambda>b. utf8_valid b \<and> length b = STREAM_CHUNK_BYTES) bs \<Longrightarrow>
    \<exists>effs. stream_answer ch enc parse req ver bs buffer [] seq = (True, effs)
      \<and> list_all (\<lambda>m. \<not> marked_done m) (chunks_sent effs)"
proof (induction bs arbitrary: buffer seq)
  case Nil
  have "flush_encrypted_response_chunks ch enc req ver True [] seq = (True, [], seq, [])"
    by (simp add: flush_encrypted_response_chunks.simps [of ch enc req ver True "[]"] flush_take_def text_take_def STREAM_CHUNK_BYTES_def)
  then show ?case by simp
next
  case (Cons b bs)
  then have b: "utf8_valid b" "length b = STREAM_CHUNK_BYTES" by simp_all
  have none: "flush_encrypted_response_chunks ch enc req ver False [] s = (True, [], s, [])" for s
    by (simp add: flush_encrypted_response_chunks.simps [of ch enc req ver False "[]"] flush_take_def text_take_def STREAM_CHUNK_BYTES_def)
  obtain m where f: "flush_encrypted_response_chunks ch enc req ver False b seq = (True, [], wrap_add32 seq 1, [m])"
    "\<not> marked_done m"
    using b by (simp add: flush_step [OF ok full_block_flush(1)] none)
  from Cons.IH [of "fst (accumulate_and_parse_usage parse buffer b)" "wrap_add32 seq 1"] Cons.prems b f
  show ?case by (auto simp: Let_def)
qed

text \<open>The end of an answer can be lost. When the model sends nothing, or its text comes in blocks of
  exactly 1024 bytes, nothing is left for the last flush, so no message is marked \<open>done\<close>, and a
  requester that receives every message, in any order and with any decryption, never finishes: its
  stream entry and its caller wait for ever.\<close>

theorem answer_end_lost:
  assumes "all_sent ch enc" "\<forall>b\<in>set bs. utf8_valid b \<and> length b = STREAM_CHUNK_BYTES"
    and "set ms \<subseteq> set (chunks_sent (snd (stream_answer ch enc parse req ver bs [] [] 0)))"
    and "hm_get streams req = Some (init_pending_encrypted_stream st)"
  shows "fst (stream_answer ch enc parse req ver bs [] [] 0)
    \<and> \<not> list_ex is_finished (stream_outcomes dec req (map chunk_of_message ms) streams)"
proof -
  obtain effs where e: "stream_answer ch enc parse req ver bs [] [] 0 = (True, effs)"
    "list_all (\<lambda>m. \<not> marked_done m) (chunks_sent effs)"
    using full_blocks_answer [OF assms(1), of bs parse req ver "[]" 0] assms(2) by (auto simp: list_all_iff)
  have "list_all (\<lambda>c. \<not> sc_done c) (map chunk_of_message ms)"
    using e assms(3) chunk_of_message_done by (auto simp: list_all_iff)
  with outcomes_not_done [of streams req] assms(4) e(1) show ?thesis
    by (simp add: none_done_def init_pending_encrypted_stream_def)
qed

theorem answer_end_lost_witness:
  "fst (stream_answer toy_channel (\<lambda>i p. Inr ([], p)) (\<lambda>_. None) ''r'' 1 [] [] [] 0)"
  by (rule answer_end_lost [where ms = "[]" and streams = "[(''r'', init_pending_encrypted_stream st)]" and st = st
        and dec = "\<lambda>_ _. Inl ErrUtf8", THEN conjunct1, OF toy_all_sent]) simp_all

section \<open>Dispatch\<close>

fun is_stats_start :: "dispatch_effect \<Rightarrow> bool" where
  "is_stats_start (StatsStart _ _ _) = True" | "is_stats_start _ = False"

fun is_stats_end :: "dispatch_effect \<Rightarrow> bool" where
  "is_stats_end StatsError = True" | "is_stats_end (StatsComplete _ _) = True" | "is_stats_end _ = False"

fun is_forward :: "dispatch_effect \<Rightarrow> bool" where
  "is_forward (ForwardChat _ _ _) = True" | "is_forward _ = False"

lemma stream_answer_plain:
  "list_all (\<lambda>e. \<not> is_stats_start e \<and> \<not> is_stats_end e \<and> \<not> is_forward e)
     (snd (stream_answer ch enc parse req ver bs buffer pending seq))"
proof (induction bs arbitrary: buffer pending seq)
  case (Cons b bs)
  then show ?case
    by (auto simp: Let_def list_all_iff split: prod.splits bool.splits) (metis snd_conv)+
qed (auto simp: list_all_iff split: prod.splits)

definition admitted ::
  "provider_env \<Rightarrow> string \<Rightarrow> string \<Rightarrow> string \<Rightarrow> (string, string) hmap option \<Rightarrow> bool" where
  "admitted env consumer cluster_id model approved =
     (consumer \<notin> pe_blocked env
      \<and> (case find_cluster (pe_config env) cluster_id of None \<Rightarrow> True | Some c \<Rightarrow> cluster_accepts_jobs c)
      \<and> (case Option.bind approved (\<lambda>m. hm_get m consumer) of None \<Rightarrow> True | Some expected \<Rightarrow> expected = model))"

lemma admission_None:
  "fst (admission env consumer cluster_id model approved) = None \<longleftrightarrow> admitted env consumer cluster_id model approved"
  by (auto simp: admission_def admitted_def split: option.splits if_splits)

lemma admission_consumes:
  "fst (admission env consumer cluster_id model approved) = None \<Longrightarrow>
   snd (admission env consumer cluster_id model approved) = map_option (hm_remove consumer) approved"
  by (auto simp: admission_def hm_remove_absent split: option.splits if_splits)

lemma stream_answer_counts:
  assumes "stream_answer ch enc parse req ver bs buffer pending seq = (ok, effs)"
  shows "filter is_stats_start effs = []" "filter is_stats_end effs = []" "filter is_forward effs = []"
  using stream_answer_plain [of ch enc parse req ver bs buffer pending seq] assms
  by (simp_all add: filter_empty_conv list_all_iff)

text \<open>C8: What has to hold before the model is asked. A decrypted request is forwarded exactly when its
  proof, if it has one, passes, no sidecar is in use, the peer is not blocked, the cluster accepts
  jobs, the model is the one approved for the connection if one was, and the acknowledgement could be
  sent; then it is forwarded once, to the same path, with the defaults filled in, and the approval is
  used up. Statistics opened for a request are always closed, once.\<close>

theorem dispatch_guards:
  assumes "dispatch_body P parse print ch enc env now req_id path room_id cluster_id consumer ver auth body approved
    = (effs, approved')"
  shows "filter is_forward effs =
      (if verify_encrypted_request_auth_async P now (pe_config env) auth room_id = None \<and> \<not> pe_sidecar env
          \<and> admitted env consumer cluster_id (body_model body) approved
          \<and> send_stream_message ch (EncResponse req_id [] [] ver None (Some True))
       then [ForwardChat path (prepare_body env body) (body_model body)] else [])
    \<and> (filter is_forward effs = [] \<or> approved' = map_option (hm_remove consumer) approved)
    \<and> length (filter is_stats_start effs) = length (filter is_stats_end effs)
    \<and> length (filter is_stats_start effs) \<le> 1"
proof -
  let ?adm = "admission env consumer cluster_id (body_model body) approved"
  note a = admission_None [of env consumer cluster_id "body_model body" approved]
    admission_consumes [of env consumer cluster_id "body_model body" approved]
  show ?thesis
  proof (cases "verify_encrypted_request_auth_async P now (pe_config env) auth room_id = None \<and> \<not> pe_sidecar env")
    case False
    with assms show ?thesis by (auto simp: dispatch_body_def split: option.splits)
  next
    case True
    obtain r ap where adm: "?adm = (r, ap)" by (cases ?adm)
    show ?thesis
    proof (cases r)
      case (Some e)
      with True assms a adm show ?thesis by (auto simp: dispatch_body_def Let_def)
    next
      case None
      show ?thesis
      proof (cases "pe_answer env path (prepare_body env body) (body_model body)")
        case (Inl e)
        with None True assms a adm show ?thesis by (auto simp: dispatch_body_def Let_def split: if_splits)
      next
        case (Inr chunks)
        obtain ok sent where s: "stream_answer ch enc parse req_id ver chunks [] [] 0 = (ok, sent)"
          by (cases "stream_answer ch enc parse req_id ver chunks [] [] 0")
        from Inr None True assms a adm stream_answer_counts [OF s] s show ?thesis
          by (cases ok) (auto simp: dispatch_body_def Let_def split: if_splits)
      qed
    qed
  qed
qed

theorem dispatch_guards_witness:
  "\<exists>m. filter is_forward (fst (dispatch_body toy_primitives (\<lambda>_. None) (\<lambda>_. None) toy_channel (\<lambda>i p. Inr ([], p))
      \<lparr>pe_config = default_client_config, pe_sidecar = False, pe_blocked = {''evil''}, pe_answer = (\<lambda>_ _ _. Inr []),
        pe_environment = (\<lambda>_. None)\<rparr> 0 ''r'' ''/api/chat'' ''c'' ''c'' ''peer'' 1 None (JObj [])
      (Some [(''peer'', ''unknown'')]))) = [ForwardChat ''/api/chat'' m ''unknown'']"
proof -
  let ?env = "\<lparr>pe_config = default_client_config, pe_sidecar = False, pe_blocked = {''evil''}, pe_answer = (\<lambda>_ _ _. Inr []),
        pe_environment = (\<lambda>_. None)\<rparr>"
  let ?enc = "\<lambda>i p. Inr ([], p)"
  let ?d = "dispatch_body toy_primitives (\<lambda>_. None) (\<lambda>_. None) toy_channel ?enc ?env 0 ''r'' ''/api/chat'' ''c'' ''c'' ''peer'' 1 None (JObj [])
      (Some [(''peer'', ''unknown'')])"
  obtain effs ap where d: "?d = (effs, ap)" by (cases ?d)
  have "body_model (JObj []) = ''unknown''" "find_cluster default_client_config ''c'' = None"
    by (simp_all add: body_model_def default_client_config_def find_cluster_def get_str_def)
  with dispatch_guards [OF d] have "\<exists>m. filter is_forward effs = [ForwardChat ''/api/chat'' m ''unknown'']"
    by (auto simp: verify_encrypted_request_auth_async_def admitted_def toy_channel_def send_stream_message_def
        MAX_DC_WIRE_BYTES_def)
  then show ?thesis by (simp only: d fst_conv)
qed

lemma fresh_proof_verifies:
  "t \<le> now + 300 \<Longrightarrow> now \<le> t + 300 \<Longrightarrow> verify_proxy_auth P now (build_proxy_auth P t secret p) secret p"
  by (auto simp: verify_proxy_auth_def build_proxy_auth_def constant_time_eq_iff abs_diff_def PROXY_AUTH_MAX_SKEW_SECS_def)

text \<open>The check of a proof does not bind it to the connection: it compares the peer named in the proof
  with itself. A fresh proof made by any member, of any name, is treated like no proof at all, which is
  accepted too; and for a room the provider knows no secret of, every proof is.\<close>

theorem proof_not_bound_to_peer:
  assumes "room_secret_for_proxy P (pe_config env) room_id = Some secret" "t \<le> now + 300" "now \<le> t + 300"
    and "room_secret_for_proxy P (pe_config env) unknown = None"
  shows "dispatch_body P parse print ch enc env now req_id path room_id cluster_id consumer ver
        (Some (build_proxy_auth P t secret anybody)) body approved
      = dispatch_body P parse print ch enc env now req_id path room_id cluster_id consumer ver None body approved
    \<and> dispatch_body P parse print ch enc env now req_id path unknown cluster_id consumer ver auth body approved
      = dispatch_body P parse print ch enc env now req_id path unknown cluster_id consumer ver None body approved"
proof -
  have "pap_peer_id (build_proxy_auth P t secret anybody) = anybody" by (simp add: build_proxy_auth_def)
  with fresh_proof_verifies [OF assms(2,3)] assms(1,4) show ?thesis
    by (simp add: dispatch_body_def verify_encrypted_request_auth_async_def split: option.split)
qed

theorem proof_not_bound_to_peer_witness:
  "dispatch_body toy_primitives (\<lambda>_. None) (\<lambda>_. None) toy_channel (\<lambda>i p. Inr ([], p))
      \<lparr>pe_config = member_of ''c'' (Some ''pw''), pe_sidecar = False, pe_blocked = {}, pe_answer = (\<lambda>_ _ _. Inr []),
        pe_environment = (\<lambda>_. None)\<rparr> 100 ''r'' ''/p'' ''c'' ''c'' ''mallory'' 1
      (Some (build_proxy_auth toy_primitives 90 (cluster_effective_room_secret ''c'' (Some ''pw'')) ''alice'')) (JObj []) None
    = dispatch_body toy_primitives (\<lambda>_. None) (\<lambda>_. None) toy_channel (\<lambda>i p. Inr ([], p))
      \<lparr>pe_config = member_of ''c'' (Some ''pw''), pe_sidecar = False, pe_blocked = {}, pe_answer = (\<lambda>_ _ _. Inr []),
        pe_environment = (\<lambda>_. None)\<rparr> 100 ''r'' ''/p'' ''c'' ''c'' ''mallory'' 1 None (JObj []) None"
proof -
  let ?env = "\<lparr>pe_config = member_of ''c'' (Some ''pw''), pe_sidecar = False, pe_blocked = {}, pe_answer = (\<lambda>_ _ _. Inr []),
        pe_environment = (\<lambda>_. None)\<rparr>"
  have "room_secret_for_proxy toy_primitives (pe_config ?env) ''c'' = Some (cluster_effective_room_secret ''c'' (Some ''pw''))"
    using member_secret by simp
  moreover have "room_secret_for_proxy toy_primitives (pe_config ?env) ''elsewhere'' = None"
    by (simp add: room_secret_for_proxy_def member_of_def default_client_config_def e2ee_room_id_for_swarm_token_def)
  ultimately show ?thesis
    by (intro proof_not_bound_to_peer [where unknown = "''elsewhere''", THEN conjunct1]) simp_all
qed

end
