(* ===== verification/Model_Catalog.thy ===== *)
theory Model_Catalog
  imports Client_Config Json_Value Peer_Types
begin

text \<open>
  What a peer knows of its models: the runtime status Ollama reports (\<open>ollama_client.rs\<close>), the model
  lists of OpenAI-compatible and custom servers (\<open>llm_backend/\<close>), merging the lists of several servers
  and choosing what is advertised (\<open>llm_registry.rs\<close>). HTTP answers are arguments.
\<close>

section \<open>Percentages in \<open>f64\<close>\<close>

text \<open>
  \<open>(a as f64 / b as f64) * 100.0\<close> rounds four times, to the nearest number of 53 significant bits,
  ties to even. \<open>f64_round p q\<close> is the rounding of \<open>p / q > 0\<close> as a fraction; the exponents that occur
  here are far from overflow and underflow.
\<close>

fun bit_count :: "nat \<Rightarrow> nat" where
  "bit_count n = (if n = 0 then 0 else Suc (bit_count (n div 2)))"

declare bit_count.simps [simp del]

definition round_half_even :: "nat \<Rightarrow> nat \<Rightarrow> nat" where
  "round_half_even p q =
     (let d = p div q; r = p mod q in if 2 * r < q \<or> 2 * r = q \<and> even d then d else Suc d)"

definition f64_round :: "nat \<Rightarrow> nat \<Rightarrow> nat \<times> nat" where
  "f64_round p q =
     (let bp = bit_count p; bq = bit_count q; num = p * 2 ^ (53 + bq); den = q * 2 ^ bp
      in if num < den * 2 ^ 53
         then (round_half_even num den * 2 ^ bp, 2 ^ (53 + bq))
         else (round_half_even num (2 * den) * 2 ^ bp, 2 ^ (52 + bq)))"

definition f64_percent :: "nat \<Rightarrow> nat \<Rightarrow> nat" where
  "f64_percent a b =
     (if a = 0 then 0
      else case (f64_round a 1, f64_round b 1) of ((an, ad), (bn, bd)) \<Rightarrow>
        (case f64_round (an * bd) (ad * bn) of (cn, cd) \<Rightarrow>
           (case f64_round (100 * cn) cd of (n, d) \<Rightarrow> n div d)))"

section \<open>Runtime status\<close>

record model_runtime_status =
  mrs_loaded :: bool
  mrs_processor :: string
  mrs_cpu_pct :: nat
  mrs_gpu_pct :: nat
  mrs_size :: "nat option"
  mrs_size_vram :: "nat option"
  mrs_expires_at :: "string option"

definition compute_processor_status :: "nat \<Rightarrow> nat option \<Rightarrow> string \<times> nat \<times> nat" where
  "compute_processor_status sz size_vram =
     (let vram = unwrap_or size_vram 0
      in if sz = 0 then (''cpu'', 100, 0)
         else if vram = 0 then (''cpu'', 100, 0)
         else if vram \<ge> sz then (''gpu'', 0, 100)
         else (let gpu_pct = min u8_max (f64_percent vram sz)
               in (''mixed'', sat_sub 100 gpu_pct, gpu_pct)))"

text \<open>\<open>model[_status][loaded]\<close> read as a bool, false when anything is missing.\<close>

definition status_loaded :: "json \<Rightarrow> bool" where
  "status_loaded model = unwrap_or (Option.bind (jget ''_status'' model) (get_bool ''loaded'')) False"

definition model_is_fully_gpu_loaded :: "json \<Rightarrow> bool" where
  "model_is_fully_gpu_loaded model =
     (case jget ''_status'' model of
        None \<Rightarrow> False
      | Some status \<Rightarrow>
          if \<not> unwrap_or (get_bool ''loaded'' status) False then False
          else if get_str ''processor'' status = Some ''gpu'' then True
          else get_u64 ''gpu_pct'' status = Some 100)"

definition model_is_advertisable_for_network :: "json \<Rightarrow> bool" where
  "model_is_advertisable_for_network model =
     (let name_ok = unwrap_or (map_option (\<lambda>n. trim n \<noteq> []) (get_str ''name'' model)) False
      in if \<not> name_ok then False else status_loaded model)"

definition unloaded_status :: model_runtime_status where
  "unloaded_status =
     \<lparr>mrs_loaded = False, mrs_processor = ''cpu'', mrs_cpu_pct = 0, mrs_gpu_pct = 0, mrs_size = None,
      mrs_size_vram = None, mrs_expires_at = None\<rparr>"

definition runtime_status_from_ps :: "json \<Rightarrow> model_runtime_status" where
  "runtime_status_from_ps ps =
     (let sz = unwrap_or (get_u64 ''size'' ps) 0; size_vram = get_u64 ''size_vram'' ps
      in case compute_processor_status sz size_vram of
           (processor, cpu_pct, gpu_pct) \<Rightarrow>
             \<lparr>mrs_loaded = True, mrs_processor = processor, mrs_cpu_pct = cpu_pct, mrs_gpu_pct = gpu_pct,
              mrs_size = Some sz, mrs_size_vram = size_vram, mrs_expires_at = get_str ''expires_at'' ps\<rparr>)"

definition optional_field :: "string \<Rightarrow> ('a \<Rightarrow> json) \<Rightarrow> 'a option \<Rightarrow> (string \<times> json) list" where
  "optional_field k f v = (case v of None \<Rightarrow> [] | Some x \<Rightarrow> [(k, f x)])"

text \<open>\<open>serde_json::to_value(status)\<close>: absent options are skipped.\<close>

definition status_to_value :: "model_runtime_status \<Rightarrow> json" where
  "status_to_value s =
     json_obj ([(''loaded'', JBool (mrs_loaded s)), (''processor'', JStr (mrs_processor s)),
                (''cpu_pct'', json_nat (mrs_cpu_pct s)), (''gpu_pct'', json_nat (mrs_gpu_pct s))]
       @ optional_field ''size'' json_nat (mrs_size s)
       @ optional_field ''size_vram'' json_nat (mrs_size_vram s)
       @ optional_field ''expires_at'' JStr (mrs_expires_at s))"

definition with_status ::
  "(string, json) hmap \<Rightarrow> (string, json) hmap \<Rightarrow> json \<Rightarrow> json option" where
  "with_status running show_cache m =
     (case get_str ''name'' m of
        None \<Rightarrow> None
      | Some name \<Rightarrow>
          (let status = (case hm_get running name of Some ps \<Rightarrow> runtime_status_from_ps ps | None \<Rightarrow> unloaded_status)
           in Some (case m of
                JObj obj \<Rightarrow>
                  (let obj = jmap_insert ''_status'' (status_to_value status) obj
                   in JObj (case hm_get show_cache name of
                              Some show_info \<Rightarrow> jmap_insert ''_show_info'' show_info obj | None \<Rightarrow> obj))
              | _ \<Rightarrow> m)))"

definition merge_model_status ::
  "json list \<Rightarrow> (string, json) hmap \<Rightarrow> (string, json) hmap \<Rightarrow> json list" where
  "merge_model_status installed running show_cache = List.map_filter (with_status running show_cache) installed"

section \<open>Answers of an Ollama server\<close>

definition installed_models :: "json \<Rightarrow> json list" where
  "installed_models answer = unwrap_or (Option.bind (jget ''models'' answer) as_array) []"

definition running_entry :: "(string, json) hmap \<Rightarrow> json \<Rightarrow> (string, json) hmap" where
  "running_entry running m =
     (let name = unwrap_or (Option.bind (opt_or (jget ''name'' m) (jget ''model'' m)) as_str) []
      in if name \<noteq> [] then hm_insert name m running else running)"

definition running_models :: "json \<Rightarrow> (string, json) hmap" where
  "running_models answer =
     foldl running_entry hm_empty (unwrap_or (Option.bind (jget ''models'' answer) as_array) [])"

definition capabilities :: "json \<Rightarrow> json list option" where
  "capabilities info = Option.bind (jget ''capabilities'' info) as_array"

definition model_has_capability :: "json \<Rightarrow> string \<Rightarrow> bool" where
  "model_has_capability info cap =
     unwrap_or (map_option (\<lambda>arr. cap \<in> set (List.map_filter as_str arr)) (capabilities info)) False"

definition supports_generate :: "json option \<Rightarrow> bool" where
  "supports_generate info =
     (case info of
        None \<Rightarrow> True
      | Some s \<Rightarrow>
          (case capabilities s of
             None \<Rightarrow> True
           | Some arr \<Rightarrow> if arr = [] then True else ''completion'' \<in> set (List.map_filter as_str arr)))"

definition supports_embed :: "json option \<Rightarrow> bool" where
  "supports_embed info = unwrap_or (map_option (\<lambda>s. model_has_capability s ''embedding'') info) False"

definition is_embed_only :: "json option \<Rightarrow> bool" where
  "is_embed_only info = (supports_embed info \<and> \<not> supports_generate info)"

text \<open>The request that loads or unloads a model: its path and body, or the refusal.\<close>

datatype load_request = EmbedRequest json | GenerateRequest json | LoadRefused

definition embed_body :: "string \<Rightarrow> json \<Rightarrow> json" where
  "embed_body model keep_alive =
     json_obj [(''model'', JStr model), (''input'', JStr ''.''), (''keep_alive'', keep_alive)]"

definition generate_body :: "string \<Rightarrow> json \<Rightarrow> json" where
  "generate_body model keep_alive =
     json_obj [(''model'', JStr model), (''prompt'', JStr ''.''), (''stream'', JBool False),
       (''keep_alive'', keep_alive)]"

definition load_model :: "string \<Rightarrow> json option \<Rightarrow> load_request" where
  "load_model model info =
     (if is_embed_only info then EmbedRequest (embed_body model (JStr ''30m''))
      else if \<not> supports_generate info then LoadRefused
      else GenerateRequest (generate_body model (JStr ''30m'')))"

definition unload_model :: "string \<Rightarrow> json option \<Rightarrow> load_request" where
  "unload_model model info =
     (if is_embed_only info \<or> (supports_embed info \<and> \<not> supports_generate info)
      then EmbedRequest (embed_body model (json_nat 0))
      else if \<not> supports_generate info then LoadRefused
      else GenerateRequest (generate_body model (json_nat 0)))"

text \<open>\<open>tags\<close> and \<open>ps\<close> are the two answers (\<open>None\<close> when the request failed, read as empty), \<open>fetch\<close> is
  \<open>fetch_show_info\<close>, asked once for every model not in the cache.\<close>

record model_catalog_snapshot =
  mcs_models :: "json list"
  mcs_model_names :: "string list"
  mcs_gpu_host :: "gpu_host_status option"

definition fill_show_cache ::
  "(string \<Rightarrow> json option) \<Rightarrow> (string, json) hmap \<Rightarrow> json \<Rightarrow> (string, json) hmap" where
  "fill_show_cache fetch cache m =
     (case get_str ''name'' m of
        None \<Rightarrow> cache
      | Some name \<Rightarrow>
          if hm_contains cache name then cache
          else (case fetch name of Some info \<Rightarrow> hm_insert name info cache | None \<Rightarrow> cache))"

definition build_model_catalog ::
  "json option \<Rightarrow> json option \<Rightarrow> (string \<Rightarrow> json option) \<Rightarrow> gpu_host_status option \<Rightarrow> (string, json) hmap
     \<Rightarrow> model_catalog_snapshot \<times> (string, json) hmap" where
  "build_model_catalog tags ps fetch gpu show_cache =
     (let installed = unwrap_or (map_option installed_models tags) [];
          running = unwrap_or (map_option running_models ps) hm_empty;
          show_cache = foldl (fill_show_cache fetch) show_cache installed;
          models = merge_model_status installed running show_cache
      in (\<lparr>mcs_models = models, mcs_model_names = List.map_filter (get_str ''name'') models,
           mcs_gpu_host = gpu\<rparr>, show_cache))"

section \<open>Other servers\<close>

definition openai_status :: json where
  "openai_status = json_obj [(''loaded'', JBool False), (''processor'', JStr ''unknown''),
     (''cpu_pct'', json_nat 0), (''gpu_pct'', json_nat 0)]"

definition openai_model :: "json \<Rightarrow> (string \<times> json) option" where
  "openai_model entry =
     (let id = unwrap_or (get_str ''id'' entry) []
      in if id = [] then None
         else Some (id, json_obj [(''name'', JStr id), (''model'', JStr id),
                (''_status'', unwrap_or (jget ''_status'' entry) openai_status)]))"

definition openai_list_models :: "json \<Rightarrow> gpu_host_status option \<Rightarrow> model_catalog_snapshot" where
  "openai_list_models answer gpu =
     (let ms = List.map_filter openai_model (unwrap_or (Option.bind (jget ''data'' answer) as_array) [])
      in \<lparr>mcs_models = map snd ms, mcs_model_names = map fst ms, mcs_gpu_host = gpu\<rparr>)"

definition custom_model :: "custom_model_entry \<Rightarrow> (string \<times> json) option" where
  "custom_model entry =
     (let id = trim (cme_id entry)
      in if id = [] then None
         else (let status = json_obj ([(''loaded'', JBool True), (''processor'', JStr ''remote'')]
                      @ optional_field ''tool_calling'' JBool (cme_tool_calling entry)
                      @ optional_field ''vision'' JBool (cme_vision entry)
                      @ optional_field ''max_input_tokens'' json_nat (cme_max_input_tokens entry)
                      @ optional_field ''max_output_tokens'' json_nat (cme_max_output_tokens entry))
               in Some (id, json_obj [(''name'', JStr id), (''model'', JStr id),
                    (''details'', json_obj [(''display_name'', JStr (display_name entry))]),
                    (''_status'', status)])))"

definition custom_list_models :: "custom_model_entry list \<Rightarrow> gpu_host_status option \<Rightarrow> model_catalog_snapshot" where
  "custom_list_models entries gpu =
     (let ms = List.map_filter custom_model entries
      in \<lparr>mcs_models = map snd ms, mcs_model_names = map fst ms, mcs_gpu_host = gpu\<rparr>)"

end
