(* ===== verification/Llm_Registry.thy ===== *)
theory Llm_Registry
  imports Model_Catalog
begin

text \<open>
  The registry of attached model servers (\<open>llm_registry.rs\<close>) and the back ends it builds
  (\<open>llm_backend/mod.rs\<close>, \<open>llm_backend/custom.rs\<close>). The registry behind its lock is explicit state; what a
  server answers is a record of arguments, the same throughout one operation.
\<close>

section \<open>Back ends\<close>

datatype llm_backend_kind = KindOllama | KindOpenAiCompat | KindLocalAi | KindCustom

datatype llm_backend =
    OllamaBackend string "string option"
  | OpenAiCompatBackend string string "string option"
  | CustomEndpointBackend string "string option" "custom_model_entry list" string

definition parse_kind :: "string \<Rightarrow> llm_backend_kind" where
  "parse_kind s =
     (if is_custom_server_kind s then KindCustom
      else (let l = to_ascii_lowercase s
            in if l = ''ollama'' then KindOllama
               else if l = ''localai'' then KindLocalAi
               else if l \<in> set [''openai'', ''vllm'', ''llamacpp'', ''llama.cpp'', ''inference-cell'', ''inference_cell'',
                      ''lmstudio'', ''lm-studio'', ''tgi'', ''tensorrt'', ''tensorrt-llm'']
               then KindOpenAiCompat
               else KindOllama))"

definition from_server_entry :: "llm_server_entry \<Rightarrow> string option \<Rightarrow> llm_backend" where
  "from_server_entry entry api_key =
     (let url = trim_end_matches (CHR ''/'') (se_url entry)
      in case parse_kind (se_kind entry) of
           KindOllama \<Rightarrow> OllamaBackend url api_key
         | KindOpenAiCompat \<Rightarrow> OpenAiCompatBackend url (se_kind entry) api_key
         | KindLocalAi \<Rightarrow> OpenAiCompatBackend url (se_kind entry) api_key
         | KindCustom \<Rightarrow> CustomEndpointBackend url api_key (se_models entry)
             (unwrap_or (se_api_type entry) ''chat-completions''))"

text \<open>\<open>info\<close> is the engine of a successful, well-formed answer of the admin route, \<open>tags_ok\<close> and
  \<open>models_ok\<close> whether the two inference routes answer with success.\<close>

definition probe_inference_cell_engine :: "string option \<Rightarrow> bool \<Rightarrow> bool \<Rightarrow> string option" where
  "probe_inference_cell_engine info tags_ok models_ok =
     (case info of
        Some engine \<Rightarrow> Some engine
      | None \<Rightarrow> if tags_ok then Some ''ollama'' else if models_ok then Some ''llamacpp'' else None)"

definition from_server_entry_probed ::
  "(string \<Rightarrow> string option) \<Rightarrow> llm_server_entry \<Rightarrow> string option \<Rightarrow> llm_backend" where
  "from_server_entry_probed engine_of entry api_key =
     (if is_inference_cell_kind (se_kind entry) \<and> engine_of (se_url entry) = Some ''ollama''
      then OllamaBackend (trim_end_matches (CHR ''/'') (se_url entry)) api_key
      else from_server_entry entry api_key)"

fun backend_kind :: "llm_backend \<Rightarrow> llm_backend_kind" where
  "backend_kind (OllamaBackend _ _) = KindOllama"
| "backend_kind (OpenAiCompatBackend _ label _) = (if label = ''localai'' then KindLocalAi else KindOpenAiCompat)"
| "backend_kind (CustomEndpointBackend _ _ _ _) = KindCustom"

fun backend_kind_str :: "llm_backend \<Rightarrow> string" where
  "backend_kind_str (OllamaBackend _ _) = ''ollama''"
| "backend_kind_str (OpenAiCompatBackend _ label _) = label"
| "backend_kind_str (CustomEndpointBackend _ _ _ _) = ''custom''"

fun base_url :: "llm_backend \<Rightarrow> string" where
  "base_url (OllamaBackend u _) = u"
| "base_url (OpenAiCompatBackend u _ _) = u"
| "base_url (CustomEndpointBackend u _ _ _) = u"

fun supports_ollama_native :: "llm_backend \<Rightarrow> bool" where
  "supports_ollama_native (OllamaBackend _ _) = True"
| "supports_ollama_native (OpenAiCompatBackend _ _ _) = False"
| "supports_ollama_native (CustomEndpointBackend _ _ _ _) = False"

definition is_http_url :: "string \<Rightarrow> bool" where
  "is_http_url u = (strip_prefix_str ''http://'' u \<noteq> None \<or> strip_prefix_str ''https://'' u \<noteq> None)"

definition custom_chat_path :: "string \<Rightarrow> custom_model_entry list \<Rightarrow> string \<Rightarrow> string" where
  "custom_chat_path url models model =
     (let base = trim_end_matches (CHR ''/'') url
      in case opt_filter (\<lambda>u. u \<noteq> []) (Option.bind (find (\<lambda>m. cme_id m = model) models) cme_url) of
           Some u \<Rightarrow>
             (if is_http_url u then u
              else if strip_prefix_str ''/'' u \<noteq> None then base @ u
              else base @ ''/'' @ u)
         | None \<Rightarrow> base @ ''/v1/chat/completions'')"

fun chat_path_for_model :: "llm_backend \<Rightarrow> string \<Rightarrow> string" where
  "chat_path_for_model (CustomEndpointBackend url _ models _) model = custom_chat_path url models model"
| "chat_path_for_model (OllamaBackend url _) model = url @ ''/v1/chat/completions''"
| "chat_path_for_model (OpenAiCompatBackend url _ _) model = url @ ''/v1/chat/completions''"

fun is_full_url_path :: "llm_backend \<Rightarrow> string \<Rightarrow> bool" where
  "is_full_url_path (CustomEndpointBackend _ _ models _) model =
     unwrap_or (map_option is_http_url (Option.bind (find (\<lambda>m. cme_id m = model) models) cme_url)) False"
| "is_full_url_path (OllamaBackend _ _) model = False"
| "is_full_url_path (OpenAiCompatBackend _ _ _) model = False"

section \<open>Merging the servers' catalogues\<close>

record model_collision =
  mc_name :: string
  mc_skipped_server :: string

record merged_catalog =
  cat_models :: "json list"
  cat_model_names :: "string list"
  cat_gpu_host :: "gpu_host_status option"
  cat_collisions :: "model_collision list"

text \<open>One model of a server: skipped without a name, reported when an earlier server has the name, else
  stamped with its server. \<open>seen_names\<close> is the set of \<open>cat_model_names\<close>.\<close>

definition stamp_source :: "llm_server_entry \<Rightarrow> json \<Rightarrow> json" where
  "stamp_source entry model =
     (case model of
        JObj obj \<Rightarrow>
          JObj (jmap_insert ''_source_url'' (JStr (se_url entry))
            (jmap_insert ''_source_kind'' (JStr (se_kind entry))
              (jmap_insert ''_source_server'' (JStr (se_id entry)) obj)))
      | _ \<Rightarrow> model)"

definition merge_model :: "llm_server_entry \<Rightarrow> json \<Rightarrow> merged_catalog \<Rightarrow> merged_catalog" where
  "merge_model entry model cat =
     (let name = unwrap_or (get_str ''name'' model) []
      in if name = [] then cat
         else if name \<in> set (cat_model_names cat)
         then cat\<lparr>cat_collisions := cat_collisions cat @
                [\<lparr>mc_name = name, mc_skipped_server =
                    unwrap_or (se_label entry) (se_kind entry @ '' @ '' @ se_url entry)\<rparr>]\<rparr>
         else cat\<lparr>cat_model_names := cat_model_names cat @ [name],
                  cat_models := cat_models cat @ [stamp_source entry model]\<rparr>)"

definition merge_snapshot ::
  "llm_server_entry \<times> model_catalog_snapshot \<Rightarrow> merged_catalog \<Rightarrow> merged_catalog" where
  "merge_snapshot p cat =
     (case p of (entry, snapshot) \<Rightarrow>
        fold (merge_model entry) (mcs_models snapshot)
          (cat\<lparr>cat_gpu_host := (if cat_gpu_host cat = None then mcs_gpu_host snapshot else cat_gpu_host cat)\<rparr>))"

definition empty_catalog :: merged_catalog where
  "empty_catalog = \<lparr>cat_models = [], cat_model_names = [], cat_gpu_host = None, cat_collisions = []\<rparr>"

definition merge_catalog_snapshots :: "(llm_server_entry \<times> model_catalog_snapshot) list \<Rightarrow> merged_catalog" where
  "merge_catalog_snapshots ordered = fold merge_snapshot ordered empty_catalog"

definition advertised :: "client_config \<Rightarrow> json \<Rightarrow> bool" where
  "advertised config m =
     (let local_only = map se_id (filter (\<lambda>s. \<not> se_advertise_to_cluster s) (cfg_llm_servers config));
          name = unwrap_or (get_str ''name'' m) []
      in if name \<noteq> [] \<and> name \<in> set (cfg_hidden_models config) then False
         else unwrap_or (map_option (\<lambda>i. i \<notin> set local_only) (get_str ''_source_server'' m)) True
              \<and> model_is_advertisable_for_network m)"

definition filter_models_for_cluster_advertisement ::
  "merged_catalog \<Rightarrow> client_config \<Rightarrow> json list \<times> string list" where
  "filter_models_for_cluster_advertisement snapshot config =
     (let models = filter (advertised config) (cat_models snapshot)
      in (models, List.map_filter (get_str ''name'') models))"

section \<open>The registry\<close>

record server_runtime =
  rt_entry :: llm_server_entry
  rt_backend :: llm_backend
  rt_show_cache :: "(string, json) hmap"
  rt_engine :: "string option"
  rt_connected :: bool

record llm_registry =
  rg_servers :: "(string, server_runtime) hmap"
  rg_routes :: "(string, string) hmap"
  rg_merged :: "merged_catalog option"

definition registry_new :: llm_registry where
  "registry_new = \<lparr>rg_servers = hm_empty, rg_routes = hm_empty, rg_merged = None\<rparr>"

text \<open>The outside: the key stored for a server (\<open>Inl\<close> when the store fails), the engine an address
  probes to, whether a back end's health check passes, and the list it answers with the cache
  afterwards.\<close>

record server_world =
  sw_api_key :: "string \<Rightarrow> unit + string option"
  sw_engine :: "string \<Rightarrow> string option"
  sw_healthy :: "llm_backend \<Rightarrow> bool"
  sw_list :: "llm_backend \<Rightarrow> (string, json) hmap \<Rightarrow> (model_catalog_snapshot \<times> (string, json) hmap) option"

datatype registry_error = InvalidEntry entry_error | KeyStoreFailed | ServerNotFound | Unhealthy | NoServers | NoneConnected

definition build_backend ::
  "server_world \<Rightarrow> llm_server_entry \<Rightarrow> registry_error + (llm_backend \<times> string option)" where
  "build_backend w entry =
     (case validate_custom_server_entry entry of
        Inl e \<Rightarrow> Inl (InvalidEntry e)
      | Inr _ \<Rightarrow>
          (case sw_api_key w (se_id entry) of
             Inl _ \<Rightarrow> Inl KeyStoreFailed
           | Inr key \<Rightarrow>
               Inr (from_server_entry_probed (sw_engine w) entry key,
                    if is_inference_cell_kind (se_kind entry) then sw_engine w (se_url entry) else None)))"

definition sync_entry ::
  "server_world \<Rightarrow> llm_server_entry \<Rightarrow> llm_registry \<Rightarrow> llm_registry \<times> (registry_error + unit)" where
  "sync_entry w entry reg =
     (if hm_contains (rg_servers reg) (se_id entry)
      then (let reg = reg\<lparr>rg_servers := hm_modify (se_id entry) (\<lambda>r. r\<lparr>rt_entry := entry\<rparr>) (rg_servers reg)\<rparr>
            in case build_backend w entry of
                 Inl e \<Rightarrow> (reg, Inl e)
               | Inr (backend, engine) \<Rightarrow>
                   (reg\<lparr>rg_servers := hm_modify (se_id entry)
                      (\<lambda>r. r\<lparr>rt_backend := backend, rt_engine := engine\<rparr>) (rg_servers reg)\<rparr>, Inr ()))
      else (case build_backend w entry of
              Inl e \<Rightarrow> (reg, Inl e)
            | Inr (backend, engine) \<Rightarrow>
                (reg\<lparr>rg_servers := hm_insert (se_id entry)
                   \<lparr>rt_entry = entry, rt_backend = backend, rt_show_cache = hm_empty, rt_engine = engine,
                    rt_connected = True\<rparr> (rg_servers reg)\<rparr>, Inr ())))"

fun sync_entries ::
  "server_world \<Rightarrow> llm_server_entry list \<Rightarrow> llm_registry \<Rightarrow> llm_registry \<times> (registry_error + unit)" where
  "sync_entries w [] reg = (reg, Inr ())"
| "sync_entries w (e # es) reg =
     (if \<not> se_attached e then sync_entries w es reg
      else (case sync_entry w e reg of
              (reg, Inl err) \<Rightarrow> (reg, Inl err)
            | (reg, Inr _) \<Rightarrow> sync_entries w es reg))"

definition sync_from_config ::
  "server_world \<Rightarrow> client_config \<Rightarrow> llm_registry \<Rightarrow> llm_registry \<times> (registry_error + unit)" where
  "sync_from_config w cfg reg =
     (let attached_ids = map se_id (filter se_attached (cfg_llm_servers cfg))
      in sync_entries w (cfg_llm_servers cfg)
           (reg\<lparr>rg_servers := hm_retain (\<lambda>i _. i \<in> set attached_ids) (rg_servers reg)\<rparr>))"

text \<open>\<open>max().map(|o| o + 1).unwrap_or(0)\<close> over the attached servers.\<close>

definition next_order :: "client_config \<Rightarrow> nat" where
  "next_order cfg =
     (let orders = map se_order (filter se_attached (cfg_llm_servers cfg))
      in if orders = [] then 0 else Max (set orders) + 1)"

definition find_or_add_entry ::
  "string \<Rightarrow> llm_server_entry \<Rightarrow> client_config \<Rightarrow> client_config \<times> string" where
  "find_or_add_entry new_id entry cfg =
     (let kind = normalize_backend_label (se_kind entry);
          url = trim_end_matches (CHR ''/'') (se_url entry)
      in case find (\<lambda>s. se_kind s = kind \<and> se_url s = url) (cfg_llm_servers cfg) of
           Some existing \<Rightarrow> (cfg, se_id existing)
         | None \<Rightarrow>
             (cfg\<lparr>cfg_llm_servers := cfg_llm_servers cfg @
                [\<lparr>se_id = new_id, se_kind = kind, se_url = url, se_label = se_label entry, se_attached = False,
                  se_order = next_order cfg, se_source = se_source entry, se_api_type = se_api_type entry,
                  se_models = se_models entry, se_advertise_to_cluster = True\<rparr>]\<rparr>, new_id))"

definition attach ::
  "server_world \<Rightarrow> string \<Rightarrow> client_config \<Rightarrow> llm_registry
     \<Rightarrow> client_config \<times> llm_registry \<times> (registry_error + unit)" where
  "attach w sid cfg reg =
     (case find (\<lambda>s. se_id s = sid) (cfg_llm_servers cfg) of
        None \<Rightarrow> (cfg, reg, Inl ServerNotFound)
      | Some entry \<Rightarrow>
          (case build_backend w entry of
             Inl e \<Rightarrow> (cfg, reg, Inl e)
           | Inr (backend, engine) \<Rightarrow>
               if \<not> sw_healthy w backend then (cfg, reg, Inl Unhealthy)
               else (let entry' = (if se_attached entry then entry
                                   else entry\<lparr>se_attached := True, se_order := next_order cfg\<rparr>)
                     in (cfg\<lparr>cfg_llm_servers := update_first (\<lambda>s. se_id s = sid) (\<lambda>_. entry') (cfg_llm_servers cfg)\<rparr>,
                         reg\<lparr>rg_servers := hm_insert sid
                           \<lparr>rt_entry = entry', rt_backend = backend, rt_show_cache = hm_empty, rt_engine = engine,
                            rt_connected = True\<rparr> (rg_servers reg)\<rparr>, Inr ()))))"

definition forget_server :: "string \<Rightarrow> llm_registry \<Rightarrow> llm_registry" where
  "forget_server sid reg = reg\<lparr>rg_servers := hm_remove sid (rg_servers reg), rg_merged := None, rg_routes := hm_empty\<rparr>"

definition detach ::
  "string \<Rightarrow> client_config \<Rightarrow> llm_registry \<Rightarrow> client_config \<times> llm_registry \<times> (registry_error + unit)" where
  "detach sid cfg reg =
     (case find (\<lambda>s. se_id s = sid) (cfg_llm_servers cfg) of
        None \<Rightarrow> (cfg, reg, Inl ServerNotFound)
      | Some _ \<Rightarrow>
          (cfg\<lparr>cfg_llm_servers := update_first (\<lambda>s. se_id s = sid) (\<lambda>s. s\<lparr>se_attached := False\<rparr>) (cfg_llm_servers cfg)\<rparr>,
           forget_server sid reg, Inr ()))"

text \<open>The two keys of the server are deleted from the key store as well, whatever comes of it.\<close>

definition remove_server ::
  "string \<Rightarrow> client_config \<Rightarrow> llm_registry \<Rightarrow> client_config \<times> llm_registry \<times> (registry_error + unit)" where
  "remove_server sid cfg reg =
     (cfg\<lparr>cfg_llm_servers := filter (\<lambda>s. se_id s \<noteq> sid) (cfg_llm_servers cfg)\<rparr>, forget_server sid reg, Inr ())"

text \<open>Rebuilding asks the servers in their order; one that fails is marked and skipped.\<close>

fun rebuild_pairs ::
  "server_world \<Rightarrow> string list \<Rightarrow> (string, server_runtime) hmap
     \<Rightarrow> (llm_server_entry \<times> model_catalog_snapshot) list \<times> (string, server_runtime) hmap" where
  "rebuild_pairs w [] servers = ([], servers)"
| "rebuild_pairs w (i # is) servers =
     (case hm_get servers i of
        None \<Rightarrow> rebuild_pairs w is servers
      | Some r \<Rightarrow>
          (case sw_list w (rt_backend r) (rt_show_cache r) of
             None \<Rightarrow> rebuild_pairs w is (hm_modify i (\<lambda>r. r\<lparr>rt_connected := False\<rparr>) servers)
           | Some (snapshot, cache) \<Rightarrow>
               (case rebuild_pairs w is
                       (hm_modify i (\<lambda>r. r\<lparr>rt_show_cache := cache, rt_connected := True\<rparr>) servers) of
                  (pairs, servers) \<Rightarrow> ((rt_entry r, snapshot) # pairs, servers))))"

definition route_of :: "json \<Rightarrow> (string \<times> string) option" where
  "route_of m =
     (case (get_str ''name'' m, get_str ''_source_server'' m) of
        (Some name, Some server) \<Rightarrow> Some (name, server) | _ \<Rightarrow> None)"

definition rebuild_catalog :: "server_world \<Rightarrow> llm_registry \<Rightarrow> llm_registry \<times> merged_catalog" where
  "rebuild_catalog w reg =
     (let ids = map fst (sort_by_key snd
                  (map (\<lambda>r. (se_id (rt_entry r), se_order (rt_entry r))) (hm_values (rg_servers reg))))
      in case rebuild_pairs w ids (rg_servers reg) of
           (pairs, servers) \<Rightarrow>
             (let merged = merge_catalog_snapshots pairs
              in (reg\<lparr>rg_servers := servers,
                     rg_routes := foldl (\<lambda>m (k, v). hm_insert k v m) hm_empty (List.map_filter route_of (cat_models merged)),
                     rg_merged := Some merged\<rparr>, merged)))"

definition resolve_backend :: "llm_registry \<Rightarrow> string \<Rightarrow> llm_backend option" where
  "resolve_backend reg model =
     Option.bind (hm_get (rg_routes reg) model) (\<lambda>i. map_option rt_backend (hm_get (rg_servers reg) i))"

definition backend_for_server :: "llm_registry \<Rightarrow> string \<Rightarrow> llm_backend option" where
  "backend_for_server reg i = map_option rt_backend (hm_get (rg_servers reg) i)"

definition inference_engine_for_server :: "llm_registry \<Rightarrow> string \<Rightarrow> string option" where
  "inference_engine_for_server reg i = Option.bind (hm_get (rg_servers reg) i) rt_engine"

definition ordered_servers :: "llm_registry \<Rightarrow> server_runtime list" where
  "ordered_servers reg = sort_by_key (\<lambda>r. se_order (rt_entry r)) (hm_values (rg_servers reg))"

definition first_attached_backend :: "llm_registry \<Rightarrow> llm_backend option" where
  "first_attached_backend reg = (case ordered_servers reg of [] \<Rightarrow> None | r # _ \<Rightarrow> Some (rt_backend r))"

definition first_ollama_backend :: "llm_registry \<Rightarrow> llm_backend option" where
  "first_ollama_backend reg =
     map_option rt_backend (find (\<lambda>r. supports_ollama_native (rt_backend r)) (ordered_servers reg))"

definition resolve_ollama_backend_for_model :: "llm_registry \<Rightarrow> string \<Rightarrow> llm_backend option" where
  "resolve_ollama_backend_for_model reg model =
     (case resolve_backend reg model of
        Some b \<Rightarrow> if supports_ollama_native b then Some b else first_ollama_backend reg
      | None \<Rightarrow> first_ollama_backend reg)"

definition catalog_source_for :: "string \<Rightarrow> string option \<Rightarrow> bool \<Rightarrow> string" where
  "catalog_source_for kind engine ollama_backend =
     (if \<not> is_inference_cell_kind kind then ''ollama''
      else (case engine of
              Some e \<Rightarrow> if e = ''ollama'' then ''ollama'' else ''huggingface''
            | None \<Rightarrow> if ollama_backend then ''ollama'' else ''huggingface''))"

text \<open>Inference cells whose engine is not known yet are probed again when the servers are listed.\<close>

definition stale_entries :: "client_config \<Rightarrow> llm_registry \<Rightarrow> llm_server_entry list" where
  "stale_entries cfg reg =
     filter (\<lambda>e. se_attached e \<and> is_inference_cell_kind (se_kind e)
       \<and> (case hm_get (rg_servers reg) (se_id e) of Some r \<Rightarrow> rt_engine r = None | None \<Rightarrow> False))
       (cfg_llm_servers cfg)"

fun refresh_entries :: "server_world \<Rightarrow> llm_server_entry list \<Rightarrow> llm_registry \<Rightarrow> llm_registry" where
  "refresh_entries w [] reg = reg"
| "refresh_entries w (e # es) reg =
     (case build_backend w e of
        Inl _ \<Rightarrow> reg
      | Inr (_, None) \<Rightarrow> refresh_entries w es reg
      | Inr (backend, Some engine) \<Rightarrow>
          refresh_entries w es (reg\<lparr>rg_servers := hm_modify (se_id e)
            (\<lambda>r. r\<lparr>rt_backend := backend, rt_engine := Some engine\<rparr>) (rg_servers reg)\<rparr>))"

definition refresh_stale_inference_engines :: "server_world \<Rightarrow> client_config \<Rightarrow> llm_registry \<Rightarrow> llm_registry" where
  "refresh_stale_inference_engines w cfg reg = refresh_entries w (stale_entries cfg reg) reg"

record llm_server_view =
  sv_entry :: llm_server_entry
  sv_connected :: bool
  sv_model_count :: nat
  sv_inference_engine :: "string option"
  sv_catalog_source :: string

definition server_view :: "llm_registry \<Rightarrow> llm_server_entry \<Rightarrow> llm_server_view" where
  "server_view reg e =
     (let runtime = hm_get (rg_servers reg) (se_id e);
          engine = Option.bind runtime rt_engine;
          ollama_backend = unwrap_or (map_option (\<lambda>r. supports_ollama_native (rt_backend r)) runtime) False
      in \<lparr>sv_entry = e,
          sv_connected = (if se_attached e then unwrap_or (map_option rt_connected runtime) False else False),
          sv_model_count =
            (if se_attached e
             then unwrap_or (map_option (\<lambda>m. length (filter
                    (\<lambda>model. get_str ''_source_server'' model = Some (se_id e)) (cat_models m))) (rg_merged reg)) 0
             else length (se_models e)),
          sv_inference_engine = engine,
          sv_catalog_source = catalog_source_for (se_kind e) engine ollama_backend\<rparr>)"

definition server_views :: "server_world \<Rightarrow> client_config \<Rightarrow> llm_registry \<Rightarrow> llm_server_view list \<times> llm_registry" where
  "server_views w cfg reg =
     (let reg = refresh_stale_inference_engines w cfg reg
      in (sort_by_key (\<lambda>v. se_order (sv_entry v)) (map (server_view reg) (cfg_llm_servers cfg)), reg))"

text \<open>Probing every attached server. \<open>newly\<close> lists collect the changes.\<close>

record attached_health_snapshot =
  ah_any_connected :: bool
  ah_connected_count :: nat
  ah_attached_count :: nat
  ah_changed :: bool
  ah_newly_connected :: "string list"
  ah_newly_disconnected :: "string list"

definition probe_runtime :: "server_world \<Rightarrow> server_runtime \<Rightarrow> server_runtime" where
  "probe_runtime w r = r\<lparr>rt_connected := sw_healthy w (rt_backend r)\<rparr>"

definition probe_attached_connectivity ::
  "server_world \<Rightarrow> llm_registry \<Rightarrow> attached_health_snapshot \<times> llm_registry" where
  "probe_attached_connectivity w reg =
     (let servers = rg_servers reg;
          up = filter (\<lambda>(_, r). sw_healthy w (rt_backend r)) servers;
          newly_up = map fst (filter (\<lambda>(_, r). \<not> rt_connected r) up);
          newly_down = map fst (filter (\<lambda>(_, r). \<not> sw_healthy w (rt_backend r) \<and> rt_connected r) servers)
      in (\<lparr>ah_any_connected = (length up > 0), ah_connected_count = length up, ah_attached_count = length servers,
           ah_changed = (newly_up \<noteq> [] \<or> newly_down \<noteq> []), ah_newly_connected = newly_up,
           ah_newly_disconnected = newly_down\<rparr>,
          reg\<lparr>rg_servers := map (\<lambda>(i, r). (i, probe_runtime w r)) servers\<rparr>))"

definition health_check_attached :: "server_world \<Rightarrow> llm_registry \<Rightarrow> (registry_error + unit) \<times> llm_registry" where
  "health_check_attached w reg =
     (case probe_attached_connectivity w reg of
        (snapshot, reg) \<Rightarrow>
          (if ah_attached_count snapshot = 0 then Inl NoServers
           else if \<not> ah_any_connected snapshot then Inl NoneConnected else Inr (), reg))"

definition connected_count :: "llm_registry \<Rightarrow> nat" where
  "connected_count reg = length (filter rt_connected (hm_values (rg_servers reg)))"

definition v1_model :: "json \<Rightarrow> json option" where
  "v1_model m =
     (case get_str ''name'' m of
        None \<Rightarrow> None
      | Some i \<Rightarrow>
          Some (json_obj ([(''id'', JStr i), (''object'', JStr ''model''), (''created'', json_nat 0),
              (''owned_by'', unwrap_or (jget ''_source_kind'' m) (JStr ''local''))]
            @ optional_field ''_status'' (\<lambda>v. v) (jget ''_status'' m)
            @ optional_field ''_source_kind'' (\<lambda>v. v) (jget ''_source_kind'' m)
            @ optional_field ''_source_url'' (\<lambda>v. v) (jget ''_source_url'' m))))"

definition synthesize_merged_tags :: "llm_registry \<Rightarrow> json option" where
  "synthesize_merged_tags reg = map_option (\<lambda>c. json_obj [(''models'', JArr (cat_models c))]) (rg_merged reg)"

definition synthesize_merged_v1_models :: "llm_registry \<Rightarrow> json option" where
  "synthesize_merged_v1_models reg =
     map_option (\<lambda>c. json_obj [(''object'', JStr ''list''), (''data'', JArr (List.map_filter v1_model (cat_models c)))])
       (rg_merged reg)"

end
