(* ===== verification/Registry_Props.thy ===== *)
theory Registry_Props
  imports Llm_Registry
begin

text \<open>
  Properties of \<open>Model_Catalog\<close> and \<open>Llm_Registry\<close>: the merged catalogue lists every model once, under
  the first server that has it; the registry stays in step with the configuration; a request is routed
  to the first server that lists the model; what is and is not advertised.
\<close>

section \<open>The merged catalogue\<close>

definition model_name :: "json \<Rightarrow> string" where
  "model_name m = unwrap_or (get_str ''name'' m) []"

definition offers :: "(llm_server_entry \<times> model_catalog_snapshot) list \<Rightarrow> (llm_server_entry \<times> json) list" where
  "offers ordered = concat (map (\<lambda>(e, s). map (\<lambda>m. (e, m)) (mcs_models s)) ordered)"

definition first_gpu :: "(llm_server_entry \<times> model_catalog_snapshot) list \<Rightarrow> gpu_host_status option" where
  "first_gpu ordered = (case List.map_filter (\<lambda>(e, s). mcs_gpu_host s) ordered of [] \<Rightarrow> None | g # _ \<Rightarrow> Some g)"

lemma merge_model_gpu:
  "merge_model e m (c\<lparr>cat_gpu_host := g\<rparr>) = (merge_model e m c)\<lparr>cat_gpu_host := g\<rparr>"
  by (simp add: merge_model_def Let_def)

lemma fold_merge_gpu:
  "fold (merge_model e) ms (c\<lparr>cat_gpu_host := g\<rparr>) = (fold (merge_model e) ms c)\<lparr>cat_gpu_host := g\<rparr>"
  by (induction ms arbitrary: c) (simp_all add: merge_model_gpu)

lemma merge_model_keeps_gpu [simp]: "cat_gpu_host (merge_model e m c) = cat_gpu_host c"
  by (simp add: merge_model_def Let_def)

lemma fold_merge_keeps_gpu [simp]: "cat_gpu_host (fold (merge_model e) ms c) = cat_gpu_host c"
  by (induction ms arbitrary: c) simp_all

definition merge_offer :: "llm_server_entry \<times> json \<Rightarrow> merged_catalog \<Rightarrow> merged_catalog" where
  "merge_offer p = merge_model (fst p) (snd p)"

lemma fold_merge_offer_gpu:
  "fold merge_offer os (c\<lparr>cat_gpu_host := g\<rparr>) = (fold merge_offer os c)\<lparr>cat_gpu_host := g\<rparr>"
  by (induction os arbitrary: c) (simp_all add: merge_offer_def merge_model_gpu)

lemma fold_merge_offer_map: "fold merge_offer (map (Pair e) ms) c = fold (merge_model e) ms c"
  by (induction ms arbitrary: c) (simp_all add: merge_offer_def)

lemma gpu_update_id: "c\<lparr>cat_gpu_host := cat_gpu_host c\<rparr> = (c :: merged_catalog)"
  by simp

lemma merge_flat:
  "fold merge_snapshot ordered c = (fold merge_offer (offers ordered) c)
     \<lparr>cat_gpu_host := (if cat_gpu_host c = None then first_gpu ordered else cat_gpu_host c)\<rparr>"
proof (induction ordered arbitrary: c)
  case Nil
  then show ?case by (simp add: offers_def first_gpu_def)
next
  case (Cons p ordered)
  obtain e s where p: "p = (e, s)" by (cases p)
  let ?g = "if cat_gpu_host c = None then mcs_gpu_host s else cat_gpu_host c"
  have off: "fold merge_offer (offers (p # ordered)) c = fold merge_offer (offers ordered) (fold (merge_model e) (mcs_models s) c)"
    by (simp add: offers_def p fold_merge_offer_map)
  have "first_gpu (p # ordered) = (case mcs_gpu_host s of None \<Rightarrow> first_gpu ordered | Some g \<Rightarrow> Some g)"
    by (simp add: first_gpu_def p List.map_filter_simps split: option.split)
  moreover have "merge_snapshot p c = (fold (merge_model e) (mcs_models s) c)\<lparr>cat_gpu_host := ?g\<rparr>"
    by (simp add: merge_snapshot_def p fold_merge_gpu)
  ultimately show ?case
    by (auto simp: off Cons.IH fold_merge_offer_gpu split: option.split)
qed

definition named :: "(llm_server_entry \<times> json) list \<Rightarrow> (llm_server_entry \<times> json) list" where
  "named os = filter (\<lambda>(e, m). model_name m \<noteq> []) os"

definition offer_of :: "string \<Rightarrow> (llm_server_entry \<times> json) list \<Rightarrow> (llm_server_entry \<times> json) option" where
  "offer_of n os = find (\<lambda>(e, m). model_name m = n) os"

lemma offer_of_append:
  "offer_of n (os @ ps) = (case offer_of n os of Some x \<Rightarrow> Some x | None \<Rightarrow> offer_of n ps)"
  unfolding offer_of_def by (rule find_append)

definition merge_inv :: "(llm_server_entry \<times> json) list \<Rightarrow> merged_catalog \<Rightarrow> bool" where
  "merge_inv os c =
     (distinct (cat_model_names c) \<and> set (cat_model_names c) = (model_name \<circ> snd) ` set (named os)
      \<and> list_all2 (\<lambda>n m. \<exists>e m0. offer_of n os = Some (e, m0) \<and> m = stamp_source e m0) (cat_model_names c) (cat_models c)
      \<and> length (cat_model_names c) + length (cat_collisions c) = length (named os))"

lemma merge_inv_step:
  assumes "merge_inv os c"
  shows "merge_inv (os @ [(e, m)]) (merge_model e m c)"
proof -
  let ?n = "model_name m"
  have n: "merge_model e m c = (if ?n = [] then c else if ?n \<in> set (cat_model_names c)
      then c\<lparr>cat_collisions := cat_collisions c @ [\<lparr>mc_name = ?n, mc_skipped_server =
              unwrap_or (se_label e) (se_kind e @ '' @ '' @ se_url e)\<rparr>]\<rparr>
      else c\<lparr>cat_model_names := cat_model_names c @ [?n], cat_models := cat_models c @ [stamp_source e m]\<rparr>)"
    by (simp add: merge_model_def model_name_def Let_def)
  have keep: "list_all2 (\<lambda>n m. \<exists>e m0. offer_of n (os @ [(e', m')]) = Some (e, m0) \<and> m = stamp_source e m0)
      (cat_model_names c) (cat_models c)" for e' m'
    using assms unfolding merge_inv_def by (auto elim!: list_all2_mono simp: offer_of_append)
  show ?thesis
  proof (cases "?n = []")
    case True
    with assms keep show ?thesis by (simp add: n merge_inv_def named_def)
  next
    case False
    show ?thesis
    proof (cases "?n \<in> set (cat_model_names c)")
      case True
      with False assms keep show ?thesis by (auto simp: n merge_inv_def named_def)
    next
      case new: False
      have "\<forall>p\<in>set os. model_name (snd p) \<noteq> ?n"
      proof (intro ballI notI)
        fix p assume "p \<in> set os" "model_name (snd p) = ?n"
        with False have "p \<in> set (named os)" by (simp add: named_def case_prod_beta)
        with \<open>model_name (snd p) = ?n\<close> have "?n \<in> (model_name \<circ> snd) ` set (named os)" by force
        with new assms show False by (simp add: merge_inv_def)
      qed
      then have "offer_of ?n os = None" by (auto simp: offer_of_def find_None_iff)
      then have "offer_of ?n (os @ [(e, m)]) = Some (e, m)" by (simp add: offer_of_append) (simp add: offer_of_def)
      with False new assms keep [of e m] show ?thesis
        by (auto simp: n merge_inv_def named_def intro!: list_all2_appendI)
    qed
  qed
qed

lemma merge_inv_fold: "merge_inv os (fold merge_offer os empty_catalog)"
proof (induction os rule: rev_induct)
  case Nil
  then show ?case by (simp add: merge_inv_def empty_catalog_def named_def)
next
  case (snoc p os)
  obtain e m where "p = (e, m)" by (cases p)
  with merge_inv_step [OF snoc] show ?case by (simp add: merge_offer_def)
qed

lemma merge_inv_merged: "merge_inv (offers ordered) (merge_catalog_snapshots ordered)"
  using merge_inv_fold [of "offers ordered"] by (simp add: merge_catalog_snapshots_def merge_flat merge_inv_def)

text \<open>Merging the lists of several servers. The merged catalogue has each name once, and exactly the
  names some server offers; each entry is the first offer of its name, in the servers' order, stamped
  with that server; every other offer is reported as a collision; and the GPU shown is the first
  server's that reports one.\<close>

theorem merged_catalog_first_wins:
  "distinct (cat_model_names (merge_catalog_snapshots ordered))
   \<and> set (cat_model_names (merge_catalog_snapshots ordered)) = (model_name \<circ> snd) ` set (named (offers ordered))
   \<and> list_all2 (\<lambda>n m. \<exists>e m0. offer_of n (offers ordered) = Some (e, m0) \<and> m = stamp_source e m0)
       (cat_model_names (merge_catalog_snapshots ordered)) (cat_models (merge_catalog_snapshots ordered))
   \<and> length (cat_model_names (merge_catalog_snapshots ordered)) + length (cat_collisions (merge_catalog_snapshots ordered))
     = length (named (offers ordered))
   \<and> cat_gpu_host (merge_catalog_snapshots ordered) = first_gpu ordered"
  using merge_inv_merged [of ordered]
  by (simp add: merge_inv_def merge_catalog_snapshots_def merge_flat empty_catalog_def)

section \<open>Registry and configuration\<close>

definition attached :: "client_config \<Rightarrow> llm_server_entry list" where
  "attached cfg = filter se_attached (cfg_llm_servers cfg)"

definition servers_ok :: "client_config \<Rightarrow> bool" where
  "servers_ok cfg = (distinct (map se_id (cfg_llm_servers cfg)) \<and> distinct (map se_order (attached cfg)))"

definition in_step :: "client_config \<Rightarrow> llm_registry \<Rightarrow> bool" where
  "in_step cfg reg =
     (hm_wf (rg_servers reg)
      \<and> (\<forall>i r. hm_get (rg_servers reg) i = Some r \<longrightarrow> rt_entry r \<in> set (attached cfg) \<and> se_id (rt_entry r) = i)
      \<and> (\<forall>e\<in>set (attached cfg). hm_get (rg_servers reg) (se_id e) \<noteq> None))"

lemma in_stepI:
  assumes "hm_wf (rg_servers reg)"
    and "\<And>i r. hm_get (rg_servers reg) i = Some r \<Longrightarrow> rt_entry r \<in> set (attached cfg) \<and> se_id (rt_entry r) = i"
    and "\<And>e. e \<in> set (attached cfg) \<Longrightarrow> hm_get (rg_servers reg) (se_id e) \<noteq> None"
  shows "in_step cfg reg"
  using assms by (simp add: in_step_def)

lemma in_stepD:
  assumes "in_step cfg reg"
  shows "hm_wf (rg_servers reg)"
    and "hm_get (rg_servers reg) i = Some r \<Longrightarrow> rt_entry r \<in> set (attached cfg) \<and> se_id (rt_entry r) = i"
    and "e \<in> set (attached cfg) \<Longrightarrow> hm_get (rg_servers reg) (se_id e) \<noteq> None"
  using assms by (auto simp: in_step_def)

definition routes_ok :: "llm_registry \<Rightarrow> bool" where
  "routes_ok reg =
     (\<forall>m i. hm_get (rg_routes reg) m = Some i \<longrightarrow>
        (\<exists>cat x. rg_merged reg = Some cat \<and> x \<in> set (cat_models cat) \<and> route_of x = Some (m, i)))"

text \<open>The states a peer reaches: the configuration is read, or read again, and then servers are added,
  attached, detached, removed, listed and probed, with whatever the servers answer each time.\<close>

inductive registry_reach :: "client_config \<Rightarrow> llm_registry \<Rightarrow> bool" where
  start: "servers_ok cfg \<Longrightarrow> sync_from_config w cfg registry_new = (reg, Inr ()) \<Longrightarrow> registry_reach cfg reg"
| resync: "registry_reach cfg0 reg0 \<Longrightarrow> servers_ok cfg \<Longrightarrow> sync_from_config w cfg reg0 = (reg, Inr ())
    \<Longrightarrow> registry_reach cfg reg"
| add: "registry_reach cfg reg \<Longrightarrow> new_id \<notin> se_id ` set (cfg_llm_servers cfg)
    \<Longrightarrow> find_or_add_entry new_id e cfg = (cfg', i) \<Longrightarrow> registry_reach cfg' reg"
| attaching: "registry_reach cfg reg \<Longrightarrow> attach w i cfg reg = (cfg', reg', res) \<Longrightarrow> registry_reach cfg' reg'"
| detaching: "registry_reach cfg reg \<Longrightarrow> detach i cfg reg = (cfg', reg', res) \<Longrightarrow> registry_reach cfg' reg'"
| removing: "registry_reach cfg reg \<Longrightarrow> remove_server i cfg reg = (cfg', reg', res) \<Longrightarrow> registry_reach cfg' reg'"
| rebuilding: "registry_reach cfg reg \<Longrightarrow> rebuild_catalog w reg = (reg', cat) \<Longrightarrow> registry_reach cfg reg'"
| probing: "registry_reach cfg reg \<Longrightarrow> probe_attached_connectivity w reg = (snap, reg') \<Longrightarrow> registry_reach cfg reg'"
| viewing: "registry_reach cfg reg \<Longrightarrow> server_views w cfg reg = (vs, reg') \<Longrightarrow> registry_reach cfg reg'"

lemma find_split:
  "find P xs = Some x \<Longrightarrow> \<exists>as bs. xs = as @ x # bs \<and> P x \<and> (\<forall>y\<in>set as. \<not> P y)
     \<and> (\<forall>f. update_first P f xs = as @ f x # bs)"
proof (induction xs)
  case (Cons a xs)
  show ?case
  proof (cases "P a")
    case True
    with Cons.prems show ?thesis by (intro exI [of _ "[]"] exI [of _ xs]) auto
  next
    case False
    with Cons obtain as bs where "xs = as @ x # bs" "P x" "\<forall>y\<in>set as. \<not> P y" "\<forall>f. update_first P f xs = as @ f x # bs"
      by auto
    with False show ?thesis by (intro exI [of _ "a # as"] exI [of _ bs]) auto
  qed
qed simp

lemma sync_entry_get:
  assumes "sync_entry w e reg = (reg', Inr ())" "hm_wf (rg_servers reg)"
  shows "hm_wf (rg_servers reg') \<and> (\<exists>r. rt_entry r = e \<and>
      (\<forall>i. hm_get (rg_servers reg') i = (if i = se_id e then Some r else hm_get (rg_servers reg) i)))
    \<and> rg_routes reg' = rg_routes reg \<and> rg_merged reg' = rg_merged reg"
  using assms by (auto simp: sync_entry_def Let_def hm_contains_get split: if_splits sum.splits prod.splits)

lemma sync_entries_get:
  "sync_entries w es reg = (reg', Inr ()) \<Longrightarrow> hm_wf (rg_servers reg) \<Longrightarrow> distinct (map se_id es) \<Longrightarrow>
   hm_wf (rg_servers reg') \<and> rg_routes reg' = rg_routes reg \<and> rg_merged reg' = rg_merged reg
   \<and> (\<forall>i. i \<notin> se_id ` set (filter se_attached es) \<longrightarrow> hm_get (rg_servers reg') i = hm_get (rg_servers reg) i)
   \<and> (\<forall>e\<in>set (filter se_attached es). \<exists>r. hm_get (rg_servers reg') (se_id e) = Some r \<and> rt_entry r = e)"
proof (induction es arbitrary: reg)
  case (Cons e es)
  show ?case
  proof (cases "se_attached e")
    case False
    with Cons show ?thesis by simp
  next
    case True
    with Cons.prems(1) obtain reg1 where 1: "sync_entry w e reg = (reg1, Inr ())" "sync_entries w es reg1 = (reg', Inr ())"
      by (auto split: prod.splits sum.splits)
    note g = sync_entry_get [OF 1(1) Cons.prems(2)]
    have notin: "se_id e \<notin> se_id ` set (filter se_attached es)" using Cons.prems(3) by auto
    from Cons.IH [OF 1(2)] g Cons.prems(3) notin True show ?thesis by auto
  qed
qed simp

lemma in_step_sync:
  assumes "servers_ok cfg" "sync_from_config w cfg reg = (reg', Inr ())" "hm_wf (rg_servers reg)"
  shows "in_step cfg reg' \<and> rg_routes reg' = rg_routes reg \<and> rg_merged reg' = rg_merged reg"
proof -
  let ?r = "reg\<lparr>rg_servers := hm_retain (\<lambda>i _. i \<in> set (map se_id (filter se_attached (cfg_llm_servers cfg)))) (rg_servers reg)\<rparr>"
  have "sync_entries w (cfg_llm_servers cfg) ?r = (reg', Inr ())"
    using assms(2) by (simp add: sync_from_config_def Let_def)
  from sync_entries_get [OF this] assms(1,3)
  have s: "hm_wf (rg_servers reg')" "rg_routes reg' = rg_routes reg" "rg_merged reg' = rg_merged reg"
    and old: "\<And>i. i \<notin> se_id ` set (attached cfg) \<Longrightarrow> hm_get (rg_servers reg') i = hm_get (rg_servers ?r) i"
    and new: "\<And>e. e \<in> set (attached cfg) \<Longrightarrow> \<exists>r. hm_get (rg_servers reg') (se_id e) = Some r \<and> rt_entry r = e"
    by (simp_all add: servers_ok_def attached_def)
  have "in_step cfg reg'"
  proof (rule in_stepI [OF s(1)])
    fix i r assume r: "hm_get (rg_servers reg') i = Some r"
    show "rt_entry r \<in> set (attached cfg) \<and> se_id (rt_entry r) = i"
    proof (cases "i \<in> se_id ` set (attached cfg)")
      case True
      with new r show ?thesis by fastforce
    next
      case False
      then have "hm_get (rg_servers ?r) i = None"
        using assms(3) by (auto simp: hm_get_retain attached_def split: option.splits)
      with old [OF False] r show ?thesis by simp
    qed
  qed (use new in fastforce)
  with s show ?thesis by simp
qed

lemma attached_split:
  assumes "cfg_llm_servers cfg = as @ e # bs"
  shows "attached cfg = filter se_attached as @ (if se_attached e then [e] else []) @ filter se_attached bs"
  using assms by (simp add: attached_def)

lemma next_order_fresh: "next_order cfg \<notin> se_order ` set (attached cfg)"
proof (cases "attached cfg = []")
  case False
  then have n: "next_order cfg = Suc (Max (se_order ` set (attached cfg)))"
    by (simp add: next_order_def Let_def attached_def [symmetric])
  have "o1 \<le> Max (se_order ` set (attached cfg))" if "o1 \<in> se_order ` set (attached cfg)" for o1
    using that by (intro Max_ge) auto
  with n show ?thesis by (metis not_less_eq_eq order_refl)
qed simp

lemma attach_keeps:
  assumes "attach w i cfg reg = (cfg', reg', res)" "servers_ok cfg" "in_step cfg reg"
  shows "servers_ok cfg' \<and> in_step cfg' reg' \<and> rg_routes reg' = rg_routes reg \<and> rg_merged reg' = rg_merged reg
    \<and> (\<forall>j. hm_get (rg_servers reg) j \<noteq> None \<longrightarrow> hm_get (rg_servers reg') j \<noteq> None)"
proof (cases "\<exists>e b g. find (\<lambda>s. se_id s = i) (cfg_llm_servers cfg) = Some e \<and> build_backend w e = Inr (b, g) \<and> sw_healthy w b")
  case False
  with assms have "cfg' = cfg \<and> reg' = reg"
    by (auto simp: attach_def split: option.splits sum.splits if_splits)
  with assms show ?thesis by simp
next
  case True
  then obtain e b g where e: "find (\<lambda>s. se_id s = i) (cfg_llm_servers cfg) = Some e"
    and b: "build_backend w e = Inr (b, g)" "sw_healthy w b" by blast
  let ?e = "if se_attached e then e else e\<lparr>se_attached := True, se_order := next_order cfg\<rparr>"
  from find_split [OF e] obtain as bs where s: "cfg_llm_servers cfg = as @ e # bs" "se_id e = i"
    "update_first (\<lambda>s. se_id s = i) (\<lambda>_. ?e) (cfg_llm_servers cfg) = as @ ?e # bs" by blast
  from assms(1) have cfg': "cfg_llm_servers cfg' = as @ ?e # bs"
    and reg': "reg' = reg\<lparr>rg_servers := hm_insert i \<lparr>rt_entry = ?e, rt_backend = b, rt_show_cache = hm_empty,
      rt_engine = g, rt_connected = True\<rparr> (rg_servers reg)\<rparr>"
    using s(3) by (auto simp: attach_def e b Let_def)
  have id: "se_id ?e = i" "se_attached ?e" using s(2) by simp_all
  have fresh: "next_order cfg \<notin> se_order ` set (attached cfg)" by (rule next_order_fresh)
  have ok: "servers_ok cfg'"
    using assms(2) fresh s(2) unfolding servers_ok_def
    by (auto simp: attached_split [OF s(1)] attached_split [OF cfg'] s(1) cfg')
  have others: "\<forall>x\<in>set as \<union> set bs. se_id x \<noteq> i"
    using assms(2) s(1,2) by (auto simp: servers_ok_def image_iff)
  have at: "set (attached cfg') = insert ?e (set (attached cfg) - {e})"
    using others s(2) id(2) by (auto simp: attached_split [OF s(1)] attached_split [OF cfg'])
  note old = in_stepD [OF assms(3)]
  have "in_step cfg' reg'"
  proof (rule in_stepI)
    show "hm_wf (rg_servers reg')" using old(1) by (simp add: reg')
  next
    fix j r assume "hm_get (rg_servers reg') j = Some r"
    then show "rt_entry r \<in> set (attached cfg') \<and> se_id (rt_entry r) = j"
      using old(2) [of j] s(2) id(1) by (auto simp: reg' at split: if_split_asm)
  next
    fix x assume "x \<in> set (attached cfg')"
    then show "hm_get (rg_servers reg') (se_id x) \<noteq> None"
      using old(3) [of x] id(1) by (auto simp: reg' at)
  qed
  with ok show ?thesis by (simp add: reg')
qed

lemma forget_keeps:
  assumes "in_step cfg reg" "set (attached cfg') = {e \<in> set (attached cfg). se_id e \<noteq> i}"
  shows "in_step cfg' (forget_server i reg)"
  using assms by (auto simp: in_step_def forget_server_def)

lemma detach_keeps:
  assumes "detach i cfg reg = (cfg', reg', res)" "servers_ok cfg" "in_step cfg reg"
  shows "servers_ok cfg' \<and> in_step cfg' reg' \<and> (reg' = reg \<or> rg_routes reg' = hm_empty)"
proof (cases "find (\<lambda>s. se_id s = i) (cfg_llm_servers cfg)")
  case None
  with assms show ?thesis by (simp add: detach_def)
next
  case (Some e)
  from find_split [OF Some] obtain as bs where s: "cfg_llm_servers cfg = as @ e # bs" "se_id e = i"
    "update_first (\<lambda>s. se_id s = i) (\<lambda>s. s\<lparr>se_attached := False\<rparr>) (cfg_llm_servers cfg)
       = as @ e\<lparr>se_attached := False\<rparr> # bs" by blast
  from assms(1) have cfg': "cfg_llm_servers cfg' = as @ e\<lparr>se_attached := False\<rparr> # bs"
    and reg': "reg' = forget_server i reg"
    using s(3) by (auto simp: detach_def Some)
  have others: "\<forall>x\<in>set as \<union> set bs. se_id x \<noteq> i"
    using assms(2) s(1,2) by (auto simp: servers_ok_def image_iff)
  have "servers_ok cfg'"
    using assms(2) unfolding servers_ok_def
    by (auto simp: attached_split [OF s(1)] attached_split [OF cfg'] s(1) cfg')
  moreover have "set (attached cfg') = {e \<in> set (attached cfg). se_id e \<noteq> i}"
    using others s(2) by (auto simp: attached_split [OF s(1)] attached_split [OF cfg'])
  ultimately show ?thesis
    using forget_keeps [OF assms(3)] by (simp add: reg' forget_server_def)
qed

lemma remove_keeps:
  assumes "remove_server i cfg reg = (cfg', reg', res)" "servers_ok cfg" "in_step cfg reg"
  shows "servers_ok cfg' \<and> in_step cfg' reg' \<and> rg_routes reg' = hm_empty"
proof -
  have c: "cfg_llm_servers cfg' = filter (\<lambda>s. se_id s \<noteq> i) (cfg_llm_servers cfg)" "reg' = forget_server i reg"
    using assms(1) by (auto simp: remove_server_def)
  have a: "attached cfg' = filter (\<lambda>s. se_id s \<noteq> i) (attached cfg)"
    by (simp add: attached_def c conj_commute)
  have "servers_ok cfg'"
    using assms(2) by (simp add: servers_ok_def a c distinct_map_filter)
  moreover have "in_step cfg' reg'"
    unfolding c(2) by (rule forget_keeps [OF assms(3)]) (auto simp: a)
  ultimately show ?thesis by (simp add: c forget_server_def)
qed

lemma add_keeps:
  assumes "find_or_add_entry n e cfg = (cfg', i)" "n \<notin> se_id ` set (cfg_llm_servers cfg)" "servers_ok cfg" "in_step cfg reg"
  shows "servers_ok cfg' \<and> in_step cfg' reg"
proof -
  from assms(1) have "attached cfg' = attached cfg \<and> (map se_id (cfg_llm_servers cfg') = map se_id (cfg_llm_servers cfg)
      \<or> map se_id (cfg_llm_servers cfg') = map se_id (cfg_llm_servers cfg) @ [n])"
    by (auto simp: find_or_add_entry_def Let_def attached_def split: option.splits)
  moreover from this assms(4) have "in_step cfg' reg" unfolding in_step_def by simp
  ultimately show ?thesis using assms(2,3) by (auto simp: servers_ok_def)
qed

text \<open>Operations that leave the entries of the running servers alone.\<close>

definition same_entries :: "(string, server_runtime) hmap \<Rightarrow> (string, server_runtime) hmap \<Rightarrow> bool" where
  "same_entries m m' = (map fst m' = map fst m
     \<and> (\<forall>i. map_option rt_entry (hm_get m' i) = map_option rt_entry (hm_get m i)))"

lemma same_entries_refl [simp]: "same_entries m m"
  by (simp add: same_entries_def)

lemma same_entries_trans: "same_entries a b \<Longrightarrow> same_entries b c \<Longrightarrow> same_entries a c"
  by (simp add: same_entries_def)

lemma same_entries_modify:
  "(\<And>r. rt_entry (f r) = rt_entry r) \<Longrightarrow> same_entries m (hm_modify i f m)"
  by (auto simp: same_entries_def hm_keys_modify option.map_comp comp_def cong: map_option_cong)

lemma same_entries_rebuild: "rebuild_pairs w is m = (ps, m') \<Longrightarrow> same_entries m m'"
proof (induction "is" arbitrary: m ps)
  case (Cons i js)
  then show ?case
    by (auto split: option.splits prod.splits dest!: Cons.IH elim!: same_entries_trans [rotated] intro!: same_entries_modify)
qed simp

lemma same_entries_refresh: "same_entries (rg_servers reg) (rg_servers (refresh_entries w es reg))
    \<and> rg_routes (refresh_entries w es reg) = rg_routes reg \<and> rg_merged (refresh_entries w es reg) = rg_merged reg"
proof (induction es arbitrary: reg)
  case (Cons e es)
  show ?case
    by (auto split: sum.splits prod.splits option.splits simp: Cons
        intro: same_entries_trans [OF same_entries_modify Cons [THEN conjunct1, of "reg\<lparr>rg_servers := _\<rparr>", simplified]])
qed simp

lemma same_entries_in_step:
  assumes "same_entries (rg_servers reg) (rg_servers reg')" "in_step cfg reg"
  shows "in_step cfg reg'"
proof -
  have g: "map_option rt_entry (hm_get (rg_servers reg') i) = map_option rt_entry (hm_get (rg_servers reg) i)" for i
    using assms(1) by (simp add: same_entries_def)
  note old = in_stepD [OF assms(2)]
  show ?thesis
  proof (rule in_stepI)
    show "hm_wf (rg_servers reg')" using old(1) assms(1) by (simp add: hm_wf_def same_entries_def)
  next
    fix i r assume "hm_get (rg_servers reg') i = Some r"
    with g [of i] obtain r0 where "hm_get (rg_servers reg) i = Some r0" "rt_entry r0 = rt_entry r"
      by (cases "hm_get (rg_servers reg) i") auto
    with old(2) show "rt_entry r \<in> set (attached cfg) \<and> se_id (rt_entry r) = i" by metis
  next
    fix e assume "e \<in> set (attached cfg)"
    with old(3) g [of "se_id e"] show "hm_get (rg_servers reg') (se_id e) \<noteq> None"
      by (metis option.map_disc_iff)
  qed
qed


section \<open>Routing\<close>

text \<open>The servers that answer, in their order, each with its list.\<close>

definition listing :: "server_world \<Rightarrow> server_runtime \<Rightarrow> (llm_server_entry \<times> model_catalog_snapshot) option" where
  "listing w r = map_option (\<lambda>(s, _). (rt_entry r, s)) (sw_list w (rt_backend r) (rt_show_cache r))"

definition answering :: "server_world \<Rightarrow> llm_registry \<Rightarrow> (llm_server_entry \<times> model_catalog_snapshot) list" where
  "answering w reg = List.map_filter (listing w) (ordered_servers reg)"

definition lists_model :: "server_world \<Rightarrow> string \<Rightarrow> server_runtime \<Rightarrow> bool" where
  "lists_model w n r = (case listing w r of None \<Rightarrow> False | Some (_, s) \<Rightarrow> \<exists>m\<in>set (mcs_models s). model_name m = n)"

lemma rebuild_pairs_listing:
  "distinct is \<Longrightarrow> \<forall>i\<in>set is. hm_get m i = hm_get m0 i \<Longrightarrow>
   fst (rebuild_pairs w is m) = List.map_filter (\<lambda>i. Option.bind (hm_get m0 i) (listing w)) is"
proof (induction "is" arbitrary: m)
  case (Cons i js)
  have IH: "fst (rebuild_pairs w js (hm_modify i f m)) = List.map_filter (\<lambda>i. Option.bind (hm_get m0 i) (listing w)) js" for f
    using Cons.prems by (intro Cons.IH) auto
  have IH0: "fst (rebuild_pairs w js m) = List.map_filter (\<lambda>i. Option.bind (hm_get m0 i) (listing w)) js"
    using Cons.prems by (intro Cons.IH) auto
  from Cons.prems have i: "hm_get m0 i = hm_get m i" by simp
  show ?case
  proof (cases "hm_get m i")
    case None
    with IH0 i show ?thesis by (simp add: List.map_filter_simps)
  next
    case (Some r)
    with IH i show ?thesis
      by (cases "sw_list w (rt_backend r) (rt_show_cache r)")
         (simp_all add: List.map_filter_simps listing_def [of w r] case_prod_beta)
  qed
qed (simp add: List.map_filter_simps)

lemma ordered_ids:
  "map fst (sort_by_key snd (map (\<lambda>r. (se_id (rt_entry r), se_order (rt_entry r))) (hm_values (rg_servers reg))))
   = map (\<lambda>r. se_id (rt_entry r)) (ordered_servers reg)"
  by (simp add: sort_by_key_def ordered_servers_def sort_by_map)

lemma in_step_keys:
  assumes "in_step cfg reg"
  shows "map (\<lambda>r. se_id (rt_entry r)) (hm_values (rg_servers reg)) = map fst (rg_servers reg)"
proof -
  have "se_id (rt_entry r) = i" if "(i, r) \<in> set (rg_servers reg)" for i r
    using that in_stepD(1,2) [OF assms] by (metis hm_wf_get)
  then show ?thesis by (auto simp: hm_values_def)
qed

lemma ordered_servers_get:
  assumes "in_step cfg reg"
  shows "distinct (map (\<lambda>r. se_id (rt_entry r)) (ordered_servers reg))"
    and "r \<in> set (ordered_servers reg) \<Longrightarrow> hm_get (rg_servers reg) (se_id (rt_entry r)) = Some r"
proof -
  have "mset (map (\<lambda>r. se_id (rt_entry r)) (ordered_servers reg)) = mset (map fst (rg_servers reg))"
    by (simp add: ordered_servers_def in_step_keys [OF assms, symmetric] del: mset_map)
       (simp add: mset_map)
  with in_stepD(1) [OF assms] show "distinct (map (\<lambda>r. se_id (rt_entry r)) (ordered_servers reg))"
    by (metis hm_wf_def mset_eq_imp_distinct_iff)
  assume "r \<in> set (ordered_servers reg)"
  then obtain i where "(i, r) \<in> set (rg_servers reg)" by (auto simp: ordered_servers_def hm_values_def)
  with in_stepD(1,2) [OF assms] show "hm_get (rg_servers reg) (se_id (rt_entry r)) = Some r"
    by (metis hm_wf_get)
qed

lemma map_filter_cong_map: "(\<And>x. x \<in> set xs \<Longrightarrow> f (g x) = h x) \<Longrightarrow> List.map_filter f (map g xs) = List.map_filter h xs"
  by (induction xs) (auto simp: List.map_filter_simps split: option.split)

lemma rebuild_answering:
  assumes "in_step cfg reg" "rebuild_catalog w reg = (reg', cat)"
  shows "cat = merge_catalog_snapshots (answering w reg) \<and> rg_merged reg' = Some cat
    \<and> rg_routes reg' = foldl (\<lambda>m (k, v). hm_insert k v m) hm_empty (List.map_filter route_of (cat_models cat))
    \<and> same_entries (rg_servers reg) (rg_servers reg')"
proof -
  let ?ids = "map (\<lambda>r. se_id (rt_entry r)) (ordered_servers reg)"
  obtain ps m where pm: "rebuild_pairs w ?ids (rg_servers reg) = (ps, m)" by fastforce
  have "ps = List.map_filter (\<lambda>i. Option.bind (hm_get (rg_servers reg) i) (listing w)) ?ids"
    using rebuild_pairs_listing [OF ordered_servers_get(1) [OF assms(1)], of "rg_servers reg" "rg_servers reg" w] pm by simp
  also have "\<dots> = answering w reg"
    unfolding answering_def by (rule map_filter_cong_map) (simp add: ordered_servers_get(2) [OF assms(1)])
  finally have ps: "ps = answering w reg" .
  with assms(2) pm same_entries_rebuild [OF pm] show ?thesis
    by (auto simp: rebuild_catalog_def ordered_ids Let_def)
qed

lemma get_foldl_insert:
  "hm_get (foldl (\<lambda>m (k, v). hm_insert k v m) m ps) k = (case map_of (rev ps) k of Some v \<Rightarrow> Some v | None \<Rightarrow> hm_get m k)"
  by (induction ps arbitrary: m) (auto simp: map_add_def split: option.split)

lemma map_of_graph: "map_of (map (\<lambda>n. (n, f n)) ns) n = (if n \<in> set ns then Some (f n) else None)"
  by (induction ns) auto

lemma rebuild_backend:
  "rebuild_pairs w is m = (ps, m') \<Longrightarrow> map_option rt_backend (hm_get m' i) = map_option rt_backend (hm_get m i)"
proof (induction "is" arbitrary: m ps)
  case (Cons j js)
  then show ?case
    by (auto split: option.splits prod.splits if_splits simp: option.map_comp comp_def dest!: Cons.IH cong: map_option_cong)
qed simp

lemma map_filter_graph:
  "list_all2 (\<lambda>n m. f m = Some (n, g n)) ns ms \<Longrightarrow> List.map_filter f ms = map (\<lambda>n. (n, g n)) ns"
  by (induction rule: list_all2_induct) (auto simp: List.map_filter_simps)

lemma named_model_object: "model_name m = n \<Longrightarrow> n \<noteq> [] \<Longrightarrow> \<exists>obj. m = JObj obj \<and> get_str ''name'' m = Some n"
  by (cases m; cases "get_str ''name'' m") (auto simp: model_name_def get_str_def)

lemma route_of_stamped:
  assumes "model_name m = n" "n \<noteq> []"
  shows "route_of (stamp_source e m) = Some (n, se_id e)"
  using named_model_object [OF assms] by (auto simp: route_of_def stamp_source_def get_str_def)

lemma routes_of_merged:
  fixes ordered
  defines "cat \<equiv> merge_catalog_snapshots ordered"
  shows "n \<noteq> [] \<Longrightarrow> hm_get (foldl (\<lambda>m (k, v). hm_insert k v m) hm_empty (List.map_filter route_of (cat_models cat))) n
    = map_option (\<lambda>p. se_id (fst p)) (offer_of n (offers ordered))"
proof -
  assume n: "n \<noteq> []"
  let ?g = "\<lambda>n. se_id (fst (the (offer_of n (offers ordered))))"
  note inv = merge_inv_merged [of ordered, folded cat_def, unfolded merge_inv_def]
  have ne: "x \<noteq> []" if "x \<in> set (cat_model_names cat)" for x
    using inv that by (auto simp: named_def)
  have "list_all2 (\<lambda>n m. route_of m = Some (n, ?g n)) (cat_model_names cat) (cat_models cat)"
  proof (rule list.rel_mono_strong)
    show "list_all2 (\<lambda>n m. \<exists>e m0. offer_of n (offers ordered) = Some (e, m0) \<and> m = stamp_source e m0)
        (cat_model_names cat) (cat_models cat)" using inv by simp
    fix x m
    assume x: "x \<in> set (cat_model_names cat)"
      and "\<exists>e m0. offer_of x (offers ordered) = Some (e, m0) \<and> m = stamp_source e m0"
    then obtain e m0 where o1: "offer_of x (offers ordered) = Some (e, m0)" "m = stamp_source e m0" by blast
    from find_Some_prop [OF o1(1) [unfolded offer_of_def]] have "model_name m0 = x" by simp
    with o1 ne [OF x] show "route_of m = Some (x, ?g x)" by (simp add: route_of_stamped)
  qed
  from map_filter_graph [OF this]
  have mf: "List.map_filter route_of (cat_models cat) = map (\<lambda>n. (n, ?g n)) (cat_model_names cat)" .
  have "map_of (rev (map (\<lambda>n. (n, ?g n)) (cat_model_names cat))) n
      = (if n \<in> set (cat_model_names cat) then Some (?g n) else None)"
    using map_of_graph [of ?g "rev (cat_model_names cat)" n] by (simp add: rev_map)
  moreover have "n \<in> set (cat_model_names cat) \<longleftrightarrow> offer_of n (offers ordered) \<noteq> None"
  proof -
    have "n \<in> set (cat_model_names cat) \<longleftrightarrow> n \<in> (model_name \<circ> snd) ` set (named (offers ordered))"
      using inv by simp
    also have "\<dots> \<longleftrightarrow> (\<exists>p\<in>set (offers ordered). model_name (snd p) = n)"
      using n unfolding named_def image_iff Bex_def by (simp add: case_prod_unfold del: split_paired_Ex) blast
    also have "\<dots> \<longleftrightarrow> offer_of n (offers ordered) \<noteq> None"
      unfolding offer_of_def find_None_iff Bex_def by (simp add: case_prod_unfold del: split_paired_Ex) auto
    finally show ?thesis .
  qed
  ultimately show ?thesis by (auto simp: get_foldl_insert mf)
qed

lemma offer_first_server:
  "map_option fst (offer_of n (offers (List.map_filter (listing w) rs))) = map_option rt_entry (find (lists_model w n) rs)"
proof (induction rs)
  case Nil
  then show ?case by (simp add: offers_def offer_of_def List.map_filter_simps)
next
  case (Cons r rs)
  show ?case
  proof (cases "listing w r")
    case None
    with Cons show ?thesis by (simp add: List.map_filter_simps lists_model_def)
  next
    case (Some p)
    obtain s where p: "p = (rt_entry r, s)" using Some by (auto simp: listing_def)
    have off: "offers (List.map_filter (listing w) (r # rs))
        = map (Pair (rt_entry r)) (mcs_models s) @ offers (List.map_filter (listing w) rs)"
      by (simp add: List.map_filter_simps Some p offers_def)
    have "offer_of n (map (Pair (rt_entry r)) ms) = map_option (Pair (rt_entry r)) (find (\<lambda>m. model_name m = n) ms)" for ms
      by (induction ms) (auto simp: offer_of_def)
    moreover have "lists_model w n r \<longleftrightarrow> find (\<lambda>m. model_name m = n) (mcs_models s) \<noteq> None"
      by (auto simp: lists_model_def Some p find_None_iff)
    ultimately show ?thesis using Cons unfolding off offer_of_append
      by (cases "find (\<lambda>m. model_name m = n) (mcs_models s)") simp_all
  qed
qed

lemma find_ordered_attached:
  assumes "in_step cfg reg" "find P (ordered_servers reg) = Some r"
  shows "hm_get (rg_servers reg) (se_id (rt_entry r)) = Some r"
  using find_Some_prop [OF assms(2)] ordered_servers_get(2) [OF assms(1)] by simp

lemma rebuilt_resolves:
  assumes "in_step cfg reg" "rebuild_catalog w reg = (reg', cat)" "n \<noteq> []"
  shows "resolve_backend reg' n = map_option rt_backend (find (lists_model w n) (ordered_servers reg))"
proof -
  note rb = rebuild_answering [OF assms(1,2)]
  have route: "hm_get (rg_routes reg') n = map_option (\<lambda>r. se_id (rt_entry r)) (find (lists_model w n) (ordered_servers reg))"
    using routes_of_merged [OF assms(3), of "answering w reg"] rb offer_first_server [of n w "ordered_servers reg"]
    by (auto simp: answering_def [symmetric] option.map_comp comp_def dest!: arg_cong [of _ _ "map_option se_id"])
  obtain ps where "rebuild_pairs w (map (\<lambda>r. se_id (rt_entry r)) (ordered_servers reg)) (rg_servers reg) = (ps, rg_servers reg')"
    using assms(2) by (auto simp: rebuild_catalog_def ordered_ids Let_def split: prod.splits)
  then have "map_option rt_backend (hm_get (rg_servers reg') i) = map_option rt_backend (hm_get (rg_servers reg) i)" for i
    by (rule rebuild_backend)
  with route find_ordered_attached [OF assms(1), of "lists_model w n"] show ?thesis
    by (cases "find (lists_model w n) (ordered_servers reg)") (simp_all add: resolve_backend_def)
qed

lemma routes_ok_same: "routes_ok reg \<Longrightarrow> rg_routes reg' = rg_routes reg \<Longrightarrow> rg_merged reg' = rg_merged reg \<Longrightarrow> routes_ok reg'"
  by (simp add: routes_ok_def)

lemma routes_ok_empty: "rg_routes reg = hm_empty \<Longrightarrow> routes_ok reg"
  by (simp add: routes_ok_def)

lemma routes_ok_rebuild:
  assumes "rg_merged reg' = Some cat"
    "rg_routes reg' = foldl (\<lambda>m (k, v). hm_insert k v m) hm_empty (List.map_filter route_of (cat_models cat))"
  shows "routes_ok reg'"
proof -
  have "\<exists>x\<in>set (cat_models cat). route_of x = Some (m, i)" if "hm_get (rg_routes reg') m = Some i" for m i
  proof -
    from that assms(2) have "(m, i) \<in> set (List.map_filter route_of (cat_models cat))"
      by (auto simp: get_foldl_insert dest: map_of_SomeD split: option.splits)
    then show ?thesis by (auto simp: List.map_filter_def)
  qed
  with assms(1) show ?thesis by (auto simp: routes_ok_def)
qed

lemma probe_same_entries:
  assumes "probe_attached_connectivity w reg = (snap, reg')"
  shows "same_entries (rg_servers reg) (rg_servers reg') \<and> rg_routes reg' = rg_routes reg \<and> rg_merged reg' = rg_merged reg"
proof -
  have "map_option rt_entry (hm_get (map (\<lambda>(i, r). (i, probe_runtime w r)) m) i) = map_option rt_entry (hm_get m i)" for m i
    by (induction m) (auto simp: probe_runtime_def)
  moreover have "map fst (map (\<lambda>(i, r). (i, probe_runtime w r)) m) = map fst m" for m
    by (induction m) auto
  ultimately show ?thesis using assms by (auto simp: probe_attached_connectivity_def Let_def same_entries_def)
qed

lemma reach_ok: "registry_reach cfg reg \<Longrightarrow> servers_ok cfg \<and> in_step cfg reg \<and> routes_ok reg"
proof (induction rule: registry_reach.induct)
  case (start cfg w reg)
  from in_step_sync [OF this] show ?case
    using start(1) by (auto simp: registry_new_def intro: routes_ok_empty)
next
  case (resync cfg0 reg0 cfg w reg)
  from in_step_sync [OF resync(2,3) in_stepD(1)] resync show ?case
    by (auto intro: routes_ok_same)
next
  case (add cfg reg n e cfg' i)
  with add_keeps show ?case by blast
next
  case (attaching cfg reg w i cfg' reg' res)
  with attach_keeps routes_ok_same show ?case by blast
next
  case (detaching cfg reg i cfg' reg' res)
  with detach_keeps routes_ok_empty show ?case by metis
next
  case (removing cfg reg i cfg' reg' res)
  with remove_keeps routes_ok_empty show ?case by metis
next
  case (rebuilding cfg reg w reg' cat)
  with rebuild_answering [of cfg reg w reg' cat] routes_ok_rebuild same_entries_in_step show ?case by blast
next
  case (probing cfg reg w snap reg')
  with probe_same_entries routes_ok_same same_entries_in_step show ?case by metis
next
  case (viewing cfg reg w vs reg')
  then have "reg' = refresh_entries w (stale_entries cfg reg) reg"
    by (simp add: server_views_def refresh_stale_inference_engines_def Let_def)
  with viewing same_entries_refresh routes_ok_same same_entries_in_step show ?case by metis
qed


text \<open>C16: Where a request goes. Once the catalogue is rebuilt, a model is answered by the first of the
  attached servers, in their order, that answers the listing and lists it, and by no server when none
  does.\<close>

theorem routed_to_first_server:
  assumes "registry_reach cfg reg" "rebuild_catalog w reg = (reg', cat)" "n \<noteq> []"
  shows "resolve_backend reg' n = map_option rt_backend (find (lists_model w n) (ordered_servers reg))
    \<and> sorted (map (\<lambda>r. se_order (rt_entry r)) (ordered_servers reg))
    \<and> set (map rt_entry (ordered_servers reg)) = set (attached cfg)"
proof -
  from reach_ok [OF assms(1)] have ok: "in_step cfg reg" by simp
  have "set (map rt_entry (ordered_servers reg)) = set (attached cfg)"
  proof
    show "set (map rt_entry (ordered_servers reg)) \<subseteq> set (attached cfg)"
      using ordered_servers_get(2) [OF ok] in_stepD(2) [OF ok] by auto
    show "set (attached cfg) \<subseteq> set (map rt_entry (ordered_servers reg))"
    proof
      fix e assume e: "e \<in> set (attached cfg)"
      with in_stepD(3) [OF ok] obtain r where r: "hm_get (rg_servers reg) (se_id e) = Some r" by fast
      with in_stepD(2) [OF ok] have "rt_entry r \<in> set (attached cfg)" "se_id (rt_entry r) = se_id e" by auto
      moreover have "distinct (map se_id (cfg_llm_servers cfg))" using reach_ok [OF assms(1)] by (simp add: servers_ok_def)
      ultimately have "rt_entry r = e" using e by (auto simp: attached_def distinct_map dest: inj_onD)
      with hm_get_SomeD [OF r] show "e \<in> set (map rt_entry (ordered_servers reg))"
        by (force simp: ordered_servers_def hm_values_def)
    qed
  qed
  with rebuilt_resolves [OF ok assms(2,3)] show ?thesis
    by (simp add: ordered_servers_def sort_by_key_sorted)
qed

section \<open>What is advertised\<close>

text \<open>Models of OpenAI-compatible servers. Unless the server itself sends a \<open>_status\<close> field with its models,
  which the OpenAI listing does not have, every model of the server is recorded as not loaded, and
  no such model is ever advertised to the clusters and swarms of the peer, whatever its settings.\<close>

theorem openai_models_never_advertised:
  assumes "jget ''data'' answer = Some (JArr entries)" "\<forall>x\<in>set entries. jget ''_status'' x = None"
  shows "filter_models_for_cluster_advertisement (merge_catalog_snapshots [(e, openai_list_models answer gpu)]) cfg = ([], [])"
proof -
  let ?c = "merge_catalog_snapshots [(e, openai_list_models answer gpu)]"
  have st: "jget ''_status'' m = Some openai_status" if m: "m \<in> set (mcs_models (openai_list_models answer gpu))" for m
  proof -
    from m assms(1) obtain x i where x: "x \<in> set entries" "openai_model x = Some (i, m)"
      by (auto simp: openai_list_models_def Let_def List.map_filter_def)
    with assms(2) show ?thesis by (auto simp: openai_model_def Let_def split: if_splits)
  qed
  have "\<not> advertised cfg m" if m: "m \<in> set (cat_models ?c)" for m
  proof -
    from m merge_inv_merged [of "[(e, openai_list_models answer gpu)]"]
    obtain n e' m0 where n: "offer_of n (offers [(e, openai_list_models answer gpu)]) = Some (e', m0)" "m = stamp_source e' m0"
      by (auto simp: merge_inv_def list_all2_conv_all_nth in_set_conv_nth)
    from find_Some_prop [OF n(1) [unfolded offer_of_def]] have "m0 \<in> set (mcs_models (openai_list_models answer gpu))"
      by (auto simp: offers_def)
    from st [OF this] have "jget ''_status'' m = Some openai_status"
      by (cases m0) (auto simp: n(2) stamp_source_def)
    then have "\<not> status_loaded m" by (simp add: status_loaded_def openai_status_def get_bool_def)
    then show ?thesis by (simp add: advertised_def model_is_advertisable_for_network_def Let_def)
  qed
  then have "filter (advertised cfg) (cat_models ?c) = []" by (simp add: filter_empty_conv)
  then show ?thesis by (simp add: filter_models_for_cluster_advertisement_def Let_def List.map_filter_simps)
qed

section \<open>Witnesses\<close>

definition toy_server :: "string \<Rightarrow> nat \<Rightarrow> llm_server_entry" where
  "toy_server i k = \<lparr>se_id = i, se_kind = ''ollama'', se_url = i, se_label = None, se_attached = True,
     se_order = k, se_source = ''manual'', se_api_type = None, se_models = [], se_advertise_to_cluster = True\<rparr>"

definition toy_config :: client_config where
  "toy_config = default_client_config\<lparr>cfg_llm_servers := [toy_server ''a'' 1, toy_server ''b'' 0]\<rparr>"

definition toy_listing :: model_catalog_snapshot where
  "toy_listing = \<lparr>mcs_models = [json_obj [(''name'', JStr ''m'')]], mcs_model_names = [''m''], mcs_gpu_host = None\<rparr>"

definition toy_world :: server_world where
  "toy_world = \<lparr>sw_api_key = (\<lambda>_. Inr None), sw_engine = (\<lambda>_. None), sw_healthy = (\<lambda>_. True),
     sw_list = (\<lambda>b c. Some (toy_listing, c))\<rparr>"

definition toy_registry :: llm_registry where
  "toy_registry = fst (sync_from_config toy_world toy_config registry_new)"

lemma toy_reach: "registry_reach toy_config toy_registry"
proof (rule registry_reach.start)
  show "servers_ok toy_config" by code_simp
  have "snd (sync_from_config toy_world toy_config registry_new) = Inr ()" by code_simp
  then show "sync_from_config toy_world toy_config registry_new = (toy_registry, Inr ())"
    by (simp add: toy_registry_def prod_eq_iff)
qed


lemma routed_to_first_server_witness:
  "resolve_backend (fst (rebuild_catalog toy_world toy_registry)) ''m'' = Some (OllamaBackend ''b'' None)"
proof -
  have "map_option rt_backend (find (lists_model toy_world ''m'') (ordered_servers toy_registry)) = Some (OllamaBackend ''b'' None)"
    by code_simp
  with routed_to_first_server [OF toy_reach prod.collapse [symmetric], of "''m''" toy_world] show ?thesis by simp
qed

lemma openai_models_never_advertised_witness:
  "filter_models_for_cluster_advertisement (merge_catalog_snapshots
     [(toy_server ''a'' 0, openai_list_models (json_obj [(''data'', JArr [json_obj [(''id'', JStr ''llama'')]])]) None)])
     toy_config = ([], [])"
  by (rule openai_models_never_advertised [where entries = "[json_obj [(''id'', JStr ''llama'')]]"]) simp_all

end
