(* ===== verification/Agent_Request.thy ===== *)
theory Agent_Request
  imports Request_Defaults
begin

text \<open>
  What the peer does to an agent's request before it goes to a model (\<open>agent_compat.rs\<close>): Responses and
  Anthropic shapes become chat completions, tools get the shape strict parsers accept, and the defaults
  of \<open>Request_Defaults\<close> are applied. \<open>print\<close> is \<open>Value::to_string\<close>.
\<close>

section \<open>Tools\<close>

definition jmap_remove :: "string \<Rightarrow> (string \<times> json) list \<Rightarrow> (string \<times> json) list" where
  "jmap_remove k m = filter (\<lambda>(k', v). k' \<noteq> k) m"

lemma map_of_jmap_remove [simp]: "map_of (jmap_remove k m) k' = (if k' = k then None else map_of m k')"
  by (induction m) (auto simp: jmap_remove_def)

text \<open>The fields kept of an object come out in the order of their keys, as they went in.\<close>

definition schema_noise :: "string \<Rightarrow> json \<Rightarrow> bool" where
  "schema_noise k v = (k = ''$schema'' \<or> k = ''title'' \<or> k = ''additionalProperties'' \<and> v = JBool False)"

fun clean_schema :: "json \<Rightarrow> json"
  and clean_fields :: "(string \<times> json) list \<Rightarrow> (string \<times> json) list"
  and clean_items :: "json list \<Rightarrow> json list" where
  "clean_schema (JObj m) = JObj (clean_fields m)"
| "clean_schema (JArr xs) = JArr (clean_items xs)"
| "clean_schema (JStr s) = JStr s"
| "clean_schema (JNum n) = JNum n"
| "clean_schema (JBool b) = JBool b"
| "clean_schema JNull = JNull"
| "clean_fields [] = []"
| "clean_fields ((k, v) # m) = (if schema_noise k v then clean_fields m else (k, clean_schema v) # clean_fields m)"
| "clean_items [] = []"
| "clean_items (x # xs) = clean_schema x # clean_items xs"

definition clean_function :: "json \<Rightarrow> json" where
  "clean_function func =
     (case func of
        JObj f \<Rightarrow>
          (case map_of f ''parameters'' of
             Some params \<Rightarrow> JObj (jmap_insert ''parameters'' (clean_schema params) f)
           | None \<Rightarrow>
               (case map_of f ''input_schema'' of
                  Some schema \<Rightarrow> JObj (jmap_remove ''input_schema'' (jmap_insert ''parameters'' (clean_schema schema) f))
                | None \<Rightarrow> func))
      | _ \<Rightarrow> func)"

definition normalize_tool :: "json \<Rightarrow> json option" where
  "normalize_tool tool =
     (if get_str ''type'' tool = Some ''custom'' then None
      else (case jget ''function'' tool of
              Some func \<Rightarrow> jset ''function'' (clean_function func) tool
            | None \<Rightarrow>
                (case opt_or (get_str ''name'' tool) (Option.bind (jget ''function'' tool) (get_str ''name'')) of
                   None \<Rightarrow> None
                 | Some name \<Rightarrow>
                     (let description = unwrap_or (opt_or (jget ''description'' tool) (jget ''desc'' tool)) (JStr []);
                          parameters = unwrap_or (opt_or (jget ''parameters'' tool) (jget ''input_schema'' tool))
                            (json_obj [(''type'', JStr ''object''), (''properties'', JObj [])])
                      in Some (json_obj [(''type'', JStr ''function''),
                           (''function'', json_obj [(''name'', JStr name), (''description'', description),
                              (''parameters'', clean_schema parameters)])])))))"

definition normalize_tools_array :: "json \<Rightarrow> json" where
  "normalize_tools_array tools =
     (case as_array tools of None \<Rightarrow> JArr [] | Some arr \<Rightarrow> JArr (List.map_filter normalize_tool arr))"

section \<open>Messages\<close>

definition normalize_message_roles :: "json \<Rightarrow> json" where
  "normalize_message_roles msg =
     (if get_str ''role'' msg = Some ''developer''
      then unwrap_or (jset ''role'' (JStr ''system'') msg) msg else msg)"

definition user_message :: "json \<Rightarrow> json" where
  "user_message content = json_obj [(''role'', JStr ''user''), (''content'', content)]"

definition normalize_input_item :: "(json \<Rightarrow> string) \<Rightarrow> json \<Rightarrow> json" where
  "normalize_input_item print item =
     (if jget ''role'' item \<noteq> None then normalize_message_roles item
      else (case jget ''content'' item of
              Some content \<Rightarrow> user_message content
            | None \<Rightarrow> user_message (JStr (print item))))"

fun input_to_messages :: "(json \<Rightarrow> string) \<Rightarrow> json \<Rightarrow> json" where
  "input_to_messages print (JStr s) = JArr [user_message (JStr s)]"
| "input_to_messages print (JArr arr) = JArr (map (normalize_input_item print) arr)"
| "input_to_messages print other = JArr [user_message (JStr (print other))]"

definition is_tool_result :: "json \<Rightarrow> bool" where
  "is_tool_result part = (get_str ''type'' part = Some ''tool_result'')"

definition tool_message :: "json \<Rightarrow> json" where
  "tool_message part =
     json_obj [(''role'', JStr ''tool''), (''tool_call_id'', unwrap_or (jget ''tool_use_id'' part) (JStr [])),
       (''content'', unwrap_or (jget ''content'' part) (JStr []))]"

definition normalize_tool_message :: "json \<Rightarrow> json" where
  "normalize_tool_message msg0 =
     (let msg = normalize_message_roles msg0
      in if get_str ''role'' msg = Some ''user''
         then (case Option.bind (jget ''content'' msg) as_array of
                 None \<Rightarrow> msg
               | Some content \<Rightarrow>
                   (let tool_results = map tool_message (filter is_tool_result content);
                        other_parts = filter (\<lambda>p. \<not> is_tool_result p) content
                    in if tool_results \<noteq> [] \<and> other_parts = [] \<and> length tool_results = 1
                       then hd tool_results else msg))
         else msg)"

definition normalize_tool_messages :: "json \<Rightarrow> json" where
  "normalize_tool_messages body =
     (case Option.bind (jget ''messages'' body) as_array of
        None \<Rightarrow> body
      | Some messages \<Rightarrow>
          unwrap_or (jset ''messages'' (JArr (map normalize_tool_message messages)) body) body)"

section \<open>The request\<close>

definition RESPONSES_ONLY_FIELDS :: "string list" where
  "RESPONSES_ONLY_FIELDS = [''store'', ''include'', ''prompt_cache_retention'', ''previous_response_id'',
     ''truncation'', ''reasoning'', ''text'', ''prompt'', ''metadata'']"

definition strip_responses_only_fields :: "json \<Rightarrow> json \<times> bool" where
  "strip_responses_only_fields body =
     (case body of
        JObj obj \<Rightarrow>
          (JObj (foldl (\<lambda>m k. jmap_remove k m) obj RESPONSES_ONLY_FIELDS),
           list_ex (\<lambda>k. map_of obj k \<noteq> None) RESPONSES_ONLY_FIELDS)
      | _ \<Rightarrow> (body, False))"

datatype agent_response_format = ChatCompletions | ResponsesApi

record agent_request_summary =
  ars_model :: "string option"
  ars_stream :: bool
  ars_message_count :: nat
  ars_tool_count :: nat
  ars_normalized :: bool
  ars_had_input_field :: bool
  ars_response_format :: agent_response_format

definition take_input :: "(json \<Rightarrow> string) \<Rightarrow> json \<Rightarrow> json" where
  "take_input print body =
     (case (body, jget ''input'' body) of
        (JObj obj, Some input) \<Rightarrow>
          JObj (jmap_remove ''input'' (jmap_insert ''messages'' (input_to_messages print input) obj))
      | _ \<Rightarrow> body)"

definition take_tools :: "json \<Rightarrow> json" where
  "take_tools body =
     (case jget ''tools'' body of
        Some tools \<Rightarrow> unwrap_or (jset ''tools'' (normalize_tools_array tools) body) body
      | None \<Rightarrow> body)"

definition array_length :: "string \<Rightarrow> json \<Rightarrow> nat" where
  "array_length k body = (case Option.bind (jget k body) as_array of Some a \<Rightarrow> length a | None \<Rightarrow> 0)"

definition normalize_chat_request_with_default ::
  "(json \<Rightarrow> string) \<Rightarrow> json \<Rightarrow> nat option \<Rightarrow> nat option \<Rightarrow> json \<times> agent_request_summary" where
  "normalize_chat_request_with_default print body default_predict default_ctx =
     (let had_input_field = (jget ''input'' body \<noteq> None);
          had_tools = (jget ''tools'' body \<noteq> None);
          (body, stripped) = strip_responses_only_fields (take_tools (take_input print body));
          body = normalize_tool_messages body;
          (body, usage) = ensure_stream_usage body;
          (body, predict) = ensure_ollama_predict_options_with_default body default_predict;
          (body, ctx) = ensure_ollama_ctx_options_with_default body default_ctx
      in (body,
          \<lparr>ars_model = get_str ''model'' body,
           ars_stream = unwrap_or (get_bool ''stream'' body) False,
           ars_message_count = array_length ''messages'' body,
           ars_tool_count = array_length ''tools'' body,
           ars_normalized = (had_input_field \<or> had_tools \<or> stripped \<or> usage \<or> predict \<or> ctx),
           ars_had_input_field = had_input_field,
           ars_response_format = ChatCompletions\<rparr>))"

end
