(* ===== verification/Agent_Request_Props.thy ===== *)
theory Agent_Request_Props
  imports Agent_Request
begin

text \<open>Properties of \<open>Agent_Request\<close>: the exact shape of a normalised request, and what it loses.\<close>

section \<open>Schemas\<close>

fun schema_ok :: "json \<Rightarrow> bool"
  and fields_ok :: "(string \<times> json) list \<Rightarrow> bool"
  and items_ok :: "json list \<Rightarrow> bool" where
  "schema_ok (JObj m) = fields_ok m"
| "schema_ok (JArr xs) = items_ok xs"
| "schema_ok (JStr s) = True"
| "schema_ok (JNum n) = True"
| "schema_ok (JBool b) = True"
| "schema_ok JNull = True"
| "fields_ok [] = True"
| "fields_ok ((k, v) # m) = (\<not> schema_noise k v \<and> schema_ok v \<and> fields_ok m)"
| "items_ok [] = True"
| "items_ok (x # xs) = (schema_ok x \<and> items_ok xs)"

lemma clean_is_false [simp]: "clean_schema v = JBool b \<longleftrightarrow> v = JBool b"
  by (cases v) auto

lemma noise_clean [simp]: "schema_noise k (clean_schema v) = schema_noise k v"
  by (simp add: schema_noise_def)

lemma clean_ok: "schema_ok (clean_schema v)" "fields_ok (clean_fields m)" "items_ok (clean_items xs)"
  by (induction v and m and xs rule: clean_schema_clean_fields_clean_items.induct) auto

lemma length_clean: "length (clean_fields m) \<le> length m"
  by (induction m) (auto intro: le_SucI)

lemma clean_fixed:
  "clean_schema v = v \<longleftrightarrow> schema_ok v" "clean_fields m = m \<longleftrightarrow> fields_ok m" "clean_items xs = xs \<longleftrightarrow> items_ok xs"
proof (induction v and m and xs rule: clean_schema_clean_fields_clean_items.induct)
  case (8 k v m)
  show ?case
  proof (cases "schema_noise k v")
    case True
    then show ?thesis using length_clean [of m] by (auto dest: arg_cong [of _ _ length])
  next
    case False
    with 8 show ?thesis by auto
  qed
qed auto

text \<open>Cleaning a tool's schema. The result has no \<open>$schema\<close>, no \<open>title\<close> and no
  \<open>additionalProperties: false\<close> at any depth; a schema without these is left exactly as it is; and
  cleaning twice is cleaning once.\<close>

theorem clean_schema_normal_form:
  "schema_ok (clean_schema v) \<and> (clean_schema v = v \<longleftrightarrow> schema_ok v) \<and> clean_schema (clean_schema v) = clean_schema v"
  using clean_ok(1) clean_fixed(1) by metis

definition function_tool :: "string \<Rightarrow> (string \<times> json) list \<Rightarrow> json \<Rightarrow> json" where
  "function_tool name props required =
     json_obj [(''type'', JStr ''function''), (''function'', json_obj [(''name'', JStr name),
       (''parameters'', json_obj [(''type'', JStr ''object''), (''properties'', JObj props), (''required'', required)])])]"

definition tool_parameter :: "json \<Rightarrow> string \<Rightarrow> json option" where
  "tool_parameter tool p =
     Option.bind (jget ''function'' tool) (\<lambda>f. Option.bind (jget ''parameters'' f) (\<lambda>s.
       Option.bind (jget ''properties'' s) (jget p)))"

lemma map_of_clean_noise: "(\<And>v. schema_noise k v) \<Longrightarrow> map_of (clean_fields m) k = None"
  by (induction m) auto

lemma map_of_clean_kept: "(\<And>v. \<not> schema_noise k v) \<Longrightarrow> map_of (clean_fields m) k = map_option clean_schema (map_of m k)"
  by (induction m) auto

lemma clean_object: "clean_schema (json_obj [(''type'', JStr ''object''), (''properties'', JObj props), (''required'', r)])
    = JObj (clean_fields (jmap_of [(''type'', JStr ''object''), (''properties'', JObj props), (''required'', r)]))"
  by (simp add: json_obj_def)

text \<open>A parameter called \<open>title\<close>. The cleaning does not tell a schema keyword from the name of a
  parameter: of the parameters of a tool, one named \<open>title\<close> or \<open>$schema\<close> is removed, whatever its type, and every
  parameter of another name but \<open>additionalProperties\<close> is kept. A model is thus never told of a \<open>title\<close> argument.\<close>

theorem title_parameter_lost:
  "\<exists>t. normalize_tool (function_tool name props required) = Some t
     \<and> tool_parameter t ''title'' = None
     \<and> (\<forall>p. p \<notin> {''title'', ''$schema'', ''additionalProperties''} \<longrightarrow> tool_parameter t p = map_option clean_schema (map_of props p))"
proof -
  let ?s = "json_obj [(''type'', JStr ''object''), (''properties'', JObj props), (''required'', required)]"
  let ?f = "jmap_of [(''name'', JStr name), (''parameters'', ?s)]"
  let ?t = "[(''type'', JStr ''function''), (''function'', JObj ?f)]"
  have t: "normalize_tool (function_tool name props required)
      = Some (JObj (jmap_insert ''function'' (JObj (jmap_insert ''parameters'' (clean_schema ?s) ?f)) (jmap_of ?t)))"
    by (simp add: function_tool_def normalize_tool_def get_str_def clean_function_def json_obj_def)
  have sp: "jget ''properties'' (clean_schema ?s) = Some (JObj (clean_fields props))"
    unfolding clean_object by (simp add: map_of_clean_kept schema_noise_def)
  have "map_of (clean_fields props) ''title'' = None"
    by (rule map_of_clean_noise) (simp add: schema_noise_def)
  moreover have "map_of (clean_fields props) p = map_option clean_schema (map_of props p)"
    if "p \<notin> {''title'', ''$schema'', ''additionalProperties''}" for p
    using that by (intro map_of_clean_kept) (simp add: schema_noise_def)
  ultimately show ?thesis by (simp add: t tool_parameter_def sp)
qed

section \<open>Messages\<close>

lemma roles_no_developer: "get_str ''role'' (normalize_message_roles msg) \<noteq> Some ''developer''"
  by (cases msg) (auto simp: normalize_message_roles_def get_str_def)

lemma roles_id: "get_str ''role'' msg \<noteq> Some ''developer'' \<Longrightarrow> normalize_message_roles msg = msg"
  by (simp add: normalize_message_roles_def)

lemma tool_message_no_developer: "get_str ''role'' (tool_message part) \<noteq> Some ''developer''"
  by (simp add: tool_message_def get_str_def)

lemma message_no_developer: "get_str ''role'' (normalize_tool_message msg) \<noteq> Some ''developer''"
  using roles_no_developer [of msg] tool_message_no_developer
  by (simp add: normalize_tool_message_def Let_def hd_map split: option.split)

text \<open>The results of tool calls. A user message made of the results of tool calls becomes a tool message only
  when it holds a single result and nothing else; the results of parallel calls, and a result with some text, are
  passed on in a shape chat completion servers do not know.\<close>

theorem only_single_tool_result_translated:
  "normalize_tool_message (user_message (JArr parts)) =
     (case parts of [p] \<Rightarrow> if is_tool_result p then tool_message p else user_message (JArr parts)
                  | _ \<Rightarrow> user_message (JArr parts))"
proof -
  have u: "normalize_message_roles (user_message (JArr parts)) = user_message (JArr parts)"
    by (rule roles_id) (simp add: user_message_def get_str_def)
  have "normalize_tool_message (user_message (JArr parts)) =
      (if length (filter is_tool_result parts) = 1 \<and> filter (\<lambda>p. \<not> is_tool_result p) parts = []
       then tool_message (hd (filter is_tool_result parts)) else user_message (JArr parts))"
    unfolding normalize_tool_message_def u
    by (auto simp: user_message_def get_str_def Let_def hd_map)
  moreover have "length (filter is_tool_result parts) + length (filter (\<lambda>p. \<not> is_tool_result p) parts) = length parts"
    by (rule sum_length_filter_compl)
  ultimately show ?thesis by (cases parts; cases "tl parts") (auto split: if_splits)
qed

section \<open>The whole request\<close>

lemma usage_other: "k \<noteq> ''stream_options'' \<Longrightarrow> jget k (fst (ensure_stream_usage body)) = jget k body"
  by (cases body) (auto simp: ensure_stream_usage_def Let_def split: json.split)

lemma remove_fields: "map_of (foldl (\<lambda>m k. jmap_remove k m) m ks) k = (if k \<in> set ks then None else map_of m k)"
  by (induction ks arbitrary: m) auto

lemma strip_fields:
  "jget k (fst (strip_responses_only_fields body)) = (if k \<in> set RESPONSES_ONLY_FIELDS then None else jget k body)"
  by (cases body) (simp_all add: strip_responses_only_fields_def remove_fields)

lemma messages_fields:
  "jget k (normalize_tool_messages body) =
     (if k = ''messages''
      then (case jget ''messages'' body of Some (JArr ms) \<Rightarrow> Some (JArr (map normalize_tool_message ms)) | other \<Rightarrow> other)
      else jget k body)"
  by (cases body) (auto simp: normalize_tool_messages_def split: option.split json.split)

lemma tools_fields:
  "jget k (take_tools body) = (if k = ''tools'' then map_option normalize_tools_array (jget ''tools'' body) else jget k body)"
  by (cases body) (auto simp: take_tools_def split: option.split)

lemma input_fields:
  "jget k (take_input print (JObj obj)) =
     (case map_of obj ''input'' of
        None \<Rightarrow> map_of obj k
      | Some input \<Rightarrow> if k = ''input'' then None else if k = ''messages'' then Some (input_to_messages print input) else map_of obj k)"
  by (auto simp: take_input_def split: option.split)

lemma normalized_fields:
  assumes "k \<notin> {''stream_options'', ''options''}"
  shows "jget k (fst (normalize_chat_request_with_default print body dp dc))
    = jget k (normalize_tool_messages (fst (strip_responses_only_fields (take_tools (take_input print body)))))"
  using assms
  by (simp add: normalize_chat_request_with_default_def Let_def case_prod_beta ctx_other_fields predict_other_fields usage_other)

text \<open>The request a model gets. Responses-only fields and \<open>input\<close> are gone; the messages are those of \<open>input\<close> where the
  agent sent one, else its own, each normalised, and none keeps the \<open>developer\<close> role; the tools are the
  normalised tools; \<open>options\<close> and \<open>stream_options\<close> aside, every other field is the agent's.\<close>

theorem normalized_request_exact:
  fixes obj print dp dc
  defines "out \<equiv> fst (normalize_chat_request_with_default print (JObj obj) dp dc)"
  shows "(\<forall>k\<in>set (''input'' # RESPONSES_ONLY_FIELDS). jget k out = None)
    \<and> (\<forall>k. k \<notin> set ([''input'', ''messages'', ''tools'', ''options'', ''stream_options''] @ RESPONSES_ONLY_FIELDS)
         \<longrightarrow> jget k out = map_of obj k)
    \<and> jget ''tools'' out = map_option normalize_tools_array (map_of obj ''tools'')
    \<and> (let messages = (case map_of obj ''input'' of Some i \<Rightarrow> Some (input_to_messages print i) | None \<Rightarrow> map_of obj ''messages'')
       in jget ''messages'' out = (case messages of Some (JArr ms) \<Rightarrow> Some (JArr (map normalize_tool_message ms)) | other \<Rightarrow> other))
    \<and> (\<forall>ms m. jget ''messages'' out = Some (JArr ms) \<and> m \<in> set ms \<longrightarrow> get_str ''role'' m \<noteq> Some ''developer'')"
proof -
  let ?in = "case map_of obj ''input'' of Some i \<Rightarrow> Some (input_to_messages print i) | None \<Rightarrow> map_of obj ''messages''"
  have f: "jget k out = (if k \<in> set RESPONSES_ONLY_FIELDS \<or> k = ''input'' then None
        else if k = ''tools'' then map_option normalize_tools_array (map_of obj ''tools'')
        else if k = ''messages'' then (case ?in of Some (JArr ms) \<Rightarrow> Some (JArr (map normalize_tool_message ms)) | other \<Rightarrow> other)
        else map_of obj k)" if "k \<notin> {''stream_options'', ''options''}" for k
    using that unfolding out_def normalized_fields [OF that] messages_fields strip_fields tools_fields input_fields
    by (simp add: RESPONSES_ONLY_FIELDS_def split: option.split json.split)
  have m: "jget ''messages'' out = (case ?in of Some (JArr ms) \<Rightarrow> Some (JArr (map normalize_tool_message ms)) | other \<Rightarrow> other)"
    by (subst f) (simp_all add: RESPONSES_ONLY_FIELDS_def)
  have "get_str ''role'' x \<noteq> Some ''developer''" if "jget ''messages'' out = Some (JArr ms)" "x \<in> set ms" for ms x
    using that message_no_developer unfolding m by (auto split: option.splits json.splits)
  moreover have "\<forall>k\<in>set (''input'' # RESPONSES_ONLY_FIELDS). jget k out = None"
    by (auto simp: f RESPONSES_ONLY_FIELDS_def)
  moreover have "jget ''tools'' out = map_option normalize_tools_array (map_of obj ''tools'')"
    by (subst f) (simp_all add: RESPONSES_ONLY_FIELDS_def)
  moreover have "jget k out = map_of obj k"
    if "k \<notin> set ([''input'', ''messages'', ''tools'', ''options'', ''stream_options''] @ RESPONSES_ONLY_FIELDS)" for k
    using that by (subst f) auto
  ultimately show ?thesis using m by (simp add: Let_def)
qed

section \<open>Witnesses\<close>

definition toy_params :: "(string \<times> json) list" where
  "toy_params = [(''title'', JObj []), (''path'', JObj [])]"

lemma title_parameter_lost_witness:
  "\<exists>t. normalize_tool (function_tool ''file'' toy_params JNull) = Some t
     \<and> tool_parameter t ''title'' = None \<and> tool_parameter t ''path'' = Some (JObj [])"
proof -
  obtain t where t: "normalize_tool (function_tool ''file'' toy_params JNull) = Some t" "tool_parameter t ''title'' = None"
    and "\<forall>p. p \<notin> {''title'', ''$schema'', ''additionalProperties''} \<longrightarrow> tool_parameter t p = map_option clean_schema (map_of toy_params p)"
    using title_parameter_lost [of "''file''" toy_params JNull] by (elim exE conjE)
  from this(3) [rule_format, of "''path''"] have "tool_parameter t ''path'' = Some (JObj [])"
    by (simp add: toy_params_def)
  with t show ?thesis by (intro exI [of _ t] conjI)
qed

lemma normalized_request_exact_witness:
  "jget ''model'' (fst (normalize_chat_request_with_default (\<lambda>_. []) (JObj [(''model'', JStr ''m''), (''store'', JBool True)]) (Some 5) None))
     = Some (JStr ''m'')"
  using normalized_request_exact [of "\<lambda>_. []" "[(''model'', JStr ''m''), (''store'', JBool True)]" "Some 5" None]
  by (simp add: RESPONSES_ONLY_FIELDS_def)

end
