(* ===== verification/Agent_Answer.thy ===== *)
theory Agent_Answer
  imports Agent_Request Token_Usage Utf8_Chunks
begin

text \<open>
  What the peer does to a model's answer before the agent gets it (\<open>agent_compat.rs\<close>): text that is a
  tool call in disguise becomes a structured call, in a whole answer and in a stream of server-sent
  events. The record holds what the code gets from outside: JSON parsing and printing, fresh ids (of the
  call with a given index) and the time. A slice off a character boundary panics, written \<open>None\<close>.
\<close>

record agent_world =
  aw_parse :: "string \<Rightarrow> json option"
  aw_print :: "json \<Rightarrow> string"
  aw_id :: "nat \<Rightarrow> string"
  aw_now :: nat

record agent_response_summary =
  arp_had_structured_tool_calls :: bool
  arp_rewrote_text_tool_call :: bool
  arp_finish_reason :: "string option"
  arp_content_preview :: "string option"

section \<open>Text\<close>

function trim_start_matches_str :: "string \<Rightarrow> string \<Rightarrow> string" where
  "trim_start_matches_str p s =
     (if p \<noteq> [] \<and> prefix p s then trim_start_matches_str p (drop (length p) s) else s)"
  by pat_completeness auto
termination by (relation "measure (\<lambda>(p, s). length s)") (auto simp: prefix_def)

declare trim_start_matches_str.simps [simp del]

definition trim_end_matches_str :: "string \<Rightarrow> string \<Rightarrow> string" where
  "trim_end_matches_str p s = rev (trim_start_matches_str (rev p) (rev s))"

definition QUOTE :: char where "QUOTE = CHR 0x22"
definition BACKSLASH :: char where "BACKSLASH = CHR 0x5C"
definition ELLIPSIS :: string where "ELLIPSIS = [CHR 0xE2, CHR 0x80, CHR 0xA6]"

definition truncate_preview :: "string \<Rightarrow> nat \<Rightarrow> string option" where
  "truncate_preview s n =
     (if length s \<le> n then Some s
      else if is_char_boundary s n then Some (take n s @ ELLIPSIS) else None)"

text \<open>The bytes up to the brace that closes the first one; braces in strings do not count. UTF-8 keeps
  \<open>{\<close>, \<open>}\<close>, \<open>"\<close> and the backslash to themselves, so bytes can stand for characters.\<close>

fun balanced_from :: "nat \<Rightarrow> bool \<Rightarrow> bool \<Rightarrow> string \<Rightarrow> string option" where
  "balanced_from depth in_string escape [] = None"
| "balanced_from depth in_string escape (c # cs) =
     map_option ((#) c)
       (if in_string
        then (if escape then balanced_from depth True False cs
              else if c = BACKSLASH then balanced_from depth True True cs
              else if c = QUOTE then balanced_from depth False False cs
              else balanced_from depth True False cs)
        else if c = QUOTE then balanced_from depth True False cs
        else if c = CHR ''{'' then balanced_from (Suc depth) False False cs
        else if c = CHR ''}''
        then (if depth = 0 then None else if depth = 1 then Some [] else balanced_from (depth - 1) False False cs)
        else balanced_from depth False False cs)"

definition extract_balanced_json_object :: "string \<Rightarrow> string option" where
  "extract_balanced_json_object s0 =
     (let s = trim_start s0 in if prefix ''{'' s then balanced_from 0 False False s else None)"

section \<open>Tool calls in text\<close>

definition tool_call_entry :: "agent_world \<Rightarrow> nat \<Rightarrow> string \<Rightarrow> json \<Rightarrow> json" where
  "tool_call_entry w index name args =
     (let args_str = (case args of JStr s \<Rightarrow> s | _ \<Rightarrow> aw_print w args)
      in json_obj [(''index'', json_nat index), (''id'', JStr (''call_'' @ aw_id w index)), (''type'', JStr ''function''),
           (''function'', json_obj [(''name'', JStr name), (''arguments'', JStr args_str)])])"

definition item_call :: "agent_world \<Rightarrow> nat \<times> json \<Rightarrow> json option" where
  "item_call w p =
     (case snd p of
        JObj m \<Rightarrow>
          map_option (\<lambda>name. tool_call_entry w (fst p) name (unwrap_or (map_of m ''arguments'') (JObj [])))
            (Option.bind (map_of m ''name'') as_str)
      | _ \<Rightarrow> None)"

definition value_to_tool_calls :: "agent_world \<Rightarrow> json \<Rightarrow> json option" where
  "value_to_tool_calls w v =
     (case v of
        JObj m \<Rightarrow> map_option (\<lambda>call. JArr [call]) (item_call w (0, v))
      | JArr arr \<Rightarrow>
          (let calls = List.map_filter (item_call w) (List.enumerate 0 arr)
           in if calls = [] then None else Some (JArr calls))
      | _ \<Rightarrow> None)"

definition parse_tool_calls_json :: "agent_world \<Rightarrow> string \<Rightarrow> json option" where
  "parse_tool_calls_json w raw =
     (case Option.bind (aw_parse w raw) (value_to_tool_calls w) of
        Some calls \<Rightarrow> Some calls
      | None \<Rightarrow>
          Option.bind (extract_balanced_json_object raw) (\<lambda>s. Option.bind (aw_parse w s) (value_to_tool_calls w)))"

definition FENCE :: string where "FENCE = ''```''"

definition find_brace :: "string \<Rightarrow> (string \<times> string) option" where
  "find_brace s = (if CHR ''{'' \<in> set s
     then Some (takeWhile (\<lambda>c. c \<noteq> CHR ''{'') s, dropWhile (\<lambda>c. c \<noteq> CHR ''{'') s) else None)"

definition fenced_calls :: "agent_world \<Rightarrow> string \<Rightarrow> json option" where
  "fenced_calls w s =
     (if prefix FENCE s
      then parse_tool_calls_json w (trim (trim_end_matches_str FENCE
             (trim_start_matches_str FENCE (trim_start_matches_str (FENCE @ ''json'') s))))
      else None)"

definition text_content_to_tool_calls :: "agent_world \<Rightarrow> string \<Rightarrow> json option" where
  "text_content_to_tool_calls w content =
     (let s = trim content
      in if s = [] then None
         else opt_or (parse_tool_calls_json w s)
                (opt_or (fenced_calls w s)
                   (Option.bind (find_brace s) (\<lambda>(before, rest). parse_tool_calls_json w rest))))"

section \<open>Whole answers\<close>

definition message_text_content :: "json \<Rightarrow> string" where
  "message_text_content message =
     (case jget ''content'' message of
        Some (JStr s) \<Rightarrow> s
      | Some (JArr parts) \<Rightarrow>
          concat (List.map_filter (\<lambda>part. if get_str ''type'' part = Some ''text'' then get_str ''text'' part
                                          else as_str part) parts)
      | _ \<Rightarrow> [])"

definition choices_of :: "json \<Rightarrow> json list" where
  "choices_of body = unwrap_or (Option.bind (jget ''choices'' body) as_array) []"

definition with_choices :: "json list \<Rightarrow> json \<Rightarrow> json" where
  "with_choices choices body = unwrap_or (jset ''choices'' (JArr choices) body) body"

definition has_tool_calls :: "json \<Rightarrow> bool" where
  "has_tool_calls v = (case Option.bind (jget ''tool_calls'' v) as_array of Some a \<Rightarrow> a \<noteq> [] | None \<Rightarrow> False)"

definition no_response_summary :: agent_response_summary where
  "no_response_summary = \<lparr>arp_had_structured_tool_calls = False, arp_rewrote_text_tool_call = False,
     arp_finish_reason = None, arp_content_preview = None\<rparr>"

definition rewrite_chat_response :: "agent_world \<Rightarrow> json \<Rightarrow> (json \<times> agent_response_summary) option" where
  "rewrite_chat_response w body =
     (case choices_of body of
        [] \<Rightarrow> Some (body, no_response_summary)
      | choice # rest \<Rightarrow>
          (let summary = no_response_summary\<lparr>arp_finish_reason := get_str ''finish_reason'' choice\<rparr>
           in case jget ''message'' choice of
                None \<Rightarrow> Some (body, summary)
              | Some message \<Rightarrow>
                  if has_tool_calls message then Some (body, summary\<lparr>arp_had_structured_tool_calls := True\<rparr>)
                  else Option.bind (truncate_preview (message_text_content message) 200) (\<lambda>preview.
                    let summary = summary\<lparr>arp_content_preview := Some preview\<rparr>
                    in case text_content_to_tool_calls w (message_text_content message) of
                         None \<Rightarrow> Some (body, summary)
                       | Some calls \<Rightarrow>
                           Option.bind (jset ''content'' JNull message) (\<lambda>m.
                           Option.bind (jset ''tool_calls'' calls m) (\<lambda>m.
                           Option.bind (jset ''message'' m choice) (\<lambda>c.
                           Option.bind (jset ''finish_reason'' (JStr ''tool_calls'') c) (\<lambda>c.
                             Some (with_choices (c # rest) body,
                                   summary\<lparr>arp_rewrote_text_tool_call := True, arp_had_structured_tool_calls := True\<rparr>))))))))"

definition function_field :: "string \<Rightarrow> json \<Rightarrow> string option" where
  "function_field k tc = Option.bind (Option.bind (jget ''function'' tc) (jget k)) as_str"

definition output_call :: "json \<Rightarrow> json" where
  "output_call tc =
     json_obj [(''type'', JStr ''function_call''), (''call_id'', JStr (unwrap_or (get_str ''id'' tc) ''call_unknown'')),
       (''name'', JStr (unwrap_or (function_field ''name'' tc) [])),
       (''arguments'', JStr (unwrap_or (function_field ''arguments'' tc) ''{}'')), (''status'', JStr ''completed'')]"

definition chat_completion_to_responses :: "agent_world \<Rightarrow> json \<Rightarrow> json" where
  "chat_completion_to_responses w body =
     (let message = (case choices_of body of [] \<Rightarrow> None | choice # _ \<Rightarrow> jget ''message'' choice);
          output = (case message of
              None \<Rightarrow> []
            | Some msg \<Rightarrow>
                (let text' = message_text_content msg
                 in (if text' \<noteq> []
                     then [json_obj [(''type'', JStr ''message''), (''role'', JStr ''assistant''),
                             (''content'', JArr [json_obj [(''type'', JStr ''output_text''), (''text'', JStr text')]])]]
                     else [])
                    @ map output_call (unwrap_or (Option.bind (jget ''tool_calls'' msg) as_array) [])))
      in json_obj [(''id'', JStr (''resp_'' @ aw_id w 0)), (''object'', JStr ''response''),
           (''created_at'', json_nat (aw_now w)), (''status'', JStr ''completed''),
           (''model'', unwrap_or (jget ''model'' body) JNull), (''output'', JArr output)])"

section \<open>Streams\<close>

record stream_chunk_meta =
  scm_id :: "string option"
  scm_model :: "string option"
  scm_created :: "nat option"

record sse_transform_state =
  sse_accumulated :: string
  sse_suppress_content :: bool
  sse_last_summary :: "agent_response_summary option"
  sse_response_format :: agent_response_format
  sse_stream_meta :: stream_chunk_meta

definition with_response_format :: "agent_response_format \<Rightarrow> sse_transform_state" where
  "with_response_format f =
     \<lparr>sse_accumulated = [], sse_suppress_content = False, sse_last_summary = None, sse_response_format = f,
      sse_stream_meta = \<lparr>scm_id = None, scm_model = None, scm_created = None\<rparr>\<rparr>"

definition DATA :: string where "DATA = ''data: ''"
definition DONE :: string where "DONE = ''data: [DONE]''"
definition CHOICES_KEY :: string where "CHOICES_KEY = QUOTE # ''choices'' @ [QUOTE]"

definition is_bare_chunk :: "string \<Rightarrow> bool" where
  "is_bare_chunk s = (prefix ''{'' s \<and> contains_str CHOICES_KEY s)"

definition normalize_sse_data_line :: "string \<Rightarrow> string option" where
  "normalize_sse_data_line line =
     (let s = trim line
      in if s = [] then None
         else if s = ''[DONE]'' then Some DONE
         else (case strip_prefix_str ''data:'' s of
                 Some payload \<Rightarrow>
                   (let payload = trim payload in Some (if payload = ''[DONE]'' then DONE else DATA @ payload))
               | None \<Rightarrow> if is_bare_chunk s then Some (DATA @ s) else None))"

definition sse_payload_from_line :: "string \<Rightarrow> string option" where
  "sse_payload_from_line line =
     opt_or (map_option trim (strip_prefix_str ''data:'' (trim line)))
       (if is_bare_chunk (trim line) then Some (trim line) else None)"

definition capture_stream_meta :: "json \<Rightarrow> sse_transform_state \<Rightarrow> sse_transform_state" where
  "capture_stream_meta chunk st =
     (let meta = sse_stream_meta st
      in if scm_id meta \<noteq> None then st
         else st\<lparr>sse_stream_meta := \<lparr>scm_id = get_str ''id'' chunk,
                scm_model = opt_or (get_str ''model'' chunk) (scm_model meta),
                scm_created = opt_or (get_u64 ''created'' chunk) (scm_created meta)\<rparr>\<rparr>)"

definition chat_stream_chunk :: "agent_world \<Rightarrow> sse_transform_state \<Rightarrow> json \<Rightarrow> json" where
  "chat_stream_chunk w st choices =
     (let meta = sse_stream_meta st
      in json_obj [(''id'', JStr (unwrap_or (scm_id meta) ''chatcmpl-mtrxAI'')), (''object'', JStr ''chat.completion.chunk''),
           (''created'', json_nat (unwrap_or (scm_created meta) (aw_now w))),
           (''model'', JStr (unwrap_or (scm_model meta) ''unknown'')), (''choices'', choices)])"

definition delta_line :: "agent_world \<Rightarrow> sse_transform_state \<Rightarrow> json \<Rightarrow> json \<Rightarrow> string" where
  "delta_line w st delta finish =
     DATA @ aw_print w (chat_stream_chunk w st
       (JArr [json_obj [(''index'', json_nat 0), (''delta'', delta), (''finish_reason'', finish)]]))"

definition call_lines :: "agent_world \<Rightarrow> sse_transform_state \<Rightarrow> json \<Rightarrow> string list" where
  "call_lines w st tc =
     (let index = json_nat (unwrap_or (get_u64 ''index'' tc) 0);
          args = unwrap_or (function_field ''arguments'' tc) ''{}''
      in delta_line w st (json_obj [(''tool_calls'', JArr [json_obj [(''index'', index),
              (''id'', JStr (unwrap_or (get_str ''id'' tc) ''call_unknown'')), (''type'', JStr ''function''),
              (''function'', json_obj [(''name'', JStr (unwrap_or (function_field ''name'' tc) [])), (''arguments'', JStr [])])]])]) JNull
         # (if args \<noteq> []
            then [delta_line w st (json_obj [(''tool_calls'', JArr [json_obj [(''index'', index),
                     (''function'', json_obj [(''arguments'', JStr args)])]])]) JNull]
            else []))"

definition responses_call_lines :: "agent_world \<Rightarrow> nat \<times> json \<Rightarrow> string list" where
  "responses_call_lines w p =
     (let tc = snd p;
          call_id = JStr (unwrap_or (get_str ''id'' tc) ''call_unknown'');
          name = JStr (unwrap_or (function_field ''name'' tc) []);
          args = JStr (unwrap_or (function_field ''arguments'' tc) ''{}'')
      in [DATA @ aw_print w (json_obj [(''type'', JStr ''response.output_item.added''), (''output_index'', json_nat (fst p)),
            (''item'', json_obj [(''type'', JStr ''function_call''), (''call_id'', call_id), (''name'', name), (''arguments'', JStr [])])]),
          DATA @ aw_print w (json_obj [(''type'', JStr ''response.function_call_arguments.done''), (''call_id'', call_id),
            (''name'', name), (''arguments'', args)])])"

definition responses_stream_from_tool_calls :: "agent_world \<Rightarrow> json \<Rightarrow> string list" where
  "responses_stream_from_tool_calls w tool_calls =
     (case as_array tool_calls of
        None \<Rightarrow> []
      | Some calls \<Rightarrow>
          concat (map (responses_call_lines w) (List.enumerate 0 calls))
          @ [DATA @ aw_print w (json_obj [(''type'', JStr ''response.completed''),
               (''response'', json_obj [(''id'', JStr (''resp_'' @ aw_id w 0)), (''object'', JStr ''response''),
                  (''status'', JStr ''completed''), (''output'', JArr (map output_call calls))])])])"

definition streaming_tool_call_sse_lines :: "agent_world \<Rightarrow> sse_transform_state \<Rightarrow> json \<Rightarrow> string list" where
  "streaming_tool_call_sse_lines w st tool_calls =
     (if sse_response_format st = ResponsesApi then responses_stream_from_tool_calls w tool_calls
      else (case as_array tool_calls of
              None \<Rightarrow> []
            | Some calls \<Rightarrow>
                [delta_line w st (json_obj [(''role'', JStr ''assistant'')]) JNull]
                @ concat (map (call_lines w st) calls)
                @ [delta_line w st (JObj []) (JStr ''tool_calls'')]))"

text \<open>The operations of the transformer return the lines for the client and the new state.\<close>

definition complete_suppressed ::
  "agent_world \<Rightarrow> sse_transform_state \<Rightarrow> (string list \<times> sse_transform_state) option" where
  "complete_suppressed w st =
     (let st = st\<lparr>sse_suppress_content := False\<rparr>
      in Option.bind (truncate_preview (sse_accumulated st) 200) (\<lambda>preview.
           case text_content_to_tool_calls w (sse_accumulated st) of
             Some calls \<Rightarrow>
               Some (streaming_tool_call_sse_lines w st calls,
                 st\<lparr>sse_accumulated := [], sse_last_summary := Some \<lparr>arp_had_structured_tool_calls = True,
                    arp_rewrote_text_tool_call = True, arp_finish_reason = Some ''tool_calls'',
                    arp_content_preview = Some preview\<rparr>\<rparr>)
           | None \<Rightarrow>
               Some ([delta_line w st (json_obj [(''content'', JNull)]) (JStr ''stop'')],
                 st\<lparr>sse_accumulated := [], sse_last_summary := Some \<lparr>arp_had_structured_tool_calls = False,
                    arp_rewrote_text_tool_call = False, arp_finish_reason = Some ''stop'',
                    arp_content_preview = Some preview\<rparr>\<rparr>)))"

definition hold_back :: "string \<Rightarrow> sse_transform_state \<Rightarrow> sse_transform_state" where
  "hold_back s st = st\<lparr>sse_suppress_content := True, sse_accumulated := sse_accumulated st @ s\<rparr>"

definition with_delta :: "json \<Rightarrow> json \<Rightarrow> json" where
  "with_delta delta chunk =
     (case choices_of chunk of
        [] \<Rightarrow> chunk
      | choice # rest \<Rightarrow> with_choices (unwrap_or (jset ''delta'' delta choice) choice # rest) chunk)"

definition finish_line ::
  "agent_world \<Rightarrow> string \<Rightarrow> json \<Rightarrow> sse_transform_state \<Rightarrow> (string list \<times> sse_transform_state) option" where
  "finish_line w normalized choice st =
     (if get_str ''finish_reason'' choice \<in> {Some ''stop'', Some ''length''} \<and> sse_suppress_content st
      then complete_suppressed w st else Some ([normalized], st))"

definition process_chunk ::
  "agent_world \<Rightarrow> string \<Rightarrow> json \<Rightarrow> sse_transform_state \<Rightarrow> (string list \<times> sse_transform_state) option" where
  "process_chunk w normalized chunk st0 =
     (let st = capture_stream_meta chunk st0
      in case choices_of chunk of
           [] \<Rightarrow> Some ([normalized], st)
         | choice # rest \<Rightarrow>
             (case jget ''delta'' choice of
                None \<Rightarrow> finish_line w normalized choice st
              | Some delta \<Rightarrow>
                  if has_tool_calls delta
                  then Some ([DATA @ aw_print w chunk],
                    st\<lparr>sse_last_summary := Some \<lparr>arp_had_structured_tool_calls = True, arp_rewrote_text_tool_call = False,
                       arp_finish_reason = get_str ''finish_reason'' choice, arp_content_preview = None\<rparr>\<rparr>)
                  else (case opt_filter (\<lambda>p. p \<noteq> []) (get_str ''content'' delta) of
                          None \<Rightarrow> finish_line w normalized choice st
                        | Some piece \<Rightarrow>
                            if sse_suppress_content st then Some ([], st\<lparr>sse_accumulated := sse_accumulated st @ piece\<rparr>)
                            else if prefix ''{'' (trim_start piece) then Some ([], hold_back piece st)
                            else (case find_brace piece of
                                    None \<Rightarrow> finish_line w normalized choice st
                                  | Some (before, json_part) \<Rightarrow>
                                      if before = [] then Some ([], hold_back json_part st)
                                      else Some ([DATA @ aw_print w (with_delta (json_obj [(''content'', JStr before)]) chunk)],
                                            hold_back json_part st)))))"

definition process_data ::
  "agent_world \<Rightarrow> string \<Rightarrow> sse_transform_state \<Rightarrow> (string list \<times> sse_transform_state) option" where
  "process_data w normalized st =
     (case aw_parse w (trim (trim_start_matches_str ''data:'' normalized)) of
        None \<Rightarrow> Some ([normalized], st)
      | Some chunk \<Rightarrow> process_chunk w normalized chunk st)"

text \<open>The line made up at the end of a stream is an object, so it takes the way of any other data line.\<close>

definition stop_chunk :: json where
  "stop_chunk = json_obj [(''choices'', JArr [json_obj [(''delta'', JObj []), (''finish_reason'', JStr ''stop'')]])]"

definition flush_on_stream_end ::
  "agent_world \<Rightarrow> sse_transform_state \<Rightarrow> (string list \<times> sse_transform_state) option" where
  "flush_on_stream_end w st =
     (if \<not> sse_suppress_content st \<or> sse_accumulated st = [] then Some ([], st)
      else (let line = DATA @ aw_print w stop_chunk
            in case normalize_sse_data_line line of
                 None \<Rightarrow> Some ([line], st)
               | Some normalized \<Rightarrow> process_data w normalized st))"

definition process_line ::
  "agent_world \<Rightarrow> string \<Rightarrow> sse_transform_state \<Rightarrow> (string list \<times> sse_transform_state) option" where
  "process_line w line st =
     (case normalize_sse_data_line line of
        None \<Rightarrow> Some ([line], st)
      | Some normalized \<Rightarrow>
          if normalized = DONE
          then map_option (\<lambda>(out, st). (out @ [DONE], st)) (flush_on_stream_end w st)
          else process_data w normalized st)"

definition finalize_stream ::
  "agent_world \<Rightarrow> bool \<Rightarrow> sse_transform_state \<Rightarrow> (string list \<times> sse_transform_state) option" where
  "finalize_stream w done_sent st =
     map_option (\<lambda>(out, st).
        (if done_sent \<or> list_ex (\<lambda>l. trim l = DONE) out then out else out @ [DONE], st)) (flush_on_stream_end w st)"

text \<open>Reading a stream back into one answer.\<close>

record completion_parts =
  cp_accumulated :: string
  cp_tool_calls :: "json option"
  cp_finish :: string

definition read_delta :: "json \<Rightarrow> completion_parts \<Rightarrow> completion_parts" where
  "read_delta delta p =
     p\<lparr>cp_tool_calls := opt_or (jget ''tool_calls'' delta) (cp_tool_calls p),
       cp_accumulated := cp_accumulated p @ unwrap_or (get_str ''content'' delta) []\<rparr>"

definition line_chunk :: "agent_world \<Rightarrow> string \<Rightarrow> json option" where
  "line_chunk w line = Option.bind (opt_filter (\<lambda>s. s \<noteq> ''[DONE]'') (sse_payload_from_line line)) (aw_parse w)"

definition read_line :: "agent_world \<Rightarrow> completion_parts \<Rightarrow> string \<Rightarrow> completion_parts" where
  "read_line w p line =
     (case line_chunk w line of
        None \<Rightarrow> p
      | Some chunk \<Rightarrow>
          (case choices_of chunk of
             [] \<Rightarrow> p
           | choice # _ \<Rightarrow>
               (let p = (case jget ''delta'' choice of Some delta \<Rightarrow> read_delta delta p | None \<Rightarrow> p)
                in case opt_filter (\<lambda>f. f \<noteq> []) (get_str ''finish_reason'' choice) of
                     Some f \<Rightarrow> p\<lparr>cp_finish := f\<rparr> | None \<Rightarrow> p)))"

definition sse_bytes_to_completion :: "agent_world \<Rightarrow> string \<Rightarrow> json" where
  "sse_bytes_to_completion w sse =
     (let p = foldl (read_line w) \<lparr>cp_accumulated = [], cp_tool_calls = None, cp_finish = ''stop''\<rparr> (str_lines sse);
          message = (case cp_tool_calls p of
              Some tc \<Rightarrow> json_obj [(''role'', JStr ''assistant''), (''content'', JNull), (''tool_calls'', tc)]
            | None \<Rightarrow> json_obj [(''role'', JStr ''assistant''), (''content'', JStr (cp_accumulated p))])
      in json_obj [(''choices'', JArr [json_obj [(''message'', message), (''finish_reason'', JStr (cp_finish p))]])])"

definition parse_chat_response_body :: "agent_world \<Rightarrow> string \<Rightarrow> json" where
  "parse_chat_response_body w body =
     (let s = trim body
      in if prefix ''data:'' s \<or> contains_str (NL # ''data:'') s then sse_bytes_to_completion w s
         else if is_bare_chunk s \<and> contains_str (QUOTE # ''delta'' @ [QUOTE]) s then sse_bytes_to_completion w s
         else unwrap_or (aw_parse w s) JNull)"

end
