(* ===== verification/Agent_Answer_Props.thy ===== *)
theory Agent_Answer_Props
  imports Agent_Answer
begin

text \<open>Properties of \<open>Agent_Answer\<close>: what the agent sees of an answer, whole or streamed.\<close>

section \<open>Whole answers\<close>

lemma tool_calls_of_empty [simp]: "text_content_to_tool_calls w [] = None"
  by (simp add: text_content_to_tool_calls_def)

lemma text_content_object: "message_text_content m \<noteq> [] \<Longrightarrow> \<exists>obj. m = JObj obj"
  by (cases m) (auto simp: message_text_content_def)

lemma preview_None: "truncate_preview s n = None \<longleftrightarrow> n < length s \<and> \<not> is_char_boundary s n"
  by (auto simp: truncate_preview_def)

text \<open>When the handling of a whole answer panics. The preview kept for the debug view cuts the text at
  byte 200, so an answer without structured tool calls whose text is longer and has a character of several
  bytes across that place takes the request down, and no other answer does.\<close>

theorem answer_panics_iff:
  "rewrite_chat_response w body = None \<longleftrightarrow>
     (\<exists>choice rest message. choices_of body = choice # rest \<and> jget ''message'' choice = Some message
        \<and> \<not> has_tool_calls message \<and> 200 < length (message_text_content message)
        \<and> \<not> is_char_boundary (message_text_content message) 200)"
proof (cases "choices_of body")
  case Nil
  then show ?thesis by (simp add: rewrite_chat_response_def)
next
  case (Cons choice rest)
  show ?thesis
  proof (cases "jget ''message'' choice")
    case None
    with Cons show ?thesis by (simp add: rewrite_chat_response_def Let_def)
  next
    case (Some message)
    let ?c = "message_text_content message"
    have obj: "\<exists>c. choice = JObj c" using Some by (cases choice) auto
    have "\<exists>m. message = JObj m" if "text_content_to_tool_calls w ?c = Some calls" for calls
      using that text_content_object [of message] by (cases "?c = []") auto
    with obj have "rewrite_chat_response w body = None \<longleftrightarrow> \<not> has_tool_calls message \<and> truncate_preview ?c 200 = None"
      by (cases "text_content_to_tool_calls w ?c"; cases "truncate_preview ?c 200")
         (auto simp: rewrite_chat_response_def Cons Some Let_def)
    with Cons Some show ?thesis by (simp add: preview_None)
  qed
qed

section \<open>Streams\<close>

definition reads :: "agent_world \<Rightarrow> string \<Rightarrow> json \<Rightarrow> bool" where
  "reads w line chunk = (case normalize_sse_data_line line of
     None \<Rightarrow> False
   | Some n \<Rightarrow> n \<noteq> DONE \<and> aw_parse w (trim (trim_start_matches_str ''data:'' n)) = Some chunk)"

text \<open>A chunk that carries a piece of text and no end of the answer.\<close>

definition piece_of :: "json \<Rightarrow> string option" where
  "piece_of chunk =
     (case choices_of chunk of
        [] \<Rightarrow> None
      | choice # _ \<Rightarrow>
          (case jget ''delta'' choice of
             None \<Rightarrow> None
           | Some delta \<Rightarrow>
               if has_tool_calls delta \<or> get_str ''finish_reason'' choice \<in> {Some ''stop'', Some ''length''} then None
               else opt_filter (\<lambda>p. p \<noteq> []) (get_str ''content'' delta)))"

fun process_lines :: "agent_world \<Rightarrow> string list \<Rightarrow> sse_transform_state \<Rightarrow> (string list \<times> sse_transform_state) option" where
  "process_lines w [] st = Some ([], st)"
| "process_lines w (l # ls) st =
     Option.bind (process_line w l st) (\<lambda>(out, st).
       map_option (\<lambda>(outs, st). (out @ outs, st)) (process_lines w ls st))"

lemma process_lines_append:
  "process_lines w (ks @ ls) st =
     Option.bind (process_lines w ks st) (\<lambda>(out, st). map_option (\<lambda>(outs, st). (out @ outs, st)) (process_lines w ls st))"
  by (induction ks arbitrary: st)
     (auto simp: option.map_comp comp_def case_prod_beta bind_eq_Some_conv map_option_case
       split: option.split Option.bind_split)

definition captures :: "json list \<Rightarrow> sse_transform_state \<Rightarrow> sse_transform_state" where
  "captures cs st = foldl (\<lambda>st c. capture_stream_meta c st) st cs"

lemma capture_keeps [simp]:
  "sse_accumulated (capture_stream_meta c st) = sse_accumulated st"
  "sse_suppress_content (capture_stream_meta c st) = sse_suppress_content st"
  "sse_response_format (capture_stream_meta c st) = sse_response_format st"
  by (simp_all add: capture_stream_meta_def Let_def)

lemma process_line_reads:
  "reads w line chunk \<Longrightarrow> process_line w line st = process_chunk w (the (normalize_sse_data_line line)) chunk st"
  by (auto simp: reads_def process_line_def process_data_def split: option.splits)

lemma piece_step:
  assumes "piece_of chunk = Some p"
  shows "process_chunk w n chunk st =
    (let st = capture_stream_meta chunk st
     in if sse_suppress_content st then Some ([], st\<lparr>sse_accumulated := sse_accumulated st @ p\<rparr>)
        else if prefix ''{'' (trim_start p) then Some ([], hold_back p st)
        else (case find_brace p of
                None \<Rightarrow> Some ([n], st)
              | Some (before, held) \<Rightarrow>
                  if before = [] then Some ([], hold_back held st)
                  else Some ([DATA @ aw_print w (with_delta (json_obj [(''content'', JStr before)]) chunk)], hold_back held st)))"
  using assms
  by (auto simp: piece_of_def process_chunk_def Let_def finish_line_def split: list.splits option.splits if_splits)

lemma no_brace: "CHR ''{'' \<notin> set p \<Longrightarrow> find_brace p = None"
  by (simp add: find_brace_def)

lemma set_strip_ws: "set (strip_ws ws n s) \<subseteq> set s"
proof (induction n arbitrary: s)
  case (Suc n)
  show ?case
  proof (cases "find (\<lambda>w. prefix w s) ws")
    case (Some a)
    with Suc [of "drop (length a) s"] set_drop_subset [of "length a" s] show ?thesis by auto
  qed simp
qed simp

lemma no_brace_start: "CHR ''{'' \<notin> set p \<Longrightarrow> \<not> prefix ''{'' (trim_start p)"
  using set_strip_ws [of white_space "length p" p] by (auto simp: trim_start_def prefix_def)

lemma plain_run:
  assumes "list_all2 (\<lambda>l c. reads w l c \<and> (\<exists>p. piece_of c = Some p \<and> CHR ''{'' \<notin> set p)) ls cs"
    and "\<not> sse_suppress_content st"
  shows "process_lines w ls st = Some (map (the \<circ> normalize_sse_data_line) ls, captures cs st)"
  using assms
proof (induction arbitrary: st rule: list_all2_induct)
  case (Cons l ls c cs)
  then obtain p where p: "piece_of c = Some p" "CHR ''{'' \<notin> set p" and l: "reads w l c" by auto
  have "process_line w l st = Some ([the (normalize_sse_data_line l)], capture_stream_meta c st)"
    using Cons.prems by (simp add: process_line_reads [OF l] piece_step [OF p(1)] no_brace [OF p(2)] no_brace_start [OF p(2)])
  with Cons.IH [of "capture_stream_meta c st"] Cons.prems show ?case by (simp add: captures_def)
qed (simp add: captures_def)

definition held_text :: "json list \<Rightarrow> string" where
  "held_text cs = concat (map (\<lambda>c. the (piece_of c)) cs)"

lemma held_run:
  assumes "list_all2 (\<lambda>l c. reads w l c \<and> piece_of c \<noteq> None) ls cs" "sse_suppress_content st"
  shows "\<exists>st'. process_lines w ls st = Some ([], st') \<and> sse_suppress_content st'
    \<and> sse_accumulated st' = sse_accumulated st @ held_text cs
    \<and> sse_response_format st' = sse_response_format st"
  using assms
proof (induction arbitrary: st rule: list_all2_induct)
  case (Cons l ls c cs)
  then obtain p where p: "piece_of c = Some p" and l: "reads w l c" by auto
  let ?st = "(capture_stream_meta c st)\<lparr>sse_accumulated := sse_accumulated st @ p\<rparr>"
  have 1: "process_line w l st = Some ([], ?st)"
    using Cons.prems by (simp add: process_line_reads [OF l] piece_step [OF p] Let_def)
  have "sse_suppress_content ?st" using Cons.prems by simp
  from Cons.IH [OF this] have "\<exists>st'. process_lines w ls ?st = Some ([], st') \<and> sse_suppress_content st'
      \<and> sse_accumulated st' = (sse_accumulated st @ p) @ held_text cs
      \<and> sse_response_format st' = sse_response_format st" by simp
  then obtain st' where "process_lines w ls ?st = Some ([], st')" "sse_suppress_content st'"
      "sse_accumulated st' = (sse_accumulated st @ p) @ held_text cs"
      "sse_response_format st' = sse_response_format st" by blast
  with 1 p show ?case by (auto simp: held_text_def)
qed (simp add: held_text_def)

lemma capture_stop [simp]: "capture_stream_meta stop_chunk st = st"
  by (cases st) (auto simp: capture_stream_meta_def stop_chunk_def get_str_def get_u64_def Let_def
      intro: stream_chunk_meta.equality)

lemma stop_chunk_process:
  assumes "sse_suppress_content st"
  shows "process_chunk w n stop_chunk st = complete_suppressed w st"
  using assms
  by (simp add: process_chunk_def choices_of_def stop_chunk_def [unfolded json_obj_def] has_tool_calls_def get_str_def finish_line_def
      Let_def capture_stop [unfolded stop_chunk_def json_obj_def])

lemma flush_held:
  assumes "reads w (DATA @ aw_print w stop_chunk) stop_chunk" "sse_suppress_content st" "sse_accumulated st \<noteq> []"
  shows "flush_on_stream_end w st = complete_suppressed w st"
  using assms stop_chunk_process
  by (auto simp: flush_on_stream_end_def reads_def process_data_def split: option.splits)


lemma complete_suppressed_lines:
  assumes "length (sse_accumulated st) \<le> 200 \<or> is_char_boundary (sse_accumulated st) 200"
  shows "\<exists>st'. complete_suppressed w st = Some (case text_content_to_tool_calls w (sse_accumulated st) of
       Some calls \<Rightarrow> streaming_tool_call_sse_lines w (st\<lparr>sse_suppress_content := False\<rparr>) calls
     | None \<Rightarrow> [delta_line w (st\<lparr>sse_suppress_content := False\<rparr>) (json_obj [(''content'', JNull)]) (JStr ''stop'')], st')"
proof -
  obtain p where "truncate_preview (sse_accumulated st) 200 = Some p"
    using assms by (cases "truncate_preview (sse_accumulated st) 200") (auto simp: preview_None)
  then show ?thesis
    by (cases "text_content_to_tool_calls w (sse_accumulated st)") (auto simp: complete_suppressed_def Let_def)
qed



section \<open>Reading a stream back\<close>

text \<open>The \<open>tool_calls\<close> field of the delta in a line, where it has one.\<close>

definition line_tool_calls :: "agent_world \<Rightarrow> string \<Rightarrow> json option" where
  "line_tool_calls w line =
     Option.bind (line_chunk w line) (\<lambda>chunk.
       case choices_of chunk of [] \<Rightarrow> None
     | choice # _ \<Rightarrow> Option.bind (jget ''delta'' choice) (jget ''tool_calls''))"

lemma read_line_calls: "cp_tool_calls (read_line w p line) = opt_or (line_tool_calls w line) (cp_tool_calls p)"
  by (auto simp: read_line_def line_tool_calls_def read_delta_def Let_def split: option.split list.split)

lemma read_lines_calls:
  "cp_tool_calls (foldl (read_line w) p ls)
     = (case List.map_filter (line_tool_calls w) (rev ls) of [] \<Rightarrow> cp_tool_calls p | tc # _ \<Rightarrow> Some tc)"
proof (induction ls rule: rev_induct)
  case (snoc l ls)
  then show ?case
    by (cases "line_tool_calls w l") (auto simp: read_line_calls List.map_filter_simps)
qed (simp add: List.map_filter_simps)

text \<open>Turning a stream into one answer. Of the tool calls in the stream only those of the last delta that has
  any are kept: the fragments a server sends one after the other, the name of the function first and then pieces of its
  arguments, are not put together, and all but the last are lost.\<close>

theorem only_last_tool_delta_kept:
  "\<exists>message rest. choices_of (sse_bytes_to_completion w sse) = [json_obj ((''message'', message) # rest)]
     \<and> jget ''tool_calls'' message =
         (case List.map_filter (line_tool_calls w) (rev (str_lines sse)) of [] \<Rightarrow> None | tc # _ \<Rightarrow> Some tc)"
proof -
  let ?p = "foldl (read_line w) \<lparr>cp_accumulated = [], cp_tool_calls = None, cp_finish = ''stop''\<rparr> (str_lines sse)"
  have "cp_tool_calls ?p = (case List.map_filter (line_tool_calls w) (rev (str_lines sse)) of [] \<Rightarrow> None | tc # _ \<Rightarrow> Some tc)"
    by (simp add: read_lines_calls split: list.split)
  moreover let ?m = "case cp_tool_calls ?p of
       Some tc \<Rightarrow> json_obj [(''role'', JStr ''assistant''), (''content'', JNull), (''tool_calls'', tc)]
     | None \<Rightarrow> json_obj [(''role'', JStr ''assistant''), (''content'', JStr (cp_accumulated ?p))]"
  have "choices_of (sse_bytes_to_completion w sse)
      = [json_obj ((''message'', ?m) # [(''finish_reason'', JStr (cp_finish ?p))])]"
    by (simp add: sse_bytes_to_completion_def Let_def choices_of_def)
  moreover have "jget ''tool_calls'' ?m = cp_tool_calls ?p" by (simp split: option.split)
  ultimately show ?thesis by metis
qed

section \<open>Events\<close>

text \<open>A reader of server-sent events collects the \<open>data\<close> lines up to the next empty line into one event, whose data is
  the lines joined by a line feed.\<close>

fun sse_events :: "string list \<Rightarrow> string list \<Rightarrow> string list list" where
  "sse_events acc [] = (if acc = [] then [] else [acc])"
| "sse_events acc (l # ls) = (if l = [] then (if acc = [] then [] else [acc]) @ sse_events [] ls else sse_events (acc @ [l]) ls)"

lemma sse_events_no_gap: "[] \<notin> set ls \<Longrightarrow> sse_events acc (ls @ [] # rest) = (if acc @ ls = [] then [] else [acc @ ls]) @ sse_events [] rest"
  by (induction ls arbitrary: acc) auto

lemma DATA_nonempty [simp]: "DATA @ s \<noteq> []"
  by (simp add: DATA_def)

lemma call_lines_nonempty: "[] \<notin> set (streaming_tool_call_sse_lines w st calls)"
  by (auto simp: streaming_tool_call_sse_lines_def responses_stream_from_tool_calls_def responses_call_lines_def delta_line_def
      call_lines_def Let_def DATA_def split: option.split)

text \<open>The structured call an agent gets in a stream. Its chunks, at least two for a chat completion, are written line
  after line with no empty line between them, so a reader of server-sent events takes them for a single event
  whose data is several JSON texts, not one.\<close>

theorem rewritten_call_is_one_event:
  "sse_events [] (streaming_tool_call_sse_lines w st (JArr calls) @ [] # rest)
     = [streaming_tool_call_sse_lines w st (JArr calls)] @ sse_events [] rest
   \<and> 2 + length calls \<le> length (streaming_tool_call_sse_lines w (st\<lparr>sse_response_format := ChatCompletions\<rparr>) (JArr calls))"
proof -
  have ne: "streaming_tool_call_sse_lines w st (JArr calls) \<noteq> []"
    by (simp add: streaming_tool_call_sse_lines_def responses_stream_from_tool_calls_def)
  have "length calls \<le> length (concat (map (call_lines w st') calls))" for st'
    by (induction calls) (auto simp: call_lines_def Let_def)
  with ne call_lines_nonempty [of w st "JArr calls"] show ?thesis
    by (simp add: sse_events_no_gap) (simp add: streaming_tool_call_sse_lines_def)
qed

section \<open>Witnesses\<close>

definition toy_chunk :: "string \<Rightarrow> json" where
  "toy_chunk s = json_obj [(''choices'', JArr [json_obj [(''delta'', json_obj [(''content'', JStr s)])]])]"

definition toy_agent :: agent_world where
  "toy_agent = \<lparr>aw_parse = (\<lambda>s. if s = ''1'' then Some (toy_chunk ''Use: '')
        else if s = ''2'' then Some (toy_chunk ''main() { '') else if s = ''3'' then Some (toy_chunk ''return; }'')
        else if s = ''S'' then Some stop_chunk else None),
     aw_print = (\<lambda>v. if v = stop_chunk then ''S'' else ''X''), aw_id = (\<lambda>_. []), aw_now = 0\<rparr>"



end
