(* ===== verification/Shared_State.thy ===== *)
theory Shared_State
  imports Gpu_Guard Peer_Stats Llm_Registry
begin

text \<open>
  The state the peer's tasks share (\<open>shared.rs\<close>) and the runs of local models kept in it
  (\<open>model_run.rs\<close>). The channels of the state carry no data and are left out; a time is in seconds.
\<close>

section \<open>Statuses\<close>

record cluster_status =
  cs_cluster_id :: string
  cs_name :: "string option"
  cs_visibility :: "string option"
  cs_lobby_connected :: bool
  cs_outbound_peers :: nat
  cs_inbound_peers :: nat
  cs_accepting_jobs :: bool
  cs_connected :: bool
  cs_network_models :: "json list"
  cs_schedule_enabled :: bool
  cs_schedule_start :: "string option"
  cs_schedule_end :: "string option"
  cs_schedule_next_transition_at :: "nat option"
  cs_schedule_inside_window :: bool
  cs_thermal_paused :: bool

record swarm_status =
  sst_swarm_id :: string
  sst_name :: "string option"
  sst_p2p_connected :: bool
  sst_outbound_peers :: nat
  sst_inbound_peers :: nat
  sst_accepting_jobs :: bool
  sst_connected :: bool
  sst_network_models :: "json list"
  sst_schedule_enabled :: bool
  sst_schedule_start :: "string option"
  sst_schedule_end :: "string option"
  sst_schedule_next_transition_at :: "nat option"
  sst_schedule_inside_window :: bool
  sst_thermal_paused :: bool

record model_start_request_state =
  msr_req_id :: string
  msr_model :: string
  msr_cluster_id :: "string option"
  msr_swarm_id :: "string option"
  msr_status :: string
  msr_progress_pct :: "nat option"
  msr_provider_peer :: "string option"
  msr_peers :: "string list option"
  msr_message :: "string option"
  msr_updated_at_unix :: nat

record model_start_offer_state =
  mso_req_id :: string
  mso_model :: string
  mso_cluster_id :: "string option"
  mso_swarm_id :: "string option"
  mso_requested_by :: string
  mso_estimated_vram_mb :: nat
  mso_disk_size_mb :: "nat option"
  mso_run_on_requester :: "bool option"
  mso_received_at_unix :: nat

record incoming_connection_offer_state =
  ico_req_id :: string
  ico_model :: string
  ico_cluster_id :: "string option"
  ico_requested_by :: string
  ico_received_at_unix :: nat

record local_model_run_state =
  lmr_job_id :: string
  lmr_model :: string
  lmr_status :: string
  lmr_progress_pct :: "nat option"
  lmr_message :: "string option"
  lmr_updated_at_unix :: nat

record app_state =
  app_my_id :: string
  app_peer_id :: string
  app_service_id :: string
  app_clusters :: "cluster_status list"
  app_swarms :: "swarm_status list"
  app_credit_balance :: int
  app_local_models :: "string list"
  app_local_models_full :: "json list"
  app_network_models :: "json list"
  app_outgoing_model_requests :: "model_start_request_state list"
  app_incoming_model_offers :: "model_start_offer_state list"
  app_incoming_connection_offers :: "incoming_connection_offer_state list"
  app_local_model_runs :: "local_model_run_state list"
  app_local_model_collisions :: "model_collision list"
  app_peer_info :: "peer_info option"
  app_last_advertised_hash :: "string option"
  app_show_info_cache :: "(string, json) hmap"
  app_last_gpu_host :: "gpu_host_status option"
  app_gpu_history :: gpu_history
  app_lobby_connected :: bool
  app_peer_connections :: "peer_connection_view list"
  app_gpu_thermal_guard :: gpu_thermal_guard_status

text \<open>The state at start (\<open>lib.rs\<close>): the identity, the balance known so far and the place, all else empty.\<close>

definition initial_app_state :: "string \<Rightarrow> string \<Rightarrow> int \<Rightarrow> peer_info option \<Rightarrow> app_state" where
  "initial_app_state peer_id service_id credit_balance info =
     \<lparr>app_my_id = peer_id, app_peer_id = peer_id, app_service_id = service_id, app_clusters = [], app_swarms = [],
      app_credit_balance = credit_balance, app_local_models = [], app_local_models_full = [], app_network_models = [],
      app_outgoing_model_requests = [], app_incoming_model_offers = [], app_incoming_connection_offers = [],
      app_local_model_runs = [], app_local_model_collisions = [], app_peer_info = info, app_last_advertised_hash = None,
      app_show_info_cache = hm_empty, app_last_gpu_host = None, app_gpu_history = \<lparr>ghist_short = [], ghist_long = []\<rparr>,
      app_lobby_connected = False, app_peer_connections = [], app_gpu_thermal_guard = default_guard_status\<rparr>"

datatype peer_direction = Inbound | Outbound

text \<open>The instant of the connection is the second it was made.\<close>

record tracked_peer =
  tp_peer_id :: string
  tp_cluster_id :: "string option"
  tp_swarm_id :: "string option"
  tp_direction :: peer_direction
  tp_connected_at :: nat
  tp_data_channel_open :: bool
  tp_attestation_flags :: nat

type_synonym peer_registry = "(string, tracked_peer) hmap"

definition peer_registry_key :: "string \<Rightarrow> string \<Rightarrow> string" where
  "peer_registry_key peer_id cluster_id = peer_id @ ''@cluster:'' @ cluster_id"

definition swarm_peer_registry_key :: "string \<Rightarrow> string \<Rightarrow> string" where
  "swarm_peer_registry_key peer_id swarm_id = peer_id @ ''@swarm:'' @ swarm_id"

section \<open>Commands between tasks\<close>

record proxy_request_command =
  prc_target_peer :: "string option"
  prc_model :: string
  prc_path :: string
  prc_body :: json
  prc_cluster_id :: "string option"
  prc_swarm_id :: "string option"

datatype model_start_action =
    MsRequest string string "string option" "string option"
  | MsRespond string bool "string option" "string option"

datatype connection_action = CnRespond string bool "string option"

datatype peer_moderation_action = CloseConnections string | Report string "string option"

section \<open>Runs of local models\<close>

definition upsert_local_run ::
  "nat \<Rightarrow> string \<Rightarrow> string \<Rightarrow> string \<Rightarrow> nat option \<Rightarrow> string option \<Rightarrow> app_state \<Rightarrow> app_state" where
  "upsert_local_run now job_id model status progress message state =
     (if list_ex (\<lambda>r. lmr_job_id r = job_id) (app_local_model_runs state)
      then state\<lparr>app_local_model_runs := update_first (\<lambda>r. lmr_job_id r = job_id)
             (\<lambda>r. r\<lparr>lmr_status := status, lmr_progress_pct := progress, lmr_message := message,
                   lmr_updated_at_unix := now\<rparr>) (app_local_model_runs state)\<rparr>
      else state\<lparr>app_local_model_runs := app_local_model_runs state @
             [\<lparr>lmr_job_id = job_id, lmr_model = model, lmr_status = status, lmr_progress_pct = progress,
               lmr_message = message, lmr_updated_at_unix = now\<rparr>]\<rparr>)"

end
