(* ===== verification/Network_Catalog.thy ===== *)
theory Network_Catalog
  imports Shared_State
begin

text \<open>
  \<open>network_catalog.rs\<close>: one list of the models the peers of all clusters and swarms offer, and the
  entries shown for them on the Ollama and OpenAI routes. The order in which a \<open>HashMap\<close> is walked is
  that of its list.
\<close>

section \<open>Peers of a model\<close>

definition peers_from_model :: "json \<Rightarrow> json list" where
  "peers_from_model model =
     (case Option.bind (jget ''_peers'' model) as_array of
        Some peers \<Rightarrow> peers
      | None \<Rightarrow>
          (case jget ''_peer'' model of
             Some peer \<Rightarrow> if \<not> is_null peer then [peer] else []
           | None \<Rightarrow> []))"

definition peer_id_from :: "json \<Rightarrow> string option" where
  "peer_id_from peer = get_str ''id'' peer"

definition non_empty_str :: "json option \<Rightarrow> bool" where
  "non_empty_str v = (case Option.bind v as_str of Some s \<Rightarrow> s \<noteq> [] | None \<Rightarrow> False)"

definition detail :: "string \<Rightarrow> json \<Rightarrow> json option" where
  "detail k model = Option.bind (jget ''details'' model) (jget k)"

definition model_metadata_score :: "json \<Rightarrow> nat" where
  "model_metadata_score model =
     (if non_empty_str (detail ''parameter_size'' model) then 10 else 0)
     + (if non_empty_str (detail ''quantization_level'' model) then 4 else 0)
     + (if unwrap_or (get_u64 ''size'' model) 0 > 0 then 5 else 0)
     + (if non_empty_str (jget ''digest'' model) then 3 else 0)"

definition prefer_richer_template :: "json \<Rightarrow> json \<Rightarrow> json" where
  "prefer_richer_template current candidate =
     (if model_metadata_score candidate > model_metadata_score current then candidate else current)"

definition peer_loaded :: "json \<Rightarrow> bool" where
  "peer_loaded peer = unwrap_or (get_bool ''loaded'' peer) False"

definition merge_peer_entries :: "json \<Rightarrow> json \<Rightarrow> json" where
  "merge_peer_entries existing incoming =
     (if peer_loaded incoming \<and> \<not> peer_loaded existing then incoming
      else if peer_loaded incoming
      then (case existing of JObj obj \<Rightarrow> JObj (jmap_insert ''loaded'' (JBool True) obj) | _ \<Rightarrow> existing)
      else existing)"

section \<open>The unified list\<close>

record agg_model =
  am_template :: json
  am_peers_by_id :: "(string, json) hmap"
  am_clusters :: "json list"
  am_swarms :: "json list"

datatype scope = ClusterScope | SwarmScope

fun scope_key :: "scope \<Rightarrow> string" where
  "scope_key ClusterScope = ''cluster_id''"
| "scope_key SwarmScope = ''swarm_id''"

definition scope_entry :: "scope \<Rightarrow> string \<Rightarrow> json \<Rightarrow> json" where
  "scope_entry scope sid model =
     json_obj [(scope_key scope, JStr sid),
       (''peer_count'', json_nat (unwrap_or (get_u64 ''_peer_count'' model) 1)),
       (''loaded_count'', json_nat (unwrap_or (get_u64 ''_loaded_count'' model) 0))]"

definition add_peer :: "(string, json) hmap \<Rightarrow> json \<Rightarrow> (string, json) hmap" where
  "add_peer m peer =
     (case peer_id_from peer of
        None \<Rightarrow> m
      | Some i \<Rightarrow>
          if hm_contains m i then hm_modify i (\<lambda>existing. merge_peer_entries existing peer) m
          else hm_insert i peer m)"

definition add_model :: "scope \<Rightarrow> string \<Rightarrow> (string, agg_model) hmap \<Rightarrow> json \<Rightarrow> (string, agg_model) hmap" where
  "add_model scope sid by_name model =
     (case get_str ''name'' model of
        None \<Rightarrow> by_name
      | Some name \<Rightarrow>
          (let entry = scope_entry scope sid model
           in hm_entry name \<lparr>am_template = model, am_peers_by_id = hm_empty, am_clusters = [], am_swarms = []\<rparr>
                (\<lambda>agg. agg\<lparr>am_template := prefer_richer_template (am_template agg) model,
                          am_clusters := (if scope = ClusterScope then am_clusters agg @ [entry] else am_clusters agg),
                          am_swarms := (if scope = SwarmScope then am_swarms agg @ [entry] else am_swarms agg),
                          am_peers_by_id := foldl add_peer (am_peers_by_id agg) (peers_from_model model)\<rparr>)
                by_name))"

definition add_scope ::
  "scope \<Rightarrow> (string, agg_model) hmap \<Rightarrow> string \<times> json list \<Rightarrow> (string, agg_model) hmap" where
  "add_scope scope by_name p = foldl (add_model scope (fst p)) by_name (snd p)"

definition network_scope_label :: "json \<Rightarrow> string option" where
  "network_scope_label model =
     (let listed = (\<lambda>k. case Option.bind (jget k model) as_array of Some a \<Rightarrow> a \<noteq> [] | None \<Rightarrow> False);
          has_cluster = listed ''_clusters'' \<or> jget ''_cluster_id'' model \<noteq> None;
          has_swarm = listed ''_swarms'' \<or> jget ''_swarm_id'' model \<noteq> None
      in if has_cluster \<and> has_swarm then Some ''both''
         else if has_cluster then Some ''cluster''
         else if has_swarm then Some ''swarm'' else None)"

definition primary_scope :: "scope \<Rightarrow> json list \<Rightarrow> json option" where
  "primary_scope scope entries =
     Option.bind (max_by_key (\<lambda>c. unwrap_or (get_u64 ''peer_count'' c) 0) entries) (jget (scope_key scope))"

definition insert_opt :: "string \<Rightarrow> json option \<Rightarrow> (string \<times> json) list \<Rightarrow> (string \<times> json) list" where
  "insert_opt k v obj = (case v of Some x \<Rightarrow> jmap_insert k x obj | None \<Rightarrow> obj)"

definition representative :: "json list \<Rightarrow> json" where
  "representative peers =
     unwrap_or (opt_or (find (\<lambda>p. get_bool ''loaded'' p = Some True) peers)
       (case peers of [] \<Rightarrow> None | p # _ \<Rightarrow> Some p)) JNull"

definition merged_model :: "string \<times> agg_model \<Rightarrow> json" where
  "merged_model p =
     (case p of (name, agg) \<Rightarrow>
        (let peers = hm_values (am_peers_by_id agg);
             loaded_count = length (filter (\<lambda>p. get_bool ''loaded'' p = Some True) peers);
             obj = unwrap_or (as_object (am_template agg)) [];
             obj = jmap_insert ''name'' (JStr name) obj;
             obj = jmap_insert ''_peer'' (representative peers) obj;
             obj = jmap_insert ''_peers'' (JArr peers) obj;
             obj = jmap_insert ''_peer_count'' (json_nat (length peers)) obj;
             obj = jmap_insert ''_loaded_count'' (json_nat loaded_count) obj;
             obj = (if am_clusters agg \<noteq> [] then jmap_insert ''_clusters'' (JArr (am_clusters agg)) obj else obj);
             obj = (if am_swarms agg \<noteq> [] then jmap_insert ''_swarms'' (JArr (am_swarms agg)) obj else obj);
             obj = insert_opt ''_cluster_id'' (primary_scope ClusterScope (am_clusters agg)) obj;
             obj = insert_opt ''_swarm_id'' (primary_scope SwarmScope (am_swarms agg)) obj
         in JObj (insert_opt ''_network_scope'' (map_option JStr (network_scope_label (JObj obj))) obj)))"

definition unified_models ::
  "(string, json list) hmap \<Rightarrow> (string, json list) hmap \<Rightarrow> json list" where
  "unified_models cluster_models swarm_models =
     (let by_name = foldl (add_scope ClusterScope) hm_empty cluster_models;
          by_name = foldl (add_scope SwarmScope) by_name swarm_models
      in sort_by_key (\<lambda>m. unwrap_or (get_str ''name'' m) []) (map merged_model by_name))"

definition attach_scope_models ::
  "(string, json list) hmap \<Rightarrow> (string, json list) hmap \<Rightarrow> cluster_status list \<Rightarrow> swarm_status list
     \<Rightarrow> cluster_status list \<times> swarm_status list" where
  "attach_scope_models cluster_models swarm_models clusters swarms =
     (map (\<lambda>c. c\<lparr>cs_network_models := unwrap_or (hm_get cluster_models (cs_cluster_id c)) []\<rparr>) clusters,
      map (\<lambda>s. s\<lparr>sst_network_models := unwrap_or (hm_get swarm_models (sst_swarm_id s)) []\<rparr>) swarms)"

definition sync_unified_network_models ::
  "(string, json list) hmap \<Rightarrow> (string, json list) hmap \<Rightarrow> app_state \<Rightarrow> app_state" where
  "sync_unified_network_models cluster_models swarm_models state =
     (let (clusters, swarms) = attach_scope_models cluster_models swarm_models (app_clusters state) (app_swarms state)
      in state\<lparr>app_network_models := unified_models cluster_models swarm_models,
               app_clusters := clusters, app_swarms := swarms\<rparr>)"

section \<open>Entries shown for network models\<close>

definition infer_parameter_size_from_name :: "string \<Rightarrow> string" where
  "infer_parameter_size_from_name name =
     (let tag = last (split_char (CHR '':'') name); lower = to_ascii_lowercase tag
      in if length lower > 1 \<and> last lower = CHR ''b''
            \<and> list_all (\<lambda>c. digit_val c \<noteq> None \<or> c = CHR ''.'') (trim_end_matches (CHR ''b'') lower)
         then to_ascii_uppercase tag else [])"

fun set_fields :: "(string \<times> json) list \<Rightarrow> json \<Rightarrow> json option" where
  "set_fields [] v = Some v"
| "set_fields ((k, x) # kvs) v = Option.bind (jset k x v) (set_fields kvs)"

definition copied_keys :: "string list" where
  "copied_keys = [''_status'', ''_peer'', ''_peers'', ''_peer_count'', ''_loaded_count'', ''_clusters'', ''_swarms'',
     ''_cluster_id'', ''_swarm_id'']"

definition enrich_openai_remote_model :: "json \<Rightarrow> json \<Rightarrow> json option" where
  "enrich_openai_remote_model remote_model network_model =
     set_fields
       (optional_field ''name'' JStr (get_str ''name'' network_model)
        @ List.map_filter (\<lambda>k. map_option (Pair k) (jget k network_model)) copied_keys
        @ optional_field ''_network_scope'' JStr (network_scope_label network_model))
       remote_model"

definition first_part :: "string \<Rightarrow> string" where
  "first_part name = hd (split_char (CHR '':'') name)"

definition zero_digest :: string where
  "zero_digest = ''sha256:'' @ replicate 64 (CHR ''0'')"

definition remote_details :: "json \<Rightarrow> string \<Rightarrow> (string \<times> json) list" where
  "remote_details network_model name =
     (let family = first_part name;
          parameter_size = (case opt_filter (\<lambda>s. s \<noteq> []) (Option.bind (detail ''parameter_size'' network_model) as_str) of
                              Some s \<Rightarrow> s | None \<Rightarrow> infer_parameter_size_from_name name);
          quantization_level = unwrap_or (Option.bind (detail ''quantization_level'' network_model) as_str) [];
          base = jmap_of [(''parent_model'', JStr []), (''format'', JStr ''remote''), (''family'', JStr family),
                   (''families'', JArr [JStr family]), (''parameter_size'', JStr parameter_size),
                   (''quantization_level'', JStr quantization_level)]
      in case Option.bind (jget ''details'' network_model) as_object of
           Some details \<Rightarrow>
             jmap_insert ''format'' (JStr ''remote'') (foldl (\<lambda>m (k, v). jmap_insert k v m) base details)
         | None \<Rightarrow> base)"

definition show_of_tag :: "json \<Rightarrow> string \<Rightarrow> json" where
  "show_of_tag tag name =
     json_obj [(''name'', JStr name), (''model'', JStr name),
       (''modified_at'', unwrap_or (jget ''modified_at'' tag) JNull),
       (''size'', unwrap_or (jget ''size'' tag) (json_nat 1)),
       (''digest'', unwrap_or (jget ''digest'' tag) (JStr [])),
       (''details'', unwrap_or (jget ''details'' tag) (JObj [])),
       (''capabilities'', JArr [JStr ''completion'']), (''remote'', JBool True)]"

text \<open>\<open>now\<close> is the current time as the code prints it.\<close>

definition ollama_tag_from_network_model :: "string \<Rightarrow> json \<Rightarrow> json option" where
  "ollama_tag_from_network_model now network_model =
     (let name = unwrap_or (get_str ''name'' network_model) ''unknown'';
          tag = json_obj [(''name'', JStr name), (''model'', JStr name),
                  (''modified_at'', unwrap_or (jget ''modified_at'' network_model) (JStr now)),
                  (''size'', unwrap_or (jget ''size'' network_model) (json_nat 1)),
                  (''digest'', JStr (unwrap_or (opt_filter (\<lambda>s. s \<noteq> []) (get_str ''digest'' network_model)) zero_digest)),
                  (''details'', JObj (remote_details network_model name))]
      in Option.bind (enrich_openai_remote_model tag network_model) (\<lambda>tag.
           if \<not> unwrap_or (map_option (\<lambda>v. \<not> is_null v) (jget ''_show_info'' network_model)) False
           then jset ''_show_info'' (show_of_tag tag name) tag
           else Some tag))"

definition network_model_show_info :: "string \<Rightarrow> json \<Rightarrow> json option" where
  "network_model_show_info now network_model =
     (case opt_filter (\<lambda>v. \<not> is_null v) (jget ''_show_info'' network_model) of
        Some existing \<Rightarrow> Some existing
      | None \<Rightarrow>
          Option.bind (ollama_tag_from_network_model now network_model) (\<lambda>tag.
            set_fields (optional_field ''remote_scope'' JStr (network_scope_label network_model))
              (show_of_tag tag (unwrap_or (get_str ''name'' tag) ''unknown''))))"

section \<open>What the unified list says\<close>

definition offered_models :: "(string, json list) hmap \<Rightarrow> (string, json list) hmap \<Rightarrow> json list" where
  "offered_models cluster_models swarm_models = concat (map snd cluster_models) @ concat (map snd swarm_models)"

definition peers_offering :: "json list \<Rightarrow> string \<Rightarrow> json list" where
  "peers_offering ms n = concat (map peers_from_model (filter (\<lambda>m. get_str ''name'' m = Some n) ms))"

definition offering_ids :: "json list \<Rightarrow> string \<Rightarrow> string set" where
  "offering_ids ms n = {i. \<exists>p\<in>set (peers_offering ms n). peer_id_from p = Some i}"

definition loaded_ids :: "json list \<Rightarrow> string \<Rightarrow> string set" where
  "loaded_ids ms n = {i. \<exists>p\<in>set (peers_offering ms n). peer_id_from p = Some i \<and> get_bool ''loaded'' p = Some True}"

definition peer_count :: "json \<Rightarrow> nat" where
  "peer_count m = unwrap_or (get_u64 ''_peer_count'' m) 1"

text \<open>The network of a scope that offers a model with the most peers.\<close>

definition busiest_offer :: "(string, json list) hmap \<Rightarrow> string \<Rightarrow> string \<Rightarrow> bool" where
  "busiest_offer ps n i =
     (\<exists>ms m. (i, ms) \<in> set ps \<and> m \<in> set ms \<and> get_str ''name'' m = Some n
        \<and> (\<forall>i' ms' m'. (i', ms') \<in> set ps \<longrightarrow> m' \<in> set ms' \<longrightarrow> get_str ''name'' m' = Some n
             \<longrightarrow> peer_count m' \<le> peer_count m))"

definition offered_in :: "(string, json list) hmap \<Rightarrow> string \<Rightarrow> bool" where
  "offered_in ps n = list_ex (\<lambda>p. list_ex (\<lambda>m. get_str ''name'' m = Some n) (snd p)) ps"

lemma peer_loaded_iff: "peer_loaded p \<longleftrightarrow> get_bool ''loaded'' p = Some True"
  by (cases "get_bool ''loaded'' p") (auto simp: peer_loaded_def)

lemma peer_loaded_insert [simp]: "peer_loaded (JObj (jmap_insert ''loaded'' (JBool True) obj))"
  by (simp add: peer_loaded_def get_bool_def)

lemma merge_peer_loaded: "peer_loaded (merge_peer_entries e p) \<longleftrightarrow> peer_loaded e \<or> peer_loaded p"
  by (cases e) (auto simp: merge_peer_entries_def)

lemma merge_peer_id:
  "peer_id_from e = Some i \<Longrightarrow> peer_id_from p = Some i \<Longrightarrow> peer_id_from (merge_peer_entries e p) = Some i"
  by (cases e) (auto simp: merge_peer_entries_def peer_id_from_def get_str_def)

text \<open>What the peers collected so far say: their ids, once each, and who has the model loaded.\<close>

definition collected :: "json list \<Rightarrow> (string, json) hmap \<Rightarrow> bool" where
  "collected ps m =
     (hm_wf m \<and> (\<forall>i. (hm_get m i \<noteq> None) = (\<exists>p\<in>set ps. peer_id_from p = Some i))
      \<and> (\<forall>i e. hm_get m i = Some e \<longrightarrow> peer_id_from e = Some i
           \<and> peer_loaded e = (\<exists>p\<in>set ps. peer_id_from p = Some i \<and> peer_loaded p)))"

lemma collected_add: "collected ps m \<Longrightarrow> collected (ps @ [p]) (add_peer m p)"
  by (auto simp: collected_def add_peer_def hm_contains_def merge_peer_loaded merge_peer_id split: option.split)

lemma collected_foldl: "collected ps m \<Longrightarrow> collected (ps @ qs) (foldl add_peer m qs)"
proof (induction qs arbitrary: ps m)
  case (Cons q qs)
  from Cons.IH [OF collected_add [OF Cons.prems]] show ?case by simp
qed simp

lemma collected_counts:
  assumes "collected ps m"
  shows "length (hm_values m) = card {i. \<exists>p\<in>set ps. peer_id_from p = Some i}"
    and "length (filter (\<lambda>p. get_bool ''loaded'' p = Some True) (hm_values m))
       = card {i. \<exists>p\<in>set ps. peer_id_from p = Some i \<and> get_bool ''loaded'' p = Some True}"
proof -
  from assms have wf: "distinct (map fst m)" by (simp add: collected_def hm_wf_def)
  have keys: "set (map fst m) = {i. \<exists>p\<in>set ps. peer_id_from p = Some i}"
    using assms by (auto simp: collected_def hm_get_def map_of_eq_None_iff)
  with wf show "length (hm_values m) = card {i. \<exists>p\<in>set ps. peer_id_from p = Some i}"
    by (metis distinct_card hm_values_def length_map)
  let ?L = "filter (\<lambda>(i, p). peer_loaded p) m"
  have "distinct (map fst ?L)" using wf by (simp add: distinct_map_filter)
  moreover have "set (map fst ?L) = {i. \<exists>p\<in>set ps. peer_id_from p = Some i \<and> get_bool ''loaded'' p = Some True}"
  proof -
    have "(i, e) \<in> set m \<longleftrightarrow> hm_get m i = Some e" for i e using assms by (simp add: collected_def hm_wf_get)
    then have "set (map fst ?L) = {i. \<exists>e. hm_get m i = Some e \<and> peer_loaded e}" by force
    also have "\<dots> = {i. \<exists>p\<in>set ps. peer_id_from p = Some i \<and> peer_loaded p}"
      using assms unfolding collected_def by (metis (no_types, lifting) option.exhaust)
    finally show ?thesis by (simp add: peer_loaded_iff)
  qed
  moreover have "length (filter (\<lambda>p. get_bool ''loaded'' p = Some True) (hm_values m)) = length (map fst ?L)"
    by (induction m) (auto simp: hm_values_def peer_loaded_iff)
  ultimately show "length (filter (\<lambda>p. get_bool ''loaded'' p = Some True) (hm_values m))
       = card {i. \<exists>p\<in>set ps. peer_id_from p = Some i \<and> get_bool ''loaded'' p = Some True}"
    by (metis distinct_card)
qed

text \<open>What is collected for each name.\<close>

definition unified_inv :: "json list \<Rightarrow> (string, agg_model) hmap \<Rightarrow> bool" where
  "unified_inv ms by_name =
     (hm_wf by_name \<and> (\<forall>n. (hm_get by_name n \<noteq> None) = (\<exists>m\<in>set ms. get_str ''name'' m = Some n))
      \<and> (\<forall>n agg. hm_get by_name n = Some agg \<longrightarrow> collected (peers_offering ms n) (am_peers_by_id agg)))"

lemma peers_offering_append: "peers_offering (ms @ [m]) n
    = peers_offering ms n @ (if get_str ''name'' m = Some n then peers_from_model m else [])"
  by (simp add: peers_offering_def)

lemma peers_offering_none: "\<forall>m\<in>set ms. get_str ''name'' m \<noteq> Some n \<Longrightarrow> peers_offering ms n = []"
  by (simp add: peers_offering_def filter_empty_conv)

lemma unified_add_model:
  assumes "unified_inv ms b"
  shows "unified_inv (ms @ [m]) (add_model sc i b m)"
proof (cases "get_str ''name'' m")
  case None
  with assms show ?thesis by (simp add: unified_inv_def add_model_def peers_offering_append)
next
  case (Some n)
  let ?old = "unwrap_or (hm_get b n) \<lparr>am_template = m, am_peers_by_id = hm_empty, am_clusters = [], am_swarms = []\<rparr>"
  have "collected (peers_offering ms n) (am_peers_by_id ?old)"
  proof (cases "hm_get b n")
    case None
    with assms have "\<forall>m\<in>set ms. get_str ''name'' m \<noteq> Some n" unfolding unified_inv_def by metis
    with None show ?thesis by (simp add: peers_offering_none collected_def)
  next
    case (Some agg)
    with assms show ?thesis by (simp add: unified_inv_def)
  qed
  from collected_foldl [OF this] assms show ?thesis
    by (auto simp: unified_inv_def add_model_def Some Let_def peers_offering_append)
qed

lemma unified_add_models: "unified_inv ms b \<Longrightarrow> unified_inv (ms @ xs) (foldl (add_model sc i) b xs)"
proof (induction xs arbitrary: ms b)
  case (Cons x xs)
  from Cons.IH [OF unified_add_model [OF Cons.prems]] show ?case by simp
qed simp

lemma unified_add_scopes: "unified_inv ms b \<Longrightarrow> unified_inv (ms @ concat (map snd ps)) (foldl (add_scope sc) b ps)"
proof (induction ps arbitrary: ms b)
  case (Cons p ps)
  have "unified_inv (ms @ snd p) (add_scope sc b p)"
    unfolding add_scope_def by (rule unified_add_models [OF Cons.prems])
  from Cons.IH [OF this] show ?case by simp
qed simp

lemma unified_all:
  "unified_inv (offered_models cm sm) (foldl (add_scope SwarmScope) (foldl (add_scope ClusterScope) hm_empty cm) sm)"
proof -
  have "unified_inv [] hm_empty" by (simp add: unified_inv_def)
  from unified_add_scopes [OF this] have "unified_inv (concat (map snd cm)) (foldl (add_scope ClusterScope) hm_empty cm)"
    by simp
  from unified_add_scopes [OF this] show ?thesis by (simp add: offered_models_def)
qed

lemma map_of_insert_opt: "map_of (insert_opt k v obj) k' = (if k' = k \<and> v \<noteq> None then v else map_of obj k')"
  by (auto simp: insert_opt_def split: option.split)

lemma merged_model_fields:
  "get_str ''name'' (merged_model (n, agg)) = Some n"
  "get_u64 ''_peer_count'' (merged_model (n, agg)) = Some (length (hm_values (am_peers_by_id agg)))"
  "get_u64 ''_loaded_count'' (merged_model (n, agg))
     = Some (length (filter (\<lambda>p. get_bool ''loaded'' p = Some True) (hm_values (am_peers_by_id agg))))"
  "jget ''_peers'' (merged_model (n, agg)) = Some (JArr (hm_values (am_peers_by_id agg)))"
  "jget ''_peer'' (merged_model (n, agg)) = Some (representative (hm_values (am_peers_by_id agg)))"
  by (simp_all add: merged_model_def Let_def get_str_def get_u64_def map_of_insert_opt json_nat_def)

lemma merged_model_name: "get_str ''name'' (merged_model p) = Some (fst p)"
  by (cases p) (simp add: merged_model_fields)

lemma merged_model_names: "map (\<lambda>x. unwrap_or (get_str ''name'' x) []) (map merged_model b) = map fst b"
  by (induction b) (simp_all add: merged_model_name)

definition unified_ok :: "json list \<Rightarrow> json list \<Rightarrow> bool" where
  "unified_ok ms us =
     (sorted_wrt (<) (map (\<lambda>x. unwrap_or (get_str ''name'' x) []) us)
      \<and> {n. \<exists>x\<in>set us. get_str ''name'' x = Some n} = {n. \<exists>m\<in>set ms. get_str ''name'' m = Some n}
      \<and> (\<forall>x\<in>set us. \<exists>n peers. get_str ''name'' x = Some n \<and> jget ''_peers'' x = Some (JArr peers)
           \<and> length peers = card (offering_ids ms n)
           \<and> get_u64 ''_peer_count'' x = Some (card (offering_ids ms n))
           \<and> get_u64 ''_loaded_count'' x = Some (card (loaded_ids ms n))))"

lemma unified_of_inv:
  fixes ms b
  defines "us \<equiv> sort_by_key (\<lambda>x. unwrap_or (get_str ''name'' x) []) (map merged_model b)"
  assumes inv: "unified_inv ms b"
  shows "unified_ok ms us"
proof -
  let ?name = "\<lambda>x. unwrap_or (get_str ''name'' x) []"
  have "mset (map ?name us) = mset (map ?name (map merged_model b))"
    unfolding us_def mset_map mset_sort_by_key ..
  then have names: "mset (map ?name us) = mset (map fst b)" by (simp only: merged_model_names)
  with inv have "distinct (map ?name us)" by (metis hm_wf_def mset_eq_imp_distinct_iff unified_inv_def)
  moreover have "sorted (map ?name us)" unfolding us_def by (rule sort_by_key_sorted)
  ultimately have sorted: "sorted_wrt (<) (map ?name us)" by (simp add: strict_sorted_iff)
  have set_us: "set us = merged_model ` set b" by (simp add: us_def)
  have in_b: "(n, agg) \<in> set b \<longleftrightarrow> hm_get b n = Some agg" for n agg
    using inv by (simp add: unified_inv_def hm_wf_get)
  have "{n. \<exists>x\<in>set us. get_str ''name'' x = Some n} = fst ` set b"
    by (auto simp: set_us merged_model_name)
  also have "\<dots> = {n. hm_get b n \<noteq> None}" using in_b by force
  also have "\<dots> = {n. \<exists>m\<in>set ms. get_str ''name'' m = Some n}" using inv by (simp add: unified_inv_def)
  finally have set_names: "{n. \<exists>x\<in>set us. get_str ''name'' x = Some n} = {n. \<exists>m\<in>set ms. get_str ''name'' m = Some n}" .
  have "\<exists>n peers. get_str ''name'' x = Some n \<and> jget ''_peers'' x = Some (JArr peers)
        \<and> length peers = card (offering_ids ms n)
        \<and> get_u64 ''_peer_count'' x = Some (card (offering_ids ms n))
        \<and> get_u64 ''_loaded_count'' x = Some (card (loaded_ids ms n))" if "x \<in> set us" for x
  proof -
    from that obtain n agg where a: "x = merged_model (n, agg)" "(n, agg) \<in> set b" by (auto simp: set_us)
    with inv in_b have "collected (peers_offering ms n) (am_peers_by_id agg)" by (simp add: unified_inv_def)
    from collected_counts [OF this] a(1) show ?thesis
      by (auto simp: merged_model_fields offering_ids_def loaded_ids_def)
  qed
  with sorted set_names show ?thesis by (simp add: unified_ok_def)
qed

text \<open>C19: The list of all models on offer. It has one entry for each name any cluster or swarm offers, in
  the order of the names; an entry counts every peer once that offers the model, through whatever and
  however many clusters and swarms, and counts it as loaded when any of them says so.\<close>

theorem network_models_unified:
  "sorted_wrt (<) (map (\<lambda>x. unwrap_or (get_str ''name'' x) []) (unified_models cm sm))
   \<and> {n. \<exists>x\<in>set (unified_models cm sm). get_str ''name'' x = Some n}
     = {n. \<exists>m\<in>set (offered_models cm sm). get_str ''name'' m = Some n}
   \<and> (\<forall>x\<in>set (unified_models cm sm). \<exists>n peers. get_str ''name'' x = Some n \<and> jget ''_peers'' x = Some (JArr peers)
        \<and> length peers = card (offering_ids (offered_models cm sm) n)
        \<and> get_u64 ''_peer_count'' x = Some (card (offering_ids (offered_models cm sm) n))
        \<and> get_u64 ''_loaded_count'' x = Some (card (loaded_ids (offered_models cm sm) n)))"
  using unified_of_inv [OF unified_all, of cm sm]
  unfolding unified_ok_def unified_models_def Let_def .


section \<open>Entries are always produced\<close>

lemma set_fields_object: "set_fields kvs (JObj obj) = Some (JObj (foldl (\<lambda>m (k, v). jmap_insert k v m) obj kvs))"
  by (induction kvs arbitrary: obj) auto

lemma enrich_object:
  "enrich_openai_remote_model (JObj obj) m = Some (JObj (foldl (\<lambda>m (k, v). jmap_insert k v m) obj
     (optional_field ''name'' JStr (get_str ''name'' m)
      @ List.map_filter (\<lambda>k. map_option (Pair k) (jget k m)) copied_keys
      @ optional_field ''_network_scope'' JStr (network_scope_label m))))"
  by (simp add: enrich_openai_remote_model_def set_fields_object)

lemma map_of_absent_field: "k \<notin> fst ` set kvs \<Longrightarrow> map_of (rev kvs) k = None"
  by (simp add: map_of_eq_None_iff)

lemma copied_fields: "fst ` set (List.map_filter (\<lambda>k. map_option (Pair k) (g k)) ks) \<subseteq> set ks"
  by (auto simp: List.map_filter_def)

lemma scope_field: "fst ` set (optional_field k f v) \<subseteq> {k}"
  by (auto simp: optional_field_def split: option.split)

lemma enriched_other:
  assumes "k \<notin> set (''name'' # ''_network_scope'' # copied_keys)" "enrich_openai_remote_model (JObj obj) m = Some tag"
  shows "jget k tag = map_of obj k"
proof -
  have "k \<notin> fst ` set (optional_field ''name'' JStr (get_str ''name'' m)
      @ List.map_filter (\<lambda>k. map_option (Pair k) (jget k m)) copied_keys
      @ optional_field ''_network_scope'' JStr (network_scope_label m))"
    using assms(1) copied_fields [of "\<lambda>k. jget k m" copied_keys] scope_field [of "''name''" JStr "get_str ''name'' m"]
      scope_field [of "''_network_scope''" JStr "network_scope_label m"]
    unfolding set_append image_Un by auto
  from map_of_absent_field [OF this] assms(2) show ?thesis
    by (auto simp: enrich_object map_of_foldl)
qed

lemma enriched_name:
  assumes "enrich_openai_remote_model (JObj obj) m = Some tag" "map_of obj ''name'' = Some (JStr (unwrap_or (get_str ''name'' m) d))"
  shows "get_str ''name'' tag = Some (unwrap_or (get_str ''name'' m) d)"
proof -
  have "''name'' \<notin> fst ` set (List.map_filter (\<lambda>k. map_option (Pair k) (jget k m)) copied_keys
      @ optional_field ''_network_scope'' JStr (network_scope_label m))"
    using copied_fields [of "\<lambda>k. jget k m" copied_keys] scope_field [of "''_network_scope''" JStr "network_scope_label m"]
    unfolding set_append image_Un by (auto simp: copied_keys_def)
  from map_of_absent_field [OF this] assms show ?thesis
    by (auto simp: enrich_object map_of_foldl get_str_def optional_field_def split: option.splits)
qed

lemma remote_format: "map_of (remote_details m n) ''format'' = Some (JStr ''remote'')"
  by (auto simp: remote_details_def Let_def split: option.split)

text \<open>C40: What is shown for a model of another peer. Whatever JSON the peer sent, the Ollama entry is built
  without a panic; it carries the model's name, is marked as a remote format even when the peer claims another,
  and has show information made up for it exactly when the peer sent none. The show route answers as well,
  with what the peer sent where it sent something.\<close>

theorem remote_entry_total:
  "(\<exists>tag. ollama_tag_from_network_model now m = Some tag
      \<and> get_str ''name'' tag = Some (unwrap_or (get_str ''name'' m) ''unknown'')
      \<and> detail ''format'' tag = Some (JStr ''remote'')
      \<and> (jget ''_show_info'' tag = None) = (\<exists>v. jget ''_show_info'' m = Some v \<and> v \<noteq> JNull))
   \<and> (\<exists>info. network_model_show_info now m = Some info \<and> info \<noteq> JNull
      \<and> (\<forall>v. jget ''_show_info'' m = Some v \<and> v \<noteq> JNull \<longrightarrow> info = v))"
proof -
  let ?n = "unwrap_or (get_str ''name'' m) ''unknown''"
  let ?base = "jmap_of [(''name'', JStr ?n), (''model'', JStr ?n),
      (''modified_at'', unwrap_or (jget ''modified_at'' m) (JStr now)), (''size'', unwrap_or (jget ''size'' m) (json_nat 1)),
      (''digest'', JStr (unwrap_or (opt_filter (\<lambda>s. s \<noteq> []) (get_str ''digest'' m)) zero_digest)),
      (''details'', JObj (remote_details m ?n))]"
  let ?has = "unwrap_or (map_option (\<lambda>v. \<not> is_null v) (jget ''_show_info'' m)) False"
  obtain obj where e: "enrich_openai_remote_model (JObj ?base) m = Some (JObj obj)"
    unfolding enrich_object by blast
  have d: "map_of obj ''details'' = Some (JObj (remote_details m ?n))"
    using enriched_other [OF _ e, of "''details''"] by (simp add: copied_keys_def)
  have si: "map_of obj ''_show_info'' = None"
    using enriched_other [OF _ e, of "''_show_info''"] by (simp add: copied_keys_def)
  have nm: "get_str ''name'' (JObj obj) = Some ?n"
    by (rule enriched_name [OF e]) simp
  let ?tag = "if ?has then JObj obj else JObj (jmap_insert ''_show_info'' (show_of_tag (JObj obj) ?n) obj)"
  have tag: "ollama_tag_from_network_model now m = Some ?tag"
    using e by (simp add: ollama_tag_from_network_model_def Let_def json_obj_def)
  have has: "?has = (\<exists>v. jget ''_show_info'' m = Some v \<and> v \<noteq> JNull)"
    by (cases "jget ''_show_info'' m") (auto simp: is_null_def)
  have "get_str ''name'' ?tag = Some ?n" using nm by (simp add: get_str_def)
  moreover have "detail ''format'' ?tag = Some (JStr ''remote'')"
    using d by (simp add: detail_def remote_format)
  moreover have "(jget ''_show_info'' ?tag = None) = ?has" using si by simp
  moreover have "\<exists>info. network_model_show_info now m = Some info \<and> info \<noteq> JNull
      \<and> (\<forall>v. jget ''_show_info'' m = Some v \<and> v \<noteq> JNull \<longrightarrow> info = v)"
  proof (cases ?has)
    case True
    with has show ?thesis by (auto simp: network_model_show_info_def is_null_def)
  next
    case False
    with has have "opt_filter (\<lambda>v. \<not> is_null v) (jget ''_show_info'' m) = None"
      by (cases "jget ''_show_info'' m") (auto simp: is_null_def)
    with False has show ?thesis
      by (auto simp: network_model_show_info_def tag show_of_tag_def json_obj_def set_fields_object)
  qed
  ultimately show ?thesis using tag has by auto
qed

section \<open>Witnesses\<close>

definition toy_entry :: "bool \<Rightarrow> json" where
  "toy_entry loaded = json_obj [(''name'', JStr ''m''),
     (''_peers'', JArr [json_obj [(''id'', JStr ''p''), (''loaded'', JBool loaded)]])]"

lemma network_models_unified_witness:
  "\<exists>x. x \<in> set (unified_models [(''c'', [toy_entry False])] [(''s'', [toy_entry True])])
     \<and> get_u64 ''_peer_count'' x = Some 1 \<and> get_u64 ''_loaded_count'' x = Some 1"
proof -
  let ?cm = "[(''c'', [toy_entry False])]" and ?sm = "[(''s'', [toy_entry True])]"
  have e: "get_str ''name'' (toy_entry l) = Some ''m''" "peers_from_model (toy_entry l) = [json_obj [(''id'', JStr ''p''), (''loaded'', JBool l)]]" for l
    by (simp_all add: toy_entry_def get_str_def peers_from_model_def)
  have ps: "peers_offering (offered_models ?cm ?sm) ''m''
      = [json_obj [(''id'', JStr ''p''), (''loaded'', JBool False)], json_obj [(''id'', JStr ''p''), (''loaded'', JBool True)]]"
    by (simp add: offered_models_def peers_offering_def e)
  have ids: "offering_ids (offered_models ?cm ?sm) ''m'' = {''p''}" "loaded_ids (offered_models ?cm ?sm) ''m'' = {''p''}"
    unfolding offering_ids_def loaded_ids_def ps by (auto simp: peer_id_from_def get_str_def get_bool_def)
  note th = network_models_unified [of ?cm ?sm]
  have "''m'' \<in> {n. \<exists>x\<in>set (unified_models ?cm ?sm). get_str ''name'' x = Some n}"
    unfolding th [THEN conjunct2, THEN conjunct1] by (simp add: offered_models_def e)
  then obtain x where x: "x \<in> set (unified_models ?cm ?sm)" "get_str ''name'' x = Some ''m''" by blast
  with th [THEN conjunct2, THEN conjunct2] ids have "get_u64 ''_peer_count'' x = Some 1 \<and> get_u64 ''_loaded_count'' x = Some 1"
    by fastforce
  with x(1) show ?thesis by blast
qed

lemma remote_entry_total_witness:
  "network_model_show_info [] (json_obj [(''_show_info'', JStr ''theirs'')]) = Some (JStr ''theirs'')"
proof -
  let ?m = "json_obj [(''_show_info'', JStr ''theirs'')]"
  have "jget ''_show_info'' ?m = Some (JStr ''theirs'')" by (simp add: json_obj_def jmap_of_def)
  with remote_entry_total [of "[]" ?m] show ?thesis by auto
qed

end
