(* ===== verification/Llm_Proxy.thy ===== *)
theory Llm_Proxy
  imports Network_Catalog Agent_Answer
begin

text \<open>
  The proxy's HTTP routes (\<open>llm_proxy.rs\<close>): which model server or which network answers a request, and what is
  listed. A handler is a function of the peer's state and of the outside, \<open>proxy_world\<close>: an HTTP
  request answers with its status, content type and body in the pieces that arrive, and perhaps a read error at
  the end, or not at all (\<open>Inl\<close>); a command to a network answers with the messages of its channel, or the
  channel is closed (\<open>Inl\<close>).
\<close>

section \<open>The outside\<close>

datatype http_method = HttpGet | HttpPost | HttpDelete

record upstream =
  up_status :: nat
  up_content_type :: "string option"
  up_chunks :: "string list"
  up_error :: "string option"

datatype network_scope = ScopeCluster | ScopeSwarm

record proxy_world =
  pw_agent :: agent_world
  pw_http :: "http_method \<Rightarrow> string \<Rightarrow> string option \<Rightarrow> string \<Rightarrow> string + upstream"
  pw_remote :: "network_scope \<Rightarrow> proxy_request_command \<Rightarrow> string + (string + string) list"
  pw_lossy :: "string \<Rightarrow> string"
  pw_rfc3339 :: string

record proxy_state =
  px_registry :: llm_registry
  px_app :: app_state
  px_config :: client_config
  px_env :: environment
  px_setup_complete :: bool
  px_llm_ready :: bool

text \<open>What a route answers: a whole body, a stream of pieces (\<open>Inl\<close> an error that breaks it off), or an error
  text.\<close>

datatype reply = Reply nat string string | Streamed nat string "(string + string) list" | Fail nat string

definition JSON_TYPE :: string where "JSON_TYPE = ''application/json''"
definition NDJSON_TYPE :: string where "NDJSON_TYPE = ''application/x-ndjson''"
definition SSE_TYPE :: string where "SSE_TYPE = ''text/event-stream''"

definition json_reply :: "proxy_world \<Rightarrow> nat \<Rightarrow> json \<Rightarrow> reply" where
  "json_reply w status v = Reply status JSON_TYPE (aw_print (pw_agent w) v)"

definition is_success :: "nat \<Rightarrow> bool" where
  "is_success s = (200 \<le> s \<and> s < 300)"

definition parse_body :: "proxy_world \<Rightarrow> string \<Rightarrow> json option" where
  "parse_body w s = aw_parse (pw_agent w) s"

section \<open>Requests to a server\<close>

fun backend_api_key :: "llm_backend \<Rightarrow> string option" where
  "backend_api_key (OllamaBackend _ k) = k"
| "backend_api_key (OpenAiCompatBackend _ _ k) = k"
| "backend_api_key (CustomEndpointBackend _ k _ _) = k"

definition request_url :: "llm_backend \<Rightarrow> string \<Rightarrow> string" where
  "request_url b path = (if is_http_url path then path else base_url b @ path)"

definition forward_post_raw :: "proxy_world \<Rightarrow> llm_backend \<Rightarrow> string \<Rightarrow> string \<Rightarrow> string + upstream" where
  "forward_post_raw w b path body = pw_http w HttpPost (request_url b path) (backend_api_key b) body"

definition forward_post :: "proxy_world \<Rightarrow> llm_backend \<Rightarrow> string \<Rightarrow> json \<Rightarrow> string + upstream" where
  "forward_post w b path body =
     pw_http w HttpPost (base_url b @ path) (backend_api_key b) (aw_print (pw_agent w) body)"

definition forward_get :: "proxy_world \<Rightarrow> llm_backend \<Rightarrow> string \<Rightarrow> string + upstream" where
  "forward_get w b path = pw_http w HttpGet (base_url b @ path) (backend_api_key b) []"

definition forward_delete_raw :: "proxy_world \<Rightarrow> llm_backend \<Rightarrow> string \<Rightarrow> string \<Rightarrow> string + upstream" where
  "forward_delete_raw w b path model_name =
     (case pw_http w HttpDelete (request_url b path) (backend_api_key b)
             (aw_print (pw_agent w) (json_obj [(''model'', JStr model_name)])) of
        Inl e \<Rightarrow> Inl e
      | Inr resp \<Rightarrow>
          if up_status resp = 405
          then pw_http w HttpPost (request_url b path) (backend_api_key b)
                 (aw_print (pw_agent w) (json_obj [(''model'', JStr model_name), (''name'', JStr model_name)]))
          else Inr resp)"

text \<open>\<open>resp.bytes()\<close>, and with \<open>unwrap_or_default()\<close>.\<close>

definition read_bytes :: "upstream \<Rightarrow> string + string" where
  "read_bytes u = (case up_error u of Some e \<Rightarrow> Inl e | None \<Rightarrow> Inr (concat (up_chunks u)))"

definition bytes_or_empty :: "upstream \<Rightarrow> string" where
  "bytes_or_empty u = (case read_bytes u of Inl _ \<Rightarrow> [] | Inr s \<Rightarrow> s)"

section \<open>Which network\<close>

definition find_named :: "json list \<Rightarrow> string \<Rightarrow> json option" where
  "find_named models model = find (\<lambda>m. get_str ''name'' m = Some model) models"

definition busiest :: "scope \<Rightarrow> string \<Rightarrow> json \<Rightarrow> json option" where
  "busiest scope list_key m =
     Option.bind (Option.bind (jget list_key m) as_array) (primary_scope scope)"

definition cluster_id_for_model :: "json list \<Rightarrow> string \<Rightarrow> string option" where
  "cluster_id_for_model network_models model =
     Option.bind (find_named network_models model) (\<lambda>m.
       Option.bind (opt_or (jget ''_cluster_id'' m)
         (opt_or (busiest ClusterScope ''_clusters'' m) (jget ''_room_id'' m))) as_str)"

definition swarm_id_for_model :: "json list \<Rightarrow> string \<Rightarrow> string option" where
  "swarm_id_for_model network_models model =
     Option.bind (find_named network_models model) (\<lambda>m.
       Option.bind (opt_or (jget ''_swarm_id'' m) (busiest SwarmScope ''_swarms'' m)) as_str)"

definition network_scope_for_model :: "json list \<Rightarrow> string \<Rightarrow> network_mode \<Rightarrow> network_scope option" where
  "network_scope_for_model network_models model mode =
     (let has_cluster = cluster_id_for_model network_models model \<noteq> None;
          has_swarm = swarm_id_for_model network_models model \<noteq> None
      in case mode of
           Cluster \<Rightarrow> if has_cluster then Some ScopeCluster else None
         | Swarm \<Rightarrow> if has_swarm then Some ScopeSwarm else None
         | Both \<Rightarrow> if has_swarm then Some ScopeSwarm else if has_cluster then Some ScopeCluster else None)"

fun show_mode :: "network_mode \<Rightarrow> string" where
  "show_mode Cluster = ''Cluster''"
| "show_mode Swarm = ''Swarm''"
| "show_mode Both = ''Both''"

definition dispatch_remote_proxy ::
  "proxy_world \<Rightarrow> proxy_state \<Rightarrow> string \<Rightarrow> string \<Rightarrow> json \<Rightarrow> string + (string + string) list" where
  "dispatch_remote_proxy w st model path body =
     (let models = app_network_models (px_app st); mode = cfg_p2p_mode (px_config st)
      in case network_scope_for_model models model mode of
           None \<Rightarrow> Inl (''No network advertises model '' @ model @ '' for p2p_mode '' @ show_mode mode)
         | Some scope \<Rightarrow>
             (case pw_remote w scope
                \<lparr>prc_target_peer = None, prc_model = model, prc_path = path, prc_body = body,
                 prc_cluster_id = (if scope = ScopeCluster then cluster_id_for_model models model else None),
                 prc_swarm_id = (if scope = ScopeSwarm then swarm_id_for_model models model else None)\<rparr> of
                Inl _ \<Rightarrow> Inl ''Failed to route remote proxy request''
              | Inr messages \<Rightarrow> Inr messages))"

section \<open>Which server\<close>

definition SETUP_MESSAGE :: string where
  "SETUP_MESSAGE = ''Setup not complete '' @ [CHR 0xE2, CHR 0x80, CHR 0x94] @ '' open the web UI at /''"

definition not_set_up :: "nat \<times> string" where "not_set_up = (503, SETUP_MESSAGE)"
definition no_servers :: "nat \<times> string" where "no_servers = (503, ''No LLM servers attached'')"
definition not_ollama_backend :: "nat \<times> string" where
  "not_ollama_backend = (501, ''This endpoint requires an Ollama backend'')"

definition require_backend_for_model :: "proxy_state \<Rightarrow> string option \<Rightarrow> (nat \<times> string) + llm_backend" where
  "require_backend_for_model st model =
     (if \<not> px_setup_complete st then Inl not_set_up
      else (case model of
              Some m \<Rightarrow>
                (case resolve_backend (px_registry st) m of
                   Some b \<Rightarrow> Inr b
                 | None \<Rightarrow> Inl (404, ''No attached server hosts model '' @ [CHR 0x27] @ m @ [CHR 0x27]))
            | None \<Rightarrow>
                (case first_attached_backend (px_registry st) of Some b \<Rightarrow> Inr b | None \<Rightarrow> Inl no_servers)))"

definition with_backend :: "proxy_state \<Rightarrow> string option \<Rightarrow> (llm_backend \<Rightarrow> reply) \<Rightarrow> reply" where
  "with_backend st model k =
     (case require_backend_for_model st model of Inl (code, msg) \<Rightarrow> Fail code msg | Inr b \<Rightarrow> k b)"

definition with_ollama :: "proxy_state \<Rightarrow> string option \<Rightarrow> (llm_backend \<Rightarrow> reply) \<Rightarrow> reply" where
  "with_ollama st model k =
     with_backend st model (\<lambda>b. if supports_ollama_native b then k b else Fail (fst not_ollama_backend) (snd not_ollama_backend))"

definition reach_failure :: "string \<Rightarrow> reply" where
  "reach_failure e = Fail 502 (''Failed to reach LLM backend: '' @ e)"

definition reply_of :: "proxy_world \<Rightarrow> string + upstream \<Rightarrow> reply" where
  "reply_of w r =
     (case r of
        Inl e \<Rightarrow> reach_failure e
      | Inr resp \<Rightarrow>
          if is_success (up_status resp) then Reply (up_status resp) JSON_TYPE (bytes_or_empty resp)
          else Fail (up_status resp) (pw_lossy w (bytes_or_empty resp)))"

definition forward_local_json :: "proxy_world \<Rightarrow> proxy_state \<Rightarrow> string \<Rightarrow> string \<Rightarrow> string option \<Rightarrow> reply" where
  "forward_local_json w st path body model =
     with_backend st model (\<lambda>b. reply_of w (forward_post_raw w b path body))"

section \<open>Routes for one server\<close>

definition body_field :: "proxy_world \<Rightarrow> string list \<Rightarrow> string \<Rightarrow> string option" where
  "body_field w keys body =
     Option.bind (parse_body w body) (\<lambda>v.
       Option.bind (foldr (\<lambda>k rest. opt_or (jget k v) rest) keys None) as_str)"

definition embed :: "proxy_world \<Rightarrow> proxy_state \<Rightarrow> string \<Rightarrow> reply" where
  "embed w st body =
     (let model = body_field w [''model''] body
      in with_ollama st model (\<lambda>b. forward_local_json w st ''/api/embed'' body model))"

definition embeddings :: "proxy_world \<Rightarrow> proxy_state \<Rightarrow> string \<Rightarrow> reply" where
  "embeddings w st body =
     (let model = body_field w [''model''] body
      in with_backend st model (\<lambda>b.
           forward_local_json w st (if supports_ollama_native b then ''/api/embeddings'' else ''/v1/embeddings'') body model))"

definition v1_embeddings :: "proxy_world \<Rightarrow> proxy_state \<Rightarrow> string \<Rightarrow> reply" where
  "v1_embeddings w st body = forward_local_json w st ''/v1/embeddings'' body (body_field w [''model''] body)"

definition pull_model :: "proxy_world \<Rightarrow> proxy_state \<Rightarrow> string \<Rightarrow> reply" where
  "pull_model w st body =
     (let model = body_field w [''name'', ''model''] body
      in with_ollama st model (\<lambda>b. forward_local_json w st ''/api/pull'' body model))"

definition push_model :: "proxy_world \<Rightarrow> proxy_state \<Rightarrow> string \<Rightarrow> reply" where
  "push_model w st body =
     (let model = body_field w [''name''] body
      in with_ollama st model (\<lambda>b. forward_local_json w st ''/api/push'' body model))"

definition create_model :: "proxy_world \<Rightarrow> proxy_state \<Rightarrow> string \<Rightarrow> reply" where
  "create_model w st body =
     (let model = body_field w [''name''] body
      in with_ollama st model (\<lambda>b. forward_local_json w st ''/api/create'' body model))"

definition delete_model :: "proxy_world \<Rightarrow> proxy_state \<Rightarrow> string \<Rightarrow> reply" where
  "delete_model w st body =
     (let model = body_field w [''model'', ''name''] body
      in with_ollama st model (\<lambda>b. reply_of w (forward_delete_raw w b ''/api/delete'' (unwrap_or model []))))"

definition version_info :: "proxy_world \<Rightarrow> proxy_state \<Rightarrow> reply" where
  "version_info w st =
     with_backend st None (\<lambda>b.
       if supports_ollama_native b then reply_of w (forward_get w b ''/api/version'')
       else json_reply w 200 (json_obj [(''version'', JStr (backend_kind_str b))]))"

definition show_model_info :: "proxy_world \<Rightarrow> proxy_state \<Rightarrow> string \<Rightarrow> reply option" where
  "show_model_info w st body =
     (let v = unwrap_or (parse_body w body) (JObj []);
          requested = unwrap_or (Option.bind (opt_or (jget ''name'' v) (jget ''model'' v)) as_str) [];
          app = px_app st
      in case (if requested \<notin> set (app_local_models app) then find_named (app_network_models app) requested else None) of
           Some network_model \<Rightarrow>
             Option.bind (case opt_filter (\<lambda>v. \<not> is_null v) (jget ''_show_info'' network_model) of
                 Some info \<Rightarrow> Some info
               | None \<Rightarrow> network_model_show_info (pw_rfc3339 w) network_model) (\<lambda>info.
               Some (json_reply w 200
                 (case (info, jget ''details'' info) of
                    (JObj obj, Some (JObj details)) \<Rightarrow>
                      JObj (jmap_insert ''details'' (JObj (jmap_insert ''format'' (JStr ''remote'') details)) obj)
                  | _ \<Rightarrow> info)))
         | None \<Rightarrow>
             Some (case opt_or (resolve_ollama_backend_for_model (px_registry st) requested)
                          (first_attached_backend (px_registry st)) of
                None \<Rightarrow> Fail (fst no_servers) (snd no_servers)
              | Some b \<Rightarrow>
                  if supports_ollama_native b then forward_local_json w st ''/api/show'' body (Some requested)
                  else (case find_named (app_local_models_full app) requested of
                          Some model \<Rightarrow> json_reply w 200 model
                        | None \<Rightarrow> Fail 404 (''Model '' @ requested @ '' not found''))))"

section \<open>Listings\<close>

definition hidden :: "proxy_state \<Rightarrow> string \<Rightarrow> bool" where
  "hidden st n = (n \<in> set (cfg_hidden_models (px_config st)))"

text \<open>A panic while one entry is built takes the whole listing down.\<close>

fun all_some :: "'a option list \<Rightarrow> 'a list option" where
  "all_some [] = Some []"
| "all_some (x # xs) = Option.bind x (\<lambda>v. map_option ((#) v) (all_some xs))"

definition local_entry :: "app_state \<Rightarrow> json \<Rightarrow> json" where
  "local_entry app model =
     (case get_str ''name'' model of
        Some name \<Rightarrow>
          (case List.map_filter (\<lambda>m. if get_str ''name'' m = Some name then Some m else None) (app_local_models_full app) of
             [] \<Rightarrow> model
           | ms \<Rightarrow> last ms)
      | None \<Rightarrow> model)"

definition remote_models :: "app_state \<Rightarrow> json list" where
  "remote_models app =
     filter (\<lambda>m. case get_str ''name'' m of Some n \<Rightarrow> n \<notin> set (app_local_models app) | None \<Rightarrow> False)
       (app_network_models app)"

definition listed_models :: "proxy_world \<Rightarrow> proxy_state \<Rightarrow> json list option" where
  "listed_models w st =
     (let app = px_app st; tag = ollama_tag_from_network_model (pw_rfc3339 w)
      in if first_attached_backend (px_registry st) = None
         then all_some (map tag (filter (\<lambda>m. case get_str ''name'' m of Some n \<Rightarrow> \<not> hidden st n | None \<Rightarrow> False)
                (app_network_models app)))
         else (case rg_merged (px_registry st) of
                 None \<Rightarrow> Some []
               | Some cat \<Rightarrow>
                   map_option (\<lambda>remote. filter (\<lambda>m. case get_str ''name'' m of Some n \<Rightarrow> \<not> hidden st n | None \<Rightarrow> True)
                       (map (local_entry app) (cat_models cat) @ remote))
                     (all_some (map tag (remote_models app)))))"

definition list_models :: "proxy_world \<Rightarrow> proxy_state \<Rightarrow> reply option" where
  "list_models w st =
     (if \<not> px_setup_complete st then Some (Fail (fst not_set_up) (snd not_set_up))
      else if first_attached_backend (px_registry st) \<noteq> None \<and> rg_merged (px_registry st) = None
      then Some (reach_failure ''no catalog'')
      else map_option (\<lambda>ms. json_reply w 200 (json_obj [(''models'', JArr ms)])) (listed_models w st))"

definition owned_by :: "json \<Rightarrow> string" where
  "owned_by m =
     (case network_scope_label m of
        Some s \<Rightarrow> if s = ''both'' then ''network'' else s
      | None \<Rightarrow> ''community'')"

definition remote_v1_model :: "json \<Rightarrow> json option" where
  "remote_v1_model m =
     (let name = JStr (unwrap_or (get_str ''name'' m) [])
      in enrich_openai_remote_model (json_obj [(''id'', name), (''name'', name), (''object'', JStr ''model''),
           (''created'', json_nat 0), (''owned_by'', JStr (owned_by m))]) m)"

definition copy_status :: "json list \<Rightarrow> json \<Rightarrow> json list" where
  "copy_status entries local_model =
     (case (get_str ''name'' local_model, jget ''_status'' local_model) of
        (Some name, Some status) \<Rightarrow>
          update_first (\<lambda>e. get_str ''id'' e = Some name) (\<lambda>e. unwrap_or (jset ''_status'' status e) e) entries
      | _ \<Rightarrow> entries)"

definition entry_name :: "json \<Rightarrow> string option" where
  "entry_name e = opt_or (get_str ''id'' e) (get_str ''name'' e)"

definition listed_v1_models :: "proxy_state \<Rightarrow> json list option" where
  "listed_v1_models st =
     (let app = px_app st
      in if first_attached_backend (px_registry st) = None
         then all_some (map remote_v1_model (filter (\<lambda>m. case get_str ''name'' m of Some n \<Rightarrow> \<not> hidden st n | None \<Rightarrow> False)
                (app_network_models app)))
         else (case rg_merged (px_registry st) of
                 None \<Rightarrow> Some []
               | Some cat \<Rightarrow>
                   map_option (\<lambda>remote. filter (\<lambda>e. case entry_name e of Some n \<Rightarrow> \<not> hidden st n | None \<Rightarrow> True)
                       (foldl copy_status (List.map_filter v1_model (cat_models cat) @ remote) (app_local_models_full app)))
                     (all_some (map remote_v1_model (remote_models app)))))"

definition v1_models :: "proxy_world \<Rightarrow> proxy_state \<Rightarrow> reply option" where
  "v1_models w st =
     (if \<not> px_setup_complete st then Some (Fail (fst not_set_up) (snd not_set_up))
      else if first_attached_backend (px_registry st) \<noteq> None \<and> rg_merged (px_registry st) = None
      then Some (reach_failure ''no catalog'')
      else map_option (\<lambda>ms. json_reply w 200 (json_obj [(''object'', JStr ''list''), (''data'', JArr ms)]))
             (listed_v1_models st))"

record health_response =
  hr_status :: string
  hr_llm_url :: "string option"
  hr_llm_backend :: "string option"
  hr_attached_servers :: nat
  hr_models_count :: "nat option"
  hr_setup_complete :: bool
  hr_llm_ready :: bool

definition health_check :: "proxy_state \<Rightarrow> string option \<Rightarrow> health_response" where
  "health_check st check =
     (let first = first_attached_backend (px_registry st)
      in \<lparr>hr_status = ''ok'', hr_llm_url = map_option base_url first, hr_llm_backend = map_option backend_kind_str first,
          hr_attached_servers = length (rg_servers (px_registry st)),
          hr_models_count = (if check = None \<or> check = Some ''llm''
                             then map_option (\<lambda>c. length (cat_model_names c)) (rg_merged (px_registry st)) else Some 0),
          hr_setup_complete = px_setup_complete st, hr_llm_ready = px_llm_ready st\<rparr>)"

end
