(* ===== verification/Proxy_Chat.thy ===== *)
theory Proxy_Chat
  imports Llm_Proxy
begin

text \<open>
  The proxy's chat routes (\<open>llm_proxy.rs\<close>): an agent's request, an Ollama request and its translation for
  OpenAI-compatible servers, answered by a local server or by another peer. A handler that can panic
  returns an option. Pieces of bytes are turned into text one by one with \<open>pw_lossy\<close>
  (\<open>String::from_utf8_lossy\<close>).
\<close>

section \<open>Streams to an agent\<close>

text \<open>\<open>buf.find('\n')\<close> until there is none: the complete lines and what is left.\<close>

definition drain_lines :: "string \<Rightarrow> string list \<times> string" where
  "drain_lines buf = (let pieces = split_char NL buf in (butlast pieces, last pieces))"

text \<open>One line through the transformer. \<open>track\<close> is whether the loop looks for the end mark in the lines that
  come out as well.\<close>

definition agent_line ::
  "agent_world \<Rightarrow> bool \<Rightarrow> string \<Rightarrow> sse_transform_state \<times> bool
     \<Rightarrow> (string list \<times> sse_transform_state \<times> bool) option" where
  "agent_line w track line s =
     map_option (\<lambda>(out, st). (out, st, snd s \<or> line = DONE \<or> track \<and> list_ex (\<lambda>l. trim l = DONE) out))
       (process_line w line (fst s))"

fun agent_lines ::
  "agent_world \<Rightarrow> bool \<Rightarrow> string list \<Rightarrow> sse_transform_state \<times> bool
     \<Rightarrow> (string list \<times> sse_transform_state \<times> bool) option" where
  "agent_lines w track [] s = Some ([], s)"
| "agent_lines w track (l # ls) s =
     Option.bind (agent_line w track l s) (\<lambda>(out, s). map_option (\<lambda>(outs, s). (out @ outs, s)) (agent_lines w track ls s))"

definition with_newlines :: "string list \<Rightarrow> (string + string) list" where
  "with_newlines ls = map (\<lambda>l. Inr (l @ [NL])) ls"

text \<open>The loop over what arrives (\<open>Inl\<close> an error, which ends it): what is sent, the unfinished line, the
  state.\<close>

fun agent_loop ::
  "agent_world \<Rightarrow> bool \<Rightarrow> (string \<Rightarrow> string) \<Rightarrow> (string \<Rightarrow> string + string) \<Rightarrow> (string + string) list \<Rightarrow> string
     \<Rightarrow> sse_transform_state \<times> bool \<Rightarrow> ((string + string) list \<times> string \<times> sse_transform_state \<times> bool) option" where
  "agent_loop w track decode on_error [] buf s = Some ([], buf, s)"
| "agent_loop w track decode on_error (Inl e # _) buf s = Some ([on_error e], buf, s)"
| "agent_loop w track decode on_error (Inr c # cs) buf s =
     (case drain_lines (buf @ decode c) of
        (ls, buf) \<Rightarrow>
          Option.bind (agent_lines w track (map (\<lambda>l. trim_end (l @ [NL])) ls) s) (\<lambda>(out, s).
            map_option (\<lambda>(outs, r). (with_newlines out @ outs, r)) (agent_loop w track decode on_error cs buf s)))"

text \<open>After the loop the unfinished line goes through as well; the local loop does not look whether it is the
  end mark.\<close>

definition agent_tail ::
  "agent_world \<Rightarrow> bool \<Rightarrow> string \<Rightarrow> sse_transform_state \<times> bool
     \<Rightarrow> (string list \<times> sse_transform_state \<times> bool) option" where
  "agent_tail w track buf s =
     (if trim buf = [] then Some ([], s)
      else map_option (\<lambda>(out, st, done_sent). (out, st, if track then done_sent else snd s))
             (agent_line w track (trim_end buf) s))"

definition agent_stream ::
  "agent_world \<Rightarrow> bool \<Rightarrow> (string \<Rightarrow> string) \<Rightarrow> (string \<Rightarrow> string + string) \<Rightarrow> (string + string) list
     \<Rightarrow> agent_response_format \<Rightarrow> ((string + string) list \<times> agent_response_summary option) option" where
  "agent_stream w track decode on_error inputs format =
     Option.bind (agent_loop w track decode on_error inputs [] (with_response_format format, False)) (\<lambda>(out1, buf, s).
     Option.bind (agent_tail w track buf s) (\<lambda>(out2, st, done_sent).
     map_option (\<lambda>(out3, st). (out1 @ with_newlines out2 @ with_newlines out3, sse_last_summary st))
       (finalize_stream w done_sent st)))"

text \<open>\<open>data: {"error":"e"}\<close> and an empty line.\<close>

definition error_event :: "string \<Rightarrow> string" where
  "error_event e = ''data: {'' @ [QUOTE] @ ''error'' @ [QUOTE] @ '':'' @ [QUOTE] @ e @ [QUOTE] @ ''}'' @ [NL, NL]"

definition chat_response_content_type :: "bool \<Rightarrow> string" where
  "chat_response_content_type stream = (if stream then SSE_TYPE else JSON_TYPE)"

record agent_debug_snapshot =
  ads_request :: "agent_request_summary option"
  ads_response :: "agent_response_summary option"

text \<open>A whole answer: rewritten and in the agent's format.\<close>

definition whole_answer ::
  "proxy_world \<Rightarrow> nat \<Rightarrow> json \<Rightarrow> agent_response_format \<Rightarrow> agent_debug_snapshot \<Rightarrow> (reply \<times> agent_debug_snapshot) option" where
  "whole_answer w status answer format debug =
     map_option (\<lambda>(rewritten, summary).
        (json_reply w status (if format = ResponsesApi then chat_completion_to_responses (pw_agent w) rewritten else rewritten),
         debug\<lparr>ads_response := Some summary\<rparr>))
       (rewrite_chat_response (pw_agent w) answer)"

definition streamed_answer ::
  "nat \<Rightarrow> agent_debug_snapshot \<Rightarrow> (string + string) list \<times> agent_response_summary option \<Rightarrow> reply \<times> agent_debug_snapshot" where
  "streamed_answer status debug r =
     (Streamed status (chat_response_content_type True) (fst r),
      case snd r of Some summary \<Rightarrow> debug\<lparr>ads_response := Some summary\<rparr> | None \<Rightarrow> debug)"

fun join_messages :: "(string + string) list \<Rightarrow> string + string" where
  "join_messages [] = Inr []"
| "join_messages (Inl e # _) = Inl e"
| "join_messages (Inr s # ms) = (case join_messages ms of Inl e \<Rightarrow> Inl e | Inr t \<Rightarrow> Inr (s @ t))"

definition forward_agent_remote ::
  "proxy_world \<Rightarrow> proxy_state \<Rightarrow> string \<Rightarrow> json \<Rightarrow> bool \<Rightarrow> agent_response_format \<Rightarrow> agent_debug_snapshot
     \<Rightarrow> (reply \<times> agent_debug_snapshot) option" where
  "forward_agent_remote w st model body stream format debug =
     (case dispatch_remote_proxy w st model ''/v1/chat/completions'' body of
        Inl e \<Rightarrow> Some (Fail 502 e, debug)
      | Inr messages \<Rightarrow>
          if stream
          then map_option (streamed_answer 200 debug)
                 (agent_stream (pw_agent w) True (\<lambda>c. c) (\<lambda>e. Inr (error_event e)) messages format)
          else (case join_messages messages of
                  Inl e \<Rightarrow> Some (Fail 502 e, debug)
                | Inr full \<Rightarrow> whole_answer w 200 (parse_chat_response_body (pw_agent w) full) format debug))"

definition upstream_items :: "upstream \<Rightarrow> (string + string) list" where
  "upstream_items u = map Inr (up_chunks u) @ (case up_error u of Some e \<Rightarrow> [Inl e] | None \<Rightarrow> [])"

definition read_failure :: "string \<Rightarrow> reply" where
  "read_failure e = Fail 502 (''Failed to read LLM response: '' @ e)"

definition forward_agent_local ::
  "proxy_world \<Rightarrow> proxy_state \<Rightarrow> string \<Rightarrow> string \<Rightarrow> bool \<Rightarrow> agent_response_format \<Rightarrow> agent_debug_snapshot
     \<Rightarrow> (reply \<times> agent_debug_snapshot) option" where
  "forward_agent_local w st body model stream format debug =
     (case require_backend_for_model st (Some model) of
        Inl (code, msg) \<Rightarrow> Some (Fail code msg, debug)
      | Inr b \<Rightarrow>
          (case forward_post_raw w b (chat_path_for_model b model) body of
             Inl e \<Rightarrow> Some (reach_failure e, debug)
           | Inr resp \<Rightarrow>
               if \<not> is_success (up_status resp) then Some (Fail (up_status resp) (pw_lossy w (bytes_or_empty resp)), debug)
               else if stream
               then map_option (streamed_answer (up_status resp) debug)
                      (agent_stream (pw_agent w) False (pw_lossy w) Inl (upstream_items resp) format)
               else (case read_bytes resp of
                       Inl e \<Rightarrow> Some (read_failure e, debug)
                     | Inr bytes \<Rightarrow>
                         whole_answer w (up_status resp) (unwrap_or (parse_body w bytes) JNull) format debug)))"

definition handle_agent_chat_request ::
  "proxy_world \<Rightarrow> proxy_state \<Rightarrow> string \<Rightarrow> agent_response_format \<Rightarrow> agent_debug_snapshot
     \<Rightarrow> (reply \<times> agent_debug_snapshot) option" where
  "handle_agent_chat_request w st body format debug =
     (case normalize_chat_request_with_default (aw_print (pw_agent w)) (unwrap_or (parse_body w body) JNull)
             (effective_default_num_predict (px_env st) (px_config st))
             (effective_default_num_ctx (px_env st) (px_config st)) of
        (normalized, summary) \<Rightarrow>
          (let debug = \<lparr>ads_request = Some (summary\<lparr>ars_response_format := format\<rparr>), ads_response = None\<rparr>;
               stream = unwrap_or (get_bool ''stream'' normalized) False
           in case get_str ''model'' normalized of
                Some model \<Rightarrow>
                  if model \<notin> set (app_local_models (px_app st))
                  then forward_agent_remote w st model normalized stream format debug
                  else forward_agent_local w st (aw_print (pw_agent w) normalized) model stream format debug
              | None \<Rightarrow> forward_agent_local w st (aw_print (pw_agent w) normalized) [] stream format debug))"

section \<open>Ollama requests\<close>

text \<open>\<open>{"error":"e"}\<close>\<close>

definition error_text :: "string \<Rightarrow> string" where
  "error_text e = ''{'' @ [QUOTE] @ ''error'' @ [QUOTE] @ '':'' @ [QUOTE] @ e @ [QUOTE] @ ''}''"

fun relay :: "(string + string) list \<Rightarrow> (string + string) list" where
  "relay [] = []"
| "relay (Inl e # _) = [Inr (error_text e)]"
| "relay (Inr c # ms) = Inr c # relay ms"

definition answer_locally ::
  "proxy_world \<Rightarrow> string \<Rightarrow> string \<Rightarrow> bool \<Rightarrow> llm_backend option \<Rightarrow> reply" where
  "answer_locally w path body is_stream backend =
     (case backend of
        None \<Rightarrow> Fail (fst no_servers) (snd no_servers)
      | Some b \<Rightarrow>
          (case forward_post_raw w b path body of
             Inl e \<Rightarrow> reach_failure e
           | Inr resp \<Rightarrow>
               if \<not> is_success (up_status resp) then Fail (up_status resp) (pw_lossy w (bytes_or_empty resp))
               else if is_stream then Streamed (up_status resp) NDJSON_TYPE (upstream_items resp)
               else (case read_bytes resp of
                       Inl e \<Rightarrow> read_failure e
                     | Inr bytes \<Rightarrow>
                         Reply (up_status resp)
                           (if contains_str JSON_TYPE (unwrap_or (up_content_type resp) []) then JSON_TYPE else NDJSON_TYPE)
                           bytes)))"

definition handle_proxy_request :: "proxy_world \<Rightarrow> proxy_state \<Rightarrow> string \<Rightarrow> string \<Rightarrow> reply" where
  "handle_proxy_request w st path body0 =
     (let body = apply_ollama_body_defaults_with_default (parse_body w) (\<lambda>v. Some (aw_print (pw_agent w) v)) body0
                   (effective_default_num_predict (px_env st) (px_config st))
                   (effective_default_num_ctx (px_env st) (px_config st));
          model = body_field w [''model''] body;
          is_stream = unwrap_or (Option.bind (parse_body w body) (get_bool ''stream'')) False
      in case model of
           Some m \<Rightarrow>
             if m \<notin> set (app_local_models (px_app st))
             then (case dispatch_remote_proxy w st m path (unwrap_or (parse_body w body) JNull) of
                     Inl e \<Rightarrow> Fail 502 e
                   | Inr messages \<Rightarrow> Streamed 200 NDJSON_TYPE (relay messages))
             else answer_locally w path body is_stream (resolve_ollama_backend_for_model (px_registry st) m)
         | None \<Rightarrow> answer_locally w path body is_stream (first_ollama_backend (px_registry st)))"


text \<open>The text of a completion, whole or of one event.\<close>

definition completion_text :: "string \<Rightarrow> json \<Rightarrow> string" where
  "completion_text key v =
     (case choices_of v of
        [] \<Rightarrow> []
      | c # _ \<Rightarrow> unwrap_or (Option.bind (jget key c) (get_str ''content'')) [])"

definition assistant_message :: "string \<Rightarrow> json" where
  "assistant_message content = json_obj [(''role'', JStr ''assistant''), (''content'', JStr content)]"

definition ollama_answer :: "proxy_world \<Rightarrow> string \<Rightarrow> string \<Rightarrow> json" where
  "ollama_answer w model content =
     json_obj [(''model'', JStr model), (''created_at'', JStr (pw_rfc3339 w)), (''message'', assistant_message content),
       (''done'', JBool True)]"

definition ollama_done :: "proxy_world \<Rightarrow> string \<Rightarrow> string" where
  "ollama_done w model = aw_print (pw_agent w) (json_obj [(''model'', JStr model), (''done'', JBool True)]) @ [NL]"

datatype line_outcome = SkipLine | Emit string | Finish string

definition ollama_line :: "proxy_world \<Rightarrow> string \<Rightarrow> string \<Rightarrow> line_outcome" where
  "ollama_line w model line0 =
     (let line = trim line0; payload = trim (trim_start_matches_str ''data:'' line)
      in if \<not> prefix ''data:'' line then SkipLine
         else if payload = ''[DONE]'' then Finish (ollama_done w model)
         else (let delta = completion_text ''delta'' (unwrap_or (parse_body w payload) JNull)
               in if delta = [] then SkipLine
                  else Emit (aw_print (pw_agent w) (json_obj [(''model'', JStr model), (''message'', assistant_message delta),
                         (''done'', JBool False)]) @ [NL])))"

text \<open>The lines of one piece, up to the end mark (\<open>True\<close>).\<close>

fun ollama_lines :: "proxy_world \<Rightarrow> string \<Rightarrow> string list \<Rightarrow> string list \<times> bool" where
  "ollama_lines w model [] = ([], False)"
| "ollama_lines w model (l # ls) =
     (case ollama_line w model l of
        Finish s \<Rightarrow> ([s], True)
      | SkipLine \<Rightarrow> ollama_lines w model ls
      | Emit s \<Rightarrow> (case ollama_lines w model ls of (out, fin) \<Rightarrow> (s # out, fin)))"

text \<open>The pieces of a stream of events; \<open>True\<close> when the end mark was seen.\<close>

fun ollama_pieces :: "proxy_world \<Rightarrow> string \<Rightarrow> string list \<Rightarrow> string \<Rightarrow> string list \<times> bool" where
  "ollama_pieces w model [] buf = ([], False)"
| "ollama_pieces w model (c # cs) buf =
     (case drain_lines (buf @ pw_lossy w c) of
        (ls, buf) \<Rightarrow>
          (case ollama_lines w model ls of
             (out, True) \<Rightarrow> (out, True)
           | (out, False) \<Rightarrow> (case ollama_pieces w model cs buf of (outs, fin) \<Rightarrow> (out @ outs, fin))))"

definition strip_gguf :: "string \<Rightarrow> string" where
  "strip_gguf m = (if suffix ''.gguf'' m then take (length m - 5) m else m)"

definition openai_body :: "proxy_world \<Rightarrow> proxy_state \<Rightarrow> json \<Rightarrow> string option \<Rightarrow> bool \<Rightarrow> json option" where
  "openai_body w st ollama_body model stream =
     (let body = apply_ollama_body_defaults_with_default (parse_body w) (\<lambda>v. Some (aw_print (pw_agent w) v))
                   (aw_print (pw_agent w) ollama_body)
                   (effective_default_num_predict (px_env st) (px_config st))
                   (effective_default_num_ctx (px_env st) (px_config st))
      in Option.bind (jset ''stream'' (JBool stream) (unwrap_or (parse_body w body) JNull)) (\<lambda>v.
           case model of Some m \<Rightarrow> jset ''model'' (JStr (strip_gguf m)) v | None \<Rightarrow> Some v))"

definition forward_ollama_chat_via_openai ::
  "proxy_world \<Rightarrow> proxy_state \<Rightarrow> llm_backend \<Rightarrow> json \<Rightarrow> string option \<Rightarrow> bool \<Rightarrow> reply option" where
  "forward_ollama_chat_via_openai w st b ollama_body model stream =
     Option.bind (openai_body w st ollama_body model stream) (\<lambda>v.
       case forward_post_raw w b ''/v1/chat/completions'' (aw_print (pw_agent w) v) of
         Inl e \<Rightarrow> Some (reach_failure e)
       | Inr resp \<Rightarrow>
           (let name = unwrap_or model ''model''
            in Some
              (if \<not> is_success (up_status resp)
               then json_reply w (up_status resp) (json_obj [(''error'', json_obj [(''message'', JStr (pw_lossy w (bytes_or_empty resp))),
                      (''type'', JStr ''upstream_error'')])])
               else if \<not> stream
               then json_reply w 200 (ollama_answer w name (completion_text ''message''
                      (case read_bytes resp of Inl _ \<Rightarrow> JObj [] | Inr s \<Rightarrow> unwrap_or (parse_body w s) (JObj []))))
               else if \<not> contains_str SSE_TYPE (unwrap_or (up_content_type resp) [])
               then Reply 200 JSON_TYPE (bytes_or_empty resp)
               else (case ollama_pieces w name (up_chunks resp) [] of
                       (out, fin) \<Rightarrow> Streamed 200 NDJSON_TYPE (map Inr (if fin then out else out @ [ollama_done w name]))))))"

definition chat_completion :: "proxy_world \<Rightarrow> proxy_state \<Rightarrow> string \<Rightarrow> reply option" where
  "chat_completion w st body =
     (let parsed = unwrap_or (parse_body w body) JNull;
          model = get_str ''model'' parsed;
          stream = unwrap_or (get_bool ''stream'' parsed) False
      in if (case model of Some m \<Rightarrow> resolve_backend (px_registry st) m = None | None \<Rightarrow> False)
         then Some (handle_proxy_request w st ''/api/chat'' body)
         else (case require_backend_for_model st model of
                 Inl (code, msg) \<Rightarrow> Some (Fail code msg)
               | Inr b \<Rightarrow>
                   if supports_ollama_native b then Some (handle_proxy_request w st ''/api/chat'' body)
                   else forward_ollama_chat_via_openai w st b parsed model stream))"

definition generate :: "proxy_world \<Rightarrow> proxy_state \<Rightarrow> string \<Rightarrow> reply" where
  "generate w st body =
     (let model = body_field w [''model''] body;
          go = handle_proxy_request w st ''/api/generate'' body
      in if \<not> px_setup_complete st then Fail (fst not_set_up) (snd not_set_up)
         else if (case model of Some m \<Rightarrow> m \<notin> set (app_local_models (px_app st)) | None \<Rightarrow> False) then go
         else (case (case model of Some m \<Rightarrow> resolve_ollama_backend_for_model (px_registry st) m
                                 | None \<Rightarrow> first_ollama_backend (px_registry st)) of
                 None \<Rightarrow> Fail (fst no_servers) (snd no_servers)
               | Some b \<Rightarrow> if supports_ollama_native b then go
                           else Fail (fst not_ollama_backend) (snd not_ollama_backend)))"

section \<open>Requests of other peers\<close>

text \<open>\<open>forward_chat_stream\<close>: a provider asks its own server. The result is the stream of pieces (\<open>Inl\<close> a read
  error), or an error text; \<open>shown\<close> is a status with its reason phrase, \<open>first_chars\<close> the first
  characters of a text.\<close>

definition translated_stream :: "proxy_world \<Rightarrow> string \<Rightarrow> upstream \<Rightarrow> (string + string) list" where
  "translated_stream w model resp =
     (if \<not> contains_str SSE_TYPE (unwrap_or (up_content_type resp) [])
      then (case read_bytes resp of
              Inl e \<Rightarrow> [Inl e]
            | Inr s \<Rightarrow> [Inr (aw_print (pw_agent w) (ollama_answer w model
                         (completion_text ''message'' (unwrap_or (parse_body w s) JNull))))])
      else (case ollama_pieces w model (up_chunks resp) [] of
              (out, fin) \<Rightarrow>
                map Inr out
                @ (if fin then []
                   else (case up_error resp of Some e \<Rightarrow> [Inl e] | None \<Rightarrow> [Inr (ollama_done w model)]))))"

definition provider_answer ::
  "proxy_world \<Rightarrow> (nat \<Rightarrow> string) \<Rightarrow> (nat \<Rightarrow> string \<Rightarrow> string) \<Rightarrow> bool \<Rightarrow> string \<Rightarrow> string + upstream
     \<Rightarrow> string + (string + string) list" where
  "provider_answer w shown first_chars translate model r =
     (case r of
        Inl e \<Rightarrow> Inl e
      | Inr resp \<Rightarrow>
          if \<not> is_success (up_status resp)
          then Inl (''upstream '' @ shown (up_status resp) @ '': '' @ first_chars 500 (pw_lossy w (bytes_or_empty resp)))
          else Inr (if translate then translated_stream w model resp else upstream_items resp))"

definition forward_chat_stream ::
  "proxy_world \<Rightarrow> (nat \<Rightarrow> string) \<Rightarrow> (nat \<Rightarrow> string \<Rightarrow> string) \<Rightarrow> proxy_state \<Rightarrow> string \<Rightarrow> json \<Rightarrow> string
     \<Rightarrow> (string + (string + string) list) option" where
  "forward_chat_stream w shown first_chars st path body model =
     (case opt_or (resolve_backend (px_registry st) model) (first_attached_backend (px_registry st)) of
        None \<Rightarrow> Some (Inl ''backend not configured'')
      | Some b \<Rightarrow>
          if \<not> supports_ollama_native b \<and> path = ''/api/chat''
          then map_option (\<lambda>v. provider_answer w shown first_chars True model (forward_post w b ''/v1/chat/completions'' v))
                 (jset ''model'' (JStr (strip_gguf model)) body)
          else Some (provider_answer w shown first_chars False model (forward_post w b path body)))"

end
