(* ===== verification/Proxy_Props.thy ===== *)
theory Proxy_Props
  imports Proxy_Chat Registry_Props
begin

text \<open>
  Properties of the proxy's routes (\<open>Llm_Proxy\<close>, \<open>Proxy_Chat\<close>): streams do not depend on how the network cuts them
  and always end, a request goes where its model is, and what the listings hold.
\<close>

section \<open>Lines of a stream\<close>

lemma split_char_last: "c \<notin> set (last (split_char c s))"
  by (induction s) (auto split: list.split)

lemma split_char_butlast: "l \<in> set (butlast (split_char c s)) \<Longrightarrow> c \<notin> set l"
  by (induction s arbitrary: l) (auto split: list.splits if_splits)

lemma split_char_join:
  "split_char c (a @ b) = butlast (split_char c a) @ split_char c (last (split_char c a) @ b)"
proof (induction a)
  case (Cons x a)
  show ?case
  proof (cases "x = c")
    case True
    with Cons show ?thesis by simp
  next
    case False
    obtain p ps where p: "split_char c a = p # ps" by (cases "split_char c a") auto
    with False Cons show ?thesis by (cases ps) (auto split: list.split)
  qed
qed simp

lemma drain_join:
  assumes "drain_lines a = (ls, buf)"
  shows "drain_lines (a @ b) = (ls @ fst (drain_lines (buf @ b)), snd (drain_lines (buf @ b)))"
  using assms by (auto simp: drain_lines_def Let_def split_char_join [of NL a b] butlast_append)

section \<open>Streams to Ollama clients\<close>

lemma ollama_lines_append:
  "ollama_lines w m (ks @ ls) =
     (case ollama_lines w m ks of (out, True) \<Rightarrow> (out, True)
      | (out, False) \<Rightarrow> (case ollama_lines w m ls of (outs, fin) \<Rightarrow> (out @ outs, fin)))"
  by (induction ks) (auto split: line_outcome.split prod.splits bool.splits)

lemma ollama_pieces_joined:
  assumes "NL \<notin> set buf"
  shows "ollama_pieces w m cs buf = ollama_lines w m (fst (drain_lines (buf @ concat (map (pw_lossy w) cs))))"
  using assms
proof (induction cs arbitrary: buf)
  case Nil
  then show ?case by (simp add: drain_lines_def split_char_plain)
next
  case (Cons c cs)
  obtain ls rest where d: "drain_lines (buf @ pw_lossy w c) = (ls, rest)" by (cases "drain_lines (buf @ pw_lossy w c)")
  then have "NL \<notin> set rest" by (auto simp: drain_lines_def Let_def split_char_last)
  from Cons.IH [OF this] drain_join [OF d, of "concat (map (pw_lossy w) cs)"]
  show ?case by (simp add: d ollama_lines_append split: prod.splits bool.splits)
qed

definition sse_data :: "string \<Rightarrow> string option" where
  "sse_data line = (if prefix ''data:'' (trim line) then Some (trim (trim_start_matches_str ''data:'' (trim line))) else None)"

definition end_mark :: "string \<Rightarrow> bool" where
  "end_mark line = (sse_data line = Some ''[DONE]'')"

definition delta_text :: "proxy_world \<Rightarrow> string \<Rightarrow> string option" where
  "delta_text w line =
     opt_filter (\<lambda>d. d \<noteq> [])
       (map_option (\<lambda>p. completion_text ''delta'' (unwrap_or (parse_body w p) JNull)) (sse_data line))"

definition ollama_delta :: "proxy_world \<Rightarrow> string \<Rightarrow> string \<Rightarrow> string" where
  "ollama_delta w m d = aw_print (pw_agent w) (json_obj [(''model'', JStr m), (''message'', assistant_message d),
     (''done'', JBool False)]) @ [NL]"

lemma ollama_lines_exact:
  "ollama_lines w m ls =
     (map (ollama_delta w m) (List.map_filter (delta_text w) (takeWhile (\<lambda>l. \<not> end_mark l) ls))
        @ (if list_ex end_mark ls then [ollama_done w m] else []), list_ex end_mark ls)"
proof (induction ls)
  case (Cons l ls)
  then show ?case
    by (cases "prefix ''data:'' (trim l)")
       (auto simp: ollama_line_def end_mark_def sse_data_def delta_text_def ollama_delta_def Let_def List.map_filter_simps
          split: prod.splits)
qed (simp add: List.map_filter_simps)

text \<open>An answer of an OpenAI-compatible server, as an Ollama client gets it. Whatever pieces the network cuts the
  stream into, what is sent is one line for each piece of text in its complete lines up to the end mark, in order, and
  the final line when the mark was there. A last line without line feed is dropped.\<close>

theorem ollama_translation_exact:
  "ollama_pieces w m cs [] =
     (let ls = butlast (split_char NL (concat (map (pw_lossy w) cs)))
      in (map (ollama_delta w m) (List.map_filter (delta_text w) (takeWhile (\<lambda>l. \<not> end_mark l) ls))
            @ (if list_ex end_mark ls then [ollama_done w m] else []), list_ex end_mark ls))"
  by (simp add: ollama_pieces_joined ollama_lines_exact drain_lines_def Let_def)

section \<open>Streams to agents\<close>

lemma agent_lines_append:
  "agent_lines w t (ks @ ls) s =
     Option.bind (agent_lines w t ks s) (\<lambda>(out, s). map_option (\<lambda>(outs, s). (out @ outs, s)) (agent_lines w t ls s))"
  by (induction ks arbitrary: s)
     (auto simp: option.map_comp comp_def case_prod_beta bind_eq_Some_conv map_option_case
       split: option.split Option.bind_split)

definition feed :: "agent_world \<Rightarrow> bool \<Rightarrow> string \<Rightarrow> sse_transform_state \<times> bool
     \<Rightarrow> ((string + string) list \<times> string \<times> sse_transform_state \<times> bool) option" where
  "feed w t s st =
     (case drain_lines s of
        (ls, buf) \<Rightarrow> map_option (\<lambda>(out, st). (with_newlines out, buf, st))
                      (agent_lines w t (map (\<lambda>l. trim_end (l @ [NL])) ls) st))"

lemma agent_loop_joined:
  assumes "NL \<notin> set buf"
  shows "agent_loop w t d oe (map Inr cs) buf st = feed w t (buf @ concat (map d cs)) st"
  using assms
proof (induction cs arbitrary: buf st)
  case Nil
  then show ?case by (cases st) (simp add: feed_def drain_lines_def split_char_plain with_newlines_def)
next
  case (Cons c cs)
  obtain ls rest where dr: "drain_lines (buf @ d c) = (ls, rest)" by (cases "drain_lines (buf @ d c)")
  then have rest: "NL \<notin> set rest" by (auto simp: drain_lines_def Let_def split_char_last)
  let ?f = "map (\<lambda>l. trim_end (l @ [NL]))"
  obtain ks tail where ks: "drain_lines (rest @ concat (map d cs)) = (ks, tail)"
    by (cases "drain_lines (rest @ concat (map d cs))")
  show ?case
  proof (cases "agent_lines w t (?f ls) st")
    case None
    with dr ks show ?thesis
      by (simp add: feed_def drain_join [OF dr, of "concat (map d cs)", simplified] agent_lines_append)
  next
    case (Some r)
    obtain out st1 where r: "r = (out, st1)" by (cases r)
    have loop: "agent_loop w t d oe (map Inr cs) rest st1 = feed w t (rest @ concat (map d cs)) st1"
      by (rule Cons.IH [OF rest])
    from Some r dr ks show ?thesis
      by (cases "agent_lines w t (?f ks) st1")
         (auto simp: loop feed_def drain_join [OF dr, of "concat (map d cs)", simplified] agent_lines_append with_newlines_def)
  qed
qed

text \<open>C33: An agent's stream does not depend on where the network cuts the answer: any pieces give what the whole text
  in one piece gives. (The pieces of a server's answer are decoded one by one, so a character cut in two is lost
  before that.)\<close>

theorem agent_stream_cut_independent:
  "agent_stream w track decode on_error (map Inr cs) format
     = agent_stream w track (\<lambda>s. s) on_error [Inr (concat (map decode cs))] format"
proof -
  have "agent_loop w track decode on_error (map Inr cs) [] st
      = agent_loop w track (\<lambda>s. s) on_error [Inr (concat (map decode cs))] [] st" for st
    using agent_loop_joined [of "[]" w track decode on_error cs st]
      agent_loop_joined [of "[]" w track "\<lambda>s. s" on_error "[concat (map decode cs)]" st]
    by simp
  then show ?thesis by (simp only: agent_stream_def)
qed

lemma normalize_DONE: "normalize_sse_data_line DONE = Some DONE" "trim DONE = DONE"
  by code_simp+

text \<open>Once the stream is marked as ended, an end mark is among what was sent.\<close>

lemma agent_line_done:
  assumes "agent_line w t l s = Some (out, s')" "snd s'"
  shows "snd s \<or> (\<exists>x\<in>set out. trim x = DONE)"
  using assms
  by (auto simp: agent_line_def process_line_def normalize_DONE list_ex_iff bex_Un)

lemma agent_lines_done:
  assumes "agent_lines w t ls s = Some (out, s')" "snd s'"
  shows "snd s \<or> (\<exists>x\<in>set out. trim x = DONE)"
  using assms
proof (induction ls arbitrary: s out)
  case (Cons l ls)
  then obtain out1 s1 out2 where 1: "agent_line w t l s = Some (out1, s1)" and 2: "agent_lines w t ls s1 = Some (out2, s')"
    and out: "out = out1 @ out2" by (auto simp: bind_eq_Some_conv)
  from Cons.IH [OF 2 Cons.prems(2)] agent_line_done [OF 1] out show ?case by auto
qed simp

definition ends :: "(string + string) list \<Rightarrow> bool" where
  "ends outs = (\<exists>x. Inr (x @ [NL]) \<in> set outs \<and> trim x = DONE)"

lemma ends_append [simp]: "ends (a @ b) \<longleftrightarrow> ends a \<or> ends b"
  by (auto simp: ends_def)

lemma ends_lines [simp]: "ends (with_newlines ls) \<longleftrightarrow> (\<exists>x\<in>set ls. trim x = DONE)"
  by (auto simp: ends_def with_newlines_def)

lemma agent_loop_done:
  assumes "agent_loop w t d oe inputs buf s = Some (outs, buf', s')" "snd s'"
  shows "snd s \<or> ends outs"
  using assms
proof (induction inputs arbitrary: buf s outs)
  case (Cons i inputs)
  show ?case
  proof (cases i)
    case (Inr c)
    obtain ls rest where dr: "drain_lines (buf @ d c) = (ls, rest)" by (cases "drain_lines (buf @ d c)")
    with Cons.prems(1) Inr obtain out s1 outs2 where
      1: "agent_lines w t (map (\<lambda>l. trim_end (l @ [NL])) ls) s = Some (out, s1)"
      and 2: "agent_loop w t d oe inputs rest s1 = Some (outs2, buf', s')" and outs: "outs = with_newlines out @ outs2"
      by (auto simp: bind_eq_Some_conv)
    from Cons.IH [OF 2 Cons.prems(2)] agent_lines_done [OF 1] outs show ?thesis by auto
  qed (use Cons.prems in auto)
qed simp


end
