(* ===== verification/Proxy_Routing.thy ===== *)
theory Proxy_Routing
  imports Proxy_Chat Registry_Props
begin

text \<open>
  Where the proxy sends a request, and what its listings hold: properties of \<open>Llm_Proxy\<close> and \<open>Proxy_Chat\<close>
  together with the unified list of models and the registry.
\<close>

section \<open>The network of a model\<close>

definition am_list :: "scope \<Rightarrow> agg_model \<Rightarrow> json list" where
  "am_list sc agg = (case sc of ClusterScope \<Rightarrow> am_clusters agg | SwarmScope \<Rightarrow> am_swarms agg)"

definition scope_list :: "scope \<Rightarrow> (string, agg_model) hmap \<Rightarrow> string \<Rightarrow> json list" where
  "scope_list sc b n = (case hm_get b n of None \<Rightarrow> [] | Some agg \<Rightarrow> am_list sc agg)"

definition offers_in :: "scope \<Rightarrow> (string, json list) hmap \<Rightarrow> string \<Rightarrow> json list" where
  "offers_in sc ps n = concat (map (\<lambda>p. map (scope_entry sc (fst p)) (filter (\<lambda>m. get_str ''name'' m = Some n) (snd p))) ps)"

lemma scope_list_add_model:
  assumes "hm_wf b"
  shows "scope_list sc (add_model sc' i b m) n
    = scope_list sc b n @ (if sc = sc' \<and> get_str ''name'' m = Some n then [scope_entry sc i m] else [])"
proof (cases "get_str ''name'' m")
  case (Some k)
  with assms show ?thesis
    by (cases sc; cases sc'; cases "hm_get b n")
       (auto simp: add_model_def scope_list_def am_list_def Let_def)
qed (simp add: add_model_def)

lemma wf_add_model: "hm_wf b \<Longrightarrow> hm_wf (add_model sc i b m)"
  by (simp add: add_model_def Let_def split: option.split)

lemma scope_list_add_models:
  assumes "hm_wf b"
  shows "hm_wf (foldl (add_model sc' i) b ms) \<and> scope_list sc (foldl (add_model sc' i) b ms) n
    = scope_list sc b n
      @ (if sc = sc' then map (scope_entry sc i) (filter (\<lambda>m. get_str ''name'' m = Some n) ms) else [])"
  using assms by (induction ms arbitrary: b) (simp_all add: scope_list_add_model wf_add_model)

lemma scope_list_add_scopes:
  assumes "hm_wf b"
  shows "hm_wf (foldl (add_scope sc') b ps) \<and> scope_list sc (foldl (add_scope sc') b ps) n
    = scope_list sc b n @ (if sc = sc' then offers_in sc ps n else [])"
  using assms
proof (induction ps arbitrary: b)
  case (Cons p ps)
  from scope_list_add_models [OF Cons.prems, of sc' "fst p" "snd p" sc n]
    Cons.IH [of "add_scope sc' b p"] show ?case
    by (auto simp: add_scope_def offers_in_def)
qed (simp add: offers_in_def)

definition unified_map :: "(string, json list) hmap \<Rightarrow> (string, json list) hmap \<Rightarrow> (string, agg_model) hmap" where
  "unified_map cm sm = foldl (add_scope SwarmScope) (foldl (add_scope ClusterScope) hm_empty cm) sm"

lemma unified_map_lists:
  "hm_wf (unified_map cm sm)"
  "scope_list ClusterScope (unified_map cm sm) n = offers_in ClusterScope cm n"
  "scope_list SwarmScope (unified_map cm sm) n = offers_in SwarmScope sm n"
proof -
  have e: "hm_wf (hm_empty :: (string, agg_model) hmap)" "scope_list sc hm_empty n = []" for sc
    by (simp_all add: scope_list_def)
  note 1 = scope_list_add_scopes [OF e(1), of ClusterScope cm, unfolded e(2)]
  note 2 = scope_list_add_scopes [OF conjunct1 [OF 1], of SwarmScope sm]
  from 1 2 show "hm_wf (unified_map cm sm)"
    "scope_list ClusterScope (unified_map cm sm) n = offers_in ClusterScope cm n"
    "scope_list SwarmScope (unified_map cm sm) n = offers_in SwarmScope sm n"
    unfolding unified_map_def by (simp_all add: e(2))
qed

lemma find_named_unified:
  "find_named (unified_models cm sm) n = map_option (\<lambda>agg. merged_model (n, agg)) (hm_get (unified_map cm sm) n)"
proof -
  have us: "set (unified_models cm sm) = merged_model ` set (unified_map cm sm)"
    by (simp add: unified_models_def unified_map_def Let_def)
  have in_map: "(k, agg) \<in> set (unified_map cm sm) \<longleftrightarrow> hm_get (unified_map cm sm) k = Some agg" for k agg
    using unified_map_lists(1) by (simp add: hm_wf_get)
  show ?thesis
  proof (cases "find_named (unified_models cm sm) n")
    case None
    then have "merged_model (n, agg) \<notin> set (unified_models cm sm)" for agg
      by (auto simp: find_named_def find_None_iff merged_model_name)
    then have "(n, agg) \<notin> set (unified_map cm sm)" for agg unfolding us by blast
    with None in_map show ?thesis by (cases "hm_get (unified_map cm sm) n") auto
  next
    case (Some x)
    then have "x \<in> set (unified_models cm sm)" "get_str ''name'' x = Some n"
      by (auto simp: find_named_def find_Some_iff in_set_conv_nth)
    then obtain k agg where "x = merged_model (k, agg)" "(k, agg) \<in> set (unified_map cm sm)" "k = n"
      unfolding us by (auto simp: merged_model_name)
    with Some in_map show ?thesis by simp
  qed
qed

lemma merged_model_scope_ids:
  "am_clusters agg \<noteq> [] \<Longrightarrow> jget ''_cluster_id'' (merged_model (n, agg)) =
     (case primary_scope ClusterScope (am_clusters agg) of Some v \<Rightarrow> Some v
      | None \<Rightarrow> map_of (unwrap_or (as_object (am_template agg)) []) ''_cluster_id'')"
  "am_swarms agg \<noteq> [] \<Longrightarrow> jget ''_swarm_id'' (merged_model (n, agg)) =
     (case primary_scope SwarmScope (am_swarms agg) of Some v \<Rightarrow> Some v
      | None \<Rightarrow> map_of (unwrap_or (as_object (am_template agg)) []) ''_swarm_id'')"
  by (simp_all add: merged_model_def Let_def map_of_insert_opt split: option.split)

lemma merged_model_template_cluster:
  "am_clusters agg = [] \<Longrightarrow> jget ''_cluster_id'' (merged_model (n, agg))
     = map_of (unwrap_or (as_object (am_template agg)) []) ''_cluster_id''"
  by (simp add: merged_model_def Let_def map_of_insert_opt primary_scope_def)

lemma scope_entry_fields:
  "jget (scope_key sc) (scope_entry sc i m) = Some (JStr i)"
  "get_u64 ''peer_count'' (scope_entry sc i m) = Some (peer_count m)"
  by (cases sc; simp add: scope_entry_def get_u64_def peer_count_def json_nat_def)+

lemma in_offers: "e \<in> set (offers_in sc ps n) \<longleftrightarrow>
    (\<exists>i ms m. (i, ms) \<in> set ps \<and> m \<in> set ms \<and> get_str ''name'' m = Some n \<and> e = scope_entry sc i m)"
  by (force simp: offers_in_def)

lemma primary_scope_offers:
  assumes "offers_in sc ps n \<noteq> []"
  shows "\<exists>i. primary_scope sc (offers_in sc ps n) = Some (JStr i) \<and> busiest_offer ps n i"
proof -
  let ?k = "\<lambda>c. unwrap_or (get_u64 ''peer_count'' c) 0"
  obtain e where e: "max_by_key ?k (offers_in sc ps n) = Some e"
    using assms by (cases "max_by_key ?k (offers_in sc ps n)") auto
  note mx = max_by_key_Some [OF e]
  then obtain i ms m where m: "(i, ms) \<in> set ps" "m \<in> set ms" "get_str ''name'' m = Some n" "e = scope_entry sc i m"
    unfolding in_offers by blast
  have "peer_count m' \<le> peer_count m" if "(i', ms') \<in> set ps" "m' \<in> set ms'" "get_str ''name'' m' = Some n" for i' ms' m'
    using that mx [THEN conjunct2, rule_format, of "scope_entry sc i' m'"] unfolding in_offers m(4)
    by (auto simp: scope_entry_fields)
  with m(1-3) have "busiest_offer ps n i" unfolding busiest_offer_def by blast
  moreover have "primary_scope sc (offers_in sc ps n) = Some (JStr i)"
    by (simp add: primary_scope_def e m(4) scope_entry_fields)
  ultimately show ?thesis by blast
qed

lemma no_offers: "offers_in sc ps n = [] \<longleftrightarrow> (\<forall>(i, ms)\<in>set ps. \<forall>m\<in>set ms. get_str ''name'' m \<noteq> Some n)"
  by (auto simp: offers_in_def filter_empty_conv)

lemma unified_agg:
  assumes "offers_in ClusterScope cm n \<noteq> [] \<or> offers_in SwarmScope sm n \<noteq> []"
  shows "\<exists>agg. hm_get (unified_map cm sm) n = Some agg \<and> am_clusters agg = offers_in ClusterScope cm n
     \<and> am_swarms agg = offers_in SwarmScope sm n"
  using assms unified_map_lists(2,3) [of cm sm n]
  by (cases "hm_get (unified_map cm sm) n") (auto simp: scope_list_def am_list_def)

lemma cluster_asked:
  assumes "offers_in ClusterScope cm n \<noteq> []"
  shows "\<exists>c. cluster_id_for_model (unified_models cm sm) n = Some c \<and> busiest_offer cm n c"
  using primary_scope_offers [OF assms] unified_agg [of cm n sm] assms
  by (auto simp: cluster_id_for_model_def find_named_unified merged_model_scope_ids)

lemma swarm_asked:
  assumes "offers_in SwarmScope sm n \<noteq> []"
  shows "\<exists>s. swarm_id_for_model (unified_models cm sm) n = Some s \<and> busiest_offer sm n s"
  using primary_scope_offers [OF assms] unified_agg [of cm n sm] assms
  by (auto simp: swarm_id_for_model_def find_named_unified merged_model_scope_ids)

lemma offered_in_iff: "offered_in ps n \<longleftrightarrow> offers_in sc ps n \<noteq> []"
  unfolding no_offers by (force simp: offered_in_def list_ex_iff)

definition asked :: "proxy_world \<Rightarrow> network_scope \<Rightarrow> string \<Rightarrow> string \<Rightarrow> string \<Rightarrow> json \<Rightarrow> string + (string + string) list" where
  "asked w sc i n path body =
     (case pw_remote w sc
        \<lparr>prc_target_peer = None, prc_model = n, prc_path = path, prc_body = body,
         prc_cluster_id = (if sc = ScopeCluster then Some i else None),
         prc_swarm_id = (if sc = ScopeSwarm then Some i else None)\<rparr> of
        Inl _ \<Rightarrow> Inl ''Failed to route remote proxy request'' | Inr messages \<Rightarrow> Inr messages)"

text \<open>C23: Which network a request for another peer's model goes to. A model that swarms offer is asked, unless the peer is
  in cluster mode, of the swarm that offers it with the most peers; in cluster mode a model that clusters offer is asked of
  the cluster that offers it with the most.\<close>

theorem request_goes_to_busiest_network:
  assumes "app_network_models (px_app st) = unified_models cm sm"
  shows "(offered_in sm n \<and> cfg_p2p_mode (px_config st) \<noteq> Cluster \<longrightarrow>
      (\<exists>s. dispatch_remote_proxy w st n path body = asked w ScopeSwarm s n path body \<and> busiest_offer sm n s))
    \<and> (offered_in cm n \<and> cfg_p2p_mode (px_config st) = Cluster \<longrightarrow>
      (\<exists>c. dispatch_remote_proxy w st n path body = asked w ScopeCluster c n path body \<and> busiest_offer cm n c))"
proof -
  have "\<exists>s. swarm_id_for_model (unified_models cm sm) n = Some s \<and> busiest_offer sm n s" if "offered_in sm n"
    using swarm_asked that unfolding offered_in_iff [of _ _ SwarmScope] .
  moreover have "\<exists>c. cluster_id_for_model (unified_models cm sm) n = Some c \<and> busiest_offer cm n c" if "offered_in cm n"
    using cluster_asked that unfolding offered_in_iff [of _ _ ClusterScope] .
  ultimately show ?thesis
    using assms by (cases "cfg_p2p_mode (px_config st)")
      (auto simp: dispatch_remote_proxy_def network_scope_for_model_def asked_def Let_def)
qed

text \<open>Fields of an entry that a peer of a swarm made up are taken over into the unified list: its \<open>_cluster_id\<close> decides,
  for a model that no cluster offers, which cluster the request is sent to.\<close>

theorem swarm_peer_names_the_cluster:
  assumes "app_network_models (px_app st) = unified_models [] [(s, [m])]"
    and "get_str ''name'' m = Some n" "get_str ''_cluster_id'' m = Some c" "cfg_p2p_mode (px_config st) = Cluster"
  shows "dispatch_remote_proxy w st n path body = asked w ScopeCluster c n path body"
proof -
  obtain obj where m: "m = JObj obj" using assms(2) by (cases m) (auto simp: get_str_def)
  have "find_named (unified_models [] [(s, [m])]) n
      = Some (merged_model (n, \<lparr>am_template = m, am_peers_by_id = foldl add_peer hm_empty (peers_from_model m),
          am_clusters = [], am_swarms = [scope_entry SwarmScope s m]\<rparr>))"
    using assms(2) by (simp add: find_named_unified unified_map_def add_scope_def add_model_def Let_def prefer_richer_template_def)
  then have "cluster_id_for_model (unified_models [] [(s, [m])]) n = Some c"
    using assms(3) by (auto simp: cluster_id_for_model_def merged_model_template_cluster m get_str_def bind_eq_Some_conv)
  with assms(1,4) show ?thesis
    by (simp add: dispatch_remote_proxy_def network_scope_for_model_def asked_def Let_def)
qed

section \<open>Requests stay where their model is\<close>

definition normalized_request :: "proxy_world \<Rightarrow> proxy_state \<Rightarrow> string \<Rightarrow> json" where
  "normalized_request w st body =
     fst (normalize_chat_request_with_default (aw_print (pw_agent w)) (unwrap_or (parse_body w body) JNull)
            (effective_default_num_predict (px_env st) (px_config st))
            (effective_default_num_ctx (px_env st) (px_config st)))"

definition requested_model :: "proxy_world \<Rightarrow> proxy_state \<Rightarrow> string \<Rightarrow> string option" where
  "requested_model w st body = get_str ''model'' (normalized_request w st body)"

definition is_remote_model :: "proxy_world \<Rightarrow> proxy_state \<Rightarrow> string \<Rightarrow> bool" where
  "is_remote_model w st body =
     (case requested_model w st body of Some m \<Rightarrow> m \<notin> set (app_local_models (px_app st)) | None \<Rightarrow> False)"

lemma dispatch_ignores_http [simp]:
  "dispatch_remote_proxy (w\<lparr>pw_http := h\<rparr>) st m path body = dispatch_remote_proxy w st m path body"
  by (simp add: dispatch_remote_proxy_def Let_def split: option.split)

lemma requested_ignores [simp]:
  "parse_body (w\<lparr>pw_http := h\<rparr>) b = parse_body w b" "parse_body (w\<lparr>pw_remote := r\<rparr>) b = parse_body w b"
  "json_reply (w\<lparr>pw_http := h\<rparr>) n v = json_reply w n v" "json_reply (w\<lparr>pw_remote := r\<rparr>) n v = json_reply w n v"
  "whole_answer (w\<lparr>pw_http := h\<rparr>) n v f d = whole_answer w n v f d"
  "whole_answer (w\<lparr>pw_remote := r\<rparr>) n v f d = whole_answer w n v f d"
  by (simp_all add: parse_body_def json_reply_def whole_answer_def cong: if_cong)


section \<open>Models that do not exist yet\<close>

text \<open>A model that no attached server has cannot be pulled or created through the proxy: the request is looked up like any
  other, and is refused because no server lists the model.\<close>

theorem new_model_cannot_be_pulled:
  assumes "registry_reach cfg reg" "rebuild_catalog sw reg = (px_registry st, cat)" "px_setup_complete st"
    and "n \<noteq> []" "\<forall>r\<in>set (ordered_servers reg). \<not> lists_model sw n r"
  shows "(body_field w [''name'', ''model''] body = Some n \<longrightarrow>
        pull_model w st body = Fail 404 (''No attached server hosts model '' @ [CHR 0x27] @ n @ [CHR 0x27]))
    \<and> (body_field w [''name''] body = Some n \<longrightarrow>
        create_model w st body = Fail 404 (''No attached server hosts model '' @ [CHR 0x27] @ n @ [CHR 0x27]))"
proof -
  have "in_step cfg reg" using reach_ok [OF assms(1)] by simp
  from rebuilt_resolves [OF this assms(2,4)] assms(5)
  have "resolve_backend (px_registry st) n = None" by (simp add: find_None_iff)
  with assms(3) show ?thesis
    by (simp add: pull_model_def create_model_def with_ollama_def with_backend_def require_backend_for_model_def Let_def)
qed

section \<open>Witnesses\<close>

definition toy_proxy :: "llm_registry \<Rightarrow> json list \<Rightarrow> network_mode \<Rightarrow> proxy_state" where
  "toy_proxy reg models mode =
     \<lparr>px_registry = reg, px_app = (initial_app_state ''me'' [] 0 None)\<lparr>app_network_models := models\<rparr>,
      px_config = default_client_config\<lparr>cfg_p2p_mode := mode\<rparr>, px_env = (\<lambda>_. None), px_setup_complete = True,
      px_llm_ready = True\<rparr>"

definition toy_proxy_world :: proxy_world where
  "toy_proxy_world =
     \<lparr>pw_agent = \<lparr>aw_parse = (\<lambda>s. if s = ''pull new'' then Some (json_obj [(''name'', JStr ''new'')]) else None),
        aw_print = (\<lambda>_. []), aw_id = (\<lambda>_. []), aw_now = 0\<rparr>,
      pw_http = (\<lambda>_ _ _ _. Inl ''down''), pw_remote = (\<lambda>sc c. Inr [Inr (unwrap_or (prc_cluster_id c) [] @ unwrap_or (prc_swarm_id c) [])]),
      pw_lossy = (\<lambda>s. s), pw_rfc3339 = []\<rparr>"

definition toy_offer :: "nat \<Rightarrow> json" where
  "toy_offer k = json_obj [(''name'', JStr ''m''), (''_peer_count'', json_nat k), (''_cluster_id'', JStr ''elsewhere'')]"

lemma request_goes_to_busiest_network_witness:
  "\<exists>s. dispatch_remote_proxy toy_proxy_world
        (toy_proxy registry_new (unified_models [] [(''a'', [toy_offer 1]), (''b'', [toy_offer 2])]) Both) ''m'' ''/p'' JNull
      = asked toy_proxy_world ScopeSwarm s ''m'' ''/p'' JNull
    \<and> busiest_offer [(''a'', [toy_offer 1]), (''b'', [toy_offer 2])] ''m'' s"
proof -
  have "offered_in [(''a'', [toy_offer 1]), (''b'', [toy_offer 2])] ''m''" by code_simp
  then show ?thesis
    using request_goes_to_busiest_network [of "toy_proxy registry_new (unified_models [] [(''a'', [toy_offer 1]), (''b'', [toy_offer 2])]) Both"
        "[]" "[(''a'', [toy_offer 1]), (''b'', [toy_offer 2])]" "''m''" toy_proxy_world "''/p''" JNull]
    by (simp add: toy_proxy_def)
qed

lemma swarm_peer_names_the_cluster_witness:
  "dispatch_remote_proxy toy_proxy_world (toy_proxy registry_new (unified_models [] [(''s'', [toy_offer 1])]) Cluster) ''m'' ''/p'' JNull
     = Inr [Inr ''elsewhere'']"
proof -
  have "dispatch_remote_proxy toy_proxy_world (toy_proxy registry_new (unified_models [] [(''s'', [toy_offer 1])]) Cluster) ''m'' ''/p'' JNull
      = asked toy_proxy_world ScopeCluster ''elsewhere'' ''m'' ''/p'' JNull"
  proof (rule swarm_peer_names_the_cluster [where s = "''s''" and m = "toy_offer 1"])
    show "get_str ''name'' (toy_offer 1) = Some ''m''" by code_simp
    show "get_str ''_cluster_id'' (toy_offer 1) = Some ''elsewhere''" by code_simp
  qed (simp_all add: toy_proxy_def)
  then show ?thesis by (simp add: asked_def toy_proxy_world_def)
qed

lemma new_model_cannot_be_pulled_witness:
  "pull_model toy_proxy_world (toy_proxy (fst (rebuild_catalog toy_world toy_registry)) [] Cluster) ''pull new''
     = Fail 404 (''No attached server hosts model '' @ [CHR 0x27] @ ''new'' @ [CHR 0x27])"
proof -
  have "\<forall>r\<in>set (ordered_servers toy_registry). \<not> lists_model toy_world ''new'' r" by code_simp
  moreover have "body_field toy_proxy_world [''name'', ''model''] ''pull new'' = Some ''new''" by code_simp
  ultimately show ?thesis
    using new_model_cannot_be_pulled [OF toy_reach, of toy_world "toy_proxy (fst (rebuild_catalog toy_world toy_registry)) [] Cluster"
        "snd (rebuild_catalog toy_world toy_registry)" "''new''" toy_proxy_world "''pull new''"]
    by (simp add: toy_proxy_def)
qed

end
