(* ===== verification/Tx_Store.thy ===== *)
theory Tx_Store
  imports Peer_Stats Lobby_Url Rust_Order
begin

text \<open>
  The peer's own book of transactions (\<open>tx_db/mod.rs\<close>, \<open>tx_db/models.rs\<close>): what it reported, what the
  lobby settled, the peers it dealt with and those it blocks. A table is a map from its primary key; a scan
  of a table is in the order of the keys. Failures of the database are not modelled. The signed 64-bit
  sums wrap around, as in a release build.
\<close>

section \<open>Records\<close>

record peer_transaction =
  pt_req_id :: string
  pt_consumer_peer_id :: string
  pt_provider_peer_id :: string
  pt_model :: string
  pt_counterparty_peer_id :: string
  pt_status :: string
  pt_reported_at_unix :: nat
  pt_role :: string
  pt_prompt_tokens :: nat
  pt_completion_tokens :: nat
  pt_total_tokens :: nat
  pt_consumer_credit_delta :: int
  pt_provider_credit_delta :: int
  pt_local_credit_delta :: int
  pt_same_service :: bool
  pt_settled_at_unix :: nat

record known_peer =
  kp_peer_id :: string
  kp_first_seen_unix :: nat
  kp_last_seen_unix :: nat

record blocked_peer =
  bp_peer_id :: string
  bp_blocked_at_unix :: nat
  bp_source :: string
  bp_reason :: string

record tx_store =
  ts_transactions :: "(string, peer_transaction) hmap"
  ts_peers :: "(string, known_peer) hmap"
  ts_blocked :: "(string, blocked_peer) hmap"

text \<open>The lobby's view; an id is its printed form, a time the seconds since 1970.\<close>

record transaction_view =
  tv_req_id :: string
  tv_consumer_peer_id :: "string option"
  tv_provider_peer_id :: "string option"
  tv_model :: "string option"
  tv_total_tokens :: "int option"
  tv_same_service :: "bool option"
  tv_consumer_credit_delta :: "int option"
  tv_provider_credit_delta :: "int option"
  tv_status :: string
  tv_settled_at :: "int option"

definition empty_store :: tx_store where
  "empty_store = \<lparr>ts_transactions = hm_empty, ts_peers = hm_empty, ts_blocked = hm_empty\<rparr>"

section \<open>Reads and writes\<close>

definition load_transaction :: "tx_store \<Rightarrow> string \<Rightarrow> peer_transaction option" where
  "load_transaction st req_id = hm_get (ts_transactions st) req_id"

definition upsert_transaction :: "peer_transaction \<Rightarrow> tx_store \<Rightarrow> tx_store" where
  "upsert_transaction tx st = st\<lparr>ts_transactions := hm_insert (pt_req_id tx) tx (ts_transactions st)\<rparr>"

definition load_peer :: "tx_store \<Rightarrow> string \<Rightarrow> known_peer option" where
  "load_peer st peer_id = hm_get (ts_peers st) peer_id"

definition upsert_peer :: "string \<Rightarrow> nat \<Rightarrow> tx_store \<Rightarrow> tx_store" where
  "upsert_peer peer_id ts st =
     (if peer_id = [] then st
      else (let rec = (case load_peer st peer_id of
                         Some r \<Rightarrow> r\<lparr>kp_last_seen_unix := ts\<rparr>
                       | None \<Rightarrow> \<lparr>kp_peer_id = peer_id, kp_first_seen_unix = ts, kp_last_seen_unix = ts\<rparr>)
            in st\<lparr>ts_peers := hm_insert (kp_peer_id rec) rec (ts_peers st)\<rparr>))"

definition all_transactions :: "tx_store \<Rightarrow> peer_transaction list" where
  "all_transactions st = map snd (sort_by_key fst (ts_transactions st))"

definition PENDING :: string where "PENDING = ''pending''"
definition CONSUMER :: string where "CONSUMER = ''consumer''"
definition PROVIDER :: string where "PROVIDER = ''provider''"

section \<open>Reports\<close>

definition record_local_report ::
  "nat \<Rightarrow> string \<Rightarrow> string \<Rightarrow> string \<Rightarrow> string \<Rightarrow> string \<Rightarrow> nat \<Rightarrow> nat \<Rightarrow> nat \<Rightarrow> tx_store \<Rightarrow> tx_store" where
  "record_local_report now req_id role peer_id remote_peer_id model prompt completion tokens st =
     (let (consumer, provider) = (if role = CONSUMER then (peer_id, remote_peer_id) else (remote_peer_id, peer_id));
          tx = unwrap_or (load_transaction st req_id)
                 \<lparr>pt_req_id = req_id, pt_consumer_peer_id = consumer, pt_provider_peer_id = provider, pt_model = model,
                  pt_counterparty_peer_id = remote_peer_id, pt_status = PENDING, pt_reported_at_unix = now, pt_role = role,
                  pt_prompt_tokens = prompt, pt_completion_tokens = completion, pt_total_tokens = tokens,
                  pt_consumer_credit_delta = 0, pt_provider_credit_delta = 0, pt_local_credit_delta = 0,
                  pt_same_service = False, pt_settled_at_unix = 0\<rparr>;
          tx = tx\<lparr>pt_reported_at_unix := (if pt_reported_at_unix tx = 0 then now else pt_reported_at_unix tx),
                  pt_role := role, pt_counterparty_peer_id := remote_peer_id, pt_model := model,
                  pt_prompt_tokens := prompt, pt_completion_tokens := completion, pt_total_tokens := tokens,
                  pt_status := (if pt_status tx = [] then PENDING else pt_status tx)\<rparr>
      in upsert_transaction tx (upsert_peer (pt_provider_peer_id tx) now (upsert_peer (pt_consumer_peer_id tx) now st)))"

definition MISMATCHED :: string where "MISMATCHED = ''mismatched''"

definition lobby_consumer :: "transaction_view \<Rightarrow> string" where
  "lobby_consumer v = unwrap_or (tv_consumer_peer_id v) []"

definition lobby_provider :: "transaction_view \<Rightarrow> string" where
  "lobby_provider v = unwrap_or (tv_provider_peer_id v) []"

definition lobby_counterparty :: "string \<Rightarrow> transaction_view \<Rightarrow> string" where
  "lobby_counterparty local v = (if local = lobby_consumer v then lobby_provider v else lobby_consumer v)"

definition lobby_local_delta :: "string \<Rightarrow> transaction_view \<Rightarrow> int" where
  "lobby_local_delta local v =
     (if local = lobby_consumer v then unwrap_or (tv_consumer_credit_delta v) 0 else unwrap_or (tv_provider_credit_delta v) 0)"

definition lobby_settled_at :: "transaction_view \<Rightarrow> nat" where
  "lobby_settled_at v = (case tv_settled_at v of Some t \<Rightarrow> nat t | None \<Rightarrow> 0)"

definition known_transaction :: "nat \<Rightarrow> transaction_view \<Rightarrow> string \<Rightarrow> tx_store \<Rightarrow> peer_transaction" where
  "known_transaction now v local st =
     unwrap_or (load_transaction st (tv_req_id v))
       \<lparr>pt_req_id = tv_req_id v, pt_consumer_peer_id = lobby_consumer v, pt_provider_peer_id = lobby_provider v,
        pt_model = unwrap_or (tv_model v) [], pt_counterparty_peer_id = lobby_counterparty local v,
        pt_status = tv_status v, pt_reported_at_unix = max (lobby_settled_at v) now,
        pt_role = (if local = lobby_consumer v then CONSUMER else PROVIDER),
        pt_prompt_tokens = 0, pt_completion_tokens = 0, pt_total_tokens = nat (unwrap_or (tv_total_tokens v) 0),
        pt_consumer_credit_delta = unwrap_or (tv_consumer_credit_delta v) 0,
        pt_provider_credit_delta = unwrap_or (tv_provider_credit_delta v) 0,
        pt_local_credit_delta = lobby_local_delta local v, pt_same_service = unwrap_or (tv_same_service v) False,
        pt_settled_at_unix = lobby_settled_at v\<rparr>"

text \<open>The statistics of the connections are \<open>None\<close> where the caller passes none.\<close>

definition upsert_from_lobby ::
  "nat \<Rightarrow> transaction_view \<Rightarrow> string \<Rightarrow> tx_store \<times> peer_stats_tracker option \<Rightarrow> tx_store \<times> peer_stats_tracker option" where
  "upsert_from_lobby now v local s =
     (if local \<noteq> lobby_consumer v \<and> local \<noteq> lobby_provider v then s
      else (let tx = known_transaction now v local (fst s);
                stats = (if tv_status v = MISMATCHED \<and> pt_status tx \<noteq> MISMATCHED
                         then map_option (on_token_mismatch (lobby_counterparty local v)) (snd s) else snd s);
                tx = tx\<lparr>pt_consumer_peer_id := lobby_consumer v, pt_provider_peer_id := lobby_provider v,
                        pt_counterparty_peer_id := lobby_counterparty local v,
                        pt_model := unwrap_or (tv_model v) (pt_model tx),
                        pt_total_tokens := (case tv_total_tokens v of Some t \<Rightarrow> nat t | None \<Rightarrow> pt_total_tokens tx),
                        pt_status := tv_status v, pt_same_service := unwrap_or (tv_same_service v) False,
                        pt_consumer_credit_delta := unwrap_or (tv_consumer_credit_delta v) 0,
                        pt_provider_credit_delta := unwrap_or (tv_provider_credit_delta v) 0,
                        pt_local_credit_delta := lobby_local_delta local v,
                        pt_role := (if local = lobby_consumer v then CONSUMER else PROVIDER),
                        pt_settled_at_unix := lobby_settled_at v,
                        pt_reported_at_unix := (if pt_reported_at_unix tx = 0 then max (lobby_settled_at v) now
                                                else pt_reported_at_unix tx)\<rparr>
            in (upsert_transaction tx (upsert_peer (pt_provider_peer_id tx) now (upsert_peer (pt_consumer_peer_id tx) now (fst s))),
                stats)))"

text \<open>One round of the synchronisation with the lobby; \<open>fetch\<close> is what a GET of an address answers, where it
  answers with rows. A lobby host whose address cannot be built panics.\<close>

definition sync_transactions_once ::
  "nat \<Rightarrow> string option \<Rightarrow> (string \<Rightarrow> transaction_view list option) \<Rightarrow> string \<Rightarrow> string
     \<Rightarrow> tx_store \<times> peer_stats_tracker \<Rightarrow> (tx_store \<times> peer_stats_tracker) option" where
  "sync_transactions_once now tls_var fetch lobby_host local s =
     (if local = [] then Some s
      else map_option (\<lambda>url.
        case fetch url of
          None \<Rightarrow> s
        | Some rows \<Rightarrow>
            (case foldl (\<lambda>s v. upsert_from_lobby now v local s) (fst s, Some (snd s)) rows of
               (st, stats) \<Rightarrow> (st, unwrap_or stats (snd s))))
        (lobby_api_url tls_var lobby_host ''/api/public/transactions?limit=200''))"

section \<open>Views\<close>

definition token_totals_by_counterparty :: "tx_store \<Rightarrow> (string, nat) hmap" where
  "token_totals_by_counterparty st =
     foldl (\<lambda>m tx. hm_entry (pt_counterparty_peer_id tx) 0 (\<lambda>n. wrap_add64 n (pt_total_tokens tx)) m) hm_empty
       (all_transactions st)"

record transaction_list_item =
  tl_req_id :: string
  tl_role :: string
  tl_counterparty_peer_id :: string
  tl_consumer_peer_id :: string
  tl_provider_peer_id :: string
  tl_model :: string
  tl_total_tokens :: nat
  tl_local_credit_delta :: int
  tl_status :: string
  tl_reported_at_unix :: nat
  tl_settled_at_unix :: nat

definition list_item :: "peer_transaction \<Rightarrow> transaction_list_item" where
  "list_item tx =
     \<lparr>tl_req_id = pt_req_id tx, tl_role = pt_role tx, tl_counterparty_peer_id = pt_counterparty_peer_id tx,
      tl_consumer_peer_id = pt_consumer_peer_id tx, tl_provider_peer_id = pt_provider_peer_id tx, tl_model = pt_model tx,
      tl_total_tokens = pt_total_tokens tx, tl_local_credit_delta = pt_local_credit_delta tx, tl_status = pt_status tx,
      tl_reported_at_unix = pt_reported_at_unix tx, tl_settled_at_unix = pt_settled_at_unix tx\<rparr>"

definition list_transactions :: "nat \<Rightarrow> nat \<Rightarrow> tx_store \<Rightarrow> transaction_list_item list" where
  "list_transactions limit offset st =
     map list_item (take limit (drop offset
       (sort_by (\<lambda>a b. ord_cmp (pt_reported_at_unix b) (pt_reported_at_unix a)) (all_transactions st))))"

definition wrap_i64 :: "int \<Rightarrow> int" where
  "wrap_i64 x = (x + 2 ^ 63) mod 2 ^ 64 - 2 ^ 63"

record credit_bucket =
  cb_consumed :: int
  cb_earned :: int

definition empty_bucket :: credit_bucket where
  "empty_bucket = \<lparr>cb_consumed = 0, cb_earned = 0\<rparr>"

definition book :: "int \<Rightarrow> credit_bucket \<Rightarrow> credit_bucket" where
  "book delta b =
     (if delta < 0 then b\<lparr>cb_consumed := wrap_i64 (cb_consumed b + wrap_i64 (\<bar>delta\<bar>))\<rparr>
      else b\<lparr>cb_earned := wrap_i64 (cb_earned b + delta)\<rparr>)"

definition counted :: "string \<Rightarrow> nat option \<Rightarrow> peer_transaction \<Rightarrow> bool" where
  "counted local since tx =
     (pt_status tx = ''settled'' \<and> (pt_consumer_peer_id tx = local \<or> pt_provider_peer_id tx = local)
      \<and> (case since of None \<Rightarrow> True
         | Some s \<Rightarrow> (if pt_settled_at_unix tx > 0 then pt_settled_at_unix tx else pt_reported_at_unix tx) \<ge> s))"

definition book_transaction ::
  "(string, credit_bucket) hmap \<times> (string, credit_bucket) hmap \<Rightarrow> peer_transaction
     \<Rightarrow> (string, credit_bucket) hmap \<times> (string, credit_bucket) hmap" where
  "book_transaction s tx =
     (if pt_local_credit_delta tx = 0 then s
      else (hm_entry (pt_model tx) empty_bucket (book (pt_local_credit_delta tx)) (fst s),
            hm_entry (pt_counterparty_peer_id tx) empty_bucket (book (pt_local_credit_delta tx)) (snd s)))"

definition by_turnover :: "string \<times> credit_bucket \<Rightarrow> string \<times> credit_bucket \<Rightarrow> ordering" where
  "by_turnover a b = ord_cmp (wrap_i64 (cb_consumed (snd b) + cb_earned (snd b))) (wrap_i64 (cb_consumed (snd a) + cb_earned (snd a)))"

text \<open>The statistics by model and by peer.\<close>

definition transaction_stats ::
  "string \<Rightarrow> nat option \<Rightarrow> tx_store \<Rightarrow> (string \<times> credit_bucket) list \<times> (string \<times> credit_bucket) list" where
  "transaction_stats local since st =
     (let (by_model, by_peer) = foldl book_transaction (hm_empty, hm_empty) (filter (counted local since) (all_transactions st))
      in (sort_by by_turnover by_model, sort_by by_turnover by_peer))"

section \<open>Blocked peers\<close>

definition block_peer :: "nat \<Rightarrow> string \<Rightarrow> string \<Rightarrow> string option \<Rightarrow> tx_store \<Rightarrow> tx_store" where
  "block_peer now peer_id source reason st =
     st\<lparr>ts_blocked := hm_insert peer_id
          \<lparr>bp_peer_id = peer_id, bp_blocked_at_unix = now, bp_source = source, bp_reason = unwrap_or reason []\<rparr>
          (ts_blocked st)\<rparr>"

definition load_blocked_peer :: "tx_store \<Rightarrow> string \<Rightarrow> blocked_peer option" where
  "load_blocked_peer st peer_id = hm_get (ts_blocked st) peer_id"

definition unblock_peer :: "string \<Rightarrow> tx_store \<Rightarrow> tx_store \<times> bool" where
  "unblock_peer peer_id st =
     (case load_blocked_peer st peer_id of
        None \<Rightarrow> (st, False)
      | Some r \<Rightarrow> (st\<lparr>ts_blocked := hm_remove (bp_peer_id r) (ts_blocked st)\<rparr>, True))"

definition is_peer_blocked :: "tx_store \<Rightarrow> string \<Rightarrow> bool" where
  "is_peer_blocked st peer_id = (load_blocked_peer st peer_id \<noteq> None)"

definition list_blocked_peers :: "tx_store \<Rightarrow> blocked_peer list" where
  "list_blocked_peers st =
     sort_by (\<lambda>a b. ord_cmp (bp_blocked_at_unix b) (bp_blocked_at_unix a)) (map snd (sort_by_key fst (ts_blocked st)))"

end
