(* ===== verification/Tx_Props.thy ===== *)
theory Tx_Props
  imports Tx_Store
begin

text \<open>
  Properties of the book of transactions: what the lobby settled stands whatever is reported afterwards, the
  statistics are the sums of the settled transactions, and a peer is blocked until it is unblocked. The last
  is shown in the locale \<open>blocklist\<close>, the contract the sessions rely on.
\<close>

section \<open>Settlements\<close>

datatype tx_event =
    Reported nat string string string string string nat nat nat
  | Settled nat transaction_view

fun tx_step :: "string \<Rightarrow> tx_event \<Rightarrow> tx_store \<Rightarrow> tx_store" where
  "tx_step local (Reported now r role peer remote model p c t) st = record_local_report now r role peer remote model p c t st"
| "tx_step local (Settled now v) st = fst (upsert_from_lobby now v local (st, None))"

definition tx_run :: "string \<Rightarrow> tx_event list \<Rightarrow> tx_store" where
  "tx_run local evs = foldl (\<lambda>st e. tx_step local e st) empty_store evs"

text \<open>The views of a transaction that concern the local peer, the tokens stated for it, in order.\<close>

definition concerns :: "string \<Rightarrow> transaction_view \<Rightarrow> bool" where
  "concerns local v = (local = lobby_consumer v \<or> local = lobby_provider v)"

fun view_of :: "string \<Rightarrow> string \<Rightarrow> tx_event \<Rightarrow> transaction_view list" where
  "view_of local r (Settled now v) = (if tv_req_id v = r \<and> concerns local v then [v] else [])"
| "view_of local r (Reported now r' role peer remote model p c t) = []"

fun tokens_of :: "string \<Rightarrow> string \<Rightarrow> tx_event \<Rightarrow> nat list" where
  "tokens_of local r (Settled now v) =
     (if tv_req_id v = r \<and> concerns local v then (case tv_total_tokens v of Some t \<Rightarrow> [nat t] | None \<Rightarrow> []) else [])"
| "tokens_of local r (Reported now r' role peer remote model p c t) = (if r' = r then [t] else [])"

fun reports :: "string \<Rightarrow> tx_event \<Rightarrow> bool" where
  "reports r (Settled now v) = False"
| "reports r (Reported now r' role peer remote model p c t) = (r' = r)"

definition views :: "string \<Rightarrow> string \<Rightarrow> tx_event list \<Rightarrow> transaction_view list" where
  "views local r evs = concat (map (view_of local r) evs)"

definition stated_tokens :: "string \<Rightarrow> string \<Rightarrow> tx_event list \<Rightarrow> nat list" where
  "stated_tokens local r evs = concat (map (tokens_of local r) evs)"

lemma views_simps [simp]:
  "views local r [] = []" "views local r (evs @ [e]) = views local r evs @ view_of local r e"
  "stated_tokens local r [] = []" "stated_tokens local r (evs @ [e]) = stated_tokens local r evs @ tokens_of local r e"
  by (simp_all add: views_def stated_tokens_def)

definition last_or :: "'a \<Rightarrow> 'a list \<Rightarrow> 'a" where
  "last_or d xs = (if xs = [] then d else last xs)"

lemma last_or_simps [simp]:
  "last_or d [] = d" "last_or d [x] = x" "last_or d (xs @ [x]) = x" "last_or d (xs @ []) = last_or d xs"
  by (simp_all add: last_or_def)

type_synonym terms = "int \<times> int \<times> int \<times> nat \<times> bool"

definition terms_of :: "peer_transaction \<Rightarrow> terms" where
  "terms_of tx = (pt_consumer_credit_delta tx, pt_provider_credit_delta tx, pt_local_credit_delta tx,
     pt_settled_at_unix tx, pt_same_service tx)"

definition lobby_terms :: "string \<Rightarrow> transaction_view \<Rightarrow> terms" where
  "lobby_terms local v = (unwrap_or (tv_consumer_credit_delta v) 0, unwrap_or (tv_provider_credit_delta v) 0,
     lobby_local_delta local v, lobby_settled_at v, unwrap_or (tv_same_service v) False)"

definition unsettled :: terms where
  "unsettled = (0, 0, 0, 0, False)"

lemma upsert_peer_keeps [simp]: "ts_transactions (upsert_peer p now st) = ts_transactions st"
  by (simp add: upsert_peer_def Let_def)

lemma load_upsert [simp]:
  "load_transaction (upsert_transaction tx st) r = (if r = pt_req_id tx then Some tx else load_transaction st r)"
  by (simp add: load_transaction_def upsert_transaction_def)

lemma load_upsert_peer [simp]: "load_transaction (upsert_peer p now st) r = load_transaction st r"
  by (simp add: load_transaction_def)

definition settled_as :: "string \<Rightarrow> tx_event list \<Rightarrow> tx_store \<Rightarrow> string \<Rightarrow> bool" where
  "settled_as local evs st r =
     (case load_transaction st r of
        None \<Rightarrow> views local r evs = [] \<and> \<not> list_ex (reports r) evs
          \<and> stated_tokens local r evs = []
      | Some tx \<Rightarrow> pt_req_id tx = r
          \<and> terms_of tx = last_or unsettled (map (lobby_terms local) (views local r evs))
          \<and> pt_total_tokens tx = last_or 0 (stated_tokens local r evs))"

lemma settled_step:
  assumes "\<forall>r. settled_as local evs st r"
  shows "settled_as local (evs @ [e]) (tx_step local e st) r"
proof (cases e)
  case (Reported now r' role peer remote model p c t)
  with assms [rule_format, of r] assms [rule_format, of r'] show ?thesis
    by (cases "r' = r"; cases "load_transaction st r'")
       (auto simp: settled_as_def record_local_report_def Let_def terms_of_def unsettled_def split: option.splits)
next
  case (Settled now v)
  show ?thesis
  proof (cases "concerns local v")
    case False
    with Settled assms [rule_format, of r] show ?thesis
      by (auto simp: settled_as_def upsert_from_lobby_def concerns_def split: option.splits)
  next
    case True
    then have c: "\<not> (local \<noteq> lobby_consumer v \<and> local \<noteq> lobby_provider v)" by (auto simp: concerns_def)
    from Settled True assms [rule_format, of r] assms [rule_format, of "tv_req_id v"] show ?thesis
      by (cases "tv_req_id v = r"; cases "load_transaction st (tv_req_id v)")
         (auto simp: settled_as_def upsert_from_lobby_def c known_transaction_def Let_def terms_of_def lobby_terms_def
           split: option.splits)
  qed
qed


section \<open>Statistics\<close>

lemma wrap_i64_add [simp]: "wrap_i64 (wrap_i64 a + b) = wrap_i64 (a + b)" "wrap_i64 (a + wrap_i64 b) = wrap_i64 (a + b)"
proof -
  have 1: "wrap_i64 (wrap_i64 a + b) = wrap_i64 (a + b)" for a b
  proof -
    have "wrap_i64 (wrap_i64 a + b) = ((a + 2 ^ 63) mod 2 ^ 64 + b) mod 2 ^ 64 - 2 ^ 63" by (simp add: wrap_i64_def algebra_simps)
    also have "\<dots> = (a + 2 ^ 63 + b) mod 2 ^ 64 - 2 ^ 63" by (simp only: mod_add_left_eq)
    finally show ?thesis by (simp add: wrap_i64_def algebra_simps)
  qed
  then show "wrap_i64 (wrap_i64 a + b) = wrap_i64 (a + b)" .
  from 1 [of b a] show "wrap_i64 (a + wrap_i64 b) = wrap_i64 (a + b)" by (simp add: add.commute)
qed

lemma wrap_i64_diff [simp]: "wrap_i64 (wrap_i64 a - b) = wrap_i64 (a - b)"
  using wrap_i64_add(1) [of a "- b"] by simp

lemma wrap_i64_0 [simp]: "wrap_i64 0 = 0"
  by (simp add: wrap_i64_def)

definition spent :: "(peer_transaction \<Rightarrow> string) \<Rightarrow> string \<Rightarrow> peer_transaction list \<Rightarrow> int" where
  "spent k x rows = (\<Sum>tx\<leftarrow>filter (\<lambda>tx. k tx = x) rows. max 0 (- pt_local_credit_delta tx))"

definition gained :: "(peer_transaction \<Rightarrow> string) \<Rightarrow> string \<Rightarrow> peer_transaction list \<Rightarrow> int" where
  "gained k x rows = (\<Sum>tx\<leftarrow>filter (\<lambda>tx. k tx = x) rows. max 0 (pt_local_credit_delta tx))"

definition moves :: "(peer_transaction \<Rightarrow> string) \<Rightarrow> string \<Rightarrow> peer_transaction list \<Rightarrow> bool" where
  "moves k x rows = list_ex (\<lambda>tx. k tx = x \<and> pt_local_credit_delta tx \<noteq> 0) rows"

definition bucket_of :: "(peer_transaction \<Rightarrow> string) \<Rightarrow> peer_transaction list \<Rightarrow> string \<Rightarrow> credit_bucket option" where
  "bucket_of k rows x =
     (if moves k x rows then Some \<lparr>cb_consumed = wrap_i64 (spent k x rows), cb_earned = wrap_i64 (gained k x rows)\<rparr> else None)"

definition book_into ::
  "(peer_transaction \<Rightarrow> string) \<Rightarrow> (string, credit_bucket) hmap \<Rightarrow> peer_transaction \<Rightarrow> (string, credit_bucket) hmap" where
  "book_into k m tx =
     (if pt_local_credit_delta tx = 0 then m else hm_entry (k tx) empty_bucket (book (pt_local_credit_delta tx)) m)"

lemma book_transaction_pair: "foldl book_transaction (a, b) rows = (foldl (book_into pt_model) a rows, foldl (book_into pt_counterparty_peer_id) b rows)"
  by (induction rows arbitrary: a b) (auto simp: book_transaction_def book_into_def)

lemma quiet_sums: "\<not> moves k x rows \<Longrightarrow> spent k x rows = 0 \<and> gained k x rows = 0"
  by (induction rows) (auto simp: moves_def spent_def gained_def)

lemma book_into_exact:
  "hm_wf (foldl (book_into k) hm_empty rows) \<and> hm_get (foldl (book_into k) hm_empty rows) x = bucket_of k rows x"
proof (induction rows rule: rev_induct)
  case Nil
  show ?case by (simp add: bucket_of_def moves_def)
next
  case (snoc tx rows)
  show ?case
  proof (cases "k tx = x \<and> pt_local_credit_delta tx \<noteq> 0")
    case True
    with snoc quiet_sums [of k x rows] show ?thesis
      by (auto simp: book_into_def bucket_of_def book_def empty_bucket_def moves_def spent_def gained_def)
  next
    case False
    then have "bucket_of k (rows @ [tx]) x = bucket_of k rows x"
      by (auto simp: bucket_of_def moves_def spent_def gained_def)
    with snoc False show ?thesis by (auto simp: book_into_def)
  qed
qed

lemma map_of_sort_by: "hm_wf m \<Longrightarrow> map_of (sort_by cmp m) = map_of m"
proof -
  assume "hm_wf m"
  moreover from this have "distinct (map fst (sort_by cmp m))"
    by (metis hm_wf_def mset_eq_imp_distinct_iff mset_map mset_sort_by)
  ultimately show ?thesis by (intro map_of_inject_set [THEN iffD2]) (simp_all add: hm_wf_def)
qed

definition turnover :: "string \<times> credit_bucket \<Rightarrow> int" where
  "turnover p = wrap_i64 (cb_consumed (snd p) + cb_earned (snd p))"

lemma sort_by_turnover_sorted: "sorted_wrt (\<lambda>a b. turnover b \<le> turnover a) (sort_by by_turnover m)"
  using sort_by_descending [of turnover m] by (simp add: by_turnover_def [abs_def] turnover_def)

text \<open>The statistics of credits. There is one line for each model, and one for each counterparty, that any settled
  transaction of this peer in the period moved credits for; it holds exactly what those transactions cost and what they
  earned, in 64 bits, and the lines with the largest turnover come first.\<close>

theorem transaction_stats_exact:
  fixes local since st
  defines "rows \<equiv> filter (counted local since) (all_transactions st)"
  shows "map_of (fst (transaction_stats local since st)) = bucket_of pt_model rows
    \<and> map_of (snd (transaction_stats local since st)) = bucket_of pt_counterparty_peer_id rows
    \<and> sorted_wrt (\<lambda>a b. turnover b \<le> turnover a) (fst (transaction_stats local since st))
    \<and> sorted_wrt (\<lambda>a b. turnover b \<le> turnover a) (snd (transaction_stats local since st))"
proof -
  have "map_of (sort_by by_turnover (foldl (book_into k) hm_empty rows)) = bucket_of k rows" for k
    using book_into_exact [of k rows] by (auto simp: map_of_sort_by hm_get_def)
  then show ?thesis
    unfolding transaction_stats_def rows_def [symmetric]
    by (simp add: book_transaction_pair sort_by_turnover_sorted)
qed

section \<open>Blocked peers\<close>

text \<open>The contract the sessions rely on.\<close>

locale blocklist =
  fixes inv :: "'s \<Rightarrow> bool" and block :: "'b \<Rightarrow> string \<Rightarrow> 's \<Rightarrow> 's" and unblock :: "string \<Rightarrow> 's \<Rightarrow> 's"
    and blocked :: "'s \<Rightarrow> string \<Rightarrow> bool"
  assumes inv_block: "inv s \<Longrightarrow> inv (block b p s)"
    and inv_unblock: "inv s \<Longrightarrow> inv (unblock p s)"
    and blocked_block: "inv s \<Longrightarrow> blocked (block b p s) q = (q = p \<or> blocked s q)"
    and blocked_unblock: "inv s \<Longrightarrow> blocked (unblock p s) q = (q \<noteq> p \<and> blocked s q)"
begin

definition moderate :: "'s \<Rightarrow> string \<times> 'b option \<Rightarrow> 's" where
  "moderate s a = (case snd a of Some b \<Rightarrow> block b (fst a) s | None \<Rightarrow> unblock (fst a) s)"

lemma blocked_by_last:
  assumes "inv s"
  shows "inv (foldl moderate s as) \<and> blocked (foldl moderate s as) q =
    (case find (\<lambda>a. fst a = q) (rev as) of None \<Rightarrow> blocked s q | Some a \<Rightarrow> snd a \<noteq> None)"
proof (induction as rule: rev_induct)
  case (snoc a as)
  then show ?case
    by (cases "snd a")
       (auto simp: moderate_def inv_block inv_unblock blocked_block blocked_unblock)
qed (simp add: assms)

end

definition blocks_ok :: "tx_store \<Rightarrow> bool" where
  "blocks_ok st = (hm_wf (ts_blocked st) \<and> (\<forall>p r. hm_get (ts_blocked st) p = Some r \<longrightarrow> bp_peer_id r = p))"

interpretation book: blocklist blocks_ok "\<lambda>(now, source, reason) p st. block_peer now p source reason st"
  "\<lambda>p st. fst (unblock_peer p st)" is_peer_blocked
  by unfold_locales
     (auto simp: blocks_ok_def block_peer_def unblock_peer_def is_peer_blocked_def load_blocked_peer_def
      split: option.splits if_splits)

text \<open>Whom the peer blocks. A peer is blocked exactly when the last thing done about it was to block it, whatever was
  done about others; and the list of blocked peers holds each of them once, the last blocked first.\<close>

theorem blocked_until_unblocked:
  fixes as
  defines "st \<equiv> foldl (\<lambda>st a. case snd a of Some (now, source, reason) \<Rightarrow> block_peer now (fst a) source reason st
      | None \<Rightarrow> fst (unblock_peer (fst a) st)) empty_store as"
  shows "(is_peer_blocked st p \<longleftrightarrow> (case find (\<lambda>a. fst a = p) (rev as) of None \<Rightarrow> False | Some a \<Rightarrow> snd a \<noteq> None))
    \<and> distinct (map bp_peer_id (list_blocked_peers st))
    \<and> (p \<in> bp_peer_id ` set (list_blocked_peers st) \<longleftrightarrow> is_peer_blocked st p)
    \<and> sorted_wrt (\<lambda>a b. bp_blocked_at_unix b \<le> bp_blocked_at_unix a) (list_blocked_peers st)"
proof -
  have st: "st = foldl book.moderate empty_store as"
  proof -
    have "(\<lambda>st a. case snd a of Some (now, source, reason) \<Rightarrow> block_peer now (fst a) source reason st
        | None \<Rightarrow> fst (unblock_peer (fst a) st)) = book.moderate"
      by (intro ext) (auto simp: book.moderate_def split: option.split)
    then show ?thesis by (simp add: st_def)
  qed
  have "blocks_ok empty_store" by (simp add: blocks_ok_def empty_store_def)
  note last = book.blocked_by_last [OF this, of as, folded st]
  have ok: "blocks_ok st" using last by blast
  have ids: "map bp_peer_id (map snd (ts_blocked st)) = map fst (ts_blocked st)"
    using ok by (auto simp: blocks_ok_def hm_wf_get)
  have "mset (map bp_peer_id (list_blocked_peers st)) = mset (map fst (ts_blocked st))"
    unfolding list_blocked_peers_def ids [symmetric] mset_map by simp
  moreover from this have "set (map bp_peer_id (list_blocked_peers st)) = set (map fst (ts_blocked st))"
    by (rule mset_eq_setD)
  moreover have "distinct (map bp_peer_id (list_blocked_peers st)) = distinct (map fst (ts_blocked st))"
    by (rule mset_eq_imp_distinct_iff) fact
  ultimately have "distinct (map bp_peer_id (list_blocked_peers st))
      \<and> (p \<in> bp_peer_id ` set (list_blocked_peers st) \<longleftrightarrow> is_peer_blocked st p)"
    using ok by (auto simp: blocks_ok_def hm_wf_def is_peer_blocked_def load_blocked_peer_def hm_get_def
        map_of_eq_None_iff)
  moreover have "is_peer_blocked st p \<longleftrightarrow> (case find (\<lambda>a. fst a = p) (rev as) of None \<Rightarrow> False | Some a \<Rightarrow> snd a \<noteq> None)"
    using last [of p] by (auto simp: is_peer_blocked_def load_blocked_peer_def empty_store_def split: option.split)
  moreover have "sorted_wrt (\<lambda>a b. bp_blocked_at_unix b \<le> bp_blocked_at_unix a) (list_blocked_peers st)"
    unfolding list_blocked_peers_def by (rule sort_by_descending)
  ultimately show ?thesis by blast
qed

end
