(* ===== verification/Session_Managers.thy ===== *)
theory Session_Managers
  imports Network_Catalog Network_Control Tx_Store
begin

text \<open>
  \<open>cluster_manager.rs\<close> and \<open>swarm_manager.rs\<close>: one session per connected cluster or swarm, kept in step with the
  configuration, and commands routed to the session they are for. \<open>network_state\<close> is what all sessions share.

  A session is a task with a number; \<open>mw_running\<close> says which tasks still run. The channels to a session are
  known by the number of the session that holds their receiving end, which is gone once the task ended or
  never started; a command sent then is lost. The queues' bounds are not modelled.
\<close>

section \<open>What the sessions share\<close>

record network_state =
  ns_app :: app_state
  ns_config :: client_config
  ns_store :: tx_store
  ns_stats :: peer_stats_tracker
  ns_registry :: peer_registry
  ns_cluster_models :: "(string, json list) hmap"
  ns_swarm_models :: "(string, json list) hmap"
  ns_cluster_connected :: "(string, bool) hmap"
  ns_swarm_connected :: "(string, bool) hmap"

record manager_world =
  mw_running :: "nat \<Rightarrow> bool"
  mw_opens :: "cluster_membership \<Rightarrow> bool"
  mw_unix :: nat
  mw_day :: nat
  mw_mins :: nat

definition sync_models :: "network_state \<Rightarrow> network_state" where
  "sync_models ns = ns\<lparr>ns_app := sync_unified_network_models (ns_cluster_models ns) (ns_swarm_models ns) (ns_app ns)\<rparr>"

fun show_direction :: "peer_direction \<Rightarrow> string" where
  "show_direction Inbound = ''inbound''"
| "show_direction Outbound = ''outbound''"

definition connection_view ::
  "nat \<Rightarrow> (string, nat) hmap \<Rightarrow> string set \<Rightarrow> peer_stats_tracker \<Rightarrow> tracked_peer \<Rightarrow> peer_connection_view" where
  "connection_view unix lifetime_totals blocked stats p =
     \<lparr>pcv_peer_id = tp_peer_id p, pcv_cluster_id = tp_cluster_id p, pcv_swarm_id = tp_swarm_id p,
      pcv_direction = show_direction (tp_direction p), pcv_since_secs = sat_sub unix (tp_connected_at p),
      pcv_data_channel_open = tp_data_channel_open p, pcv_blocked = (tp_peer_id p \<in> blocked),
      pcv_attestation_flags = tp_attestation_flags p,
      pcv_stats = Some (stats_snapshot unix (tp_peer_id p) (unwrap_or (hm_get lifetime_totals (tp_peer_id p)) 0) stats)\<rparr>"

definition sync_peer_connections ::
  "nat \<Rightarrow> string set \<Rightarrow> (string, nat) hmap \<Rightarrow> network_state \<Rightarrow> network_state" where
  "sync_peer_connections unix blocked lifetime_totals ns =
     ns\<lparr>ns_app := (ns_app ns)\<lparr>app_peer_connections :=
        map (connection_view unix lifetime_totals blocked (ns_stats ns)) (hm_values (ns_registry ns))\<rparr>\<rparr>"

definition sync_peer_connections_with_store :: "nat \<Rightarrow> network_state \<Rightarrow> network_state" where
  "sync_peer_connections_with_store unix ns =
     sync_peer_connections unix (set (map bp_peer_id (list_blocked_peers (ns_store ns))))
       (token_totals_by_counterparty (ns_store ns)) ns"

definition sync_swarm_peer_connections :: "nat \<Rightarrow> network_state \<Rightarrow> network_state" where
  "sync_swarm_peer_connections unix ns =
     sync_peer_connections unix (set (map bp_peer_id (list_blocked_peers (ns_store ns))))
       (token_totals_by_counterparty (ns_store ns)) ns"

section \<open>Clusters\<close>

record cluster_manager =
  cmg_clusters :: "cluster_membership list"
  cmg_cmd_txs :: "(string, nat) hmap"
  cmg_model_start_txs :: "(string, nat) hmap"
  cmg_connection_txs :: "(string, nat) hmap"
  cmg_moderation_txs :: "(string, nat) hmap"
  cmg_handles :: "(string, nat) hmap"
  cmg_next :: nat

type_synonym cluster_world = "cluster_manager \<times> network_state"

definition cluster_manager_new :: "cluster_membership list \<Rightarrow> cluster_manager" where
  "cluster_manager_new clusters =
     \<lparr>cmg_clusters = clusters, cmg_cmd_txs = hm_empty, cmg_model_start_txs = hm_empty, cmg_connection_txs = hm_empty,
      cmg_moderation_txs = hm_empty, cmg_handles = hm_empty, cmg_next = 0\<rparr>"

definition count_peers :: "(tracked_peer \<Rightarrow> string option) \<Rightarrow> peer_registry \<Rightarrow> string \<Rightarrow> peer_direction \<Rightarrow> nat" where
  "count_peers network reg i d = length (filter (\<lambda>p. network p = Some i \<and> tp_direction p = d) (hm_values reg))"

definition cluster_status_of :: "manager_world \<Rightarrow> network_state \<Rightarrow> cluster_membership \<Rightarrow> cluster_status" where
  "cluster_status_of w ns c =
     (let schedule = cluster_schedule_fields (mw_day w) (mw_mins w) (ns_config ns) c; i = cm_cluster_id c
      in \<lparr>cs_cluster_id = i, cs_name = cm_name c, cs_visibility = cm_visibility c,
          cs_lobby_connected = unwrap_or (hm_get (ns_cluster_connected ns) i) False,
          cs_outbound_peers = count_peers tp_cluster_id (ns_registry ns) i Outbound,
          cs_inbound_peers = count_peers tp_cluster_id (ns_registry ns) i Inbound,
          cs_accepting_jobs = cluster_accepts_jobs c, cs_connected = cluster_is_connected c,
          cs_network_models = unwrap_or (hm_get (ns_cluster_models ns) i) [],
          cs_schedule_enabled = ss_schedule_enabled schedule, cs_schedule_start = ss_schedule_start schedule,
          cs_schedule_end = ss_schedule_end schedule,
          cs_schedule_next_transition_at = ss_schedule_next_transition_at schedule,
          cs_schedule_inside_window = ss_schedule_inside_window schedule,
          cs_thermal_paused = tgs_active (app_gpu_thermal_guard (ns_app ns)) \<and> \<not> cluster_accepts_jobs c\<rparr>)"

definition sync_cluster_status_list :: "manager_world \<Rightarrow> network_state \<Rightarrow> network_state" where
  "sync_cluster_status_list w ns =
     ns\<lparr>ns_app := (ns_app ns)\<lparr>app_clusters := map (cluster_status_of w ns) (cfg_clusters (ns_config ns))\<rparr>\<rparr>"

definition drop_cluster_peers :: "string \<Rightarrow> peer_registry \<Rightarrow> peer_registry" where
  "drop_cluster_peers i reg = hm_retain (\<lambda>_ p. tp_cluster_id p \<noteq> Some i) reg"

definition stop_cluster :: "manager_world \<Rightarrow> string \<Rightarrow> cluster_world \<Rightarrow> cluster_world" where
  "stop_cluster w i s =
     (let (m, ns) = s;
          m = m\<lparr>cmg_handles := hm_remove i (cmg_handles m), cmg_cmd_txs := hm_remove i (cmg_cmd_txs m),
                cmg_model_start_txs := hm_remove i (cmg_model_start_txs m),
                cmg_connection_txs := hm_remove i (cmg_connection_txs m),
                cmg_moderation_txs := hm_remove i (cmg_moderation_txs m)\<rparr>;
          ns = ns\<lparr>ns_cluster_models := hm_remove i (ns_cluster_models ns),
                  ns_cluster_connected := hm_remove i (ns_cluster_connected ns),
                  ns_registry := drop_cluster_peers i (ns_registry ns)\<rparr>
      in (m, sync_cluster_status_list w (sync_peer_connections_with_store (mw_unix w) (sync_models ns))))"

text \<open>Connecting to the lobby may fail; the channels are in the maps by then.\<close>

definition spawn_cluster :: "manager_world \<Rightarrow> cluster_membership \<Rightarrow> cluster_manager \<Rightarrow> cluster_manager" where
  "spawn_cluster w c m =
     (let i = cm_cluster_id c; n = cmg_next m
      in if hm_contains (cmg_handles m) i then m
         else (let m = m\<lparr>cmg_next := n + 1, cmg_cmd_txs := hm_insert i n (cmg_cmd_txs m),
                        cmg_model_start_txs := hm_insert i n (cmg_model_start_txs m),
                        cmg_connection_txs := hm_insert i n (cmg_connection_txs m),
                        cmg_moderation_txs := hm_insert i n (cmg_moderation_txs m)\<rparr>
               in if mw_opens w c then m\<lparr>cmg_handles := hm_insert i n (cmg_handles m)\<rparr> else m))"

definition reap_finished_cluster_tasks :: "manager_world \<Rightarrow> cluster_manager \<Rightarrow> cluster_manager" where
  "reap_finished_cluster_tasks w m = m\<lparr>cmg_handles := hm_retain (\<lambda>_ n. mw_running w n) (cmg_handles m)\<rparr>"

definition spawn_missing_clusters :: "manager_world \<Rightarrow> cluster_membership list \<Rightarrow> cluster_manager \<Rightarrow> cluster_manager" where
  "spawn_missing_clusters w cs m =
     foldl (\<lambda>m c. if cluster_is_connected c \<and> \<not> hm_contains (cmg_handles m) (cm_cluster_id c) then spawn_cluster w c m else m) m cs"

definition should_stop_cluster :: "cluster_membership list \<Rightarrow> string \<Rightarrow> bool" where
  "should_stop_cluster desired i =
     (case find (\<lambda>c. cm_cluster_id c = i) desired of Some c \<Rightarrow> \<not> cluster_is_connected c | None \<Rightarrow> True)"

definition reconcile_clusters :: "manager_world \<Rightarrow> cluster_membership list \<Rightarrow> cluster_world \<Rightarrow> cluster_world" where
  "reconcile_clusters w desired s =
     (let m = reap_finished_cluster_tasks w (fst s);
          (m, ns) = foldl (\<lambda>s i. if should_stop_cluster desired i then stop_cluster w i s else s) (m, snd s)
                      (hm_keys (cmg_handles m));
          m = spawn_missing_clusters w desired m;
          m = m\<lparr>cmg_clusters := cfg_clusters (ns_config ns)\<rparr>
      in (m, sync_cluster_status_list w ns))"

text \<open>The start and the tick every 15 seconds.\<close>

definition start_clusters :: "manager_world \<Rightarrow> cluster_world \<Rightarrow> cluster_world" where
  "start_clusters w s =
     (let m = (fst s)\<lparr>cmg_clusters := cfg_clusters (ns_config (snd s))\<rparr>
      in (foldl (\<lambda>m c. if cluster_is_connected c then spawn_cluster w c m else m) m (cmg_clusters m),
          sync_cluster_status_list w (snd s)))"

definition reconnect_clusters :: "manager_world \<Rightarrow> cluster_world \<Rightarrow> cluster_world" where
  "reconnect_clusters w s =
     (spawn_missing_clusters w (cfg_clusters (ns_config (snd s))) (reap_finished_cluster_tasks w (fst s)),
      sync_cluster_status_list w (snd s))"

section \<open>Commands\<close>

text \<open>What becomes of a command: it reaches a session, is answered with an error, or is dropped.\<close>

datatype routed = ToSession nat | Refused string | Dropped

text \<open>The walk over the models of all networks; ties go to the one met first.\<close>

definition better_offer :: "string \<Rightarrow> string \<Rightarrow> (string \<times> nat) option \<Rightarrow> json \<Rightarrow> (string \<times> nat) option" where
  "better_offer model i best m =
     (if get_str ''name'' m \<noteq> Some model then best
      else (let count = unwrap_or (get_u64 ''_peer_count'' m) 1
            in case best of
                 Some (j, best_count) \<Rightarrow> if best_count \<ge> count then best else Some (i, count)
               | None \<Rightarrow> Some (i, count)))"

definition find_network_for_model :: "string \<Rightarrow> (string, json list) hmap \<Rightarrow> string option" where
  "find_network_for_model model networks =
     map_option fst (foldl (\<lambda>best p. foldl (better_offer model (fst p)) best (snd p)) None networks)"

definition send_to :: "manager_world \<Rightarrow> (string, nat) hmap \<Rightarrow> string \<Rightarrow> routed option" where
  "send_to w txs i = map_option (\<lambda>n. if mw_running w n then ToSession n else Dropped) (hm_get txs i)"

definition route_cluster_proxy_cmd :: "manager_world \<Rightarrow> cluster_world \<Rightarrow> proxy_request_command \<Rightarrow> routed" where
  "route_cluster_proxy_cmd w s cmd =
     (if (case prc_target_peer cmd of Some target \<Rightarrow> is_peer_blocked (ns_store (snd s)) target | None \<Rightarrow> False)
      then Refused (''Peer '' @ unwrap_or (prc_target_peer cmd) [] @ '' is blocked'')
      else (case opt_or (prc_cluster_id cmd) (find_network_for_model (prc_model cmd) (ns_cluster_models (snd s))) of
              None \<Rightarrow> Refused (''No cluster advertises model '' @ prc_model cmd)
            | Some i \<Rightarrow> unwrap_or (send_to w (cmg_cmd_txs (fst s)) i) (Refused (''Not connected to cluster '' @ i))))"

text \<open>The sessions a moderation reaches: all of them are told to close, the first of the map to report.\<close>

definition moderate_clusters :: "manager_world \<Rightarrow> cluster_manager \<Rightarrow> peer_moderation_action \<Rightarrow> nat list" where
  "moderate_clusters w m a =
     filter (mw_running w)
       (case a of CloseConnections _ \<Rightarrow> hm_values (cmg_moderation_txs m) | Report _ _ \<Rightarrow> take 1 (hm_values (cmg_moderation_txs m)))"

fun action_cluster :: "model_start_action \<Rightarrow> string option" where
  "action_cluster (MsRequest _ _ c _) = c"
| "action_cluster (MsRespond _ _ c _) = c"

definition route_cluster_model_start :: "manager_world \<Rightarrow> cluster_manager \<Rightarrow> model_start_action \<Rightarrow> routed" where
  "route_cluster_model_start w m a =
     unwrap_or (Option.bind (action_cluster a) (send_to w (cmg_model_start_txs m))) Dropped"

fun connection_cluster :: "connection_action \<Rightarrow> string option" where
  "connection_cluster (CnRespond _ _ c) = c"

definition route_cluster_connection :: "manager_world \<Rightarrow> cluster_manager \<Rightarrow> connection_action \<Rightarrow> routed" where
  "route_cluster_connection w m a =
     unwrap_or (Option.bind (connection_cluster a) (send_to w (cmg_connection_txs m))) Dropped"

section \<open>Swarms\<close>

record swarm_manager =
  smg_swarms :: "swarm_membership list"
  smg_cmd_txs :: "(string, nat) hmap"
  smg_model_start_txs :: "(string, nat) hmap"
  smg_moderation_txs :: "(string, nat) hmap"
  smg_handles :: "(string, nat) hmap"
  smg_next :: nat

type_synonym swarm_world = "swarm_manager \<times> network_state"

definition swarm_manager_new :: "swarm_membership list \<Rightarrow> swarm_manager" where
  "swarm_manager_new swarms =
     \<lparr>smg_swarms = swarms, smg_cmd_txs = hm_empty, smg_model_start_txs = hm_empty, smg_moderation_txs = hm_empty,
      smg_handles = hm_empty, smg_next = 0\<rparr>"

definition swarm_status_of :: "manager_world \<Rightarrow> network_state \<Rightarrow> swarm_membership \<Rightarrow> swarm_status" where
  "swarm_status_of w ns s =
     (let schedule = swarm_schedule_fields (mw_day w) (mw_mins w) (ns_config ns) s; i = sm_swarm_id s
      in \<lparr>sst_swarm_id = i, sst_name = sm_name s,
          sst_p2p_connected = unwrap_or (hm_get (ns_swarm_connected ns) i) False,
          sst_outbound_peers = count_peers tp_swarm_id (ns_registry ns) i Outbound,
          sst_inbound_peers = count_peers tp_swarm_id (ns_registry ns) i Inbound,
          sst_accepting_jobs = swarm_accepts_jobs s, sst_connected = swarm_is_connected s,
          sst_network_models = unwrap_or (hm_get (ns_swarm_models ns) i) [],
          sst_schedule_enabled = ss_schedule_enabled schedule, sst_schedule_start = ss_schedule_start schedule,
          sst_schedule_end = ss_schedule_end schedule,
          sst_schedule_next_transition_at = ss_schedule_next_transition_at schedule,
          sst_schedule_inside_window = ss_schedule_inside_window schedule,
          sst_thermal_paused = tgs_active (app_gpu_thermal_guard (ns_app ns)) \<and> \<not> swarm_accepts_jobs s\<rparr>)"

definition sync_swarm_status_list :: "manager_world \<Rightarrow> network_state \<Rightarrow> network_state" where
  "sync_swarm_status_list w ns =
     ns\<lparr>ns_app := (ns_app ns)\<lparr>app_swarms := map (swarm_status_of w ns) (cfg_swarms (ns_config ns))\<rparr>\<rparr>"

definition drop_swarm_peers :: "string \<Rightarrow> peer_registry \<Rightarrow> peer_registry" where
  "drop_swarm_peers i reg = hm_retain (\<lambda>_ p. tp_swarm_id p \<noteq> Some i) reg"

definition stop_swarm :: "manager_world \<Rightarrow> string \<Rightarrow> swarm_world \<Rightarrow> swarm_world" where
  "stop_swarm w i s =
     (let (m, ns) = s;
          m = m\<lparr>smg_handles := hm_remove i (smg_handles m), smg_cmd_txs := hm_remove i (smg_cmd_txs m),
                smg_model_start_txs := hm_remove i (smg_model_start_txs m),
                smg_moderation_txs := hm_remove i (smg_moderation_txs m)\<rparr>;
          ns = ns\<lparr>ns_swarm_models := hm_remove i (ns_swarm_models ns),
                  ns_swarm_connected := hm_remove i (ns_swarm_connected ns),
                  ns_registry := drop_swarm_peers i (ns_registry ns)\<rparr>
      in (m, sync_swarm_status_list w (sync_swarm_peer_connections (mw_unix w) (sync_models ns))))"

definition spawn_swarm :: "swarm_membership \<Rightarrow> swarm_manager \<Rightarrow> swarm_manager" where
  "spawn_swarm s m =
     (let i = sm_swarm_id s; n = smg_next m
      in if hm_contains (smg_handles m) i then m
         else m\<lparr>smg_next := n + 1, smg_cmd_txs := hm_insert i n (smg_cmd_txs m),
                smg_model_start_txs := hm_insert i n (smg_model_start_txs m),
                smg_moderation_txs := hm_insert i n (smg_moderation_txs m),
                smg_handles := hm_insert i n (smg_handles m)\<rparr>)"

definition reap_finished_swarm_tasks :: "manager_world \<Rightarrow> swarm_world \<Rightarrow> swarm_world" where
  "reap_finished_swarm_tasks w s =
     (let (m, ns) = s;
          finished = map fst (filter (\<lambda>(i, n). \<not> mw_running w n) (smg_handles m));
          ns = ns\<lparr>ns_swarm_connected := foldl (\<lambda>c i. hm_remove i c) (ns_swarm_connected ns) finished\<rparr>
      in (m\<lparr>smg_handles := hm_retain (\<lambda>_ n. mw_running w n) (smg_handles m)\<rparr>,
          if finished \<noteq> [] then sync_swarm_status_list w ns else ns))"

definition spawn_missing_swarms :: "swarm_membership list \<Rightarrow> swarm_manager \<Rightarrow> swarm_manager" where
  "spawn_missing_swarms ss m =
     foldl (\<lambda>m s. if swarm_is_connected s \<and> \<not> hm_contains (smg_handles m) (sm_swarm_id s) then spawn_swarm s m else m) m ss"

definition should_stop_swarm :: "swarm_membership list \<Rightarrow> string \<Rightarrow> bool" where
  "should_stop_swarm desired i =
     (case find (\<lambda>s. sm_swarm_id s = i) desired of Some s \<Rightarrow> \<not> swarm_is_connected s | None \<Rightarrow> True)"

definition reconcile_swarms :: "manager_world \<Rightarrow> swarm_membership list \<Rightarrow> swarm_world \<Rightarrow> swarm_world" where
  "reconcile_swarms w desired s =
     (let s = reap_finished_swarm_tasks w s;
          (m, ns) = foldl (\<lambda>s i. if should_stop_swarm desired i then stop_swarm w i s else s) s
                      (hm_keys (smg_handles (fst s)));
          m = spawn_missing_swarms desired m;
          m = m\<lparr>smg_swarms := cfg_swarms (ns_config ns)\<rparr>
      in (m, sync_swarm_status_list w ns))"

definition start_swarms :: "manager_world \<Rightarrow> swarm_world \<Rightarrow> swarm_world" where
  "start_swarms w s =
     (let m = (fst s)\<lparr>smg_swarms := cfg_swarms (ns_config (snd s))\<rparr>
      in (foldl (\<lambda>m x. if swarm_is_connected x then spawn_swarm x m else m) m (smg_swarms m), sync_swarm_status_list w (snd s)))"

definition reconnect_swarms :: "manager_world \<Rightarrow> swarm_world \<Rightarrow> swarm_world" where
  "reconnect_swarms w s =
     (let (m, ns) = reap_finished_swarm_tasks w s
      in (spawn_missing_swarms (cfg_swarms (ns_config ns)) m, sync_swarm_status_list w ns))"

definition route_swarm_proxy_cmd :: "manager_world \<Rightarrow> swarm_world \<Rightarrow> proxy_request_command \<Rightarrow> routed" where
  "route_swarm_proxy_cmd w s cmd =
     (if (case prc_target_peer cmd of Some target \<Rightarrow> is_peer_blocked (ns_store (snd s)) target | None \<Rightarrow> False)
      then Refused (''Peer '' @ unwrap_or (prc_target_peer cmd) [] @ '' is blocked'')
      else (case opt_or (prc_swarm_id cmd) (find_network_for_model (prc_model cmd) (ns_swarm_models (snd s))) of
              None \<Rightarrow> Refused (''No swarm advertises model '' @ prc_model cmd)
            | Some i \<Rightarrow> unwrap_or (send_to w (smg_cmd_txs (fst s)) i) (Refused (''Not connected to swarm '' @ i))))"

definition moderate_swarms :: "manager_world \<Rightarrow> swarm_manager \<Rightarrow> peer_moderation_action \<Rightarrow> nat list" where
  "moderate_swarms w m a =
     filter (mw_running w)
       (case a of CloseConnections _ \<Rightarrow> hm_values (smg_moderation_txs m) | Report _ _ \<Rightarrow> take 1 (hm_values (smg_moderation_txs m)))"

fun action_swarm :: "model_start_action \<Rightarrow> string option" where
  "action_swarm (MsRequest _ _ _ s) = s"
| "action_swarm (MsRespond _ _ _ s) = s"

definition route_swarm_model_start :: "manager_world \<Rightarrow> swarm_manager \<Rightarrow> model_start_action \<Rightarrow> routed" where
  "route_swarm_model_start w m a =
     unwrap_or (Option.bind (action_swarm a) (send_to w (smg_model_start_txs m))) Dropped"

text \<open>The statuses shown: the live ones where there are, else those of a swarm that is not running.\<close>

definition idle_swarm_status :: "manager_world \<Rightarrow> client_config \<Rightarrow> swarm_membership \<Rightarrow> swarm_status" where
  "idle_swarm_status w cfg s =
     (let schedule = swarm_schedule_fields (mw_day w) (mw_mins w) cfg s
      in \<lparr>sst_swarm_id = sm_swarm_id s, sst_name = sm_name s, sst_p2p_connected = False, sst_outbound_peers = 0,
          sst_inbound_peers = 0, sst_accepting_jobs = swarm_accepts_jobs s, sst_connected = swarm_is_connected s,
          sst_network_models = [], sst_schedule_enabled = ss_schedule_enabled schedule,
          sst_schedule_start = ss_schedule_start schedule, sst_schedule_end = ss_schedule_end schedule,
          sst_schedule_next_transition_at = ss_schedule_next_transition_at schedule,
          sst_schedule_inside_window = ss_schedule_inside_window schedule, sst_thermal_paused = False\<rparr>)"

definition build_swarm_statuses ::
  "manager_world \<Rightarrow> client_config \<Rightarrow> swarm_membership list \<Rightarrow> swarm_status list \<Rightarrow> swarm_status list" where
  "build_swarm_statuses w cfg swarms live =
     map (\<lambda>s. unwrap_or (find (\<lambda>l. sst_swarm_id l = sm_swarm_id s) live) (idle_swarm_status w cfg s)) swarms"

definition sync_swarm_status_for_proxy :: "manager_world \<Rightarrow> network_state \<Rightarrow> network_state" where
  "sync_swarm_status_for_proxy w ns =
     ns\<lparr>ns_app := (ns_app ns)\<lparr>app_swarms :=
        build_swarm_statuses w (ns_config ns) (cfg_swarms (ns_config ns)) (app_swarms (ns_app ns))\<rparr>\<rparr>"

end
