(* ===== verification/Session_Props.thy ===== *)
theory Session_Props
  imports Session_Managers
begin

text \<open>
  Properties of the managers of clusters and swarms. What both do to their sessions is the locale
  \<open>session_pool\<close>, interpreted for each of them.
\<close>

section \<open>A pool of sessions kept in step with a list of memberships\<close>

locale session_pool =
  fixes mid :: "'m \<Rightarrow> string" and on :: "'m \<Rightarrow> bool" and opens :: "'m \<Rightarrow> bool"
    and handles :: "'p \<Rightarrow> (string, nat) hmap" and spawn :: "'m \<Rightarrow> 'p \<Rightarrow> 'p"
  assumes spawn_known: "hm_contains (handles p) (mid c) \<Longrightarrow> spawn c p = p"
    and spawn_opens: "\<not> hm_contains (handles p) (mid c) \<Longrightarrow> opens c \<Longrightarrow> \<exists>n. handles (spawn c p) = hm_insert (mid c) n (handles p)"
    and spawn_fails: "\<not> opens c \<Longrightarrow> handles (spawn c p) = handles p"
begin

definition spawn_all :: "'m list \<Rightarrow> 'p \<Rightarrow> 'p" where
  "spawn_all cs p = foldl (\<lambda>p c. if on c \<and> \<not> hm_contains (handles p) (mid c) then spawn c p else p) p cs"

lemma spawn_one:
  "hm_contains (handles (if on c \<and> \<not> hm_contains (handles p) (mid c) then spawn c p else p)) i
     \<longleftrightarrow> hm_contains (handles p) i \<or> (mid c = i \<and> on c \<and> opens c)"
  "hm_get (handles p) i = Some n \<Longrightarrow>
     hm_get (handles (if on c \<and> \<not> hm_contains (handles p) (mid c) then spawn c p else p)) i = Some n"
  using spawn_opens [of p c] spawn_fails [of c p]
  by (cases "opens c"; force simp: hm_contains_def)+

lemma spawn_all_Cons:
  "spawn_all (c # cs) p = spawn_all cs (if on c \<and> \<not> hm_contains (handles p) (mid c) then spawn c p else p)"
  by (simp add: spawn_all_def)

lemma spawn_all_contains:
  "hm_contains (handles (spawn_all cs p)) i \<longleftrightarrow> hm_contains (handles p) i \<or> (\<exists>c\<in>set cs. mid c = i \<and> on c \<and> opens c)"
proof (induction cs arbitrary: p)
  case (Cons c cs)
  show ?case unfolding spawn_all_Cons Cons.IH spawn_one(1) by auto
qed (simp add: spawn_all_def)

lemma spawn_all_keeps:
  "hm_get (handles p) i = Some n \<Longrightarrow> hm_get (handles (spawn_all cs p)) i = Some n"
proof (induction cs arbitrary: p)
  case (Cons c cs)
  show ?case unfolding spawn_all_Cons by (rule Cons.IH [OF spawn_one(2) [OF Cons.prems]])
qed (simp add: spawn_all_def)

end

interpretation clusters: session_pool cm_cluster_id cluster_is_connected "mw_opens w" cmg_handles "spawn_cluster w" for w
  by unfold_locales (auto simp: spawn_cluster_def Let_def)

interpretation swarms: session_pool sm_swarm_id swarm_is_connected "\<lambda>_. True" smg_handles spawn_swarm
  by unfold_locales (auto simp: spawn_swarm_def Let_def)

lemma spawn_missing_all:
  "spawn_missing_clusters w = clusters.spawn_all w" "spawn_missing_swarms = swarms.spawn_all"
  by (simp_all add: fun_eq_iff spawn_missing_clusters_def clusters.spawn_all_def spawn_missing_swarms_def swarms.spawn_all_def)

section \<open>The network asked when none is named\<close>

definition offers_of :: "(string, json list) hmap \<Rightarrow> (string \<times> json) list" where
  "offers_of ps = concat (map (\<lambda>p. map (Pair (fst p)) (snd p)) ps)"

lemma walk_flat:
  "foldl (\<lambda>best p. foldl (better_offer n (fst p)) best (snd p)) b ps
     = foldl (\<lambda>best q. better_offer n (fst q) best (snd q)) b (offers_of ps)"
proof -
  have "foldl (better_offer n i) b ms = foldl (\<lambda>best q. better_offer n (fst q) best (snd q)) b (map (Pair i) ms)" for i b ms
    by (induction ms arbitrary: b) simp_all
  then show ?thesis by (induction ps arbitrary: b) (simp_all add: offers_of_def)
qed

definition best_so_far :: "string \<Rightarrow> (string \<times> json) list \<Rightarrow> (string \<times> nat) option \<Rightarrow> bool" where
  "best_so_far n qs best =
     (case best of
        None \<Rightarrow> \<forall>q\<in>set qs. get_str ''name'' (snd q) \<noteq> Some n
      | Some (i, k) \<Rightarrow> (\<exists>m. (i, m) \<in> set qs \<and> get_str ''name'' m = Some n \<and> peer_count m = k)
          \<and> (\<forall>q\<in>set qs. get_str ''name'' (snd q) = Some n \<longrightarrow> peer_count (snd q) \<le> k))"

lemma better_offer_step: "best_so_far n qs best \<Longrightarrow> best_so_far n (qs @ [q]) (better_offer n (fst q) best (snd q))"
  by (cases q) (auto simp: best_so_far_def better_offer_def Let_def peer_count_def split: option.splits)

lemma walk_best: "best_so_far n qs (foldl (\<lambda>best q. better_offer n (fst q) best (snd q)) None qs)"
proof (induction qs rule: rev_induct)
  case (snoc q qs)
  from better_offer_step [OF snoc, of q] show ?case by simp
qed (simp add: best_so_far_def)

lemma in_offers_of: "(i, m) \<in> set (offers_of ps) \<longleftrightarrow> (\<exists>ms. (i, ms) \<in> set ps \<and> m \<in> set ms)"
  by (force simp: offers_of_def)

text \<open>A request that names no network goes to one that offers the model with the most peers, and is refused exactly
  when none offers it.\<close>

theorem find_network_is_busiest:
  "case find_network_for_model n ps of None \<Rightarrow> \<not> offered_in ps n | Some i \<Rightarrow> busiest_offer ps n i"
proof -
  let ?best = "foldl (\<lambda>best q. better_offer n (fst q) best (snd q)) None (offers_of ps)"
  have f: "find_network_for_model n ps = map_option fst ?best" by (simp add: find_network_for_model_def walk_flat)
  note b = walk_best [of n "offers_of ps"]
  show ?thesis
  proof (cases ?best)
    case None
    with b have "\<forall>q\<in>set (offers_of ps). get_str ''name'' (snd q) \<noteq> Some n" by (simp add: best_so_far_def)
    then have "\<not> offered_in ps n" by (force simp: offered_in_def list_ex_iff offers_of_def)
    with None f show ?thesis by simp
  next
    case (Some a)
    obtain i k where a: "a = (i, k)" by (cases a)
    with Some b obtain m where m: "(i, m) \<in> set (offers_of ps)" "get_str ''name'' m = Some n" "peer_count m = k"
      and mx: "\<forall>q\<in>set (offers_of ps). get_str ''name'' (snd q) = Some n \<longrightarrow> peer_count (snd q) \<le> k"
      by (auto simp: best_so_far_def)
    from m(1) obtain ms where ms: "(i, ms) \<in> set ps" "m \<in> set ms" unfolding in_offers_of by blast
    have "peer_count m' \<le> peer_count m" if "(i', ms') \<in> set ps" "m' \<in> set ms'" "get_str ''name'' m' = Some n" for i' ms' m'
    proof -
      have "(i', m') \<in> set (offers_of ps)" unfolding in_offers_of using that by blast
      with mx that(3) m(3) show ?thesis by force
    qed
    with ms m(2) have "busiest_offer ps n i" unfolding busiest_offer_def by blast
    with Some f a show ?thesis by simp
  qed
qed

section \<open>Reconciliation\<close>

definition without :: "string list \<Rightarrow> (string, 'v) hmap \<Rightarrow> (string, 'v) hmap" where
  "without is m = filter (\<lambda>(k, v). k \<notin> set is) m"

lemma without_simps [simp]:
  "without [] m = m" "without is (hm_remove i m) = without (i # is) m"
  "hm_get (without is m) k = (if k \<in> set is then None else hm_get m k)"
  "hm_wf m \<Longrightarrow> hm_wf (without is m)"
proof -
  show "without [] m = m" by (simp add: without_def)
  show "without is (hm_remove i m) = without (i # is) m"
    by (auto simp: without_def hm_remove_def intro: filter_cong)
  show "hm_get (without is m) k = (if k \<in> set is then None else hm_get m k)"
    by (induction m) (auto simp: without_def hm_get_def)
  show "hm_wf m \<Longrightarrow> hm_wf (without is m)" by (simp add: without_def hm_wf_def distinct_map_filter)
qed

lemma without_one: "without [i] m = hm_remove i m"
  by (auto simp: without_def hm_remove_def intro: filter_cong)

definition stop_clusters :: "manager_world \<Rightarrow> string list \<Rightarrow> cluster_world \<Rightarrow> cluster_world" where
  "stop_clusters w is s = foldl (\<lambda>s i. stop_cluster w i s) s is"

lemma stop_filtered:
  "foldl (\<lambda>s i. if should_stop_cluster desired i then stop_cluster w i s else s) s is
     = stop_clusters w (filter (should_stop_cluster desired) is) s"
  by (induction "is" arbitrary: s) (auto simp: stop_clusters_def)

definition stopped_state :: "string list \<Rightarrow> network_state \<Rightarrow> network_state \<Rightarrow> bool" where
  "stopped_state is ns ns' =
     (ns_cluster_models ns' = without is (ns_cluster_models ns)
      \<and> ns_cluster_connected ns' = without is (ns_cluster_connected ns)
      \<and> ns_registry ns' = filter (\<lambda>e. tp_cluster_id (snd e) \<notin> Some ` set is) (ns_registry ns)
      \<and> ns_swarm_models ns' = ns_swarm_models ns \<and> ns_config ns' = ns_config ns
      \<and> app_network_models (ns_app ns') =
          (if is = [] then app_network_models (ns_app ns) else unified_models (ns_cluster_models ns') (ns_swarm_models ns)))"

lemma stop_one:
  assumes "stop_cluster w i (m, ns) = (m', ns')"
  shows "cmg_handles m' = hm_remove i (cmg_handles m) \<and> cmg_cmd_txs m' = hm_remove i (cmg_cmd_txs m)
    \<and> stopped_state [i] ns ns'"
proof -
  have r: "drop_cluster_peers i reg = filter (\<lambda>e. tp_cluster_id (snd e) \<notin> Some ` set [i]) reg" for reg
    by (auto simp: drop_cluster_peers_def hm_retain_def intro: filter_cong)
  from assms show ?thesis
    by (auto simp: stop_cluster_def Let_def stopped_state_def r without_one
        sync_cluster_status_list_def sync_peer_connections_with_store_def sync_swarm_peer_connections_def sync_peer_connections_def sync_models_def
        sync_unified_network_models_def split: prod.splits)
qed

lemma stop_clusters_effect:
  assumes "stop_clusters w is (m, ns) = (m', ns')"
  shows "cmg_handles m' = without is (cmg_handles m) \<and> cmg_cmd_txs m' = without is (cmg_cmd_txs m)
    \<and> stopped_state is ns ns'"
  using assms
proof (induction "is" arbitrary: m ns)
  case Nil
  then show ?case by (simp add: stop_clusters_def stopped_state_def)
next
  case (Cons i "is")
  obtain m1 ns1 where 1: "stop_cluster w i (m, ns) = (m1, ns1)" by (cases "stop_cluster w i (m, ns)")
  with Cons.prems have "stop_clusters w is (m1, ns1) = (m', ns')" by (simp add: stop_clusters_def)
  note 2 = Cons.IH [OF this] and 3 = stop_one [OF 1]
  from 2 3 show ?case
    unfolding stopped_state_def by (auto simp: without_one intro: filter_cong)
qed

lemma spawn_all_txs:
  "\<forall>c\<in>set cs. cluster_is_connected c \<longrightarrow> cm_cluster_id c \<noteq> i \<Longrightarrow>
     hm_get (cmg_cmd_txs (clusters.spawn_all w cs m)) i = hm_get (cmg_cmd_txs m) i"
proof (induction cs arbitrary: m)
  case (Cons c cs)
  then show ?case by (simp add: clusters.spawn_all_Cons) (auto simp: spawn_cluster_def Let_def)
qed (simp add: clusters.spawn_all_def)

lemma in_filter_keys: "i \<in> set (filter P (hm_keys m)) \<longleftrightarrow> hm_get m i \<noteq> None \<and> P i"
  using hm_contains_iff [of m i] by (auto simp: hm_contains_def)

lemma should_stop_iff:
  assumes "distinct (map cm_cluster_id desired)"
  shows "should_stop_cluster desired i \<longleftrightarrow> \<not> (\<exists>c\<in>set desired. cm_cluster_id c = i \<and> cluster_is_connected c)"
proof (cases "find (\<lambda>c. cm_cluster_id c = i) desired")
  case None
  then have "\<forall>c\<in>set desired. cm_cluster_id c \<noteq> i" by (auto simp: find_None_iff)
  with None show ?thesis by (auto simp: should_stop_cluster_def)
next
  case (Some c)
  then have c: "c \<in> set desired" "cm_cluster_id c = i" by (auto simp: find_Some_iff)
  have "c' = c" if "c' \<in> set desired" "cm_cluster_id c' = i" for c'
    using assms c that by (auto simp: distinct_map inj_on_def)
  with c show ?thesis unfolding should_stop_cluster_def Some option.case by blast
qed

definition running_session :: "manager_world \<Rightarrow> cluster_manager \<Rightarrow> string \<Rightarrow> nat option" where
  "running_session w m i = opt_filter (mw_running w) (hm_get (cmg_handles m) i)"


section \<open>Commands to a session that ended\<close>

text \<open>A command for a cluster whose session has ended, or never started, is dropped without an answer: its channel
  stays in the map until the cluster is stopped or connected again, also after the manager has noticed the end.\<close>

theorem command_to_ended_session_dropped:
  assumes "hm_get (cmg_cmd_txs m) i = Some n" "\<not> mw_running w n" "prc_target_peer cmd = None" "prc_cluster_id cmd = Some i"
  shows "route_cluster_proxy_cmd w (m, ns) cmd = Dropped
    \<and> route_cluster_proxy_cmd w (reap_finished_cluster_tasks w m, ns) cmd = Dropped"
  using assms by (simp add: route_cluster_proxy_cmd_def send_to_def reap_finished_cluster_tasks_def)

text \<open>A peer that is blocked is asked nothing: a command that names it is refused and reaches no session.\<close>

theorem blocked_peer_not_asked:
  assumes "prc_target_peer cmd = Some target" "is_peer_blocked (ns_store ns) target"
  shows "route_cluster_proxy_cmd w (m, ns) cmd = Refused (''Peer '' @ target @ '' is blocked'')
    \<and> route_swarm_proxy_cmd w (m', ns) cmd = Refused (''Peer '' @ target @ '' is blocked'')"
  using assms by (simp add: route_cluster_proxy_cmd_def route_swarm_proxy_cmd_def)

section \<open>Witnesses\<close>

definition toy_membership :: "string \<Rightarrow> bool \<Rightarrow> cluster_membership" where
  "toy_membership i on = \<lparr>cm_cluster_id = i, cm_name = None, cm_visibility = None, cm_accepting_jobs = None,
     cm_connected = Some on, cm_room_secret = None, cm_cluster_password = None, cm_require_e2ee = None, cm_require_tee = None,
     cm_required_attestation_flags = None, cm_schedule_enabled = None, cm_schedule_start = None, cm_schedule_end = None\<rparr>"

definition toy_manager_world :: manager_world where
  "toy_manager_world = \<lparr>mw_running = (\<lambda>n. n = 0), mw_opens = (\<lambda>_. True), mw_unix = 0, mw_day = 0, mw_mins = 0\<rparr>"

definition toy_network :: network_state where
  "toy_network = \<lparr>ns_app = initial_app_state ''me'' [] 0 None, ns_config = default_client_config, ns_store = empty_store,
     ns_stats = stats_new, ns_registry = hm_empty, ns_cluster_models = [(''a'', [])], ns_swarm_models = hm_empty,
     ns_cluster_connected = hm_empty, ns_swarm_connected = hm_empty\<rparr>"

definition toy_manager :: cluster_manager where
  "toy_manager = (cluster_manager_new [])\<lparr>cmg_handles := [(''a'', 0), (''b'', 1)], cmg_cmd_txs := [(''a'', 0), (''b'', 1)]\<rparr>"


definition toy_command :: "string option \<Rightarrow> proxy_request_command" where
  "toy_command target = \<lparr>prc_target_peer = target, prc_model = ''m'', prc_path = ''/api/chat'', prc_body = JNull,
     prc_cluster_id = Some ''b'', prc_swarm_id = None\<rparr>"

lemma command_to_ended_session_dropped_witness:
  "route_cluster_proxy_cmd toy_manager_world (toy_manager, toy_network) (toy_command None) = Dropped"
  using command_to_ended_session_dropped [of toy_manager "''b''" 1 toy_manager_world "toy_command None" toy_network]
  by (simp add: toy_manager_def toy_manager_world_def toy_command_def)

lemma blocked_peer_not_asked_witness:
  "route_cluster_proxy_cmd toy_manager_world (toy_manager, toy_network\<lparr>ns_store := block_peer 0 ''p'' ''ui'' None empty_store\<rparr>)
     (toy_command (Some ''p'')) = Refused ''Peer p is blocked''"
proof -
  have "is_peer_blocked (block_peer 0 ''p'' ''ui'' None empty_store) ''p''" by code_simp
  with blocked_peer_not_asked [of "toy_command (Some ''p'')" "''p''"
      "toy_network\<lparr>ns_store := block_peer 0 ''p'' ''ui'' None empty_store\<rparr>" toy_manager_world toy_manager]
  show ?thesis by (simp add: toy_command_def)
qed

end
