(* ===== verification/Swarm_Address.thy ===== *)
theory Swarm_Address
  imports Client_Config Rust_Order
begin

text \<open>
  Addresses of swarm peers (\<open>p2p_manager.rs\<close>, \<open>security/libp2p_keys.rs\<close>): where a peer listens, what it announces,
  and in which order another's addresses are dialled. A multiaddress is the list of its protocols; reading one from
  text and printing it is libp2p's, the record \<open>addr_lib\<close>, as is the identity derived from a key. A libp2p peer id is
  its printed form.
\<close>

datatype addr_proto =
    Ip4 nat nat nat nat
  | Tcp nat
  | Dns string
  | Dns4 string
  | P2pId string
  | OtherProto string

type_synonym multiaddr = "addr_proto list"

record addr_lib =
  al_parse :: "string \<Rightarrow> multiaddr option"
  al_show :: "multiaddr \<Rightarrow> string"
  al_legacy :: "string \<Rightarrow> string"

definition show_ip4 :: "nat \<Rightarrow> nat \<Rightarrow> nat \<Rightarrow> nat \<Rightarrow> string" where
  "show_ip4 a b c d = show_nat a @ ''.'' @ show_nat b @ ''.'' @ show_nat c @ ''.'' @ show_nat d"

section \<open>The peer's own addresses\<close>

text \<open>\<open>None\<close>: neither address parses, and the code panics.\<close>

definition p2p_listen_addr_from_env :: "addr_lib \<Rightarrow> environment \<Rightarrow> multiaddr option" where
  "p2p_listen_addr_from_env lib env =
     (let port = unwrap_or (Option.bind (env ''MTRXAI_P2P_LISTEN_PORT'') (parse_uint 2147483647)) 0;
          any = al_parse lib ''/ip4/0.0.0.0/tcp/0''
      in if port > 0 then opt_or (al_parse lib (''/ip4/0.0.0.0/tcp/'' @ show_nat port)) any else any)"

definition p2p_announce_host_from_env :: "environment \<Rightarrow> string option" where
  "p2p_announce_host_from_env env =
     opt_filter (\<lambda>s. s \<noteq> []) (map_option trim (env ''MTRXAI_P2P_ANNOUNCE_HOST''))"

fun routable_host :: "addr_proto \<Rightarrow> string option" where
  "routable_host (Ip4 a b c d) = (if (a, b, c, d) = (0, 0, 0, 0) \<or> a = 127 then None else Some (show_ip4 a b c d))"
| "routable_host _ = None"

fun tcp_port :: "addr_proto \<Rightarrow> nat option" where
  "tcp_port (Tcp p) = Some p"
| "tcp_port _ = None"

definition last_some :: "('a \<Rightarrow> 'b option) \<Rightarrow> 'a list \<Rightarrow> 'b option" where
  "last_some f xs = foldl (\<lambda>acc x. opt_or (f x) acc) None xs"

definition routable_listen_addr :: "addr_lib \<Rightarrow> multiaddr \<Rightarrow> multiaddr option" where
  "routable_listen_addr lib addr =
     (case (last_some routable_host addr, last_some tcp_port addr) of
        (Some h, Some p) \<Rightarrow> al_parse lib (''/ip4/'' @ h @ ''/tcp/'' @ show_nat p)
      | _ \<Rightarrow> None)"

definition is_ip_text :: "string \<Rightarrow> bool" where
  "is_ip_text host = list_all (\<lambda>c. digit_val c \<noteq> None \<or> c = CHR ''.'') host"

definition announce_multiaddr :: "addr_lib \<Rightarrow> multiaddr \<Rightarrow> string option \<Rightarrow> multiaddr option" where
  "announce_multiaddr lib raw announce_host =
     (case last_some tcp_port raw of
        None \<Rightarrow> None
      | Some port \<Rightarrow>
          (case announce_host of
             Some host \<Rightarrow>
               al_parse lib ((if is_ip_text host then ''/ip4/'' else ''/dns4/'') @ host @ ''/tcp/'' @ show_nat port)
           | None \<Rightarrow> routable_listen_addr lib raw))"

definition advertised_listen_addrs :: "addr_lib \<Rightarrow> environment \<Rightarrow> string \<Rightarrow> multiaddr list \<Rightarrow> string list" where
  "advertised_listen_addrs lib env local_id addrs =
     map (\<lambda>a. al_show lib a @ ''/p2p/'' @ local_id)
       (List.map_filter (\<lambda>a. announce_multiaddr lib a (p2p_announce_host_from_env env)) addrs)"

section \<open>Another peer's addresses\<close>

fun peer_id_from_multiaddr :: "multiaddr \<Rightarrow> string option" where
  "peer_id_from_multiaddr [] = None"
| "peer_id_from_multiaddr (P2pId i # ps) = Some i"
| "peer_id_from_multiaddr (_ # ps) = peer_id_from_multiaddr ps"

definition resolve_libp2p_peer_id :: "addr_lib \<Rightarrow> string list \<Rightarrow> string \<Rightarrow> string" where
  "resolve_libp2p_peer_id lib listen_addrs mtrxai_peer_id =
     (case List.map_filter (\<lambda>s. Option.bind (al_parse lib s) peer_id_from_multiaddr) listen_addrs of
        i # _ \<Rightarrow> i
      | [] \<Rightarrow> al_legacy lib mtrxai_peer_id)"

definition dial_addr_priority :: "multiaddr \<Rightarrow> nat" where
  "dial_addr_priority addr =
     (if list_ex (\<lambda>p. case p of Dns4 _ \<Rightarrow> True | _ \<Rightarrow> False) addr then 0
      else if list_ex (\<lambda>p. case p of Dns _ \<Rightarrow> True | _ \<Rightarrow> False) addr then 1 else 2)"

definition with_peer :: "string \<Rightarrow> multiaddr \<Rightarrow> multiaddr" where
  "with_peer libp2p_peer addr = (if peer_id_from_multiaddr addr = None then addr @ [P2pId libp2p_peer] else addr)"

definition dial_multiaddrs :: "addr_lib \<Rightarrow> string list \<Rightarrow> string \<Rightarrow> multiaddr list" where
  "dial_multiaddrs lib listen_addrs libp2p_peer =
     sort_by_key dial_addr_priority (map (with_peer libp2p_peer) (List.map_filter (al_parse lib) listen_addrs))"

text \<open>A set, as one list of its elements.\<close>

definition bootnode_peer_ids :: "addr_lib \<Rightarrow> string list \<Rightarrow> string list" where
  "bootnode_peer_ids lib bootnodes =
     remdups (List.map_filter (\<lambda>s. Option.bind (al_parse lib s) peer_id_from_multiaddr) bootnodes)"

end
