(* ===== verification/Swarm_Provider.thy ===== *)
theory Swarm_Provider
  imports Cluster_E2ee
begin

text \<open>
  The provider's side of a swarm (\<open>p2p_proxy.rs\<close>): a request that arrived over libp2p is checked, run on a local
  model and answered, in one message where it came in the clear, in encrypted pieces where it came encrypted.

  A request is served by its own task. What the task does is the list of its effects, in order. A consumer has
  one encrypted request at a time: a later one takes its slot, and the earlier task, which looks whether it still
  holds the slot before each step, stops. What the looks find is an argument, \<open>act\<close>: the \<open>n\<close>-th look finds \<open>act n\<close>.
\<close>

section \<open>Messages\<close>

text \<open>\<open>StreamMessage\<close>; its six encrypted forms are those of a data channel.\<close>

datatype stream_message =
    ProxyRequest string string json
  | ProxyResponse string string "string option"
  | ProxyRequestStart string string
  | ProxyRequestChunk string nat string
  | ProxyRequestEnd string
  | ProxyResponseChunk string string
  | ProxyResponseDone string
  | ProxyResponseError string string
  | Ping
  | Pong
  | CatalogSync catalog_update
  | Encrypted dc_message
  | ProxyAuth proxy_auth_proof

section \<open>Slots\<close>

record proxy_slot =
  sl_req_id :: string
  sl_generation :: nat

type_synonym proxy_slots = "(string, proxy_slot) hmap"

definition claim_encrypted_proxy_slot :: "string \<Rightarrow> string \<Rightarrow> proxy_slots \<Rightarrow> proxy_slots \<times> nat" where
  "claim_encrypted_proxy_slot consumer req_id slots =
     (let g = wrap_add64 (case hm_get slots consumer of Some s \<Rightarrow> sl_generation s | None \<Rightarrow> 0) 1
      in (hm_entry consumer \<lparr>sl_req_id = [], sl_generation = 0\<rparr> (\<lambda>_. \<lparr>sl_req_id = req_id, sl_generation = g\<rparr>) slots, g))"

definition encrypted_proxy_still_active :: "proxy_slots \<Rightarrow> string \<Rightarrow> string \<Rightarrow> nat \<Rightarrow> bool" where
  "encrypted_proxy_still_active slots consumer req_id generation =
     (case hm_get slots consumer of
        Some s \<Rightarrow> sl_req_id s = req_id \<and> sl_generation s = generation
      | None \<Rightarrow> False)"

section \<open>The peer as the task sees it\<close>

text \<open>A model's answer is an error or the items of a stream, \<open>None\<close> for a read error. \<open>pv_ipc\<close> is the sidecar.\<close>

record swarm_env =
  pv_config :: client_config
  pv_environment :: environment
  pv_blocked :: "string set"
  pv_sidecar :: bool
  pv_ipc :: "dc_message \<Rightarrow> string + stream_message"
  pv_answer :: "string \<Rightarrow> json \<Rightarrow> string \<Rightarrow> string + string option list"
  pv_parse :: "string \<Rightarrow> json option"
  pv_print :: "json \<Rightarrow> string option"
  pv_prims :: primitives
  pv_keys :: key_store
  pv_nonces :: "nat \<Rightarrow> string option"

datatype swarm_effect =
    SwRespond stream_message
  | SwReverse stream_message
  | SwDropQueue
  | SwStart string nat
  | SwProgress nat nat
  | SwError
  | SwComplete nat nat
  | SwReport string token_usage
  | SwForward string json string

definition request_bytes :: "swarm_env \<Rightarrow> json \<Rightarrow> nat" where
  "request_bytes env body = length (unwrap_or (pv_print env body) [])"

definition no_usage :: token_usage where
  "no_usage = \<lparr>tu_prompt = 0, tu_completion = 0, tu_total = 0\<rparr>"

definition buffer_usage :: "swarm_env \<Rightarrow> string \<Rightarrow> token_usage" where
  "buffer_usage env buffer = unwrap_or (parse_usage_from_buffer (pv_parse env) buffer) no_usage"

section \<open>Requests in the clear\<close>

text \<open>Reading the answer up to its end or the first read error; a piece that is not UTF-8 is skipped.\<close>

fun collect_answer :: "swarm_env \<Rightarrow> string \<Rightarrow> string option list \<Rightarrow> swarm_effect list \<times> string" where
  "collect_answer env buffer (Some b # items) =
     (if \<not> utf8_valid b then collect_answer env buffer items
      else (let (buffer, usage) = accumulate_and_parse_usage (pv_parse env) buffer b;
                (effs, buffer) = collect_answer env buffer items
            in (SwProgress (length b) (case usage of Some u \<Rightarrow> tu_total u | None \<Rightarrow> 0) # effs, buffer)))"
| "collect_answer env buffer _ = ([], buffer)"

definition swarm_accepting :: "client_config \<Rightarrow> string \<Rightarrow> bool" where
  "swarm_accepting cfg swarm_id = unwrap_or (map_option swarm_accepts_jobs (find_swarm cfg swarm_id)) True"

definition dispatch_swarm_proxy_request ::
  "swarm_env \<Rightarrow> string \<Rightarrow> string \<Rightarrow> string \<Rightarrow> string \<Rightarrow> json \<Rightarrow> swarm_effect list" where
  "dispatch_swarm_proxy_request env consumer swarm_id req_id path body =
     (let model = body_model body;
          refuse = (\<lambda>e. [SwError, SwRespond (ProxyResponse req_id [] (Some e))])
      in SwStart model (request_bytes env body) #
         (if consumer \<in> pv_blocked env then refuse ''Peer is blocked''
          else if \<not> swarm_accepting (pv_config env) swarm_id then refuse ''Peer is in maintenance mode''
          else (let body = body_defaults (pv_environment env) (pv_config env) body
                in SwForward path body model #
                   (case pv_answer env path body model of
                      Inl e \<Rightarrow> refuse (''Upstream error: '' @ e)
                    | Inr items \<Rightarrow>
                        (let (effs, buffer) = collect_answer env [] items;
                             usage = buffer_usage env buffer
                         in effs @ [SwComplete (tu_total usage) (length buffer), SwReport model usage,
                                    SwRespond (ProxyResponse req_id buffer None)])))))"

section \<open>Encrypted requests\<close>

definition SWARM_CHUNK_BYTES :: nat where "SWARM_CHUNK_BYTES = 3000"

text \<open>Sending what is pending: the number of looks at the slot so far, what is left, the next sequence number.\<close>

function flush_encrypted_pending ::
  "(nat \<Rightarrow> bool) \<Rightarrow> (nat \<Rightarrow> string \<Rightarrow> e2ee_error + (string \<times> string)) \<Rightarrow> string \<Rightarrow> nat \<Rightarrow> bool
     \<Rightarrow> nat \<Rightarrow> string \<Rightarrow> nat \<Rightarrow> nat \<times> string \<times> nat \<times> swarm_effect list" where
  "flush_encrypted_pending act enc req_id ver fin n pending seq =
     (if \<not> act n then (Suc n, pending, seq, [])
      else (case text_take SWARM_CHUNK_BYTES pending fin of
              None \<Rightarrow> (Suc n, pending, seq, [])
            | Some k \<Rightarrow>
                (let chunk = take k pending;
                     pending = drop k pending;
                     is_done = (fin \<and> pending = [])
                 in (case enc seq chunk of
                       Inl _ \<Rightarrow> (Suc n, pending, seq, [SwError])
                     | Inr (nonce, ct) \<Rightarrow>
                         (case flush_encrypted_pending act enc req_id ver fin (Suc n) pending (wrap_add32 seq 1) of
                            (n, pending, next, effs) \<Rightarrow>
                              (n, pending, next,
                               SwReverse (Encrypted (EncStreamChunk req_id seq nonce ct ver is_done)) # effs))))))"
  by pat_completeness auto
termination
  by (relation "measure (\<lambda>(_, _, _, _, _, _, pending, _). length pending)") (auto dest: text_take_shrinks)

declare flush_encrypted_pending.simps [simp del]

text \<open>The answer, piece by piece, then a last flush. Each piece is put in the buffer twice, once by the loop and
  once by the reading of the tokens.\<close>

definition finish_swarm_answer ::
  "swarm_env \<Rightarrow> (nat \<Rightarrow> bool) \<Rightarrow> (nat \<Rightarrow> string \<Rightarrow> e2ee_error + (string \<times> string)) \<Rightarrow> string \<Rightarrow> nat
     \<Rightarrow> nat \<Rightarrow> string \<Rightarrow> string \<Rightarrow> nat \<Rightarrow> swarm_effect list" where
  "finish_swarm_answer env act enc req_id ver n buffer pending seq =
     snd (snd (snd (flush_encrypted_pending act enc req_id ver True n pending seq)))
     @ [SwComplete (tu_total (buffer_usage env buffer)) (length buffer)]"

fun stream_swarm_answer ::
  "swarm_env \<Rightarrow> (nat \<Rightarrow> bool) \<Rightarrow> (nat \<Rightarrow> string \<Rightarrow> e2ee_error + (string \<times> string)) \<Rightarrow> string \<Rightarrow> nat
     \<Rightarrow> string option list \<Rightarrow> nat \<Rightarrow> string \<Rightarrow> string \<Rightarrow> nat \<Rightarrow> swarm_effect list" where
  "stream_swarm_answer env act enc req_id ver [] n buffer pending seq =
     finish_swarm_answer env act enc req_id ver n buffer pending seq"
| "stream_swarm_answer env act enc req_id ver (item # items) n buffer pending seq =
     (if \<not> act n then finish_swarm_answer env act enc req_id ver (Suc n) buffer pending seq
      else (case item of
              None \<Rightarrow> SwError # finish_swarm_answer env act enc req_id ver (Suc n) buffer pending seq
            | Some b \<Rightarrow>
                (if \<not> utf8_valid b then stream_swarm_answer env act enc req_id ver items (Suc n) buffer pending seq
                 else (let (buffer, usage) = accumulate_and_parse_usage (pv_parse env) (buffer @ b) b;
                           (n, pending, seq, sent) = flush_encrypted_pending act enc req_id ver False (Suc n) (pending @ b) seq
                       in SwProgress (length b) (case usage of Some u \<Rightarrow> tu_total u | None \<Rightarrow> 0) # sent
                          @ stream_swarm_answer env act enc req_id ver items n buffer pending seq))))"

definition sidecar_answer :: "swarm_env \<Rightarrow> encrypted_request \<Rightarrow> swarm_effect list" where
  "sidecar_answer env req =
     [SwRespond (case pv_ipc env (EncRequest (req\<lparr>er_auth := None\<rparr>)) of
        Inr resp \<Rightarrow> resp
      | Inl e \<Rightarrow> Encrypted (EncResponse (er_req_id req) [] [] (er_aad_version req) (Some (''Sidecar IPC error: '' @ e)) None))]"

text \<open>An answer on the request's own channel is given only while the slot is held; the first look is this one.
  \<open>show\<close> is the text of an error.\<close>

definition serve_encrypted ::
  "swarm_env \<Rightarrow> (e2ee_error \<Rightarrow> string) \<Rightarrow> (nat \<Rightarrow> bool) \<Rightarrow> string \<Rightarrow> encrypted_request \<Rightarrow> swarm_effect list" where
  "serve_encrypted env show act consumer req =
     (let req_id = er_req_id req; path = er_path req; ver = er_aad_version req;
          respond = (\<lambda>err stream. if act 0 then [SwRespond (Encrypted (EncResponse req_id [] [] ver err stream))] else [])
      in SwDropQueue #
         (if consumer \<in> pv_blocked env then respond (Some ''Peer is blocked'') None
          else (case decrypt_inbound_request (pv_prims env) (pv_parse env) (pv_keys env) (pv_config env) (er_room_id req)
                       req_id path (er_consumer_pk req) (er_nonce req) (er_ciphertext req) of
                  (Inl e, _) \<Rightarrow> respond (Some (show e)) None @ [SwError]
                | (Inr body, ks) \<Rightarrow>
                    (let body = body_defaults (pv_environment env) (pv_config env) body;
                         model = body_model body;
                         enc = (\<lambda>seq piece. fst (encrypt_proxy_chunk (pv_prims env) ks (pv_config env) (pv_nonces env seq)
                                  (er_room_id req) req_id path seq (er_consumer_pk req) piece))
                     in respond None (Some True) @ [SwStart model (request_bytes env body), SwForward path body model]
                        @ (case pv_answer env path body model of
                             Inl e \<Rightarrow> [SwError]
                           | Inr items \<Rightarrow> stream_swarm_answer env act enc req_id ver items 1 [] [] 0)))))"

definition dispatch_swarm_encrypted_proxy_request ::
  "swarm_env \<Rightarrow> (e2ee_error \<Rightarrow> string) \<Rightarrow> (nat \<Rightarrow> bool) \<Rightarrow> string \<Rightarrow> string \<Rightarrow> encrypted_request \<Rightarrow> proxy_slots
     \<Rightarrow> proxy_slots \<times> swarm_effect list" where
  "dispatch_swarm_encrypted_proxy_request env show act consumer consumer_libp2p req slots =
     (if pv_sidecar env then (slots, sidecar_answer env req)
      else (fst (claim_encrypted_proxy_slot consumer_libp2p (er_req_id req) slots),
            serve_encrypted env show act consumer req))"

end
