(* ===== verification/Swarm_Session.thy ===== *)
theory Swarm_Session
  imports Swarm_Address Swarm_Provider Session_Managers Peer_Ranking
begin

text \<open>
  The state of a swarm's session (\<open>P2pManager\<close> in \<open>p2p_manager.rs\<close>), the peers it knows and the catalogue of their
  models. Each map behind a lock is a field; what the session does on the outside is appended to its log, in order.
  libp2p is the record \<open>p2p_world\<close>: the peers connected now, which addresses it agrees to dial, the bytes drawn for an
  encryption. It numbers the requests it sends; a request is known by its number until it is answered or fails.
  \<open>wd_req_no\<close> is the counter of callers' requests, which the sessions of all swarms share. The channels to callers
  and to the local tasks have room.
\<close>

section \<open>State\<close>

record outbound_proxy =
  op_req_id :: string
  op_path :: string
  op_body :: json
  op_target :: string
  op_libp2p :: string
  op_attempts :: nat
  op_room_id :: "string option"
  op_secret :: "string option"
  op_provider_pk :: "string option"
  op_e2ee :: bool

record incoming_proxy =
  ip_path :: string
  ip_chunks :: "(nat \<times> string) list"

record swarm_stream =
  es_path :: string
  es_room_id :: string
  es_secret :: string
  es_provider_pk :: string
  es_line_buf :: string
  es_next_seq :: nat
  es_reorder :: "(nat, stream_chunk_data) hmap"

datatype p2p_action =
    DoSend nat string stream_message
  | DoReply stream_message
  | DoServe string string json string
  | DoServeEncrypted encrypted_request string string
  | DoDial multiaddr
  | DoPublish string gossip_message
  | DoClient nat "string + string"
  | DoDisconnect string
  | DoExplicit string
  | DoRegister string string
  | DoDiscover string string
  | DoExternal multiaddr

record p2p_session =
  pn_peer_id :: string
  pn_swarm_id :: string
  pn_token :: string
  pn_bootnodes :: "string list"
  pn_boot_ids :: "string list"
  pn_local_id :: string
  pn_listen_addrs :: "multiaddr list"
  pn_net :: network_state
  pn_registry :: llm_registry
  pn_keys :: key_store
  pn_cache :: "(string, cached_peer_record) hmap"
  pn_to_libp2p :: "(string, string) hmap"
  pn_to_mtrxai :: "(string, string) hmap"
  pn_clients :: "(string, nat) hmap"
  pn_outbound :: "(nat, outbound_proxy) hmap"
  pn_queue :: "outbound_proxy list"
  pn_incoming :: "(string, incoming_proxy) hmap"
  pn_latency :: "(string, nat) hmap"
  pn_pings :: "(nat, string \<times> nat) hmap"
  pn_streams :: "(string, swarm_stream) hmap"
  pn_early :: "(string, (nat, stream_chunk_data) hmap) hmap"
  pn_reverse :: "(string, stream_message list) hmap"
  pn_slots :: proxy_slots
  pn_outgoing_models :: "model_start_request_state list"
  pn_offers :: "model_start_offer_state list"
  pn_handled :: "string set"
  pn_backoff :: "nat option"
  pn_next_out :: nat
  pn_log :: "p2p_action list"

record p2p_world =
  wd_lib :: addr_lib
  wd_peers :: "string list"
  wd_dials :: "multiaddr \<Rightarrow> bool"
  wd_env :: environment
  wd_unix :: nat
  wd_ms :: nat
  wd_req_no :: nat
  wd_prims :: primitives
  wd_eph :: "nat \<Rightarrow> string"
  wd_nonce :: "nat \<Rightarrow> string option"
  wd_parse :: "string \<Rightarrow> json option"
  wd_print :: "json \<Rightarrow> string option"
  wd_gossip_len :: "gossip_message \<Rightarrow> nat option"
  wd_json_error :: "string \<Rightarrow> string"
  wd_load :: load_fn
  wd_show :: "e2ee_error \<Rightarrow> string"
  wd_servers :: server_world

definition is_connected :: "p2p_world \<Rightarrow> string \<Rightarrow> bool" where
  "is_connected w p = (p \<in> set (wd_peers w))"

definition emit :: "p2p_action list \<Rightarrow> p2p_session \<Rightarrow> p2p_session" where
  "emit as s = s\<lparr>pn_log := pn_log s @ as\<rparr>"

text \<open>The request gets libp2p's next number.\<close>

definition send_request :: "string \<Rightarrow> stream_message \<Rightarrow> p2p_session \<Rightarrow> p2p_session" where
  "send_request peer msg s = emit [DoSend (pn_next_out s) peer msg] (s\<lparr>pn_next_out := pn_next_out s + 1\<rparr>)"

definition on_stats :: "(peer_stats_tracker \<Rightarrow> peer_stats_tracker) \<Rightarrow> p2p_session \<Rightarrow> p2p_session" where
  "on_stats f s = s\<lparr>pn_net := (pn_net s)\<lparr>ns_stats := f (ns_stats (pn_net s))\<rparr>\<rparr>"

definition p2p_config :: "p2p_session \<Rightarrow> client_config" where
  "p2p_config s = ns_config (pn_net s)"

definition p2p_namespace :: "p2p_world \<Rightarrow> p2p_session \<Rightarrow> string" where
  "p2p_namespace w s = token_namespace (\<lambda>t. hex_encode (prim_sha256 (wd_prims w) t)) (pn_token s)"

definition gossip_topic :: "p2p_world \<Rightarrow> ((string \<Rightarrow> string) \<Rightarrow> string \<Rightarrow> string) \<Rightarrow> p2p_session \<Rightarrow> string" where
  "gossip_topic w topic s = topic (\<lambda>t. hex_encode (prim_sha256 (wd_prims w) t)) (pn_token s)"

definition p2p_manager_new ::
  "addr_lib \<Rightarrow> string \<Rightarrow> swarm_membership \<Rightarrow> string list \<Rightarrow> string \<Rightarrow> network_state \<Rightarrow> llm_registry \<Rightarrow> key_store \<Rightarrow> p2p_session" where
  "p2p_manager_new lib peer_id membership bootnodes local_id net reg keys =
     \<lparr>pn_peer_id = peer_id, pn_swarm_id = sm_swarm_id membership, pn_token = sm_p2p_token membership,
      pn_bootnodes = bootnodes, pn_boot_ids = bootnode_peer_ids lib bootnodes, pn_local_id = local_id,
      pn_listen_addrs = [], pn_net = net, pn_registry = reg, pn_keys = keys, pn_cache = hm_empty,
      pn_to_libp2p = hm_empty, pn_to_mtrxai = hm_empty, pn_clients = hm_empty, pn_outbound = hm_empty,
      pn_queue = [], pn_incoming = hm_empty, pn_latency = hm_empty, pn_pings = hm_empty, pn_streams = hm_empty,
      pn_early = hm_empty, pn_reverse = hm_empty, pn_slots = hm_empty, pn_outgoing_models = [], pn_offers = [],
      pn_handled = {}, pn_backoff = None, pn_next_out = 0, pn_log = []\<rparr>"

section \<open>Names of peers\<close>

definition map_peer :: "string \<Rightarrow> string \<Rightarrow> p2p_session \<Rightarrow> p2p_session" where
  "map_peer mtrxai libp2p s =
     s\<lparr>pn_to_libp2p := hm_insert mtrxai libp2p (pn_to_libp2p s), pn_to_mtrxai := hm_insert libp2p mtrxai (pn_to_mtrxai s)\<rparr>"

definition known_addrs :: "p2p_session \<Rightarrow> string \<Rightarrow> string list" where
  "known_addrs s mtrxai = unwrap_or (map_option cpr_listen_addrs (hm_get (pn_cache s) mtrxai)) []"

definition resolve_libp2p_peer :: "p2p_world \<Rightarrow> string \<Rightarrow> p2p_session \<Rightarrow> p2p_session \<times> string" where
  "resolve_libp2p_peer w mtrxai s =
     (case hm_get (pn_to_libp2p s) mtrxai of
        Some p \<Rightarrow> (s, p)
      | None \<Rightarrow>
          (let p = resolve_libp2p_peer_id (wd_lib w) (known_addrs s mtrxai) mtrxai in (map_peer mtrxai p s, p)))"

definition map_connected_mtrxai_peer :: "p2p_world \<Rightarrow> string \<Rightarrow> p2p_session \<Rightarrow> p2p_session" where
  "map_connected_mtrxai_peer w libp2p s =
     (case find (\<lambda>m. resolve_libp2p_peer_id (wd_lib w) [] m = libp2p) (hm_keys (pn_cache s)) of
        Some m \<Rightarrow> map_peer m libp2p s
      | None \<Rightarrow> s)"

definition track_libp2p_peer :: "p2p_world \<Rightarrow> string \<Rightarrow> peer_direction \<Rightarrow> p2p_session \<Rightarrow> p2p_session" where
  "track_libp2p_peer w libp2p direction s =
     (let m = unwrap_or (hm_get (pn_to_mtrxai s) libp2p) libp2p;
          s = map_peer m libp2p s
      in s\<lparr>pn_net := (pn_net s)\<lparr>ns_registry := hm_insert (swarm_peer_registry_key m (pn_swarm_id s))
            \<lparr>tp_peer_id = m, tp_cluster_id = None, tp_swarm_id = Some (pn_swarm_id s), tp_direction = direction,
             tp_connected_at = wd_unix w, tp_data_channel_open = True, tp_attestation_flags = 0\<rparr>
            (ns_registry (pn_net s))\<rparr>\<rparr>)"

definition untrack_libp2p_peer :: "string \<Rightarrow> p2p_session \<Rightarrow> p2p_session" where
  "untrack_libp2p_peer libp2p s =
     (let m = unwrap_or (hm_get (pn_to_mtrxai s) libp2p) libp2p;
          s = s\<lparr>pn_to_mtrxai := hm_remove libp2p (pn_to_mtrxai s), pn_to_libp2p := hm_remove m (pn_to_libp2p s),
                pn_net := (pn_net s)\<lparr>ns_registry := hm_remove (swarm_peer_registry_key m (pn_swarm_id s)) (ns_registry (pn_net s))\<rparr>\<rparr>
      in on_stats (stats_remove_peer m) s)"

definition sync_connections :: "p2p_world \<Rightarrow> p2p_session \<Rightarrow> p2p_session" where
  "sync_connections w s = s\<lparr>pn_net := sync_swarm_peer_connections (wd_unix w) (pn_net s)\<rparr>"

section \<open>Dialling\<close>

text \<open>The addresses tried: up to and with the first libp2p takes.\<close>

fun dialled :: "(multiaddr \<Rightarrow> bool) \<Rightarrow> multiaddr list \<Rightarrow> multiaddr list" where
  "dialled ok [] = []"
| "dialled ok (a # as) = a # (if ok a then [] else dialled ok as)"

definition dial_mtrxai_peer :: "p2p_world \<Rightarrow> string \<Rightarrow> string list \<Rightarrow> p2p_session \<Rightarrow> p2p_session" where
  "dial_mtrxai_peer w mtrxai listen_addrs s =
     (let p = resolve_libp2p_peer_id (wd_lib w) listen_addrs mtrxai;
          s = map_peer mtrxai p s
      in if is_connected w p then s
         else emit (map DoDial (dialled (wd_dials w) (dial_multiaddrs (wd_lib w) listen_addrs p))) s)"

definition own_addrs :: "p2p_world \<Rightarrow> p2p_session \<Rightarrow> string list" where
  "own_addrs w s = advertised_listen_addrs (wd_lib w) (wd_env w) (pn_local_id s) (pn_listen_addrs s)"

definition sync_external_addresses :: "p2p_world \<Rightarrow> p2p_session \<Rightarrow> p2p_session" where
  "sync_external_addresses w s =
     emit (map DoExternal (List.map_filter
       (\<lambda>a. announce_multiaddr (wd_lib w) a (p2p_announce_host_from_env (wd_env w))) (pn_listen_addrs s))) s"

definition ensure_bootnode_connections :: "p2p_world \<Rightarrow> p2p_session \<Rightarrow> p2p_session" where
  "ensure_bootnode_connections w s =
     (if pn_bootnodes s = [] \<or> pn_handled s \<noteq> {}
         \<or> (case pn_backoff s of Some t \<Rightarrow> wd_ms w < t | None \<Rightarrow> False) then s
      else emit (map DoDial (filter
             (\<lambda>a. case peer_id_from_multiaddr a of Some p \<Rightarrow> \<not> is_connected w p | None \<Rightarrow> True)
             (List.map_filter (al_parse (wd_lib w)) (pn_bootnodes s)))) s)"

text \<open>A rendezvous namespace longer than libp2p allows is an error; a token's hash never is.\<close>

definition rendezvous_register_and_discover :: "p2p_world \<Rightarrow> p2p_session \<Rightarrow> p2p_session" where
  "rendezvous_register_and_discover w s =
     (if pn_boot_ids s = [] then s
      else emit (concat (map (\<lambda>b. [DoRegister (p2p_namespace w s) b, DoDiscover (p2p_namespace w s) b]) (pn_boot_ids s)))
             (sync_external_addresses w s))"

definition rendezvous_discover :: "p2p_world \<Rightarrow> p2p_session \<Rightarrow> p2p_session" where
  "rendezvous_discover w s = emit (map (DoDiscover (p2p_namespace w s)) (pn_boot_ids s)) s"

text \<open>What the lobby knows of who is present: \<open>peers\<close> is what it answers, \<open>None\<close> for no usable answer.\<close>

definition dial_present :: "p2p_world \<Rightarrow> p2p_session \<Rightarrow> string \<times> string list \<Rightarrow> p2p_session" where
  "dial_present w s p =
     (let (peer, addrs) = p
      in if peer = pn_peer_id s then s
         else (let s = (if addrs \<noteq> [] then s\<lparr>pn_cache := hm_modify peer (\<lambda>r. r\<lparr>cpr_listen_addrs := addrs\<rparr>) (pn_cache s)\<rparr> else s)
               in if is_connected w (resolve_libp2p_peer_id (wd_lib w) addrs peer) then s
                  else dial_mtrxai_peer w peer addrs s))"

definition sync_presence_via_lobby :: "p2p_world \<Rightarrow> (string \<times> string list) list option \<Rightarrow> p2p_session \<Rightarrow> p2p_session" where
  "sync_presence_via_lobby w peers s =
     (if own_addrs w s = [] then s
      else (case peers of None \<Rightarrow> s | Some ps \<Rightarrow> foldl (dial_present w) s ps))"

section \<open>Latency\<close>

definition probe_peer_latency :: "p2p_world \<Rightarrow> string \<Rightarrow> string \<Rightarrow> p2p_session \<Rightarrow> p2p_session" where
  "probe_peer_latency w mtrxai libp2p s =
     (if \<not> is_connected w libp2p then s
      else (let n = pn_next_out s; s = send_request libp2p Ping s
            in s\<lparr>pn_pings := hm_insert n (mtrxai, wd_ms w) (pn_pings s)\<rparr>))"

definition probe_all_peer_latencies :: "p2p_world \<Rightarrow> p2p_session \<Rightarrow> p2p_session" where
  "probe_all_peer_latencies w s =
     foldl (\<lambda>s (m, p). if p = pn_local_id s then s else probe_peer_latency w m p s) s (pn_to_libp2p s)"

end
