(* ===== verification/Swarm_Catalog.thy ===== *)
theory Swarm_Catalog
  imports Swarm_Session
begin

text \<open>
  The catalogue of a swarm (\<open>p2p_manager.rs\<close>): what the peer tells the others about its models, what it keeps of
  what they tell, and the list of the swarm's models made from both.
\<close>

section \<open>What the peer says of itself\<close>

text \<open>The registry's answer becomes the list of local models; with no server attached the list is emptied.\<close>

definition refresh_local_catalog :: "p2p_world \<Rightarrow> p2p_session \<Rightarrow> p2p_session" where
  "refresh_local_catalog w s =
     (let app = ns_app (pn_net s)
      in if rg_servers (pn_registry s) = []
         then s\<lparr>pn_net := (pn_net s)\<lparr>ns_app := app\<lparr>app_local_models := [], app_local_models_full := [],
                  app_local_model_collisions := []\<rparr>\<rparr>\<rparr>
         else (let (reg, snapshot) = rebuild_catalog (wd_servers w) (pn_registry s);
                   (models, names) = filter_models_for_cluster_advertisement snapshot (p2p_config s)
               in s\<lparr>pn_registry := reg,
                    pn_net := (pn_net s)\<lparr>ns_app := app\<lparr>app_local_models := names, app_local_models_full := models,
                      app_last_gpu_host := opt_or (cat_gpu_host snapshot) (app_last_gpu_host app),
                      app_local_model_collisions := cat_collisions snapshot\<rparr>\<rparr>\<rparr>))"

text \<open>The public key under which others encrypt for this peer; making it may store the room's key pair.\<close>

definition own_static_pk :: "p2p_world \<Rightarrow> p2p_session \<Rightarrow> p2p_session \<times> string option" where
  "own_static_pk w s =
     (let room = unwrap_or (e2ee_room_id_for_swarm_membership (wd_prims w) (p2p_config s) (pn_swarm_id s)) (pn_swarm_id s)
      in case provider_static_public_key (wd_prims w) (pn_keys s) (p2p_config s) room of
           (Inr pk, ks) \<Rightarrow> (s\<lparr>pn_keys := ks\<rparr>, Some (hex_encode pk))
         | (Inl _, ks) \<Rightarrow> (s\<lparr>pn_keys := ks\<rparr>, None))"

definition sidecar_trust :: "environment \<Rightarrow> string" where
  "sidecar_trust env = (if inference_sidecar_enabled env then ''host'' else ''transport'')"

definition local_cached_record :: "p2p_world \<Rightarrow> p2p_session \<Rightarrow> p2p_session \<times> cached_peer_record" where
  "local_cached_record w s =
     (let app = ns_app (pn_net s);
          accepting = swarm_accepting (p2p_config s) (pn_swarm_id s);
          tee = unwrap_or (cfg_gpu_cc_mode (p2p_config s)) False;
          (s, pk) = own_static_pk w s
      in (s, \<lparr>cpr_peer_id = pn_peer_id s, cpr_models = compact_models_for_gossip (app_local_models_full app),
              cpr_peer_info = compact_peer_info_for_gossip (app_peer_info app),
              cpr_gpu_host = compact_gpu_for_gossip (app_last_gpu_host app), cpr_accepting_jobs = accepting,
              cpr_listen_addrs = [], cpr_tee_capable = tee, cpr_trust_level = Some (sidecar_trust (wd_env w)),
              cpr_gpu_model = Option.bind (app_last_gpu_host app) gh_name, cpr_provider_static_pk = pk\<rparr>))"

definition local_catalog :: "p2p_world \<Rightarrow> p2p_session \<Rightarrow> p2p_session \<times> catalog_update" where
  "local_catalog w s =
     (let app = ns_app (pn_net s);
          accepting = swarm_accepting (p2p_config s) (pn_swarm_id s);
          tee = unwrap_or (cfg_gpu_cc_mode (p2p_config s)) False \<or> env_truthy (wd_env w) ''MTRXAI_TEE_MOCK'';
          (s, pk) = own_static_pk w s
      in (s, \<lparr>cu_peer_id = pn_peer_id s, cu_models = compact_models_for_gossip (app_local_models_full app),
              cu_peer_info = compact_peer_info_for_gossip (app_peer_info app),
              cu_gpu_host = compact_gpu_for_gossip (app_last_gpu_host app), cu_accepting_jobs = accepting,
              cu_listen_addrs = own_addrs w s, cu_tee_capable = Some tee,
              cu_gpu_model = Option.bind (app_last_gpu_host app) gh_name, cu_attestation_expiry = None,
              cu_trust_level = Some (if tee then ''tee_gpu'' else sidecar_trust (wd_env w)),
              cu_provider_static_pk = pk\<rparr>))"

definition build_catalog_sync :: "p2p_world \<Rightarrow> p2p_session \<Rightarrow> p2p_session \<times> stream_message" where
  "build_catalog_sync w s = (let (s, u) = local_catalog w s in (s, CatalogSync u))"

section \<open>The swarm's models\<close>

record swarm_offer =
  so_template :: json
  so_peers :: "json list"
  so_ids :: "string set"
  so_loaded :: nat

definition add_offer :: "cached_peer_record \<Rightarrow> (string, swarm_offer) hmap \<Rightarrow> json \<Rightarrow> (string, swarm_offer) hmap" where
  "add_offer peer by_name model =
     (case get_str ''name'' model of
        None \<Rightarrow> by_name
      | Some name \<Rightarrow>
          hm_entry name \<lparr>so_template = model, so_peers = [], so_ids = {}, so_loaded = 0\<rparr>
            (\<lambda>f. let f = f\<lparr>so_template := prefer_richer_template (so_template f) model\<rparr>
                 in if cpr_peer_id peer \<in> so_ids f then f
                    else f\<lparr>so_ids := insert (cpr_peer_id peer) (so_ids f),
                           so_peers := so_peers f @ [json_obj [(''id'', JStr (cpr_peer_id peer)), (''loaded'', JBool (model_loaded model))]],
                           so_loaded := so_loaded f + (if model_loaded model then 1 else 0)\<rparr>)
            by_name)"

definition add_peer_offers :: "(string, swarm_offer) hmap \<Rightarrow> cached_peer_record \<Rightarrow> (string, swarm_offer) hmap" where
  "add_peer_offers by_name peer =
     (if \<not> cpr_accepting_jobs peer then by_name else foldl (add_offer peer) by_name (cpr_models peer))"

definition swarm_model :: "string \<Rightarrow> string \<times> swarm_offer \<Rightarrow> json" where
  "swarm_model swarm_id p =
     (let (name, offer) = p; n = length (so_peers offer);
          obj = unwrap_or (as_object (so_template offer)) [];
          obj = jmap_insert ''name'' (JStr name) obj;
          obj = jmap_insert ''_swarm_id'' (JStr swarm_id) obj;
          obj = jmap_insert ''_peer'' (case so_peers offer of p # _ \<Rightarrow> p | [] \<Rightarrow> JNull) obj;
          obj = jmap_insert ''_peers'' (JArr (so_peers offer)) obj;
          obj = jmap_insert ''_peer_count'' (json_nat n) obj;
          obj = jmap_insert ''_loaded_count'' (json_nat (so_loaded offer)) obj;
          obj = jmap_insert ''_network_scope'' (JStr ''swarm'') obj;
          obj = jmap_insert ''_swarms'' (JArr [json_obj [(''swarm_id'', JStr swarm_id), (''peer_count'', json_nat n),
                  (''loaded_count'', json_nat (so_loaded offer))]]) obj
      in JObj obj)"

definition swarm_models :: "string \<Rightarrow> cached_peer_record list \<Rightarrow> json list" where
  "swarm_models swarm_id peers = map (swarm_model swarm_id) (foldl add_peer_offers hm_empty peers)"

definition rebuild_swarm_catalog :: "p2p_world \<Rightarrow> p2p_session \<Rightarrow> p2p_session" where
  "rebuild_swarm_catalog w s =
     (let (s, local) = local_cached_record w s;
          models = swarm_models (pn_swarm_id s) (hm_values (pn_cache s) @ [local])
      in s\<lparr>pn_net := sync_models ((pn_net s)\<lparr>ns_swarm_models := hm_insert (pn_swarm_id s) models (ns_swarm_models (pn_net s))\<rparr>)\<rparr>)"

section \<open>What others say\<close>

definition remote_record :: "catalog_update \<Rightarrow> cached_peer_record" where
  "remote_record u =
     \<lparr>cpr_peer_id = cu_peer_id u, cpr_models = cu_models u, cpr_peer_info = cu_peer_info u, cpr_gpu_host = cu_gpu_host u,
      cpr_accepting_jobs = cu_accepting_jobs u, cpr_listen_addrs = cu_listen_addrs u,
      cpr_tee_capable = unwrap_or (cu_tee_capable u) False, cpr_trust_level = cu_trust_level u,
      cpr_gpu_model = cu_gpu_model u, cpr_provider_static_pk = cu_provider_static_pk u\<rparr>"

definition apply_remote_catalog :: "p2p_world \<Rightarrow> catalog_update \<Rightarrow> p2p_session \<Rightarrow> p2p_session" where
  "apply_remote_catalog w u s =
     (if cu_peer_id u = pn_peer_id s then s
      else (let s = map_peer (cu_peer_id u) (resolve_libp2p_peer_id (wd_lib w) (cu_listen_addrs u) (cu_peer_id u)) s;
                s = dial_mtrxai_peer w (cu_peer_id u) (cu_listen_addrs u) s;
                s = s\<lparr>pn_cache := hm_insert (cu_peer_id u) (remote_record u) (pn_cache s)\<rparr>
            in rebuild_swarm_catalog w s))"

section \<open>Telling the others\<close>

definition push_catalog_to_swarm_peers :: "p2p_world \<Rightarrow> p2p_session \<Rightarrow> p2p_session" where
  "push_catalog_to_swarm_peers w s =
     (let (s, sync) = build_catalog_sync w s
      in foldl (\<lambda>s p. if p \<in> set (pn_boot_ids s) then s else send_request p sync (emit [DoExplicit p] s)) s (wd_peers w))"

text \<open>A catalogue that cannot be encoded is an error, which ends the publication there.\<close>

definition publish_catalog :: "p2p_world \<Rightarrow> p2p_session \<Rightarrow> p2p_session" where
  "publish_catalog w s =
     (let s = refresh_local_catalog w s;
          (s, u) = local_catalog w s;
          msg = fit_catalog_gossip (wd_gossip_len w) (CatalogUpdate u)
      in if wd_gossip_len w msg = None then s
         else rebuild_swarm_catalog w (push_catalog_to_swarm_peers w
                (emit [DoPublish (gossip_topic w catalog_topic s) msg] s)))"

section \<open>Models others are asked to start\<close>

definition sync_model_start_state :: "p2p_session \<Rightarrow> p2p_session" where
  "sync_model_start_state s =
     s\<lparr>pn_net := (pn_net s)\<lparr>ns_app := (ns_app (pn_net s))\<lparr>app_outgoing_model_requests := pn_outgoing_models s,
        app_incoming_model_offers := pn_offers s\<rparr>\<rparr>\<rparr>"

fun handle_gossip :: "p2p_world \<Rightarrow> gossip_message \<Rightarrow> p2p_session \<Rightarrow> p2p_session" where
  "handle_gossip w (CatalogUpdate u) s = apply_remote_catalog w u s"
| "handle_gossip w (ModelStartRequest req_id model requested_by) s =
     (if requested_by = pn_peer_id s \<or> \<not> swarm_accepting (p2p_config s) (pn_swarm_id s) then s
      else sync_model_start_state (s\<lparr>pn_offers := pn_offers s @
             [\<lparr>mso_req_id = req_id, mso_model = model, mso_cluster_id = None, mso_swarm_id = Some (pn_swarm_id s),
               mso_requested_by = requested_by, mso_estimated_vram_mb = 4096, mso_disk_size_mb = None,
               mso_run_on_requester = None, mso_received_at_unix = wd_unix w\<rparr>]\<rparr>))"
| "handle_gossip w _ s = s"

text \<open>A command for another swarm is dropped; a message that cannot be encoded is an error.\<close>

definition publish_model_start :: "p2p_world \<Rightarrow> gossip_message \<Rightarrow> p2p_session \<Rightarrow> p2p_session" where
  "publish_model_start w msg s =
     (if wd_gossip_len w msg = None then s else emit [DoPublish (gossip_topic w model_start_topic s) msg] s)"

fun handle_model_start_action :: "p2p_world \<Rightarrow> model_start_action \<Rightarrow> p2p_session \<Rightarrow> p2p_session" where
  "handle_model_start_action w (MsRequest req_id model _ swarm_id) s =
     (if swarm_id \<noteq> Some (pn_swarm_id s) then s
      else publish_model_start w (ModelStartRequest req_id model (pn_peer_id s))
             (sync_model_start_state (s\<lparr>pn_outgoing_models := pn_outgoing_models s @
               [\<lparr>msr_req_id = req_id, msr_model = model, msr_cluster_id = None, msr_swarm_id = Some (pn_swarm_id s),
                 msr_status = ''pending'', msr_progress_pct = None, msr_provider_peer = None, msr_peers = None,
                 msr_message = None, msr_updated_at_unix = wd_unix w\<rparr>]\<rparr>)))"
| "handle_model_start_action w (MsRespond req_id accept _ swarm_id) s =
     (if swarm_id \<noteq> Some (pn_swarm_id s) then s
      else publish_model_start w (ModelStartRespond req_id accept (pn_peer_id s)) s)"

definition handle_moderation :: "p2p_world \<Rightarrow> peer_moderation_action \<Rightarrow> p2p_session \<Rightarrow> p2p_session" where
  "handle_moderation w a s =
     (case a of
        CloseConnections peer \<Rightarrow>
          (case hm_get (pn_to_libp2p s) peer of Some p \<Rightarrow> emit [DoDisconnect p] s | None \<Rightarrow> s)
      | Report _ _ \<Rightarrow> s)"

end
