(* ===== verification/Swarm_Proxying.thy ===== *)
theory Swarm_Proxying
  imports Swarm_Catalog
begin

text \<open>
  Proxied requests in a swarm's session (\<open>p2p_manager.rs\<close>): the consumer's side, from the command to the last line of
  the answer, with its retries; and the messages other peers send.
\<close>

definition MAX_PROXY_BODY_BYTES :: nat where "MAX_PROXY_BODY_BYTES = 512 * 1024"
definition MAX_PROXY_SEND_ATTEMPTS :: nat where "MAX_PROXY_SEND_ATTEMPTS = 8"

section \<open>Ending a request\<close>

text \<open>Taking the client out of the table closes its channel once the message is sent.\<close>

definition drop_client :: "string \<Rightarrow> p2p_session \<Rightarrow> p2p_session" where
  "drop_client req_id s = s\<lparr>pn_clients := hm_remove req_id (pn_clients s)\<rparr>"

definition tell_client :: "string \<Rightarrow> (string + string) list \<Rightarrow> p2p_session \<Rightarrow> p2p_session" where
  "tell_client req_id msgs s =
     (case hm_get (pn_clients s) req_id of Some c \<Rightarrow> emit (map (DoClient c) msgs) s | None \<Rightarrow> s)"

definition forget_stream :: "string \<Rightarrow> p2p_session \<Rightarrow> p2p_session" where
  "forget_stream req_id s = s\<lparr>pn_streams := hm_remove req_id (pn_streams s), pn_early := hm_remove req_id (pn_early s)\<rparr>"

definition fail_proxy_request :: "string \<Rightarrow> string \<Rightarrow> p2p_session \<Rightarrow> p2p_session" where
  "fail_proxy_request req_id msg s =
     drop_client req_id (tell_client req_id [Inl msg] (on_stats (on_request_error req_id) s))"

section \<open>Sending a request\<close>

definition provider_key :: "p2p_world \<Rightarrow> string \<Rightarrow> string \<Rightarrow> p2p_session \<Rightarrow> p2p_session \<times> (e2ee_error + string)" where
  "provider_key w target room_id s =
     (let pk = Option.bind (hm_get (pn_cache s) target) cpr_provider_static_pk;
          (r, ks) = resolve_provider_static_public (wd_prims w) (pn_keys s) (p2p_config s) room_id pk
      in (s\<lparr>pn_keys := ks\<rparr>, r))"

text \<open>The message a request is sent as; an error ends the request.\<close>

definition outbound_message ::
  "p2p_world \<Rightarrow> outbound_proxy \<Rightarrow> p2p_session \<Rightarrow> p2p_session \<times> (string + outbound_proxy \<times> stream_message)" where
  "outbound_message w p s =
     (if \<not> op_e2ee p then (s, Inr (p, ProxyRequest (op_req_id p) (op_path p) (op_body p)))
      else (case op_room_id p of
              None \<Rightarrow> (s, Inl ''E2EE enabled but room_id missing'')
            | Some room_id \<Rightarrow>
                (case provider_key w (op_target p) room_id (forget_stream (op_req_id p) s) of
                   (s, Inl e) \<Rightarrow> (s, Inl (''E2EE provider key resolve failed: '' @ wd_show w e))
                 | (s, Inr pk) \<Rightarrow>
                     (case encrypt_proxy_request (wd_prims w) (pn_keys s) (p2p_config s) (wd_unix w) (wd_eph w (pn_next_out s))
                             (wd_nonce w (pn_next_out s)) (pn_peer_id s) (op_req_id p) (op_path p) (wd_print w (op_body p)) room_id pk of
                        (Inl e, ks) \<Rightarrow> (s\<lparr>pn_keys := ks\<rparr>, Inl (''E2EE encrypt failed: '' @ wd_show w e))
                      | (Inr (req, secret), ks) \<Rightarrow>
                          (s\<lparr>pn_keys := ks\<rparr>,
                           Inr (p\<lparr>op_provider_pk := Some pk, op_secret := Some secret\<rparr>, Encrypted (EncRequest req)))))))"

definition send_outbound_proxy :: "p2p_world \<Rightarrow> outbound_proxy \<Rightarrow> p2p_session \<Rightarrow> p2p_session" where
  "send_outbound_proxy w p s =
     (let (s, libp2p) = resolve_libp2p_peer w (op_target p) s; p = p\<lparr>op_libp2p := libp2p\<rparr>
      in if \<not> is_connected w libp2p then s\<lparr>pn_queue := pn_queue s @ [p]\<rparr>
         else (case outbound_message w p s of
                 (s, Inl e) \<Rightarrow> fail_proxy_request (op_req_id p) e s
               | (s, Inr (p, msg)) \<Rightarrow>
                   (let n = pn_next_out s; s = send_request libp2p msg s
                    in s\<lparr>pn_outbound := hm_insert n p (pn_outbound s)\<rparr>)))"

text \<open>Which peer is asked: the one named, or the best for the model.\<close>

definition blocked_ids :: "p2p_session \<Rightarrow> string set" where
  "blocked_ids s = set (map bp_peer_id (list_blocked_peers (ns_store (pn_net s))))"

definition choose_target :: "p2p_world \<Rightarrow> proxy_request_command \<Rightarrow> p2p_session \<Rightarrow> p2p_session \<times> (string + string)" where
  "choose_target w cmd s =
     (case prc_target_peer cmd of
        Some peer \<Rightarrow>
          (s, if is_peer_blocked (ns_store (pn_net s)) peer then Inl (''Peer '' @ peer @ '' is blocked'') else Inr peer)
      | None \<Rightarrow>
          (let (s, local) = local_cached_record w s;
               tee = require_tee (wd_env w) \<or> unwrap_or (cfg_require_tee_for_inference (p2p_config s)) False;
               ranked = rank_swarm_peers_for_model_with_tee (wd_load w) (prc_model cmd) (hm_values (pn_cache s) @ [local])
                          (pn_peer_id s) (blocked_ids s) (pn_latency s) tee
           in (s, case ranked of [] \<Rightarrow> Inl (''No swarm peers for model '' @ prc_model cmd) | p # _ \<Rightarrow> Inr p)))"

definition new_request ::
  "p2p_world \<Rightarrow> nat \<Rightarrow> proxy_request_command \<Rightarrow> string \<Rightarrow> string \<Rightarrow> nat \<Rightarrow> p2p_session \<Rightarrow> p2p_session \<times> outbound_proxy" where
  "new_request w client cmd target libp2p bytes s =
     (let req_id = ''p2p_'' @ show_nat (wd_req_no w);
          s = on_stats (on_request_start (wd_unix w) (wd_ms w) req_id target (prc_model cmd) bytes) s;
          s = forget_stream req_id (s\<lparr>pn_clients := hm_insert req_id client (pn_clients s)\<rparr>);
          room_id = room_id_for_proxy (wd_prims w) (p2p_config s) (prc_cluster_id cmd) (prc_swarm_id cmd)
      in (s, \<lparr>op_req_id = req_id, op_path = prc_path cmd, op_body = prc_body cmd, op_target = target, op_libp2p = libp2p,
              op_attempts = 0, op_room_id = room_id, op_secret = None, op_provider_pk = None,
              op_e2ee = (e2ee_enabled (wd_env w) \<and> room_id \<noteq> None)\<rparr>))"

text \<open>Sending the request, or queueing it until the peer is connected.\<close>

definition send_or_queue :: "p2p_world \<Rightarrow> string \<Rightarrow> outbound_proxy \<Rightarrow> p2p_session \<Rightarrow> p2p_session" where
  "send_or_queue w libp2p p s =
     (if is_connected w libp2p then send_outbound_proxy w p s
      else if known_addrs s (op_target p) = []
      then fail_proxy_request (op_req_id p) (''Peer '' @ op_target p @ '' has no P2P listen addresses yet'') s
      else (let s = dial_mtrxai_peer w (op_target p) (known_addrs s (op_target p)) s in s\<lparr>pn_queue := pn_queue s @ [p]\<rparr>))"

definition start_request :: "p2p_world \<Rightarrow> nat \<Rightarrow> proxy_request_command \<Rightarrow> string \<Rightarrow> p2p_session \<Rightarrow> p2p_session" where
  "start_request w client cmd target s =
     (let (s, libp2p) = resolve_libp2p_peer w target s;
          s = map_peer target libp2p s;
          s = (if is_connected w libp2p \<or> known_addrs s target = [] then s
               else dial_mtrxai_peer w target (known_addrs s target) s)
      in case wd_print w (prc_body cmd) of
           None \<Rightarrow> s
         | Some body \<Rightarrow>
             (if length body > MAX_PROXY_BODY_BYTES
              then emit [DoClient client (Inl ''Request body too large for swarm proxy'')] s
              else (let (s, p) = new_request w client cmd target libp2p (length body) s in send_or_queue w libp2p p s)))"

definition handle_proxy_cmd :: "p2p_world \<Rightarrow> nat \<Rightarrow> proxy_request_command \<Rightarrow> p2p_session \<Rightarrow> p2p_session" where
  "handle_proxy_cmd w client cmd s =
     (case opt_filter (\<lambda>i. i \<noteq> pn_swarm_id s) (prc_swarm_id cmd) of
        Some i \<Rightarrow> emit [DoClient client (Inl (''Swarm id mismatch (cmd='' @ i @ '', local='' @ pn_swarm_id s @ '')''))] s
      | None \<Rightarrow>
          (case choose_target w cmd s of
             (s, Inl e) \<Rightarrow> emit [DoClient client (Inl e)] s
           | (s, Inr target) \<Rightarrow> start_request w client cmd target s))"

section \<open>Failures\<close>

text \<open>\<open>retryable\<close>: the connection failed or closed. \<open>error\<close> is the failure's text.\<close>

definition handle_proxy_outbound_failure :: "p2p_world \<Rightarrow> nat \<Rightarrow> bool \<Rightarrow> string \<Rightarrow> p2p_session \<Rightarrow> p2p_session" where
  "handle_proxy_outbound_failure w n retryable error s =
     (case hm_get (pn_outbound s) n of
        None \<Rightarrow> s
      | Some p \<Rightarrow>
          (let s = s\<lparr>pn_outbound := hm_remove n (pn_outbound s)\<rparr>
           in if retryable \<and> op_attempts p < MAX_PROXY_SEND_ATTEMPTS
              then (let p = p\<lparr>op_attempts := op_attempts p + 1\<rparr>
                    in if is_connected w (op_libp2p p) then send_outbound_proxy w p s else s\<lparr>pn_queue := pn_queue s @ [p]\<rparr>)
              else fail_proxy_request (op_req_id p) (''Swarm proxy request failed: '' @ error) s))"

section \<open>An encrypted answer\<close>

text \<open>Cutting off the complete lines, line feeds included.\<close>

fun complete_lines :: "string \<Rightarrow> string \<Rightarrow> string list \<times> string" where
  "complete_lines acc [] = ([], acc)"
| "complete_lines acc (c # cs) =
     (if c = NL then (case complete_lines [] cs of (ls, rest) \<Rightarrow> ((acc @ [c]) # ls, rest))
      else complete_lines (acc @ [c]) cs)"

definition not_blank :: "string \<Rightarrow> bool" where
  "not_blank l = (trim l \<noteq> [])"

datatype drained = MoreChunks swarm_stream | Broken e2ee_error | Ended string

type_synonym chunk_decrypt = "key_store \<Rightarrow> swarm_stream \<Rightarrow> stream_chunk_data \<Rightarrow> (e2ee_error + string) \<times> key_store"

text \<open>The chunks that are next, in order: the lines they complete, and how it ended.\<close>

function drain_swarm_stream ::
  "chunk_decrypt \<Rightarrow> key_store \<Rightarrow> swarm_stream \<Rightarrow> string list \<times> drained \<times> key_store" where
  "drain_swarm_stream dec ks ctx =
     (case hm_get (es_reorder ctx) (es_next_seq ctx) of
        None \<Rightarrow> ([], MoreChunks ctx, ks)
      | Some chunk \<Rightarrow>
          (let ctx = ctx\<lparr>es_reorder := hm_remove (es_next_seq ctx) (es_reorder ctx)\<rparr>
           in (case dec ks ctx chunk of
                 (Inl e, ks) \<Rightarrow> ([], Broken e, ks)
               | (Inr body, ks) \<Rightarrow>
                   (let (ls, rest) = complete_lines [] (es_line_buf ctx @ body); ls = filter not_blank ls
                    in if sc_done chunk then (ls, Ended rest, ks)
                       else (case drain_swarm_stream dec ks
                                    (ctx\<lparr>es_line_buf := rest, es_next_seq := wrap_add32 (sc_seq chunk) 1\<rparr>) of
                               (later, r, ks) \<Rightarrow> (ls @ later, r, ks))))))"
  by pat_completeness auto
termination
  by (relation "measure (\<lambda>(_, _, ctx). length (es_reorder ctx))") (auto simp: length_hm_remove)

declare drain_swarm_stream.simps [simp del]

definition swarm_decrypt :: "p2p_world \<Rightarrow> client_config \<Rightarrow> string \<Rightarrow> chunk_decrypt" where
  "swarm_decrypt w cfg req_id ks ctx chunk =
     decrypt_proxy_chunk (wd_prims w) ks cfg req_id (es_path ctx) (sc_seq chunk) (es_room_id ctx) (es_secret ctx)
       (es_provider_pk ctx) (sc_nonce chunk) (sc_ciphertext chunk)"

text \<open>At the end the text after the last line feed is a line of its own; only it is counted.\<close>

definition drain_encrypted_stream_chunks :: "p2p_world \<Rightarrow> string \<Rightarrow> p2p_session \<Rightarrow> p2p_session" where
  "drain_encrypted_stream_chunks w req_id s =
     (case (hm_get (pn_clients s) req_id, hm_get (pn_streams s) req_id) of
        (Some _, Some ctx) \<Rightarrow>
          (let (ls, r, ks) = drain_swarm_stream (swarm_decrypt w (p2p_config s) req_id) (pn_keys s) ctx;
               s = tell_client req_id (map Inr ls) (s\<lparr>pn_keys := ks\<rparr>)
           in (case r of
                 MoreChunks ctx \<Rightarrow> s\<lparr>pn_streams := hm_modify req_id (\<lambda>_. ctx) (pn_streams s)\<rparr>
               | Broken e \<Rightarrow>
                   forget_stream req_id (drop_client req_id (tell_client req_id [Inl (wd_show w e)]
                     (on_stats (on_request_error req_id) s)))
               | Ended rest \<Rightarrow>
                   (let usage = unwrap_or (parse_usage_from_buffer (wd_parse w) rest) no_usage;
                        s = (if not_blank rest then tell_client req_id [Inr (if last rest = NL then rest else rest @ [NL])] s else s)
                    in forget_stream req_id (drop_client req_id
                         (on_stats (on_request_complete (wd_unix w) (wd_ms w) req_id (tu_total usage) (length rest)) s)))))
      | _ \<Rightarrow> s)"

definition handle_swarm_chunk :: "p2p_world \<Rightarrow> string \<Rightarrow> stream_chunk_data \<Rightarrow> p2p_session \<Rightarrow> p2p_session" where
  "handle_swarm_chunk w req_id chunk s =
     (if \<not> hm_contains (pn_clients s) req_id then s
      else if hm_contains (pn_streams s) req_id
      then drain_encrypted_stream_chunks w req_id
             (s\<lparr>pn_streams := hm_modify req_id (\<lambda>c. c\<lparr>es_reorder := hm_insert (sc_seq chunk) chunk (es_reorder c)\<rparr>) (pn_streams s)\<rparr>)
      else s\<lparr>pn_early := hm_entry req_id hm_empty (hm_insert (sc_seq chunk) chunk) (pn_early s)\<rparr>)"

section \<open>Answers to the provider's messages\<close>

text \<open>A provider's message to a consumer it is not connected to waits. Looking the consumer's name up keeps the table of
  names locked until the end of the \<open>if let\<close>, inside which dialling locks it again: the session then hangs, which
  is \<open>None\<close>.\<close>

definition send_or_queue_reverse_proxy :: "p2p_world \<Rightarrow> string \<Rightarrow> stream_message \<Rightarrow> p2p_session \<Rightarrow> p2p_session option" where
  "send_or_queue_reverse_proxy w peer msg s =
     (if is_connected w peer then Some (send_request peer msg s)
      else if (case hm_get (pn_to_mtrxai s) peer of Some m \<Rightarrow> known_addrs s m \<noteq> [] | None \<Rightarrow> False) then None
      else Some (s\<lparr>pn_reverse := hm_entry peer [] (\<lambda>q. q @ [msg]) (pn_reverse s)\<rparr>))"

definition flush_pending_reverse_proxies_for_peer :: "p2p_world \<Rightarrow> string \<Rightarrow> p2p_session \<Rightarrow> p2p_session" where
  "flush_pending_reverse_proxies_for_peer w peer s =
     (if \<not> is_connected w peer then s
      else (case hm_get (pn_reverse s) peer of
              None \<Rightarrow> s
            | Some msgs \<Rightarrow> foldl (\<lambda>s m. send_request peer m s) (s\<lparr>pn_reverse := hm_remove peer (pn_reverse s)\<rparr>) msgs))"

text \<open>Sending does not queue when the peer is connected, so walking the queue ends.\<close>

lemma emit_fields [simp]:
  "pn_queue (emit as s) = pn_queue s" "pn_to_libp2p (emit as s) = pn_to_libp2p s" "pn_clients (emit as s) = pn_clients s"
  "pn_outbound (emit as s) = pn_outbound s"
  by (simp_all add: emit_def)

lemma fail_queue [simp]: "pn_queue (fail_proxy_request r e s) = pn_queue s"
  by (simp add: fail_proxy_request_def drop_client_def tell_client_def on_stats_def split: option.split)

lemma outbound_message_queue: "outbound_message w p s = (s', r) \<Longrightarrow> pn_queue s' = pn_queue s"
  by (auto simp: outbound_message_def provider_key_def forget_stream_def Let_def split: if_splits option.splits sum.splits prod.splits)

lemma resolve_known: "hm_get (pn_to_libp2p s) t = Some l \<Longrightarrow> resolve_libp2p_peer w t s = (s, l)"
  by (simp add: resolve_libp2p_peer_def)

lemma resolve_queue:
  "resolve_libp2p_peer w t s = (s', l) \<Longrightarrow> pn_queue s' = pn_queue s \<and> hm_get (pn_to_libp2p s') t = Some l"
  by (auto simp: resolve_libp2p_peer_def map_peer_def Let_def split: option.splits)

lemma send_queue:
  assumes "hm_get (pn_to_libp2p s) (op_target p) = Some l" "is_connected w l"
  shows "pn_queue (send_outbound_proxy w p s) = pn_queue s"
  using assms
  by (auto simp: send_outbound_proxy_def resolve_known Let_def send_request_def dest: outbound_message_queue
      split: prod.split sum.split)

function flush_pending_proxies_from :: "p2p_world \<Rightarrow> string \<Rightarrow> nat \<Rightarrow> p2p_session \<Rightarrow> p2p_session" where
  "flush_pending_proxies_from w peer i s =
     (if i < length (pn_queue s)
      then (let p = pn_queue s ! i; (s, l) = resolve_libp2p_peer w (op_target p) s; p = p\<lparr>op_libp2p := l\<rparr>
            in if l = peer \<and> is_connected w l
               then flush_pending_proxies_from w peer i
                      (send_outbound_proxy w p (s\<lparr>pn_queue := take i (pn_queue s) @ drop (Suc i) (pn_queue s)\<rparr>))
               else flush_pending_proxies_from w peer (Suc i) (s\<lparr>pn_queue := (pn_queue s)[i := p]\<rparr>))
      else s)"
  by pat_completeness auto

termination
proof (relation "measure (\<lambda>(w, peer, i, s). length (pn_queue s) - i)")
  fix w peer i s p sl s' l p'
  assume i: "i < length (pn_queue s)" and p: "p = pn_queue s ! i" and sl: "sl = resolve_libp2p_peer w (op_target p) s"
    "(s', l) = sl" and p': "p' = p\<lparr>op_libp2p := l\<rparr>" and c: "l = peer \<and> is_connected w l"
  from sl have q: "pn_queue s' = pn_queue s" and r: "hm_get (pn_to_libp2p s') (op_target p) = Some l"
    using resolve_queue by metis+
  let ?s = "s'\<lparr>pn_queue := take i (pn_queue s') @ drop (Suc i) (pn_queue s')\<rparr>"
  have "pn_queue (send_outbound_proxy w p' ?s) = pn_queue ?s"
    using r conjunct2 [OF c] by (intro send_queue [where l = l]) (simp_all add: p')
  with i q show "((w, peer, i, send_outbound_proxy w p' ?s), w, peer, i, s) \<in> measure (\<lambda>(w, peer, i, s). length (pn_queue s) - i)"
    by simp
next
  fix w peer i s p sl s' l p'
  assume "i < length (pn_queue s)" "p = pn_queue s ! i" "sl = resolve_libp2p_peer w (op_target p) s" "(s', l) = sl"
  then show "((w, peer, Suc i, s'\<lparr>pn_queue := (pn_queue s')[i := p']\<rparr>), w, peer, i, s)
      \<in> measure (\<lambda>(w, peer, i, s). length (pn_queue s) - i)"
    using resolve_queue [of w "op_target p" s s' l] by simp
qed simp

declare flush_pending_proxies_from.simps [simp del]

definition flush_pending_proxies_for_peer :: "p2p_world \<Rightarrow> string \<Rightarrow> p2p_session \<Rightarrow> p2p_session" where
  "flush_pending_proxies_for_peer w peer s =
     (if \<not> is_connected w peer then s else flush_pending_proxies_from w peer 0 s)"

end
