(* ===== verification/Swarm_Messages.thy ===== *)
theory Swarm_Messages
  imports Swarm_Proxying
begin

text \<open>
  What a swarm's session does with each message and each event of libp2p (\<open>handle_proxy_rr_message\<close>,
  \<open>handle_swarm_event\<close> and the loop of \<open>run\<close> in \<open>p2p_manager.rs\<close>).
\<close>

section \<open>Requests of other peers\<close>

definition name_of :: "p2p_session \<Rightarrow> string \<Rightarrow> string" where
  "name_of s peer = unwrap_or (hm_get (pn_to_mtrxai s) peer) peer"

text \<open>The proof is held against the peer it names itself.\<close>

definition handle_encrypted_request :: "p2p_world \<Rightarrow> string \<Rightarrow> encrypted_request \<Rightarrow> p2p_session \<Rightarrow> p2p_session" where
  "handle_encrypted_request w peer req s =
     (let refuse = (\<lambda>e. emit [DoReply (Encrypted (EncResponse (er_req_id req) [] [] (er_aad_version req) (Some e) None))] s);
          consumer = name_of s peer
      in case er_auth req of
           None \<Rightarrow> refuse ''Proxy auth required''
         | Some prf \<Rightarrow>
             (if \<not> verify_proxy_auth (wd_prims w) (wd_unix w) prf (pn_token s) (pap_peer_id prf)
              then refuse ''Proxy auth failed''
              else emit [DoServeEncrypted req consumer peer] (map_peer consumer peer s)))"

definition handle_request_end :: "p2p_world \<Rightarrow> string \<Rightarrow> string \<Rightarrow> p2p_session \<Rightarrow> p2p_session" where
  "handle_request_end w peer req_id s =
     (case hm_get (pn_incoming s) req_id of
        None \<Rightarrow> emit [DoReply (ProxyResponse req_id [] (Some ''Unknown proxy request''))] s
      | Some p \<Rightarrow>
          (let s = s\<lparr>pn_incoming := hm_remove req_id (pn_incoming s)\<rparr>;
               body = concat (map snd (sort_by_key fst (ip_chunks p)))
           in case wd_parse w body of
                Some v \<Rightarrow> emit [DoServe req_id (ip_path p) v (name_of s peer)] s
              | None \<Rightarrow> emit [DoReply (ProxyResponse req_id [] (Some (''Invalid JSON body: '' @ wd_json_error w body)))] s))"

definition pong :: "p2p_session \<Rightarrow> p2p_session" where
  "pong s = emit [DoReply Pong] s"

fun handle_request :: "p2p_world \<Rightarrow> string \<Rightarrow> stream_message \<Rightarrow> p2p_session \<Rightarrow> p2p_session" where
  "handle_request w peer (CatalogSync u) s = pong (apply_remote_catalog w u s)"
| "handle_request w peer (ProxyRequest req_id path body) s =
     (if e2ee_enabled (wd_env w)
      then emit [DoReply (ProxyResponse req_id [] (Some ''Plaintext proxy rejected; upgrade to E2EE v2''))] s
      else emit [DoServe req_id path body (name_of s peer)] s)"
| "handle_request w peer (Encrypted (EncRequest req)) s = handle_encrypted_request w peer req s"
| "handle_request w peer (Encrypted (EncStreamChunk req_id seq nonce ct ver fin)) s =
     pong (handle_swarm_chunk w req_id \<lparr>sc_seq = seq, sc_nonce = nonce, sc_ciphertext = ct, sc_done = fin\<rparr> s)"
| "handle_request w peer (ProxyAuth prf) s =
     (if verify_proxy_auth (wd_prims w) (wd_unix w) prf (pn_token s) (pap_peer_id prf) then pong s
      else emit [DoReply (ProxyResponseError [] ''Proxy auth failed'')] s)"
| "handle_request w peer (ProxyRequestStart req_id path) s =
     pong (s\<lparr>pn_incoming := hm_insert req_id \<lparr>ip_path = path, ip_chunks = []\<rparr> (pn_incoming s)\<rparr>)"
| "handle_request w peer (ProxyRequestChunk req_id seq chunk) s =
     pong (s\<lparr>pn_incoming := hm_modify req_id (\<lambda>p. p\<lparr>ip_chunks := ip_chunks p @ [(seq, chunk)]\<rparr>) (pn_incoming s)\<rparr>)"
| "handle_request w peer (ProxyRequestEnd req_id) s = handle_request_end w peer req_id s"
| "handle_request w peer (ProxyResponseChunk req_id chunk) s =
     pong (tell_client req_id [Inr chunk] (on_stats (on_stream_progress (wd_unix w) req_id (length chunk) 0) s))"
| "handle_request w peer (ProxyResponseDone req_id) s = pong (drop_client req_id s)"
| "handle_request w peer (ProxyResponseError req_id e) s = pong (fail_proxy_request req_id e s)"
| "handle_request w peer _ s = pong s"

section \<open>Answers to the session's own requests\<close>

text \<open>A whole answer: its non-empty lines one by one, an empty one as it is.\<close>

definition answer_messages :: "string \<Rightarrow> (string + string) list" where
  "answer_messages body = (if body = [] then [Inr []] else map (\<lambda>l. Inr (l @ [NL])) (filter (\<lambda>l. l \<noteq> []) (str_lines body)))"

definition complete_request :: "p2p_world \<Rightarrow> string \<Rightarrow> string \<Rightarrow> p2p_session \<Rightarrow> p2p_session" where
  "complete_request w req_id body s =
     (let usage = unwrap_or (parse_usage_from_buffer (wd_parse w) body) no_usage
      in drop_client req_id (tell_client req_id (answer_messages body)
           (on_stats (on_request_complete (wd_unix w) (wd_ms w) req_id (tu_total usage) (length body)) s)))"

definition plain_response :: "p2p_world \<Rightarrow> nat \<Rightarrow> string \<Rightarrow> string \<Rightarrow> string option \<Rightarrow> p2p_session \<Rightarrow> p2p_session" where
  "plain_response w n req_id body err s =
     (let s = s\<lparr>pn_outbound := hm_remove n (pn_outbound s)\<rparr>
      in if \<not> hm_contains (pn_clients s) req_id then s
         else (case err of Some e \<Rightarrow> fail_proxy_request req_id e s | None \<Rightarrow> complete_request w req_id body s))"

text \<open>A message to the client without a word to the statistics.\<close>

definition give_up :: "string \<Rightarrow> string \<Rightarrow> p2p_session \<Rightarrow> p2p_session" where
  "give_up req_id e s = drop_client req_id (tell_client req_id [Inl e] s)"

definition open_stream :: "p2p_world \<Rightarrow> string \<Rightarrow> swarm_stream \<Rightarrow> p2p_session \<Rightarrow> p2p_session" where
  "open_stream w req_id ctx s =
     (let early = unwrap_or (hm_get (pn_early s) req_id) hm_empty;
          ctx = ctx\<lparr>es_reorder := foldr (\<lambda>(k, c) m. hm_insert k c m) early (es_reorder ctx)\<rparr>
      in drain_encrypted_stream_chunks w req_id
           (s\<lparr>pn_streams := hm_insert req_id ctx (pn_streams s), pn_early := hm_remove req_id (pn_early s)\<rparr>))"

text \<open>The acknowledgement of an encrypted request whose answer follows in chunks.\<close>

definition stream_ack :: "p2p_world \<Rightarrow> string \<Rightarrow> outbound_proxy option \<Rightarrow> p2p_session \<Rightarrow> p2p_session" where
  "stream_ack w req_id pending s =
     (case pending of
        None \<Rightarrow> s
      | Some p \<Rightarrow>
          (case (op_room_id p, op_secret p, op_provider_pk p) of
             (None, _, _) \<Rightarrow> give_up req_id ''missing room_id for encrypted stream'' s
           | (_, None, _) \<Rightarrow> give_up req_id ''missing ephemeral secret for encrypted stream'' s
           | (_, _, None) \<Rightarrow> give_up req_id ''missing provider static key for encrypted stream'' s
           | (Some room_id, Some secret, Some pk) \<Rightarrow>
               open_stream w req_id
                 \<lparr>es_path = op_path p, es_room_id = room_id, es_secret = secret, es_provider_pk = pk, es_line_buf = [],
                  es_next_seq = 0, es_reorder = hm_empty\<rparr> s))"

definition whole_response ::
  "p2p_world \<Rightarrow> string \<Rightarrow> string \<Rightarrow> string \<Rightarrow> outbound_proxy option \<Rightarrow> p2p_session \<Rightarrow> p2p_session" where
  "whole_response w req_id nonce ct pending s =
     (if \<not> hm_contains (pn_clients s) req_id then s
      else (case pending of
              None \<Rightarrow> give_up req_id ''missing outbound proxy state'' s
            | Some p \<Rightarrow>
                (case (op_room_id p, op_secret p, op_provider_pk p) of
                   (None, _, _) \<Rightarrow> give_up req_id ''missing room_id for decrypt'' s
                 | (_, None, _) \<Rightarrow> give_up req_id ''missing ephemeral secret for decrypt'' s
                 | (_, _, None) \<Rightarrow> give_up req_id ''missing provider static key for decrypt'' s
                 | (Some room_id, Some secret, Some pk) \<Rightarrow>
                     (case decrypt_proxy_response (wd_prims w) (pn_keys s) (p2p_config s) req_id (op_path p) room_id secret pk
                             \<lparr>eres_nonce = nonce, eres_ciphertext = ct, eres_error = None\<rparr> of
                        (Inr body, ks) \<Rightarrow> complete_request w req_id body (s\<lparr>pn_keys := ks\<rparr>)
                      | (Inl e, ks) \<Rightarrow> fail_proxy_request req_id (wd_show w e) (s\<lparr>pn_keys := ks\<rparr>)))))"

definition encrypted_answer ::
  "p2p_world \<Rightarrow> nat \<Rightarrow> string \<Rightarrow> string \<Rightarrow> string \<Rightarrow> string option \<Rightarrow> bool option \<Rightarrow> p2p_session \<Rightarrow> p2p_session" where
  "encrypted_answer w n req_id nonce ct err stream s =
     (let pending = hm_get (pn_outbound s) n; s = s\<lparr>pn_outbound := hm_remove n (pn_outbound s)\<rparr>
      in case err of
           Some e \<Rightarrow> if hm_contains (pn_clients s) req_id then fail_proxy_request req_id e s else s
         | None \<Rightarrow> if stream = Some True then stream_ack w req_id pending s else whole_response w req_id nonce ct pending s)"

fun handle_response :: "p2p_world \<Rightarrow> nat \<Rightarrow> stream_message \<Rightarrow> p2p_session \<Rightarrow> p2p_session" where
  "handle_response w n Pong s =
     (case hm_get (pn_pings s) n of
        None \<Rightarrow> s
      | Some (mtrxai, started) \<Rightarrow>
          s\<lparr>pn_pings := hm_remove n (pn_pings s),
            pn_latency := hm_insert mtrxai (min (wd_ms w - started) u64_max) (pn_latency s)\<rparr>)"
| "handle_response w n (ProxyResponse req_id body err) s = plain_response w n req_id body err s"
| "handle_response w n (Encrypted (EncResponse req_id nonce ct ver err stream)) s =
     encrypted_answer w n req_id nonce ct err stream s"
| "handle_response w n _ s = s"

section \<open>Events of the network\<close>

datatype swarm_event =
    GossipReceived "gossip_message option"
  | PeersDiscovered "(string \<times> multiaddr list) list"
  | RendezvousRegistered
  | RequestReceived string stream_message
  | ResponseReceived nat stream_message
  | RequestFailed nat bool string
  | DialFailed "string option"
  | PeerConnected string
  | PeerClosed string
  | NewListenAddr multiaddr
  | OtherEvent

definition peer_connected :: "p2p_world \<Rightarrow> string \<Rightarrow> p2p_session \<Rightarrow> p2p_session" where
  "peer_connected w peer s =
     (if peer = pn_local_id s then s
      else (let s = flush_pending_reverse_proxies_for_peer w peer (flush_pending_proxies_for_peer w peer s)
            in if peer \<in> set (pn_boot_ids s) then rendezvous_register_and_discover w s
               else if peer \<in> pn_handled s then s
               else (let s = emit [DoExplicit peer] (s\<lparr>pn_handled := insert peer (pn_handled s)\<rparr>);
                         s = map_connected_mtrxai_peer w peer (track_libp2p_peer w peer Inbound s);
                         s = sync_connections w s;
                         s = (case hm_get (pn_to_mtrxai s) peer of Some m \<Rightarrow> probe_peer_latency w m peer s | None \<Rightarrow> s);
                         (s, sync) = build_catalog_sync w s
                     in send_request peer sync s)))"

definition peer_closed :: "p2p_world \<Rightarrow> string \<Rightarrow> p2p_session \<Rightarrow> p2p_session" where
  "peer_closed w peer s =
     (let s = (if peer \<notin> set (pn_boot_ids s) \<and> \<not> is_connected w peer then s\<lparr>pn_handled := pn_handled s - {peer}\<rparr> else s)
      in sync_connections w (untrack_libp2p_peer peer s))"

fun handle_swarm_event :: "p2p_world \<Rightarrow> swarm_event \<Rightarrow> p2p_session \<Rightarrow> p2p_session" where
  "handle_swarm_event w (GossipReceived g) s = (case g of Some msg \<Rightarrow> handle_gossip w msg s | None \<Rightarrow> s)"
| "handle_swarm_event w (PeersDiscovered ps) s =
     emit (map DoDial (concat (map snd (filter (\<lambda>p. fst p \<noteq> pn_local_id s) ps)))) s"
| "handle_swarm_event w RendezvousRegistered s = rendezvous_discover w s"
| "handle_swarm_event w (RequestReceived peer msg) s = handle_request w peer msg s"
| "handle_swarm_event w (ResponseReceived n msg) s = handle_response w n msg s"
| "handle_swarm_event w (RequestFailed n retryable e) s = handle_proxy_outbound_failure w n retryable e s"
| "handle_swarm_event w (DialFailed peer) s =
     (case peer of
        Some p \<Rightarrow> if p \<in> set (pn_boot_ids s) then s\<lparr>pn_backoff := Some (wd_ms w + 120000)\<rparr> else s
      | None \<Rightarrow> s)"
| "handle_swarm_event w (PeerConnected peer) s = peer_connected w peer s"
| "handle_swarm_event w (PeerClosed peer) s = peer_closed w peer s"
| "handle_swarm_event w (NewListenAddr a) s =
     publish_catalog w (sync_external_addresses w (s\<lparr>pn_listen_addrs := pn_listen_addrs s @ [a]\<rparr>))"
| "handle_swarm_event w OtherEvent s = s"

section \<open>The session\<close>

datatype p2p_event =
    ProxyCommand nat proxy_request_command
  | ModelStartCommand model_start_action
  | ModerationCommand peer_moderation_action
  | SwarmEvent swarm_event
  | CatalogTick
  | RendezvousTick
  | PresenceTick "(string \<times> string list) list option"
  | LatencyTick
  | TaskResponse bool stream_message
  | TaskReverse string stream_message

text \<open>A turn of the loop; \<open>None\<close> is a turn that never ends. A task's answer is sent if its channel is open.\<close>

fun p2p_step :: "p2p_world \<Rightarrow> p2p_event \<Rightarrow> p2p_session \<Rightarrow> p2p_session option" where
  "p2p_step w (ProxyCommand client cmd) s = Some (handle_proxy_cmd w client cmd s)"
| "p2p_step w (ModelStartCommand a) s = Some (handle_model_start_action w a s)"
| "p2p_step w (ModerationCommand a) s = Some (handle_moderation w a s)"
| "p2p_step w (SwarmEvent e) s = Some (handle_swarm_event w e s)"
| "p2p_step w CatalogTick s = Some (publish_catalog w s)"
| "p2p_step w RendezvousTick s = Some (rendezvous_discover w (ensure_bootnode_connections w s))"
| "p2p_step w (PresenceTick peers) s = Some (ensure_bootnode_connections w (sync_presence_via_lobby w peers s))"
| "p2p_step w LatencyTick s = Some (probe_all_peer_latencies w s)"
| "p2p_step w (TaskResponse is_open msg) s = Some (if is_open then emit [DoReply msg] s else s)"
| "p2p_step w (TaskReverse peer msg) s = send_or_queue_reverse_proxy w peer msg s"

definition set_connected :: "bool \<Rightarrow> p2p_session \<Rightarrow> p2p_session" where
  "set_connected b s =
     s\<lparr>pn_net := (pn_net s)\<lparr>ns_swarm_connected := hm_insert (pn_swarm_id s) b (ns_swarm_connected (pn_net s))\<rparr>\<rparr>"

definition start_p2p_session :: "p2p_world \<Rightarrow> (string \<times> string list) list option \<Rightarrow> p2p_session \<Rightarrow> p2p_session" where
  "start_p2p_session w peers s =
     (let s = emit (map DoDial (List.map_filter (al_parse (wd_lib w)) (pn_bootnodes s))) s;
          s = publish_catalog w (set_connected True s)
      in ensure_bootnode_connections w (sync_presence_via_lobby w peers s))"

definition p2p_turn :: "p2p_session option \<Rightarrow> p2p_world \<times> p2p_event \<Rightarrow> p2p_session option" where
  "p2p_turn s e = Option.bind s (p2p_step (fst e) (snd e))"

definition p2p_run :: "(p2p_world \<times> p2p_event) list \<Rightarrow> p2p_session \<Rightarrow> p2p_session option" where
  "p2p_run es s = foldl p2p_turn (Some s) es"

end
