(* ===== verification/Swarm_Clients.thy ===== *)
theory Swarm_Clients
  imports Swarm_Messages Session_Props
begin

text \<open>
  What a swarm's session owes the callers of its requests: whatever the network does, in whatever order, a caller
  gets no message after an error, and its channel is closed then.

  Most operations neither touch the table of callers nor write to one nor give a request to a model: they keep
  \<open>session_view\<close>. What is left are a few operations on it, each shown to keep the invariant \<open>clients_ok\<close>.
\<close>

section \<open>What callers see\<close>

fun loud :: "p2p_action \<Rightarrow> bool" where
  "loud (DoClient _ _) = True"
| "loud (DoServe _ _ _ _) = True"
| "loud (DoServeEncrypted _ _ _) = True"
| "loud (DoSend _ _ _) = False"
| "loud (DoReply _) = False"
| "loud (DoDial _) = False"
| "loud (DoPublish _ _) = False"
| "loud (DoDisconnect _) = False"
| "loud (DoExplicit _) = False"
| "loud (DoRegister _ _) = False"
| "loud (DoDiscover _ _) = False"
| "loud (DoExternal _) = False"

definition session_view :: "p2p_session \<Rightarrow> (string, nat) hmap \<times> p2p_action list" where
  "session_view s = (pn_clients s, filter loud (pn_log s))"

definition told_in :: "nat \<Rightarrow> p2p_action list \<Rightarrow> (string + string) list" where
  "told_in c as = List.map_filter (\<lambda>a. case a of DoClient d m \<Rightarrow> if d = c then Some m else None | _ \<Rightarrow> None) as"

definition told :: "nat \<Rightarrow> p2p_session \<Rightarrow> (string + string) list" where
  "told c s = told_in c (pn_log s)"

text \<open>The requests of other peers that were given to a local model.\<close>

definition served_in :: "p2p_action list \<Rightarrow> p2p_action list" where
  "served_in as = filter (\<lambda>a. case a of DoServe _ _ _ _ \<Rightarrow> True | DoServeEncrypted _ _ _ \<Rightarrow> True | _ \<Rightarrow> False) as"

definition served :: "p2p_session \<Rightarrow> p2p_action list" where
  "served s = served_in (pn_log s)"

lemma told_in_append [simp]: "told_in c (as @ bs) = told_in c as @ told_in c bs"
  by (simp add: told_in_def map_filter_def)

lemma told_in_quiet: "told_in c (filter loud as) = told_in c as"
  by (induction as) (auto simp: told_in_def map_filter_simps split: p2p_action.split)

lemma served_in_quiet: "served_in (filter loud as) = served_in as"
  by (induction as) (auto simp: served_in_def split: p2p_action.split)

lemma told_view: "told c s = told_in c (snd (session_view s))"
  by (simp add: told_def session_view_def told_in_quiet)

lemma served_view: "served s = served_in (snd (session_view s))"
  by (simp add: served_def session_view_def served_in_quiet)

lemma view_clients: "session_view s' = session_view s \<Longrightarrow> pn_clients s' = pn_clients s"
  by (simp add: session_view_def)

lemma view_told: "session_view s' = session_view s \<Longrightarrow> told c s' = told c s"
  by (simp add: told_view)

lemma view_served: "session_view s' = session_view s \<Longrightarrow> served s' = served s"
  by (simp add: served_view)

lemma foldl_keeps: "(\<And>s x. g (f s x) = g s) \<Longrightarrow> g (foldl f s xs) = g s"
  by (induction xs arbitrary: s) simp_all

section \<open>Operations callers do not see\<close>

lemma view_fields [simp]:
  "session_view (s\<lparr>pn_listen_addrs := a1\<rparr>) = session_view s" "session_view (s\<lparr>pn_net := a2\<rparr>) = session_view s"
  "session_view (s\<lparr>pn_registry := a3\<rparr>) = session_view s" "session_view (s\<lparr>pn_keys := a4\<rparr>) = session_view s"
  "session_view (s\<lparr>pn_cache := a5\<rparr>) = session_view s" "session_view (s\<lparr>pn_to_libp2p := a6\<rparr>) = session_view s"
  "session_view (s\<lparr>pn_to_mtrxai := a7\<rparr>) = session_view s" "session_view (s\<lparr>pn_outbound := a8\<rparr>) = session_view s"
  "session_view (s\<lparr>pn_queue := a9\<rparr>) = session_view s" "session_view (s\<lparr>pn_incoming := b1\<rparr>) = session_view s"
  "session_view (s\<lparr>pn_latency := b2\<rparr>) = session_view s" "session_view (s\<lparr>pn_pings := b3\<rparr>) = session_view s"
  "session_view (s\<lparr>pn_streams := b4\<rparr>) = session_view s" "session_view (s\<lparr>pn_early := b5\<rparr>) = session_view s"
  "session_view (s\<lparr>pn_reverse := b6\<rparr>) = session_view s" "session_view (s\<lparr>pn_outgoing_models := b7\<rparr>) = session_view s"
  "session_view (s\<lparr>pn_offers := b8\<rparr>) = session_view s" "session_view (s\<lparr>pn_handled := b9\<rparr>) = session_view s"
  "session_view (s\<lparr>pn_backoff := c1\<rparr>) = session_view s" 
  "session_view (s\<lparr>pn_next_out := c3\<rparr>) = session_view s"
  by (simp_all add: session_view_def)

lemma emit_quiet [simp]: "list_all (\<lambda>a. \<not> loud a) as \<Longrightarrow> session_view (emit as s) = session_view s"
  by (induction as arbitrary: s) (auto simp: session_view_def emit_def list_all_iff filter_empty_conv)

lemma quiet_small [simp]:
  "session_view (send_request p m s) = session_view s" "session_view (on_stats f s) = session_view s"
  "session_view (map_peer a b s) = session_view s" "session_view (pong s) = session_view s"
  "session_view (sync_connections w s) = session_view s" "session_view (untrack_libp2p_peer p s) = session_view s"
  "session_view (track_libp2p_peer w p d s) = session_view s" "session_view (forget_stream r s) = session_view s"
  "session_view (set_connected on s) = session_view s" "session_view (sync_model_start_state s) = session_view s"
  by (simp_all add: send_request_def on_stats_def map_peer_def pong_def sync_connections_def untrack_libp2p_peer_def Let_def
      track_libp2p_peer_def forget_stream_def set_connected_def sync_model_start_state_def)

lemma quiet_peers [simp]:
  "session_view (fst (resolve_libp2p_peer w m s)) = session_view s"
  "session_view (map_connected_mtrxai_peer w p s) = session_view s"
  "session_view (dial_mtrxai_peer w m addrs s) = session_view s"
  "session_view (sync_external_addresses w s) = session_view s"
  "session_view (ensure_bootnode_connections w s) = session_view s"
  "session_view (rendezvous_discover w s) = session_view s"
  "session_view (probe_peer_latency w m p s) = session_view s"
  by (simp_all add: resolve_libp2p_peer_def map_connected_mtrxai_peer_def dial_mtrxai_peer_def sync_external_addresses_def
      ensure_bootnode_connections_def rendezvous_discover_def probe_peer_latency_def Let_def list_all_iff split: option.split)

lemma quiet_rendezvous [simp]: "session_view (rendezvous_register_and_discover w s) = session_view s"
proof (cases "pn_boot_ids s = []")
  case False
  have "list_all (\<lambda>a. \<not> loud a) (concat (map (\<lambda>b. [DoRegister n b, DoDiscover n b]) bs))" for n bs
    by (induction bs) simp_all
  with False show ?thesis by (simp add: rendezvous_register_and_discover_def)
qed (simp add: rendezvous_register_and_discover_def)

lemma quiet_presence [simp]: "session_view (sync_presence_via_lobby w peers s) = session_view s"
proof -
  have "session_view (dial_present w s p) = session_view s" for s p
    by (auto simp: dial_present_def Let_def split: prod.split)
  then have "session_view (foldl (dial_present w) s ps) = session_view s" for ps
    by (rule foldl_keeps)
  then show ?thesis by (simp add: sync_presence_via_lobby_def split: option.split)
qed

lemma quiet_latencies [simp]: "session_view (probe_all_peer_latencies w s) = session_view s"
  unfolding probe_all_peer_latencies_def by (rule foldl_keeps) (simp add: case_prod_unfold)

lemma quiet_catalog [simp]:
  "session_view (refresh_local_catalog w s) = session_view s"
  "session_view (fst (own_static_pk w s)) = session_view s"
  "session_view (fst (local_cached_record w s)) = session_view s"
  "session_view (fst (local_catalog w s)) = session_view s"
  "session_view (fst (build_catalog_sync w s)) = session_view s"
proof -
  show "session_view (refresh_local_catalog w s) = session_view s"
    by (simp add: refresh_local_catalog_def Let_def split: prod.split)
  show pk: "session_view (fst (own_static_pk w s)) = session_view s"
    by (simp add: own_static_pk_def Let_def split: prod.split sum.split)
  show "session_view (fst (local_cached_record w s)) = session_view s"
    using pk by (simp add: local_cached_record_def Let_def case_prod_unfold)
  show c: "session_view (fst (local_catalog w s)) = session_view s"
    using pk by (simp add: local_catalog_def Let_def case_prod_unfold)
  show "session_view (fst (build_catalog_sync w s)) = session_view s"
    using c by (simp add: build_catalog_sync_def Let_def case_prod_unfold)
qed

lemma quiet_swarm_catalog [simp]:
  "session_view (rebuild_swarm_catalog w s) = session_view s" "session_view (apply_remote_catalog w u s) = session_view s"
proof -
  show r: "session_view (rebuild_swarm_catalog w s) = session_view s" for s
    by (simp add: rebuild_swarm_catalog_def Let_def case_prod_unfold)
  show "session_view (apply_remote_catalog w u s) = session_view s"
    by (simp add: apply_remote_catalog_def Let_def r)
qed

lemma quiet_push [simp]: "session_view (push_catalog_to_swarm_peers w s) = session_view s"
proof -
  have "session_view (foldl (\<lambda>s p. if p \<in> set (pn_boot_ids s) then s else send_request p m (emit [DoExplicit p] s)) s ps)
      = session_view s" for m s ps
    by (rule foldl_keeps) simp
  then show ?thesis by (simp add: push_catalog_to_swarm_peers_def Let_def case_prod_unfold)
qed

lemma quiet_publish [simp]: "session_view (publish_catalog w s) = session_view s"
  by (simp add: publish_catalog_def Let_def case_prod_unfold)

lemma quiet_gossip [simp]: "session_view (handle_gossip w g s) = session_view s"
  by (cases g) simp_all

lemma quiet_actions [simp]:
  "session_view (handle_model_start_action w a s) = session_view s" "session_view (handle_moderation w b s) = session_view s"
  by (cases a; simp add: publish_model_start_def)
    (cases b; simp add: handle_moderation_def split: option.split)

lemma quiet_reverse [simp]: "session_view (flush_pending_reverse_proxies_for_peer w p s) = session_view s"
proof -
  have "session_view (foldl (\<lambda>s m. send_request p m s) s ms) = session_view s" for s ms
    by (rule foldl_keeps) simp
  then show ?thesis by (simp add: flush_pending_reverse_proxies_for_peer_def split: option.split)
qed

lemma reverse_view: "send_or_queue_reverse_proxy w p m s = Some s' \<Longrightarrow> session_view s' = session_view s"
  by (auto simp: send_or_queue_reverse_proxy_def split: if_splits)

section \<open>What every operation keeps\<close>

text \<open>A property of what is seen that is kept by a piece of an answer, by the end of a channel and by an error that ends
  it is kept by everything the session does but taking in a command or serving a request.\<close>

locale session_inv =
  fixes inv :: "p2p_session \<Rightarrow> bool"
  assumes ok_quiet: "inv s \<Longrightarrow> session_view s' = session_view s \<Longrightarrow> inv s'"
    and tell_ok: "inv s \<Longrightarrow> list_all (\<lambda>m. \<not> isl m) ms \<Longrightarrow> inv (tell_client r ms s)"
    and drop_ok: "inv s \<Longrightarrow> inv (drop_client r s)"
    and fail_ok: "inv s \<Longrightarrow> inv (drop_client r (tell_client r [Inl e] s))"
begin

lemma fail_request_ok: "inv s \<Longrightarrow> inv (fail_proxy_request r e s)"
  unfolding fail_proxy_request_def by (intro fail_ok) (erule ok_quiet, simp)

lemma give_up_ok: "inv s \<Longrightarrow> inv (give_up r e s)"
  unfolding give_up_def by (rule fail_ok)

lemma answer_not_error: "list_all (\<lambda>m. \<not> isl m) (answer_messages body)"
  by (simp add: answer_messages_def list_all_iff)

lemma complete_ok: "inv s \<Longrightarrow> inv (complete_request w r body s)"
  unfolding complete_request_def Let_def
  by (intro drop_ok tell_ok answer_not_error) (erule ok_quiet, simp)

lemma outbound_message_view: "outbound_message w p s = (s', x) \<Longrightarrow> session_view s' = session_view s"
  by (auto simp: outbound_message_def provider_key_def Let_def split: if_splits option.splits sum.splits prod.splits)

lemma resolve_view: "resolve_libp2p_peer w t s = (s', l) \<Longrightarrow> session_view s' = session_view s"
  using quiet_peers(1) [of w t s] by simp

lemma send_ok:
  assumes ok: "inv s"
  shows "inv (send_outbound_proxy w p s)"
proof -
  obtain s1 l where r: "resolve_libp2p_peer w (op_target p) s = (s1, l)" by fastforce
  obtain s2 x where m: "outbound_message w (p\<lparr>op_libp2p := l\<rparr>) s1 = (s2, x)" by fastforce
  have v: "session_view s1 = session_view s" "session_view s2 = session_view s"
    using resolve_view [OF r] outbound_message_view [OF m] by simp_all
  show ?thesis
  proof (cases "\<not> is_connected w l")
    case True
    with ok_quiet [OF ok, of "s1\<lparr>pn_queue := q\<rparr>" for q] v show ?thesis
      by (simp add: send_outbound_proxy_def r)
  next
    case False
    have "inv ((send_request l msg s2)\<lparr>pn_outbound := q\<rparr>)" for msg q by (rule ok_quiet [OF ok]) (simp add: v)
    with fail_request_ok [OF ok_quiet [OF ok v(2)]] False show ?thesis
      by (auto simp: send_outbound_proxy_def r m Let_def split: sum.split)
  qed
qed

lemma flush_from_ok: "inv s \<Longrightarrow> inv (flush_pending_proxies_from w peer i s)"
proof (induction w peer i s rule: flush_pending_proxies_from.induct)
  case (1 w peer i s)
  show ?case
  proof (cases "i < length (pn_queue s)")
    case True
    let ?p = "pn_queue s ! i"
    obtain s' l where r: "resolve_libp2p_peer w (op_target ?p) s = (s', l)" by fastforce
    have q: "inv (s'\<lparr>pn_queue := q\<rparr>)" for q
      by (rule ok_quiet [OF "1.prems"]) (simp add: resolve_view [OF r])
    show ?thesis
    proof (cases "l = peer \<and> is_connected w l")
      case True
      then have "inv (flush_pending_proxies_from w peer i (send_outbound_proxy w (?p\<lparr>op_libp2p := l\<rparr>)
          (s'\<lparr>pn_queue := take i (pn_queue s') @ drop (Suc i) (pn_queue s')\<rparr>)))"
        by (intro "1.IH"(1) [OF \<open>i < length (pn_queue s)\<close> refl r [symmetric] refl refl] send_ok q)
      moreover have "is_connected w peer" "l = peer" using True by blast+
      ultimately show ?thesis
        using \<open>i < _\<close> by (simp add: flush_pending_proxies_from.simps [of w peer i s] r Let_def)
    next
      case False
      from "1.IH"(2) [OF \<open>i < length (pn_queue s)\<close> refl r [symmetric] refl refl False q] False \<open>i < _\<close>
      show ?thesis by (auto simp: flush_pending_proxies_from.simps [of w peer i s] r Let_def)
    qed
  qed (simp add: flush_pending_proxies_from.simps [of w peer i s] 1(3))
qed

lemma flush_ok: "inv s \<Longrightarrow> inv (flush_pending_proxies_for_peer w peer s)"
  by (simp add: flush_pending_proxies_for_peer_def flush_from_ok)

lemma failure_ok:
  assumes ok: "inv s"
  shows "inv (handle_proxy_outbound_failure w n retry e s)"
proof -
  have v: "inv (s\<lparr>pn_outbound := m\<rparr>)" "inv (s\<lparr>pn_outbound := m, pn_queue := q\<rparr>)" for m q
    by (simp_all add: ok_quiet [OF ok])
  show ?thesis
    by (auto simp: handle_proxy_outbound_failure_def Let_def ok v split: option.split intro!: send_ok fail_request_ok)
qed

lemma quiet_ok:
  "inv s \<Longrightarrow> inv (forget_stream r s)" "inv s \<Longrightarrow> inv (on_stats f s)"
  "inv s \<Longrightarrow> inv (s\<lparr>pn_keys := ks\<rparr>)" "inv s \<Longrightarrow> inv (s\<lparr>pn_streams := m\<rparr>)"
  "inv s \<Longrightarrow> inv (s\<lparr>pn_early := e\<rparr>)" "inv s \<Longrightarrow> inv (s\<lparr>pn_outbound := x\<rparr>)"
  "inv s \<Longrightarrow> inv (s\<lparr>pn_streams := m, pn_early := e\<rparr>)" "inv s \<Longrightarrow> inv (pong s)"
  by (erule ok_quiet, simp)+

lemma lines_ok: "inv s \<Longrightarrow> inv (tell_client r (map Inr ls) s)"
  by (erule tell_ok) (simp add: list_all_iff)

lemma end_ok: "inv s \<Longrightarrow> inv (drop_client r (on_stats f s))"
  by (intro drop_ok quiet_ok)

lemma drain_ok: "inv s \<Longrightarrow> inv (drain_encrypted_stream_chunks w r s)"
  by (auto simp: drain_encrypted_stream_chunks_def Let_def split: option.split prod.split drained.split
      intro!: quiet_ok fail_ok end_ok lines_ok tell_ok)

lemma chunk_ok: "inv s \<Longrightarrow> inv (handle_swarm_chunk w r c s)"
  by (simp add: handle_swarm_chunk_def drain_ok quiet_ok)

lemma response_ok:
  assumes ok: "inv s"
  shows "inv (handle_response w n msg s)"
proof -
  have ack: "inv (stream_ack w r p t)" if "inv t" for r p t
    using that by (auto simp: stream_ack_def open_stream_def Let_def split: option.split intro!: give_up_ok drain_ok quiet_ok)
  have whole: "inv (whole_response w r nonce ct p t)" if "inv t" for r nonce ct p t
    using that by (auto simp: whole_response_def split: option.split prod.split sum.split
        intro!: give_up_ok complete_ok fail_request_ok quiet_ok)
  have "inv (encrypted_answer w n r nonce ct e stream s)" for r nonce ct e stream
    using ok by (auto simp: encrypted_answer_def Let_def split: option.split intro!: ack whole fail_request_ok quiet_ok)
  moreover have "inv (plain_response w n r body e s)" for r body e
    using ok by (auto simp: plain_response_def Let_def split: option.split intro!: complete_ok fail_request_ok quiet_ok)
  moreover have "inv (handle_response w n Pong s)"
    by (rule ok_quiet [OF ok]) (simp split: option.split prod.split)
  ultimately show ?thesis using ok by (cases "(w, n, msg, s)" rule: handle_response.cases) simp_all
qed

lemma connected_ok: "inv s \<Longrightarrow> inv (peer_connected w peer s)"
proof -
  assume "inv s"
  then have f: "inv (flush_pending_reverse_proxies_for_peer w peer (flush_pending_proxies_for_peer w peer s))"
    (is "inv ?s") using ok_quiet [OF flush_ok quiet_reverse] by blast
  have "peer = pn_local_id s \<or> session_view (peer_connected w peer s) = session_view ?s"
    by (simp add: peer_connected_def Let_def case_prod_unfold split: option.split)
  with f \<open>inv s\<close> show ?thesis by (metis ok_quiet peer_connected_def)
qed

lemma queue_ok: "inv s \<Longrightarrow> inv (send_or_queue w l p s)"
proof -
  assume ok: "inv s"
  have "inv ((dial_mtrxai_peer w m addrs s)\<lparr>pn_queue := q\<rparr>)" for m addrs q
    by (rule ok_quiet [OF ok]) simp
  with ok show ?thesis by (auto simp: send_or_queue_def Let_def intro!: send_ok fail_request_ok)
qed

end

section \<open>The invariant\<close>

text \<open>\<open>used\<close> are the callers so far. One that waits has been told no error; errors come last.\<close>

definition clients_ok :: "nat set \<Rightarrow> p2p_session \<Rightarrow> bool" where
  "clients_ok used s =
     ((\<forall>r c. hm_get (pn_clients s) r = Some c \<longrightarrow> c \<in> used \<and> list_all (\<lambda>m. \<not> isl m) (told c s))
      \<and> (\<forall>r r' c. hm_get (pn_clients s) r = Some c \<longrightarrow> hm_get (pn_clients s) r' = Some c \<longrightarrow> r = r')
      \<and> (\<forall>c. told c s \<noteq> [] \<longrightarrow> c \<in> used)
      \<and> (\<forall>c. list_all (\<lambda>m. \<not> isl m) (butlast (told c s))))"

lemma callers_ok_view: "session_view s' = session_view s \<Longrightarrow> clients_ok used s' = clients_ok used s"
  using view_clients [of s' s] view_told [of s' s] by (simp add: clients_ok_def)

lemma callers_ok_quiet: "clients_ok used s \<Longrightarrow> session_view s' = session_view s \<Longrightarrow> clients_ok used s'"
  using callers_ok_view by blast

lemma ok_more: "clients_ok used s \<Longrightarrow> clients_ok (insert c used) s"
  unfolding clients_ok_def by blast

lemma told_emit: "told c (emit (map (DoClient d) ms) s) = told c s @ (if d = c then ms else [])"
proof -
  have "told_in c (map (DoClient d) ms) = (if d = c then ms else [])"
    by (induction ms) (auto simp: told_in_def map_filter_simps)
  then show ?thesis by (simp add: told_def emit_def)
qed

lemma emit_ok: "clients_ok used s \<Longrightarrow> (\<And>c. told_in c as = []) \<Longrightarrow> clients_ok used (emit as s)"
  by (simp add: clients_ok_def told_def emit_def)

lemma told_tell: "told c (tell_client r ms s) = told c s @ (if hm_get (pn_clients s) r = Some c then ms else [])"
  by (simp add: tell_client_def told_emit split: option.split)

lemma told_clients [simp]: "told c (s\<lparr>pn_clients := m\<rparr>) = told c s"
  by (simp add: told_def)

lemma tell_clients [simp]: "pn_clients (tell_client r ms s) = pn_clients s"
  by (simp add: tell_client_def split: option.split)

lemma all_butlast: "list_all P xs \<Longrightarrow> list_all P (butlast xs)"
  by (auto simp: list_all_iff dest: in_set_butlastD)

lemma callers_drop_ok: "clients_ok used s \<Longrightarrow> clients_ok used (drop_client r s)"
  unfolding clients_ok_def drop_client_def by (auto split: if_splits)

lemma callers_tell_ok:
  assumes ok: "clients_ok used s" and ls: "list_all (\<lambda>m. \<not> isl m) ms"
  shows "clients_ok used (tell_client r ms s)"
proof -
  have "list_all (\<lambda>m. \<not> isl m) (told c s @ ms)" if "hm_get (pn_clients s) r = Some c" for c
    using ok ls that by (auto simp: clients_ok_def)
  then show ?thesis using ok
    by (auto simp: clients_ok_def told_tell intro: all_butlast)
qed

lemma callers_fail_ok:
  assumes ok: "clients_ok used s"
  shows "clients_ok used (drop_client r (tell_client r [Inl e] s))"
proof -
  have "list_all (\<lambda>m. \<not> isl m) (butlast (told c s @ [Inl e]))" if "hm_get (pn_clients s) r = Some c" for c
    using ok that by (auto simp: clients_ok_def)
  moreover have "c \<noteq> d" if "hm_get (pn_clients s) r = Some c" "hm_get (pn_clients s) q = Some d" "q \<noteq> r" for c d q
    using ok that unfolding clients_ok_def by blast
  ultimately show ?thesis using ok
    by (auto simp: clients_ok_def drop_client_def told_tell split: if_splits)
qed

lemma refuse_ok:
  assumes ok: "clients_ok used s" and new: "c \<notin> used"
  shows "clients_ok (insert c used) (emit [DoClient c (Inl e)] s)"
proof -
  have "told c s = []" "\<And>r. hm_get (pn_clients s) r \<noteq> Some c" using ok new unfolding clients_ok_def by blast+
  with ok show ?thesis
    using told_emit [where d = c and ms = "[Inl e]" and s = s] by (auto simp: clients_ok_def)
qed

lemma admit_ok:
  assumes ok: "clients_ok used s" and new: "c \<notin> used"
  shows "clients_ok (insert c used) (s\<lparr>pn_clients := hm_insert r c (pn_clients s)\<rparr>)"
proof -
  have "told c s = []" "\<And>r. hm_get (pn_clients s) r \<noteq> Some c" using ok new unfolding clients_ok_def by blast+
  with ok show ?thesis unfolding clients_ok_def by (auto split: if_splits)
qed

lemma told_in_others [simp]:
  "told_in c [] = []" "told_in c [DoReply m] = []" "told_in c [DoServe r p b n] = []" "told_in c [DoServeEncrypted req n q] = []"
  by (simp_all add: told_in_def map_filter_simps)

interpretation callers: session_inv "clients_ok used" for used
  by unfold_locales (fact callers_ok_quiet callers_tell_ok callers_drop_ok callers_fail_ok)+

section \<open>Every step keeps it\<close>

lemma encrypted_request_ok: "clients_ok used s \<Longrightarrow> clients_ok used (handle_encrypted_request w p req s)"
  by (auto simp: handle_encrypted_request_def Let_def split: option.split intro!: emit_ok callers.ok_quiet [OF _ quiet_small(3)])

lemma request_end_ok: "clients_ok used s \<Longrightarrow> clients_ok used (handle_request_end w p r s)"
  by (auto simp: handle_request_end_def Let_def split: option.split intro!: emit_ok callers.ok_quiet [OF _ view_fields(10)])

lemma request_ok:
  assumes ok: "clients_ok used s"
  shows "clients_ok used (handle_request w p msg s)"
proof -
  have quiet: "clients_ok used t" if "session_view t = session_view s" for t using ok that by (rule callers.ok_quiet)
  have "clients_ok used (tell_client r [Inr c] (on_stats f s))" for r c f
    by (rule callers.tell_ok [OF quiet]) simp_all
  then show ?thesis using ok
    by (cases "(w, p, msg, s)" rule: handle_request.cases)
      (simp_all add: quiet callers.quiet_ok callers.chunk_ok callers.drop_ok callers.fail_request_ok encrypted_request_ok request_end_ok emit_ok)
qed

lemma event_ok: "clients_ok used s \<Longrightarrow> clients_ok used (handle_swarm_event w e s)"
proof (cases e)
  case (PeerClosed p)
  assume "clients_ok used s"
  then show ?thesis by (rule callers.ok_quiet) (simp add: PeerClosed peer_closed_def Let_def)
qed (simp_all add: callers.response_ok request_ok callers.failure_ok callers.connected_ok callers.quiet_ok callers.ok_quiet list_all_iff split: option.split)

lemma choose_view: "choose_target w cmd s = (s', x) \<Longrightarrow> session_view s' = session_view s"
  using quiet_catalog(3) [of w s] by (auto simp: choose_target_def Let_def case_prod_unfold split: option.splits)

lemma new_request_ok:
  assumes ok: "clients_ok used s" and new: "c \<notin> used" and r: "new_request w c cmd t l n s = (s', p)"
  shows "clients_ok (insert c used) s'"
proof -
  let ?r = "''p2p_'' @ show_nat (wd_req_no w)"
  have "session_view s' = session_view (s\<lparr>pn_clients := hm_insert ?r c (pn_clients s)\<rparr>)"
    using r by (auto simp: new_request_def Let_def session_view_def forget_stream_def on_stats_def)
  with admit_ok [OF ok new] show ?thesis by (rule callers.ok_quiet)
qed

lemma start_ok:
  assumes ok: "clients_ok used s" and new: "c \<notin> used"
  shows "clients_ok (insert c used) (start_request w c cmd t s)"
proof -
  obtain s1 l where r: "resolve_libp2p_peer w t s = (s1, l)" by fastforce
  define s3 where "s3 = (if is_connected w l \<or> known_addrs (map_peer t l s1) t = [] then map_peer t l s1
      else dial_mtrxai_peer w t (known_addrs (map_peer t l s1) t) (map_peer t l s1))"
  have "session_view s3 = session_view s" using callers.resolve_view [OF r] by (simp add: s3_def)
  then have ok3: "clients_ok used s3" by (rule callers.ok_quiet [OF ok])
  have "clients_ok (insert c used) (case new_request w c cmd t l (length body) s3 of (s, p) \<Rightarrow> send_or_queue w l p s)" for body :: string
    by (cases "new_request w c cmd t l (length body) s3") (simp add: callers.queue_ok [OF new_request_ok [OF ok3 new]])
  moreover have "start_request w c cmd t s = (case wd_print w (prc_body cmd) of
      None \<Rightarrow> s3
    | Some body \<Rightarrow> if length body > MAX_PROXY_BODY_BYTES
        then emit [DoClient c (Inl ''Request body too large for swarm proxy'')] s3
        else (case new_request w c cmd t l (length body) s3 of (s, p) \<Rightarrow> send_or_queue w l p s))"
    unfolding start_request_def r Let_def prod.case s3_def by (rule refl)
  ultimately show ?thesis
    using refuse_ok [OF ok3 new] ok_more [OF ok3] by (simp split: option.split)
qed

lemma command_ok:
  assumes ok: "clients_ok used s" and new: "c \<notin> used"
  shows "clients_ok (insert c used) (handle_proxy_cmd w c cmd s)"
proof -
  obtain s1 x where t: "choose_target w cmd s = (s1, x)" by fastforce
  note ok1 = callers.ok_quiet [OF ok choose_view [OF t]]
  show ?thesis
    using refuse_ok [OF ok new] refuse_ok [OF ok1 new] start_ok [OF ok1 new]
    by (simp add: handle_proxy_cmd_def t split: option.split sum.split)
qed

definition commanding :: "p2p_event \<Rightarrow> nat list" where
  "commanding e = (case e of ProxyCommand c _ \<Rightarrow> [c] | _ \<Rightarrow> [])"

lemma step_ok:
  assumes ok: "clients_ok used s" and new: "set (commanding e) \<inter> used = {}" and step: "p2p_step w e s = Some s'"
  shows "clients_ok (used \<union> set (commanding e)) s'"
proof (cases e)
  case (ProxyCommand c cmd)
  then show ?thesis using command_ok [OF ok, of c w cmd] new step by (simp add: commanding_def)
next
  case (SwarmEvent ev)
  then show ?thesis using event_ok [OF ok] step by (auto simp: commanding_def)
next
  case (TaskReverse p m)
  then show ?thesis using callers.ok_quiet [OF ok reverse_view] step by (auto simp: commanding_def)
qed (use callers.ok_quiet [OF ok, of s'] step in \<open>auto simp: commanding_def split: if_splits\<close>)

lemma run_none: "foldl p2p_turn None es = None"
  by (induction es) (simp_all add: p2p_turn_def)

lemma run_Cons: "p2p_run ((w, e) # es) s = Option.bind (p2p_step w e s) (p2p_run es)"
  by (cases "p2p_step w e s") (simp_all add: p2p_run_def p2p_turn_def run_none)

lemma run_ok:
  "clients_ok used s \<Longrightarrow> distinct (concat (map (commanding \<circ> snd) es)) \<Longrightarrow>
   set (concat (map (commanding \<circ> snd) es)) \<inter> used = {} \<Longrightarrow> p2p_run es s = Some s' \<Longrightarrow>
   clients_ok (used \<union> set (concat (map (commanding \<circ> snd) es))) s'"
proof (induction es arbitrary: used s)
  case (Cons a es)
  obtain w e where a: "a = (w, e)" by fastforce
  from Cons.prems(4) obtain t where t: "p2p_step w e s = Some t" "p2p_run es t = Some s'"
    by (auto simp: a run_Cons split: bind_splits)
  have "clients_ok (used \<union> set (commanding e)) t"
    by (rule step_ok [OF Cons.prems(1) _ t(1)]) (use Cons.prems(3) in \<open>auto simp: a\<close>)
  from Cons.IH [OF this _ _ t(2)] Cons.prems(2,3) show ?case by (auto simp: a Un_assoc)
qed (simp add: p2p_run_def)

text \<open>C4: An error is the last thing a caller hears. Whatever messages, failures and ticks come, in whatever order, what a
  swarm's session sends to the caller of a request is pieces of an answer and at most one error, after which nothing
  is sent and the session keeps no channel to the caller.\<close>

theorem error_told_last:
  assumes "distinct (concat (map (commanding \<circ> snd) es))"
    and "p2p_run es (start_p2p_session w peers (p2p_manager_new lib peer m boots local_id net reg keys)) = Some s"
  shows "list_all (\<lambda>m. \<not> isl m) (butlast (told c s))
    \<and> (list_ex isl (told c s) \<longrightarrow> (\<forall>r. hm_get (pn_clients s) r \<noteq> Some c))"
proof -
  let ?new = "p2p_manager_new lib peer m boots local_id net reg keys"
  have "clients_ok {} ?new" by (simp add: clients_ok_def told_def p2p_manager_new_def)
  moreover have "session_view (start_p2p_session w peers ?new) = session_view ?new"
    by (simp add: start_p2p_session_def Let_def list_all_iff)
  ultimately have "clients_ok {} (start_p2p_session w peers ?new)" by (rule callers.ok_quiet)
  from run_ok [OF this assms(1) _ assms(2)]
  have "clients_ok (set (concat (map (commanding \<circ> snd) es))) s" by simp
  then show ?thesis unfolding clients_ok_def list_all_iff list_ex_iff by blast
qed

section \<open>A small world\<close>

definition toy_p2p_world :: "string list \<Rightarrow> p2p_world" where
  "toy_p2p_world peers =
     \<lparr>wd_lib = \<lparr>al_parse = (\<lambda>_. None), al_show = (\<lambda>_. []), al_legacy = (\<lambda>m. m)\<rparr>, wd_peers = peers, wd_dials = (\<lambda>_. True),
      wd_env = (\<lambda>_. None), wd_unix = 0, wd_ms = 0, wd_req_no = 1, wd_prims = toy_primitives, wd_eph = (\<lambda>_. []), wd_nonce = (\<lambda>_. None),
      wd_parse = (\<lambda>_. None), wd_print = (\<lambda>_. Some []), wd_gossip_len = (\<lambda>_. None), wd_json_error = (\<lambda>_. []),
      wd_load = (\<lambda>_ _. f64_MAX), wd_show = (\<lambda>_. []),
      wd_servers = \<lparr>sw_api_key = (\<lambda>_. Inr None), sw_engine = (\<lambda>_. None), sw_healthy = (\<lambda>_. True), sw_list = (\<lambda>_ _. None)\<rparr>\<rparr>"

definition toy_swarm :: swarm_membership where
  "toy_swarm = \<lparr>sm_swarm_id = ''w'', sm_name = None, sm_p2p_token = ''t'', sm_bootnodes = [], sm_accepting_jobs = None,
     sm_connected = None, sm_require_e2ee = None, sm_require_tee = None, sm_required_attestation_flags = None,
     sm_schedule_enabled = None, sm_schedule_start = None, sm_schedule_end = None\<rparr>"

definition toy_session :: p2p_session where
  "toy_session = p2p_manager_new (wd_lib (toy_p2p_world [])) ''me'' toy_swarm [] ''me'' toy_network registry_new toy_store"

text \<open>A caller whose command names another swarm is told so, and nothing else.\<close>

lemma error_told_last_witness:
  "\<exists>s. told 5 s = [Inl ''Swarm id mismatch (cmd=x, local=w)''] \<and> (\<forall>r. hm_get (pn_clients s) r \<noteq> Some 5)"
proof -
  let ?w = "toy_p2p_world []" and ?cmd = "(toy_command None)\<lparr>prc_swarm_id := Some ''x''\<rparr>"
  let ?es = "[(?w, ProxyCommand 5 ?cmd), (?w, LatencyTick)]"
  let ?start = "start_p2p_session ?w None toy_session"
  have d: "distinct (concat (map (commanding \<circ> snd) ?es))" by (simp add: commanding_def)
  define s where "s = probe_all_peer_latencies ?w (handle_proxy_cmd ?w 5 ?cmd ?start)"
  have run: "p2p_run ?es ?start = Some s" by (simp add: p2p_run_def p2p_turn_def s_def)
  have "told 5 s = told 5 (handle_proxy_cmd ?w 5 ?cmd ?start)" unfolding s_def by (rule view_told) simp
  moreover have "pn_swarm_id ?start = ''w''" by code_simp
  then have "handle_proxy_cmd ?w 5 ?cmd ?start = emit [DoClient 5 (Inl ''Swarm id mismatch (cmd=x, local=w)'')] ?start"
    by (simp add: handle_proxy_cmd_def)
  moreover have "told 5 ?start = []" by code_simp
  ultimately have t: "told 5 s = [Inl ''Swarm id mismatch (cmd=x, local=w)'']"
    using told_emit [of 5 5 "[Inl ''Swarm id mismatch (cmd=x, local=w)'']" ?start] by simp
  moreover from error_told_last [OF d run [unfolded toy_session_def], THEN conjunct2, of 5] t
  have "\<forall>r. hm_get (pn_clients s) r \<noteq> Some 5" by simp
  ultimately show ?thesis by blast
qed

end
