(* ===== verification/Swarm_Stream.thy ===== *)
theory Swarm_Stream
  imports Swarm_Clients Cluster_Flow
begin

text \<open>
  An encrypted answer on its way through a swarm: whatever order its pieces come in, before or after the provider's
  acknowledgement, the caller gets the lines of the text they make up, in order and once.
\<close>

section \<open>Lines\<close>

lemma complete_append:
  "complete_lines acc (a @ b) =
     (case complete_lines acc a of (l1, r1) \<Rightarrow> case complete_lines r1 b of (l2, r2) \<Rightarrow> (l1 @ l2, r2))"
  by (induction a arbitrary: acc) (simp_all split: prod.split)

lemma complete_rest: "NL \<notin> set acc \<Longrightarrow> NL \<notin> set (snd (complete_lines acc s))"
  by (induction s arbitrary: acc) (simp_all add: case_prod_unfold)

lemma complete_start: "NL \<notin> set r \<Longrightarrow> complete_lines acc (r @ b) = complete_lines (acc @ r) b"
  by (induction r arbitrary: acc) auto

text \<open>Going on from the text that was left over.\<close>

lemma complete_next:
  "complete_lines [] (a @ b) =
     (case complete_lines [] (snd (complete_lines [] a) @ b) of (ls, rest) \<Rightarrow> (fst (complete_lines [] a) @ ls, rest))"
proof -
  have "NL \<notin> set (snd (complete_lines [] a))" by (rule complete_rest) simp
  from complete_start [OF this, of "[]" b] show ?thesis
    by (simp add: complete_append case_prod_unfold)
qed

text \<open>What a caller is to get of a text: its lines that are not blank, the last one with a line feed if it has none.\<close>

definition lines_of :: "string \<Rightarrow> string list" where
  "lines_of t = filter not_blank (fst (complete_lines [] t))"

definition rest_of :: "string \<Rightarrow> string" where
  "rest_of t = snd (complete_lines [] t)"

definition last_line :: "string \<Rightarrow> string list" where
  "last_line t = (if not_blank (rest_of t) then [rest_of t @ [NL]] else [])"

lemma lines_next:
  "complete_lines [] (rest_of a @ b) = (ls, rest) \<Longrightarrow> lines_of (a @ b) = lines_of a @ filter not_blank ls \<and> rest_of (a @ b) = rest"
  using complete_next [of a b] by (simp add: lines_of_def rest_of_def)

lemma rest_no_feed: "NL \<notin> set (rest_of t)"
  unfolding rest_of_def by (rule complete_rest) simp

section \<open>Reading the pieces in order\<close>

definition text_upto :: "(nat \<Rightarrow> string) \<Rightarrow> nat \<Rightarrow> string" where
  "text_upto part k = concat (map part [0..<k])"

lemma text_upto_simps [simp]: "text_upto part 0 = []" "text_upto part (Suc k) = text_upto part k @ part k"
  by (simp_all add: text_upto_def)

definition same_ctx :: "swarm_stream \<Rightarrow> swarm_stream \<Rightarrow> bool" where
  "same_ctx a b = (es_path a = es_path b \<and> es_room_id a = es_room_id b \<and> es_secret a = es_secret b
     \<and> es_provider_pk a = es_provider_pk b)"

text \<open>The pieces \<open>chunk 0 \<dots> chunk (n - 1)\<close> decrypt with any key store that is \<open>good\<close>, which it stays.\<close>

definition pieces_open ::
  "chunk_decrypt \<Rightarrow> (key_store \<Rightarrow> bool) \<Rightarrow> swarm_stream \<Rightarrow> nat \<Rightarrow> (nat \<Rightarrow> stream_chunk_data) \<Rightarrow> (nat \<Rightarrow> string) \<Rightarrow> bool" where
  "pieces_open dec good base n chunk part =
     (0 < n \<and> n \<le> 2 ^ 32 \<and> (\<forall>i<n. sc_seq (chunk i) = i \<and> sc_done (chunk i) = (Suc i = n)
        \<and> (\<forall>ks ctx. good ks \<longrightarrow> same_ctx ctx base \<longrightarrow>
             fst (dec ks ctx (chunk i)) = Inr (part i) \<and> good (snd (dec ks ctx (chunk i))))))"

text \<open>The stream has read \<open>k\<close> pieces; those in \<open>S\<close> have come.\<close>

definition reading ::
  "swarm_stream \<Rightarrow> nat \<Rightarrow> (nat \<Rightarrow> stream_chunk_data) \<Rightarrow> (nat \<Rightarrow> string) \<Rightarrow> nat set \<Rightarrow> nat \<Rightarrow> swarm_stream \<Rightarrow> bool" where
  "reading base n chunk part S k ctx =
     (same_ctx ctx base \<and> es_next_seq ctx = k \<and> k < n \<and> {..<k} \<subseteq> S \<and> es_line_buf ctx = rest_of (text_upto part k)
      \<and> (\<forall>j\<ge>k. hm_get (es_reorder ctx) j = (if j \<in> S then Some (chunk j) else None)))"

lemma reading_step:
  assumes "reading base n chunk part S k ctx" "k \<in> S" "Suc k < n" "n \<le> 2 ^ 32"
  shows "reading base n chunk part S (Suc k) (ctx\<lparr>es_reorder := hm_remove k (es_reorder ctx),
    es_line_buf := rest_of (text_upto part (Suc k)), es_next_seq := wrap_add32 k 1\<rparr>)"
proof -
  have "wrap_add32 k 1 = Suc k" using assms(3,4) by (simp add: wrap_add32_exact)
  with assms show ?thesis by (auto simp: reading_def same_ctx_def less_Suc_eq simp del: text_upto_simps)
qed

definition read_result ::
  "(key_store \<Rightarrow> bool) \<Rightarrow> swarm_stream \<Rightarrow> nat \<Rightarrow> (nat \<Rightarrow> stream_chunk_data) \<Rightarrow> (nat \<Rightarrow> string) \<Rightarrow> nat set \<Rightarrow> nat
     \<Rightarrow> string list \<times> drained \<times> key_store \<Rightarrow> bool" where
  "read_result good base n chunk part S k res =
     (good (snd (snd res)) \<and>
      (if {..<n} \<subseteq> S
       then lines_of (text_upto part k) @ fst res = lines_of (text_upto part n) \<and> fst (snd res) = Ended (rest_of (text_upto part n))
       else (\<exists>k' ctx'. k \<le> k' \<and> k' \<notin> S \<and> reading base n chunk part S k' ctx' \<and> fst (snd res) = MoreChunks ctx'
               \<and> lines_of (text_upto part k) @ fst res = lines_of (text_upto part k'))))"

lemma drain_reads:
  assumes A: "pieces_open dec good base n chunk part" and S: "S \<subseteq> {..<n}"
  shows "reading base n chunk part S k ctx \<Longrightarrow> good ks \<Longrightarrow>
    read_result good base n chunk part S k (drain_swarm_stream dec ks ctx)"
proof (induction "n - k" arbitrary: k ctx ks rule: less_induct)
  case less
  have k: "k < n" "es_next_seq ctx = k" "same_ctx ctx base" "{..<k} \<subseteq> S" "es_line_buf ctx = rest_of (text_upto part k)"
    and get: "hm_get (es_reorder ctx) k = (if k \<in> S then Some (chunk k) else None)"
    using less.prems by (auto simp: reading_def)
  show ?case
  proof (cases "k \<in> S")
    case False
    then have "drain_swarm_stream dec ks ctx = ([], MoreChunks ctx, ks)"
      by (simp add: drain_swarm_stream.simps [of dec ks ctx] k(2) get)
    moreover have "\<not> {..<n} \<subseteq> S" using False k(1) by blast
    ultimately show ?thesis using False less.prems by (auto simp: read_result_def)
  next
    case True
    let ?c1 = "ctx\<lparr>es_reorder := hm_remove k (es_reorder ctx)\<rparr>"
    have "same_ctx ?c1 base" using k(3) by (simp add: same_ctx_def)
    with A k(1) less.prems(2) have "fst (dec ks ?c1 (chunk k)) = Inr (part k)" "good (snd (dec ks ?c1 (chunk k)))"
      by (simp_all add: pieces_open_def)
    then obtain ks' where dec: "dec ks ?c1 (chunk k) = (Inr (part k), ks')" "good ks'" by (metis prod.collapse)
    have d: "sc_done (chunk k) = (Suc k = n)" "sc_seq (chunk k) = k" "n \<le> 2 ^ 32" using A k(1) by (simp_all add: pieces_open_def)
    obtain ls rest where c: "complete_lines [] (rest_of (text_upto part k) @ part k) = (ls, rest)" by fastforce
    note nxt = lines_next [OF c]
    let ?c2 = "?c1\<lparr>es_line_buf := rest, es_next_seq := wrap_add32 k 1\<rparr>"
    have step: "drain_swarm_stream dec ks ctx =
        (if Suc k = n then (filter not_blank ls, Ended rest, ks')
         else case drain_swarm_stream dec ks' ?c2 of (later, r, ks) \<Rightarrow> (filter not_blank ls @ later, r, ks))"
      by (simp add: drain_swarm_stream.simps [of dec ks ctx] k(2,5) get True dec(1) c d Let_def)
    show ?thesis
    proof (cases "Suc k = n")
      case fin: True
      then have "{..<n} \<subseteq> S" using k(4) True by (auto simp: less_Suc_eq)
      then show ?thesis using step nxt dec(2) by (simp add: fin [symmetric] read_result_def)
    next
      case False
      with k(1) have lt: "Suc k < n" by simp
      have "reading base n chunk part S (Suc k) ?c2"
        using reading_step [OF less.prems(1) True lt d(3)] nxt by simp
      note IH = less.hyps [OF diff_less_mono2 [OF lessI k(1)] this dec(2)]
      from IH step False nxt show ?thesis
        by (auto simp: read_result_def case_prod_unfold split: if_splits) (metis Suc_leD append.assoc)+
    qed
  qed
qed

section \<open>The session\<close>

lemma told_frame [simp]:
  "told c (on_stats f s) = told c s" "told c (forget_stream r s) = told c s" "told c (drop_client r s) = told c s"
  "told c (s\<lparr>pn_keys := ks\<rparr>) = told c s" "told c (s\<lparr>pn_streams := m\<rparr>) = told c s" "told c (s\<lparr>pn_early := e\<rparr>) = told c s"
  "told c (s\<lparr>pn_outbound := x\<rparr>) = told c s" "told c (s\<lparr>pn_streams := m, pn_early := e\<rparr>) = told c s" "told c (pong s) = told c s"
  by (simp_all add: told_def on_stats_def forget_stream_def drop_client_def pong_def emit_def)

lemma stream_fields [simp]:
  "pn_clients (on_stats f s) = pn_clients s" "pn_clients (forget_stream r s) = pn_clients s" "pn_clients (pong s) = pn_clients s"
  "pn_clients (drop_client r s) = hm_remove r (pn_clients s)"
  "pn_streams (tell_client r ms s) = pn_streams s" "pn_early (tell_client r ms s) = pn_early s"
  "pn_keys (tell_client r ms s) = pn_keys s" "p2p_config (tell_client r ms s) = p2p_config s"
  "pn_streams (pong s) = pn_streams s" "pn_early (pong s) = pn_early s" "pn_keys (pong s) = pn_keys s" "p2p_config (pong s) = p2p_config s"
  "pn_outbound (pong s) = pn_outbound s" "p2p_config (s\<lparr>pn_keys := ks\<rparr>) = p2p_config s" "p2p_config (s\<lparr>pn_streams := m\<rparr>) = p2p_config s"
  "p2p_config (s\<lparr>pn_early := e\<rparr>) = p2p_config s" "p2p_config (s\<lparr>pn_outbound := x\<rparr>) = p2p_config s"
  "p2p_config (s\<lparr>pn_streams := m, pn_early := e\<rparr>) = p2p_config s"
  by (simp_all add: on_stats_def forget_stream_def pong_def emit_def drop_client_def tell_client_def p2p_config_def split: option.split)

text \<open>The request \<open>r\<close> of caller \<open>c\<close>, told \<open>t0\<close> before its answer, while the pieces in \<open>S\<close> have come: without the
  acknowledgement, and with it.\<close>

definition before_ack ::
  "string \<Rightarrow> nat \<Rightarrow> nat \<Rightarrow> outbound_proxy \<Rightarrow> (key_store \<Rightarrow> bool) \<Rightarrow> client_config \<Rightarrow> (nat \<Rightarrow> stream_chunk_data)
     \<Rightarrow> (string + string) list \<Rightarrow> nat set \<Rightarrow> p2p_session \<Rightarrow> bool" where
  "before_ack r c m p good cfg chunk t0 S s =
     (hm_get (pn_clients s) r = Some c \<and> hm_get (pn_streams s) r = None \<and> hm_get (pn_outbound s) m = Some p
      \<and> good (pn_keys s) \<and> p2p_config s = cfg \<and> told c s = t0
      \<and> (\<forall>j. hm_get (unwrap_or (hm_get (pn_early s) r) hm_empty) j = (if j \<in> S then Some (chunk j) else None)))"

definition after_ack ::
  "string \<Rightarrow> nat \<Rightarrow> (key_store \<Rightarrow> bool) \<Rightarrow> client_config \<Rightarrow> swarm_stream \<Rightarrow> nat \<Rightarrow> (nat \<Rightarrow> stream_chunk_data) \<Rightarrow> (nat \<Rightarrow> string)
     \<Rightarrow> (string + string) list \<Rightarrow> nat set \<Rightarrow> p2p_session \<Rightarrow> bool" where
  "after_ack r c good cfg base n chunk part t0 S s =
     (if {..<n} \<subseteq> S
      then hm_get (pn_clients s) r = None
        \<and> told c s = t0 @ map Inr (lines_of (text_upto part n) @ last_line (text_upto part n))
      else (\<exists>k ctx. hm_get (pn_clients s) r = Some c \<and> hm_get (pn_streams s) r = Some ctx
              \<and> reading base n chunk part S k ctx \<and> k \<notin> S \<and> good (pn_keys s) \<and> p2p_config s = cfg
              \<and> told c s = t0 @ map Inr (lines_of (text_upto part k))))"

lemma drain_session:
  assumes A: "pieces_open (swarm_decrypt w cfg r) good base n chunk part" and S: "S \<subseteq> {..<n}"
    and s: "hm_get (pn_clients s) r = Some c" "hm_get (pn_streams s) r = Some ctx" "good (pn_keys s)" "p2p_config s = cfg"
      "told c s = t0 @ map Inr (lines_of (text_upto part k))"
    and ctx: "reading base n chunk part S k ctx"
  shows "after_ack r c good cfg base n chunk part t0 S (drain_encrypted_stream_chunks w r s)"
proof -
  obtain ls x ks where d: "drain_swarm_stream (swarm_decrypt w cfg r) (pn_keys s) ctx = (ls, x, ks)" by (metis prod_cases3)
  have res: "read_result good base n chunk part S k (ls, x, ks)" using drain_reads [OF A S ctx s(3)] d by simp
  have cl: "hm_get (pn_clients (s\<lparr>pn_keys := ks\<rparr>)) r = Some c" using s(1) by simp
  show ?thesis
  proof (cases "{..<n} \<subseteq> S")
    case True
    with res have x: "x = Ended (rest_of (text_upto part n))"
      and ls: "lines_of (text_upto part k) @ ls = lines_of (text_upto part n)" by (simp_all add: read_result_def)
    have "rest_of (text_upto part n) \<noteq> [] \<Longrightarrow> last (rest_of (text_upto part n)) \<noteq> NL"
      using rest_no_feed [of "text_upto part n"] last_in_set by metis
    moreover have "not_blank t \<Longrightarrow> t \<noteq> []" for t by (auto simp: not_blank_def trim_def trim_start_def trim_end_def)
    ultimately show ?thesis using s True
      by (auto simp: drain_encrypted_stream_chunks_def d x Let_def after_ack_def last_line_def told_tell simp flip: ls)
  next
    case False
    with res obtain k' ctx' where k': "k' \<notin> S" "reading base n chunk part S k' ctx'" "x = MoreChunks ctx'" "good ks"
      and ls: "lines_of (text_upto part k) @ ls = lines_of (text_upto part k')" by (auto simp: read_result_def)
    with False s show ?thesis
      by (auto simp: drain_encrypted_stream_chunks_def d Let_def after_ack_def told_tell simp flip: ls intro!: exI [of _ k'])
  qed
qed

lemma arrival_after:
  assumes A: "pieces_open (swarm_decrypt w cfg r) good base n chunk part" and S: "S \<subseteq> {..<n}" and i: "i < n"
    and at: "after_ack r c good cfg base n chunk part t0 S s"
  shows "after_ack r c good cfg base n chunk part t0 (insert i S) (handle_swarm_chunk w r (chunk i) s)"
proof (cases "{..<n} \<subseteq> S")
  case True
  moreover from True i have "insert i S = S" by auto
  ultimately show ?thesis using at by (simp add: after_ack_def handle_swarm_chunk_def hm_contains_def)
next
  case False
  with at obtain k ctx where s: "hm_get (pn_clients s) r = Some c" "hm_get (pn_streams s) r = Some ctx" "good (pn_keys s)"
    "p2p_config s = cfg" "told c s = t0 @ map Inr (lines_of (text_upto part k))" and ctx: "reading base n chunk part S k ctx"
    by (auto simp: after_ack_def)
  let ?ctx = "ctx\<lparr>es_reorder := hm_insert i (chunk i) (es_reorder ctx)\<rparr>"
  have seq: "sc_seq (chunk i) = i" using A i by (simp add: pieces_open_def)
  have "reading base n chunk part (insert i S) k ?ctx" using ctx by (auto simp: reading_def same_ctx_def)
  from drain_session [OF A _ _ _ _ _ _ this, of "s\<lparr>pn_streams := hm_modify r (\<lambda>c. c\<lparr>es_reorder := hm_insert i (chunk i) (es_reorder c)\<rparr>) (pn_streams s)\<rparr>"]
  show ?thesis using s S i by (simp add: handle_swarm_chunk_def seq hm_contains_def)
qed

lemma arrival_before:
  assumes "sc_seq (chunk i) = i" "before_ack r c m p good cfg chunk t0 S s"
  shows "before_ack r c m p good cfg chunk t0 (insert i S) (handle_swarm_chunk w r (chunk i) s)"
  using assms by (simp add: before_ack_def handle_swarm_chunk_def hm_contains_def)

lemma get_extended: "hm_get (foldr (\<lambda>(k, c) m. hm_insert k c m) early m) j = opt_or (hm_get early j) (hm_get m j)"
  by (induction early) (auto simp: opt_or_def)

definition stream_of :: "outbound_proxy \<Rightarrow> string \<Rightarrow> string \<Rightarrow> string \<Rightarrow> swarm_stream" where
  "stream_of p room eph pk = \<lparr>es_path = op_path p, es_room_id = room, es_secret = eph, es_provider_pk = pk, es_line_buf = [],
     es_next_seq = 0, es_reorder = hm_empty\<rparr>"

lemma acknowledged:
  assumes A: "pieces_open (swarm_decrypt w cfg r) good (stream_of p room eph pk) n chunk part" and S: "S \<subseteq> {..<n}"
    and p: "op_room_id p = Some room" "op_secret p = Some eph" "op_provider_pk p = Some pk"
    and at: "before_ack r c m p good cfg chunk t0 S s"
  shows "after_ack r c good cfg (stream_of p room eph pk) n chunk part t0 S
    (handle_response w m (Encrypted (EncResponse r x y v None (Some True))) s)"
proof -
  let ?s = "s\<lparr>pn_outbound := hm_remove m (pn_outbound s)\<rparr>"
  let ?early = "unwrap_or (hm_get (pn_early s) r) hm_empty"
  let ?ctx = "(stream_of p room eph pk)\<lparr>es_reorder := foldr (\<lambda>(k, c) m. hm_insert k c m) ?early hm_empty\<rparr>"
  let ?t = "?s\<lparr>pn_streams := hm_insert r ?ctx (pn_streams s), pn_early := hm_remove r (pn_early s)\<rparr>"
  have "reading (stream_of p room eph pk) n chunk part S 0 ?ctx"
    using A at by (auto simp: reading_def same_ctx_def stream_of_def pieces_open_def get_extended opt_or_def before_ack_def
        rest_of_def split: option.split)
  from drain_session [OF A S _ _ _ _ _ this, of ?t]
  have "after_ack r c good cfg (stream_of p room eph pk) n chunk part t0 S (drain_encrypted_stream_chunks w r ?t)"
    using at by (simp add: before_ack_def told_def p2p_config_def lines_of_def)
  moreover have "hm_get (pn_outbound s) m = Some p" using at by (simp add: before_ack_def)
  ultimately show ?thesis
    using p by (simp add: encrypted_answer_def stream_ack_def open_stream_def stream_of_def Let_def)
qed

text \<open>Messages of an answer: a piece, from any peer, and the acknowledgement.\<close>

definition piece_event :: "string \<Rightarrow> nat \<Rightarrow> (nat \<Rightarrow> stream_chunk_data) \<Rightarrow> p2p_world \<times> string \<times> nat \<Rightarrow> p2p_world \<times> p2p_event" where
  "piece_event r ver chunk a = (let (w, peer, i) = a; c = chunk i
     in (w, SwarmEvent (RequestReceived peer (Encrypted (EncStreamChunk r (sc_seq c) (sc_nonce c) (sc_ciphertext c) ver (sc_done c))))))"

lemma piece_turn:
  "p2p_run (piece_event r ver chunk (w, peer, i) # es) s = p2p_run es (pong (handle_swarm_chunk w r (chunk i) s))"
  by (cases "chunk i") (simp add: piece_event_def run_Cons Let_def)

lemma pong_states [simp]:
  "before_ack r c m p good cfg chunk t0 S (pong s) = before_ack r c m p good cfg chunk t0 S s"
  "after_ack r c good cfg base n chunk part t0 S (pong s) = after_ack r c good cfg base n chunk part t0 S s"
  by (simp_all add: before_ack_def after_ack_def)

lemma pieces_before:
  "\<forall>a\<in>set as. sc_seq (chunk (snd (snd a))) = snd (snd a) \<Longrightarrow> before_ack r c m p good cfg chunk t0 S s \<Longrightarrow>
   \<exists>s'. p2p_run (map (piece_event r ver chunk) as @ es) s = p2p_run es s'
     \<and> before_ack r c m p good cfg chunk t0 (S \<union> (snd \<circ> snd) ` set as) s'"
proof (induction as arbitrary: s S)
  case (Cons a as)
  obtain w peer i where a: "a = (w, peer, i)" by (metis prod_cases3)
  have "before_ack r c m p good cfg chunk t0 (insert i S) (pong (handle_swarm_chunk w r (chunk i) s))"
    using arrival_before [of chunk i] Cons.prems by (simp add: a)
  from Cons.IH [OF _ this] Cons.prems(1) show ?case by (simp add: a piece_turn)
qed auto

lemma pieces_after:
  "\<forall>a\<in>set as. snd (snd a) < n \<and> pieces_open (swarm_decrypt (fst a) cfg r) good base n chunk part \<Longrightarrow> S \<subseteq> {..<n} \<Longrightarrow>
   after_ack r c good cfg base n chunk part t0 S s \<Longrightarrow>
   \<exists>s'. p2p_run (map (piece_event r ver chunk) as) s = Some s'
     \<and> after_ack r c good cfg base n chunk part t0 (S \<union> (snd \<circ> snd) ` set as) s'"
proof (induction as arbitrary: s S)
  case (Cons a as)
  obtain w peer i where a: "a = (w, peer, i)" by (metis prod_cases3)
  have "after_ack r c good cfg base n chunk part t0 (insert i S) (pong (handle_swarm_chunk w r (chunk i) s))"
    using arrival_after [of w cfg r good base n chunk part S i] Cons.prems by (simp add: a)
  from Cons.IH [OF _ _ this] Cons.prems(1,2) show ?case by (simp add: a piece_turn)
qed (auto simp: p2p_run_def)

text \<open>Pieces sealed by a provider under the request's session key open at the consumer.\<close>

lemma sealed_pieces_open:
  assumes P: "primitives_ok (wd_prims w)" and n: "0 < n" "n \<le> 2 ^ 32"
    and sec: "room_secret_for_proxy (wd_prims w) cfg room = Some secret" "room_secret_for_proxy (wd_prims w) cfgp room = Some secret"
    and sealed: "\<forall>i<n. fst (encrypt_proxy_chunk (wd_prims w) (ksp i) cfgp (nonce i) room r (op_path p) i
        (prim_pub (wd_prims w) eph) (part i)) = Inr (sc_nonce (chunk i), sc_ciphertext (chunk i))
      \<and> store_ok (ksp i) \<and> sc_seq (chunk i) = i \<and> sc_done (chunk i) = (Suc i = n)
      \<and> pred_option (\<lambda>b. length b = 12) (nonce i) \<and> utf8_valid (part i)"
  shows "pieces_open (swarm_decrypt w cfg r) store_ok (stream_of p room eph (rk_public (room_pair (wd_prims w) secret room))) n chunk part"
proof -
  have "fst (swarm_decrypt w cfg r ks ctx (chunk i)) = Inr (part i) \<and> store_ok (snd (swarm_decrypt w cfg r ks ctx (chunk i)))"
    if i: "i < n" and ks: "store_ok ks"
      and ctx: "same_ctx ctx (stream_of p room eph (rk_public (room_pair (wd_prims w) secret room)))" for i ks ctx
  proof -
    obtain ks' where k: "room_keys (wd_prims w) ks cfg room = (Inr (room_pair (wd_prims w) secret room), ks')" "store_ok ks'"
      using room_keys_total [OF ks sec(1)] by blast
    have "store_ok (snd (decrypt_proxy_chunk (wd_prims w) ks cfg r path seq room e q nn cc))" for path seq e q nn cc
      using k by (simp add: decrypt_proxy_chunk_def)
    moreover have "fst (decrypt_proxy_chunk (wd_prims w) ks cfg r (op_path p) i room eph
        (rk_public (room_pair (wd_prims w) secret room)) (sc_nonce (chunk i)) (sc_ciphertext (chunk i))) = Inr (part i)"
      using sealed_chunk_opens [OF P ks _ sec, of "ksp i" "nonce i" r "op_path p" i eph "part i"] sealed i by blast
    ultimately show ?thesis using i ctx sealed by (simp add: swarm_decrypt_def same_ctx_def stream_of_def)
  qed
  with n sealed show ?thesis by (simp add: pieces_open_def)
qed

text \<open>The pieces the provider sealed may come in any order, more than once, from any peer, and before the provider's
  acknowledgement: once it is there, the caller has got the lines of the text up to the first missing piece, and when all
  have come, the rest of the text as well, and its channel is closed.\<close>

lemma answer_read:
  assumes P: "primitives_ok P" "wd_prims w = P"
    and ks: "store_ok (pn_keys s)"
    and sec: "room_secret_for_proxy P (p2p_config s) room = Some secret" "room_secret_for_proxy P cfgp room = Some secret"
    and n: "0 < n" "n \<le> 2 ^ 32" "\<forall>a\<in>set (early @ late). wd_prims (fst a) = P \<and> snd (snd a) < n"
    and sealed: "\<forall>i<n. fst (encrypt_proxy_chunk P (ksp i) cfgp (nonce i) room r (op_path p) i (prim_pub P eph) (part i))
        = Inr (sc_nonce (chunk i), sc_ciphertext (chunk i))
      \<and> store_ok (ksp i) \<and> sc_seq (chunk i) = i \<and> sc_done (chunk i) = (Suc i = n)
      \<and> pred_option (\<lambda>b. length b = 12) (nonce i) \<and> utf8_valid (part i)"
    and req: "hm_get (pn_clients s) r = Some c" "hm_get (pn_streams s) r = None" "hm_get (pn_early s) r = None"
      "hm_get (pn_outbound s) m = Some p"
    and p: "op_room_id p = Some room" "op_secret p = Some eph" "op_provider_pk p = Some (rk_public (room_pair P secret room))"
  shows "\<exists>s' k. p2p_run (map (piece_event r ver chunk) early
        @ (w, SwarmEvent (ResponseReceived m (Encrypted (EncResponse r nr ct v None (Some True)))))
        # map (piece_event r ver chunk) late) s = Some s'
    \<and> k \<le> n \<and> {..<k} \<subseteq> (snd \<circ> snd) ` set (early @ late) \<and> k \<notin> (snd \<circ> snd) ` set (early @ late)
    \<and> told c s' = told c s @ map Inr (lines_of (text_upto part k) @ (if k = n then last_line (text_upto part n) else []))
    \<and> (hm_get (pn_clients s') r = None \<longleftrightarrow> k = n)"
proof -
  let ?base = "stream_of p room eph (rk_public (room_pair P secret room))"
  let ?S = "(snd \<circ> snd) ` set early" and ?T = "(snd \<circ> snd) ` set (early @ late)"
  have A: "pieces_open (swarm_decrypt v (p2p_config s) r) store_ok ?base n chunk part" if "wd_prims v = P" for v
    using sealed_pieces_open [of v n "p2p_config s" room secret cfgp ksp nonce r p eph part chunk] P(1) n(1,2) sec sealed that by simp
  have T: "?T \<subseteq> {..<n}" using n(3) by auto
  then have S: "?S \<subseteq> {..<n}" by auto
  have early_seq: "\<forall>a\<in>set early. sc_seq (chunk (snd (snd a))) = snd (snd a)" using n(3) sealed by simp
  have late_ok: "\<forall>a\<in>set late. snd (snd a) < n \<and> pieces_open (swarm_decrypt (fst a) (p2p_config s) r) store_ok ?base n chunk part"
    using n(3) A by simp
  let ?ack = "(w, SwarmEvent (ResponseReceived m (Encrypted (EncResponse r nr ct v None (Some True)))))"
  have "before_ack r c m p store_ok (p2p_config s) chunk (told c s) {} s" using req ks by (simp add: before_ack_def)
  from pieces_before [OF early_seq this, of ver "?ack # map (piece_event r ver chunk) late"]
  obtain s1 where s1: "before_ack r c m p store_ok (p2p_config s) chunk (told c s) ?S s1"
    "p2p_run (map (piece_event r ver chunk) early @ ?ack # map (piece_event r ver chunk) late) s
      = p2p_run (?ack # map (piece_event r ver chunk) late) s1" by auto
  note ack = acknowledged [OF A [OF P(2)] S p s1(1), of nr ct v]
  from pieces_after [OF late_ok S ack, of ver] obtain s2
    where s2: "p2p_run (map (piece_event r ver chunk) late) (handle_response w m (Encrypted (EncResponse r nr ct v None (Some True))) s1) = Some s2"
      "after_ack r c store_ok (p2p_config s) ?base n chunk part (told c s) (?S \<union> (snd \<circ> snd) ` set late) s2" by blast
  have T': "?S \<union> (snd \<circ> snd) ` set late = ?T" by auto
  have run: "p2p_run (map (piece_event r ver chunk) early @ ?ack # map (piece_event r ver chunk) late) s = Some s2"
    unfolding s1(2) using s2(1) by (simp add: run_Cons)
  show ?thesis
  proof (cases "{..<n} \<subseteq> ?T")
    case True
    then have "n \<notin> ?T" using T by blast
    with s2(2) True run show ?thesis unfolding T' by (intro exI [of _ s2] exI [of _ n]) (simp add: after_ack_def)
  next
    case False
    with s2(2) obtain k ctx where "hm_get (pn_clients s2) r = Some c" "reading ?base n chunk part ?T k ctx" "k \<notin> ?T"
      "told c s2 = told c s @ map Inr (lines_of (text_upto part k))" unfolding T' by (auto simp: after_ack_def)
    with run show ?thesis by (intro exI [of _ s2] exI [of _ k]) (simp add: reading_def)
  qed
qed

end
