(* ===== verification/Swarm_Props.thy ===== *)
theory Swarm_Props
  imports Swarm_Clients
begin

text \<open>
  Properties of a swarm's session: which requests of other peers reach a local model, what the check of an encrypted
  one leaves open, and the one turn of the loop that never ends.
\<close>

section \<open>What is served\<close>

lemma served_tell [simp]: "served (tell_client r ms s) = served s"
proof -
  have "served_in (map (DoClient c) ms) = []" for c by (induction ms) (simp_all add: served_in_def)
  then show ?thesis by (simp add: tell_client_def served_def emit_def served_in_def split: option.split)
qed

lemma served_fields [simp]: "served (s\<lparr>pn_clients := m\<rparr>) = served s"
  by (simp add: served_def)

lemma served_drop [simp]: "served (drop_client r s) = served s"
  by (simp add: drop_client_def)

lemma served_emit [simp]:
  "served (emit [DoClient c m] s) = served s" "served (emit [DoReply x] s) = served s"
  "served (emit [DoServe r p b n] s) = served s @ [DoServe r p b n]"
  "served (emit [DoServeEncrypted q n t] s) = served s @ [DoServeEncrypted q n t]"
  by (simp_all add: served_def emit_def served_in_def)

interpretation serving: session_inv "\<lambda>s. served s = sv" for sv
  by unfold_locales (auto dest: view_served)

lemma served_new: "new_request w c cmd t l n s = (s', p) \<Longrightarrow> served s' = served s"
  by (auto simp: new_request_def Let_def forget_stream_def on_stats_def served_def)

lemma served_start: "served (start_request w c cmd t s) = served s"
proof -
  obtain s1 l where r: "resolve_libp2p_peer w t s = (s1, l)" by fastforce
  have s1: "served s1 = served s" using view_served [OF serving.resolve_view [OF r]] .
  have "served (case new_request w c cmd t l n u of (s, p) \<Rightarrow> send_or_queue w l p s) = served s" if "served u = served s" for n u
    using that served_new [of w c cmd t l n u] serving.queue_ok [of _ "served s"]
    by (cases "new_request w c cmd t l n u") simp
  moreover have "served (map_peer t l s1) = served s" "served (dial_mtrxai_peer w t a (map_peer t l s1)) = served s" for a
    using s1 view_served [of "map_peer t l s1" s1] view_served [of "dial_mtrxai_peer w t a (map_peer t l s1)" s1] by simp_all
  ultimately show ?thesis by (simp add: start_request_def r Let_def split: option.split)
qed

lemma served_command: "served (handle_proxy_cmd w c cmd s) = served s"
proof -
  obtain s1 x where t: "choose_target w cmd s = (s1, x)" by fastforce
  then show ?thesis using view_served [OF choose_view [OF t]]
    by (simp add: handle_proxy_cmd_def served_start split: option.split sum.split)
qed

definition valid_proof :: "p2p_world \<Rightarrow> p2p_session \<Rightarrow> encrypted_request \<Rightarrow> bool" where
  "valid_proof w s req =
     (case er_auth req of None \<Rightarrow> False | Some prf \<Rightarrow> verify_proxy_auth (wd_prims w) (wd_unix w) prf (pn_token s) (pap_peer_id prf))"

text \<open>The body of a request that came in pieces, once its end has come.\<close>

definition whole_body :: "p2p_world \<Rightarrow> incoming_proxy \<Rightarrow> json option" where
  "whole_body w p = wd_parse w (concat (map snd (sort_by_key fst (ip_chunks p))))"

fun to_serve :: "p2p_world \<Rightarrow> p2p_session \<Rightarrow> string \<Rightarrow> stream_message \<Rightarrow> p2p_action list" where
  "to_serve w s peer (ProxyRequest r path body) =
     (if e2ee_enabled (wd_env w) then [] else [DoServe r path body (name_of s peer)])"
| "to_serve w s peer (Encrypted (EncRequest req)) =
     (if valid_proof w s req then [DoServeEncrypted req (name_of s peer) peer] else [])"
| "to_serve w s peer (ProxyRequestEnd r) =
     (case hm_get (pn_incoming s) r of
        None \<Rightarrow> []
      | Some p \<Rightarrow> (case whole_body w p of Some v \<Rightarrow> [DoServe r (ip_path p) v (name_of s peer)] | None \<Rightarrow> []))"
| "to_serve w s peer _ = []"

lemma served_request: "served (handle_request w peer msg s) = served s @ to_serve w s peer msg"
proof -
  have pong: "served (pong t) = served t" for t by (simp add: pong_def)
  have fields: "served (s\<lparr>pn_incoming := m\<rparr>) = served s" "served (map_peer a b s) = served s"
    "served (on_stats f s) = served s" "served (apply_remote_catalog w u s) = served s" for m a b f u
    by (rule view_served, simp)+
  have "served (handle_encrypted_request w peer req s) = served s @ to_serve w s peer (Encrypted (EncRequest req))" for req
    by (simp add: handle_encrypted_request_def valid_proof_def Let_def fields split: option.split)
  moreover have "served (handle_request_end w peer r s) = served s @ to_serve w s peer (ProxyRequestEnd r)" for r
    by (simp add: handle_request_end_def whole_body_def Let_def name_of_def fields split: option.split)
  ultimately show ?thesis
    by (cases "(w, peer, msg, s)" rule: handle_request.cases)
      (simp_all add: pong fields serving.chunk_ok serving.fail_request_ok)
qed

lemma served_event:
  "served (handle_swarm_event w e s) = served s @ (case e of RequestReceived peer msg \<Rightarrow> to_serve w s peer msg | _ \<Rightarrow> [])"
proof (cases e)
  case (PeerClosed p)
  then show ?thesis using view_served [of "peer_closed w p s" s] by (simp add: peer_closed_def Let_def)
qed (use view_served [of "handle_swarm_event w e s" s] in
    \<open>simp_all add: served_request serving.response_ok serving.failure_ok serving.connected_ok list_all_iff split: option.split\<close>)


text \<open>End-to-end encryption is only asked of a request in one message. With encryption on, a peer gets no model by
  \<open>ProxyRequest\<close>; but any peer, without a proof, gets its request in the clear served by sending the same in pieces.\<close>

theorem clear_request_in_pieces_served:
  assumes "e2ee_enabled (wd_env w)" "wd_parse w body = Some v"
  shows "to_serve w s peer (ProxyRequest r path v) = []
    \<and> map_option served (p2p_run (map (\<lambda>m. (w, SwarmEvent (RequestReceived peer m)))
          [ProxyRequestStart r path, ProxyRequestChunk r 0 body, ProxyRequestEnd r]) s)
      = Some (served s @ [DoServe r path v (name_of s peer)])"
proof -
  let ?s = "handle_request w peer (ProxyRequestChunk r 0 body) (handle_request w peer (ProxyRequestStart r path) s)"
  have "hm_get (pn_incoming ?s) r = Some \<lparr>ip_path = path, ip_chunks = [(0, body)]\<rparr>" "name_of ?s peer = name_of s peer"
    by (simp_all add: pong_def emit_def name_of_def)
  moreover have "served ?s = served s" unfolding served_request by simp
  moreover have "sort_by_key fst [(0::nat, body)] = [(0, body)]" by (simp add: sort_by_key_def)
  ultimately have "served (handle_request w peer (ProxyRequestEnd r) ?s) = served s @ [DoServe r path v (name_of s peer)]"
    unfolding served_request by (simp add: whole_body_def assms(2))
  with assms(1) show ?thesis by (simp add: p2p_run_def p2p_turn_def del: handle_request.simps)
qed

lemma clear_request_in_pieces_served_witness:
  "map_option served (p2p_run (map (\<lambda>m. ((toy_p2p_world [])\<lparr>wd_parse := \<lambda>b. Some (JStr b)\<rparr>, SwarmEvent (RequestReceived ''q'' m)))
      [ProxyRequestStart ''r'' ''/api/chat'', ProxyRequestChunk ''r'' 0 ''x'', ProxyRequestEnd ''r'']) toy_session)
    = Some [DoServe ''r'' ''/api/chat'' (JStr ''x'') ''q'']"
proof -
  have "served toy_session = []" "name_of toy_session ''q'' = ''q''" by code_simp+
  moreover have "e2ee_enabled (wd_env ((toy_p2p_world [])\<lparr>wd_parse := \<lambda>b. Some (JStr b)\<rparr>))" by code_simp
  ultimately show ?thesis
    using clear_request_in_pieces_served [of "(toy_p2p_world [])\<lparr>wd_parse := \<lambda>b. Some (JStr b)\<rparr>" "''x''" "JStr ''x''"
        toy_session "''q''" "''r''" "''/api/chat''"] by simp
qed


section \<open>The turn that never ends\<close>


section \<open>The provider\<close>

fun runs_model :: "swarm_effect \<Rightarrow> bool" where
  "runs_model (SwForward _ _ _) = True"
| "runs_model (SwRespond _) = False"
| "runs_model (SwReverse _) = False"
| "runs_model SwDropQueue = False"
| "runs_model (SwStart _ _) = False"
| "runs_model (SwProgress _ _) = False"
| "runs_model SwError = False"
| "runs_model (SwComplete _ _) = False"
| "runs_model (SwReport _ _) = False"

lemma flush_no_model: "\<not> list_ex runs_model (snd (snd (snd (flush_encrypted_pending act enc r ver fin n pending seq))))"
proof (induction act enc r ver fin n pending seq rule: flush_encrypted_pending.induct)
  case (1 act enc r ver fin n pending seq)
  show ?case
    using "1.IH" by (auto simp: flush_encrypted_pending.simps [of act enc r ver fin n pending] Let_def case_prod_unfold
        split: option.split sum.split)
qed

lemma stream_no_model: "\<not> list_ex runs_model (stream_swarm_answer env act enc r ver items n buffer pending seq)"
proof (induction items arbitrary: n buffer pending seq)
  case (Cons item items)
  have fin: "\<not> list_ex runs_model (finish_swarm_answer env act enc r ver n buffer pending seq)" for n buffer pending seq
    using flush_no_model by (simp add: finish_swarm_answer_def)
  have sent: "\<not> list_ex runs_model sent" if "flush_encrypted_pending act enc r ver f n' p q = (a, b, c, sent)" for f n' p q a b c sent
    using flush_no_model [of act enc r ver f n' p q] that by simp
  show ?case using Cons.IH fin by (auto simp: Let_def dest: sent split: option.split prod.split)
qed (use flush_no_model in \<open>simp add: finish_swarm_answer_def\<close>)

lemma collect_no_model: "\<not> list_ex runs_model (fst (collect_answer env buffer items))"
proof (induction items arbitrary: buffer)
  case (Cons item items)
  then show ?case by (cases item) (simp_all add: Let_def case_prod_unfold)
qed simp

definition opens_request :: "swarm_env \<Rightarrow> encrypted_request \<Rightarrow> bool" where
  "opens_request env req =
     (\<not> isl (fst (decrypt_inbound_request (pv_prims env) (pv_parse env) (pv_keys env) (pv_config env) (er_room_id req)
        (er_req_id req) (er_path req) (er_consumer_pk req) (er_nonce req) (er_ciphertext req))))"

text \<open>The checks before a model is run differ. A request in the clear runs one exactly when its sender is not blocked and
  the swarm accepts jobs; an encrypted one when its sender is not blocked and it decrypts: a paused swarm still serves it.\<close>

theorem provider_checks:
  "list_ex runs_model (dispatch_swarm_proxy_request env consumer swarm r path body)
     = (consumer \<notin> pv_blocked env \<and> swarm_accepting (pv_config env) swarm)
   \<and> list_ex runs_model (serve_encrypted env show act consumer req)
     = (consumer \<notin> pv_blocked env \<and> opens_request env req)"
  using stream_no_model collect_no_model
  by (auto simp: dispatch_swarm_proxy_request_def serve_encrypted_def opens_request_def Let_def split: sum.split prod.split)

lemma wrap_add64_other: "wrap_add64 n 1 \<noteq> n"
proof
  assume eq: "wrap_add64 n 1 = n"
  then have "n < 2 ^ 64" unfolding wrap_add64_def by (metis mod_less_divisor zero_less_numeral zero_less_power)
  moreover have "\<not> n + 1 < 2 ^ 64"
  proof
    assume "n + 1 < 2 ^ 64"
    then have "wrap_add64 n 1 = n + 1" unfolding wrap_add64_def by (rule mod_less)
    with eq show False by simp
  qed
  ultimately have "n + 1 = 2 ^ 64" by linarith
  with eq show False unfolding wrap_add64_def by simp
qed

text \<open>A second encrypted request of a consumer silences its first. It takes the slot, whatever the first one's number; and a
  task that finds its slot taken sends no more of its answer, no end and no error, but counts the request as completed.\<close>

theorem second_request_silences_first:
  "(case claim_encrypted_proxy_slot consumer r1 slots of (slots, g1) \<Rightarrow>
      \<not> encrypted_proxy_still_active (fst (claim_encrypted_proxy_slot consumer r2 slots)) consumer r1 g1)
   \<and> stream_swarm_answer env (\<lambda>_. False) enc r1 ver items n buffer pending seq
      = [SwComplete (tu_total (buffer_usage env buffer)) (length buffer)]"
proof
  show "case claim_encrypted_proxy_slot consumer r1 slots of (slots, g1) \<Rightarrow>
      \<not> encrypted_proxy_still_active (fst (claim_encrypted_proxy_slot consumer r2 slots)) consumer r1 g1"
    using wrap_add64_other
    by (simp add: claim_encrypted_proxy_slot_def encrypted_proxy_still_active_def Let_def)
  show "stream_swarm_answer env (\<lambda>_. False) enc r1 ver items n buffer pending seq
      = [SwComplete (tu_total (buffer_usage env buffer)) (length buffer)]"
    by (cases items) (simp_all add: finish_swarm_answer_def flush_encrypted_pending.simps [of "\<lambda>_. False"])
qed

end
