(* ===== verification/Swarm_Answer.thy ===== *)
theory Swarm_Answer
  imports Swarm_Stream Swarm_Props Cluster_Answer
begin

text \<open>
  A swarm's answer from the provider's model to the consumer's caller: the provider's task cuts it into sealed pieces,
  the consumer's session opens them and gives the caller its lines.
\<close>

section \<open>The provider's pieces\<close>

definition swarm_piece :: "string \<Rightarrow> bool" where
  "swarm_piece p = (p \<noteq> [] \<and> utf8_valid p \<and> length p \<le> SWARM_CHUNK_BYTES)"

definition pieces_sent :: "swarm_effect list \<Rightarrow> dc_message list" where
  "pieces_sent effs = List.map_filter (\<lambda>e. case e of SwReverse (Encrypted m) \<Rightarrow> Some m | _ \<Rightarrow> None) effs"

lemma pieces_sent_simps [simp]:
  "pieces_sent [] = []" "pieces_sent (a @ b) = pieces_sent a @ pieces_sent b"
  "pieces_sent (SwReverse (Encrypted m) # effs) = m # pieces_sent effs" "pieces_sent (SwProgress x y # effs) = pieces_sent effs"
  "pieces_sent (SwComplete x y # effs) = pieces_sent effs" "pieces_sent (SwError # effs) = pieces_sent effs"
  by (simp_all add: pieces_sent_def map_filter_def)

lemma swarm_flush_sends:
  assumes enc: "\<forall>i p. \<not> isl (enc i p)"
  shows "utf8_valid pending \<Longrightarrow> seq + length pending < 2 ^ 32 \<Longrightarrow>
    \<exists>m ps rest effs. flush_encrypted_pending (\<lambda>_. True) enc req ver fin n pending seq = (m, rest, seq + length ps, effs)
      \<and> pieces_sent effs = numbered enc req ver (fin \<and> ps \<noteq> []) seq ps
      \<and> concat ps @ rest = pending \<and> list_all swarm_piece ps \<and> utf8_valid rest \<and> (fin \<longrightarrow> rest = [])"
proof (induction "length pending" arbitrary: pending seq n rule: less_induct)
  case less
  show ?case
  proof (cases "text_take SWARM_CHUNK_BYTES pending fin")
    case None
    then have "flush_encrypted_pending (\<lambda>_. True) enc req ver fin n pending seq = (Suc n, pending, seq, [])"
      by (simp add: flush_encrypted_pending.simps [of _ enc req ver fin n pending])
    moreover have "fin \<Longrightarrow> pending = []" using text_take_None [of pending SWARM_CHUNK_BYTES] less.prems(1) None
      by (auto simp: SWARM_CHUNK_BYTES_def)
    ultimately show ?thesis using less.prems(1) by (intro exI [of _ "Suc n"] exI [of _ "[]"] exI [of _ pending]) simp
  next
    case (Some k)
    have t: "0 < k" "k \<le> length pending" "k \<le> SWARM_CHUNK_BYTES" "utf8_valid (take k pending)" "utf8_valid (drop k pending)"
      using text_take_Some [OF less.prems(1) Some] by (simp_all add: SWARM_CHUNK_BYTES_def)
    have shorter: "length (drop k pending) < length pending" using t by simp
    have seq: "wrap_add32 seq (Suc 0) = Suc seq" using less.prems(2) t by (simp add: wrap_add32_exact)
    have fits: "Suc seq + length (drop k pending) < 2 ^ 32" using shorter less.prems(2) by linarith
    obtain nn c where e: "enc seq (take k pending) = Inr (nn, c)" using enc
      by (metis isl_def prod.exhaust sum.exhaust_sel)
    obtain m ps rest effs where IH:
      "flush_encrypted_pending (\<lambda>_. True) enc req ver fin (Suc n) (drop k pending) (Suc seq) = (m, rest, Suc seq + length ps, effs)"
      "pieces_sent effs = numbered enc req ver (fin \<and> ps \<noteq> []) (Suc seq) ps" "concat ps @ rest = drop k pending"
      "list_all swarm_piece ps" "utf8_valid rest" "fin \<longrightarrow> rest = []"
      using less.hyps [OF shorter t(5) fits, of "Suc n"] by blast
    have end_iff: "(fin \<and> drop k pending = []) = (fin \<and> ps = [])"
      using IH(3,4,6) by (cases ps) (auto simp: swarm_piece_def)
    have nums: "numbered enc req ver (fin \<and> ps \<noteq> []) (Suc seq) ps = numbered enc req ver fin (Suc seq) ps" by (cases ps) auto
    have "take k pending \<noteq> []" using t by auto
    then have "list_all swarm_piece (take k pending # ps)" using IH(4) t by (auto simp: swarm_piece_def)
    moreover have "flush_encrypted_pending (\<lambda>_. True) enc req ver fin n pending seq =
        (m, rest, seq + length (take k pending # ps), SwReverse (Encrypted (EncStreamChunk req seq nn c ver (fin \<and> ps = []))) # effs)"
      using IH(1) e Some
      by (simp only: flush_encrypted_pending.simps [of _ enc req ver fin n pending] end_iff [symmetric])
        (simp add: seq)
    moreover have "concat (take k pending # ps) @ rest = pending" using IH(3) by simp
    ultimately show ?thesis using IH(2,5,6) nums e
      by (intro exI [of _ m] exI [of _ "take k pending # ps"] exI [of _ rest]) simp
  qed
qed

lemma stream_swarm_sends:
  assumes enc: "\<forall>i p. \<not> isl (enc i p)"
  shows "utf8_valid pending \<Longrightarrow> seq + length pending + length (concat bs) < 2 ^ 32 \<Longrightarrow>
    \<exists>ps fin. pieces_sent (stream_swarm_answer env (\<lambda>_. True) enc req ver (map Some bs) n buffer pending seq) = numbered enc req ver fin seq ps
      \<and> (ps = [] \<longrightarrow> \<not> fin) \<and> concat ps = pending @ concat (filter utf8_valid bs) \<and> list_all swarm_piece ps"
proof (induction bs arbitrary: n buffer pending seq)
  case Nil
  obtain m ps rest effs where f: "flush_encrypted_pending (\<lambda>_. True) enc req ver True n pending seq = (m, rest, seq + length ps, effs)"
    "pieces_sent effs = numbered enc req ver (True \<and> ps \<noteq> []) seq ps" "concat ps @ rest = pending" "list_all swarm_piece ps" "rest = []"
    using swarm_flush_sends [OF enc Nil.prems(1), where seq = seq and fin = True and n = n and req = req and ver = ver] Nil.prems(2) by auto
  then show ?case by (intro exI [of _ ps] exI [of _ "ps \<noteq> []"]) (simp add: finish_swarm_answer_def)
next
  case (Cons b bs)
  show ?case
  proof (cases "utf8_valid b")
    case False
    then show ?thesis using Cons.IH [OF Cons.prems(1), of seq "Suc n" buffer] Cons.prems(2) by simp
  next
    case True
    have v: "utf8_valid (pending @ b)" using Cons.prems(1) True utf8_valid_append by simp
    have room: "seq + length (pending @ b) < 2 ^ 32" using Cons.prems(2) by simp
    obtain m ps rest effs where f: "flush_encrypted_pending (\<lambda>_. True) enc req ver False (Suc n) (pending @ b) seq
        = (m, rest, seq + length ps, effs)"
      "pieces_sent effs = numbered enc req ver False seq ps" "concat ps @ rest = pending @ b" "list_all swarm_piece ps" "utf8_valid rest"
      using swarm_flush_sends [OF enc v room, where fin = False and n = "Suc n" and req = req and ver = ver] by auto
    have "length ps \<le> length (concat ps)"
      using f(4) by (intro length_concat_nonempty) (auto simp: swarm_piece_def list_all_iff)
    moreover have "length (pending @ b) = length (concat ps) + length rest" using arg_cong [OF f(3), of length] by simp
    ultimately have fits: "seq + length ps + length rest + length (concat bs) < 2 ^ 32" using Cons.prems(2) by simp
    obtain qs fin where IH: "pieces_sent (stream_swarm_answer env (\<lambda>_. True) enc req ver (map Some bs) m
        (fst (accumulate_and_parse_usage (pv_parse env) (buffer @ b) b)) rest (seq + length ps)) = numbered enc req ver fin (seq + length ps) qs"
      "qs = [] \<longrightarrow> \<not> fin" "concat qs = rest @ concat (filter utf8_valid bs)" "list_all swarm_piece qs"
      using Cons.IH [OF f(5) fits] by blast
    have "numbered enc req ver False seq ps @ numbered enc req ver fin (seq + length ps) qs = numbered enc req ver fin seq (ps @ qs)"
      using IH(2) by (intro numbered_append) auto
    moreover have "concat (ps @ qs) = pending @ concat (filter utf8_valid (b # bs))" using f(3) IH(3) True by auto
    ultimately show ?thesis using f(1,2,4) IH(1,2,4) True
      by (intro exI [of _ "ps @ qs"] exI [of _ fin]) (simp add: Let_def case_prod_unfold)
  qed
qed

lemma length_numbered [simp]: "length (numbered enc req ver fin seq ps) = length ps"
  by (induction ps arbitrary: seq) simp_all

lemma numbered_nth:
  "i < length ps \<Longrightarrow> numbered enc req ver fin seq ps ! i =
     EncStreamChunk req (seq + i) (fst (projr (enc (seq + i) (ps ! i)))) (snd (projr (enc (seq + i) (ps ! i)))) ver
       (fin \<and> Suc i = length ps)"
proof (induction ps arbitrary: seq i)
  case (Cons p ps)
  then show ?case by (cases i) auto
qed simp

section \<open>From the model to the caller\<close>

text \<open>C1: What a model answers to an encrypted request over a swarm is what the caller reads. As long as the provider's task
  holds its slot and the last flush finds some text to mark as the end, all of the answer that is UTF-8 goes out in sealed
  pieces. A consumer that gets pieces in any order, some more than once and some before the acknowledgement, tells the
  caller the lines that are not blank of a prefix of that text, in order and once; and when every piece has come, all of
  them, the last with a line feed added if it had none, and only then is the caller's channel closed.\<close>

theorem swarm_answer_end_to_end:
  assumes P: "primitives_ok P" "wd_prims w = P" and ks: "store_ok (pn_keys s)" "store_ok ksp"
    and sec: "room_secret_for_proxy P (p2p_config s) room = Some secret" "room_secret_for_proxy P cfgp room = Some secret"
    and enc: "enc = (\<lambda>i piece. fst (encrypt_proxy_chunk P ksp cfgp (nonces i) room r (op_path p) i (prim_pub P eph) piece))"
      "\<forall>i piece. \<not> isl (enc i piece)" "\<forall>i. pred_option (\<lambda>b. length b = 12) (nonces i)"
    and sent: "sent = pieces_sent (stream_swarm_answer env (\<lambda>_. True) enc r ver (map Some bs) n0 [] [] 0)"
      "length (concat bs) < 2 ^ 32" "sent \<noteq> []" "marked_done (last sent)" "t = concat (filter utf8_valid bs)"
    and as: "\<forall>a\<in>set (early @ late). wd_prims (fst a) = P \<and> snd (snd a) < length sent"
    and req: "hm_get (pn_clients s) r = Some c" "hm_get (pn_streams s) r = None" "hm_get (pn_early s) r = None"
      "hm_get (pn_outbound s) m = Some p"
    and p: "op_room_id p = Some room" "op_secret p = Some eph" "op_provider_pk p = Some (rk_public (room_pair P secret room))"
  shows "\<exists>s' u all. p2p_run (map (piece_event r ver (\<lambda>i. chunk_of_message (sent ! i))) early
        @ (w, SwarmEvent (ResponseReceived m (Encrypted (EncResponse r nr ct v None (Some True)))))
        # map (piece_event r ver (\<lambda>i. chunk_of_message (sent ! i))) late) s = Some s'
    \<and> (all \<longleftrightarrow> {..<length sent} \<subseteq> (snd \<circ> snd) ` set (early @ late))
    \<and> told c s' = told c s @ map Inr (if all then lines_of t @ last_line t else lines_of u) \<and> prefix u t
    \<and> (hm_get (pn_clients s') r = None \<longleftrightarrow> all)"
proof -
  obtain ps fin where ps: "sent = numbered enc r ver fin 0 ps" "concat ps = t" "list_all swarm_piece ps"
    using stream_swarm_sends [OF enc(2), of "[]" 0 bs env r ver n0 "[]"] sent(1,2,5) by auto
  have len: "length sent = length ps" by (simp add: ps(1))
  have "ps \<noteq> []" using sent(3) len by auto
  then have "last sent = sent ! (length ps - 1)" using sent(3) by (simp add: last_conv_nth len)
  then have fin: fin using sent(4) \<open>ps \<noteq> []\<close> by (simp add: ps(1) numbered_nth)
  have "length ps \<le> length (concat ps)" using ps(3) by (intro length_concat_nonempty) (auto simp: swarm_piece_def list_all_iff)
  also have "\<dots> \<le> length (concat bs)" unfolding ps(2) sent(5) by (induction bs) auto
  finally have n: "0 < length ps" "length ps \<le> 2 ^ 32" using \<open>ps \<noteq> []\<close> sent(2) by auto
  have sealed: "\<forall>i<length ps. fst (encrypt_proxy_chunk P ksp cfgp (nonces i) room r (op_path p) i (prim_pub P eph) (ps ! i))
        = Inr (sc_nonce (chunk_of_message (sent ! i)), sc_ciphertext (chunk_of_message (sent ! i)))
      \<and> store_ok ksp \<and> sc_seq (chunk_of_message (sent ! i)) = i \<and> sc_done (chunk_of_message (sent ! i)) = (Suc i = length ps)
      \<and> pred_option (\<lambda>b. length b = 12) (nonces i) \<and> utf8_valid (ps ! i)"
    (is "\<forall>i<_. ?sealed i")
  proof (intro allI impI)
    fix i assume i: "i < length ps"
    have "\<not> isl (enc i (ps ! i))" using enc(2) by simp
    then have "fst (encrypt_proxy_chunk P ksp cfgp (nonces i) room r (op_path p) i (prim_pub P eph) (ps ! i)) = Inr (projr (enc i (ps ! i)))"
      by (simp add: enc(1) isl_def sum.collapse(2))
    with i fin ks(2) enc(3) ps(3) show "?sealed i" by (simp add: ps(1) numbered_nth list_all_length swarm_piece_def)
  qed
  obtain s' k where r: "p2p_run (map (piece_event r ver (\<lambda>i. chunk_of_message (sent ! i))) early
        @ (w, SwarmEvent (ResponseReceived m (Encrypted (EncResponse r nr ct v None (Some True)))))
        # map (piece_event r ver (\<lambda>i. chunk_of_message (sent ! i))) late) s = Some s'"
    and k: "k \<le> length ps" "{..<k} \<subseteq> (snd \<circ> snd) ` set (early @ late)" "k \<notin> (snd \<circ> snd) ` set (early @ late)"
    and t: "told c s' = told c s @ map Inr (lines_of (text_upto (nth ps) k) @ (if k = length ps then last_line (text_upto (nth ps) (length ps)) else []))"
      "hm_get (pn_clients s') r = None \<longleftrightarrow> k = length ps"
    using answer_read [OF P ks(1) sec n as [unfolded len] sealed req p, of ver nr ct v] by (elim exE conjE) (rule that; assumption)
  have all: "k = length ps \<longleftrightarrow> {..<length sent} \<subseteq> (snd \<circ> snd) ` set (early @ late)"
  proof
    assume "{..<length sent} \<subseteq> (snd \<circ> snd) ` set (early @ late)"
    with k(3) have "\<not> k < length sent" by blast
    with k(1) len show "k = length ps" by simp
  next
    assume "k = length ps"
    with k(2) len show "{..<length sent} \<subseteq> (snd \<circ> snd) ` set (early @ late)" by simp
  qed
  have upto: "text_upto (nth ps) j = concat (take j ps)" if "j \<le> length ps" for j
    using that take_map [of j "nth ps" "[0..<length ps]"] by (simp add: text_upto_def map_nth take_upt)
  have "prefix (text_upto (nth ps) k) t"
    unfolding ps(2) [symmetric] upto [OF k(1)] by (metis append_take_drop_id concat_append prefixI)
  moreover have "text_upto (nth ps) (length ps) = t" by (simp add: upto ps(2))
  ultimately show ?thesis using r t all by (intro exI [of _ s'] exI [of _ "text_upto (nth ps) k"] exI [of _ "k = length ps"]) (cases "k = length ps"; simp)
qed

definition toy_room :: room_static_keys where
  "toy_room = room_pair toy_primitives (cluster_effective_room_secret ''c'' (Some ''pw'')) ''c''"

definition toy_consumer :: p2p_session where
  "toy_consumer = toy_session\<lparr>pn_net := toy_network\<lparr>ns_config := member_of ''c'' (Some ''pw'')\<rparr>, pn_clients := [(''r'', 7)],
     pn_outbound := [(0, \<lparr>op_req_id = ''r'', op_path = ''/p'', op_body = JNull, op_target = ''q'', op_libp2p = ''q'', op_attempts = 0,
       op_room_id = Some ''c'', op_secret = Some ''eph'', op_provider_pk = Some (rk_public toy_room), op_e2ee = True\<rparr>)]\<rparr>"

definition toy_provider :: swarm_env where
  "toy_provider = \<lparr>pv_config = member_of ''c'' (Some ''pw''), pv_environment = (\<lambda>_. None), pv_blocked = {}, pv_sidecar = False,
     pv_ipc = (\<lambda>_. Inl []), pv_answer = (\<lambda>_ _ _. Inl []), pv_parse = (\<lambda>_. None), pv_print = (\<lambda>_. None),
     pv_prims = toy_primitives, pv_keys = toy_store, pv_nonces = (\<lambda>_. Some ''twelve bytes'')\<rparr>"

text \<open>A short answer goes out in one piece, which comes before the acknowledgement, and once more after it.\<close>

definition toy_answer :: "string list" where
  "toy_answer = [''ab'' @ [NL] @ ''c'', ''d'']"

definition toy_seal :: "nat \<Rightarrow> string \<Rightarrow> e2ee_error + (string \<times> string)" where
  "toy_seal = (\<lambda>i piece. Inr (''twelve bytes'', build_aad ''r'' (chunk_path ''/p'' i) ''c'' @ piece))"

definition toy_sent :: "dc_message list" where
  "toy_sent = pieces_sent (stream_swarm_answer toy_provider (\<lambda>_. True) toy_seal ''r'' 1 (map Some toy_answer) 0 [] [] 0)"

lemma toy_seal_eq: "toy_seal i piece = Inr (''twelve bytes'', build_aad ''r'' (chunk_path ''/p'' i) ''c'' @ piece)"
  by (simp add: toy_seal_def)

lemma toy_flush:
  assumes "length t < SWARM_CHUNK_BYTES" "0 < length t"
  shows "flush_encrypted_pending (\<lambda>_. True) toy_seal r ver False n t seq = (Suc n, t, seq, [])"
    and "pieces_sent (snd (snd (snd (flush_encrypted_pending (\<lambda>_. True) toy_seal r ver True n t seq))))
      = [EncStreamChunk r seq ''twelve bytes'' (build_aad ''r'' (chunk_path ''/p'' seq) ''c'' @ t) ver True]"
proof -
  have "text_take SWARM_CHUNK_BYTES t False = None" "text_take SWARM_CHUNK_BYTES t True = Some (length t)"
    "text_take SWARM_CHUNK_BYTES [] True = None"
    using assms by (auto simp: text_take_def)
  then show "flush_encrypted_pending (\<lambda>_. True) toy_seal r ver False n t seq = (Suc n, t, seq, [])"
    and "pieces_sent (snd (snd (snd (flush_encrypted_pending (\<lambda>_. True) toy_seal r ver True n t seq))))
      = [EncStreamChunk r seq ''twelve bytes'' (build_aad ''r'' (chunk_path ''/p'' seq) ''c'' @ t) ver True]"
    by (simp_all add: flush_encrypted_pending.simps [of _ toy_seal r ver _ _ t] flush_encrypted_pending.simps [of _ toy_seal r ver _ _ "[]"]
        toy_seal_eq)
qed

lemma toy_sent_one: "length toy_sent = 1" "marked_done (last toy_sent)"
  by (simp_all add: toy_sent_def toy_answer_def toy_flush SWARM_CHUNK_BYTES_def Let_def case_prod_unfold finish_swarm_answer_def in_range_def NL_def)

lemma swarm_answer_end_to_end_witness:
  "\<exists>s. p2p_run (map (piece_event ''r'' 1 (\<lambda>i. chunk_of_message (toy_sent ! i))) [(toy_p2p_world [], ''x'', 0)]
        @ (toy_p2p_world [], SwarmEvent (ResponseReceived 0 (Encrypted (EncResponse ''r'' [] [] 1 None (Some True)))))
        # map (piece_event ''r'' 1 (\<lambda>i. chunk_of_message (toy_sent ! i))) [(toy_p2p_world [], ''y'', 0)]) toy_consumer = Some s
     \<and> told 7 s = [Inr (''ab'' @ [NL]), Inr (''cd'' @ [NL])] \<and> hm_get (pn_clients s) ''r'' = None"
proof -
  let ?cfg = "member_of ''c'' (Some ''pw'')" and ?w = "toy_p2p_world []" and ?ev = "piece_event ''r'' 1 (\<lambda>i. chunk_of_message (toy_sent ! i))"
  let ?run = "p2p_run (map ?ev [(?w, ''x'', 0)]
        @ (?w, SwarmEvent (ResponseReceived 0 (Encrypted (EncResponse ''r'' [] [] 1 None (Some True))))) # map ?ev [(?w, ''y'', 0)]) toy_consumer"
  let ?got = "(snd \<circ> snd) ` set ([(?w, ''x'', 0)] @ [(?w, ''y'', 0)])"
  obtain ks' where k: "room_keys toy_primitives toy_store ?cfg ''c'' = (Inr toy_room, ks')"
    using room_keys_total [OF toy_store_ok member_secret] unfolding toy_room_def by blast
  have prims: "prim_seal toy_primitives = (\<lambda>k n a m. Some (a @ m))" "length (prim_pub toy_primitives ''eph'') = 32"
    by (simp_all add: toy_primitives_def pad32_def)
  have enc: "toy_seal = (\<lambda>i piece. fst (encrypt_proxy_chunk toy_primitives toy_store ?cfg (Some ''twelve bytes'') ''c'' ''r'' ''/p'' i
      (prim_pub toy_primitives ''eph'') piece))"
    by (simp add: toy_seal_def encrypt_proxy_chunk_def k prims encrypt_payload_def)
  have seal: "\<forall>i piece. \<not> isl (toy_seal i piece)" by (simp add: toy_seal_def)
  have cfg: "p2p_config toy_consumer = ?cfg" by (simp add: p2p_config_def toy_consumer_def)
  have w: "wd_prims ?w = toy_primitives" by (simp add: toy_p2p_world_def)
  have keys: "pn_keys toy_consumer = toy_store" by (simp add: toy_consumer_def toy_session_def p2p_manager_new_def)
  have ne: "toy_sent \<noteq> []" using toy_sent_one(1) by auto
  have short: "length (concat toy_answer) < 2 ^ 32" by (simp add: toy_answer_def)
  have t: "concat (filter utf8_valid toy_answer) = ''ab'' @ [NL] @ ''cd''" by code_simp
  have "\<exists>s u all. ?run = Some s \<and> (all \<longleftrightarrow> {..<length toy_sent} \<subseteq> ?got)
      \<and> told 7 s = told 7 toy_consumer @ map Inr (if all then lines_of (''ab'' @ [NL] @ ''cd'') @ last_line (''ab'' @ [NL] @ ''cd'') else lines_of u)
      \<and> prefix u (''ab'' @ [NL] @ ''cd'') \<and> (hm_get (pn_clients s) ''r'' = None \<longleftrightarrow> all)"
    by (rule swarm_answer_end_to_end [where P = toy_primitives and cfgp = ?cfg and ksp = toy_store and nonces = "\<lambda>_. Some ''twelve bytes''"
          and p = "snd (hd (pn_outbound toy_consumer))" and room = "''c''" and eph = "''eph''" and bs = toy_answer and enc = toy_seal
          and secret = "cluster_effective_room_secret ''c'' (Some ''pw'')" and env = toy_provider and ?n0.0 = 0,
          OF toy_ok w _ toy_store_ok _ _ _ seal _ toy_sent_def short ne toy_sent_one(2) t [symmetric]])
      (simp_all add: toy_store_ok keys cfg member_secret enc w toy_sent_one(1), simp_all add: toy_consumer_def toy_session_def
        p2p_manager_new_def toy_room_def hm_empty_def)
  then obtain s u all where r: "?run = Some s" and all: "all \<longleftrightarrow> {..<length toy_sent} \<subseteq> ?got"
    and told: "told 7 s = told 7 toy_consumer @ map Inr (if all then lines_of (''ab'' @ [NL] @ ''cd'') @ last_line (''ab'' @ [NL] @ ''cd'') else lines_of u)"
    and gone: "hm_get (pn_clients s) ''r'' = None \<longleftrightarrow> all"
    by (elim exE conjE) (rule that; assumption)
  have all using all by (simp add: toy_sent_one(1) lessThan_Suc)
  moreover have "told 7 toy_consumer = []" by code_simp
  moreover have "lines_of (''ab'' @ [NL] @ ''cd'') = [''ab'' @ [NL]]" "last_line (''ab'' @ [NL] @ ''cd'') = [''cd'' @ [NL]]" by code_simp+
  ultimately show ?thesis using r told gone by simp
qed

end
