(* ===== verification/Swarm_Catalog_Props.thy ===== *)
theory Swarm_Catalog_Props
  imports Swarm_Catalog
begin

text \<open>
  The list of a swarm's models is exactly what the accepting peers offer: each model once, with each peer that offers it
  once, and the counts shown are those of the peers listed.
\<close>

text \<open>All offers, in the order they are added.\<close>

definition swarm_offers :: "cached_peer_record list \<Rightarrow> (cached_peer_record \<times> json) list" where
  "swarm_offers peers = concat (map (\<lambda>p. if cpr_accepting_jobs p then map (Pair p) (cpr_models p) else []) peers)"

lemma add_all_offers: "foldl add_peer_offers m peers = foldl (\<lambda>m q. add_offer (fst q) m (snd q)) m (swarm_offers peers)"
proof -
  have "foldl (add_offer p) m ms = foldl (\<lambda>m q. add_offer (fst q) m (snd q)) m (map (Pair p) ms)" for p m ms
    by (induction ms arbitrary: m) simp_all
  then show ?thesis by (induction peers arbitrary: m) (simp_all add: swarm_offers_def add_peer_offers_def)
qed

text \<open>The peers that offer a model, by id.\<close>

definition offerers :: "(cached_peer_record \<times> json) list \<Rightarrow> string \<Rightarrow> string set" where
  "offerers qs name = (\<lambda>q. cpr_peer_id (fst q)) ` {q \<in> set qs. get_str ''name'' (snd q) = Some name}"

lemma offerers_snoc:
  "offerers (qs @ [q]) name =
     (if get_str ''name'' (snd q) = Some name then insert (cpr_peer_id (fst q)) (offerers qs name) else offerers qs name)"
  by (auto simp: offerers_def)

definition listed_ids :: "json list \<Rightarrow> string option list" where
  "listed_ids ps = map (get_str ''id'') ps"

definition listed_loaded :: "json list \<Rightarrow> nat" where
  "listed_loaded ps = length (filter (\<lambda>p. get_bool ''loaded'' p = Some True) ps)"

definition offer_ok :: "(cached_peer_record \<times> json) list \<Rightarrow> string \<Rightarrow> swarm_offer \<Rightarrow> bool" where
  "offer_ok qs name f =
     (so_ids f = offerers qs name \<and> distinct (listed_ids (so_peers f)) \<and> set (listed_ids (so_peers f)) = Some ` so_ids f
      \<and> so_loaded f = listed_loaded (so_peers f))"

definition offers_ok :: "(cached_peer_record \<times> json) list \<Rightarrow> (string, swarm_offer) hmap \<Rightarrow> bool" where
  "offers_ok qs m =
     (hm_wf m \<and> (\<forall>name. case hm_get m name of None \<Rightarrow> offerers qs name = {}
        | Some f \<Rightarrow> offerers qs name \<noteq> {} \<and> offer_ok qs name f))"

lemma offers_okD: "offers_ok qs m \<Longrightarrow> case hm_get m name of None \<Rightarrow> offerers qs name = {}
    | Some f \<Rightarrow> offerers qs name \<noteq> {} \<and> offer_ok qs name f"
  by (simp add: offers_ok_def)

lemma listed_entry [simp]:
  "get_str ''id'' (json_obj [(''id'', JStr i), (''loaded'', JBool b)]) = Some i"
  "get_bool ''loaded'' (json_obj [(''id'', JStr i), (''loaded'', JBool b)]) = Some b"
  by (simp_all add: get_str_def get_bool_def)

lemma no_offer: "offerers qs name = {} \<Longrightarrow> offer_ok qs name \<lparr>so_template = t, so_peers = [], so_ids = {}, so_loaded = 0\<rparr>"
  by (simp add: offer_ok_def listed_ids_def listed_loaded_def)

lemma add_offer_keeps:
  assumes ok: "offers_ok qs m"
  shows "offers_ok (qs @ [q]) (add_offer (fst q) m (snd q))"
proof (cases "get_str ''name'' (snd q)")
  case None
  with ok show ?thesis by (simp add: add_offer_def offers_ok_def offerers_snoc offer_ok_def cong: option.case_cong)
next
  case (Some name)
  define f0 where "f0 = unwrap_or (hm_get m name) \<lparr>so_template = snd q, so_peers = [], so_ids = {}, so_loaded = 0\<rparr>"
  define f1 where "f1 = (let f = f0\<lparr>so_template := prefer_richer_template (so_template f0) (snd q)\<rparr>
     in if cpr_peer_id (fst q) \<in> so_ids f then f
        else f\<lparr>so_ids := insert (cpr_peer_id (fst q)) (so_ids f),
               so_peers := so_peers f @ [json_obj [(''id'', JStr (cpr_peer_id (fst q))), (''loaded'', JBool (model_loaded (snd q)))]],
               so_loaded := so_loaded f + (if model_loaded (snd q) then 1 else 0)\<rparr>)"
  have "offer_ok qs name f0"
    using offers_okD [OF ok, of name] no_offer [of qs name] by (cases "hm_get m name") (simp_all add: f0_def)
  then have f1: "offer_ok (qs @ [q]) name f1"
    by (auto simp: offer_ok_def f1_def Let_def offerers_snoc Some listed_ids_def listed_loaded_def)
  have get: "hm_get (add_offer (fst q) m (snd q)) n = (if n = name then Some f1 else hm_get m n)" for n
    by (simp add: add_offer_def Some f0_def f1_def)
  have "hm_wf (add_offer (fst q) m (snd q))" using ok by (simp add: add_offer_def Some offers_ok_def)
  moreover have "case hm_get m n of None \<Rightarrow> offerers (qs @ [q]) n = {}
      | Some f \<Rightarrow> offerers (qs @ [q]) n \<noteq> {} \<and> offer_ok (qs @ [q]) n f" if "n \<noteq> name" for n
    using ok that by (simp add: offers_ok_def offerers_snoc Some offer_ok_def cong: option.case_cong)
  ultimately show ?thesis using f1 by (simp add: offers_ok_def get offerers_snoc Some)
qed

lemma all_offers_ok: "offers_ok (swarm_offers peers) (foldl add_peer_offers hm_empty peers)"
proof -
  have "offers_ok qs (foldl (\<lambda>m q. add_offer (fst q) m (snd q)) hm_empty qs)" for qs
  proof (induction qs rule: rev_induct)
    case (snoc q qs)
    from add_offer_keeps [OF this, of q] show ?case by simp
  qed (simp add: offers_ok_def offerers_def)
  then show ?thesis unfolding add_all_offers .
qed

section \<open>The catalogue\<close>

definition model_name :: "json \<Rightarrow> string" where
  "model_name m = unwrap_or (get_str ''name'' m) []"

definition peers_listed :: "json \<Rightarrow> json list" where
  "peers_listed m = unwrap_or (Option.bind (jget ''_peers'' m) as_array) []"

text \<open>An entry names its peers once each, and counts them.\<close>

definition entry_exact :: "(cached_peer_record \<times> json) list \<Rightarrow> json \<Rightarrow> bool" where
  "entry_exact qs m =
     (distinct (listed_ids (peers_listed m)) \<and> set (listed_ids (peers_listed m)) = Some ` offerers qs (model_name m)
      \<and> peer_count m = card (offerers qs (model_name m))
      \<and> get_u64 ''_loaded_count'' m = Some (listed_loaded (peers_listed m)))"

lemma swarm_model_fields:
  "get_str ''name'' (swarm_model i (name, f)) = Some name" "peers_listed (swarm_model i (name, f)) = so_peers f"
  "peer_count (swarm_model i (name, f)) = length (so_peers f)"
  "get_u64 ''_loaded_count'' (swarm_model i (name, f)) = Some (so_loaded f)"
  by (simp_all add: swarm_model_def Let_def get_str_def peers_listed_def peer_count_def get_u64_def json_nat_def)

lemma length_listed: "distinct (listed_ids ps) \<Longrightarrow> set (listed_ids ps) = Some ` A \<Longrightarrow> length ps = card A"
  by (metis card_image distinct_card inj_Some inj_on_subset length_map listed_ids_def subset_UNIV)

text \<open>C20: The catalogue of a swarm has one entry for each model name that a peer accepting jobs offers, and no other; the
  entry lists every such peer once, its peer count is their number, and its loaded count the number listed as loaded.\<close>

theorem swarm_catalog_exact:
  "distinct (map model_name (swarm_models i peers))
   \<and> set (map model_name (swarm_models i peers)) = {name. offerers (swarm_offers peers) name \<noteq> {}}
   \<and> list_all (entry_exact (swarm_offers peers)) (swarm_models i peers)"
proof -
  let ?m = "foldl add_peer_offers hm_empty peers"
  have ok: "offers_ok (swarm_offers peers) ?m" by (rule all_offers_ok)
  have names: "map model_name (swarm_models i peers) = map fst ?m"
    by (auto simp: swarm_models_def model_name_def swarm_model_fields)
  have "distinct (map fst ?m)" using ok by (simp add: offers_ok_def hm_wf_def)
  moreover have "set (map fst ?m) = {name. offerers (swarm_offers peers) name \<noteq> {}}"
  proof -
    have "name \<in> set (map fst ?m) \<longleftrightarrow> hm_get ?m name \<noteq> None" for name
      using hm_contains_iff [of ?m name] by (simp add: hm_contains_def hm_keys_def)
    moreover have "hm_get ?m name \<noteq> None \<longleftrightarrow> offerers (swarm_offers peers) name \<noteq> {}" for name
      using offers_okD [OF ok, of name] by (cases "hm_get ?m name") simp_all
    ultimately show ?thesis by blast
  qed
  moreover have "entry_exact (swarm_offers peers) (swarm_model i (name, f))" if "(name, f) \<in> set ?m" for name f
  proof -
    have "hm_get ?m name = Some f" using hm_wf_get that ok by (metis offers_ok_def)
    with ok have f: "offer_ok (swarm_offers peers) name f" by (auto simp: offers_ok_def split: option.splits)
    then have "length (so_peers f) = card (offerers (swarm_offers peers) name)"
      by (intro length_listed) (simp_all add: offer_ok_def)
    with f show ?thesis by (simp add: entry_exact_def swarm_model_fields model_name_def offer_ok_def)
  qed
  ultimately show ?thesis unfolding names by (auto simp: swarm_models_def list_all_iff)
qed

end
