(* ===== verification/Swarm_Wire.thy ===== *)
theory Swarm_Wire
  imports Swarm_Provider P2p_Protocol
begin

text \<open>
  The codec of a swarm's requests and answers (\<open>p2p_manager.rs\<close>): a message is a line of JSON. The JSON
  encoder and decoder are arguments.
\<close>

datatype wire_error = WireClosed | WireInvalid

text \<open>The bytes up to the first line feed, and what follows it.\<close>

fun line_bytes :: "string \<Rightarrow> string \<Rightarrow> wire_error + (string \<times> string)" where
  "line_bytes buf [] = Inl WireClosed"
| "line_bytes buf (b # bs) = (if b = NL then Inr (buf, bs) else line_bytes (buf @ [b]) bs)"

definition read_json_line ::
  "(string \<Rightarrow> stream_message option) \<Rightarrow> string \<Rightarrow> wire_error + (stream_message \<times> string)" where
  "read_json_line decode s =
     (case line_bytes [] s of
        Inl e \<Rightarrow> Inl e
      | Inr (buf, rest) \<Rightarrow> (case decode buf of Some m \<Rightarrow> Inr (m, rest) | None \<Rightarrow> Inl WireInvalid))"

definition write_json_line :: "(stream_message \<Rightarrow> string option) \<Rightarrow> stream_message \<Rightarrow> wire_error + string" where
  "write_json_line encode m = (case encode m of Some line \<Rightarrow> Inr (line @ [NL]) | None \<Rightarrow> Inl WireInvalid)"

lemma line_bytes_line: "NL \<notin> set l \<Longrightarrow> line_bytes buf (l @ NL # rest) = Inr (buf @ l, rest)"
  by (induction l arbitrary: buf) auto

text \<open>A message written is the message read, whatever follows it on the stream, and whatever its length: the limit of
  the protocol's own reader (\<open>read_stream_message\<close>) does not hold here.\<close>

theorem swarm_wire_roundtrip:
  assumes "encode m = Some l" "decode l = Some m" "NL \<notin> set l"
  shows "(case write_json_line encode m of Inl e \<Rightarrow> False | Inr s \<Rightarrow> read_json_line decode (s @ rest) = Inr (m, rest))
    \<and> (length l > STREAM_MAX \<longrightarrow> read_stream_bytes [] (l @ [NL]) = Inl StreamTooLarge)"
proof -
  have "takeWhile (\<lambda>b. b \<noteq> CHR 0x0A) (l @ [NL]) = l"
    using assms(3) by (induction l) (auto simp: NL_def)
  then show ?thesis
    using assms read_stream_spec [of "[]" "l @ [NL]"]
    by (simp add: write_json_line_def read_json_line_def line_bytes_line Let_def)
qed

lemma swarm_wire_roundtrip_witness:
  "read_json_line (\<lambda>l. if l = ''p'' then Some Ping else None) (''p'' @ [NL] @ ''x'') = Inr (Ping, ''x'')"
  using swarm_wire_roundtrip [of "\<lambda>_. Some ''p''" Ping "''p''" "\<lambda>l. if l = ''p'' then Some Ping else None" "''x''"]
  by (simp add: write_json_line_def NL_def)

end
