(* ===== verification/Cluster_Session.thy ===== *)
theory Cluster_Session
  imports Swarm_Provider Connect_Allowance Session_Managers
begin

text \<open>
  The state of a cluster's session (\<open>WebRTCManager\<close> in \<open>webrtc_manager.rs\<close>): its connections to other peers, what it
  tells the lobby of its models, and the requests on their way. Each map behind a lock is a field.

  A WebRTC connection and a data channel are numbers, drawn from \<open>cl_next\<close>. \<open>cl_links\<close> holds the active channel of each
  connection, \<open>cl_inbound\<close> whose offer made it, \<open>cl_peers\<close> the connection a peer is reached by now. A handler that waits for something (the lobby's
  approval, the gathering of an offer, a channel to open) leaves the session and what it needs to go on is kept in
  \<open>cl_approvals\<close> and \<open>cl_answered\<close>, \<open>cl_connecting\<close>, \<open>cl_delayed\<close>, \<open>cl_starting\<close>; other handlers run meanwhile. Short
  waits for a lock or for a message to go out are not points at which others run. What the session does on the
  outside is appended to its log.

  The outside is the record \<open>cluster_env\<close>: the state of channels and connections now, whether a message goes out, random
  bytes, the clocks, the number the next request of the process gets, the model's answers.
\<close>

section \<open>Messages\<close>

text \<open>The messages of the lobby's protocol (an external crate), with the fields the session spells out.\<close>

datatype protocol_message =
    PmRegistered string string "string option" "nat option"
  | PmAvailableModels "json list"
  | PmPeersForModel string string "string list"
  | PmConnectUpdate string string string "string option" "string option" "nat option"
  | PmConnectOffer string string string "nat option"
  | PmRequestPeerConnect string string
  | PmRespondConnectOffer string bool
  | PmUpdateModels "json list" "gpu_host_status option" "bool option"
  | PmUpdatePeerInfo peer_info
  | PmGetPeersForModel
  | PmReportTokenUsage string string string string string string token_usage nat nat nat
  | PmModelStartUpdate string string string "nat option" "string option" "string list option" "string option"
  | PmModelStartOffer string string string nat "nat option" "bool option"
  | PmRequestModelStart string string string "gpu_host_status option"
  | PmRespondModelStart string bool
  | PmReportModelStartProgress string string "nat option" "string option"
  | PmPeerReportAck string nat bool
  | PmPeerBanned string nat
  | PmReportPeer string "string option"
  | PmRoute string string json

datatype data_channel_message =
    DcProxyRequest string string json
  | DcProxyRequestStart string string
  | DcProxyRequestChunk string nat string
  | DcProxyRequestEnd string
  | DcProxyResponseChunk string string
  | DcProxyResponseDone string
  | DcProxyResponseError string string
  | DcPing
  | DcPong

definition MAX_DC_CHUNK_BYTES :: nat where "MAX_DC_CHUNK_BYTES = 3 * 1024"
definition CONNECTION_ALLOWANCE_TTL_SECS :: nat where "CONNECTION_ALLOWANCE_TTL_SECS = 60"
definition DC_OPEN_MAX_POLLS :: nat where "DC_OPEN_MAX_POLLS = 60"
definition MAINTENANCE_CATALOG_HASH :: string where "MAINTENANCE_CATALOG_HASH = ''__maintenance__''"
definition NO_LLM_CATALOG_HASH :: string where "NO_LLM_CATALOG_HASH = ''__no_llm__''"

section \<open>State\<close>

record exchange_meta =
  em_remote_peer_id :: string
  em_model :: string
  em_path :: string
  em_started_at :: nat
  em_buffer :: string
  em_bytes_sent :: nat
  em_bytes_received :: nat

text \<open>What the handlers of a data channel hold. Only the provider's side checks a model against an approval.\<close>

record channel_context =
  cc_remote :: string
  cc_provider :: bool
  cc_incoming :: "(string, string \<times> (nat \<times> string) list) hmap"
  cc_enc_incoming :: pending_requests
  cc_streams :: pending_streams

record connecting =
  co_caller :: nat
  co_cmd :: proxy_request_command
  co_target :: string
  co_req_id :: string
  co_flags :: nat

record delayed_send =
  de_req_id :: string
  de_caller :: nat
  de_cmd :: proxy_request_command
  de_target :: string
  de_link :: nat
  de_attempts :: nat

datatype cluster_action =
    ClLobby protocol_message
  | ClPlain nat data_channel_message
  | ClEncrypted nat dc_message
  | ClCaller nat "string + string"
  | ClClose nat
  | ClRemoteAnswer nat string
  | ClForward string json string
  | ClSidecar string json

record cluster_session =
  cl_name :: string
  cl_id :: string
  cl_peers :: "(string, nat) hmap"
  cl_links :: "(nat, nat option) hmap"
  cl_inbound :: "(nat, string) hmap"
  cl_channels :: "(nat, channel_context) hmap"
  cl_requests :: "(string, nat) hmap"
  cl_encrypted :: "(string, consumer_state) hmap"
  cl_lookups :: "(string, nat) hmap"
  cl_approvals :: "(string, (nat \<times> proxy_request_command) option) hmap"
  cl_answered :: "(string \<times> nat \<times> proxy_request_command \<times> (string + (string \<times> nat))) list"
  cl_connecting :: "connecting list"
  cl_delayed :: "delayed_send list"
  cl_starting :: "(string \<times> string) list"
  cl_allowances :: connection_allowance_store
  cl_approved :: "(string, string) hmap"
  cl_exchanges :: "(string, exchange_meta) hmap"
  cl_hints :: "(string, nat) hmap"
  cl_negotiating :: "string list"
  cl_version :: nat
  cl_net :: network_state
  cl_registry :: llm_registry
  cl_keys :: key_store
  cl_next :: nat
  cl_log :: "cluster_action list"

record cluster_env =
  ce_open :: "nat \<Rightarrow> bool"
  ce_terminal :: "nat \<Rightarrow> bool"
  ce_lobby :: "protocol_message \<Rightarrow> string option"
  ce_wire :: "data_channel_message \<Rightarrow> nat option"
  ce_up :: "nat \<Rightarrow> data_channel_message \<Rightarrow> bool"
  ce_channel :: "nat \<Rightarrow> dc_channel"
  ce_connects :: bool
  ce_offer :: "string option"
  ce_answer_sdp :: "string \<Rightarrow> string option"
  ce_takes_answer :: "string \<Rightarrow> bool"
  ce_time :: manager_world
  ce_ms :: nat
  ce_ms_end :: nat
  ce_nanos :: "nat \<times> nat"
  ce_req_no :: nat
  ce_version :: nat
  ce_build_flag :: nat
  ce_env :: environment
  ce_prims :: primitives
  ce_eph :: "string \<times> string"
  ce_nonce :: "string option"
  ce_nonces :: "nat \<Rightarrow> string option"
  ce_parse :: "string \<Rightarrow> json option"
  ce_print :: "json \<Rightarrow> string option"
  ce_gpu_json :: "gpu_host_status \<Rightarrow> json"
  ce_uuid :: "string \<Rightarrow> string"
  ce_servers :: server_world
  ce_sidecar :: bool
  ce_models :: "string \<Rightarrow> json \<Rightarrow> string \<Rightarrow> string + string list"
  ce_show :: "e2ee_error \<Rightarrow> string"
  ce_send_error :: string
  ce_stream_error :: string
  ce_json_error :: "string \<Rightarrow> string"

definition cl_emit :: "cluster_action list \<Rightarrow> cluster_session \<Rightarrow> cluster_session" where
  "cl_emit as s = s\<lparr>cl_log := cl_log s @ as\<rparr>"

definition cl_tell :: "nat \<Rightarrow> string + string \<Rightarrow> cluster_session \<Rightarrow> cluster_session" where
  "cl_tell caller m s = cl_emit [ClCaller caller m] s"

definition cl_config :: "cluster_session \<Rightarrow> client_config" where
  "cl_config s = ns_config (cl_net s)"

definition cl_app :: "cluster_session \<Rightarrow> app_state" where
  "cl_app s = ns_app (cl_net s)"

definition on_app :: "(app_state \<Rightarrow> app_state) \<Rightarrow> cluster_session \<Rightarrow> cluster_session" where
  "on_app f s = s\<lparr>cl_net := (cl_net s)\<lparr>ns_app := f (ns_app (cl_net s))\<rparr>\<rparr>"

definition on_cl_stats :: "(peer_stats_tracker \<Rightarrow> peer_stats_tracker) \<Rightarrow> cluster_session \<Rightarrow> cluster_session" where
  "on_cl_stats f s = s\<lparr>cl_net := (cl_net s)\<lparr>ns_stats := f (ns_stats (cl_net s))\<rparr>\<rparr>"

definition cluster_session_new ::
  "string \<Rightarrow> string \<Rightarrow> network_state \<Rightarrow> llm_registry \<Rightarrow> key_store \<Rightarrow> cluster_session" where
  "cluster_session_new name cluster_id net reg keys =
     \<lparr>cl_name = name, cl_id = cluster_id, cl_peers = hm_empty, cl_links = hm_empty, cl_inbound = hm_empty, cl_channels = hm_empty,
      cl_requests = hm_empty, cl_encrypted = hm_empty, cl_lookups = hm_empty, cl_approvals = hm_empty,
      cl_answered = [], cl_connecting = [], cl_delayed = [], cl_starting = [],
      cl_allowances = allowance_store_new (CONNECTION_ALLOWANCE_TTL_SECS * 1000000000), cl_approved = hm_empty,
      cl_exchanges = hm_empty, cl_hints = hm_empty, cl_negotiating = [], cl_version = 0, cl_net = net,
      cl_registry = reg, cl_keys = keys, cl_next = 0, cl_log = []\<rparr>"

section \<open>Sending\<close>

text \<open>To the lobby: \<open>Some e\<close> is the error.\<close>

definition send_protocol_message :: "cluster_env \<Rightarrow> protocol_message \<Rightarrow> cluster_session \<Rightarrow> cluster_session \<times> string option" where
  "send_protocol_message w m s = (case ce_lobby w m of None \<Rightarrow> (cl_emit [ClLobby m] s, None) | Some e \<Rightarrow> (s, Some e))"

definition send_dc_message :: "cluster_env \<Rightarrow> nat \<Rightarrow> data_channel_message \<Rightarrow> bool" where
  "send_dc_message w ch m =
     (case ce_wire w m of None \<Rightarrow> False | Some n \<Rightarrow> if n > MAX_DC_WIRE_BYTES then False else ce_up w ch m)"

text \<open>Messages sent one after the other, up to the first that fails.\<close>

fun send_until :: "('m \<Rightarrow> bool) \<Rightarrow> 'm list \<Rightarrow> 'm list \<times> bool" where
  "send_until ok [] = ([], True)"
| "send_until ok (m # ms) = (if ok m then (case send_until ok ms of (sent, r) \<Rightarrow> (m # sent, r)) else ([], False))"

definition request_messages :: "string \<Rightarrow> string \<Rightarrow> string \<Rightarrow> data_channel_message list" where
  "request_messages req_id path body =
     DcProxyRequestStart req_id path #
     map (\<lambda>(i, chunk). DcProxyRequestChunk req_id (as_u32 i) chunk) (enumerate 0 (chunk_utf8 body MAX_DC_CHUNK_BYTES))
     @ [DcProxyRequestEnd req_id]"

definition send_proxy_request ::
  "cluster_env \<Rightarrow> nat \<Rightarrow> string \<Rightarrow> string \<Rightarrow> json \<Rightarrow> data_channel_message list \<times> bool" where
  "send_proxy_request w ch req_id path body =
     (case ce_print w body of
        None \<Rightarrow> ([], False)
      | Some body_str \<Rightarrow> send_until (send_dc_message w ch) (request_messages req_id path body_str))"

definition send_proxy_response_chunk :: "cluster_env \<Rightarrow> nat \<Rightarrow> string \<Rightarrow> string \<Rightarrow> data_channel_message list \<times> bool" where
  "send_proxy_response_chunk w ch req_id chunk =
     send_until (send_dc_message w ch) (map (DcProxyResponseChunk req_id) (chunk_utf8 chunk MAX_DC_CHUNK_BYTES))"

text \<open>\<open>ce_build_flag\<close> is the attestation crate's flag of an official build.\<close>

definition peer_connection_allowed :: "cluster_env \<Rightarrow> bool \<Rightarrow> nat \<Rightarrow> bool" where
  "peer_connection_allowed w allow_unattested peer_flags =
     (if allow_unattested then True else and peer_flags (ce_build_flag w) \<noteq> 0)"

definition payload_cluster_matches :: "json \<Rightarrow> string \<Rightarrow> bool" where
  "payload_cluster_matches payload cluster_id =
     unwrap_or (map_option (\<lambda>i. i = cluster_id)
       (Option.bind (opt_or (jget ''cluster_id'' payload) (jget ''room_id'' payload)) as_str)) False"

definition ws_send_disconnected :: "string \<Rightarrow> bool" where
  "ws_send_disconnected msg =
     (contains_str ''Sending after closing'' msg \<or> contains_str ''Connection reset'' msg \<or> contains_str ''broken pipe'' msg)"

definition unreserved_byte :: "char \<Rightarrow> bool" where
  "unreserved_byte b =
     (in_range 65 90 b \<or> in_range 97 122 b \<or> in_range 48 57 b \<or> b \<in> set ''-_.~'')"

definition url_encode_component :: "string \<Rightarrow> string" where
  "url_encode_component s =
     concat (map (\<lambda>b. if unreserved_byte b then [b] else CHR ''%'' # to_ascii_uppercase (hex_encode [b])) s)"


section \<open>Connections\<close>

definition is_cl_peer_blocked :: "cluster_session \<Rightarrow> string \<Rightarrow> bool" where
  "is_cl_peer_blocked s peer = is_peer_blocked (ns_store (cl_net s)) peer"

definition sync_cl_connections :: "cluster_env \<Rightarrow> cluster_session \<Rightarrow> cluster_session" where
  "sync_cl_connections w s = s\<lparr>cl_net := sync_peer_connections_with_store (mw_unix (ce_time w)) (cl_net s)\<rparr>"

definition track_peer :: "cluster_env \<Rightarrow> string \<Rightarrow> peer_direction \<Rightarrow> nat \<Rightarrow> cluster_session \<Rightarrow> cluster_session" where
  "track_peer w peer direction flags s =
     sync_cl_connections w (s\<lparr>cl_net := (cl_net s)\<lparr>ns_registry := hm_insert (peer_registry_key peer (cl_id s))
       \<lparr>tp_peer_id = peer, tp_cluster_id = Some (cl_id s), tp_swarm_id = None, tp_direction = direction,
        tp_connected_at = mw_unix (ce_time w), tp_data_channel_open = False, tp_attestation_flags = flags\<rparr>
       (ns_registry (cl_net s))\<rparr>\<rparr>)"

text \<open>A connection leaves the maps, is closed, and the peer's statistics with it.\<close>

definition forget_connection :: "cluster_env \<Rightarrow> string \<Rightarrow> cluster_session \<Rightarrow> cluster_session" where
  "forget_connection w peer s =
     (let s = (case hm_get (cl_peers s) peer of None \<Rightarrow> s | Some l \<Rightarrow> cl_emit [ClClose l] (s\<lparr>cl_peers := hm_remove peer (cl_peers s)\<rparr>));
          s = s\<lparr>cl_net := (cl_net s)\<lparr>ns_registry := hm_remove (peer_registry_key peer (cl_id s)) (ns_registry (cl_net s))\<rparr>\<rparr>
      in sync_cl_connections w (on_cl_stats (stats_remove_peer peer) s))"

definition end_negotiation :: "string \<Rightarrow> cluster_session \<Rightarrow> cluster_session" where
  "end_negotiation peer s = s\<lparr>cl_negotiating := filter (\<lambda>p. p \<noteq> peer) (cl_negotiating s)\<rparr>"

definition close_peer_connection :: "cluster_env \<Rightarrow> string \<Rightarrow> cluster_session \<Rightarrow> cluster_session" where
  "close_peer_connection w peer s = forget_connection w peer (end_negotiation peer s)"

definition active_channel :: "cluster_session \<Rightarrow> nat \<Rightarrow> nat option" where
  "active_channel s link = Option.bind (hm_get (cl_links s) link) (\<lambda>c. c)"

definition data_channel_ready :: "cluster_env \<Rightarrow> cluster_session \<Rightarrow> nat \<Rightarrow> bool" where
  "data_channel_ready w s link = (case active_channel s link of Some ch \<Rightarrow> ce_open w ch | None \<Rightarrow> False)"

definition is_peer_session_ready :: "cluster_env \<Rightarrow> cluster_session \<Rightarrow> string \<Rightarrow> bool" where
  "is_peer_session_ready w s peer = (case hm_get (cl_peers s) peer of Some l \<Rightarrow> data_channel_ready w s l | None \<Rightarrow> False)"

definition remove_stale_peer_if_needed :: "cluster_env \<Rightarrow> string \<Rightarrow> cluster_session \<Rightarrow> cluster_session" where
  "remove_stale_peer_if_needed w peer s =
     (case hm_get (cl_peers s) peer of
        None \<Rightarrow> s
      | Some l \<Rightarrow> if data_channel_ready w s l then s else if ce_terminal w l then close_peer_connection w peer s else s)"

definition is_negotiating :: "cluster_session \<Rightarrow> string \<Rightarrow> bool" where
  "is_negotiating s peer = (peer \<in> set (cl_negotiating s))"

definition try_begin_negotiation :: "string \<Rightarrow> cluster_session \<Rightarrow> cluster_session \<times> bool" where
  "try_begin_negotiation peer s =
     (if peer \<in> set (cl_negotiating s) then (s, False) else (s\<lparr>cl_negotiating := peer # cl_negotiating s\<rparr>, True))"

definition replace_incomplete_session_if_needed ::
  "cluster_env \<Rightarrow> string \<Rightarrow> string option \<Rightarrow> cluster_session \<Rightarrow> cluster_session" where
  "replace_incomplete_session_if_needed w peer connect_req_id s =
     (if connect_req_id = None then s
      else if is_peer_session_ready w s peer then s
      else if is_negotiating s peer then s
      else if hm_get (cl_peers s) peer \<noteq> None then close_peer_connection w peer s else s)"

definition handle_peer_moderation :: "cluster_env \<Rightarrow> peer_moderation_action \<Rightarrow> cluster_session \<Rightarrow> cluster_session" where
  "handle_peer_moderation w a s =
     (case a of
        CloseConnections peer \<Rightarrow> close_peer_connection w peer s
      | Report peer reason \<Rightarrow> fst (send_protocol_message w (PmReportPeer peer reason) (close_peer_connection w peer s)))"

section \<open>The lobby\<close>

definition set_cluster_connected_lobby :: "cluster_env \<Rightarrow> bool \<Rightarrow> cluster_session \<Rightarrow> cluster_session" where
  "set_cluster_connected_lobby w up s =
     s\<lparr>cl_net := sync_cluster_status_list (ce_time w)
        ((cl_net s)\<lparr>ns_cluster_connected := hm_insert (cl_id s) up (ns_cluster_connected (cl_net s))\<rparr>)\<rparr>"

definition send_peer_info :: "cluster_env \<Rightarrow> peer_info \<Rightarrow> cluster_session \<Rightarrow> cluster_session" where
  "send_peer_info w info s = fst (send_protocol_message w (PmUpdatePeerInfo info) s)"

definition cluster_accepts_jobs_now :: "cluster_session \<Rightarrow> bool" where
  "cluster_accepts_jobs_now s = unwrap_or (map_option cluster_accepts_jobs (find_cluster (cl_config s) (cl_id s))) True"

definition catalog_hash :: "cluster_env \<Rightarrow> json list \<Rightarrow> gpu_host_status option \<Rightarrow> string" where
  "catalog_hash w models gpu_host =
     hex_encode (prim_sha256 (ce_prims w) (unwrap_or (ce_print w
       (json_obj [(''models'', JArr models), (''gpu_host'', json_opt (ce_gpu_json w) gpu_host)])) []))"

text \<open>Telling the lobby what the peer offers, when it changed since the last time any session told a lobby: the last
  hash is in the state all sessions share. The answer's second component is the error of a message that did not go out.\<close>

definition advertise_nothing ::
  "cluster_env \<Rightarrow> bool \<Rightarrow> cluster_session \<Rightarrow> cluster_session \<times> string option" where
  "advertise_nothing w accepting s = send_protocol_message w (PmUpdateModels [] (app_last_gpu_host (cl_app s)) (Some accepting)) s"

definition advertise_catalog ::
  "cluster_env \<Rightarrow> bool \<Rightarrow> cluster_session \<Rightarrow> cluster_session \<times> string option" where
  "advertise_catalog w force s =
     (let last_hash = app_last_advertised_hash (cl_app s);
          (reg, snapshot) = rebuild_catalog (ce_servers w) (cl_registry s);
          s = s\<lparr>cl_registry := reg\<rparr>;
          models = fst (filter_models_for_cluster_advertisement snapshot (cl_config s));
          hash = catalog_hash w models (cat_gpu_host snapshot)
      in if \<not> force \<and> last_hash = Some hash then (s, None)
         else (let s = on_app (\<lambda>a. a\<lparr>app_local_models := cat_model_names snapshot, app_local_models_full := cat_models snapshot,
                         app_last_advertised_hash := Some hash, app_last_gpu_host := cat_gpu_host snapshot,
                         app_local_model_collisions := cat_collisions snapshot\<rparr>) (s\<lparr>cl_version := ce_version w\<rparr>)
               in send_protocol_message w
                    (PmUpdateModels models (cat_gpu_host snapshot) (Some (cluster_accepts_jobs_now s))) s))"

definition poll_and_advertise :: "cluster_env \<Rightarrow> bool \<Rightarrow> cluster_session \<Rightarrow> cluster_session \<times> string option" where
  "poll_and_advertise w force s =
     (let force = (force \<or> ce_version w \<noteq> cl_version s);
          last_hash = app_last_advertised_hash (cl_app s)
      in if \<not> cluster_accepts_jobs_now s
         then (if \<not> force \<and> last_hash = Some MAINTENANCE_CATALOG_HASH then (s, None)
               else advertise_nothing w False
                      (on_app (\<lambda>a. a\<lparr>app_last_advertised_hash := Some MAINTENANCE_CATALOG_HASH\<rparr>) s))
         else if rg_servers (cl_registry s) = []
         then (if \<not> force \<and> last_hash = Some NO_LLM_CATALOG_HASH then (s, None)
               else advertise_nothing w (cluster_accepts_jobs_now s)
                      (on_app (\<lambda>a. a\<lparr>app_local_models := [], app_local_models_full := [], app_local_model_collisions := [],
                         app_last_advertised_hash := Some NO_LLM_CATALOG_HASH\<rparr>) (s\<lparr>cl_version := ce_version w\<rparr>)))
         else advertise_catalog w force s)"

end
