(* ===== verification/Cluster_Requests.thy ===== *)
theory Cluster_Requests
  imports Cluster_Session
begin

text \<open>
  Requests to other peers of a cluster (\<open>webrtc_manager.rs\<close>): the lobby names a provider that approves, a connection to it
  is made unless there is one, and the request goes out once its data channel is open. A caller is known by a number;
  its channel closes when nothing of the session holds its sender any more (\<open>holds_caller\<close>).
\<close>

section \<open>Bookkeeping\<close>

definition track_consumer_exchange ::
  "cluster_env \<Rightarrow> string \<Rightarrow> string \<Rightarrow> string \<Rightarrow> string \<Rightarrow> nat \<Rightarrow> cluster_session \<Rightarrow> cluster_session" where
  "track_consumer_exchange w req_id remote model path bytes_sent s =
     (let s = on_cl_stats (on_request_start (mw_unix (ce_time w)) (ce_ms w) req_id remote model bytes_sent) s
      in s\<lparr>cl_exchanges := hm_insert req_id
           \<lparr>em_remote_peer_id = remote, em_model = model, em_path = path, em_started_at = ce_ms w, em_buffer = [],
            em_bytes_sent = bytes_sent, em_bytes_received = 0\<rparr> (cl_exchanges s)\<rparr>)"

definition next_proxy_req_id :: "cluster_env \<Rightarrow> cluster_session \<Rightarrow> string" where
  "next_proxy_req_id w s = app_peer_id (cl_app s) @ '':'' @ show_nat (ce_req_no w)"

text \<open>The request is noted and its caller waits for the answer.\<close>

definition register_request ::
  "cluster_env \<Rightarrow> nat \<Rightarrow> proxy_request_command \<Rightarrow> string \<Rightarrow> cluster_session \<Rightarrow> cluster_session \<times> string" where
  "register_request w caller cmd target s =
     (let req_id = next_proxy_req_id w s;
          bytes = length (unwrap_or (ce_print w (prc_body cmd)) []);
          s = track_consumer_exchange w req_id target (prc_model cmd) (prc_path cmd) bytes s
      in (s\<lparr>cl_requests := hm_insert req_id caller (cl_requests s)\<rparr>, req_id))"

section \<open>Sending\<close>

text \<open>The second component is whether all went out.\<close>

definition send_cluster_proxy_on_dc ::
  "cluster_env \<Rightarrow> nat \<Rightarrow> string \<Rightarrow> string \<Rightarrow> json \<Rightarrow> cluster_session \<Rightarrow> cluster_session \<times> bool" where
  "send_cluster_proxy_on_dc w ch req_id path body s =
     (if e2ee_enabled (ce_env w)
      then (case send_encrypted_proxy_request (ce_prims w) (ce_channel w ch) (cl_keys s) (cl_config s) (mw_unix (ce_time w))
                   (fst (ce_eph w)) (ce_nonce w) (snd (ce_eph w)) (ce_nonces w) (cl_name s) req_id path (ce_print w body)
                   (cl_id s) None of
              (st, sent, ks) \<Rightarrow>
                (let s = cl_emit (map (ClEncrypted ch) sent) (s\<lparr>cl_keys := ks\<rparr>)
                 in case st of
                      None \<Rightarrow> (s, False)
                    | Some st \<Rightarrow> (s\<lparr>cl_encrypted := hm_insert req_id st (cl_encrypted s)\<rparr>, True)))
      else (case send_proxy_request w ch req_id path body of
              (sent, ok) \<Rightarrow> (cl_emit (map (ClPlain ch) sent) s, ok)))"

text \<open>A failure to send at once is only counted: the caller hears nothing.\<close>

definition send_now :: "cluster_env \<Rightarrow> nat \<Rightarrow> nat \<Rightarrow> proxy_request_command \<Rightarrow> string \<Rightarrow> cluster_session \<Rightarrow> cluster_session" where
  "send_now w ch caller cmd target s =
     (let (s, req_id) = register_request w caller cmd target s;
          (s, ok) = send_cluster_proxy_on_dc w ch req_id (prc_path cmd) (prc_body cmd) s
      in if ok then s else on_cl_stats (on_request_error req_id) s)"

definition send_later :: "cluster_env \<Rightarrow> nat \<Rightarrow> nat \<Rightarrow> proxy_request_command \<Rightarrow> string \<Rightarrow> cluster_session \<Rightarrow> cluster_session" where
  "send_later w link caller cmd target s =
     (let (s, req_id) = register_request w caller cmd target s
      in s\<lparr>cl_delayed := cl_delayed s @ [\<lparr>de_req_id = req_id, de_caller = caller, de_cmd = cmd, de_target = target,
            de_link = link, de_attempts = 0\<rparr>]\<rparr>)"

text \<open>A peer without a connection by now: the command is dropped, and its caller's channel with it.\<close>

definition proxy_to_peer :: "cluster_env \<Rightarrow> nat \<Rightarrow> proxy_request_command \<Rightarrow> string \<Rightarrow> cluster_session \<Rightarrow> cluster_session" where
  "proxy_to_peer w caller cmd target s =
     (case hm_get (cl_peers s) target of
        None \<Rightarrow> s
      | Some link \<Rightarrow>
          (case active_channel s link of
             Some ch \<Rightarrow> if ce_open w ch then send_now w ch caller cmd target s else send_later w link caller cmd target s
           | None \<Rightarrow> send_later w link caller cmd target s))"

section \<open>Waiting for a channel\<close>

definition timed_out :: "cluster_env \<Rightarrow> delayed_send \<Rightarrow> cluster_session \<Rightarrow> cluster_session" where
  "timed_out w d s =
     cl_tell (de_caller d) (Inl ''Timeout waiting for WebRTC connection'')
       (on_cl_stats (on_request_error (de_req_id d)) (forget_connection w (de_target d) s))"

definition send_delayed :: "cluster_env \<Rightarrow> nat \<Rightarrow> delayed_send \<Rightarrow> cluster_session \<Rightarrow> cluster_session" where
  "send_delayed w ch d s =
     (let (s, ok) = send_cluster_proxy_on_dc w ch (de_req_id d) (prc_path (de_cmd d)) (prc_body (de_cmd d)) s
      in if ok then s
         else cl_tell (de_caller d) (Inl (''Failed to send: '' @ ce_send_error w))
                (on_cl_stats (on_request_error (de_req_id d)) s))"

definition drop_nth :: "nat \<Rightarrow> 'a list \<Rightarrow> 'a list" where
  "drop_nth i xs = take i xs @ drop (Suc i) xs"

text \<open>One look of the \<open>i\<close>-th waiting request at its channel; the sixtieth that finds it closed is the last.\<close>

definition poll_delayed :: "cluster_env \<Rightarrow> nat \<Rightarrow> cluster_session \<Rightarrow> cluster_session" where
  "poll_delayed w i s =
     (if i \<ge> length (cl_delayed s) then s
      else (let d = cl_delayed s ! i; gone = s\<lparr>cl_delayed := drop_nth i (cl_delayed s)\<rparr>
            in if data_channel_ready w s (de_link d)
               then send_delayed w (the (active_channel s (de_link d))) d gone
               else if de_attempts d + 1 < DC_OPEN_MAX_POLLS
               then s\<lparr>cl_delayed := (cl_delayed s)[i := d\<lparr>de_attempts := de_attempts d + 1\<rparr>]\<rparr>
               else timed_out w d gone))"

section \<open>Connecting\<close>

definition new_channel :: "string \<Rightarrow> bool \<Rightarrow> channel_context" where
  "new_channel remote provider =
     \<lparr>cc_remote = remote, cc_provider = provider, cc_incoming = hm_empty, cc_enc_incoming = hm_empty, cc_streams = hm_empty\<rparr>"

text \<open>With an approval a connection is begun; it goes on in \<open>finish_connecting\<close> once the offer is gathered.\<close>

definition connect_and_proxy ::
  "cluster_env \<Rightarrow> nat \<Rightarrow> proxy_request_command \<Rightarrow> string \<Rightarrow> string option \<Rightarrow> nat \<Rightarrow> cluster_session \<Rightarrow> cluster_session" where
  "connect_and_proxy w caller cmd target connect_req_id flags s =
     (let s = replace_incomplete_session_if_needed w target connect_req_id (remove_stale_peer_if_needed w target s)
      in if hm_get (cl_peers s) target = None \<and> \<not> is_negotiating s target
         then (case connect_req_id of
                 None \<Rightarrow> cl_tell caller (Inl ''Missing connection approval for new WebRTC session'') s
               | Some r \<Rightarrow>
                   (case try_begin_negotiation target s of
                      (s, False) \<Rightarrow> proxy_to_peer w caller cmd target s
                    | (s, True) \<Rightarrow>
                        s\<lparr>cl_connecting := cl_connecting s @
                          [\<lparr>co_caller = caller, co_cmd = cmd, co_target = target, co_req_id = r, co_flags = flags\<rparr>]\<rparr>))
         else proxy_to_peer w caller cmd target s)"

text \<open>A connection made from this side, with its channel.\<close>

definition open_outbound :: "cluster_env \<Rightarrow> string \<Rightarrow> nat \<Rightarrow> cluster_session \<Rightarrow> cluster_session" where
  "open_outbound w peer flags s =
     (let link = cl_next s; ch = link + 1
      in track_peer w peer Outbound flags
           (s\<lparr>cl_next := link + 2, cl_peers := hm_insert peer link (cl_peers s),
              cl_links := hm_insert link (Some ch) (cl_links s),
              cl_channels := hm_insert ch (new_channel peer False) (cl_channels s)\<rparr>))"

definition offer_payload :: "string \<Rightarrow> string \<Rightarrow> string \<Rightarrow> json" where
  "offer_payload sdp cluster_id connect_req_id =
     json_obj [(''sdp_type'', JStr ''offer''), (''sdp'', JStr sdp), (''cluster_id'', JStr cluster_id),
       (''connect_req_id'', JStr connect_req_id)]"

text \<open>The offer of the \<open>i\<close>-th connection is ready, or one of the steps to it failed. Only a connection whose offer went
  out gets into the maps.\<close>

definition finish_connecting :: "cluster_env \<Rightarrow> nat \<Rightarrow> cluster_session \<Rightarrow> cluster_session" where
  "finish_connecting w i s =
     (if i \<ge> length (cl_connecting s) then s
      else (let c = cl_connecting s ! i; s = s\<lparr>cl_connecting := drop_nth i (cl_connecting s)\<rparr>
            in case ce_offer w of
                 None \<Rightarrow> end_negotiation (co_target c) s
               | Some sdp \<Rightarrow>
                   (case send_protocol_message w
                           (PmRoute (co_target c) (cl_name s) (offer_payload sdp (cl_id s) (co_req_id c))) s of
                      (s, Some _) \<Rightarrow> end_negotiation (co_target c) s
                    | (s, None) \<Rightarrow>
                        proxy_to_peer w (co_caller c) (co_cmd c) (co_target c)
                          (end_negotiation (co_target c) (open_outbound w (co_target c) (co_flags c) s)))))"

section \<open>Commands\<close>

text \<open>A command without a target waits for the lobby's word on who serves the model. When the lobby could not be asked the
  entry stays, with nobody behind it.\<close>

definition request_brokered_peer :: "cluster_env \<Rightarrow> nat \<Rightarrow> proxy_request_command \<Rightarrow> cluster_session \<Rightarrow> cluster_session" where
  "request_brokered_peer w caller cmd s =
     (let req_id = ''connect_'' @ show_nat (ce_req_no w);
          note_it = (\<lambda>waiter s. s\<lparr>cl_approvals := hm_insert req_id waiter (cl_approvals s)\<rparr>)
      in case send_protocol_message w (PmRequestPeerConnect req_id (prc_model cmd)) s of
           (s, None) \<Rightarrow> note_it (Some (caller, cmd)) s
         | (s, Some e) \<Rightarrow> cl_tell caller (Inl e) (note_it None s))"

definition handle_cl_proxy_cmd :: "cluster_env \<Rightarrow> nat \<Rightarrow> proxy_request_command \<Rightarrow> cluster_session \<Rightarrow> cluster_session" where
  "handle_cl_proxy_cmd w caller cmd s =
     (if (case prc_cluster_id cmd of Some i \<Rightarrow> i \<noteq> cl_id s | None \<Rightarrow> False) then s
      else (case prc_target_peer cmd of
              Some peer \<Rightarrow>
                (if is_cl_peer_blocked s peer then cl_tell caller (Inl (''Peer '' @ peer @ '' is blocked'')) s
                 else connect_and_proxy w caller cmd peer None 0 s)
            | None \<Rightarrow> request_brokered_peer w caller cmd s))"

text \<open>The waiting task goes on: with the lobby's answer, or without one after 65 seconds.\<close>

definition answer_approval :: "string \<Rightarrow> string + (string \<times> nat) \<Rightarrow> cluster_session \<Rightarrow> cluster_session" where
  "answer_approval req_id answer s =
     (case hm_get (cl_approvals s) req_id of
        None \<Rightarrow> s
      | Some waiter \<Rightarrow>
          s\<lparr>cl_approvals := hm_remove req_id (cl_approvals s),
            cl_answered := cl_answered s @ (case waiter of None \<Rightarrow> [] | Some (caller, cmd) \<Rightarrow> [(req_id, caller, cmd, answer)])\<rparr>)"

definition resume_brokered :: "cluster_env \<Rightarrow> nat \<Rightarrow> cluster_session \<Rightarrow> cluster_session" where
  "resume_brokered w i s =
     (if i \<ge> length (cl_answered s) then s
      else (let (req_id, caller, cmd, answer) = cl_answered s ! i; s = s\<lparr>cl_answered := drop_nth i (cl_answered s)\<rparr>
            in case answer of
                 Inl e \<Rightarrow> cl_tell caller (Inl e) s
               | Inr (peer, flags) \<Rightarrow>
                   (if \<not> peer_connection_allowed w (cfg_allow_unattested_peers (cl_config s)) flags
                    then cl_tell caller (Inl ''Provider is not attested'') s
                    else connect_and_proxy w caller cmd peer (Some req_id) flags (s\<lparr>cl_hints := hm_insert peer flags (cl_hints s)\<rparr>))))"

definition approval_timeout :: "string \<Rightarrow> cluster_session \<Rightarrow> cluster_session" where
  "approval_timeout req_id s =
     (case hm_get (cl_approvals s) req_id of
        Some (Some (caller, _)) \<Rightarrow>
          cl_tell caller (Inl ''Timed out waiting for provider approval'')
            (s\<lparr>cl_approvals := hm_remove req_id (cl_approvals s)\<rparr>)
      | _ \<Rightarrow> s)"

definition holds_caller :: "cluster_session \<Rightarrow> nat \<Rightarrow> bool" where
  "holds_caller s caller =
     (caller \<in> set (hm_values (cl_requests s)) \<or> Some caller \<in> set (map (map_option fst) (hm_values (cl_approvals s)))
      \<or> caller \<in> set (map (\<lambda>(_, c, _). c) (cl_answered s)) \<or> caller \<in> set (map co_caller (cl_connecting s))
      \<or> caller \<in> set (map de_caller (cl_delayed s)))"

end
