(* ===== verification/Cluster_Channel.thy ===== *)
theory Cluster_Channel
  imports Cluster_Requests
begin

text \<open>
  The data channels of a cluster's session (\<open>setup_data_channel_handlers\<close> and \<open>dispatch_proxy_request\<close> in
  \<open>webrtc_manager.rs\<close>): requests of the other side are served, answers of the other side reach the caller they are for.

  A message is read first as a \<open>StreamMessage\<close>, then as a \<open>DataChannelMessage\<close>; what the two readings give is the
  argument. A task that serves a request runs to its end when it is started; \<open>ce_ms_end\<close> is the clock then.
\<close>

section \<open>Serving a request in the clear\<close>

datatype serve_effect = SvPlain data_channel_message | SvCommon dispatch_effect

text \<open>A message that does not go out is lost; of a piece of the answer, what follows it in that piece is too.\<close>

definition sent_plain :: "cluster_env \<Rightarrow> nat \<Rightarrow> data_channel_message \<Rightarrow> serve_effect list" where
  "sent_plain w ch m = (if send_dc_message w ch m then [SvPlain m] else [])"

definition buffer_tokens :: "cluster_env \<Rightarrow> string \<Rightarrow> token_usage" where
  "buffer_tokens w buffer = unwrap_or (parse_usage_from_buffer (ce_parse w) buffer) no_usage"

fun stream_plain :: "cluster_env \<Rightarrow> nat \<Rightarrow> string \<Rightarrow> string list \<Rightarrow> string \<Rightarrow> serve_effect list \<times> string" where
  "stream_plain w ch req_id [] buffer = ([], buffer)"
| "stream_plain w ch req_id (b # bs) buffer =
     (if \<not> utf8_valid b then stream_plain w ch req_id bs buffer
      else (let (buffer, usage) = accumulate_and_parse_usage (ce_parse w) buffer b;
                (effs, buffer) = stream_plain w ch req_id bs buffer
            in (SvCommon (StatsProgress (length b) (case usage of Some u \<Rightarrow> tu_total u | None \<Rightarrow> 0))
                # map SvPlain (fst (send_proxy_response_chunk w ch req_id b)) @ effs, buffer)))"

text \<open>\<open>approved\<close> is \<open>None\<close> on a channel this side opened. \<open>env\<close> is the peer as Cluster_E2ee's dispatcher sees it.\<close>

definition dispatch_proxy_request ::
  "cluster_env \<Rightarrow> provider_env \<Rightarrow> nat \<Rightarrow> string \<Rightarrow> string \<Rightarrow> string \<Rightarrow> string \<Rightarrow> json \<Rightarrow> (string, string) hmap option
     \<Rightarrow> serve_effect list \<times> (string, string) hmap option" where
  "dispatch_proxy_request w env ch consumer cluster_id req_id path body approved =
     (let request_bytes = length (unwrap_or (ce_print w body) []);
          model = body_model body;
          start = SvCommon (StatsStart consumer model request_bytes)
      in case admission env consumer cluster_id model approved of
           (Some err, approved) \<Rightarrow> (start # SvCommon StatsError # sent_plain w ch (DcProxyResponseError req_id err), approved)
         | (None, approved) \<Rightarrow>
             (let body = prepare_body env body; forward = SvCommon (ForwardChat path body model)
              in case pe_answer env path body model of
                   Inl e \<Rightarrow> ([start, forward, SvCommon StatsError] @
                              sent_plain w ch (DcProxyResponseError req_id (''Proxy Error: '' @ e)), approved)
                 | Inr chunks \<Rightarrow>
                     (case stream_plain w ch req_id chunks [] of
                        (effs, buffer) \<Rightarrow>
                          (let usage = buffer_tokens w buffer; received = length (concat (filter utf8_valid chunks))
                           in ([start, forward] @ effs @ sent_plain w ch (DcProxyResponseDone req_id)
                               @ [SvCommon (StatsComplete (tu_total usage) received),
                                  SvCommon (ReportUsage usage received request_bytes)], approved)))))"

section \<open>What serving does to the session\<close>

definition provider_env_of :: "cluster_env \<Rightarrow> cluster_session \<Rightarrow> provider_env" where
  "provider_env_of w s =
     \<lparr>pe_config = cl_config s, pe_sidecar = ce_sidecar w,
      pe_blocked = set (map bp_peer_id (list_blocked_peers (ns_store (cl_net s)))), pe_answer = ce_models w,
      pe_environment = ce_env w\<rparr>"

definition send_encrypted_or_drop :: "cluster_env \<Rightarrow> nat \<Rightarrow> dc_message \<Rightarrow> cluster_session \<Rightarrow> cluster_session" where
  "send_encrypted_or_drop w ch m s = (if send_stream_message (ce_channel w ch) m then cl_emit [ClEncrypted ch m] s else s)"

definition record_usage :: "cluster_env \<Rightarrow> string \<Rightarrow> string \<Rightarrow> string \<Rightarrow> string \<Rightarrow> token_usage \<Rightarrow> cluster_session \<Rightarrow> cluster_session" where
  "record_usage w req_id role remote model u s =
     s\<lparr>cl_net := (cl_net s)\<lparr>ns_store := record_local_report (mw_unix (ce_time w)) req_id role (app_peer_id (cl_app s)) remote
         model (tu_prompt u) (tu_completion u) (tu_total u) (ns_store (cl_net s))\<rparr>\<rparr>"

definition publish_usage ::
  "cluster_env \<Rightarrow> string \<Rightarrow> string \<Rightarrow> string \<Rightarrow> string \<Rightarrow> string \<Rightarrow> token_usage \<Rightarrow> nat \<Rightarrow> nat \<Rightarrow> nat \<Rightarrow> cluster_session \<Rightarrow> cluster_session" where
  "publish_usage w req_id role remote model path u sent received ms s =
     fst (send_protocol_message w
       (PmReportTokenUsage req_id role (app_peer_id (cl_app s)) remote model path u sent received ms)
       (record_usage w req_id role remote model u s))"

text \<open>The report of a provider counts the answer's bytes as sent and the request's as received.\<close>

fun run_effect ::
  "cluster_env \<Rightarrow> nat \<Rightarrow> string \<Rightarrow> string \<Rightarrow> string \<Rightarrow> string \<Rightarrow> nat \<Rightarrow> dispatch_effect \<Rightarrow> cluster_session \<Rightarrow> cluster_session" where
  "run_effect w ch req_id consumer path model ver (SendError e) s =
     send_encrypted_or_drop w ch (EncResponse req_id [] [] ver (Some e) None) s"
| "run_effect w ch req_id consumer path model ver (StatsStart c m n) s =
     on_cl_stats (on_request_start (mw_unix (ce_time w)) (ce_ms w) req_id c m n) s"
| "run_effect w ch req_id consumer path model ver (StatsProgress n t) s =
     on_cl_stats (on_stream_progress (mw_unix (ce_time w)) req_id n t) s"
| "run_effect w ch req_id consumer path model ver StatsError s = on_cl_stats (on_request_error req_id) s"
| "run_effect w ch req_id consumer path model ver (StatsComplete t n) s =
     on_cl_stats (on_request_complete (mw_unix (ce_time w)) (ce_ms_end w) req_id t n) s"
| "run_effect w ch req_id consumer path model ver (ToSidecar body) s = cl_emit [ClSidecar req_id body] s"
| "run_effect w ch req_id consumer path model ver SendAck s =
     cl_emit [ClEncrypted ch (EncResponse req_id [] [] ver None (Some True))] s"
| "run_effect w ch req_id consumer path model ver (ForwardChat p b m) s = cl_emit [ClForward p b m] s"
| "run_effect w ch req_id consumer path model ver (SendChunk m) s = cl_emit [ClEncrypted ch m] s"
| "run_effect w ch req_id consumer path model ver (ReportUsage u sent received) s =
     publish_usage w req_id PROVIDER consumer model path u sent received (sat_sub (ce_ms_end w) (ce_ms w)) s"

fun run_serve_effect ::
  "cluster_env \<Rightarrow> nat \<Rightarrow> string \<Rightarrow> string \<Rightarrow> string \<Rightarrow> string \<Rightarrow> nat \<Rightarrow> serve_effect \<Rightarrow> cluster_session \<Rightarrow> cluster_session" where
  "run_serve_effect w ch req_id consumer path model ver (SvPlain m) s = cl_emit [ClPlain ch m] s"
| "run_serve_effect w ch req_id consumer path model ver (SvCommon e) s = run_effect w ch req_id consumer path model ver e s"

definition serve_plain ::
  "cluster_env \<Rightarrow> nat \<Rightarrow> channel_context \<Rightarrow> string \<Rightarrow> string \<Rightarrow> json \<Rightarrow> cluster_session \<Rightarrow> cluster_session" where
  "serve_plain w ch c req_id path body s =
     (let (effs, approved) = dispatch_proxy_request w (provider_env_of w s) ch (cc_remote c) (cl_id s) req_id path body
            (if cc_provider c then Some (cl_approved s) else None)
      in fold (run_serve_effect w ch req_id (cc_remote c) path (body_model body) 0) effs
           (s\<lparr>cl_approved := unwrap_or approved (cl_approved s)\<rparr>))"

text \<open>An encrypted body that was opened. The pieces of the answer are sealed for the key the request came with.\<close>

definition serve_opened ::
  "cluster_env \<Rightarrow> nat \<Rightarrow> channel_context \<Rightarrow> string \<Rightarrow> string \<Rightarrow> string \<Rightarrow> string \<Rightarrow> nat \<Rightarrow> proxy_auth_proof option \<Rightarrow> json
     \<Rightarrow> cluster_session \<Rightarrow> cluster_session" where
  "serve_opened w ch c req_id path room_id consumer_pk ver auth body s =
     (let enc = (\<lambda>seq piece. fst (encrypt_proxy_chunk (ce_prims w) (cl_keys s) (cl_config s) (ce_nonces w seq) room_id req_id
                   path seq consumer_pk piece));
          (effs, approved) = dispatch_body (ce_prims w) (ce_parse w) (ce_print w) (ce_channel w ch) enc (provider_env_of w s)
            (mw_unix (ce_time w)) req_id path room_id (cl_id s) (cc_remote c) ver auth body (Some (cl_approved s))
      in fold (run_effect w ch req_id (cc_remote c) path (body_model body) ver) effs
           (s\<lparr>cl_approved := unwrap_or approved (cl_approved s)\<rparr>))"

definition refuse_encrypted :: "cluster_env \<Rightarrow> nat \<Rightarrow> string \<Rightarrow> nat \<Rightarrow> string \<Rightarrow> cluster_session \<Rightarrow> cluster_session" where
  "refuse_encrypted w ch req_id ver err s =
     on_cl_stats (on_request_error req_id) (send_encrypted_or_drop w ch (EncResponse req_id [] [] ver (Some err) None) s)"

definition serve_encrypted_request ::
  "cluster_env \<Rightarrow> nat \<Rightarrow> channel_context \<Rightarrow> encrypted_request \<Rightarrow> cluster_session \<Rightarrow> cluster_session" where
  "serve_encrypted_request w ch c msg s =
     (case decrypt_inbound_request (ce_prims w) (ce_parse w) (cl_keys s) (cl_config s) (er_room_id msg) (er_req_id msg)
             (er_path msg) (er_consumer_pk msg) (er_nonce msg) (er_ciphertext msg) of
        (Inl e, ks) \<Rightarrow> refuse_encrypted w ch (er_req_id msg) (er_aad_version msg) (ce_show w e) (s\<lparr>cl_keys := ks\<rparr>)
      | (Inr body, ks) \<Rightarrow>
          serve_opened w ch c (er_req_id msg) (er_path msg) (er_room_id msg) (er_consumer_pk msg) (er_aad_version msg)
            (er_auth msg) body (s\<lparr>cl_keys := ks\<rparr>))"

definition on_channel :: "nat \<Rightarrow> (channel_context \<Rightarrow> channel_context) \<Rightarrow> cluster_session \<Rightarrow> cluster_session" where
  "on_channel ch f s = s\<lparr>cl_channels := hm_modify ch f (cl_channels s)\<rparr>"

text \<open>What a chunked request decrypts to, for the text of the error.\<close>

definition opened_text :: "cluster_env \<Rightarrow> string \<Rightarrow> pending_incoming \<Rightarrow> cluster_session \<Rightarrow> string" where
  "opened_text w req_id inc s =
     (case fst (decrypt_chunks (ce_prims w) (cl_config s) inc req_id (cl_keys s) (sort_by_key fst (pi_chunks inc))) of
        Inr body \<Rightarrow> body | Inl _ \<Rightarrow> [])"

definition end_encrypted_request ::
  "cluster_env \<Rightarrow> nat \<Rightarrow> channel_context \<Rightarrow> string \<Rightarrow> cluster_session \<Rightarrow> cluster_session" where
  "end_encrypted_request w ch c req_id s =
     (case (hm_get (cc_enc_incoming c) req_id,
            handle_encrypted_request_end (ce_prims w) (ce_parse w) (cl_keys s) (cl_config s) req_id (cc_enc_incoming c)) of
        (Some inc, pending, ks, out) \<Rightarrow>
          (let text = opened_text w req_id inc s; s = on_channel ch (\<lambda>c. c\<lparr>cc_enc_incoming := pending\<rparr>) (s\<lparr>cl_keys := ks\<rparr>)
           in case out of
                Ignored \<Rightarrow> s
              | BadChunk e \<Rightarrow> refuse_encrypted w ch req_id (pi_aad_version inc) (ce_show w e) s
              | BadJson \<Rightarrow> refuse_encrypted w ch req_id (pi_aad_version inc) (''Invalid JSON body: '' @ ce_json_error w text) s
              | DispatchBody inc body \<Rightarrow>
                  serve_opened w ch c req_id (pi_path inc) (pi_room_id inc) (pi_consumer_pk inc) (pi_aad_version inc)
                    (pi_auth inc) body s)
      | _ \<Rightarrow> s)"


section \<open>Answers\<close>

definition tell_request :: "string \<Rightarrow> string + string \<Rightarrow> cluster_session \<Rightarrow> cluster_session" where
  "tell_request req_id m s = (case hm_get (cl_requests s) req_id of None \<Rightarrow> s | Some caller \<Rightarrow> cl_tell caller m s)"

definition drop_request :: "string \<Rightarrow> cluster_session \<Rightarrow> cluster_session" where
  "drop_request req_id s = s\<lparr>cl_requests := hm_remove req_id (cl_requests s)\<rparr>"

definition drop_encrypted :: "string \<Rightarrow> cluster_session \<Rightarrow> cluster_session" where
  "drop_encrypted req_id s = s\<lparr>cl_encrypted := hm_remove req_id (cl_encrypted s)\<rparr>"

text \<open>Counting a piece of an answer.\<close>

definition count_part :: "cluster_env \<Rightarrow> string \<Rightarrow> string \<Rightarrow> cluster_session \<Rightarrow> cluster_session" where
  "count_part w req_id part s =
     (case hm_get (cl_exchanges s) req_id of
        None \<Rightarrow> on_cl_stats (on_stream_progress (mw_unix (ce_time w)) req_id (length part) 0) s
      | Some meta \<Rightarrow>
          (let (buffer, usage) = accumulate_and_parse_usage (ce_parse w) (em_buffer meta) part;
               meta = meta\<lparr>em_bytes_received := em_bytes_received meta + length part, em_buffer := buffer\<rparr>
           in on_cl_stats (on_stream_progress (mw_unix (ce_time w)) req_id (length part)
                  (case usage of Some u \<Rightarrow> tu_total u | None \<Rightarrow> 0))
                (s\<lparr>cl_exchanges := hm_modify req_id (\<lambda>_. meta) (cl_exchanges s)\<rparr>)))"

definition receive_part :: "cluster_env \<Rightarrow> string \<Rightarrow> string \<Rightarrow> cluster_session \<Rightarrow> cluster_session" where
  "receive_part w req_id part s = tell_request req_id (Inr part) (count_part w req_id part s)"

definition finish_exchange :: "cluster_env \<Rightarrow> string \<Rightarrow> cluster_session \<Rightarrow> cluster_session" where
  "finish_exchange w req_id s =
     (case hm_get (cl_exchanges s) req_id of
        None \<Rightarrow> s
      | Some meta \<Rightarrow>
          (let usage = buffer_tokens w (em_buffer meta);
               s = s\<lparr>cl_exchanges := hm_remove req_id (cl_exchanges s)\<rparr>;
               s = on_cl_stats (on_request_complete (mw_unix (ce_time w)) (ce_ms w) req_id (tu_total usage)
                     (em_bytes_received meta)) s
           in publish_usage w req_id CONSUMER (em_remote_peer_id meta) (em_model meta) (em_path meta) usage
                (em_bytes_sent meta) (em_bytes_received meta) (sat_sub (ce_ms w) (em_started_at meta)) s))"

definition error_said :: "cluster_env \<Rightarrow> e2ee_error \<Rightarrow> string" where
  "error_said w e = (case e of ErrRemote err \<Rightarrow> err | _ \<Rightarrow> ce_show w e)"

text \<open>An answer to an encrypted request: the word that a stream follows, a failure, or the whole answer.\<close>

definition decrypt_encrypted_response ::
  "cluster_env \<Rightarrow> consumer_state \<Rightarrow> string \<Rightarrow> encrypted_response \<Rightarrow> cluster_session \<Rightarrow> (e2ee_error + string) \<times> key_store" where
  "decrypt_encrypted_response w st req_id msg s =
     (case eres_error msg of
        Some err \<Rightarrow> (Inl (ErrRemote err), cl_keys s)
      | None \<Rightarrow> decrypt_proxy_response (ce_prims w) (cl_keys s) (cl_config s) req_id (cs_path st) (cs_room_id st)
                  (cs_ephemeral_secret st) (cs_provider_pk st) msg)"

definition on_encrypted_response ::
  "cluster_env \<Rightarrow> nat \<Rightarrow> string \<Rightarrow> string \<Rightarrow> string \<Rightarrow> string option \<Rightarrow> bool option \<Rightarrow> cluster_session \<Rightarrow> cluster_session" where
  "on_encrypted_response w ch req_id nonce ciphertext error stream s =
     (case hm_get (cl_encrypted s) req_id of
        None \<Rightarrow> s
      | Some st \<Rightarrow>
          (if stream = Some True \<and> error = None
           then on_channel ch (\<lambda>c. c\<lparr>cc_streams := hm_insert req_id (init_pending_encrypted_stream st) (cc_streams c)\<rparr>) s
           else (case decrypt_encrypted_response w st req_id
                        \<lparr>eres_nonce = nonce, eres_ciphertext = ciphertext, eres_error = error\<rparr> s of
                   (r, ks) \<Rightarrow>
                     tell_request req_id (case r of Inr body \<Rightarrow> Inr body | Inl e \<Rightarrow> Inl (error_said w e))
                       (drop_encrypted req_id (s\<lparr>cl_keys := ks\<rparr>)))))"

definition on_encrypted_chunk ::
  "cluster_env \<Rightarrow> nat \<Rightarrow> channel_context \<Rightarrow> string \<Rightarrow> stream_chunk_data \<Rightarrow> cluster_session \<Rightarrow> cluster_session" where
  "on_encrypted_chunk w ch c req_id chunk s =
     (case handle_encrypted_stream_chunk (stream_decrypt (ce_prims w) (cl_keys s) (cl_config s) req_id) req_id chunk
             (cc_streams c) of
        (streams, out) \<Rightarrow>
          (let s = on_channel ch (\<lambda>c. c\<lparr>cc_streams := streams\<rparr>) s
           in case out of
                Waiting \<Rightarrow> s
              | Progress parts \<Rightarrow> fold (receive_part w req_id) parts s
              | Finished parts \<Rightarrow>
                  drop_request req_id (finish_exchange w req_id
                    (drop_encrypted req_id (fold (receive_part w req_id) parts s)))
              | StreamError \<Rightarrow>
                  drop_request req_id (tell_request req_id (Inl (ce_stream_error w))
                    (on_channel ch (\<lambda>c. c\<lparr>cc_streams := hm_remove req_id (cc_streams c)\<rparr>) (drop_encrypted req_id s)))))"

section \<open>Messages\<close>

text \<open>\<open>None\<close>: the message is not for this side and is read the other way.\<close>

fun on_stream_message ::
  "cluster_env \<Rightarrow> nat \<Rightarrow> channel_context \<Rightarrow> stream_message \<Rightarrow> cluster_session \<Rightarrow> cluster_session option" where
  "on_stream_message w ch c (Encrypted (EncRequest msg)) s =
     (if cc_provider c then Some (serve_encrypted_request w ch c msg s) else None)"
| "on_stream_message w ch c (Encrypted (EncRequestStart req_id path room_id consumer_pk ver auth)) s =
     (if cc_provider c
      then Some (on_channel ch (\<lambda>c. c\<lparr>cc_enc_incoming := handle_encrypted_request_start req_id path room_id consumer_pk ver auth
                   (cc_enc_incoming c)\<rparr>) s)
      else None)"
| "on_stream_message w ch c (Encrypted (EncRequestChunk req_id seq nonce ciphertext ver)) s =
     (if cc_provider c
      then Some (on_channel ch (\<lambda>c. c\<lparr>cc_enc_incoming := handle_encrypted_request_chunk req_id seq nonce ciphertext
                   (cc_enc_incoming c)\<rparr>) s)
      else None)"
| "on_stream_message w ch c (Encrypted (EncRequestEnd req_id)) s =
     (if cc_provider c then Some (end_encrypted_request w ch c req_id s) else None)"
| "on_stream_message w ch c (Encrypted (EncResponse req_id nonce ciphertext ver error stream)) s =
     (if cc_provider c then None else Some (on_encrypted_response w ch req_id nonce ciphertext error stream s))"
| "on_stream_message w ch c (Encrypted (EncStreamChunk req_id seq nonce ciphertext ver fin)) s =
     (if cc_provider c then None
      else Some (on_encrypted_chunk w ch c req_id
                   \<lparr>sc_seq = seq, sc_nonce = nonce, sc_ciphertext = ciphertext, sc_done = fin\<rparr> s))"
| "on_stream_message w ch c _ s = None"

fun clear_request :: "data_channel_message \<Rightarrow> string option" where
  "clear_request (DcProxyRequest req_id _ _) = Some req_id"
| "clear_request (DcProxyRequestStart req_id _) = Some req_id"
| "clear_request (DcProxyRequestChunk req_id _ _) = Some req_id"
| "clear_request (DcProxyRequestEnd req_id) = Some req_id"
| "clear_request _ = None"

definition send_plain_or_drop :: "cluster_env \<Rightarrow> nat \<Rightarrow> data_channel_message \<Rightarrow> cluster_session \<Rightarrow> cluster_session" where
  "send_plain_or_drop w ch m s = (if send_dc_message w ch m then cl_emit [ClPlain ch m] s else s)"

definition end_plain_request :: "cluster_env \<Rightarrow> nat \<Rightarrow> channel_context \<Rightarrow> string \<Rightarrow> cluster_session \<Rightarrow> cluster_session" where
  "end_plain_request w ch c req_id s =
     (case hm_get (cc_incoming c) req_id of
        None \<Rightarrow> s
      | Some (path, chunks) \<Rightarrow>
          (let s = on_channel ch (\<lambda>c. c\<lparr>cc_incoming := hm_remove req_id (cc_incoming c)\<rparr>) s
           in case ce_parse w (concat (map snd (sort_by_key fst chunks))) of
                None \<Rightarrow> s
              | Some body \<Rightarrow> serve_plain w ch c req_id path body s))"

fun on_plain_message ::
  "cluster_env \<Rightarrow> nat \<Rightarrow> channel_context \<Rightarrow> data_channel_message \<Rightarrow> cluster_session \<Rightarrow> cluster_session" where
  "on_plain_message w ch c (DcProxyRequest req_id path body) s = serve_plain w ch c req_id path body s"
| "on_plain_message w ch c (DcProxyRequestStart req_id path) s =
     on_channel ch (\<lambda>c. c\<lparr>cc_incoming := hm_insert req_id (path, []) (cc_incoming c)\<rparr>) s"
| "on_plain_message w ch c (DcProxyRequestChunk req_id seq chunk) s =
     on_channel ch (\<lambda>c. c\<lparr>cc_incoming := hm_modify req_id (\<lambda>(path, chunks). (path, chunks @ [(seq, chunk)])) (cc_incoming c)\<rparr>) s"
| "on_plain_message w ch c (DcProxyRequestEnd req_id) s = end_plain_request w ch c req_id s"
| "on_plain_message w ch c (DcProxyResponseChunk req_id chunk) s =
     tell_request req_id (Inr chunk) (if cc_provider c then s else count_part w req_id chunk s)"
| "on_plain_message w ch c (DcProxyResponseDone req_id) s =
     drop_request req_id (if cc_provider c then s else finish_exchange w req_id s)"
| "on_plain_message w ch c (DcProxyResponseError req_id error) s =
     drop_request req_id (tell_request req_id (Inl error) (on_cl_stats (on_request_error req_id) s))"
| "on_plain_message w ch c DcPing s = (if ce_up w ch DcPong then cl_emit [ClPlain ch DcPong] s else s)"
| "on_plain_message w ch c DcPong s = s"

definition on_dc_message ::
  "cluster_env \<Rightarrow> nat \<Rightarrow> channel_context \<Rightarrow> data_channel_message \<Rightarrow> cluster_session \<Rightarrow> cluster_session" where
  "on_dc_message w ch c m s =
     (case (cc_provider c \<and> e2ee_enabled (ce_env w), clear_request m) of
        (True, Some req_id) \<Rightarrow>
          send_plain_or_drop w ch (DcProxyResponseError req_id ''Plaintext proxy rejected; upgrade to E2EE v2'') s
      | _ \<Rightarrow> on_plain_message w ch c m s)"

definition on_message ::
  "cluster_env \<Rightarrow> nat \<Rightarrow> stream_message option \<Rightarrow> data_channel_message option \<Rightarrow> cluster_session \<Rightarrow> cluster_session" where
  "on_message w ch as_stream as_plain s =
     (case hm_get (cl_channels s) ch of
        None \<Rightarrow> s
      | Some c \<Rightarrow>
          (case Option.bind as_stream (\<lambda>m. on_stream_message w ch c m s) of
             Some s \<Rightarrow> s
           | None \<Rightarrow> (case as_plain of Some m \<Rightarrow> on_dc_message w ch c m s | None \<Rightarrow> s)))"

end
