(* ===== verification/Cluster_Lobby.thy ===== *)
theory Cluster_Lobby
  imports Cluster_Channel
begin

text \<open>
  The lobby's messages to a cluster's session and the session's loop (\<open>handle_protocol_message\<close>, \<open>run\<close> in
  \<open>webrtc_manager.rs\<close>): registration, offers of connections and of models to start, offers and answers of other peers.
\<close>

section \<open>Starting a model for another peer\<close>

text \<open>What the model server does: the percentages it reports while it downloads and its error, the error of the warm-up.\<close>

record start_outcome =
  sto_percents :: "nat list"
  sto_pull_error :: "string option"
  sto_warm_error :: "string option"

definition start_progress ::
  "cluster_env \<Rightarrow> string \<Rightarrow> string \<Rightarrow> nat option \<Rightarrow> string option \<Rightarrow> cluster_session \<Rightarrow> cluster_session \<times> string option" where
  "start_progress w req_id status pct message s = send_protocol_message w (PmReportModelStartProgress req_id status pct message) s"

text \<open>The new list of the server's models is told the lobby, as accepting jobs whatever the configuration says.\<close>

definition advertise_started :: "cluster_env \<Rightarrow> llm_backend \<Rightarrow> cluster_session \<Rightarrow> cluster_session" where
  "advertise_started w b s =
     (case sw_list (ce_servers w) b (app_show_info_cache (cl_app s)) of
        None \<Rightarrow> s
      | Some (snapshot, cache) \<Rightarrow>
          (let merged = \<lparr>cat_models = mcs_models snapshot, cat_model_names = mcs_model_names snapshot,
                         cat_gpu_host = mcs_gpu_host snapshot, cat_collisions = []\<rparr>;
               models = fst (filter_models_for_cluster_advertisement merged (cl_config s));
               s = on_app (\<lambda>a. a\<lparr>app_local_models := mcs_model_names snapshot, app_local_models_full := mcs_models snapshot,
                     app_show_info_cache := cache, app_last_gpu_host := mcs_gpu_host snapshot\<rparr>) s
           in fst (send_protocol_message w (PmUpdateModels models (mcs_gpu_host snapshot) (Some True)) s)))"

text \<open>The reports while downloading are sent by tasks of their own and their failures ignored.\<close>

definition execute_model_start_task ::
  "cluster_env \<Rightarrow> start_outcome \<Rightarrow> string \<Rightarrow> string \<Rightarrow> cluster_session \<Rightarrow> cluster_session \<times> string option" where
  "execute_model_start_task w out req_id model s =
     (case first_ollama_backend (cl_registry s) of
        None \<Rightarrow> (s, Some ''No Ollama server attached for model start'')
      | Some b \<Rightarrow>
          (case start_progress w req_id ''downloading'' (Some 0) (Some ''Starting model download'') s of
             (s, Some e) \<Rightarrow> (s, Some e)
           | (s, None) \<Rightarrow>
               (let s = fold (\<lambda>p s. fst (start_progress w req_id ''downloading'' (Some p) None s)) (sto_percents out) s
                in case sto_pull_error out of
                     Some e \<Rightarrow> (s, Some e)
                   | None \<Rightarrow>
                       (case start_progress w req_id ''warming'' (Some 100) (Some ''Download complete; warming model'') s of
                          (s, Some e) \<Rightarrow> (s, Some e)
                        | (s, None) \<Rightarrow>
                            (case sto_warm_error out of
                               Some e \<Rightarrow> (s, Some e)
                             | None \<Rightarrow>
                                 (case start_progress w req_id ''ready'' (Some 100) (Some ''Model is ready'') s of
                                    (s, Some e) \<Rightarrow> (s, Some e)
                                  | (s, None) \<Rightarrow> (advertise_started w b s, None)))))))"

definition run_model_start :: "cluster_env \<Rightarrow> start_outcome \<Rightarrow> nat \<Rightarrow> cluster_session \<Rightarrow> cluster_session" where
  "run_model_start w out i s =
     (if i \<ge> length (cl_starting s) then s
      else (let (req_id, model) = cl_starting s ! i; s = s\<lparr>cl_starting := drop_nth i (cl_starting s)\<rparr>
            in case execute_model_start_task w out req_id model s of
                 (s, None) \<Rightarrow> s
               | (s, Some e) \<Rightarrow> fst (start_progress w req_id ''failed'' None (Some e) s)))"

definition respond_to_model_start_offer ::
  "cluster_env \<Rightarrow> string \<Rightarrow> bool \<Rightarrow> string option \<Rightarrow> cluster_session \<Rightarrow> cluster_session" where
  "respond_to_model_start_offer w req_id accept model s =
     (let s = on_app (\<lambda>a. a\<lparr>app_incoming_model_offers := filter (\<lambda>x. mso_req_id x \<noteq> req_id) (app_incoming_model_offers a)\<rparr>) s
      in case send_protocol_message w (PmRespondModelStart req_id accept) s of
           (s, Some _) \<Rightarrow> s
         | (s, None) \<Rightarrow>
             (case (accept, model) of
                (True, Some m) \<Rightarrow> s\<lparr>cl_starting := cl_starting s @ [(req_id, m)]\<rparr>
              | _ \<Rightarrow> s))"

definition submitted_request :: "cluster_env \<Rightarrow> string \<Rightarrow> string \<Rightarrow> string \<Rightarrow> model_start_request_state" where
  "submitted_request w cluster_id req_id model =
     \<lparr>msr_req_id = req_id, msr_model = model, msr_cluster_id = Some cluster_id, msr_swarm_id = None,
      msr_status = ''submitted'', msr_progress_pct = None, msr_provider_peer = None, msr_peers = None,
      msr_message = Some ''Request submitted to lobby'', msr_updated_at_unix = mw_unix (ce_time w)\<rparr>"

fun handle_cl_model_start :: "cluster_env \<Rightarrow> model_start_action \<Rightarrow> cluster_session \<Rightarrow> cluster_session" where
  "handle_cl_model_start w (MsRequest req_id model cluster_id swarm_id) s =
     (if cluster_id \<noteq> Some (cl_id s) then s
      else (case send_protocol_message w
                   (PmRequestModelStart req_id model (ce_uuid w (cl_id s)) (app_last_gpu_host (cl_app s))) s of
              (s, Some _) \<Rightarrow> s
            | (s, None) \<Rightarrow>
                on_app (\<lambda>a. a\<lparr>app_outgoing_model_requests :=
                    filter (\<lambda>r. msr_req_id r \<noteq> req_id) (app_outgoing_model_requests a)
                    @ [submitted_request w (cl_id s) req_id model]\<rparr>) s))"
| "handle_cl_model_start w (MsRespond req_id accept cluster_id swarm_id) s =
     (if cluster_id \<noteq> Some (cl_id s) then s
      else respond_to_model_start_offer w req_id accept
             (if accept then map_option mso_model (find (\<lambda>x. mso_req_id x = req_id) (app_incoming_model_offers (cl_app s)))
              else None) s)"

section \<open>Offers of connections\<close>

definition grant_connection_allowance :: "cluster_env \<Rightarrow> string \<Rightarrow> string \<Rightarrow> string \<Rightarrow> cluster_session \<Rightarrow> cluster_session" where
  "grant_connection_allowance w req_id requester model s =
     s\<lparr>cl_allowances := grant (fst (ce_nanos w)) (snd (ce_nanos w)) req_id requester model (cl_allowances s)\<rparr>"

text \<open>\<open>granted\<close> is who asked and for which model, given only with an acceptance.\<close>

definition respond_to_connect_offer ::
  "cluster_env \<Rightarrow> string \<Rightarrow> bool \<Rightarrow> (string \<times> string) option \<Rightarrow> cluster_session \<Rightarrow> cluster_session" where
  "respond_to_connect_offer w req_id accept granted s =
     (let s = on_app (\<lambda>a. a\<lparr>app_incoming_connection_offers :=
                filter (\<lambda>x. ico_req_id x \<noteq> req_id) (app_incoming_connection_offers a)\<rparr>) s;
          s = (case (accept, granted) of
                 (True, Some (requester, model)) \<Rightarrow> grant_connection_allowance w req_id requester model s
               | _ \<Rightarrow> s)
      in fst (send_protocol_message w (PmRespondConnectOffer req_id accept) s))"

fun handle_connection_action :: "cluster_env \<Rightarrow> connection_action \<Rightarrow> cluster_session \<Rightarrow> cluster_session" where
  "handle_connection_action w (CnRespond req_id accept cluster_id) s =
     (if cluster_id \<noteq> Some (cl_id s) then s
      else (case find (\<lambda>x. ico_req_id x = req_id) (app_incoming_connection_offers (cl_app s)) of
              None \<Rightarrow> s
            | Some x \<Rightarrow>
                respond_to_connect_offer w req_id accept (if accept then Some (ico_requested_by x, ico_model x) else None) s))"

definition on_connect_offer ::
  "cluster_env \<Rightarrow> string \<Rightarrow> string \<Rightarrow> string \<Rightarrow> nat option \<Rightarrow> cluster_session \<Rightarrow> cluster_session" where
  "on_connect_offer w req_id model requested_by flags s =
     (let flags = unwrap_or flags 0;
          s = s\<lparr>cl_hints := hm_insert requested_by flags (cl_hints s)\<rparr>;
          accepts_jobs = cluster_accepts_jobs_now s;
          attestation_ok = peer_connection_allowed w (cfg_allow_unattested_peers (cl_config s)) flags
      in if cfg_auto_approve_inference_connections (cl_config s)
         then (let accept = (accepts_jobs \<and> attestation_ok)
               in respond_to_connect_offer w req_id accept (if accept then Some (requested_by, model) else None) s)
         else if \<not> attestation_ok then respond_to_connect_offer w req_id False None s
         else on_app (\<lambda>a. a\<lparr>app_incoming_connection_offers :=
                  filter (\<lambda>x. ico_req_id x \<noteq> req_id) (app_incoming_connection_offers a)
                  @ [\<lparr>ico_req_id = req_id, ico_model = model, ico_cluster_id = Some (cl_id s),
                      ico_requested_by = requested_by, ico_received_at_unix = mw_unix (ce_time w)\<rparr>]\<rparr>) s)"

definition on_connect_update ::
  "cluster_env \<Rightarrow> string \<Rightarrow> string \<Rightarrow> string option \<Rightarrow> string option \<Rightarrow> nat option \<Rightarrow> cluster_session \<Rightarrow> cluster_session" where
  "on_connect_update w req_id status provider message flags s =
     (if status = ''approved''
      then (if hm_get (cl_approvals s) req_id = None then s
            else (case provider of
                    None \<Rightarrow> answer_approval req_id (Inl (unwrap_or message ''Missing provider peer'')) s
                  | Some peer \<Rightarrow>
                      (let flags = unwrap_or flags 0
                       in if \<not> peer_connection_allowed w (cfg_allow_unattested_peers (cl_config s)) flags
                          then answer_approval req_id (Inl ''Provider is not attested'') s
                          else answer_approval req_id (Inr (peer, flags)) (s\<lparr>cl_hints := hm_insert peer flags (cl_hints s)\<rparr>))))
      else if status \<in> {''failed'', ''rejected'', ''timeout''}
      then answer_approval req_id (Inl (unwrap_or message status)) s
      else s)"

section \<open>Other messages of the lobby\<close>

definition set_required_flags :: "string \<Rightarrow> nat \<Rightarrow> client_config \<Rightarrow> client_config" where
  "set_required_flags cluster_id flags cfg =
     cfg\<lparr>cfg_clusters := update_first (\<lambda>c. cm_cluster_id c = cluster_id)
       (\<lambda>c. c\<lparr>cm_required_attestation_flags := Some flags\<rparr>) (cfg_clusters cfg)\<rparr>"

text \<open>Saving the configuration is left out; its failure is ignored.\<close>

definition on_registered :: "cluster_env \<Rightarrow> string \<Rightarrow> string \<Rightarrow> nat option \<Rightarrow> cluster_session \<Rightarrow> cluster_session" where
  "on_registered w name cluster_id required s =
     (let s = on_app (\<lambda>a. a\<lparr>app_my_id := name\<rparr>) (s\<lparr>cl_name := name\<rparr>);
          s = (case required of
                 None \<Rightarrow> s
               | Some flags \<Rightarrow> s\<lparr>cl_net := (cl_net s)\<lparr>ns_config := set_required_flags cluster_id flags (ns_config (cl_net s))\<rparr>\<rparr>);
          s = set_cluster_connected_lobby w True s;
          s = (case app_peer_info (cl_app s) of None \<Rightarrow> s | Some info \<Rightarrow> send_peer_info w info s)
      in fst (poll_and_advertise w True s))"

definition on_available_models :: "json list \<Rightarrow> cluster_session \<Rightarrow> cluster_session" where
  "on_available_models models s =
     s\<lparr>cl_net := sync_models ((cl_net s)\<lparr>ns_cluster_models := hm_insert (cl_id s) models (ns_cluster_models (cl_net s))\<rparr>)\<rparr>"

definition on_model_start_update ::
  "cluster_env \<Rightarrow> string \<Rightarrow> string \<Rightarrow> string \<Rightarrow> nat option \<Rightarrow> string option \<Rightarrow> string list option \<Rightarrow> string option
     \<Rightarrow> cluster_session \<Rightarrow> cluster_session" where
  "on_model_start_update w req_id model status pct provider peers message s =
     on_app (\<lambda>a. a\<lparr>app_outgoing_model_requests :=
       (if list_ex (\<lambda>r. msr_req_id r = req_id) (app_outgoing_model_requests a)
        then update_first (\<lambda>r. msr_req_id r = req_id)
               (\<lambda>r. r\<lparr>msr_model := model, msr_status := status, msr_progress_pct := pct, msr_provider_peer := provider,
                     msr_peers := peers, msr_message := message, msr_updated_at_unix := mw_unix (ce_time w)\<rparr>)
               (app_outgoing_model_requests a)
        else app_outgoing_model_requests a @
               [\<lparr>msr_req_id = req_id, msr_model = model, msr_cluster_id = Some (cl_id s), msr_swarm_id = None,
                 msr_status = status, msr_progress_pct = pct, msr_provider_peer = provider, msr_peers = peers,
                 msr_message = message, msr_updated_at_unix = mw_unix (ce_time w)\<rparr>])\<rparr>) s"

definition on_model_start_offer ::
  "cluster_env \<Rightarrow> string \<Rightarrow> string \<Rightarrow> string \<Rightarrow> nat \<Rightarrow> nat option \<Rightarrow> bool option \<Rightarrow> cluster_session \<Rightarrow> cluster_session" where
  "on_model_start_offer w req_id model requested_by vram disk run_on_requester s =
     (if cfg_auto_approve_run_model_request (cl_config s)
      then (let accept = cluster_accepts_jobs_now s
            in respond_to_model_start_offer w req_id accept (if accept then Some model else None) s)
      else on_app (\<lambda>a. a\<lparr>app_incoming_model_offers :=
               filter (\<lambda>x. mso_req_id x \<noteq> req_id) (app_incoming_model_offers a)
               @ [\<lparr>mso_req_id = req_id, mso_model = model, mso_cluster_id = Some (cl_id s), mso_swarm_id = None,
                   mso_requested_by = requested_by, mso_estimated_vram_mb = vram, mso_disk_size_mb = disk,
                   mso_run_on_requester = Some (unwrap_or run_on_requester False),
                   mso_received_at_unix = mw_unix (ce_time w)\<rparr>]\<rparr>) s)"

definition on_peer_banned :: "cluster_env \<Rightarrow> string \<Rightarrow> cluster_session \<Rightarrow> cluster_session" where
  "on_peer_banned w peer s =
     close_peer_connection w peer
       (s\<lparr>cl_net := (cl_net s)\<lparr>ns_store := block_peer (mw_unix (ce_time w)) peer ''system'' (Some ''banned by lobby'')
            (ns_store (cl_net s))\<rparr>\<rparr>)"

section \<open>Offers and answers of other peers\<close>

text \<open>The checks of an offer. The allowance is consumed when it is looked up; the result is the model it was given for.\<close>

definition admit_offer :: "cluster_env \<Rightarrow> string \<Rightarrow> json \<Rightarrow> cluster_session \<Rightarrow> cluster_session \<times> string option" where
  "admit_offer w from_peer payload s =
     (if \<not> payload_cluster_matches payload (cl_id s) then (s, None)
      else if is_cl_peer_blocked s from_peer then (s, None)
      else if \<not> cluster_accepts_jobs_now s then (s, None)
      else if \<not> peer_connection_allowed w (cfg_allow_unattested_peers (cl_config s)) (unwrap_or (hm_get (cl_hints s) from_peer) 0)
      then (s, None)
      else (case get_str ''connect_req_id'' payload of
              None \<Rightarrow> (s, None)
            | Some r \<Rightarrow>
                (case validate_and_consume (fst (ce_nanos w)) (snd (ce_nanos w)) r from_peer (cl_allowances s) of
                   (st, model) \<Rightarrow> (s\<lparr>cl_allowances := st\<rparr>, model))))"

definition answer_payload :: "string \<Rightarrow> string \<Rightarrow> json" where
  "answer_payload sdp cluster_id =
     json_obj [(''sdp_type'', JStr ''answer''), (''sdp'', JStr sdp), (''cluster_id'', JStr cluster_id)]"

definition open_inbound :: "cluster_env \<Rightarrow> string \<Rightarrow> nat \<Rightarrow> cluster_session \<Rightarrow> cluster_session" where
  "open_inbound w peer flags s =
     (let link = cl_next s
      in track_peer w peer Inbound flags
           (s\<lparr>cl_next := link + 1, cl_peers := hm_insert peer link (cl_peers s),
              cl_links := hm_insert link None (cl_links s), cl_inbound := hm_insert link peer (cl_inbound s)\<rparr>))"

text \<open>The connection is in the maps before its answer exists; when making the answer fails it stays there.\<close>

definition accept_offer :: "cluster_env \<Rightarrow> string \<Rightarrow> json \<Rightarrow> string \<Rightarrow> cluster_session \<Rightarrow> cluster_session" where
  "accept_offer w from_peer payload model s =
     (let flags = unwrap_or (hm_get (cl_hints s) from_peer) 0;
          s = s\<lparr>cl_approved := hm_insert from_peer model (cl_approved s)\<rparr>
      in if \<not> ce_connects w then s
         else (let s = open_inbound w from_peer flags s
               in case ce_answer_sdp w (unwrap_or (get_str ''sdp'' payload) []) of
                    None \<Rightarrow> s
                  | Some sdp \<Rightarrow>
                      fst (send_protocol_message w (PmRoute from_peer (cl_name s) (answer_payload sdp (cl_id s))) s)))"

definition on_offer :: "cluster_env \<Rightarrow> string \<Rightarrow> json \<Rightarrow> cluster_session \<Rightarrow> cluster_session" where
  "on_offer w from_peer payload s =
     (case admit_offer w from_peer payload s of
        (s, None) \<Rightarrow> s
      | (s, Some model) \<Rightarrow> accept_offer w from_peer payload model s)"

definition on_answer :: "cluster_env \<Rightarrow> string \<Rightarrow> json \<Rightarrow> cluster_session \<Rightarrow> cluster_session" where
  "on_answer w from_peer payload s =
     (if \<not> payload_cluster_matches payload (cl_id s) then s
      else (case hm_get (cl_peers s) from_peer of
              None \<Rightarrow> s
            | Some link \<Rightarrow>
                (let sdp = unwrap_or (get_str ''sdp'' payload) []
                 in if ce_takes_answer w sdp then cl_emit [ClRemoteAnswer link sdp] s else s)))"

definition on_route :: "cluster_env \<Rightarrow> string \<Rightarrow> json \<Rightarrow> cluster_session \<Rightarrow> cluster_session" where
  "on_route w from_peer payload s =
     (let sdp_type = unwrap_or (get_str ''sdp_type'' payload) []
      in if sdp_type = ''offer'' then on_offer w from_peer payload s
         else if sdp_type = ''answer'' then on_answer w from_peer payload s
         else s)"

section \<open>All messages\<close>

fun handle_protocol_message :: "cluster_env \<Rightarrow> protocol_message \<Rightarrow> cluster_session \<Rightarrow> cluster_session" where
  "handle_protocol_message w (PmRegistered name cluster_id _ required) s = on_registered w name cluster_id required s"
| "handle_protocol_message w (PmAvailableModels models) s = on_available_models models s"
| "handle_protocol_message w (PmPeersForModel req_id _ peers) s = s\<lparr>cl_lookups := hm_remove req_id (cl_lookups s)\<rparr>"
| "handle_protocol_message w (PmConnectUpdate req_id _ status provider message flags) s =
     on_connect_update w req_id status provider message flags s"
| "handle_protocol_message w (PmConnectOffer req_id model requested_by flags) s = on_connect_offer w req_id model requested_by flags s"
| "handle_protocol_message w (PmModelStartUpdate req_id model status pct provider peers message) s =
     on_model_start_update w req_id model status pct provider peers message s"
| "handle_protocol_message w (PmModelStartOffer req_id model requested_by vram disk run_on_requester) s =
     on_model_start_offer w req_id model requested_by vram disk run_on_requester s"
| "handle_protocol_message w (PmPeerBanned peer _) s = on_peer_banned w peer s"
| "handle_protocol_message w (PmRoute _ from_peer payload) s = on_route w from_peer payload s"
| "handle_protocol_message w _ s = s"

section \<open>The loop\<close>

text \<open>A channel opened by the other side becomes the active one of its connection.\<close>

definition on_data_channel :: "nat \<Rightarrow> cluster_session \<Rightarrow> cluster_session" where
  "on_data_channel link s =
     (case hm_get (cl_inbound s) link of
        None \<Rightarrow> s
      | Some peer \<Rightarrow>
          s\<lparr>cl_next := cl_next s + 1, cl_channels := hm_insert (cl_next s) (new_channel peer True) (cl_channels s),
            cl_links := hm_insert link (Some (cl_next s)) (cl_links s)\<rparr>)"

datatype cluster_event =
    EvCommand nat proxy_request_command
  | EvModelStart model_start_action
  | EvConnection connection_action
  | EvModeration peer_moderation_action
  | EvLobby protocol_message
  | EvTick
  | EvResume nat
  | EvApprovalTimeout string
  | EvOffered nat
  | EvPoll nat
  | EvStart start_outcome nat
  | EvDataChannel nat
  | EvMessage nat "stream_message option" "data_channel_message option"
  | EvLobbyClosed

text \<open>One turn; \<open>False\<close> ends the session.\<close>

fun cluster_step :: "cluster_env \<Rightarrow> cluster_event \<Rightarrow> cluster_session \<Rightarrow> cluster_session \<times> bool" where
  "cluster_step w (EvCommand caller cmd) s = (handle_cl_proxy_cmd w caller cmd s, True)"
| "cluster_step w (EvModelStart a) s = (handle_cl_model_start w a s, True)"
| "cluster_step w (EvConnection a) s = (handle_connection_action w a s, True)"
| "cluster_step w (EvModeration a) s = (handle_peer_moderation w a s, True)"
| "cluster_step w (EvLobby m) s = (handle_protocol_message w m s, True)"
| "cluster_step w EvTick s =
     (case poll_and_advertise w False s of
        (s, Some e) \<Rightarrow> if ws_send_disconnected e then (set_cluster_connected_lobby w False s, False) else (s, True)
      | (s, None) \<Rightarrow> (s, True))"
| "cluster_step w (EvResume i) s = (resume_brokered w i s, True)"
| "cluster_step w (EvApprovalTimeout req_id) s = (approval_timeout req_id s, True)"
| "cluster_step w (EvOffered i) s = (finish_connecting w i s, True)"
| "cluster_step w (EvPoll i) s = (poll_delayed w i s, True)"
| "cluster_step w (EvStart out i) s = (run_model_start w out i s, True)"
| "cluster_step w (EvDataChannel link) s = (on_data_channel link s, True)"
| "cluster_step w (EvMessage ch as_stream as_plain) s = (on_message w ch as_stream as_plain s, True)"
| "cluster_step w EvLobbyClosed s = (set_cluster_connected_lobby w False s, False)"

text \<open>A run: each turn in its own surroundings, up to the one that ends the session.\<close>

fun cluster_run :: "(cluster_env \<times> cluster_event) list \<Rightarrow> cluster_session \<Rightarrow> cluster_session" where
  "cluster_run [] s = s"
| "cluster_run ((w, e) # es) s = (case cluster_step w e s of (s, go_on) \<Rightarrow> if go_on then cluster_run es s else s)"

end
