(* ===== verification/Cluster_Connections.thy ===== *)
theory Cluster_Connections
  imports Cluster_Lobby
begin

text \<open>
  The connections of a cluster's session. \<open>frame\<close> is what of the state they depend on; most of what a session does leaves
  it alone. A property of the frame that survives the four things which do change it (a connection made from this side,
  one made from the other side, a channel opened on it, a connection given up) holds of every session: the locale
  \<open>connection_inv\<close>.
\<close>

section \<open>What leaves connections alone\<close>

definition channel_sides :: "(nat, channel_context) hmap \<Rightarrow> (nat \<times> string \<times> bool) list" where
  "channel_sides m = map (\<lambda>(ch, c). (ch, cc_remote c, cc_provider c)) m"

definition frame where
  "frame s = (cl_id s, cl_peers s, cl_links s, cl_inbound s, channel_sides (cl_channels s), cl_next s,
     ns_registry (cl_net s))"

definition frame_all where
  "frame_all s = (frame s, cl_allowances s)"

named_theorems quiet

lemma sides_modify:
  "(\<And>c. cc_remote (f c) = cc_remote c \<and> cc_provider (f c) = cc_provider c) \<Longrightarrow>
     channel_sides (hm_modify ch f m) = channel_sides m"
  unfolding channel_sides_def hm_modify_def by (induction m) (simp_all add: case_prod_unfold)

lemma quiet_basic [quiet]:
  "frame_all (cl_emit as s) = frame_all s" "frame_all (cl_tell c m s) = frame_all s" "frame_all (on_app f s) = frame_all s"
  "frame_all (on_cl_stats g s) = frame_all s" "frame_all (end_negotiation p s) = frame_all s"
  "frame_all (sync_cl_connections w s) = frame_all s" "frame_all (set_cluster_connected_lobby w b s) = frame_all s"
  "frame_all (fst (send_protocol_message w pm s)) = frame_all s"
  by (simp_all add: frame_all_def frame_def cl_emit_def cl_tell_def on_app_def on_cl_stats_def end_negotiation_def
      sync_cl_connections_def sync_peer_connections_with_store_def sync_peer_connections_def set_cluster_connected_lobby_def
      sync_cluster_status_list_def send_protocol_message_def split: option.split)

text \<open>Fields outside the frame.\<close>

lemma quiet_fields [quiet]:
  "frame_all (s\<lparr>cl_name := v1\<rparr>) = frame_all s" "frame_all (s\<lparr>cl_requests := v2\<rparr>) = frame_all s"
  "frame_all (s\<lparr>cl_encrypted := v3\<rparr>) = frame_all s" "frame_all (s\<lparr>cl_lookups := v4\<rparr>) = frame_all s"
  "frame_all (s\<lparr>cl_approvals := v5\<rparr>) = frame_all s" "frame_all (s\<lparr>cl_answered := v6\<rparr>) = frame_all s"
  "frame_all (s\<lparr>cl_connecting := v7\<rparr>) = frame_all s" "frame_all (s\<lparr>cl_delayed := v8\<rparr>) = frame_all s"
  "frame_all (s\<lparr>cl_starting := v9\<rparr>) = frame_all s" "frame_all (s\<lparr>cl_approved := v10\<rparr>) = frame_all s"
  "frame_all (s\<lparr>cl_exchanges := v11\<rparr>) = frame_all s" "frame_all (s\<lparr>cl_hints := v12\<rparr>) = frame_all s"
  "frame_all (s\<lparr>cl_negotiating := v13\<rparr>) = frame_all s" "frame_all (s\<lparr>cl_version := v14\<rparr>) = frame_all s"
  "frame_all (s\<lparr>cl_registry := v15\<rparr>) = frame_all s" "frame_all (s\<lparr>cl_keys := v16\<rparr>) = frame_all s"
  by (simp_all add: frame_all_def frame_def)

lemma quiet_net [quiet]:
  "frame_all (s\<lparr>cl_net := (cl_net s)\<lparr>ns_config := c\<rparr>\<rparr>) = frame_all s"
  "frame_all (s\<lparr>cl_net := (cl_net s)\<lparr>ns_store := t\<rparr>\<rparr>) = frame_all s"
  "frame_all (s\<lparr>cl_net := sync_models ((cl_net s)\<lparr>ns_cluster_models := m\<rparr>)\<rparr>) = frame_all s"
  by (simp_all add: frame_all_def frame_def sync_models_def)

lemma quiet_channel [quiet]:
  "(\<And>c. cc_remote (f c) = cc_remote c \<and> cc_provider (f c) = cc_provider c) \<Longrightarrow> frame_all (on_channel ch f s) = frame_all s"
  by (simp add: frame_all_def frame_def on_channel_def sides_modify)

text \<open>Advertising.\<close>

lemma quiet_advertise [quiet]: "frame_all (fst (poll_and_advertise w force s)) = frame_all s"
  by (auto simp: poll_and_advertise_def advertise_nothing_def advertise_catalog_def Let_def case_prod_unfold quiet)

text \<open>Requests.\<close>

lemma quiet_register [quiet]: "frame_all (fst (register_request w caller cmd target s)) = frame_all s"
  by (simp add: register_request_def track_consumer_exchange_def Let_def quiet)

lemma quiet_send_on_dc [quiet]: "frame_all (fst (send_cluster_proxy_on_dc w ch r path body s)) = frame_all s"
  by (auto simp: send_cluster_proxy_on_dc_def Let_def quiet split: prod.split option.split)

lemma quiet_send [quiet]:
  "frame_all (send_now w ch caller cmd target s) = frame_all s"
  "frame_all (send_later w link caller cmd target s) = frame_all s"
  "frame_all (send_delayed w ch d s) = frame_all s"
  by (simp_all add: send_now_def send_later_def send_delayed_def Let_def case_prod_unfold quiet)

lemma quiet_proxy_to_peer [quiet]: "frame_all (proxy_to_peer w caller cmd target s) = frame_all s"
  by (simp add: proxy_to_peer_def quiet split: option.split)

lemma quiet_approvals [quiet]:
  "frame_all (request_brokered_peer w caller cmd s) = frame_all s"
  "frame_all (answer_approval r a s) = frame_all s" "frame_all (approval_timeout r s) = frame_all s"
proof -
  have "send_protocol_message w m s = (s', x) \<Longrightarrow> frame_all s' = frame_all s" for m s' x
    using quiet_basic(8) [of w m s] by simp
  then show "frame_all (request_brokered_peer w caller cmd s) = frame_all s"
    by (auto simp: request_brokered_peer_def Let_def quiet split: prod.split option.split)
  show "frame_all (answer_approval r a s) = frame_all s" "frame_all (approval_timeout r s) = frame_all s"
    by (simp_all add: answer_approval_def approval_timeout_def quiet_basic frame_all_def frame_def cl_tell_def cl_emit_def
        split: option.split)
qed

text \<open>Messages on a channel.\<close>

lemma quiet_usage [quiet]:
  "frame_all (record_usage w r role p m u s) = frame_all s"
  "frame_all (publish_usage w r role p m path u a b ms s) = frame_all s"
  by (simp_all add: record_usage_def publish_usage_def quiet)

lemma quiet_effect [quiet]:
  "frame_all (run_effect w ch r p path m v e s) = frame_all s" "frame_all (run_serve_effect w ch r p path m v e' s) = frame_all s"
proof -
  show "frame_all (run_effect w ch r p path m v e s) = frame_all s" for e
    by (cases e) (simp_all add: send_encrypted_or_drop_def quiet)
  then show "frame_all (run_serve_effect w ch r p path m v e' s) = frame_all s"
    by (cases e') (simp_all add: quiet)
qed

lemma quiet_fold: "(\<And>x s. frame_all (f x s) = frame_all s) \<Longrightarrow> frame_all (fold f xs s) = frame_all s"
  by (induction xs arbitrary: s) simp_all

lemma quiet_serve [quiet]:
  "frame_all (serve_plain w ch c r path body s) = frame_all s"
  "frame_all (serve_opened w ch c r path room pk v auth body s) = frame_all s"
  "frame_all (refuse_encrypted w ch r v e s) = frame_all s"
  by (simp_all add: serve_plain_def serve_opened_def refuse_encrypted_def send_encrypted_or_drop_def Let_def
      case_prod_unfold quiet_fold quiet)

lemma quiet_encrypted_request [quiet]:
  "frame_all (serve_encrypted_request w ch c msg s) = frame_all s" "frame_all (end_encrypted_request w ch c r s) = frame_all s"
  by (auto simp: serve_encrypted_request_def end_encrypted_request_def Let_def quiet
      split: prod.split sum.split option.split end_outcome.split)

lemma quiet_answers [quiet]:
  "frame_all (tell_request r m s) = frame_all s" "frame_all (drop_request r s) = frame_all s"
  "frame_all (drop_encrypted r s) = frame_all s" "frame_all (count_part w r part s) = frame_all s"
  "frame_all (receive_part w r part s) = frame_all s" "frame_all (finish_exchange w r s) = frame_all s"
  by (simp_all add: tell_request_def drop_request_def drop_encrypted_def count_part_def receive_part_def finish_exchange_def
      Let_def case_prod_unfold quiet split: option.split)

lemma quiet_encrypted_answers [quiet]:
  "frame_all (on_encrypted_response w ch r n ct e st s) = frame_all s"
  "frame_all (on_encrypted_chunk w ch c r chunk s) = frame_all s"
  by (auto simp: on_encrypted_response_def on_encrypted_chunk_def Let_def quiet quiet_fold
      split: prod.split sum.split option.split stream_outcome.split)

lemma quiet_stream_message:
  "on_stream_message w ch c m s = Some s' \<Longrightarrow> frame_all s' = frame_all s"
  by (cases "(w, ch, c, m, s)" rule: on_stream_message.cases) (auto simp: quiet split: if_splits)

lemma quiet_message [quiet]: "frame_all (on_message w ch a b s) = frame_all s"
proof -
  have "frame_all (on_plain_message w ch c m s) = frame_all s" for c m
    by (cases m) (auto simp: quiet end_plain_request_def Let_def split: option.split)
  then show ?thesis
    by (auto simp: on_message_def on_dc_message_def send_plain_or_drop_def quiet bind_eq_Some_conv
        split: option.split bool.split dest: quiet_stream_message)
qed


text \<open>Models and approvals.\<close>

lemma quiet_model_start [quiet]:
  "frame_all (fst (start_progress w r st pct m s)) = frame_all s" "frame_all (advertise_started w b s) = frame_all s"
  "frame_all (respond_to_model_start_offer w r accept model s) = frame_all s"
  by (simp_all add: start_progress_def advertise_started_def respond_to_model_start_offer_def Let_def case_prod_unfold quiet
      split: option.split bool.split)

lemma start_progress_frame: "start_progress w r st pct m s = (s', x) \<Longrightarrow> frame_all s' = frame_all s"
  using quiet_model_start(1) [of w r st pct m s] by simp

lemma quiet_task [quiet]: "frame_all (fst (execute_model_start_task w out r model s)) = frame_all s"
  by (auto simp: execute_model_start_task_def Let_def quiet quiet_fold split: option.split prod.split dest!: start_progress_frame)

lemma quiet_start [quiet]: "frame_all (run_model_start w out i s) = frame_all s"
proof -
  have "execute_model_start_task w out r model s1 = (s', x) \<Longrightarrow> frame_all s' = frame_all s1" for r model s1 s' x
    using quiet_task [of w out r model s1] by simp
  then show ?thesis
    by (auto simp: run_model_start_def Let_def quiet case_prod_unfold split: option.split prod.split)
qed

lemma quiet_model_actions [quiet]:
  "frame_all (handle_cl_model_start w a s) = frame_all s" "frame_all (on_model_start_offer w r m p v d b s) = frame_all s"
proof -
  have "send_protocol_message w m s = (s', x) \<Longrightarrow> frame_all s' = frame_all s" for m s' x
    using quiet_basic(8) [of w m s] by simp
  then show "frame_all (handle_cl_model_start w a s) = frame_all s"
    by (cases a) (auto simp: quiet split: prod.split option.split)
  show "frame_all (on_model_start_offer w r m p v d b s) = frame_all s"
    by (simp add: on_model_start_offer_def Let_def quiet)
qed

lemma quiet_lobby [quiet]:
  "frame_all (on_registered w n c req s) = frame_all s" "frame_all (on_available_models ms s) = frame_all s"
  "frame_all (on_connect_update w r st p m f s) = frame_all s"
  "frame_all (on_model_start_update w r md st pct p ps msg s) = frame_all s" "frame_all (on_answer w q v s) = frame_all s"
  by (auto simp: on_registered_def on_available_models_def on_connect_update_def on_model_start_update_def on_answer_def
      send_peer_info_def Let_def quiet split: option.split)

text \<open>Answers to an offer of a connection change the allowances only.\<close>

lemma frame_allD: "frame_all s' = frame_all s \<Longrightarrow> frame s' = frame s"
  by (simp add: frame_all_def)

lemma frame_allowances: "frame (s\<lparr>cl_allowances := a\<rparr>) = frame s"
  by (simp add: frame_def)

lemmas quiet_frame = quiet [THEN frame_allD]

lemma frame_respond:
  "frame (respond_to_connect_offer w r accept g s) = frame s" "frame (on_connect_offer w r m p f s) = frame s"
  "frame (handle_connection_action w a s) = frame s" "frame (fst (admit_offer w p v s)) = frame s"
proof -
  show r: "frame (respond_to_connect_offer w r accept g s) = frame s" for r accept g s
    by (auto simp: respond_to_connect_offer_def grant_connection_allowance_def Let_def quiet_frame frame_allowances
        split: bool.split option.split prod.split)
  show "frame (on_connect_offer w r m p f s) = frame s" by (simp add: on_connect_offer_def Let_def r quiet_frame)
  show "frame (handle_connection_action w a s) = frame s"
    by (cases a) (simp add: r split: option.split)
  show "frame (fst (admit_offer w p v s)) = frame s"
    by (simp add: admit_offer_def case_prod_unfold frame_allowances split: option.split)
qed

section \<open>Properties every session keeps\<close>

locale connection_inv =
  fixes inv :: "cluster_session \<Rightarrow> bool"
  assumes frame_ok: "inv s \<Longrightarrow> frame s' = frame s \<Longrightarrow> inv s'"
    and outbound_ok: "inv s \<Longrightarrow> inv (open_outbound w p f s)"
    and inbound_ok: "inv s \<Longrightarrow> inv (open_inbound w p f s)"
    and channel_ok: "inv s \<Longrightarrow> inv (on_data_channel l s)"
    and forget_ok: "inv s \<Longrightarrow> inv (forget_connection w p s)"
begin

lemma quiet_ok: "inv s \<Longrightarrow> frame_all s' = frame_all s \<Longrightarrow> inv s'"
  by (rule frame_ok) (simp_all add: frame_all_def)

lemma close_ok: "inv s \<Longrightarrow> inv (close_peer_connection w p s)"
  unfolding close_peer_connection_def by (intro forget_ok) (erule quiet_ok, simp add: quiet)

lemma stale_ok: "inv s \<Longrightarrow> inv (remove_stale_peer_if_needed w p s)"
  by (simp add: remove_stale_peer_if_needed_def close_ok split: option.split)

lemma replace_ok: "inv s \<Longrightarrow> inv (replace_incomplete_session_if_needed w p r s)"
  by (simp add: replace_incomplete_session_if_needed_def close_ok)

lemma proxy_ok: "inv s \<Longrightarrow> inv (proxy_to_peer w c cmd t s)"
  by (erule quiet_ok) (simp add: quiet)

lemma lobby_told_ok: "inv s \<Longrightarrow> inv (fst (send_protocol_message w m s))"
  by (erule quiet_ok) (simp add: quiet)

lemma begin_ok: "try_begin_negotiation p s = (s', b) \<Longrightarrow> inv s \<Longrightarrow> inv s'"
  by (auto simp: try_begin_negotiation_def quiet intro: quiet_ok [where s = s] split: if_splits)

lemma connect_ok:
  assumes "inv s"
  shows "inv (connect_and_proxy w c cmd t r f s)"
proof -
  have "inv s' \<Longrightarrow> inv (s'\<lparr>cl_connecting := x\<rparr>)" "inv s' \<Longrightarrow> inv (cl_tell c m s')" for s' x m
    by (erule quiet_ok, simp add: quiet)+
  with replace_ok [OF stale_ok [OF assms]] show ?thesis
    by (auto simp: connect_and_proxy_def Let_def intro: proxy_ok dest: begin_ok split: option.split prod.split bool.split)
qed

lemma resume_ok:
  assumes "inv s"
  shows "inv (resume_brokered w i s)"
proof -
  have "inv (s\<lparr>cl_answered := a\<rparr>)" "inv (s\<lparr>cl_answered := a, cl_hints := h\<rparr>)" "inv (cl_tell c m (s\<lparr>cl_answered := a\<rparr>))"
    for a h c m by (rule quiet_ok [OF assms], simp add: quiet)+
  then show ?thesis
    using assms by (simp add: resume_brokered_def Let_def connect_ok split: prod.split sum.split)
qed

lemma offered_ok:
  assumes "inv s"
  shows "inv (finish_connecting w i s)"
proof -
  define s1 where "s1 = s\<lparr>cl_connecting := drop_nth i (cl_connecting s)\<rparr>"
  have s1: "inv s1" unfolding s1_def by (rule quiet_ok [OF assms]) (simp add: quiet)
  have e: "inv (end_negotiation p s')" if "inv s'" for p s' using that by (rule quiet_ok) (simp add: quiet)
  have m: "inv s'" if "send_protocol_message w m s1 = (s', x)" for m s' x
    using quiet_basic(8) [of w m s1] that by (intro quiet_ok [OF s1]) simp
  show ?thesis
    using assms e s1
    by (auto simp: finish_connecting_def Let_def s1_def [symmetric] intro!: proxy_ok e outbound_ok
        split: option.split prod.split dest: m)
qed

lemma poll_ok:
  assumes "inv s"
  shows "inv (poll_delayed w i s)"
proof -
  have "inv (s\<lparr>cl_delayed := x\<rparr>)" for x by (rule quiet_ok [OF assms]) (simp add: quiet)
  moreover have "inv (send_delayed w ch d s')" "inv (timed_out w d s')" if "inv s'" for ch d s'
  proof -
    show "inv (send_delayed w ch d s')" by (rule quiet_ok [OF that]) (simp add: quiet)
    show "inv (timed_out w d s')"
      unfolding timed_out_def by (rule quiet_ok [OF forget_ok [OF that]]) (simp add: quiet)
  qed
  ultimately show ?thesis using assms by (simp add: poll_delayed_def Let_def)
qed

lemma offer_ok:
  assumes "inv s"
  shows "inv (on_offer w p v s)"
proof -
  have a: "inv s'" if "admit_offer w p v s = (s', x)" for s' x
    using frame_respond(4) [of w p v s] that by (intro frame_ok [OF assms]) simp
  have b: "inv (accept_offer w p v m s')" if "inv s'" for m s'
  proof -
    have "inv (s'\<lparr>cl_approved := x\<rparr>)" for x by (rule quiet_ok [OF that]) (simp add: quiet)
    then show ?thesis
      by (auto simp: accept_offer_def Let_def intro: inbound_ok lobby_told_ok split: option.split)
  qed
  show ?thesis by (auto simp: on_offer_def split: prod.split option.split dest: a intro: b)
qed

lemma lobby_ok:
  assumes "inv s"
  shows "inv (handle_protocol_message w m s)"
proof (cases m)
  case (PmPeerBanned p n)
  have "inv (s\<lparr>cl_net := (cl_net s)\<lparr>ns_store := t\<rparr>\<rparr>)" for t by (rule quiet_ok [OF assms]) (simp add: quiet)
  with PmPeerBanned show ?thesis by (simp add: on_peer_banned_def close_ok)
next
  case (PmRoute t p v)
  have "inv (on_answer w p v s)" by (rule quiet_ok [OF assms]) (simp add: quiet)
  with PmRoute assms show ?thesis by (simp add: on_route_def Let_def offer_ok)
next
  case (PmConnectOffer r m p f)
  then show ?thesis using frame_ok [OF assms frame_respond(2)] by simp
qed (use assms in \<open>auto intro: quiet_ok simp: quiet\<close>)

lemma turn_kept:
  assumes "inv s"
  shows "inv (fst (cluster_step w e s))"
proof (cases e)
  case (EvCommand c cmd)
  have "inv (cl_tell c m s)" "inv (request_brokered_peer w c cmd s)" for m by (rule quiet_ok [OF assms], simp add: quiet)+
  with EvCommand assms show ?thesis by (simp add: handle_cl_proxy_cmd_def connect_ok split: option.split)
next
  case (EvModeration a)
  have "inv (fst (send_protocol_message w m (close_peer_connection w p s)))" for m p
    by (rule quiet_ok [OF close_ok [OF assms]]) (simp add: quiet)
  with EvModeration assms show ?thesis by (simp add: handle_peer_moderation_def close_ok split: peer_moderation_action.split)
next
  case (EvConnection a)
  then show ?thesis using frame_ok [OF assms frame_respond(3)] by simp
next
  case EvTick
  have "inv s'" if "poll_and_advertise w False s = (s', x)" for s' x
    using quiet_advertise [of w False s] that by (intro quiet_ok [OF assms]) simp
  moreover have "inv (set_cluster_connected_lobby w False s')" if "inv s'" for s' by (rule quiet_ok [OF that]) (simp add: quiet)
  ultimately show ?thesis using EvTick by (auto split: prod.split option.split)
next
  case (EvDataChannel l)
  with assms show ?thesis by (simp add: channel_ok)
qed (use assms in \<open>auto intro: quiet_ok lobby_ok resume_ok offered_ok poll_ok simp: quiet\<close>)

lemma run_kept: "inv s \<Longrightarrow> inv (cluster_run es s)"
proof (induction es arbitrary: s)
  case (Cons x es)
  obtain w e where x: "x = (w, e)" by fastforce
  from turn_kept [OF Cons.prems, of w e] Cons.IH show ?case by (auto simp: x split: prod.splits)
qed simp

end


section \<open>The connections shown are the connections there are\<close>

definition shown :: "cluster_session \<Rightarrow> string \<Rightarrow> bool" where
  "shown s p = hm_contains (ns_registry (cl_net s)) (peer_registry_key p (cl_id s))"

definition shown_exactly :: "cluster_session \<Rightarrow> bool" where
  "shown_exactly s = (\<forall>p. shown s p = hm_contains (cl_peers s) p)"

lemma key_inj [simp]: "peer_registry_key p c = peer_registry_key q c \<longleftrightarrow> p = q"
  by (simp add: peer_registry_key_def)

lemma track_fields [simp]:
  "cl_peers (track_peer w p d f s) = cl_peers s" "cl_links (track_peer w p d f s) = cl_links s"
  "cl_inbound (track_peer w p d f s) = cl_inbound s" "cl_channels (track_peer w p d f s) = cl_channels s"
  "cl_next (track_peer w p d f s) = cl_next s" "cl_id (track_peer w p d f s) = cl_id s"
  "cl_connecting (track_peer w p d f s) = cl_connecting s" "cl_requests (track_peer w p d f s) = cl_requests s"
  "cl_delayed (track_peer w p d f s) = cl_delayed s" "ns_store (cl_net (track_peer w p d f s)) = ns_store (cl_net s)"
  "ns_config (cl_net (track_peer w p d f s)) = ns_config (cl_net s)" "cl_log (track_peer w p d f s) = cl_log s"
  by (simp_all add: track_peer_def sync_cl_connections_def sync_peer_connections_with_store_def sync_peer_connections_def)

lemma track_shown: "shown (track_peer w p d f s) q \<longleftrightarrow> q = p \<or> shown s q"
  by (auto simp: shown_def track_peer_def sync_cl_connections_def sync_peer_connections_with_store_def
      sync_peer_connections_def hm_contains_get)

lemma forget_fields [simp]:
  "cl_links (forget_connection w p s) = cl_links s" "cl_inbound (forget_connection w p s) = cl_inbound s"
  "cl_channels (forget_connection w p s) = cl_channels s" "cl_next (forget_connection w p s) = cl_next s"
  "cl_id (forget_connection w p s) = cl_id s" "cl_name (forget_connection w p s) = cl_name s" "cl_requests (forget_connection w p s) = cl_requests s"
  "cl_connecting (forget_connection w p s) = cl_connecting s" "cl_delayed (forget_connection w p s) = cl_delayed s"
  "ns_store (cl_net (forget_connection w p s)) = ns_store (cl_net s)"
  "hm_get (cl_peers (forget_connection w p s)) q = (if q = p then None else hm_get (cl_peers s) q)"
  by (simp_all add: forget_connection_def sync_cl_connections_def sync_peer_connections_with_store_def
      sync_peer_connections_def on_cl_stats_def cl_emit_def Let_def split: option.split)

lemma forget_shown: "shown (forget_connection w p s) q \<longleftrightarrow> q \<noteq> p \<and> shown s q"
  by (auto simp: shown_def forget_connection_def sync_cl_connections_def sync_peer_connections_with_store_def
      sync_peer_connections_def on_cl_stats_def cl_emit_def Let_def hm_contains_get split: option.split)

interpretation shown_inv: connection_inv shown_exactly
proof
  show "shown_exactly s'" if "shown_exactly s" "frame s' = frame s" for s s'
    using that by (simp add: shown_exactly_def shown_def frame_def)
  show "shown_exactly (open_outbound w p f s)" if "shown_exactly s" for s w p f
    using that by (auto simp: shown_exactly_def open_outbound_def track_shown Let_def hm_contains_get shown_def [of "s\<lparr>cl_next := _\<rparr>"])
      (auto simp: shown_def hm_contains_get)
  show "shown_exactly (open_inbound w p f s)" if "shown_exactly s" for s w p f
    using that by (auto simp: shown_exactly_def open_inbound_def track_shown Let_def hm_contains_get)
      (auto simp: shown_def hm_contains_get)
  show "shown_exactly (on_data_channel l s)" if "shown_exactly s" for s l
    using that by (simp add: shown_exactly_def shown_def on_data_channel_def split: option.split)
  show "shown_exactly (forget_connection w p s)" if "shown_exactly s" for s w p
    using that by (simp add: shown_exactly_def forget_shown hm_contains_get)
qed

section \<open>A channel belongs to its peer\<close>

lemma sides_get: "hm_get (channel_sides m) ch = map_option (\<lambda>c. (cc_remote c, cc_provider c)) (hm_get m ch)"
  by (induction m) (auto simp: channel_sides_def)

definition side :: "cluster_session \<Rightarrow> nat \<Rightarrow> (string \<times> bool) option" where
  "side s ch = map_option (\<lambda>c. (cc_remote c, cc_provider c)) (hm_get (cl_channels s) ch)"

text \<open>The active channel of a peer's connection takes messages in that peer's name, and serves requests as a provider
  exactly when the peer made the connection. The rest says numbers are not used twice.\<close>

definition attributed :: "cluster_session \<Rightarrow> bool" where
  "attributed s =
     ((\<forall>p l. hm_get (cl_peers s) p = Some l \<longrightarrow> l < cl_next s \<and> hm_get (cl_inbound s) l \<in> {None, Some p}
         \<and> (\<forall>ch. active_channel s l = Some ch \<longrightarrow> side s ch = Some (p, hm_get (cl_inbound s) l \<noteq> None)))
      \<and> (\<forall>l. hm_get (cl_inbound s) l \<noteq> None \<longrightarrow> l < cl_next s)
      \<and> (\<forall>l ch. active_channel s l = Some ch \<longrightarrow> ch < cl_next s))"

lemma attributed_frame: "attributed s \<Longrightarrow> frame s' = frame s \<Longrightarrow> attributed s'"
  by (simp add: attributed_def frame_def active_channel_def side_def sides_get [symmetric])

interpretation attribution: connection_inv attributed
proof
  show "attributed s'" if "attributed s" "frame s' = frame s" for s s' using that by (rule attributed_frame)
  show "attributed (open_outbound w p f s)" if "attributed s" for s w p f
    using that
    by (auto simp: attributed_def open_outbound_def Let_def active_channel_def side_def new_channel_def less_Suc_eq
        split: if_splits) (metis less_irrefl less_SucI not_Some_eq)+
  show "attributed (open_inbound w p f s)" if "attributed s" for s w p f
    using that
    by (auto simp: attributed_def open_inbound_def Let_def active_channel_def side_def less_Suc_eq split: if_splits)
  show "attributed (on_data_channel l s)" if "attributed s" for s l
    using that
    by (auto simp: attributed_def on_data_channel_def active_channel_def side_def new_channel_def less_Suc_eq
        split: option.split if_splits) (metis option.distinct(1) option.inject)
  show "attributed (forget_connection w p s)" if "attributed s" for s w p
    using that by (auto simp: attributed_def active_channel_def side_def)
qed

end
