(* ===== verification/Cluster_Examples.thy ===== *)
theory Cluster_Examples
  imports Cluster_Lobby Session_Props
begin

text \<open>A small cluster's session and its surroundings, on which the properties of sessions are applied.\<close>

definition toy_env :: cluster_env where
  "toy_env =
     \<lparr>ce_open = (\<lambda>_. True), ce_terminal = (\<lambda>_. False), ce_lobby = (\<lambda>_. None), ce_wire = (\<lambda>_. Some 0), ce_up = (\<lambda>_ _. True),
      ce_channel = (\<lambda>_. \<lparr>ch_wire = (\<lambda>_. Some 0), ch_up = (\<lambda>_. True)\<rparr>), ce_connects = True, ce_offer = Some ''sdp'',
      ce_answer_sdp = Some, ce_takes_answer = (\<lambda>_. True), ce_time = toy_manager_world, ce_ms = 0, ce_ms_end = 0,
      ce_nanos = (1, 1), ce_req_no = 1, ce_version = 0, ce_build_flag = 1, ce_env = (\<lambda>_. None), ce_prims = toy_primitives,
      ce_eph = ([], []), ce_nonce = None, ce_nonces = (\<lambda>_. None), ce_parse = (\<lambda>s. Some (JStr s)), ce_print = (\<lambda>_. Some ''{}''),
      ce_gpu_json = (\<lambda>_. JNull), ce_uuid = (\<lambda>s. s),
      ce_servers = \<lparr>sw_api_key = (\<lambda>_. Inr None), sw_engine = (\<lambda>_. None), sw_healthy = (\<lambda>_. True), sw_list = (\<lambda>_ _. None)\<rparr>,
      ce_sidecar = False, ce_models = (\<lambda>_ _ _. Inr [''hi'']), ce_show = (\<lambda>_. []), ce_send_error = [], ce_stream_error = [],
      ce_json_error = (\<lambda>_. [])\<rparr>"

definition toy_cluster :: cluster_session where
  "toy_cluster = cluster_session_new ''me'' ''c'' toy_network registry_new toy_store"

text \<open>With one model server attached; it answers with no models.\<close>

definition toy_serving :: cluster_session where
  "toy_serving = toy_cluster\<lparr>cl_registry := registry_new\<lparr>rg_servers :=
     [(''s'', \<lparr>rt_entry = \<lparr>se_id = ''s'', se_kind = ''ollama'', se_url = ''u'', se_label = None, se_attached = True, se_order = 0,
         se_source = [], se_api_type = None, se_models = [], se_advertise_to_cluster = True\<rparr>, rt_backend = OllamaBackend ''u'' None, rt_show_cache = [], rt_engine = None,
         rt_connected = True\<rparr>)]\<rparr>\<rparr>"

definition toy_request :: delayed_send where
  "toy_request = \<lparr>de_req_id = ''r'', de_caller = 5, de_cmd = toy_command None, de_target = ''p'', de_link = 0, de_attempts = 0\<rparr>"

definition toy_connecting :: connecting where
  "toy_connecting = \<lparr>co_caller = 5, co_cmd = toy_command None, co_target = ''p'', co_req_id = ''r'', co_flags = 0\<rparr>"

text \<open>Connected to \<open>p\<close>, by a channel of this side.\<close>

definition toy_connected :: cluster_session where
  "toy_connected = open_outbound toy_env ''p'' 0 toy_cluster"

definition toy_exchange :: exchange_meta where
  "toy_exchange = \<lparr>em_remote_peer_id = ''p'', em_model = ''m'', em_path = ''/api/chat'', em_started_at = 0, em_buffer = [],
     em_bytes_sent = 0, em_bytes_received = 0\<rparr>"


section \<open>Their parts\<close>

lemma toy_env_parts [simp]:
  "ce_lobby toy_env = (\<lambda>_. None)" "ce_connects toy_env" "ce_nanos toy_env = (1, 1)" "ce_version toy_env = 0"
  "ce_env toy_env = (\<lambda>_. None)" "ce_open toy_env = (\<lambda>_. True)" "ce_build_flag toy_env = 1" "ce_offer toy_env = Some ''sdp''"
  "ce_parse toy_env = (\<lambda>s. Some (JStr s))" "send_dc_message toy_env ch m" "ce_models toy_env = (\<lambda>_ _ _. Inr [''hi''])"
  by (simp_all add: toy_env_def send_dc_message_def)

lemma toy_cluster_parts [simp]:
  "cl_id toy_cluster = ''c''" "cl_net toy_cluster = toy_network" "cl_channels toy_cluster = []" "cl_peers toy_cluster = []"
  "cl_links toy_cluster = []" "cl_next toy_cluster = 0" "cl_log toy_cluster = []" "cl_hints toy_cluster = []" "cl_version toy_cluster = 0"
  "cl_allowances toy_cluster = allowance_store_new (CONNECTION_ALLOWANCE_TTL_SECS * 1000000000)"
  by (simp_all add: toy_cluster_def cluster_session_new_def hm_empty_def)

lemma toy_network_parts [simp]:
  "ns_config toy_network = default_client_config" "ns_store toy_network = empty_store" "ns_registry toy_network = hm_empty"
  by (simp_all add: toy_network_def)

lemma toy_config [simp]: "find_cluster default_client_config i = None" "cfg_allow_unattested_peers default_client_config = False"
  by (simp_all add: find_cluster_def default_client_config_def)

lemma toy_accepts [simp]: "ns_config (cl_net s) = default_client_config \<Longrightarrow> cluster_accepts_jobs_now s"
  by (simp add: cluster_accepts_jobs_now_def cl_config_def)

lemma toy_e2ee [simp]: "e2ee_enabled (\<lambda>_. None)"
  by (simp add: e2ee_enabled_def flag_value_def)

lemma nobody_blocked [simp]: "list_blocked_peers empty_store = []" "\<not> is_peer_blocked empty_store p"
  by code_simp (simp add: is_peer_blocked_def load_blocked_peer_def empty_store_def)

lemma toy_connected_parts [simp]:
  "hm_get (cl_channels toy_connected) (Suc 0) = Some (new_channel ''p'' False)" "hm_get (cl_peers toy_connected) ''p'' = Some 0"
  "active_channel toy_connected 0 = Some (Suc 0)" "ns_config (cl_net toy_connected) = default_client_config"
  "ns_store (cl_net toy_connected) = empty_store" "cl_log toy_connected = []"
  by (simp_all add: toy_connected_def open_outbound_def Let_def active_channel_def track_peer_def sync_cl_connections_def
      sync_peer_connections_with_store_def sync_peer_connections_def)

lemma toy_catalog:
  "snd (rebuild_catalog (ce_servers toy_env) (cl_registry toy_serving)) = merge_catalog_snapshots []"
  "snd (rebuild_catalog (ce_servers toy_env) (fst (rebuild_catalog (ce_servers toy_env) (cl_registry toy_serving))))
     = merge_catalog_snapshots []"
  "rg_servers (cl_registry toy_serving) \<noteq> []"
  "rg_servers (fst (rebuild_catalog (ce_servers toy_env) (cl_registry toy_serving))) \<noteq> []"
  by (simp_all add: toy_serving_def toy_env_def rebuild_catalog_def hm_values_def sort_by_key_def hm_modify_def Let_def)

end
