(* ===== verification/Cluster_Session_Props.thy ===== *)
theory Cluster_Session_Props
  imports Cluster_Connections Cluster_Examples
begin

text \<open>
  Properties of a cluster's session: what it shows and to whom it attributes messages, who may connect, what the lobby is
  told, and what becomes of a request that cannot be sent at once.
\<close>

section \<open>Connections\<close>

lemma new_attributed: "attributed (cluster_session_new name cid net reg keys)"
  by (simp add: attributed_def cluster_session_new_def active_channel_def)



text \<open>C9: Messages are attributed to the right peer. In every state a session reaches, the active channel of a peer's
  connection speaks in that peer's name, and it serves requests under the provider's checks exactly when that peer
  made the connection.\<close>

theorem channel_speaks_for_its_peer:
  "case hm_get (cl_peers (cluster_run es (cluster_session_new name cid net reg keys))) p of
     None \<Rightarrow> True
   | Some l \<Rightarrow>
       (case active_channel (cluster_run es (cluster_session_new name cid net reg keys)) l of
          None \<Rightarrow> True
        | Some ch \<Rightarrow>
            side (cluster_run es (cluster_session_new name cid net reg keys)) ch
              = Some (p, hm_get (cl_inbound (cluster_run es (cluster_session_new name cid net reg keys))) l \<noteq> None))"
  using attribution.run_kept [OF new_attributed, of es name cid net reg keys]
  by (simp add: attributed_def split: option.split)

section \<open>What the lobby is told\<close>

lemma told_nothing: "ce_lobby w m = None \<Longrightarrow> send_protocol_message w m s = (cl_emit [ClLobby m] s, None)"
  by (simp add: send_protocol_message_def)

lemma poll_catalog:
  assumes "cluster_accepts_jobs_now s" "rg_servers (cl_registry s) \<noteq> []"
  shows "poll_and_advertise w force s = advertise_catalog w (force \<or> ce_version w \<noteq> cl_version s) s"
  using assms by (simp add: poll_and_advertise_def Let_def)

text \<open>One hash for all clusters. A session that told its lobby the catalogue leaves its hash in the state all sessions
  share; the next poll of another session, whose lobby never heard of it, finds that hash and tells nothing.\<close>

theorem change_told_to_one_lobby_only:
  assumes "poll_and_advertise w force a = (a', None)" "cluster_accepts_jobs_now a" "rg_servers (cl_registry a) \<noteq> []"
    and "cl_net b = cl_net a'" "cl_registry b = cl_registry a'" "cl_version b = ce_version w"
    and "cluster_accepts_jobs_now b" "rg_servers (cl_registry a') \<noteq> []"
    and "snd (rebuild_catalog (ce_servers w) (cl_registry a')) = snd (rebuild_catalog (ce_servers w) (cl_registry a))"
  shows "snd (poll_and_advertise w False b) = None \<and> cl_log (fst (poll_and_advertise w False b)) = cl_log b"
proof -
  define snap where "snap = snd (rebuild_catalog (ce_servers w) (cl_registry a))"
  define hash where "hash = catalog_hash w (fst (filter_models_for_cluster_advertisement snap (cl_config a))) (cat_gpu_host snap)"
  have "advertise_catalog w (force \<or> ce_version w \<noteq> cl_version a) a = (a', None)"
    using assms(1) poll_catalog [OF assms(2,3)] by simp
  then have h: "app_last_advertised_hash (cl_app a') = Some hash" and c: "cl_config a' = cl_config a"
    by (auto simp: advertise_catalog_def Let_def case_prod_unfold snap_def hash_def cl_app_def cl_config_def on_app_def
        send_protocol_message_def cl_emit_def split: if_splits option.splits)
  have "cl_app b = cl_app a'" "cl_config b = cl_config a" using assms(4) c by (simp_all add: cl_app_def cl_config_def)
  then show ?thesis
    using poll_catalog [of b w False] assms(5-9) h
    by (simp add: advertise_catalog_def Let_def case_prod_unfold snap_def hash_def cl_config_def)
qed

theorem change_told_to_one_lobby_only_witness:
  "cl_log (fst (poll_and_advertise toy_env False
     ((fst (poll_and_advertise toy_env True toy_serving))\<lparr>cl_id := ''d'', cl_log := []\<rparr>))) = []"
proof -
  define a where "a = fst (poll_and_advertise toy_env True toy_serving)"
  have ok: "cluster_accepts_jobs_now toy_serving" by (simp add: toy_serving_def)
  have a': "a = fst (advertise_catalog toy_env True toy_serving)" "snd (poll_and_advertise toy_env True toy_serving) = None"
    using poll_catalog [OF ok toy_catalog(3), of toy_env True]
    by (simp_all add: a_def) (auto simp: advertise_catalog_def Let_def case_prod_unfold send_protocol_message_def)
  then have reg: "cl_registry a = fst (rebuild_catalog (ce_servers toy_env) (cl_registry toy_serving))" "cl_version a = 0"
    and cfg: "ns_config (cl_net a) = default_client_config"
    by (auto simp: advertise_catalog_def Let_def case_prod_unfold send_protocol_message_def cl_emit_def on_app_def toy_serving_def)
  have "cluster_accepts_jobs_now toy_serving" "rg_servers (cl_registry toy_serving) \<noteq> []"
    "cluster_accepts_jobs_now (a\<lparr>cl_id := ''d'', cl_log := []\<rparr>)" "rg_servers (cl_registry a) \<noteq> []"
    "snd (rebuild_catalog (ce_servers toy_env) (cl_registry a)) = snd (rebuild_catalog (ce_servers toy_env) (cl_registry toy_serving))"
    "cl_version a = ce_version toy_env" "snd (poll_and_advertise toy_env True toy_serving) = None"
    using ok a' reg cfg toy_catalog by simp_all
  then show ?thesis
    using change_told_to_one_lobby_only [of toy_env True toy_serving a "a\<lparr>cl_id := ''d'', cl_log := []\<rparr>"]
    by (simp add: a_def [symmetric]) (metis a_def prod.collapse)
qed

section \<open>Requests that wait\<close>

lemma nth_0_upd: "(x # xs)[0 := y] = y # xs" by simp

text \<open>One look at the first waiting request.\<close>

lemma poll_first:
  assumes "cl_delayed s = d # rest"
  shows "poll_delayed w 0 s =
    (if data_channel_ready w s (de_link d)
     then send_delayed w (the (active_channel s (de_link d))) d (s\<lparr>cl_delayed := rest\<rparr>)
     else if de_attempts d + 1 < DC_OPEN_MAX_POLLS then s\<lparr>cl_delayed := d\<lparr>de_attempts := de_attempts d + 1\<rparr> # rest\<rparr>
     else timed_out w d (s\<lparr>cl_delayed := rest\<rparr>))"
  using assms by (simp add: poll_delayed_def drop_nth_def)

definition waited :: "nat \<Rightarrow> delayed_send \<Rightarrow> delayed_send" where
  "waited n d = d\<lparr>de_attempts := de_attempts d + n\<rparr>"



section \<open>Callers that are never told\<close>

lemma register_fields:
  "cl_log (fst (register_request w c cmd t s)) = cl_log s"
  "cl_requests (fst (register_request w c cmd t s)) = hm_insert (next_proxy_req_id w s) c (cl_requests s)"
  "snd (register_request w c cmd t s) = next_proxy_req_id w s"
  "cl_keys (fst (register_request w c cmd t s)) = cl_keys s"
  by (simp_all add: register_request_def track_consumer_exchange_def on_cl_stats_def Let_def)

lemma sent_log:
  "cl_requests (fst (send_cluster_proxy_on_dc w ch r path body s)) = cl_requests s"
  "\<exists>sent. cl_log (fst (send_cluster_proxy_on_dc w ch r path body s)) = cl_log s @ sent \<and> (\<forall>c m. ClCaller c m \<notin> set sent)"
  by (auto simp: send_cluster_proxy_on_dc_def cl_emit_def Let_def split: prod.split option.split)



section \<open>A block that comes too late\<close>

lemma proxy_store: "ns_store (cl_net (proxy_to_peer w c cmd t s)) = ns_store (cl_net s)"
proof -
  have "ns_store (cl_net (fst (register_request w c cmd t s))) = ns_store (cl_net s)"
    by (simp add: register_request_def track_consumer_exchange_def on_cl_stats_def Let_def)
  moreover have "ns_store (cl_net (fst (send_cluster_proxy_on_dc w ch r path body s))) = ns_store (cl_net s)" for ch r path body s
    by (auto simp: send_cluster_proxy_on_dc_def cl_emit_def Let_def split: prod.split option.split)
  ultimately show ?thesis
    by (simp add: proxy_to_peer_def send_now_def send_later_def on_cl_stats_def Let_def case_prod_unfold split: option.split)
qed

lemma proxy_peers: "cl_peers (proxy_to_peer w c cmd t s) = cl_peers s"
  using quiet_proxy_to_peer [of w c cmd t s] by (simp add: frame_all_def frame_def)

text \<open>A peer banned by the lobby while the connection to it is being made is connected all the same: the ban closes the
  connections there are, the one on its way is then put into the maps, and the request is sent to the blocked peer.\<close>

theorem ban_misses_connection_on_its_way:
  assumes "cl_connecting s = c # rest" "ce_offer w = Some sdp"
    and "ce_lobby w (PmRoute (co_target c) (cl_name s) (offer_payload sdp (cl_id s) (co_req_id c))) = None"
  shows "is_cl_peer_blocked (finish_connecting w 0 (on_peer_banned v (co_target c) s)) (co_target c)
    \<and> hm_contains (cl_peers (finish_connecting w 0 (on_peer_banned v (co_target c) s))) (co_target c)"
proof -
  define b where "b = on_peer_banned v (co_target c) s"
  have b: "cl_connecting b = c # rest" "cl_name b = cl_name s" "cl_id b = cl_id s"
    "ns_store (cl_net b) = block_peer (mw_unix (ce_time v)) (co_target c) ''system'' (Some ''banned by lobby'') (ns_store (cl_net s))"
    using assms(1) by (simp_all add: b_def on_peer_banned_def close_peer_connection_def end_negotiation_def)
  show ?thesis
    using assms(2,3) b
    by (simp add: b_def [symmetric] finish_connecting_def Let_def told_nothing proxy_peers proxy_store is_cl_peer_blocked_def
        end_negotiation_def open_outbound_def cl_emit_def hm_contains_get is_peer_blocked_def
        load_blocked_peer_def block_peer_def)
qed

theorem ban_misses_connection_on_its_way_witness:
  "hm_contains (cl_peers (finish_connecting toy_env 0 (on_peer_banned toy_env ''p'' (toy_cluster\<lparr>cl_connecting := [toy_connecting]\<rparr>)))) ''p''"
  using ban_misses_connection_on_its_way [of "toy_cluster\<lparr>cl_connecting := [toy_connecting]\<rparr>" toy_connecting "[]" toy_env "''sdp''" toy_env]
  by (simp add: toy_env_def toy_connecting_def)


section \<open>Two smaller faults\<close>

text \<open>A request that waited in vain for the channel of one connection closes whatever connection its peer has by then.\<close>

theorem timeout_closes_newer_connection:
  assumes "cl_delayed s = d # rest" "de_attempts d + 1 = DC_OPEN_MAX_POLLS" "\<not> data_channel_ready w s (de_link d)"
    and "hm_get (cl_peers s) (de_target d) = Some l"
  shows "hm_get (cl_peers (poll_delayed w 0 s)) (de_target d) = None \<and> ClClose l \<in> set (cl_log (poll_delayed w 0 s))"
proof -
  have "ClClose l \<in> set (cl_log (forget_connection w (de_target d) (s\<lparr>cl_delayed := rest\<rparr>)))"
    using assms(4) by (simp add: forget_connection_def sync_cl_connections_def on_cl_stats_def cl_emit_def Let_def)
  with assms show ?thesis
    by (simp add: poll_first timed_out_def cl_tell_def cl_emit_def on_cl_stats_def)
qed

text \<open>While a cluster accepts no jobs its session does not note the configuration's version; once that changed, each poll tells
  the lobby again that there is nothing.\<close>

theorem maintenance_told_again:
  assumes "\<not> cluster_accepts_jobs_now s" "ce_version w \<noteq> cl_version s" "\<forall>m. ce_lobby w m = None"
  shows "\<exists>m. cl_log (fst (poll_and_advertise w False s)) = cl_log s @ [ClLobby m]
    \<and> cl_version (fst (poll_and_advertise w False s)) = cl_version s"
  using assms by (auto simp: poll_and_advertise_def advertise_nothing_def told_nothing on_app_def cl_emit_def Let_def)

end
