(* ===== verification/Cluster_Access.thy ===== *)
theory Cluster_Access
  imports Cluster_Connections Cluster_Examples
begin

text \<open>
  Who may connect to a provider of a cluster. What a session does to its allowances is a run of the one-time tokens of
  \<open>Connect_Allowance\<close>, so a connection made from the other side has used up an approval of its own.
\<close>

section \<open>The allowances of a session\<close>

text \<open>What an event does to them.\<close>

definition offer_checked :: "cluster_env \<Rightarrow> string \<Rightarrow> json \<Rightarrow> cluster_session \<Rightarrow> bool" where
  "offer_checked w p payload s =
     (payload_cluster_matches payload (cl_id s) \<and> \<not> is_cl_peer_blocked s p \<and> cluster_accepts_jobs_now s
      \<and> peer_connection_allowed w (cfg_allow_unattested_peers (cl_config s)) (unwrap_or (hm_get (cl_hints s) p) 0))"

lemma admit_offer_eq:
  "admit_offer w p v s =
     (if offer_checked w p v s
      then (case get_str ''connect_req_id'' v of
              None \<Rightarrow> (s, None)
            | Some r \<Rightarrow>
                (s\<lparr>cl_allowances := fst (validate_and_consume (fst (ce_nanos w)) (snd (ce_nanos w)) r p (cl_allowances s))\<rparr>,
                 snd (validate_and_consume (fst (ce_nanos w)) (snd (ce_nanos w)) r p (cl_allowances s))))
      else (s, None))"
  by (simp add: admit_offer_def offer_checked_def case_prod_unfold split: option.split)

fun tokens :: "cluster_env \<Rightarrow> cluster_event \<Rightarrow> cluster_session
    \<Rightarrow> (nat \<times> nat, string, string \<times> string, string) token_event list" where
  "tokens w (EvConnection (CnRespond r accept cluster_id)) s =
     (if cluster_id = Some (cl_id s) \<and> accept
      then (case find (\<lambda>x. ico_req_id x = r) (app_incoming_connection_offers (cl_app s)) of
              None \<Rightarrow> [] | Some x \<Rightarrow> [Issue (ce_nanos w) r (ico_requested_by x, ico_model x)])
      else [])"
| "tokens w (EvLobby (PmConnectOffer r model p flags)) s =
     (if cfg_auto_approve_inference_connections (cl_config s) \<and> cluster_accepts_jobs_now s
         \<and> peer_connection_allowed w (cfg_allow_unattested_peers (cl_config s)) (unwrap_or flags 0)
      then [Issue (ce_nanos w) r (p, model)] else [])"
| "tokens w (EvLobby (PmRoute _ p v)) s =
     (if get_str ''sdp_type'' v = Some ''offer'' \<and> offer_checked w p v s
      then (case get_str ''connect_req_id'' v of None \<Rightarrow> [] | Some r \<Rightarrow> [Use (ce_nanos w) r p])
      else [])"
| "tokens w _ s = []"

lemma quiet_allowances: "frame_all s' = frame_all s \<Longrightarrow> cl_allowances s' = cl_allowances s"
  by (simp add: frame_all_def)

lemmas kept = quiet [THEN quiet_allowances]

lemma connections_keep [simp]:
  "cl_allowances (forget_connection w p s) = cl_allowances s" "cl_allowances (close_peer_connection w p s) = cl_allowances s"
  "cl_allowances (remove_stale_peer_if_needed w p s) = cl_allowances s"
  "cl_allowances (replace_incomplete_session_if_needed w p r s) = cl_allowances s"
  "cl_allowances (track_peer w p d f s) = cl_allowances s" "cl_allowances (on_data_channel l s) = cl_allowances s"
proof -
  show f: "cl_allowances (forget_connection w p s) = cl_allowances s" for s
    by (simp add: forget_connection_def sync_cl_connections_def on_cl_stats_def cl_emit_def Let_def split: option.split)
  show c: "cl_allowances (close_peer_connection w p s) = cl_allowances s" for s
    by (simp add: close_peer_connection_def f end_negotiation_def)
  show "cl_allowances (remove_stale_peer_if_needed w p s) = cl_allowances s"
    "cl_allowances (replace_incomplete_session_if_needed w p r s) = cl_allowances s"
    by (simp_all add: remove_stale_peer_if_needed_def replace_incomplete_session_if_needed_def c split: option.split)
  show "cl_allowances (track_peer w p d f s) = cl_allowances s" "cl_allowances (on_data_channel l s) = cl_allowances s"
    by (simp_all add: track_peer_def sync_cl_connections_def on_data_channel_def split: option.split)
qed

lemma connect_keeps [simp]: "cl_allowances (connect_and_proxy w c cmd t r f s) = cl_allowances s"
  by (auto simp: connect_and_proxy_def Let_def kept try_begin_negotiation_def split: option.split prod.split)

lemma sent_keeps: "send_protocol_message w m s = (s', x) \<Longrightarrow> cl_allowances s' = cl_allowances s"
  using kept(8) [of w m s] by simp

lemma waits_keep [simp]:
  "cl_allowances (resume_brokered w i s) = cl_allowances s" "cl_allowances (finish_connecting w i s) = cl_allowances s"
  "cl_allowances (poll_delayed w i s) = cl_allowances s" "cl_allowances (handle_cl_proxy_cmd w c cmd s) = cl_allowances s"
  "cl_allowances (handle_peer_moderation w a s) = cl_allowances s" "cl_allowances (on_peer_banned w p s) = cl_allowances s"
  by (auto simp: resume_brokered_def finish_connecting_def poll_delayed_def timed_out_def open_outbound_def
      handle_cl_proxy_cmd_def handle_peer_moderation_def on_peer_banned_def Let_def kept
      split: option.split prod.split sum.split peer_moderation_action.split dest: sent_keeps)

lemma respond_tokens:
  "cl_allowances (respond_to_connect_offer w r accept g s) =
     (case (accept, g) of
        (True, Some (p, m)) \<Rightarrow> grant (fst (ce_nanos w)) (snd (ce_nanos w)) r p m (cl_allowances s)
      | _ \<Rightarrow> cl_allowances s)"
  by (auto simp: respond_to_connect_offer_def grant_connection_allowance_def Let_def kept split: option.split bool.split)

lemma offer_keeps: "cl_allowances (accept_offer w p v m s) = cl_allowances s"
  by (auto simp: accept_offer_def open_inbound_def Let_def kept split: option.split)

lemma offer_tokens: "cl_allowances (on_offer w p v s) = cl_allowances (fst (admit_offer w p v s))"
  by (simp add: on_offer_def offer_keeps case_prod_unfold split: option.split)

lemma tick_keeps: "cl_allowances (fst (cluster_step w EvTick s)) = cl_allowances s"
proof -
  have "cl_allowances s' = cl_allowances s" if "poll_and_advertise w False s = (s', x)" for s' x
    using quiet_allowances [OF quiet_advertise [of w False s]] that by simp
  then show ?thesis by (auto simp: kept split: prod.split option.split)
qed

definition token_run where
  "token_run es st = tok_run issue_allowance use_allowance clean_allowances es st"

lemma lobby_tokens:
  "cl_allowances (handle_protocol_message w m s) = fst (token_run (tokens w (EvLobby m) s) (cl_allowances s))"
proof (cases m)
  case (PmConnectOffer r model p flags)
  then show ?thesis
    by (auto simp: on_connect_offer_def Let_def respond_tokens kept token_run_def cluster_accepts_jobs_now_def cl_config_def
        case_prod_unfold)
next
  case (PmRoute t p v)
  then show ?thesis
    by (auto simp: on_route_def Let_def offer_tokens admit_offer_eq kept token_run_def case_prod_unfold unwrap_or_def
        split: option.splits)
qed (simp_all add: kept token_run_def)

text \<open>An event acts on the allowances as its tokens do.\<close>

lemma step_tokens:
  "cl_allowances (fst (cluster_step w e s)) = fst (token_run (tokens w e s) (cl_allowances s))"
proof (cases e)
  case (EvConnection a)
  then show ?thesis
    by (cases a) (auto simp: respond_tokens token_run_def case_prod_unfold split: option.split)
next
  case (EvLobby m)
  then show ?thesis using lobby_tokens by simp
next
  case EvTick
  then show ?thesis using tick_keeps by (simp add: token_run_def)
qed (simp_all add: kept token_run_def)

section \<open>Runs\<close>

text \<open>The requests approved during a run, the requests under which connections were let in.\<close>

definition approved_by :: "cluster_env \<Rightarrow> cluster_event \<Rightarrow> cluster_session \<Rightarrow> string list" where
  "approved_by w e s = concat (map (\<lambda>t. case t of Issue _ r _ \<Rightarrow> [r] | _ \<Rightarrow> []) (tokens w e s))"

definition let_in_by :: "cluster_env \<Rightarrow> cluster_event \<Rightarrow> cluster_session \<Rightarrow> string list" where
  "let_in_by w e s =
     (case e of
        EvLobby (PmRoute _ p v) \<Rightarrow>
          (if get_str ''sdp_type'' v = Some ''offer'' \<and> snd (admit_offer w p v s) \<noteq> None
           then [unwrap_or (get_str ''connect_req_id'' v) []] else [])
      | _ \<Rightarrow> [])"

fun along :: "(cluster_env \<Rightarrow> cluster_event \<Rightarrow> cluster_session \<Rightarrow> 'a list) \<Rightarrow> (cluster_env \<times> cluster_event) list
    \<Rightarrow> cluster_session \<Rightarrow> 'a list" where
  "along f [] s = []"
| "along f ((w, e) # es) s = f w e s @ (case cluster_step w e s of (s', go_on) \<Rightarrow> if go_on then along f es s' else [])"

lemma accepted_one: "accepted r (snd (token_run (tokens w e s) (cl_allowances s))) = count_list (let_in_by w e s) r"
proof (cases "\<exists>t p v. e = EvLobby (PmRoute t p v)")
  case True
  then show ?thesis
    by (auto simp: let_in_by_def admit_offer_eq token_run_def accepted_def case_prod_unfold unwrap_or_def split: option.splits)
next
  case False
  then show ?thesis
    by (cases "(w, e, s)" rule: tokens.cases)
      (auto simp: let_in_by_def token_run_def accepted_def case_prod_unfold split: option.splits protocol_message.splits)
qed

lemma issued_one: "issued r (tokens w e s) = count_list (approved_by w e s) r"
proof -
  have "issued r ts = count_list (concat (map (\<lambda>t. case t of Issue _ r _ \<Rightarrow> [r] | _ \<Rightarrow> []) ts)) r" for ts
    by (induction ts) (auto simp: issued_def split: token_event.split)
  then show ?thesis by (simp add: approved_by_def)
qed

lemma token_run_append:
  "token_run (xs @ ys) st =
     (fst (token_run ys (fst (token_run xs st))), snd (token_run xs st) @ snd (token_run ys (fst (token_run xs st))))"
  unfolding token_run_def by (induction xs arbitrary: st) (simp_all add: case_prod_unfold Let_def)

lemma tokens_along:
  "cl_allowances (cluster_run es s) = fst (token_run (along tokens es s) (cl_allowances s))
   \<and> accepted r (snd (token_run (along tokens es s) (cl_allowances s))) = count_list (along let_in_by es s) r
   \<and> issued r (along tokens es s) = count_list (along approved_by es s) r"
proof (induction es arbitrary: s)
  case Nil
  then show ?case by (simp add: token_run_def accepted_def issued_def)
next
  case (Cons x es)
  obtain w e where x: "x = (w, e)" by fastforce
  obtain s' go where st: "cluster_step w e s = (s', go)" by fastforce
  have al: "cl_allowances s' = fst (token_run (tokens w e s) (cl_allowances s))" using step_tokens [of w e s] st by simp
  show ?case
  proof (cases go)
    case True
    then show ?thesis
      using Cons.IH [of s'] accepted_one [of r w e s] issued_one [of r w e s]
      by (simp add: x st al token_run_append accepted_def issued_def)
  next
    case False
    then show ?thesis using accepted_one [of r w e s] issued_one [of r w e s] by (simp add: x st al)
  qed
qed

text \<open>C3: No connection without an approval of its own. In any run of a session, however its events are ordered and
  whatever the clocks say, at most as many offers are let in under a request id as approvals of that request were given,
  by the user or automatically; and what the session holds is what the one-time tokens would hold.\<close>

theorem connections_use_up_approvals:
  "count_list (along let_in_by es (cluster_session_new name cid net reg keys)) r
     \<le> count_list (along approved_by es (cluster_session_new name cid net reg keys)) r
   \<and> cl_allowances (cluster_run es (cluster_session_new name cid net reg keys))
     = fst (allowance_run (along tokens es (cluster_session_new name cid net reg keys))
         (allowance_store_new (CONNECTION_ALLOWANCE_TTL_SECS * 1000000000)))"
proof -
  define s where "s = cluster_session_new name cid net reg keys"
  have a: "cl_allowances s = allowance_store_new (CONNECTION_ALLOWANCE_TTL_SECS * 1000000000)"
    by (simp add: s_def cluster_session_new_def)
  have "accepted r (snd (token_run (along tokens es s) (cl_allowances s))) \<le> issued r (along tokens es s)"
    unfolding token_run_def
    by (rule ca.accepted_at_most_issued) (simp_all add: a store_wf_def allowance_store_new_def pending_allowance_def)
  with tokens_along [of es s r] show ?thesis by (simp add: s_def [symmetric] a token_run_def allowance_run_def)
qed

text \<open>C18: Who is let in. An offer makes a connection exactly when it names this cluster, its sender is not blocked, the
  cluster accepts jobs, the sender is attested or need not be, and it names an approval given to this sender that is
  still held and has not run out, and a connection can be made at all.\<close>

theorem offer_opens_connection_iff:
  assumes "store_wf (cl_allowances s)"
  shows "cl_next (on_offer w p v s) = cl_next s + 1 \<longleftrightarrow>
    ce_connects w \<and> offer_checked w p v s \<and>
    (case get_str ''connect_req_id'' v of
       None \<Rightarrow> False
     | Some r \<Rightarrow>
         (case pending_allowance (cl_allowances s) r of
            None \<Rightarrow> False
          | Some a \<Rightarrow> fst (ce_nanos w) < ca_expires_at a \<and> snd (ce_nanos w) < ca_expires_at a \<and> ca_requester_peer_id a = p))"
proof -
  have n: "cl_next (accept_offer w p v m s') = (if ce_connects w then cl_next s' + 1 else cl_next s')" for m s'
    by (auto simp: accept_offer_def open_inbound_def Let_def send_protocol_message_def cl_emit_def split: option.split)
  show ?thesis
    using validate_result [OF assms, of "fst (ce_nanos w)" "snd (ce_nanos w)" _ p]
    by (auto simp: on_offer_def admit_offer_eq n case_prod_unfold split: option.splits if_splits)
qed

theorem offer_opens_connection_iff_witness:
  "cl_next (on_offer toy_env ''p'' (json_obj [(''connect_req_id'', JStr ''r''), (''cluster_id'', JStr ''c'')])
     (toy_cluster\<lparr>cl_hints := [(''p'', 1)], cl_allowances := grant 0 0 ''r'' ''p'' ''m'' (cl_allowances toy_cluster)\<rparr>)) = 1"
proof -
  let ?v = "json_obj [(''connect_req_id'', JStr ''r''), (''cluster_id'', JStr ''c'')]"
  let ?s = "toy_cluster\<lparr>cl_hints := [(''p'', 1)], cl_allowances := grant 0 0 ''r'' ''p'' ''m'' (cl_allowances toy_cluster)\<rparr>"
  have w: "store_wf (cl_allowances ?s)" by (simp add: store_wf_def allowance_store_new_def grant_def purge_expired_def Let_def)
  have "offer_checked toy_env ''p'' ?v ?s" "get_str ''connect_req_id'' ?v = Some ''r''" "cl_next ?s = 0" "ce_connects toy_env"
    "case pending_allowance (cl_allowances ?s) ''r'' of None \<Rightarrow> False
     | Some a \<Rightarrow> fst (ce_nanos toy_env) < ca_expires_at a \<and> snd (ce_nanos toy_env) < ca_expires_at a \<and> ca_requester_peer_id a = ''p''"
    by (simp_all add: offer_checked_def payload_cluster_matches_def is_cl_peer_blocked_def peer_connection_allowed_def cl_config_def
        json_obj_def jmap_of_def get_str_def opt_or_def unwrap_or_def pending_allowance_def grant_def purge_expired_def
        allowance_store_new_def CONNECTION_ALLOWANCE_TTL_SECS_def Let_def)
  then show ?thesis using offer_opens_connection_iff [OF w, of toy_env "''p''" ?v] by simp
qed

end
