(* ===== verification/Cluster_Traffic.thy ===== *)
theory Cluster_Traffic
  imports Cluster_Examples Cluster_Flow
begin

text \<open>
  What goes over the channels of a cluster's session: which requests in the clear are served, a chunked request put together
  again, and an answer from the provider's model to the consumer's caller.
\<close>

section \<open>Which requests are served\<close>

lemma log_grows: "\<exists>as. cl_log (run_serve_effect w ch r p path m v e s) = cl_log s @ as"
proof -
  have "\<exists>as. cl_log (run_effect w ch r p path m v e s) = cl_log s @ as" for e
    by (cases e) (auto simp: send_encrypted_or_drop_def cl_emit_def on_cl_stats_def publish_usage_def record_usage_def
        send_protocol_message_def split: option.split)
  then show ?thesis by (cases e) (auto simp: cl_emit_def)
qed

lemma log_grows_fold: "\<exists>as. cl_log (fold (run_serve_effect w ch r p path m v) es s) = cl_log s @ as"
proof (induction es arbitrary: s)
  case (Cons e es)
  from log_grows [of w ch r p path m v e s] obtain as where "cl_log (run_serve_effect w ch r p path m v e s) = cl_log s @ as" ..
  moreover from Cons obtain bs where
    "cl_log (fold (run_serve_effect w ch r p path m v) es (run_serve_effect w ch r p path m v e s))
       = cl_log (run_serve_effect w ch r p path m v e s) @ bs" by blast
  ultimately show ?case by simp
qed simp

lemma forwarded:
  assumes "admission (provider_env_of w s) (cc_remote c) (cl_id s) (body_model body)
             (if cc_provider c then Some (cl_approved s) else None) = (None, approved)"
  shows "ClForward path (prepare_body (provider_env_of w s) body) (body_model body)
    \<in> set (cl_log (serve_plain w ch c r path body s))"
proof -
  define effs where "effs = fst (dispatch_proxy_request w (provider_env_of w s) ch (cc_remote c) (cl_id s) r path body
    (if cc_provider c then Some (cl_approved s) else None))"
  obtain st rest where e: "effs = SvCommon (StatsStart (cc_remote c) (body_model body) st)
      # SvCommon (ForwardChat path (prepare_body (provider_env_of w s) body) (body_model body)) # rest"
    using assms unfolding effs_def
    by (fastforce simp: dispatch_proxy_request_def Let_def case_prod_unfold split: sum.splits)
  define s1 where "s1 = s\<lparr>cl_approved := unwrap_or (snd (dispatch_proxy_request w (provider_env_of w s) ch (cc_remote c) (cl_id s)
    r path body (if cc_provider c then Some (cl_approved s) else None))) (cl_approved s)\<rparr>"
  have "cl_log (serve_plain w ch c r path body s)
      = cl_log (fold (run_serve_effect w ch r (cc_remote c) path (body_model body) 0) effs s1)"
    by (simp add: serve_plain_def effs_def s1_def case_prod_unfold Let_def)
  also have "\<exists>as. \<dots> = cl_log s @ ClForward path (prepare_body (provider_env_of w s) body) (body_model body) # as"
  proof -
    define s2 where "s2 = run_serve_effect w ch r (cc_remote c) path (body_model body) 0
      (SvCommon (StatsStart (cc_remote c) (body_model body) st)) s1"
    define s3 where "s3 = run_serve_effect w ch r (cc_remote c) path (body_model body) 0
      (SvCommon (ForwardChat path (prepare_body (provider_env_of w s) body) (body_model body))) s2"
    have "cl_log s3 = cl_log s @ [ClForward path (prepare_body (provider_env_of w s) body) (body_model body)]"
      by (simp add: s3_def s2_def s1_def cl_emit_def on_cl_stats_def)
    with log_grows_fold [of w ch r "cc_remote c" path "body_model body" 0 rest s3] show ?thesis
      by (auto simp: e s3_def s2_def)
  qed
  finally show ?thesis by (metis in_set_conv_decomp)
qed

text \<open>C30: Requests in the clear. With encryption on, a channel the other side opened refuses one; a channel this side opened
  serves it, though nobody approved that peer's use of this one's models, whatever model it asks for.\<close>

theorem clear_request_served_on_own_channel:
  assumes "hm_get (cl_channels s) ch = Some c" "e2ee_enabled (ce_env w)"
    and "cc_remote c \<notin> pe_blocked (provider_env_of w s)" "cluster_accepts_jobs_now s"
  shows "if cc_provider c
    then on_message w ch None (Some (DcProxyRequest r path body)) s
      = send_plain_or_drop w ch (DcProxyResponseError r ''Plaintext proxy rejected; upgrade to E2EE v2'') s
    else ClForward path (prepare_body (provider_env_of w s) body) (body_model body)
      \<in> set (cl_log (on_message w ch None (Some (DcProxyRequest r path body)) s))"
proof (cases "cc_provider c")
  case True
  with assms(1,2) show ?thesis by (simp add: on_message_def on_dc_message_def)
next
  case False
  have "admission (provider_env_of w s) (cc_remote c) (cl_id s) (body_model body) None = (None, None)"
    using assms(3,4) by (simp add: admission_def cluster_accepts_jobs_now_def provider_env_of_def)
  with False assms(1) forwarded [of w s c body None path ch r] show ?thesis
    by (simp add: on_message_def on_dc_message_def)
qed

theorem clear_request_served_on_own_channel_witness:
  "ClForward ''/api/chat'' (prepare_body (provider_env_of toy_env toy_connected) (JStr ''x'')) (body_model (JStr ''x''))
     \<in> set (cl_log (on_message toy_env 1 None (Some (DcProxyRequest ''r'' ''/api/chat'' (JStr ''x''))) toy_connected))"
proof -
  have "hm_get (cl_channels toy_connected) 1 = Some (new_channel ''p'' False)" "e2ee_enabled (ce_env toy_env)"
    "cc_remote (new_channel ''p'' False) \<notin> pe_blocked (provider_env_of toy_env toy_connected)"
    "cluster_accepts_jobs_now toy_connected" by (simp_all add: new_channel_def provider_env_of_def)
  from clear_request_served_on_own_channel [OF this, of "''r''" "''/api/chat''" "JStr ''x''"] show ?thesis
    by (simp add: new_channel_def)
qed

section \<open>A chunked request in the clear\<close>

lemma modify_insert: "hm_modify k f (hm_insert k v m) = hm_insert k (f v) m"
proof -
  have "hm_modify k f (hm_remove k m) = hm_remove k m"
    by (rule hm_modify_absent) simp
  then show ?thesis by (simp add: hm_insert_def hm_modify_def)
qed

lemma insert_insert: "hm_insert k v (hm_insert k v' m) = hm_insert k v m"
  by (simp add: hm_insert_def hm_remove_def)

lemma remove_insert: "hm_remove k (hm_insert k v m) = hm_remove k m"
  by (simp add: hm_insert_def hm_remove_def)

lemma modify_modify: "hm_modify k f (hm_modify k g m) = hm_modify k (f \<circ> g) m"
  by (auto simp: hm_modify_def)

lemma on_channel_twice: "on_channel ch f (on_channel ch g s) = on_channel ch (f \<circ> g) s"
  by (simp add: on_channel_def modify_modify)

lemma on_channel_get: "hm_get (cl_channels (on_channel ch f s)) ch = map_option f (hm_get (cl_channels s) ch)"
  by (simp add: on_channel_def)

definition holding :: "string \<Rightarrow> string \<Rightarrow> (nat \<times> string) list \<Rightarrow> channel_context \<Rightarrow> channel_context" where
  "holding r path chunks c = c\<lparr>cc_incoming := hm_insert r (path, chunks) (cc_incoming c)\<rparr>"

definition receive_all where
  "receive_all w ch ms s = fold (\<lambda>m. on_message w ch None (Some m)) ms s"

lemma on_dc_plain:
  "\<not> (cc_provider c \<and> e2ee_enabled (ce_env w)) \<or> clear_request m = None \<Longrightarrow> on_dc_message w ch c m s = on_plain_message w ch c m s"
  by (auto simp: on_dc_message_def split: bool.split)

lemma holding_sides [simp]: "cc_provider (holding r p h c) = cc_provider c" "cc_remote (holding r p h c) = cc_remote c"
  by (simp_all add: holding_def)

lemma chunks_held:
  assumes "hm_get (cl_channels s) ch = Some c" "\<not> (cc_provider c \<and> e2ee_enabled (ce_env w))"
  shows "receive_all w ch (map (\<lambda>(i, x). DcProxyRequestChunk r (as_u32 i) x) xs) (on_channel ch (holding r path held) s)
    = on_channel ch (holding r path (held @ map (\<lambda>(i, x). (as_u32 i, x)) xs)) s"
proof (induction xs arbitrary: held)
  case (Cons x xs)
  obtain i b where x: "x = (i, b)" by fastforce
  have "on_message w ch None (Some (DcProxyRequestChunk r (as_u32 i) b)) (on_channel ch (holding r path held) s)
      = on_channel ch (holding r path (held @ [(as_u32 i, b)])) s"
  proof -
    have "(\<lambda>c. c\<lparr>cc_incoming := hm_modify r (\<lambda>(path, chunks). (path, chunks @ [(as_u32 i, b)])) (cc_incoming c)\<rparr>) \<circ> holding r path held
        = holding r path (held @ [(as_u32 i, b)])"
      by (simp add: fun_eq_iff holding_def modify_insert)
    then show ?thesis
      using assms by (simp add: on_message_def on_dc_plain on_channel_get on_channel_twice)
  qed
  with Cons show ?case by (simp add: x receive_all_def)
qed (simp add: receive_all_def)

lemma numbered_sorted:
  assumes "length xs \<le> 2 ^ 32"
  shows "sort_by_key fst (map (\<lambda>(i, x). (as_u32 i, x)) (enumerate 0 xs)) = enumerate 0 xs"
proof -
  have "map (\<lambda>(i, x). (as_u32 i, x)) (enumerate 0 xs) = enumerate 0 xs"
    using assms by (intro map_idI) (auto simp: in_set_enumerate_eq as_u32_exact)
  moreover have "sort_by_key fst (enumerate 0 xs) = enumerate 0 xs"
    by (rule sort_distinct_keys) simp_all
  ultimately show ?thesis by simp
qed

text \<open>C17: A request in the clear, sent in chunks over a channel that serves such requests, is served as the body it was made
  from, and nothing of it stays behind.\<close>

theorem plain_request_reassembled:
  assumes "hm_get (cl_channels s) ch = Some c" "\<not> (cc_provider c \<and> e2ee_enabled (ce_env w))"
    and "ce_parse w body_str = Some body" "length (chunk_utf8 body_str MAX_DC_CHUNK_BYTES) \<le> 2 ^ 32"
  shows "receive_all w ch (request_messages r path body_str) s
    = serve_plain w ch c r path body (on_channel ch (\<lambda>c. c\<lparr>cc_incoming := hm_remove r (cc_incoming c)\<rparr>) s)"
proof -
  define xs where "xs = enumerate 0 (chunk_utf8 body_str MAX_DC_CHUNK_BYTES)"
  define done' where "done' = holding r path (map (\<lambda>(i, x). (as_u32 i, x)) xs)"
  have start: "on_message w ch None (Some (DcProxyRequestStart r path)) s = on_channel ch (holding r path []) s"
    using assms(1,2) by (simp add: on_message_def on_dc_plain holding_def [abs_def])
  have chunks: "receive_all w ch (map (\<lambda>(i, x). DcProxyRequestChunk r (as_u32 i) x) xs) (on_channel ch (holding r path []) s)
      = on_channel ch done' s"
    using chunks_held [OF assms(1,2), of r xs path "[]"] by (simp add: done'_def)
  have joined: "concat (map snd (sort_by_key fst (map (\<lambda>(i, x). (as_u32 i, x)) xs))) = body_str"
    using numbered_sorted [OF assms(4)] concat_chunk_utf8_from [of body_str MAX_DC_CHUNK_BYTES 0]
    by (simp add: xs_def chunk_utf8_def)
  have c: "(\<lambda>c. c\<lparr>cc_incoming := hm_remove r (cc_incoming c)\<rparr>) \<circ> done' = (\<lambda>c. c\<lparr>cc_incoming := hm_remove r (cc_incoming c)\<rparr>)"
    by (simp add: fun_eq_iff done'_def holding_def remove_insert)
  have same: "serve_plain w ch (done' c) r path body s' = serve_plain w ch c r path body s'" for s'
    by (simp add: serve_plain_def done'_def holding_def)
  have held: "hm_get (cc_incoming (done' c)) r = Some (path, map (\<lambda>(i, x). (as_u32 i, x)) xs)"
    and sides: "cc_provider (done' c) = cc_provider c" by (simp_all add: done'_def) (simp add: holding_def)
  have "on_message w ch None (Some (DcProxyRequestEnd r)) (on_channel ch done' s)
      = serve_plain w ch c r path body (on_channel ch (\<lambda>c. c\<lparr>cc_incoming := hm_remove r (cc_incoming c)\<rparr>) s)"
    using assms(1,2,3) joined
    by (simp add: on_message_def on_dc_plain on_channel_get end_plain_request_def on_channel_twice c same Let_def held sides)
  with start chunks show ?thesis
    by (simp add: request_messages_def receive_all_def xs_def)
qed

theorem plain_request_reassembled_witness:
  "receive_all toy_env 1 (request_messages ''r'' ''/api/chat'' ''{}'') toy_connected
   = serve_plain toy_env 1 (new_channel ''p'' False) ''r'' ''/api/chat'' (JStr ''{}'')
       (on_channel 1 (\<lambda>c. c\<lparr>cc_incoming := hm_remove ''r'' (cc_incoming c)\<rparr>) toy_connected)"
proof (rule plain_request_reassembled)
  show "hm_get (cl_channels toy_connected) 1 = Some (new_channel ''p'' False)" by simp
  have "length (chunk_utf8 ''{}'' MAX_DC_CHUNK_BYTES) = 1" by code_simp
  then show "length (chunk_utf8 ''{}'' MAX_DC_CHUNK_BYTES) \<le> 2 ^ 32" by simp
qed (simp_all add: toy_env_def new_channel_def)


section \<open>An answer in the clear\<close>

definition sent_in :: "serve_effect list \<Rightarrow> data_channel_message list" where
  "sent_in effs = concat (map (\<lambda>e. case e of SvPlain m \<Rightarrow> [m] | SvCommon _ \<Rightarrow> []) effs)"

definition to_caller :: "nat \<Rightarrow> cluster_action list \<Rightarrow> (string + string) list" where
  "to_caller c acts = concat (map (\<lambda>a. case a of ClCaller c' m \<Rightarrow> if c' = c then [m] else [] | _ \<Rightarrow> []) acts)"

text \<open>The pieces an answer is sent in.\<close>

definition answer_pieces :: "string list \<Rightarrow> string list" where
  "answer_pieces chunks = concat (map (\<lambda>b. chunk_utf8 b MAX_DC_CHUNK_BYTES) (filter utf8_valid chunks))"

lemma concat_answer_pieces: "concat (answer_pieces chunks) = concat (filter utf8_valid chunks)"
proof -
  have "concat (chunk_utf8 b MAX_DC_CHUNK_BYTES) = b" for b
    using concat_chunk_utf8_from [of b MAX_DC_CHUNK_BYTES 0] by (simp add: chunk_utf8_def)
  then have "concat (concat (map (\<lambda>b. chunk_utf8 b MAX_DC_CHUNK_BYTES) bs)) = concat bs" for bs by (induction bs) simp_all
  then show ?thesis by (simp add: answer_pieces_def)
qed

lemma send_until_all: "(\<And>m. ok m) \<Longrightarrow> send_until ok ms = (ms, True)"
  by (induction ms) simp_all

lemma sent_in_simps:
  "sent_in (xs @ ys) = sent_in xs @ sent_in ys" "sent_in (SvCommon e # xs) = sent_in xs" "sent_in [] = []"
  "sent_in (map SvPlain ms) = ms" "sent_in (SvPlain m # xs) = m # sent_in xs"
  "sent_in (map (SvPlain \<circ> f) ys) = map f ys"
  by (simp_all add: sent_in_def comp_def)

lemma sent_stream:
  assumes "\<And>m. send_dc_message w ch m"
  shows "sent_in (fst (stream_plain w ch r bs buf)) = map (DcProxyResponseChunk r) (answer_pieces bs)"
proof (induction bs arbitrary: buf)
  case (Cons b bs)
  show ?case
    using Cons
    by (simp add: answer_pieces_def sent_in_simps(1-5) send_proxy_response_chunk_def send_until_all assms case_prod_unfold
        Let_def del: map_map)
qed (simp add: answer_pieces_def sent_in_simps)

lemma sent_answer:
  assumes "admission env consumer cid (body_model body) approved = (None, approved')"
    and "pe_answer env path (prepare_body env body) (body_model body) = Inr chunks" "\<And>m. send_dc_message w ch m"
  shows "sent_in (fst (dispatch_proxy_request w env ch consumer cid r path body approved))
    = map (DcProxyResponseChunk r) (answer_pieces chunks) @ [DcProxyResponseDone r]"
  using assms(1,2) sent_stream [OF assms(3), of r chunks "[]"]
  by (simp add: dispatch_proxy_request_def Let_def case_prod_unfold sent_in_simps sent_plain_def assms(3))

lemma part_received:
  fixes w x
  assumes "hm_get (cl_channels s) ch = Some c" "\<not> cc_provider c" "hm_get (cl_requests s) r = Some caller"
    and "hm_get (cl_exchanges s) r = Some meta"
  defines "s' \<equiv> on_message w ch None (Some (DcProxyResponseChunk r x)) s"
  shows "cl_channels s' = cl_channels s" "cl_requests s' = cl_requests s" "cl_log s' = cl_log s @ [ClCaller caller (Inr x)]"
    "ns_store (cl_net s') = ns_store (cl_net s)" "cl_app s' = cl_app s"
    "hm_get (cl_exchanges s') r =
       Some (meta\<lparr>em_bytes_received := em_bytes_received meta + length x, em_buffer := em_buffer meta @ x\<rparr>)"
  using assms(1-4)
  by (simp_all add: s'_def on_message_def on_dc_plain count_part_def tell_request_def on_cl_stats_def cl_tell_def cl_emit_def
      cl_app_def accumulate_and_parse_usage_def case_prod_unfold Let_def)

lemma parts_received:
  assumes "hm_get (cl_channels s) ch = Some c" "\<not> cc_provider c" "hm_get (cl_requests s) r = Some caller"
    and "hm_get (cl_exchanges s) r = Some meta"
  shows "cl_channels (receive_all w ch (map (DcProxyResponseChunk r) xs) s) = cl_channels s
    \<and> cl_requests (receive_all w ch (map (DcProxyResponseChunk r) xs) s) = cl_requests s
    \<and> cl_log (receive_all w ch (map (DcProxyResponseChunk r) xs) s) = cl_log s @ map (\<lambda>x. ClCaller caller (Inr x)) xs
    \<and> ns_store (cl_net (receive_all w ch (map (DcProxyResponseChunk r) xs) s)) = ns_store (cl_net s)
    \<and> cl_app (receive_all w ch (map (DcProxyResponseChunk r) xs) s) = cl_app s
    \<and> hm_get (cl_exchanges (receive_all w ch (map (DcProxyResponseChunk r) xs) s)) r =
        Some (meta\<lparr>em_bytes_received := em_bytes_received meta + length (concat xs), em_buffer := em_buffer meta @ concat xs\<rparr>)"
  using assms
proof (induction xs arbitrary: s meta)
  case (Cons x xs)
  define s1 where "s1 = on_message w ch None (Some (DcProxyResponseChunk r x)) s"
  note p = part_received [OF Cons.prems, of w x, folded s1_def]
  have "receive_all w ch (map (DcProxyResponseChunk r) (x # xs)) s = receive_all w ch (map (DcProxyResponseChunk r) xs) s1"
    by (simp add: receive_all_def s1_def)
  moreover note Cons.IH [of s1 "meta\<lparr>em_bytes_received := em_bytes_received meta + length x, em_buffer := em_buffer meta @ x\<rparr>"]
  ultimately show ?case using p Cons.prems by simp
qed (simp add: receive_all_def)

lemma to_caller_simps:
  "to_caller c (xs @ ys) = to_caller c xs @ to_caller c ys" "to_caller c (map (\<lambda>x. ClCaller c (Inr x)) zs) = map Inr zs"
  "to_caller c [] = []" "to_caller c [ClLobby m] = []"
  by (simp_all add: to_caller_def comp_def)

lemma exchange_finished:
  fixes w
  assumes "hm_get (cl_channels s) ch = Some c" "\<not> cc_provider c" "hm_get (cl_exchanges s) r = Some meta"
  defines "s' \<equiv> on_message w ch None (Some (DcProxyResponseDone r)) s"
    and "u \<equiv> buffer_tokens w (em_buffer meta)"
  shows "hm_get (cl_requests s') r = None \<and> hm_get (cl_exchanges s') r = None \<and> to_caller k (cl_log s') = to_caller k (cl_log s)
    \<and> ns_store (cl_net s') = record_local_report (mw_unix (ce_time w)) r CONSUMER (app_peer_id (cl_app s)) (em_remote_peer_id meta)
        (em_model meta) (tu_prompt u) (tu_completion u) (tu_total u) (ns_store (cl_net s))"
  using assms(1-3)
  by (simp add: s'_def u_def on_message_def on_dc_plain drop_request_def finish_exchange_def publish_usage_def record_usage_def
      on_cl_stats_def send_protocol_message_def cl_emit_def cl_app_def to_caller_simps Let_def split: option.split)



end
