(* ===== verification/Server_Secrets.thy ===== *)
theory Server_Secrets
  imports Proxy_Crypto
begin

text \<open>
  The keys and admin tokens of model servers (\<open>tx_db/secrets.rs\<close>), kept encrypted in the peer's database under a key made
  of the host's name and the peer's identity. The cipher, the hash and the random nonce are arguments; whether the
  database's \<open>insert\<close> overwrites a record of the same key or fails is the argument \<open>overwrites\<close>.
\<close>

section \<open>Encryption\<close>

definition machine_secret_key :: "primitives \<Rightarrow> environment \<Rightarrow> string option \<Rightarrow> string option \<Rightarrow> string" where
  "machine_secret_key P env peer service =
     (let hostname = unwrap_or (opt_or (env ''COMPUTERNAME'') (env ''HOSTNAME'')) ''mtrxai''
      in prim_sha256 P (''mtrxai-llm-server-secret-v1'' @ hostname @ unwrap_or peer [] @ unwrap_or service []))"

record secret_record =
  sec_nonce :: string
  sec_ciphertext :: string

definition encrypt_api_key ::
  "primitives \<Rightarrow> environment \<Rightarrow> string option \<Rightarrow> string \<Rightarrow> string option \<Rightarrow> string option \<Rightarrow> secret_record option" where
  "encrypt_api_key P env nonce plaintext peer service =
     Option.bind nonce (\<lambda>n. map_option (\<lambda>c. \<lparr>sec_nonce = n, sec_ciphertext = c\<rparr>)
       (prim_seal P (machine_secret_key P env peer service) n [] plaintext))"

definition decrypt_api_key ::
  "primitives \<Rightarrow> environment \<Rightarrow> secret_record \<Rightarrow> string option \<Rightarrow> string option \<Rightarrow> string option" where
  "decrypt_api_key P env r peer service =
     (case prim_open P (machine_secret_key P env peer service) (sec_nonce r) [] (sec_ciphertext r) of
        None \<Rightarrow> None
      | Some m \<Rightarrow> if utf8_valid m then Some m else None)"

section \<open>The two tables\<close>

record server_secrets =
  ss_api_keys :: "(string, secret_record) hmap"
  ss_admin_tokens :: "(string, secret_record) hmap"

text \<open>\<open>None\<close> is a failure; the tables are then as they were.\<close>

definition insert_secret ::
  "bool \<Rightarrow> string \<Rightarrow> secret_record \<Rightarrow> (string, secret_record) hmap \<Rightarrow> (string, secret_record) hmap option" where
  "insert_secret overwrites i r m = (if hm_contains m i \<and> \<not> overwrites then None else Some (hm_insert i r m))"

definition read_secret ::
  "primitives \<Rightarrow> environment \<Rightarrow> (string, secret_record) hmap \<Rightarrow> string \<Rightarrow> string option \<Rightarrow> string option
     \<Rightarrow> unit + string option" where
  "read_secret P env m i peer service =
     (case hm_get m i of
        None \<Rightarrow> Inr None
      | Some r \<Rightarrow> (case decrypt_api_key P env r peer service of None \<Rightarrow> Inl () | Some k \<Rightarrow> Inr (Some k)))"

definition put_server_api_key ::
  "primitives \<Rightarrow> environment \<Rightarrow> bool \<Rightarrow> string option \<Rightarrow> string \<Rightarrow> string \<Rightarrow> string option \<Rightarrow> string option
     \<Rightarrow> server_secrets \<Rightarrow> server_secrets option" where
  "put_server_api_key P env overwrites nonce i key peer service st =
     Option.bind (encrypt_api_key P env nonce key peer service)
       (\<lambda>r. map_option (\<lambda>m. st\<lparr>ss_api_keys := m\<rparr>) (insert_secret overwrites i r (ss_api_keys st)))"

definition get_server_api_key ::
  "primitives \<Rightarrow> environment \<Rightarrow> server_secrets \<Rightarrow> string \<Rightarrow> string option \<Rightarrow> string option \<Rightarrow> unit + string option" where
  "get_server_api_key P env st i peer service = read_secret P env (ss_api_keys st) i peer service"

definition delete_server_api_key :: "string \<Rightarrow> server_secrets \<Rightarrow> server_secrets" where
  "delete_server_api_key i st = st\<lparr>ss_api_keys := hm_remove i (ss_api_keys st)\<rparr>"

definition has_server_api_key :: "server_secrets \<Rightarrow> string \<Rightarrow> bool" where
  "has_server_api_key st i = hm_contains (ss_api_keys st) i"

definition put_server_admin_token ::
  "primitives \<Rightarrow> environment \<Rightarrow> bool \<Rightarrow> string option \<Rightarrow> string \<Rightarrow> string \<Rightarrow> string option \<Rightarrow> string option
     \<Rightarrow> server_secrets \<Rightarrow> server_secrets option" where
  "put_server_admin_token P env overwrites nonce i token peer service st =
     Option.bind (encrypt_api_key P env nonce token peer service)
       (\<lambda>r. map_option (\<lambda>m. st\<lparr>ss_admin_tokens := m\<rparr>) (insert_secret overwrites i r (ss_admin_tokens st)))"

definition get_server_admin_token ::
  "primitives \<Rightarrow> environment \<Rightarrow> server_secrets \<Rightarrow> string \<Rightarrow> string option \<Rightarrow> string option \<Rightarrow> unit + string option" where
  "get_server_admin_token P env st i peer service = read_secret P env (ss_admin_tokens st) i peer service"

definition delete_server_admin_token :: "string \<Rightarrow> server_secrets \<Rightarrow> server_secrets" where
  "delete_server_admin_token i st = st\<lparr>ss_admin_tokens := hm_remove i (ss_admin_tokens st)\<rparr>"

definition has_server_admin_token :: "server_secrets \<Rightarrow> string \<Rightarrow> bool" where
  "has_server_admin_token st i = hm_contains (ss_admin_tokens st) i"

section \<open>What was put is what is read\<close>

text \<open>A key is read back as it was stored, as long as the identity is the same and the cipher opens what it sealed; under
  an identity whose key does not open it, reading fails.\<close>

lemma secret_read_back:
  assumes "put_server_api_key P env ow nonce i key peer service st = Some st'"
    and "\<forall>k n m c. prim_seal P k n [] m = Some c \<longrightarrow> prim_open P k n [] c = Some m" "utf8_valid key"
  shows "get_server_api_key P env st' i peer service = Inr (Some key)"
    and "j \<noteq> i \<Longrightarrow> get_server_api_key P env st' j p' s' = get_server_api_key P env st j p' s'"
    and "get_server_admin_token P env st' j p' s' = get_server_admin_token P env st j p' s'"
  using assms
  by (auto simp: put_server_api_key_def get_server_api_key_def get_server_admin_token_def read_secret_def encrypt_api_key_def
      decrypt_api_key_def insert_secret_def bind_eq_Some_conv split: if_splits)

lemma secret_lost:
  assumes "put_server_api_key P env ow nonce i key peer service st = Some st'"
    and "\<forall>k k' n m c. prim_seal P k n [] m = Some c \<and> k \<noteq> k' \<longrightarrow> prim_open P k' n [] c = None"
    and "machine_secret_key P env peer service \<noteq> machine_secret_key P env peer' service'"
  shows "get_server_api_key P env st' i peer' service' = Inl ()"
  using assms
  by (auto simp: put_server_api_key_def get_server_api_key_def read_secret_def encrypt_api_key_def
      decrypt_api_key_def insert_secret_def bind_eq_Some_conv split: if_splits)

end
