(* ===== verification/Lobby_Client.thy ===== *)
theory Lobby_Client
  imports Client_Bootstrap Lobby_Url Json_Value
begin

text \<open>
  The peer's requests to the lobby over HTTP (\<open>client_config.rs\<close>): what is asked of which address, and how an answer is
  read. The lobby, the proofs a request carries and the decoding of an answer's body are arguments; an error is its
  text. A host that makes the address panic does not get past start-up, which normalises it.
\<close>

record cluster_list_view =
  clv_cluster_id :: string
  clv_name :: "string option"
  clv_visibility :: string
  clv_continent :: "string option"
  clv_password_protected :: bool
  clv_required_attestation_flags :: nat

record lobby_world =
  lw_get :: "string \<Rightarrow> (string \<times> string) list \<Rightarrow> string + (nat \<times> string)"
  lw_post :: "string \<Rightarrow> json \<Rightarrow> string + (nat \<times> string)"
  lw_status :: "nat \<Rightarrow> string"
  lw_tls :: "string option"
  lw_uuid :: "string \<Rightarrow> string option"
  lw_attestation :: "string + json option"
  lw_public_key :: "string + string"
  lw_peer_auth :: "string \<Rightarrow> json option"
  lw_query_auth :: "string \<Rightarrow> string + (string \<times> string)"
  lw_registration :: "string \<Rightarrow> string + register_peer_response"
  lw_cluster :: "string \<Rightarrow> string + cluster_response"
  lw_clusters :: "string \<Rightarrow> string + cluster_list_view list"
  lw_config :: "string \<Rightarrow> string + string"
  lw_credits :: "string \<Rightarrow> int option"
  lw_bad_uuid :: string

definition lobby_url :: "lobby_world \<Rightarrow> string \<Rightarrow> string \<Rightarrow> string" where
  "lobby_url w host path = unwrap_or (lobby_api_url (lw_tls w) host path) []"

definition lobby_success :: "nat \<Rightarrow> bool" where
  "lobby_success n = (200 \<le> n \<and> n < 300)"

text \<open>The answer of the lobby: the error of the connection, a status that is not a success, or the body.\<close>

definition read_answer :: "lobby_world \<Rightarrow> string \<Rightarrow> (string \<Rightarrow> string + 'a) \<Rightarrow> string + (nat \<times> string) \<Rightarrow> string + 'a" where
  "read_answer w what decode answer =
     (case answer of
        Inl e \<Rightarrow> Inl e
      | Inr (status, body) \<Rightarrow>
          if lobby_success status then decode body
          else Inl (what @ '' ('' @ lw_status w status @ ''): '' @ body))"

definition has_words :: "string \<Rightarrow> bool" where
  "has_words s = (trim s \<noteq> [])"

abbreviation text_or_null :: "string option \<Rightarrow> json" where
  "text_or_null \<equiv> json_opt JStr"

section \<open>Registration\<close>

definition beta_signup_with_lobby ::
  "lobby_world \<Rightarrow> string \<Rightarrow> string \<Rightarrow> string \<Rightarrow> string \<Rightarrow> bool \<Rightarrow> string + unit" where
  "beta_signup_with_lobby w host email name password terms =
     read_answer w ''Beta signup failed'' (\<lambda>_. Inr ())
       (lw_post w (lobby_url w host ''/api/beta/signup'')
         (json_obj [(''email'', JStr email), (''service_name'', JStr name), (''service_password'', JStr password),
           (''terms_accepted'', JBool terms)]))"

definition unreachable :: "string \<Rightarrow> string + (nat \<times> string) \<Rightarrow> string + (nat \<times> string)" where
  "unreachable url answer = (case answer of Inl e \<Rightarrow> Inl (''Lobby unreachable at '' @ url @ '': '' @ e) | Inr r \<Rightarrow> Inr r)"

definition fetch_lobby_config :: "lobby_world \<Rightarrow> string \<Rightarrow> string + string" where
  "fetch_lobby_config w host =
     (let url = lobby_url w host ''/api/public/config''
      in read_answer w ''Lobby config fetch failed'' (lw_config w) (unreachable url (lw_get w url [])))"

text \<open>The proof that the peer holds its device key goes with a peer id that is not blank, when one can be made.\<close>

definition register_body ::
  "lobby_world \<Rightarrow> json option \<Rightarrow> string \<Rightarrow> string option \<Rightarrow> string option \<Rightarrow> string option \<Rightarrow> bool \<Rightarrow> string option \<Rightarrow> json" where
  "register_body w attestation pk peer_id name password create_new email =
     json_obj ([(''peer_id'', text_or_null (Option.bind peer_id (lw_uuid w))),
         (''service_name'', text_or_null (opt_filter has_words name)),
         (''service_password'', text_or_null (opt_filter has_words password)),
         (''create_new_service'', JBool create_new),
         (''contact_email'', text_or_null (opt_filter has_words email))]
       @ (case attestation of None \<Rightarrow> [] | Some p \<Rightarrow> [(''attestation'', p)])
       @ [(''public_key'', JStr pk)]
       @ (case Option.bind (opt_filter has_words peer_id) (lw_peer_auth w) of None \<Rightarrow> [] | Some a \<Rightarrow> [(''peer_auth'', a)]))"

definition register_with_lobby ::
  "lobby_world \<Rightarrow> string \<Rightarrow> string option \<Rightarrow> string option \<Rightarrow> string option \<Rightarrow> bool \<Rightarrow> string option
     \<Rightarrow> string + register_peer_response" where
  "register_with_lobby w host peer_id name password create_new email =
     (let url = lobby_url w host ''/api/peers/register''
      in case lw_attestation w of
           Inl e \<Rightarrow> Inl e
         | Inr attestation \<Rightarrow>
             (case lw_public_key w of
                Inl e \<Rightarrow> Inl e
              | Inr pk \<Rightarrow>
                  read_answer w ''Peer registration failed'' (lw_registration w)
                    (unreachable url (lw_post w url
                      (register_body w attestation pk peer_id name password create_new email)))))"

text \<open>The configuration is changed in place, so it comes with an error too.\<close>

definition sync_peer_device_key_with_lobby ::
  "lobby_world \<Rightarrow> environment \<Rightarrow> (client_config \<Rightarrow> bool) \<Rightarrow> client_config \<Rightarrow> client_config \<times> (string + unit)" where
  "sync_peer_device_key_with_lobby w env saved cfg =
     (case opt_filter has_words (cfg_peer_id cfg) of
        None \<Rightarrow> (cfg, Inr ())
      | Some peer_id \<Rightarrow>
          (let (name, password) = service_credentials_for_registration env
           in case register_with_lobby w (cfg_lobby_host cfg) (Some peer_id) name password False None of
                Inl e \<Rightarrow> (cfg, Inl e)
              | Inr reg \<Rightarrow>
                  (let cfg = apply_register_response reg cfg in (cfg, if saved cfg then Inr () else Inl ''save''))))"

definition fetch_service_credits :: "lobby_world \<Rightarrow> string \<Rightarrow> string \<Rightarrow> int option" where
  "fetch_service_credits w host service_id =
     (case lw_uuid w service_id of
        None \<Rightarrow> None
      | Some i \<Rightarrow>
          (case lw_get w (lobby_url w host (''/api/public/services/'' @ i @ ''/credits'')) [] of
             Inl _ \<Rightarrow> None
           | Inr (status, body) \<Rightarrow> if lobby_success status then lw_credits w body else None))"

definition probe_lobby_reachable :: "lobby_world \<Rightarrow> string \<Rightarrow> bool" where
  "probe_lobby_reachable w host =
     (case lw_get w (lobby_url w host ''/api/public/clusters'') [] of
        Inl _ \<Rightarrow> False | Inr (status, _) \<Rightarrow> lobby_success status)"

section \<open>Clusters\<close>

definition list_clusters_with_lobby :: "lobby_world \<Rightarrow> string \<Rightarrow> string option \<Rightarrow> string + cluster_list_view list" where
  "list_clusters_with_lobby w host peer_id =
     (let url = lobby_url w host ''/api/clusters'';
          ask = (\<lambda>query. read_answer w ''List clusters failed'' (lw_clusters w) (lw_get w url query))
      in case opt_filter has_words peer_id of
           None \<Rightarrow> ask []
         | Some p \<Rightarrow>
             (case lw_query_auth w p of
                Inl e \<Rightarrow> Inl e
              | Inr (timestamp, signature) \<Rightarrow>
                  ask [(''peer_id'', p), (''timestamp'', timestamp), (''signature'', signature)]))"

definition create_cluster_with_lobby ::
  "lobby_world \<Rightarrow> string \<Rightarrow> string option \<Rightarrow> string \<Rightarrow> string option \<Rightarrow> string option \<Rightarrow> nat option \<Rightarrow> string + cluster_response" where
  "create_cluster_with_lobby w host name visibility created_by password flags =
     read_answer w ''Cluster creation failed'' (lw_cluster w)
       (lw_post w (lobby_url w host ''/api/clusters/create'')
         (json_obj ([(''name'', text_or_null (opt_filter has_words name)), (''visibility'', JStr visibility),
             (''created_by_peer_id'', text_or_null (Option.bind created_by (lw_uuid w))),
             (''password'', text_or_null (opt_filter has_words password))]
           @ (case flags of None \<Rightarrow> [] | Some n \<Rightarrow> [(''required_attestation_flags'', json_nat n)]))))"

definition join_public_cluster_by_name :: "lobby_world \<Rightarrow> string \<Rightarrow> string \<Rightarrow> string option \<Rightarrow> string + cluster_response" where
  "join_public_cluster_by_name w host name password =
     read_answer w ''Cluster join failed'' (lw_cluster w)
       (lw_post w (lobby_url w host ''/api/clusters/join'')
         (json_obj [(''name'', JStr (trim name)), (''password'', text_or_null (opt_filter has_words password))]))"

definition join_private_cluster ::
  "lobby_world \<Rightarrow> string \<Rightarrow> string \<Rightarrow> string \<Rightarrow> string option \<Rightarrow> string + cluster_response" where
  "join_private_cluster w host cluster_id name password =
     (case lw_uuid w cluster_id of
        None \<Rightarrow> Inl (lw_bad_uuid w)
      | Some i \<Rightarrow>
          read_answer w ''Private cluster join failed'' (lw_cluster w)
            (lw_post w (lobby_url w host ''/api/clusters/join'')
              (json_obj [(''cluster_id'', JStr i), (''name'', JStr (trim name)),
                (''password'', text_or_null (opt_filter has_words password))])))"

definition join_cluster_with_lobby :: "lobby_world \<Rightarrow> string \<Rightarrow> string \<Rightarrow> string option \<Rightarrow> string + cluster_response" where
  "join_cluster_with_lobby w host cluster_id password =
     (case lw_uuid w cluster_id of
        None \<Rightarrow> Inl (lw_bad_uuid w)
      | Some i \<Rightarrow>
          read_answer w ''Cluster join failed'' (lw_cluster w)
            (lw_post w (lobby_url w host ''/api/clusters/join'')
              (json_obj [(''cluster_id'', JStr i), (''password'', text_or_null (opt_filter has_words password))])))"

end
