(* ===== verification/Api_State.thy ===== *)
theory Api_State
  imports Session_Managers Proxy_Chat Server_Secrets Lobby_Client
begin

text \<open>
  The HTTP interface of the peer's own pages (\<open>api/mod.rs\<close>): the state its handlers work on, and what they share.

  A handler takes the state and gives the new one with its answer: a status and a text, or what it found. Handlers
  run one after the other. What a handler tells other tasks over a channel is appended to \<open>ap_log\<close>. The outside, the
  record \<open>api_world\<close>, holds the lobby, the model servers, the clocks and the fate of writing the configuration's file.
\<close>

datatype api_signal =
    ClustersSignal
  | SwarmsSignal
  | SetupCompleteSignal
  | SwarmsChangedSignal
  | ModerationSignal peer_moderation_action
  | ModelStartSignal bool model_start_action
  | ConnectionSignal connection_action
  | RunSignal string string "string option"
  | CellRunSignal string string string string string

record api_state =
  ap_net :: network_state
  ap_registry :: llm_registry
  ap_secrets :: server_secrets
  ap_setup :: bool
  ap_version :: nat
  ap_insecure_tls :: bool
  ap_lobby_host :: string
  ap_log :: "api_signal list"

record api_world =
  aw_lobby :: lobby_world
  aw_servers :: server_world
  aw_http :: proxy_world
  aw_cell :: "string \<Rightarrow> string option \<Rightarrow> json option \<Rightarrow> string + upstream"
  aw_show :: "string \<Rightarrow> string \<Rightarrow> json option"
  aw_time :: manager_world
  aw_env :: environment
  aw_prims :: primitives
  aw_nonce :: "string option"
  aw_overwrites :: bool
  aw_saved :: "client_config \<Rightarrow> bool"
  aw_save_error :: string
  aw_store_error :: string
  aw_sends :: bool
  aw_send_error :: string
  aw_tls_client :: bool
  aw_uuids :: "string \<times> string"
  aw_bootnodes :: "string list"
  aw_catalog :: "string \<Rightarrow> (string \<times> string) list \<Rightarrow> string + (nat \<times> (string + json))"
  aw_show_error :: "registry_error \<Rightarrow> string"
  aw_show_entry :: "entry_error \<Rightarrow> string"
  aw_health_error :: "llm_backend \<Rightarrow> string"
  aw_show_status :: "nat \<Rightarrow> string"
  aw_answer_text :: "upstream \<Rightarrow> string"
  aw_print_text :: "json \<Rightarrow> string"

type_synonym 'a answer = "(nat \<times> string) + 'a"

abbreviation bad_request :: "string \<Rightarrow> 'a answer" where "bad_request m \<equiv> Inl (400, m)"
abbreviation bad_gateway :: "string \<Rightarrow> 'a answer" where "bad_gateway m \<equiv> Inl (502, m)"
abbreviation no_such :: "string \<Rightarrow> 'a answer" where "no_such m \<equiv> Inl (404, m)"

definition ap_config :: "api_state \<Rightarrow> client_config" where "ap_config s = ns_config (ap_net s)"
definition ap_app :: "api_state \<Rightarrow> app_state" where "ap_app s = ns_app (ap_net s)"

definition on_config :: "(client_config \<Rightarrow> client_config) \<Rightarrow> api_state \<Rightarrow> api_state" where
  "on_config f s = s\<lparr>ap_net := (ap_net s)\<lparr>ns_config := f (ns_config (ap_net s))\<rparr>\<rparr>"

definition on_ap_app :: "(app_state \<Rightarrow> app_state) \<Rightarrow> api_state \<Rightarrow> api_state" where
  "on_ap_app f s = s\<lparr>ap_net := (ap_net s)\<lparr>ns_app := f (ns_app (ap_net s))\<rparr>\<rparr>"

definition signal :: "api_signal list \<Rightarrow> api_state \<Rightarrow> api_state" where
  "signal xs s = s\<lparr>ap_log := ap_log s @ xs\<rparr>"

text \<open>The server's key is read from the peer's own store, under its identity now.\<close>

definition servers_seen :: "api_world \<Rightarrow> api_state \<Rightarrow> server_world" where
  "servers_seen w s = (aw_servers w)\<lparr>sw_api_key :=
     \<lambda>i. get_server_api_key (aw_prims w) (aw_env w) (ap_secrets s) i (cfg_peer_id (ap_config s)) (cfg_service_id (ap_config s))\<rparr>"

section \<open>What handlers share\<close>

text \<open>The configuration is changed in memory first; a file that cannot be written ends the handler there.\<close>

definition save_then ::
  "api_world \<Rightarrow> api_state \<Rightarrow> (api_state \<Rightarrow> api_state \<times> 'a answer) \<Rightarrow> api_state \<times> 'a answer" where
  "save_then w s k = (if aw_saved w (ap_config s) then k s else (s, Inl (500, aw_save_error w)))"

definition bump_cluster_state :: "api_state \<Rightarrow> api_state" where
  "bump_cluster_state s = s\<lparr>ap_version := wrap_add64 (ap_version s) 1\<rparr>"

definition notify_clusters_changed :: "api_state \<Rightarrow> api_state" where
  "notify_clusters_changed s = signal [ClustersSignal] (bump_cluster_state s)"

definition refresh_swarms :: "api_world \<Rightarrow> api_state \<Rightarrow> api_state" where
  "refresh_swarms w s = s\<lparr>ap_net := sync_swarm_status_for_proxy (aw_time w) (ap_net s)\<rparr>"

definition notify_swarms_changed :: "api_world \<Rightarrow> api_state \<Rightarrow> api_state" where
  "notify_swarms_changed w s = signal [SwarmsSignal, SwarmsChangedSignal] (bump_cluster_state (refresh_swarms w s))"

definition show_catalog :: "merged_catalog \<Rightarrow> app_state \<Rightarrow> app_state" where
  "show_catalog cat a =
     a\<lparr>app_local_models := cat_model_names cat, app_local_models_full := cat_models cat,
       app_last_gpu_host := cat_gpu_host cat, app_local_model_collisions := cat_collisions cat\<rparr>"

text \<open>Listing all servers again.\<close>

definition rebuild_shown :: "api_world \<Rightarrow> api_state \<Rightarrow> api_state" where
  "rebuild_shown w s =
     (case rebuild_catalog (servers_seen w s) (ap_registry s) of
        (reg, cat) \<Rightarrow> on_ap_app (show_catalog cat) (s\<lparr>ap_registry := reg\<rparr>))"

definition sync_registry_after_config_change :: "api_world \<Rightarrow> api_state \<Rightarrow> api_state" where
  "sync_registry_after_config_change w s =
     (case sync_from_config (servers_seen w s) (ap_config s) (ap_registry s) of
        (reg, Inl _) \<Rightarrow> s\<lparr>ap_registry := reg\<rparr>
      | (reg, Inr _) \<Rightarrow>
          (let s = s\<lparr>ap_registry := reg\<rparr>
           in if rg_servers reg \<noteq> [] then rebuild_shown w s
              else on_ap_app (\<lambda>a. a\<lparr>app_local_models := [], app_local_models_full := [], app_local_model_collisions := []\<rparr>) s))"

definition lobby_gateway_err :: "api_world \<Rightarrow> string \<Rightarrow> string \<Rightarrow> nat \<times> string" where
  "lobby_gateway_err w context err =
     (let msg = context @ '': '' @ err @
            (if contains_str ''build_id not on allowlist'' err
             then ''. Register this client binary on the lobby: export MTRXAI_ADMIN_KEY=... && scripts/register-allowed-build.sh release/docker/allowed_build.json''
             else [])
      in (502, aw_print_text w (json_obj [(''error'', JStr msg)])))"

definition trimmed :: "string option \<Rightarrow> string option" where
  "trimmed s = opt_filter (\<lambda>t. t \<noteq> []) (map_option trim s)"

text \<open>Set up: an identity, a cluster and an attached server.\<close>

definition check_setup :: "client_config \<Rightarrow> client_config" where
  "check_setup c =
     c\<lparr>cfg_setup_complete := (cfg_peer_id c \<noteq> None \<and> cfg_service_id c \<noteq> None \<and> cfg_clusters c \<noteq> []
        \<and> has_attached_llm_servers c)\<rparr>"

record setup_response =
  st_complete :: bool
  st_step :: nat
  st_has_peer :: bool
  st_has_clusters :: bool
  st_has_swarms :: bool
  st_p2p_mode :: network_mode
  st_has_llm :: bool

definition get_setup :: "api_state \<Rightarrow> setup_response" where
  "get_setup s =
     (let cfg = ap_config s;
          has_peer = (cfg_peer_id cfg \<noteq> None \<and> cfg_service_id cfg \<noteq> None);
          has_clusters = (cfg_clusters cfg \<noteq> []);
          has_swarms = (cfg_swarms cfg \<noteq> [])
      in \<lparr>st_complete = cfg_setup_complete cfg,
          st_step = (if \<not> has_peer then 1 else if \<not> has_clusters \<and> \<not> has_swarms then 2
                     else if \<not> cfg_setup_complete cfg then 3 else 4),
          st_has_peer = has_peer, st_has_clusters = has_clusters, st_has_swarms = has_swarms,
          st_p2p_mode = cfg_p2p_mode cfg, st_has_llm = has_attached_llm_servers cfg\<rparr>)"

text \<open>The path a request is rewritten to before its handler runs.\<close>

definition alias_api_peer_to_client :: "string \<Rightarrow> string option \<Rightarrow> string" where
  "alias_api_peer_to_client path query =
     (let pq = (\<lambda>p. case query of Some q \<Rightarrow> p @ ''?'' @ q | None \<Rightarrow> p)
      in case strip_prefix_str ''/api/peer'' path of
           Some rest \<Rightarrow> pq (''/api/client'' @ rest) | None \<Rightarrow> pq path)"

end
