(* ===== verification/Api_Networks.thy ===== *)
theory Api_Networks
  imports Api_State
begin

text \<open>
  The handlers that register the peer and edit its memberships (\<open>api/mod.rs\<close>).
\<close>

section \<open>Registration\<close>

record registration_form =
  rf_registered :: bool
  rf_has_existing_service :: bool
  rf_service_name :: "string option"
  rf_service_password :: "string option"
  rf_peer_id :: "string option"
  rf_cluster_name :: "string option"
  rf_contact_email :: "string option"
  rf_terms_accepted :: bool

definition DEFAULT_PUBLIC_CLUSTER :: string where "DEFAULT_PUBLIC_CLUSTER = ''europe''"

definition get_lobby_config :: "api_world \<Rightarrow> api_state \<Rightarrow> string answer" where
  "get_lobby_config w s =
     (case fetch_lobby_config (aw_lobby w) (ap_lobby_host s) of
        Inl e \<Rightarrow> Inl (lobby_gateway_err w ''Lobby config fetch failed'' e) | Inr mode \<Rightarrow> Inr mode)"

definition post_beta_signup :: "api_world \<Rightarrow> string \<Rightarrow> string \<Rightarrow> string \<Rightarrow> bool \<Rightarrow> api_state \<Rightarrow> unit answer" where
  "post_beta_signup w email name password terms s =
     (if \<not> terms then bad_request ''terms acceptance required''
      else (case beta_signup_with_lobby (aw_lobby w) (ap_lobby_host s) (trim email) (trim name) (trim password) terms of
              Inl e \<Rightarrow> bad_gateway e | Inr _ \<Rightarrow> Inr ()))"

definition parse_service_credentials :: "registration_form \<Rightarrow> (string \<times> string) answer" where
  "parse_service_credentials form =
     (case trimmed (rf_service_name form) of
        None \<Rightarrow> bad_request ''service name required''
      | Some name \<Rightarrow>
          (case trimmed (rf_service_password form) of
             None \<Rightarrow> bad_request ''service password required''
           | Some password \<Rightarrow> Inr (name, password)))"

definition parse_contact_email :: "registration_form \<Rightarrow> string answer" where
  "parse_contact_email form =
     (case trimmed (rf_contact_email form) of
        None \<Rightarrow> bad_request ''contact email required'' | Some email \<Rightarrow> Inr email)"

text \<open>What the lobby is asked: peer, name, password, whether a service is to be created, the address to write to.\<close>

definition registration_request ::
  "string option \<Rightarrow> registration_form
     \<Rightarrow> (string option \<times> string option \<times> string option \<times> bool \<times> string option) answer" where
  "registration_request mode form =
     (if unwrap_or (map_option requires_credentials_registration mode) False
      then (case parse_service_credentials form of
              Inl e \<Rightarrow> Inl e
            | Inr (name, password) \<Rightarrow> Inr (trimmed (rf_peer_id form), Some name, Some password, False, None))
      else (let create_new = (\<not> rf_has_existing_service form \<and> \<not> rf_registered form);
                named = (create_new \<or> rf_has_existing_service form \<or> rf_registered form)
            in if create_new \<and> \<not> rf_terms_accepted form then bad_request ''terms acceptance required''
               else (case (if named then parse_service_credentials form else Inr ([], [])) of
                       Inl e \<Rightarrow> Inl e
                     | Inr (name, password) \<Rightarrow>
                         (case (if create_new then map_sum (\<lambda>e. e) Some (parse_contact_email form) else Inr None) of
                            Inl e \<Rightarrow> Inl e
                          | Inr email \<Rightarrow>
                              Inr (opt_filter has_words (rf_peer_id form), if named then Some name else None,
                                if named then Some password else None, create_new, email)))))"

definition finish_register ::
  "api_world \<Rightarrow> registration_form \<Rightarrow> register_peer_response \<Rightarrow> bool \<Rightarrow> api_state
     \<Rightarrow> api_state \<times> (register_peer_response \<times> bool) answer" where
  "finish_register w form reg created s =
     save_then w (on_config (\<lambda>c. (apply_register_response reg c)\<lparr>cfg_lobby_host := ap_lobby_host s\<rparr>) s) (\<lambda>s.
       (let cluster_name = unwrap_or (trimmed (rf_cluster_name form)) DEFAULT_PUBLIC_CLUSTER
        in case join_public_cluster_by_name (aw_lobby w) (ap_lobby_host s) cluster_name None of
             Inl e \<Rightarrow> (s, Inl (lobby_gateway_err w ''Cluster join failed'' e))
           | Inr resp \<Rightarrow>
               save_then w (on_config (\<lambda>c. (upsert_cluster (membership_from_response resp (Some [])) c)
                   \<lparr>cfg_cluster := Some cluster_name\<rparr>) s) (\<lambda>s.
                 (let s = on_ap_app (\<lambda>a. a\<lparr>app_peer_id := rr_peer_id reg, app_service_id := rr_service_id reg,
                        app_my_id := rr_peer_id reg, app_credit_balance := rr_credit_balance reg\<rparr>) (notify_clusters_changed s)
                  in save_then w (on_config check_setup s) (\<lambda>s.
                       (if cfg_setup_complete (ap_config s) then signal [SetupCompleteSignal] (s\<lparr>ap_setup := True\<rparr>) else s,
                        Inr (reg, created)))))))"

definition post_register ::
  "api_world \<Rightarrow> registration_form \<Rightarrow> api_state \<Rightarrow> api_state \<times> (register_peer_response \<times> bool) answer" where
  "post_register w form s =
     (let mode = (case fetch_lobby_config (aw_lobby w) (ap_lobby_host s) of Inl _ \<Rightarrow> None | Inr m \<Rightarrow> Some m)
      in case registration_request mode form of
           Inl e \<Rightarrow> (s, Inl e)
         | Inr (peer_id, name, password, create_new, email) \<Rightarrow>
             (case register_with_lobby (aw_lobby w) (ap_lobby_host s) peer_id name password create_new email of
                Inl e \<Rightarrow> (s, Inl (lobby_gateway_err w ''Peer registration failed'' e))
              | Inr reg \<Rightarrow> finish_register w form reg create_new s))"

section \<open>Clusters\<close>

definition get_public_clusters :: "api_world \<Rightarrow> api_state \<Rightarrow> (string \<times> string option \<times> string option) list answer" where
  "get_public_clusters w s =
     (case list_clusters_with_lobby (aw_lobby w) (ap_lobby_host s) (cfg_peer_id (ap_config s)) of
        Inl e \<Rightarrow> bad_gateway e
      | Inr clusters \<Rightarrow> Inr (map (\<lambda>c. (clv_cluster_id c, clv_name c, clv_continent c)) clusters))"

text \<open>The end of joining and creating.\<close>

definition enter_cluster ::
  "api_world \<Rightarrow> string option \<Rightarrow> string + cluster_response \<Rightarrow> api_state \<Rightarrow> api_state \<times> cluster_membership answer" where
  "enter_cluster w password answer s =
     (case answer of
        Inl e \<Rightarrow> (s, bad_gateway e)
      | Inr resp \<Rightarrow>
          (let m = membership_from_response resp password
           in save_then w (on_config (upsert_cluster m) s) (\<lambda>s. (notify_clusters_changed s, Inr m))))"

definition post_cluster_create ::
  "api_world \<Rightarrow> string option \<Rightarrow> string option \<Rightarrow> string option \<Rightarrow> nat option \<Rightarrow> api_state
     \<Rightarrow> api_state \<times> cluster_membership answer" where
  "post_cluster_create w name visibility password flags s =
     (case cfg_peer_id (ap_config s) of
        None \<Rightarrow> (s, bad_request ''peer not registered'')
      | Some peer_id \<Rightarrow>
          (let visibility = unwrap_or visibility ''private''
           in if eq_ignore_ascii_case visibility ''public''
              then (s, Inl (403, ''public clusters can only be created via admin API''))
              else enter_cluster w password
                     (create_cluster_with_lobby (aw_lobby w) (ap_lobby_host s) name visibility (Some peer_id) password flags) s))"

definition post_cluster_join ::
  "api_world \<Rightarrow> string option \<Rightarrow> string option \<Rightarrow> string option \<Rightarrow> api_state \<Rightarrow> api_state \<times> cluster_membership answer" where
  "post_cluster_join w cluster_id name password s =
     (let lobby = aw_lobby w; host = ap_lobby_host s
      in case (trimmed cluster_id, trimmed name) of
           (Some i, Some n) \<Rightarrow> enter_cluster w password (join_private_cluster lobby host i n password) s
         | (Some i, None) \<Rightarrow> enter_cluster w password (join_cluster_with_lobby lobby host i password) s
         | (None, Some n) \<Rightarrow> enter_cluster w password (join_public_cluster_by_name lobby host n password) s
         | (None, None) \<Rightarrow> (s, bad_request ''cluster_id or name required (private clusters need both)''))"

text \<open>Changing one cluster the peer is a member of.\<close>

definition edit_cluster ::
  "api_world \<Rightarrow> string \<Rightarrow> (cluster_membership \<Rightarrow> cluster_membership) \<Rightarrow> api_state \<Rightarrow> api_state \<times> unit answer" where
  "edit_cluster w i f s =
     (case find_cluster (ap_config s) i of
        None \<Rightarrow> (s, no_such ''cluster not found'')
      | Some _ \<Rightarrow>
          save_then w (on_config (\<lambda>c. c\<lparr>cfg_clusters := update_first (\<lambda>x. cm_cluster_id x = i) f (cfg_clusters c)\<rparr>) s)
            (\<lambda>s. (notify_clusters_changed s, Inr ())))"

definition post_cluster_disconnect :: "api_world \<Rightarrow> string \<Rightarrow> api_state \<Rightarrow> api_state \<times> unit answer" where
  "post_cluster_disconnect w i = edit_cluster w i (set_cluster_connected False)"

definition post_cluster_connect :: "api_world \<Rightarrow> string \<Rightarrow> api_state \<Rightarrow> api_state \<times> unit answer" where
  "post_cluster_connect w i = edit_cluster w i (set_cluster_connected True)"

definition post_cluster_maintenance :: "api_world \<Rightarrow> string \<Rightarrow> bool \<Rightarrow> api_state \<Rightarrow> api_state \<times> unit answer" where
  "post_cluster_maintenance w i enabled = edit_cluster w i (set_cluster_accepting (\<not> enabled))"

record schedule_form =
  sf_enabled :: "bool option"
  sf_start :: "string option"
  sf_end :: "string option"

definition put_cluster_schedule :: "api_world \<Rightarrow> string \<Rightarrow> schedule_form \<Rightarrow> api_state \<Rightarrow> api_state \<times> unit answer" where
  "put_cluster_schedule w i form = edit_cluster w i (\<lambda>c.
     c\<lparr>cm_schedule_enabled := opt_or (sf_enabled form) (cm_schedule_enabled c),
       cm_schedule_start := opt_or (sf_start form) (cm_schedule_start c),
       cm_schedule_end := opt_or (sf_end form) (cm_schedule_end c)\<rparr>)"

definition delete_cluster :: "api_world \<Rightarrow> string \<Rightarrow> api_state \<Rightarrow> api_state \<times> unit answer" where
  "delete_cluster w i s = save_then w (on_config (remove_cluster i) s) (\<lambda>s. (notify_clusters_changed s, Inr ()))"

section \<open>Swarms\<close>

definition get_swarms :: "api_world \<Rightarrow> api_state \<Rightarrow> api_state \<times> network_mode \<times> swarm_status list" where
  "get_swarms w s = (let s = refresh_swarms w s in (s, cfg_p2p_mode (ap_config s), app_swarms (ap_app s)))"

definition post_swarm_create ::
  "api_world \<Rightarrow> string option \<Rightarrow> string option \<Rightarrow> api_state \<Rightarrow> api_state \<times> swarm_membership answer" where
  "post_swarm_create w name token s =
     (let m = create_swarm_membership (aw_env w) (fst (aw_uuids w)) (snd (aw_uuids w)) name token
      in save_then w (on_config (\<lambda>c. ensure_p2p_mode_for_swarms (upsert_swarm m c)) s)
           (\<lambda>s. (notify_swarms_changed w s, Inr m)))"

text \<open>A token the peer knows stands for the swarm it has; another makes a new one.\<close>

definition post_swarm_join ::
  "api_world \<Rightarrow> string \<Rightarrow> string option \<Rightarrow> string list \<Rightarrow> api_state \<Rightarrow> api_state \<times> swarm_membership answer" where
  "post_swarm_join w p2p_token name bootnodes s =
     (let token = trim p2p_token; cfg = ap_config s
      in if token = [] then (s, bad_request ''p2p_token required'')
         else (case (case find_swarm_by_token cfg token of
                       Some existing \<Rightarrow>
                         (let f = (\<lambda>m. m\<lparr>sm_name := opt_or name (sm_name m), sm_connected := Some True,
                                    sm_bootnodes := (if bootnodes \<noteq> [] then bootnodes else sm_bootnodes m)\<rparr>);
                              same = (\<lambda>x. sm_swarm_id x = sm_swarm_id existing);
                              swarms = update_first same f (cfg_swarms cfg)
                          in (cfg\<lparr>cfg_swarms := swarms\<rparr>, unwrap_or (find same swarms) existing))
                     | None \<Rightarrow>
                         (let m = create_swarm_membership (aw_env w) (fst (aw_uuids w)) (snd (aw_uuids w)) name (Some token);
                              m = m\<lparr>sm_bootnodes := bootnodes\<rparr>;
                              m = (if sm_bootnodes m = []
                                   then m\<lparr>sm_bootnodes := resolve_swarm_bootnodes (aw_env w) (aw_bootnodes w) m\<rparr> else m)
                          in (upsert_swarm m cfg, m))) of
                 (cfg, m) \<Rightarrow>
                   save_then w (on_config (\<lambda>_. ensure_p2p_mode_for_swarms cfg) s)
                     (\<lambda>s. (notify_swarms_changed w s, Inr m))))"

definition edit_swarm ::
  "api_world \<Rightarrow> string \<Rightarrow> (swarm_membership \<Rightarrow> swarm_membership) \<Rightarrow> api_state \<Rightarrow> api_state \<times> unit answer" where
  "edit_swarm w i f s =
     (case find_swarm (ap_config s) i of
        None \<Rightarrow> (s, no_such ''swarm not found'')
      | Some _ \<Rightarrow>
          save_then w (on_config (\<lambda>c. c\<lparr>cfg_swarms := update_first (\<lambda>x. sm_swarm_id x = i) f (cfg_swarms c)\<rparr>) s)
            (\<lambda>s. (notify_swarms_changed w s, Inr ())))"

definition post_swarm_disconnect :: "api_world \<Rightarrow> string \<Rightarrow> api_state \<Rightarrow> api_state \<times> unit answer" where
  "post_swarm_disconnect w i = edit_swarm w i (set_swarm_connected False)"

definition post_swarm_connect :: "api_world \<Rightarrow> string \<Rightarrow> api_state \<Rightarrow> api_state \<times> unit answer" where
  "post_swarm_connect w i = edit_swarm w i (set_swarm_connected True)"

definition post_swarm_maintenance :: "api_world \<Rightarrow> string \<Rightarrow> bool \<Rightarrow> api_state \<Rightarrow> api_state \<times> unit answer" where
  "post_swarm_maintenance w i enabled = edit_swarm w i (set_swarm_accepting (\<not> enabled))"

definition put_swarm_schedule :: "api_world \<Rightarrow> string \<Rightarrow> schedule_form \<Rightarrow> api_state \<Rightarrow> api_state \<times> unit answer" where
  "put_swarm_schedule w i form = edit_swarm w i (\<lambda>m.
     m\<lparr>sm_schedule_enabled := opt_or (sf_enabled form) (sm_schedule_enabled m),
       sm_schedule_start := opt_or (sf_start form) (sm_schedule_start m),
       sm_schedule_end := opt_or (sf_end form) (sm_schedule_end m)\<rparr>)"

definition delete_swarm :: "api_world \<Rightarrow> string \<Rightarrow> api_state \<Rightarrow> api_state \<times> unit answer" where
  "delete_swarm w i s = save_then w (on_config (remove_swarm i) s) (\<lambda>s. (notify_swarms_changed w s, Inr ()))"

section \<open>All networks\<close>

fun as_signal :: "notification \<Rightarrow> api_signal" where
  "as_signal NotifyClusters = ClustersSignal"
| "as_signal NotifySwarms = SwarmsSignal"

definition network_action ::
  "api_world \<Rightarrow> ((client_config \<Rightarrow> bool) \<Rightarrow> client_config \<Rightarrow> client_config \<times> notification list \<times> (string + unit))
     \<Rightarrow> api_state \<Rightarrow> api_state \<times> unit answer" where
  "network_action w act s =
     (case act (aw_saved w) (ap_config s) of
        (cfg, notes, r) \<Rightarrow>
          (signal (map as_signal notes) (on_config (\<lambda>_. cfg) s),
           case r of Inl _ \<Rightarrow> Inl (500, aw_save_error w) | Inr _ \<Rightarrow> Inr ()))"

definition post_network_disconnect_all :: "api_world \<Rightarrow> api_state \<Rightarrow> api_state \<times> unit answer" where
  "post_network_disconnect_all w = network_action w disconnect_all"

definition post_network_connect_all :: "api_world \<Rightarrow> api_state \<Rightarrow> api_state \<times> unit answer" where
  "post_network_connect_all w = network_action w connect_all"

definition post_network_pause_all :: "api_world \<Rightarrow> bool \<Rightarrow> api_state \<Rightarrow> api_state \<times> unit answer" where
  "post_network_pause_all w enabled = network_action w (\<lambda>saved. set_pause_all saved enabled)"

end
