(* ===== verification/Api_Servers.thy ===== *)
theory Api_Servers
  imports Api_Networks
begin

text \<open>
  The handlers that add, attach and remove model servers and keep their secrets (\<open>api/mod.rs\<close>).
\<close>

text \<open>Most answer with the list of servers, as the registry sees them by then.\<close>

definition with_servers :: "api_world \<Rightarrow> api_state \<Rightarrow> api_state \<times> llm_server_view list answer" where
  "with_servers w s =
     (case server_views (servers_seen w s) (ap_config s) (ap_registry s) of (views, reg) \<Rightarrow> (s\<lparr>ap_registry := reg\<rparr>, Inr views))"

definition get_llm_servers :: "api_world \<Rightarrow> api_state \<Rightarrow> api_state \<times> llm_server_view list answer" where
  "get_llm_servers w s = with_servers w s"

definition bare_entry :: "string \<Rightarrow> string \<Rightarrow> string \<Rightarrow> llm_server_entry" where
  "bare_entry kind url source =
     \<lparr>se_id = [], se_kind = kind, se_url = url, se_label = None, se_attached = False, se_order = 0, se_source = source,
      se_api_type = None, se_models = [], se_advertise_to_cluster = True\<rparr>"

text \<open>\<open>LlmBackend::from_config\<close>.\<close>

definition from_config :: "string \<Rightarrow> string \<Rightarrow> llm_backend" where
  "from_config kind url = from_server_entry (bare_entry kind url ''legacy'') None"

definition unhealthy :: "api_world \<Rightarrow> llm_backend \<Rightarrow> string option" where
  "unhealthy w b =
     (if sw_healthy (aw_servers w) b then None else Some (''Health check failed: '' @ aw_health_error w b))"

definition has_server :: "client_config \<Rightarrow> string \<Rightarrow> bool" where
  "has_server cfg i = list_ex (\<lambda>x. se_id x = i) (cfg_llm_servers cfg)"

definition server_attached :: "client_config \<Rightarrow> string \<Rightarrow> bool" where
  "server_attached cfg i = list_ex (\<lambda>x. se_id x = i \<and> se_attached x) (cfg_llm_servers cfg)"

section \<open>Adding and attaching\<close>

definition add_entry :: "api_world \<Rightarrow> llm_server_entry \<Rightarrow> api_state \<Rightarrow> api_state \<times> string" where
  "add_entry w entry s =
     (case find_or_add_entry (fst (aw_uuids w)) entry (ap_config s) of (cfg, i) \<Rightarrow> (on_config (\<lambda>_. cfg) s, i))"

definition attach_server ::
  "api_world \<Rightarrow> string \<Rightarrow> (api_state \<Rightarrow> api_state \<times> 'a answer) \<Rightarrow> api_state \<Rightarrow> api_state \<times> 'a answer" where
  "attach_server w i k s =
     (case attach (servers_seen w s) i (ap_config s) (ap_registry s) of
        (cfg, reg, r) \<Rightarrow>
          (let s = (on_config (\<lambda>_. cfg) s)\<lparr>ap_registry := reg\<rparr>
           in case r of
                Inl e \<Rightarrow> (s, bad_gateway (aw_show_error w e))
              | Inr _ \<Rightarrow>
                  save_then w (on_config check_setup s) (\<lambda>s.
                    (let s = sync_registry_after_config_change w s
                     in k (if cfg_setup_complete (ap_config s) then signal [SetupCompleteSignal] s else s)))))"

definition post_llm_select :: "api_world \<Rightarrow> string \<Rightarrow> string \<Rightarrow> api_state \<Rightarrow> api_state \<times> (string \<times> string) answer" where
  "post_llm_select w kind url s =
     (let label = normalize_backend_label kind; url = trim_end_matches (CHR ''/'') url
      in case unhealthy w (from_config label url) of
           Some e \<Rightarrow> (s, bad_gateway e)
         | None \<Rightarrow>
             (case add_entry w (bare_entry label url ''scan'') s of
                (s, i) \<Rightarrow> save_then w s (attach_server w i (\<lambda>s. (s, Inr (label, url))))))"

record server_form =
  lf_kind :: string
  lf_url :: string
  lf_label :: "string option"
  lf_api_key :: "string option"
  lf_api_type :: "string option"
  lf_models :: "custom_model_entry list option"

definition given_text :: "string option \<Rightarrow> string option" where
  "given_text k = opt_filter (\<lambda>x. x \<noteq> []) k"

definition put_key ::
  "api_world \<Rightarrow> string \<Rightarrow> string \<Rightarrow> api_state \<Rightarrow> server_secrets option" where
  "put_key w i key s =
     put_server_api_key (aw_prims w) (aw_env w) (aw_overwrites w) (aw_nonce w) i key (cfg_peer_id (ap_config s))
       (cfg_service_id (ap_config s)) (ap_secrets s)"

definition put_token ::
  "api_world \<Rightarrow> string \<Rightarrow> string \<Rightarrow> api_state \<Rightarrow> server_secrets option" where
  "put_token w i key s =
     put_server_admin_token (aw_prims w) (aw_env w) (aw_overwrites w) (aw_nonce w) i key (cfg_peer_id (ap_config s))
       (cfg_service_id (ap_config s)) (ap_secrets s)"

text \<open>The back end the new server is tried with.\<close>

definition tried_backend :: "api_world \<Rightarrow> llm_server_entry \<Rightarrow> string option \<Rightarrow> llm_backend" where
  "tried_backend w entry api_key =
     (if \<not> is_custom_server_kind (se_kind entry)
      then (if is_inference_cell_kind (se_kind entry)
            then from_server_entry_probed (sw_engine (aw_servers w)) entry api_key
            else from_config (se_kind entry) (se_url entry))
      else from_server_entry entry api_key)"

text \<open>A key that cannot be stored ends the handler with the new server in memory only.\<close>

definition post_llm_server :: "api_world \<Rightarrow> server_form \<Rightarrow> api_state \<Rightarrow> api_state \<times> llm_server_view list answer" where
  "post_llm_server w form s =
     (let label = normalize_backend_label (lf_kind form);
          entry = \<lparr>se_id = [], se_kind = label, se_url = trim_end_matches (CHR ''/'') (lf_url form), se_label = lf_label form,
            se_attached = False, se_order = 0, se_source = ''manual'', se_api_type = lf_api_type form,
            se_models = unwrap_or (lf_models form) [], se_advertise_to_cluster = True\<rparr>
      in case validate_custom_server_entry entry of
           Inl e \<Rightarrow> (s, bad_request (aw_show_entry w e))
         | Inr _ \<Rightarrow>
             (case unhealthy w (tried_backend w entry (lf_api_key form)) of
                Some e \<Rightarrow> (s, bad_gateway e)
              | None \<Rightarrow>
                  (case add_entry w entry s of
                     (s, i) \<Rightarrow>
                       (case given_text (lf_api_key form) of
                          None \<Rightarrow> save_then w s (with_servers w)
                        | Some key \<Rightarrow>
                            (case put_key w i key s of
                               None \<Rightarrow> (s, Inl (500, aw_store_error w))
                             | Some st \<Rightarrow> save_then w (s\<lparr>ap_secrets := st\<rparr>) (with_servers w))))))"

section \<open>Secrets\<close>

definition put_llm_server_api_key ::
  "api_world \<Rightarrow> string \<Rightarrow> string option \<Rightarrow> api_state \<Rightarrow> api_state \<times> llm_server_view list answer" where
  "put_llm_server_api_key w i key s =
     (if \<not> has_server (ap_config s) i then (s, no_such ''server not found'')
      else (case (case given_text key of
                    Some k \<Rightarrow> put_key w i k s
                  | None \<Rightarrow> Some (delete_server_api_key i (ap_secrets s))) of
              None \<Rightarrow> (s, Inl (500, aw_store_error w))
            | Some st \<Rightarrow>
                (let s = s\<lparr>ap_secrets := st\<rparr>
                 in with_servers w (if server_attached (ap_config s) i then sync_registry_after_config_change w s else s))))"

definition put_llm_server_admin_token ::
  "api_world \<Rightarrow> string \<Rightarrow> string option \<Rightarrow> api_state \<Rightarrow> api_state \<times> llm_server_view list answer" where
  "put_llm_server_admin_token w i token s =
     (case find (\<lambda>x. se_id x = i) (cfg_llm_servers (ap_config s)) of
        None \<Rightarrow> (s, no_such ''server not found'')
      | Some entry \<Rightarrow>
          (if \<not> is_inference_cell_kind (se_kind entry)
           then (s, bad_request ''admin token is only supported for inference-cell servers'')
           else (case (case given_text token of
                         Some k \<Rightarrow> put_token w i k s
                       | None \<Rightarrow> Some (delete_server_admin_token i (ap_secrets s))) of
                   None \<Rightarrow> (s, Inl (500, aw_store_error w))
                 | Some st \<Rightarrow> with_servers w (s\<lparr>ap_secrets := st\<rparr>))))"

section \<open>Attached servers\<close>

definition post_llm_server_attach :: "api_world \<Rightarrow> string \<Rightarrow> api_state \<Rightarrow> api_state \<times> llm_server_view list answer" where
  "post_llm_server_attach w i s = attach_server w i (with_servers w) s"

definition synced :: "api_world \<Rightarrow> api_state \<Rightarrow> api_state \<times> llm_server_view list answer" where
  "synced w s = with_servers w (bump_cluster_state (sync_registry_after_config_change w s))"

definition post_llm_server_detach :: "api_world \<Rightarrow> string \<Rightarrow> api_state \<Rightarrow> api_state \<times> llm_server_view list answer" where
  "post_llm_server_detach w i s =
     (case detach i (ap_config s) (ap_registry s) of
        (cfg, reg, r) \<Rightarrow>
          (let s = (on_config (\<lambda>_. cfg) s)\<lparr>ap_registry := reg\<rparr>
           in case r of
                Inl e \<Rightarrow> (s, bad_request (aw_show_error w e))
              | Inr _ \<Rightarrow> save_then w s (synced w)))"

definition patch_llm_server ::
  "api_world \<Rightarrow> string \<Rightarrow> bool option \<Rightarrow> api_state \<Rightarrow> api_state \<times> llm_server_view list answer" where
  "patch_llm_server w i advertise s =
     (if \<not> has_server (ap_config s) i then (s, no_such ''Server not found'')
      else save_then w
             (on_config (\<lambda>c. c\<lparr>cfg_llm_servers := update_first (\<lambda>x. se_id x = i)
                (\<lambda>x. x\<lparr>se_advertise_to_cluster := unwrap_or advertise (se_advertise_to_cluster x)\<rparr>) (cfg_llm_servers c)\<rparr>) s)
             (\<lambda>s. if server_attached (ap_config s) i then synced w s else with_servers w s))"

text \<open>The server's secrets go with it.\<close>

definition delete_llm_server :: "api_world \<Rightarrow> string \<Rightarrow> api_state \<Rightarrow> api_state \<times> llm_server_view list answer" where
  "delete_llm_server w i s =
     (case remove_server i (ap_config s) (ap_registry s) of
        (cfg, reg, r) \<Rightarrow>
          (let s = (on_config (\<lambda>_. cfg) s)\<lparr>ap_registry := reg,
                     ap_secrets := delete_server_admin_token i (delete_server_api_key i (ap_secrets s))\<rparr>
           in case r of
                Inl e \<Rightarrow> (s, bad_request (aw_show_error w e))
              | Inr _ \<Rightarrow> save_then w s (synced w)))"

end
