(* ===== verification/Api_Models.thy ===== *)
theory Api_Models
  imports Api_Servers
begin

text \<open>
  The other handlers of \<open>api/mod.rs\<close>: models of the peer's servers, requests and approvals, settings, blocked peers, status.
\<close>

section \<open>Models of the peer's servers\<close>

datatype local_action = ActDelete | ActLoad | ActUnload

definition local_model :: "api_state \<Rightarrow> string \<Rightarrow> json option" where
  "local_model s name = find (\<lambda>m. get_str ''name'' m = Some name) (app_local_models_full (ap_app s))"

definition model_show_info :: "api_world \<Rightarrow> api_state \<Rightarrow> string \<Rightarrow> json option" where
  "model_show_info w s name =
     (case Option.bind (local_model s name) (jget ''_show_info'') of
        Some v \<Rightarrow> Some v
      | None \<Rightarrow>
          (case resolve_ollama_backend_for_model (ap_registry s) name of
             None \<Rightarrow> None | Some b \<Rightarrow> aw_show w (base_url b) name))"

text \<open>\<open>None\<close> when the server took the request.\<close>

definition server_reply :: "api_world \<Rightarrow> string \<Rightarrow> string + upstream \<Rightarrow> (nat \<times> string) option" where
  "server_reply w what answer =
     (case answer of
        Inl e \<Rightarrow> Some (502, e)
      | Inr resp \<Rightarrow>
          if is_success (up_status resp) then None
          else Some (502, what @ '': '' @ aw_show_status w (up_status resp) @ '' '' @ aw_answer_text w resp))"

definition load_body :: "string \<Rightarrow> bool \<Rightarrow> json \<Rightarrow> json" where
  "load_body name embedding keep_alive =
     (if embedding
      then json_obj [(''model'', JStr name), (''input'', JStr ''.''), (''keep_alive'', keep_alive)]
      else json_obj [(''model'', JStr name), (''prompt'', JStr ''.''), (''stream'', JBool False), (''keep_alive'', keep_alive)])"

definition load_on :: "api_world \<Rightarrow> api_state \<Rightarrow> llm_backend \<Rightarrow> string \<Rightarrow> (nat \<times> string) option" where
  "load_on w s b name =
     (let show = model_show_info w s name;
          ask = (\<lambda>what path body. server_reply w what (forward_post_raw (aw_http w) b path (aw_print_text w body)))
      in if is_embed_only show
         then ask ''Ollama embed load failed'' ''/api/embed'' (load_body name True (JStr ''30m''))
         else if \<not> supports_generate show
         then Some (400, name @ '' is an embedding model '' @ [CHR 0xE2, CHR 0x80, CHR 0x94] @ '' use /api/embed, not chat generation'')
         else ask ''Ollama load failed'' ''/api/generate'' (load_body name False (JStr ''30m'')))"

definition unload_on :: "api_world \<Rightarrow> api_state \<Rightarrow> llm_backend \<Rightarrow> string \<Rightarrow> (nat \<times> string) option" where
  "unload_on w s b name =
     (let show = model_show_info w s name;
          ask = (\<lambda>what path body. server_reply w what (forward_post_raw (aw_http w) b path (aw_print_text w body)))
      in if is_embed_only show \<or> (supports_embed show \<and> \<not> supports_generate show)
         then ask ''Ollama embed unload failed'' ''/api/embed'' (load_body name True (json_nat 0))
         else if \<not> supports_generate show
         then Some (400, name @ '' does not support generate unload'')
         else ask ''Ollama unload failed'' ''/api/generate'' (load_body name False (json_nat 0)))"

fun action_request :: "string \<Rightarrow> string \<Rightarrow> local_action \<Rightarrow> string \<times> json option" where
  "action_request base name ActLoad = (base @ ''/mtrxai/v1/models/load'', Some (json_obj [(''model'', JStr name)]))"
| "action_request base name ActUnload = (base @ ''/mtrxai/v1/models/unload'', None)"
| "action_request base name ActDelete = (base @ ''/mtrxai/v1/models/delete'', Some (json_obj [(''filename'', JStr name)]))"

definition inference_cell_model_action ::
  "api_world \<Rightarrow> string \<Rightarrow> local_action \<Rightarrow> json option \<Rightarrow> api_state \<Rightarrow> api_state \<times> unit answer" where
  "inference_cell_model_action w name action meta s =
     (case Option.bind meta (get_str ''_source_server'') of
        None \<Rightarrow> (s, bad_request ''Missing inference-cell source server id'')
      | Some i \<Rightarrow>
          (case Option.bind meta (get_str ''_source_url'') of
             None \<Rightarrow> (s, bad_request ''Missing inference-cell source URL'')
           | Some url \<Rightarrow>
               (case get_server_admin_token (aw_prims w) (aw_env w) (ap_secrets s) i (cfg_peer_id (ap_config s))
                       (cfg_service_id (ap_config s)) of
                  Inl _ \<Rightarrow> (s, bad_gateway (aw_store_error w))
                | Inr token \<Rightarrow>
                    (let (url, body) = action_request (trim_end_matches (CHR ''/'') url) name action
                     in case server_reply w ''Inference-cell action failed'' (aw_cell w url (given_text token) body) of
                          Some e \<Rightarrow> (s, Inl e)
                        | None \<Rightarrow> (bump_cluster_state (rebuild_shown w s), Inr ())))))"

definition local_model_action :: "api_world \<Rightarrow> string \<Rightarrow> local_action \<Rightarrow> api_state \<Rightarrow> api_state \<times> unit answer" where
  "local_model_action w name action s =
     (let meta = local_model s name
      in if Option.bind meta (get_str ''_source_kind'') = Some ''inference-cell''
         then inference_cell_model_action w name action meta s
         else (case resolve_ollama_backend_for_model (ap_registry s) name of
                 None \<Rightarrow> (s, bad_request ''No Ollama backend available for this model'')
               | Some b \<Rightarrow>
                   (if \<not> supports_ollama_native b
                    then (s, bad_request ''Load, unload, and delete are only supported for Ollama models'')
                    else (case (case action of
                                  ActDelete \<Rightarrow> server_reply w ''Ollama delete failed'' (forward_delete_raw (aw_http w) b ''/api/delete'' name)
                                | ActLoad \<Rightarrow> load_on w s b name
                                | ActUnload \<Rightarrow> unload_on w s b name) of
                            Some e \<Rightarrow> (s, Inl e)
                          | None \<Rightarrow> (bump_cluster_state (sync_registry_after_config_change w s), Inr ())))))"

section \<open>Hiding models\<close>

definition set_model_hidden :: "string \<Rightarrow> bool \<Rightarrow> string list \<Rightarrow> string list" where
  "set_model_hidden name hide names =
     (let name = trim name
      in if name = [] then names
         else if hide then (if name \<in> set names then names else names @ [name])
         else filter (\<lambda>n. n \<noteq> name) names)"

definition collect_unified_model_names :: "app_state \<Rightarrow> string list" where
  "collect_unified_model_names a =
     sort (remdups (filter (\<lambda>n. n \<noteq> [])
       (List.map_filter (get_str ''name'') (app_local_models_full a @ app_network_models a))))"

definition patch_model_visibility :: "api_world \<Rightarrow> string \<Rightarrow> bool \<Rightarrow> api_state \<Rightarrow> api_state \<times> string list answer" where
  "patch_model_visibility w name visible s =
     (let name = trim name
      in if name = [] then (s, bad_request ''name is required'')
         else save_then w (on_config (\<lambda>c. c\<lparr>cfg_hidden_models := set_model_hidden name (\<not> visible) (cfg_hidden_models c)\<rparr>) s)
                (\<lambda>s. (s, Inr (cfg_hidden_models (ap_config s)))))"

definition post_model_visibility_bulk :: "api_world \<Rightarrow> bool \<Rightarrow> api_state \<Rightarrow> api_state \<times> string list answer" where
  "post_model_visibility_bulk w visible s =
     save_then w (on_config (\<lambda>c. c\<lparr>cfg_hidden_models := (if visible then [] else collect_unified_model_names (ap_app s))\<rparr>) s)
       (\<lambda>s. (s, Inr (cfg_hidden_models (ap_config s))))"

section \<open>Requests for models and approvals\<close>

definition hand_on :: "api_world \<Rightarrow> api_signal \<Rightarrow> 'a \<Rightarrow> api_state \<Rightarrow> api_state \<times> 'a answer" where
  "hand_on w x r s = (if aw_sends w then (signal [x] s, Inr r) else (s, Inl (503, aw_send_error w)))"

definition post_model_request ::
  "api_world \<Rightarrow> string \<Rightarrow> string option \<Rightarrow> string option \<Rightarrow> api_state \<Rightarrow> api_state \<times> string answer" where
  "post_model_request w model cluster_id swarm_id s =
     hand_on w (ModelStartSignal (swarm_id \<noteq> None) (MsRequest (fst (aw_uuids w)) model cluster_id swarm_id)) (fst (aw_uuids w)) s"

definition post_model_respond ::
  "api_world \<Rightarrow> string \<Rightarrow> bool \<Rightarrow> string option \<Rightarrow> string option \<Rightarrow> api_state \<Rightarrow> api_state \<times> unit answer" where
  "post_model_respond w req_id accept cluster_id swarm_id s =
     hand_on w (ModelStartSignal (swarm_id \<noteq> None) (MsRespond req_id accept cluster_id swarm_id)) () s"

definition post_connection_respond ::
  "api_world \<Rightarrow> string \<Rightarrow> bool \<Rightarrow> string option \<Rightarrow> api_state \<Rightarrow> api_state \<times> unit answer" where
  "post_connection_respond w req_id accept cluster_id s = hand_on w (ConnectionSignal (CnRespond req_id accept cluster_id)) () s"

text \<open>Whether a server's models come from Ollama's library.\<close>

definition ollama_engine :: "llm_registry \<Rightarrow> string \<Rightarrow> bool" where
  "ollama_engine reg i =
     (let engine = inference_engine_for_server reg i;
          ollama_backend = (case backend_for_server reg i of Some b \<Rightarrow> supports_ollama_native b | None \<Rightarrow> False)
      in engine = Some ''ollama'' \<or> (engine = None \<and> ollama_backend))"

definition find_inference_cell_server :: "client_config \<Rightarrow> string \<Rightarrow> string option" where
  "find_inference_cell_server cfg i =
     (case find (\<lambda>x. se_id x = i) (cfg_llm_servers cfg) of
        None \<Rightarrow> Some ''server not found''
      | Some e \<Rightarrow>
          if \<not> se_attached e then Some ''server is not attached''
          else if \<not> is_inference_cell_kind (se_kind e) then Some ''server is not an inference-cell backend''
          else None)"

definition require_hf_inference_cell_server :: "api_state \<Rightarrow> string \<Rightarrow> (nat \<times> string) option" where
  "require_hf_inference_cell_server s i =
     (case find (\<lambda>x. se_id x = i) (cfg_llm_servers (ap_config s)) of
        None \<Rightarrow> Some (400, ''server not found'')
      | Some e \<Rightarrow>
          if \<not> is_inference_cell_kind (se_kind e) then Some (400, ''HF catalog requires a llama.cpp inference-cell server'')
          else if ollama_engine (ap_registry s) i
          then Some (400, ''HF catalog is for llama.cpp inference-cell; use Ollama library catalog for Ollama engine'')
          else map_option (\<lambda>m. (400, m)) (find_inference_cell_server (ap_config s) i))"

record run_form =
  nf_model :: string
  nf_server_id :: "string option"
  nf_hf_repo :: "string option"
  nf_quant :: "string option"

definition run_on_cell :: "api_world \<Rightarrow> run_form \<Rightarrow> string \<Rightarrow> api_state \<Rightarrow> api_state \<times> string answer" where
  "run_on_cell w form i s =
     (let model = trim (nf_model form); job = fst (aw_uuids w)
      in case find (\<lambda>x. se_id x = i) (cfg_llm_servers (ap_config s)) of
           None \<Rightarrow> (s, bad_request ''server not found'')
         | Some e \<Rightarrow>
             if \<not> is_inference_cell_kind (se_kind e)
             then (s, bad_request ''server_id is only valid for inference-cell servers'')
             else if ollama_engine (ap_registry s) i
             then (if model = [] then (s, bad_request ''model required'')
                   else (signal [RunSignal job model (Some i)] s, Inr job))
             else (case find_inference_cell_server (ap_config s) i of
                     Some m \<Rightarrow> (s, bad_request m)
                   | None \<Rightarrow>
                       (case opt_or (trimmed (nf_hf_repo form)) (if model = [] then None else Some model) of
                          None \<Rightarrow> (s, bad_request ''hf_repo required'')
                        | Some repo \<Rightarrow>
                            (signal [CellRunSignal job i repo (unwrap_or (trimmed (nf_quant form)) ''Q4_K_M'')
                               (if model = [] then repo else model)] s, Inr job))))"

definition post_model_run_local :: "api_world \<Rightarrow> run_form \<Rightarrow> api_state \<Rightarrow> api_state \<times> string answer" where
  "post_model_run_local w form s =
     (if rg_servers (ap_registry s) = [] then (s, Inl (503, ''No LLM servers attached''))
      else (case given_text (nf_server_id form) of
              Some i \<Rightarrow> run_on_cell w form i s
            | None \<Rightarrow>
                (let model = trim (nf_model form)
                 in if model = [] then (s, bad_request ''model required'')
                    else (signal [RunSignal (fst (aw_uuids w)) model None] s, Inr (fst (aw_uuids w))))))"

section \<open>The lobby's catalogue\<close>

definition clamp_i64 :: "int \<Rightarrow> int \<Rightarrow> int \<Rightarrow> int" where
  "clamp_i64 lo hi n = max lo (min hi n)"

fun show_int :: "int \<Rightarrow> string" where
  "show_int n = (if n < 0 then CHR ''-'' # show_nat (nat (- n)) else show_nat (nat n))"

definition catalog_query ::
  "string option \<Rightarrow> int option \<Rightarrow> int option \<Rightarrow> int option \<Rightarrow> (string \<times> string) list" where
  "catalog_query q limit min_vram max_vram =
     [(''q'', unwrap_or q []), (''limit'', show_int (clamp_i64 1 200 (unwrap_or limit 50)))]
     @ (case min_vram of None \<Rightarrow> [] | Some n \<Rightarrow> [(''min_vram_mb'', show_int n)])
     @ (case max_vram of None \<Rightarrow> [] | Some n \<Rightarrow> [(''max_vram_mb'', show_int n)])"

definition read_catalog :: "api_world \<Rightarrow> bool \<Rightarrow> string + (nat \<times> (string + json)) \<Rightarrow> json answer" where
  "read_catalog w single answer =
     (case answer of
        Inl e \<Rightarrow> bad_gateway e
      | Inr (status, body) \<Rightarrow>
          if single \<and> status = 404 then no_such ''Model not found in catalog''
          else if \<not> lobby_success status then bad_gateway (''lobby catalog error: '' @ aw_show_status w status)
          else (case body of Inl e \<Rightarrow> bad_gateway e | Inr v \<Rightarrow> Inr v))"

definition get_models_catalog ::
  "api_world \<Rightarrow> string option \<Rightarrow> int option \<Rightarrow> int option \<Rightarrow> int option \<Rightarrow> api_state \<Rightarrow> json answer" where
  "get_models_catalog w q limit min_vram max_vram s =
     read_catalog w False (aw_catalog w (lobby_url (aw_lobby w) (cfg_lobby_host (ap_config s)) ''/api/public/models/catalog'')
       (catalog_query q limit min_vram max_vram))"

text \<open>A name as a list of the numbers of its characters; \<open>c as u8\<close> keeps the low byte.\<close>

definition encode_char :: "nat \<Rightarrow> string" where
  "encode_char c =
     (if (48 \<le> c \<and> c \<le> 57) \<or> (65 \<le> c \<and> c \<le> 90) \<or> (97 \<le> c \<and> c \<le> 122) \<or> c \<in> {45, 95, 46}
      then [char_of c]
      else CHR ''%'' # to_ascii_uppercase (hex_encode [char_of (as_u8 c)]))"

definition encode_name :: "nat list \<Rightarrow> string" where
  "encode_name cs = concat (map encode_char cs)"

definition get_models_catalog_entry :: "api_world \<Rightarrow> nat list \<Rightarrow> api_state \<Rightarrow> json answer" where
  "get_models_catalog_entry w name s =
     read_catalog w True (aw_catalog w (lobby_url (aw_lobby w) (cfg_lobby_host (ap_config s))
       (''/api/public/models/catalog/'' @ encode_name name)) [])"

section \<open>Peers and transactions\<close>

definition get_blocked_peers :: "api_state \<Rightarrow> blocked_peer list" where
  "get_blocked_peers s = list_blocked_peers (ns_store (ap_net s))"

definition block_locally :: "api_world \<Rightarrow> string \<Rightarrow> string option \<Rightarrow> api_state \<Rightarrow> api_state" where
  "block_locally w peer reason s =
     s\<lparr>ap_net := (ap_net s)\<lparr>ns_store := block_peer (mw_unix (aw_time w)) peer ''local'' reason (ns_store (ap_net s))\<rparr>\<rparr>"

definition post_block_peer :: "api_world \<Rightarrow> string \<Rightarrow> string option \<Rightarrow> api_state \<Rightarrow> api_state \<times> unit answer" where
  "post_block_peer w peer reason s =
     (if peer = app_peer_id (ap_app s) then (s, bad_request [])
      else (signal [ModerationSignal (CloseConnections peer)] (block_locally w peer reason s), Inr ()))"

definition delete_block_peer :: "string \<Rightarrow> api_state \<Rightarrow> api_state \<times> unit answer" where
  "delete_block_peer peer s =
     (case unblock_peer peer (ns_store (ap_net s)) of
        (store, removed) \<Rightarrow>
          (s\<lparr>ap_net := (ap_net s)\<lparr>ns_store := store\<rparr>\<rparr>, if removed then Inr () else no_such []))"

definition post_report_peer :: "api_world \<Rightarrow> string \<Rightarrow> string option \<Rightarrow> api_state \<Rightarrow> api_state \<times> unit answer" where
  "post_report_peer w peer reason s =
     (if peer = app_peer_id (ap_app s) then (s, bad_request [])
      else (case trimmed reason of
              None \<Rightarrow> (s, bad_request [])
            | Some reason \<Rightarrow>
                (signal [ModerationSignal (Report peer (Some reason))] (block_locally w peer (Some reason) s), Inr ())))"

definition get_transactions :: "nat \<Rightarrow> nat \<Rightarrow> api_state \<Rightarrow> transaction_list_item list" where
  "get_transactions limit offset s = list_transactions (max 1 (min 500 limit)) offset (ns_store (ap_net s))"

definition get_transaction_stats ::
  "nat option \<Rightarrow> api_state \<Rightarrow> (string \<times> credit_bucket) list \<times> (string \<times> credit_bucket) list" where
  "get_transaction_stats since s = transaction_stats (app_peer_id (ap_app s)) since (ns_store (ap_net s))"

section \<open>Settings\<close>

record settings_form =
  tf_auto_approve_run_model_request :: "bool option"
  tf_auto_approve_inference_connections :: "bool option"
  tf_allow_unattested_peers :: "bool option"
  tf_ollama_tls_insecure :: "bool option"
  tf_default_num_predict :: "nat option option"
  tf_default_num_ctx :: "nat option option"
  tf_schedule :: schedule_form
  tf_thermal_enabled :: "bool option"
  tf_thermal_threshold_c :: "nat option"
  tf_thermal_duration_secs :: "nat option"
  tf_thermal_cooldown_c :: "nat option"
  tf_thermal_auto_resume :: "bool option"

text \<open>How an \<open>Option<Option<u64>>\<close> field of the body is read: a missing field and null are the same. \<open>None\<close> refuses the body.\<close>

definition nested_field :: "json \<Rightarrow> string \<Rightarrow> nat option option option" where
  "nested_field body k =
     (case jget k body of
        None \<Rightarrow> Some None
      | Some v \<Rightarrow> if is_null v then Some None else map_option (\<lambda>n. Some (Some n)) (as_u64 v))"

definition positive :: "nat option \<Rightarrow> nat option" where
  "positive n = opt_filter (\<lambda>k. k > 0) n"

definition apply_settings :: "settings_form \<Rightarrow> client_config \<Rightarrow> client_config" where
  "apply_settings f c =
     c\<lparr>cfg_auto_approve_run_model_request := unwrap_or (tf_auto_approve_run_model_request f) (cfg_auto_approve_run_model_request c),
       cfg_auto_approve_inference_connections :=
         unwrap_or (tf_auto_approve_inference_connections f) (cfg_auto_approve_inference_connections c),
       cfg_allow_unattested_peers := unwrap_or (tf_allow_unattested_peers f) (cfg_allow_unattested_peers c),
       cfg_ollama_tls_insecure := unwrap_or (tf_ollama_tls_insecure f) (cfg_ollama_tls_insecure c),
       cfg_default_num_predict := (case tf_default_num_predict f of Some v \<Rightarrow> positive v | None \<Rightarrow> cfg_default_num_predict c),
       cfg_default_num_ctx := (case tf_default_num_ctx f of Some v \<Rightarrow> positive v | None \<Rightarrow> cfg_default_num_ctx c),
       cfg_default_schedule_enabled := opt_or (sf_enabled (tf_schedule f)) (cfg_default_schedule_enabled c),
       cfg_default_schedule_start := opt_or (sf_start (tf_schedule f)) (cfg_default_schedule_start c),
       cfg_default_schedule_end := opt_or (sf_end (tf_schedule f)) (cfg_default_schedule_end c),
       cfg_gpu_thermal_guard_enabled := opt_or (tf_thermal_enabled f) (cfg_gpu_thermal_guard_enabled c),
       cfg_gpu_thermal_threshold_c := opt_or (tf_thermal_threshold_c f) (cfg_gpu_thermal_threshold_c c),
       cfg_gpu_thermal_duration_secs := opt_or (tf_thermal_duration_secs f) (cfg_gpu_thermal_duration_secs c),
       cfg_gpu_thermal_cooldown_c := opt_or (tf_thermal_cooldown_c f) (cfg_gpu_thermal_cooldown_c c),
       cfg_gpu_thermal_auto_resume := opt_or (tf_thermal_auto_resume f) (cfg_gpu_thermal_auto_resume c)\<rparr>"

text \<open>A new client for the model servers; the servers are read again, without a new listing.\<close>

definition refresh_ollama_tls_client :: "api_world \<Rightarrow> api_state \<Rightarrow> api_state \<times> string option" where
  "refresh_ollama_tls_client w s =
     (if \<not> aw_tls_client w then (s, Some (aw_send_error w))
      else (let s = s\<lparr>ap_insecure_tls := effective_ollama_tls_insecure (aw_env w) (ap_config s)\<rparr>
            in case sync_from_config (servers_seen w s) (ap_config s) (ap_registry s) of
                 (reg, Inl e) \<Rightarrow> (s\<lparr>ap_registry := reg\<rparr>, Some (aw_show_error w e))
               | (reg, Inr _) \<Rightarrow> (s\<lparr>ap_registry := reg\<rparr>, None)))"

text \<open>The answer is the settings, which are fields of the configuration.\<close>

definition put_settings :: "api_world \<Rightarrow> settings_form \<Rightarrow> api_state \<Rightarrow> api_state \<times> client_config answer" where
  "put_settings w f s =
     (let tls_changed = (cfg_ollama_tls_insecure (apply_settings f (ap_config s)) \<noteq> cfg_ollama_tls_insecure (ap_config s))
      in save_then w (on_config (apply_settings f) s) (\<lambda>s.
           (if \<not> tls_changed then (s, Inr (ap_config s))
            else (case refresh_ollama_tls_client w s of
                    (s, Some e) \<Rightarrow> (s, Inl (500, e)) | (s, None) \<Rightarrow> (s, Inr (ap_config s))))))"

section \<open>Status\<close>

definition client_display_url :: "string \<Rightarrow> nat \<Rightarrow> string" where
  "client_display_url proxy_bind proxy_port =
     (let host = (if proxy_bind \<in> {''0.0.0.0'', ''::'', ''[::]''} then ''127.0.0.1'' else proxy_bind)
      in ''http://'' @ host @ '':'' @ show_nat proxy_port)"

text \<open>The fields of the answer that are not copied from the state or the configuration, which come with it.\<close>

record status_response =
  sr_app :: app_state
  sr_config :: client_config
  sr_lobby_api_url :: string
  sr_client_url :: string
  sr_llm_servers :: "llm_server_view list"
  sr_attached_server_count :: nat
  sr_outbound_count :: nat
  sr_inbound_count :: nat
  sr_network_paused :: bool
  sr_network_disconnected :: bool

definition peers_in_direction :: "string \<Rightarrow> app_state \<Rightarrow> nat" where
  "peers_in_direction d a = length (filter (\<lambda>p. pcv_direction p = d) (app_peer_connections a))"

definition get_status :: "api_world \<Rightarrow> string \<Rightarrow> nat \<Rightarrow> api_state \<Rightarrow> api_state \<times> status_response" where
  "get_status w proxy_bind proxy_port s =
     (let s = refresh_swarms w s; cfg = ap_config s; host = cfg_lobby_host cfg; service = app_service_id (ap_app s);
          s = (if service = [] then s
               else (case fetch_service_credits (aw_lobby w) host service of
                       None \<Rightarrow> s | Some fresh \<Rightarrow> on_ap_app (\<lambda>a. a\<lparr>app_credit_balance := fresh\<rparr>) s));
          s = on_ap_app (\<lambda>a. a\<lparr>app_lobby_connected := probe_lobby_reachable (aw_lobby w) host\<rparr>) s;
          s = s\<lparr>ap_net := sync_peer_connections_with_store (mw_unix (aw_time w)) (ap_net s)\<rparr>;
          (views, reg) = server_views (servers_seen w s) cfg (ap_registry s);
          a = ap_app s
      in (s\<lparr>ap_registry := reg\<rparr>,
          \<lparr>sr_app = a, sr_config = cfg, sr_lobby_api_url = unwrap_or (lobby_http_base (lw_tls (aw_lobby w)) host) [],
           sr_client_url = client_display_url proxy_bind proxy_port, sr_llm_servers = views,
           sr_attached_server_count = length (filter (\<lambda>v. se_attached (sv_entry v)) views),
           sr_outbound_count = peers_in_direction ''outbound'' a, sr_inbound_count = peers_in_direction ''inbound'' a,
           sr_network_paused = network_all_paused cfg, sr_network_disconnected = network_all_disconnected cfg\<rparr>))"

end
