(* ===== verification/Api_Router.thy ===== *)
theory Api_Router
  imports Api_Models
begin

text \<open>
  All requests of the peer's own interface (\<open>router\<close> in \<open>api/mod.rs\<close>): a request is a value, its answer a status, and a
  run is a list of requests, each with the outside it meets.
\<close>

datatype setup_request =
    GetSetup
  | GetLobbyConfig
  | PostBetaSignup string string string bool
  | PostRegister registration_form

datatype cluster_request =
    GetClusters
  | GetPublicClusters
  | PostClusterCreate "string option" "string option" "string option" "nat option"
  | PostClusterJoin "string option" "string option" "string option"
  | DeleteCluster string
  | PostClusterDisconnect string
  | PostClusterConnect string
  | PostClusterMaintenance string bool
  | PutClusterSchedule string schedule_form

datatype swarm_request =
    GetSwarms
  | PostSwarmCreate "string option" "string option"
  | PostSwarmJoin string "string option" "string list"
  | DeleteSwarm string
  | PostSwarmDisconnect string
  | PostSwarmConnect string
  | PostSwarmMaintenance string bool
  | PutSwarmSchedule string schedule_form
  | PostDisconnectAll
  | PostConnectAll
  | PostPauseAll bool

datatype server_request =
    PostLlmSelect string string
  | GetLlmServers
  | PostLlmServer server_form
  | PostLlmServerAttach string
  | PostLlmServerDetach string
  | PatchLlmServer string "bool option"
  | DeleteLlmServer string
  | PutLlmServerApiKey string "string option"
  | PutLlmServerAdminToken string "string option"

datatype model_request =
    GetModelsCatalog "string option" "int option" "int option" "int option"
  | GetModelsCatalogEntry "nat list"
  | PostModelRequest string "string option" "string option"
  | PostModelRunLocal run_form
  | PatchModelVisibility string bool
  | PostModelVisibilityBulk bool
  | LocalModel string local_action
  | PostModelRespond string bool "string option" "string option"
  | PostConnectionRespond string bool "string option"

datatype peer_request =
    GetSettings
  | PutSettings settings_form
  | GetStatus string nat
  | GetBlockedPeers
  | PostBlockPeer string "string option"
  | DeleteBlockPeer string
  | PostReportPeer string "string option"
  | GetTransactions nat nat
  | GetTransactionStats "nat option"

datatype api_request =
    SetupRequest setup_request
  | ClusterRequest cluster_request
  | SwarmRequest swarm_request
  | ServerRequest server_request
  | ModelRequest model_request
  | PeerRequest peer_request

definition status_only :: "api_state \<times> 'a answer \<Rightarrow> api_state \<times> unit answer" where
  "status_only r = map_prod id (map_sum id (\<lambda>_. ())) r"

definition unchanged :: "'a answer \<Rightarrow> api_state \<Rightarrow> api_state \<times> unit answer" where
  "unchanged r s = status_only (s, r)"

fun setup_answer :: "api_world \<Rightarrow> setup_request \<Rightarrow> api_state \<Rightarrow> api_state \<times> unit answer" where
  "setup_answer w GetSetup s = (s, Inr ())"
| "setup_answer w GetLobbyConfig s = unchanged (get_lobby_config w s) s"
| "setup_answer w (PostBetaSignup email name password terms) s = unchanged (post_beta_signup w email name password terms s) s"
| "setup_answer w (PostRegister form) s = status_only (post_register w form s)"

fun cluster_answer :: "api_world \<Rightarrow> cluster_request \<Rightarrow> api_state \<Rightarrow> api_state \<times> unit answer" where
  "cluster_answer w GetClusters s = (s, Inr ())"
| "cluster_answer w GetPublicClusters s = unchanged (get_public_clusters w s) s"
| "cluster_answer w (PostClusterCreate name visibility password flags) s =
     status_only (post_cluster_create w name visibility password flags s)"
| "cluster_answer w (PostClusterJoin i name password) s = status_only (post_cluster_join w i name password s)"
| "cluster_answer w (DeleteCluster i) s = delete_cluster w i s"
| "cluster_answer w (PostClusterDisconnect i) s = post_cluster_disconnect w i s"
| "cluster_answer w (PostClusterConnect i) s = post_cluster_connect w i s"
| "cluster_answer w (PostClusterMaintenance i on) s = post_cluster_maintenance w i on s"
| "cluster_answer w (PutClusterSchedule i form) s = put_cluster_schedule w i form s"

fun swarm_answer :: "api_world \<Rightarrow> swarm_request \<Rightarrow> api_state \<Rightarrow> api_state \<times> unit answer" where
  "swarm_answer w GetSwarms s = (fst (get_swarms w s), Inr ())"
| "swarm_answer w (PostSwarmCreate name token) s = status_only (post_swarm_create w name token s)"
| "swarm_answer w (PostSwarmJoin token name bootnodes) s = status_only (post_swarm_join w token name bootnodes s)"
| "swarm_answer w (DeleteSwarm i) s = delete_swarm w i s"
| "swarm_answer w (PostSwarmDisconnect i) s = post_swarm_disconnect w i s"
| "swarm_answer w (PostSwarmConnect i) s = post_swarm_connect w i s"
| "swarm_answer w (PostSwarmMaintenance i on) s = post_swarm_maintenance w i on s"
| "swarm_answer w (PutSwarmSchedule i form) s = put_swarm_schedule w i form s"
| "swarm_answer w PostDisconnectAll s = post_network_disconnect_all w s"
| "swarm_answer w PostConnectAll s = post_network_connect_all w s"
| "swarm_answer w (PostPauseAll on) s = post_network_pause_all w on s"

fun server_answer :: "api_world \<Rightarrow> server_request \<Rightarrow> api_state \<Rightarrow> api_state \<times> unit answer" where
  "server_answer w (PostLlmSelect kind url) s = status_only (post_llm_select w kind url s)"
| "server_answer w GetLlmServers s = status_only (get_llm_servers w s)"
| "server_answer w (PostLlmServer form) s = status_only (post_llm_server w form s)"
| "server_answer w (PostLlmServerAttach i) s = status_only (post_llm_server_attach w i s)"
| "server_answer w (PostLlmServerDetach i) s = status_only (post_llm_server_detach w i s)"
| "server_answer w (PatchLlmServer i advertise) s = status_only (patch_llm_server w i advertise s)"
| "server_answer w (DeleteLlmServer i) s = status_only (delete_llm_server w i s)"
| "server_answer w (PutLlmServerApiKey i key) s = status_only (put_llm_server_api_key w i key s)"
| "server_answer w (PutLlmServerAdminToken i token) s = status_only (put_llm_server_admin_token w i token s)"

fun model_answer :: "api_world \<Rightarrow> model_request \<Rightarrow> api_state \<Rightarrow> api_state \<times> unit answer" where
  "model_answer w (GetModelsCatalog q limit lo hi) s = unchanged (get_models_catalog w q limit lo hi s) s"
| "model_answer w (GetModelsCatalogEntry name) s = unchanged (get_models_catalog_entry w name s) s"
| "model_answer w (PostModelRequest model c i) s = status_only (post_model_request w model c i s)"
| "model_answer w (PostModelRunLocal form) s = status_only (post_model_run_local w form s)"
| "model_answer w (PatchModelVisibility name visible) s = status_only (patch_model_visibility w name visible s)"
| "model_answer w (PostModelVisibilityBulk visible) s = status_only (post_model_visibility_bulk w visible s)"
| "model_answer w (LocalModel name action) s = local_model_action w name action s"
| "model_answer w (PostModelRespond r accept c i) s = post_model_respond w r accept c i s"
| "model_answer w (PostConnectionRespond r accept c) s = post_connection_respond w r accept c s"

fun peer_answer :: "api_world \<Rightarrow> peer_request \<Rightarrow> api_state \<Rightarrow> api_state \<times> unit answer" where
  "peer_answer w GetSettings s = (s, Inr ())"
| "peer_answer w (PutSettings form) s = status_only (put_settings w form s)"
| "peer_answer w (GetStatus bound port) s = (fst (get_status w bound port s), Inr ())"
| "peer_answer w GetBlockedPeers s = (s, Inr ())"
| "peer_answer w (PostBlockPeer peer reason) s = post_block_peer w peer reason s"
| "peer_answer w (DeleteBlockPeer peer) s = delete_block_peer peer s"
| "peer_answer w (PostReportPeer peer reason) s = post_report_peer w peer reason s"
| "peer_answer w (GetTransactions limit offset) s = (s, Inr ())"
| "peer_answer w (GetTransactionStats since) s = (s, Inr ())"

fun api_step :: "api_world \<Rightarrow> api_request \<Rightarrow> api_state \<Rightarrow> api_state \<times> unit answer" where
  "api_step w (SetupRequest r) s = setup_answer w r s"
| "api_step w (ClusterRequest r) s = cluster_answer w r s"
| "api_step w (SwarmRequest r) s = swarm_answer w r s"
| "api_step w (ServerRequest r) s = server_answer w r s"
| "api_step w (ModelRequest r) s = model_answer w r s"
| "api_step w (PeerRequest r) s = peer_answer w r s"

fun api_run :: "(api_world \<times> api_request) list \<Rightarrow> api_state \<Rightarrow> api_state" where
  "api_run [] s = s"
| "api_run ((w, r) # rs) s = api_run rs (fst (api_step w r s))"

text \<open>A condition on every request of a run, in the state it meets.\<close>

fun along :: "(api_world \<Rightarrow> api_request \<Rightarrow> api_state \<Rightarrow> bool) \<Rightarrow> (api_world \<times> api_request) list \<Rightarrow> api_state \<Rightarrow> bool" where
  "along ok [] s = True"
| "along ok ((w, r) # rs) s = (ok w r s \<and> along ok rs (fst (api_step w r s)))"

lemma along_requests: "along (\<lambda>w r s. ok r) rs s = (\<forall>x\<in>set rs. ok (snd x))"
  by (induction rs s rule: api_run.induct) simp_all

text \<open>What every allowed request keeps, a run of them keeps.\<close>

locale kept_by_requests =
  fixes I :: "api_state \<Rightarrow> bool" and ok :: "api_world \<Rightarrow> api_request \<Rightarrow> api_state \<Rightarrow> bool"
  assumes kept: "I s \<Longrightarrow> ok w r s \<Longrightarrow> I (fst (api_step w r s))"
begin

lemma kept_along: "I s \<Longrightarrow> along ok rs s \<Longrightarrow> I (api_run rs s)"
  by (induction rs s rule: api_run.induct) (auto intro: kept)

end

end
