(* ===== verification/Api_Refusals.thy ===== *)
theory Api_Refusals
  imports Api_Router
begin

text \<open>
  What a request of the peer's own interface leaves as it was: one that is refused changes nothing.
\<close>

definition client_error :: "'a answer \<Rightarrow> bool" where
  "client_error a = (case a of Inl (c, _) \<Rightarrow> c < 500 | Inr _ \<Rightarrow> False)"

lemma client_error_simps [simp]:
  "client_error (Inl (c, m)) = (c < 500)" "\<not> client_error (Inr x)"
  by (auto simp: client_error_def)

lemma client_error_status_only [simp]:
  "client_error (snd (status_only r)) = client_error (snd r)" "fst (status_only r) = fst r"
  by (auto simp: client_error_def status_only_def split: sum.splits)

lemma client_error_save:
  "client_error (snd (save_then w s k)) \<longleftrightarrow> aw_saved w (ap_config s) \<and> client_error (snd (k s))"
  by (simp add: save_then_def)

lemma client_error_with_servers [simp]: "\<not> client_error (snd (with_servers w s))"
  by (simp add: with_servers_def case_prod_unfold)

lemma client_error_synced [simp]: "\<not> client_error (snd (synced w s))"
  by (simp add: synced_def)

lemma client_error_attach:
  assumes "\<And>s. \<not> client_error (snd (k s))"
  shows "\<not> client_error (snd (attach_server w i k s))"
  using assms by (auto simp: attach_server_def Let_def save_then_def split: prod.splits sum.splits)

lemma lobby_gateway_502 [simp]: "\<not> client_error (Inl (lobby_gateway_err w c e))"
  by (simp add: lobby_gateway_err_def Let_def)

section \<open>The handlers\<close>

lemma refused_setup: "client_error (snd (setup_answer w r s)) \<Longrightarrow> fst (setup_answer w r s) = s"
  by (cases r)
    (auto simp: unchanged_def post_register_def finish_register_def client_error_save Let_def split: sum.splits prod.splits)

lemma refused_cluster: "client_error (snd (cluster_answer w r s)) \<Longrightarrow> fst (cluster_answer w r s) = s"
  by (cases r)
    (auto simp: unchanged_def post_cluster_create_def post_cluster_join_def enter_cluster_def delete_cluster_def
      post_cluster_disconnect_def post_cluster_connect_def post_cluster_maintenance_def put_cluster_schedule_def edit_cluster_def
      client_error_save Let_def split: sum.splits prod.splits option.splits if_splits)

lemma refused_swarm: "client_error (snd (swarm_answer w r s)) \<Longrightarrow> fst (swarm_answer w r s) = s"
  by (cases r)
    (auto simp: unchanged_def post_swarm_create_def post_swarm_join_def delete_swarm_def network_action_def
      post_swarm_disconnect_def post_swarm_connect_def post_swarm_maintenance_def put_swarm_schedule_def edit_swarm_def
      post_network_disconnect_all_def post_network_connect_all_def post_network_pause_all_def
      client_error_save Let_def split: sum.splits prod.splits option.splits if_splits)

lemma config_same [simp]: "on_config (\<lambda>_. ap_config s) s = s"
  by (simp add: on_config_def ap_config_def)

lemma detach_refused: "detach i cfg reg = (cfg', reg', Inl e) \<Longrightarrow> cfg' = cfg \<and> reg' = reg"
  by (auto simp: detach_def split: option.splits)

lemma refused_select: "\<not> client_error (snd (post_llm_select w kind url s))"
  by (simp add: post_llm_select_def Let_def client_error_save client_error_attach case_prod_unfold split: option.split)

lemma refused_add: "client_error (snd (post_llm_server w form s)) \<Longrightarrow> fst (post_llm_server w form s) = s"
  by (simp add: post_llm_server_def Let_def client_error_save case_prod_unfold split: option.splits sum.splits)

lemma refused_detach: "client_error (snd (post_llm_server_detach w i s)) \<Longrightarrow> fst (post_llm_server_detach w i s) = s"
  by (auto simp: post_llm_server_detach_def Let_def client_error_save dest!: detach_refused split: prod.splits sum.splits)

lemma refused_patch: "client_error (snd (patch_llm_server w i advertise s)) \<Longrightarrow> fst (patch_llm_server w i advertise s) = s"
  by (simp add: patch_llm_server_def client_error_save split: if_splits)

lemma refused_delete: "\<not> client_error (snd (delete_llm_server w i s))"
  by (simp add: delete_llm_server_def remove_server_def client_error_save)

lemma refused_key: "client_error (snd (put_llm_server_api_key w i key s)) \<Longrightarrow> fst (put_llm_server_api_key w i key s) = s"
  by (simp add: put_llm_server_api_key_def Let_def split: option.splits if_splits)

lemma refused_token: "client_error (snd (put_llm_server_admin_token w i key s)) \<Longrightarrow> fst (put_llm_server_admin_token w i key s) = s"
  by (simp add: put_llm_server_admin_token_def Let_def split: option.splits if_splits)

lemma refused_server: "client_error (snd (server_answer w r s)) \<Longrightarrow> fst (server_answer w r s) = s"
  by (cases r)
    (simp_all add: refused_select refused_add refused_detach refused_patch refused_delete refused_key refused_token
      get_llm_servers_def post_llm_server_attach_def client_error_attach)

text \<open>The handlers with many cases: \<open>refusal s r\<close> says it of the result \<open>r\<close> of one that started with \<open>s\<close>.\<close>

definition refusal :: "api_state \<Rightarrow> api_state \<times> 'a answer \<Rightarrow> bool" where
  "refusal s r = (client_error (snd r) \<longrightarrow> fst r = s)"

lemma refusal_simps [simp]: "refusal s (s, a)" "refusal s (t, Inr x)"
  by (simp_all add: refusal_def)

lemma refusal_on_cell: "refusal s (run_on_cell w form i s)"
  unfolding run_on_cell_def Let_def by (auto split: option.split)

lemma refusal_run: "refusal s (post_model_run_local w form s)"
  unfolding post_model_run_local_def Let_def by (auto simp: refusal_on_cell split: option.split)

lemma refusal_cell: "refusal s (inference_cell_model_action w name action meta s)"
  unfolding inference_cell_model_action_def Let_def by (auto split: option.split sum.split prod.split)

lemma refusal_local: "refusal s (local_model_action w name action s)"
  unfolding local_model_action_def Let_def by (auto simp: refusal_cell split: option.split)

lemmas refusals = refusal_run refusal_local

lemma refused_model: "client_error (snd (model_answer w r s)) \<Longrightarrow> fst (model_answer w r s) = s"
  by (cases r)
    (simp_all add: unchanged_def hand_on_def post_model_request_def post_model_respond_def post_connection_respond_def
      refusals [unfolded refusal_def, THEN mp] patch_model_visibility_def post_model_visibility_bulk_def client_error_save Let_def split: if_splits)

lemma refused_peer: "client_error (snd (peer_answer w r s)) \<Longrightarrow> fst (peer_answer w r s) = s"
  by (cases r)
    (auto simp: put_settings_def post_block_peer_def delete_block_peer_def post_report_peer_def unblock_peer_def
      client_error_save Let_def split: sum.splits prod.splits option.splits if_splits)

end
