(* ===== verification/Api_Effects.thy ===== *)
theory Api_Effects
  imports Api_Router Registry_Props
begin

text \<open>
  What the handlers of the interface do to the configuration: the identifiers of networks and servers stay distinct, and
  nobody changes a membership without telling the task that runs its network.
\<close>

section \<open>What helpers leave alone\<close>

lemma ap_config_simps [simp]:
  "ap_config (on_config f s) = f (ap_config s)"
  "ap_config (on_ap_app g s) = ap_config s"
  "ap_config (signal xs s) = ap_config s"
  "ap_config (bump_cluster_state s) = ap_config s"
  "ap_config (refresh_swarms w s) = ap_config s"
  "ap_config (s\<lparr>ap_registry := reg\<rparr>) = ap_config s"
  "ap_config (s\<lparr>ap_secrets := st\<rparr>) = ap_config s"
  "ap_config (s\<lparr>ap_setup := b\<rparr>) = ap_config s"
  "ap_config (s\<lparr>ap_insecure_tls := b\<rparr>) = ap_config s"
  "ap_config (s\<lparr>ap_net := n\<rparr>) = ns_config n"
  by (simp_all add: ap_config_def on_config_def on_ap_app_def signal_def bump_cluster_state_def refresh_swarms_def
      sync_swarm_status_for_proxy_def)

lemma ap_log_simps [simp]:
  "ap_log (on_config f s) = ap_log s"
  "ap_log (on_ap_app g s) = ap_log s"
  "ap_log (signal xs s) = ap_log s @ xs"
  "ap_log (bump_cluster_state s) = ap_log s"
  "ap_log (refresh_swarms w s) = ap_log s"
  by (simp_all add: on_config_def on_ap_app_def signal_def bump_cluster_state_def refresh_swarms_def)

lemma rebuild_shown_effect [simp]:
  "ap_config (rebuild_shown w s) = ap_config s" "ap_log (rebuild_shown w s) = ap_log s"
  by (simp_all add: rebuild_shown_def case_prod_unfold)

lemma sync_registry_effect [simp]:
  "ap_config (sync_registry_after_config_change w s) = ap_config s"
  "ap_log (sync_registry_after_config_change w s) = ap_log s"
  by (auto simp: sync_registry_after_config_change_def Let_def split: prod.split sum.split)

lemma notify_effect [simp]:
  "ap_config (notify_clusters_changed s) = ap_config s"
  "ap_log (notify_clusters_changed s) = ap_log s @ [ClustersSignal]"
  "ap_config (notify_swarms_changed w s) = ap_config s"
  "ap_log (notify_swarms_changed w s) = ap_log s @ [SwarmsSignal, SwarmsChangedSignal]"
  by (simp_all add: notify_clusters_changed_def notify_swarms_changed_def)

lemma with_servers_effect [simp]:
  "ap_config (fst (with_servers w s)) = ap_config s" "ap_log (fst (with_servers w s)) = ap_log s"
  by (simp_all add: with_servers_def case_prod_unfold)

lemma synced_effect [simp]:
  "ap_config (fst (synced w s)) = ap_config s" "ap_log (fst (synced w s)) = ap_log s"
  by (simp_all add: synced_def)

section \<open>Lawful results\<close>

text \<open>\<open>lawful w s r\<close>: the result of a handler that started with \<open>s\<close>. Unless the file could not be written, the change of
  a membership was signalled; and the identifiers are as distinct as they were, when the new one is new.\<close>

definition config_ok :: "client_config \<Rightarrow> bool" where
  "config_ok cfg = (config_wf cfg \<and> servers_ok cfg)"

definition fresh_id :: "api_world \<Rightarrow> api_state \<Rightarrow> bool" where
  "fresh_id w s = (fst (aw_uuids w) \<notin> se_id ` set (cfg_llm_servers (ap_config s)))"

definition not_written :: "'a answer \<Rightarrow> bool" where
  "not_written a = (case a of Inl (c, _) \<Rightarrow> c = 500 | Inr _ \<Rightarrow> False)"

definition announced :: "api_state \<Rightarrow> api_state \<Rightarrow> bool" where
  "announced s s' =
     (let news = set (drop (length (ap_log s)) (ap_log s'))
      in (cfg_clusters (ap_config s') = cfg_clusters (ap_config s) \<or> ClustersSignal \<in> news)
         \<and> (cfg_swarms (ap_config s') = cfg_swarms (ap_config s) \<or> SwarmsSignal \<in> news))"

definition lawful :: "api_world \<Rightarrow> api_state \<Rightarrow> api_state \<times> 'a answer \<Rightarrow> bool" where
  "lawful w s r =
     ((not_written (snd r) \<or> announced s (fst r))
      \<and> (fresh_id w s \<and> config_ok (ap_config s) \<longrightarrow> config_ok (ap_config (fst r))))"

lemma not_written_simps [simp]: "not_written (Inl (c, m)) = (c = 500)" "\<not> not_written (Inr x)"
  by (auto simp: not_written_def)

lemma lawfulI:
  assumes "not_written (snd r) \<or> announced s (fst r)"
    and "fresh_id w s \<Longrightarrow> config_ok (ap_config s) \<Longrightarrow> config_ok (ap_config (fst r))"
  shows "lawful w s r"
  using assms by (auto simp: lawful_def)

lemma lawful_same: "ap_config s' = ap_config s \<Longrightarrow> lawful w s (s', a)"
  by (simp add: lawful_def announced_def Let_def)

lemma lawful_refl [simp]: "lawful w s (s, a)"
  by (rule lawful_same) simp

lemma lawful_save:
  assumes "lawful w s (k s1)"
    and "fresh_id w s \<Longrightarrow> config_ok (ap_config s) \<Longrightarrow> config_ok (ap_config s1)"
  shows "lawful w s (save_then w s1 k)"
  using assms by (auto simp: save_then_def lawful_def)

lemma lawful_status_only [simp]: "lawful w s (status_only r) = lawful w s r"
  by (auto simp: lawful_def status_only_def not_written_def split: sum.splits)

lemma lawful_unchanged [simp]: "lawful w s (unchanged a s)"
  by (simp add: unchanged_def)

lemma config_okI:
  assumes "config_ok cfg" "map cm_cluster_id (cfg_clusters cfg') = map cm_cluster_id (cfg_clusters cfg)"
    "map sm_swarm_id (cfg_swarms cfg') = map sm_swarm_id (cfg_swarms cfg)" "cfg_llm_servers cfg' = cfg_llm_servers cfg"
  shows "config_ok cfg'"
  using assms by (simp add: config_ok_def config_wf_def servers_ok_def attached_def)

section \<open>The handlers\<close>

lemma lawful_clusters_saved:
  assumes "cfg_swarms (f (ap_config s)) = cfg_swarms (ap_config s)" "config_ok (ap_config s) \<Longrightarrow> config_ok (f (ap_config s))"
  shows "lawful w s (save_then w (on_config f s) (\<lambda>s. (notify_clusters_changed s, Inr (x s))))"
  using assms by (auto simp: save_then_def lawful_def announced_def)

lemma lawful_swarms_saved:
  assumes "cfg_clusters (f (ap_config s)) = cfg_clusters (ap_config s)" "config_ok (ap_config s) \<Longrightarrow> config_ok (f (ap_config s))"
  shows "lawful w s (save_then w (on_config f s) (\<lambda>s. (notify_swarms_changed w s, Inr (x s))))"
  using assms by (auto simp: save_then_def lawful_def announced_def)

lemma config_ok_cluster: "config_ok c \<Longrightarrow> config_ok (upsert_cluster m c)"
  using config_wf_upsert_cluster [of c m]
  by (auto simp: config_ok_def servers_ok_def attached_def upsert_cluster_def)

lemma config_ok_swarm: "config_ok c \<Longrightarrow> config_ok (ensure_p2p_mode_for_swarms (upsert_swarm m c))"
  using config_wf_ensure [OF config_wf_upsert_swarm [of c m]]
  by (auto simp: config_ok_def servers_ok_def attached_def upsert_swarm_def ensure_p2p_mode_for_swarms_def)

lemma config_ok_removes:
  "config_ok c \<Longrightarrow> config_ok (remove_cluster i c)" "config_ok c \<Longrightarrow> config_ok (remove_swarm i c)"
  using config_wf_remove_cluster [of c i] config_wf_remove_swarm [of c i]
  by (auto simp: config_ok_def servers_ok_def attached_def remove_cluster_def remove_swarm_def Let_def)

lemma swarms_upsert_cluster [simp]: "cfg_swarms (upsert_cluster m c) = cfg_swarms c"
    "cfg_swarms (remove_cluster i c) = cfg_swarms c"
  by (simp_all add: upsert_cluster_def remove_cluster_def Let_def)

lemma clusters_upsert_swarm [simp]: "cfg_clusters (ensure_p2p_mode_for_swarms c) = cfg_clusters c"
    "cfg_clusters (upsert_swarm m c) = cfg_clusters c" "cfg_clusters (remove_swarm i c) = cfg_clusters c"
  by (simp_all add: upsert_swarm_def remove_swarm_def ensure_p2p_mode_for_swarms_def)

lemma register_keeps [simp]:
  "cfg_clusters (apply_register_response r c) = cfg_clusters c" "cfg_swarms (apply_register_response r c) = cfg_swarms c"
  "cfg_llm_servers (apply_register_response r c) = cfg_llm_servers c"
  by (simp_all add: apply_register_response_def)

lemma config_ok_updates [simp]:
  "config_ok (c\<lparr>cfg_setup_complete := b\<rparr>) = config_ok c"
  "config_ok (c\<lparr>cfg_cluster := n\<rparr>) = config_ok c"
  "config_ok (c\<lparr>cfg_lobby_host := h\<rparr>) = config_ok c"
  "config_ok (c\<lparr>cfg_hidden_models := l\<rparr>) = config_ok c"
  "config_ok (apply_register_response reg c) = config_ok c"
  by (simp_all add: config_ok_def config_wf_def servers_ok_def attached_def apply_register_response_def)

lemma check_setup_keeps [simp]:
  "cfg_clusters (check_setup c) = cfg_clusters c" "cfg_swarms (check_setup c) = cfg_swarms c"
  "cfg_llm_servers (check_setup c) = cfg_llm_servers c" "config_ok (check_setup c) = config_ok c"
  by (simp_all add: check_setup_def)

lemma lawful_register: "lawful w s (finish_register w form reg created s)"
  by (auto simp: finish_register_def Let_def save_then_def lawful_def announced_def lobby_gateway_err_def
      intro!: config_ok_cluster split: sum.split)

lemma lawful_setup: "lawful w s (setup_answer w r s)"
  by (cases r) (auto simp: post_register_def Let_def lawful_register split: sum.split prod.split)

lemma lawful_enter: "lawful w s (enter_cluster w password answer s)"
  by (auto simp: enter_cluster_def Let_def intro!: lawful_clusters_saved config_ok_cluster split: sum.split)

lemma lawful_edit_cluster:
  assumes "\<And>c. cm_cluster_id (f c) = cm_cluster_id c"
  shows "lawful w s (edit_cluster w i f s)"
  using assms
  by (auto simp: edit_cluster_def map_update_first intro!: lawful_clusters_saved elim!: config_okI split: option.split)

lemma lawful_edit_swarm:
  assumes "\<And>c. sm_swarm_id (f c) = sm_swarm_id c"
  shows "lawful w s (edit_swarm w i f s)"
  using assms
  by (auto simp: edit_swarm_def map_update_first intro!: lawful_swarms_saved elim!: config_okI split: option.split)

lemma lawful_cluster: "lawful w s (cluster_answer w r s)"
  by (cases r)
    (auto simp: post_cluster_create_def post_cluster_join_def delete_cluster_def lawful_enter Let_def
      post_cluster_disconnect_def post_cluster_connect_def post_cluster_maintenance_def put_cluster_schedule_def
      set_cluster_connected_def set_cluster_accepting_def
      intro!: lawful_clusters_saved lawful_edit_cluster config_ok_removes split: option.split prod.split)

lemma update_first_Nil [simp]: "update_first P f xs = [] \<longleftrightarrow> xs = []"
  by (cases xs) auto

lemma lawful_join_swarm: "lawful w s (post_swarm_join w token name bootnodes s)"
proof (cases "find_swarm_by_token (ap_config s) (trim token)")
  case None
  then show ?thesis
    by (auto simp: post_swarm_join_def Let_def intro!: lawful_swarms_saved config_ok_swarm)
next
  case (Some m)
  then show ?thesis
    by (auto simp: post_swarm_join_def Let_def map_update_first ensure_p2p_mode_for_swarms_def
        intro!: lawful_swarms_saved elim!: config_okI)
qed

lemma lawful_network_action:
  assumes "\<And>saved c. act saved c = save_and_notify saved (f c)"
    and "\<And>c. config_ok c \<Longrightarrow> config_ok (f c)"
  shows "lawful w s (network_action w act s)"
  using assms(2)
  by (auto simp: network_action_def assms(1) save_and_notify_def lawful_def announced_def split: prod.split sum.split)

lemma lawful_network_actions:
  "lawful w s (post_network_disconnect_all w s)" "lawful w s (post_network_connect_all w s)"
  "lawful w s (post_network_pause_all w on s)"
  unfolding post_network_disconnect_all_def post_network_connect_all_def post_network_pause_all_def
  by (rule lawful_network_action [OF disconnect_all_def] lawful_network_action [OF connect_all_def]
      lawful_network_action [of "\<lambda>saved. set_pause_all saved on", OF set_pause_all_def];
      erule config_okI; simp add: set_cluster_connected_def set_swarm_connected_def set_cluster_accepting_def
        set_swarm_accepting_def comp_def)+

lemma lawful_swarm: "lawful w s (swarm_answer w r s)"
  by (cases r)
    (auto simp: get_swarms_def lawful_same post_swarm_create_def delete_swarm_def lawful_join_swarm Let_def
      post_swarm_disconnect_def post_swarm_connect_def post_swarm_maintenance_def put_swarm_schedule_def
      set_swarm_connected_def set_swarm_accepting_def lawful_network_actions
      intro!: lawful_swarms_saved lawful_edit_swarm config_ok_removes config_ok_swarm)

section \<open>Servers\<close>

text \<open>What becomes of the configuration does not depend on the registry, so the registry of just the attached servers
  will do.\<close>

lemma in_step_exists:
  fixes reg :: llm_registry
  assumes "servers_ok cfg"
  obtains reg' where "in_step cfg reg'"
proof
  let ?b = "from_config [] []"
  let ?m = "map (\<lambda>e. (se_id e, \<lparr>rt_entry = e, rt_backend = ?b, rt_show_cache = hm_empty, rt_engine = None,
    rt_connected = True\<rparr>)) (attached cfg)"
  have "distinct (map se_id (attached cfg))"
    using assms by (auto simp: servers_ok_def attached_def distinct_map_filter)
  then show "in_step cfg (reg\<lparr>rg_servers := ?m\<rparr>)"
    unfolding in_step_def
    by (auto simp: hm_wf_def hm_get_def comp_def map_of_eq_None_iff image_image dest!: map_of_SomeD)
qed

lemma attach_effect:
  assumes "servers_ok cfg"
  shows "servers_ok (fst (attach w i cfg reg))" "servers_ok (fst (detach i cfg reg))"
    "servers_ok (fst (remove_server i cfg reg))"
    "n \<notin> se_id ` set (cfg_llm_servers cfg) \<Longrightarrow> servers_ok (fst (find_or_add_entry n e cfg))"
proof -
  obtain reg' where r: "in_step cfg reg'" by (rule in_step_exists [OF assms])
  have "fst (attach w i cfg reg) = fst (attach w i cfg reg')" "fst (detach i cfg reg) = fst (detach i cfg reg')"
    "fst (remove_server i cfg reg) = fst (remove_server i cfg reg')"
    by (simp_all add: attach_def detach_def remove_server_def Let_def split: option.split sum.split)
  then show "servers_ok (fst (attach w i cfg reg))" "servers_ok (fst (detach i cfg reg))"
      "servers_ok (fst (remove_server i cfg reg))"
      "n \<notin> se_id ` set (cfg_llm_servers cfg) \<Longrightarrow> servers_ok (fst (find_or_add_entry n e cfg))"
    using attach_keeps [of w i cfg reg'] detach_keeps [of i cfg reg'] remove_keeps [of i cfg reg']
      add_keeps [of n e cfg _ _ reg'] assms r
    by (metis prod.collapse)+
qed

lemma attach_memberships [simp]:
  "cfg_clusters (fst (attach w i cfg reg)) = cfg_clusters cfg" "cfg_swarms (fst (attach w i cfg reg)) = cfg_swarms cfg"
  "cfg_clusters (fst (detach i cfg reg)) = cfg_clusters cfg" "cfg_swarms (fst (detach i cfg reg)) = cfg_swarms cfg"
  "cfg_clusters (fst (remove_server i cfg reg)) = cfg_clusters cfg" "cfg_swarms (fst (remove_server i cfg reg)) = cfg_swarms cfg"
  "cfg_clusters (fst (find_or_add_entry n e cfg)) = cfg_clusters cfg" "cfg_swarms (fst (find_or_add_entry n e cfg)) = cfg_swarms cfg"
  by (auto simp: attach_def detach_def remove_server_def find_or_add_entry_def Let_def split: option.split sum.split)

text \<open>\<open>keeps w s s'\<close>: the memberships are the same and the servers as distinct as they were.\<close>

definition keeps :: "api_world \<Rightarrow> api_state \<Rightarrow> api_state \<Rightarrow> bool" where
  "keeps w s s' =
     (cfg_clusters (ap_config s') = cfg_clusters (ap_config s) \<and> cfg_swarms (ap_config s') = cfg_swarms (ap_config s)
      \<and> (fresh_id w s \<and> servers_ok (ap_config s) \<longrightarrow> servers_ok (ap_config s')))"

lemma keeps_lawful: "keeps w s (fst r) \<Longrightarrow> lawful w s r"
  by (auto simp: keeps_def lawful_def announced_def config_ok_def config_wf_def)

lemma keeps_config: "ap_config s' = ap_config s1 \<Longrightarrow> keeps w s s' = keeps w s s1"
  by (simp add: keeps_def)

lemma keeps_refl [simp]: "keeps w s s"
  by (simp add: keeps_def)

lemma keeps_save:
  assumes "keeps w s (fst (k s1))" "keeps w s s1"
  shows "keeps w s (fst (save_then w s1 k))"
  using assms by (simp add: save_then_def)

lemma keeps_attach:
  assumes "keeps w s s1" "\<And>s2. ap_config (fst (k s2)) = ap_config s2"
  shows "keeps w s (fst (attach_server w i k s1))"
  using assms attach_effect(1) [of "ap_config s1"]
  by (auto simp: attach_server_def Let_def case_prod_unfold save_then_def keeps_def check_setup_def servers_ok_def attached_def
      split: sum.split)

lemma keeps_add: "keeps w s (fst (add_entry w entry s))"
  using attach_effect(4) [of "ap_config s" "fst (aw_uuids w)" entry]
  by (simp add: add_entry_def case_prod_unfold keeps_def fresh_id_def)


lemma keeps_select: "keeps w s (fst (post_llm_select w kind url s))"
  using keeps_add
  by (auto simp: post_llm_select_def Let_def case_prod_unfold intro!: keeps_save keeps_attach split: option.split)

lemma keeps_post_server: "keeps w s (fst (post_llm_server w form s))"
proof -
  note a = keeps_add [of w s]
  have "keeps w s (fst (save_then w t (with_servers w)))" if "ap_config t = ap_config (fst (add_entry w e s))" for t e
    using a [of e] keeps_config [OF that, of w s] by (intro keeps_save) (simp_all add: keeps_config [of "fst (with_servers w t)" t])
  with a show ?thesis
    by (auto simp: post_llm_server_def Let_def case_prod_unfold split: option.split sum.split)
qed

lemma keeps_detach: "keeps w s (fst (post_llm_server_detach w i s))"
  using attach_effect(2) [of "ap_config s" i "ap_registry s"]
  by (auto simp: post_llm_server_detach_def Let_def case_prod_unfold keeps_def save_then_def split: sum.split)

lemma keeps_delete: "keeps w s (fst (delete_llm_server w i s))"
  using attach_effect(3) [of "ap_config s" i "ap_registry s"]
  by (auto simp: delete_llm_server_def Let_def case_prod_unfold keeps_def save_then_def split: sum.split)

lemma servers_ok_mapped:
  assumes "servers_ok cfg" "cfg_llm_servers cfg' = update_first P f (cfg_llm_servers cfg)"
    and "\<And>e. se_id (f e) = se_id e \<and> se_attached (f e) = se_attached e \<and> se_order (f e) = se_order e"
  shows "servers_ok cfg'"
proof -
  have "map se_order (filter se_attached (update_first P f es)) = map se_order (filter se_attached es)" for es
    using assms(3) by (induction es) auto
  with assms show ?thesis by (simp add: servers_ok_def attached_def map_update_first)
qed

lemma keeps_patch: "keeps w s (fst (patch_llm_server w i advertise s))"
  by (auto simp: patch_llm_server_def keeps_def save_then_def elim!: servers_ok_mapped)

lemma keeps_secrets:
  "keeps w s (fst (put_llm_server_api_key w i key s))" "keeps w s (fst (put_llm_server_admin_token w i key s))"
  by (auto simp: put_llm_server_api_key_def put_llm_server_admin_token_def keeps_def Let_def split: option.split)

lemma lawful_server: "lawful w s (server_answer w r s)"
  by (cases r)
    (simp_all add: keeps_lawful keeps_select keeps_post_server keeps_detach keeps_delete keeps_patch keeps_secrets
      get_llm_servers_def post_llm_server_attach_def keeps_attach keeps_config [of "fst (with_servers w s)" s])

section \<open>The rest\<close>

lemma lawful_local: "lawful w s (local_model_action w name action s)"
proof -
  have "lawful w s (inference_cell_model_action w name action meta s)" for meta
    unfolding inference_cell_model_action_def Let_def by (auto intro: lawful_same split: option.split sum.split prod.split)
  then show ?thesis
    unfolding local_model_action_def Let_def by (auto intro: lawful_same split: option.split)
qed

lemma lawful_run: "lawful w s (post_model_run_local w form s)"
proof -
  have "lawful w s (run_on_cell w form i s)" for i
    unfolding run_on_cell_def Let_def by (auto intro: lawful_same split: option.split)
  then show ?thesis
    unfolding post_model_run_local_def Let_def by (auto intro: lawful_same split: option.split)
qed

lemma lawful_model: "lawful w s (model_answer w r s)"
proof -
  have "lawful w s (save_then w (on_config (\<lambda>c. c\<lparr>cfg_hidden_models := f c\<rparr>) s) (\<lambda>s. (s, Inr (cfg_hidden_models (ap_config s)))))" for f
    by (auto simp: save_then_def lawful_def announced_def)
  then show ?thesis
    by (cases r)
      (auto simp: lawful_local lawful_run hand_on_def post_model_request_def post_model_respond_def
        post_connection_respond_def patch_model_visibility_def post_model_visibility_bulk_def Let_def intro: lawful_same)
qed

lemma refresh_tls_effect [simp]: "ap_config (fst (refresh_ollama_tls_client w s)) = ap_config s"
  by (auto simp: refresh_ollama_tls_client_def Let_def split: prod.split sum.split)

lemma get_status_effect [simp]: "ap_config (fst (get_status w bound port s)) = ap_config s"
  by (auto simp: get_status_def Let_def case_prod_unfold on_ap_app_def ap_config_def refresh_swarms_def
      sync_swarm_status_for_proxy_def sync_peer_connections_with_store_def sync_peer_connections_def split: option.split)

lemma lawful_settings: "lawful w s (put_settings w form s)"
proof -
  have "keeps w s (on_config (apply_settings form) s)"
    by (simp add: keeps_def apply_settings_def servers_ok_def attached_def)
  then have "keeps w s t" if "ap_config t = apply_settings form (ap_config s)" for t
    using that keeps_config [of t "on_config (apply_settings form) s"] by simp
  then show ?thesis
    by (auto simp: put_settings_def Let_def case_prod_unfold save_then_def intro!: keeps_lawful split: option.split)
qed

lemma lawful_peer: "lawful w s (peer_answer w r s)"
  by (cases r)
    (auto simp: lawful_settings post_block_peer_def delete_block_peer_def post_report_peer_def block_locally_def
      ap_config_def [symmetric] case_prod_unfold intro!: lawful_same split: option.split)

lemma lawful_step: "lawful w s (api_step w r s)"
  by (cases r) (simp_all add: lawful_setup lawful_cluster lawful_swarm lawful_server lawful_model lawful_peer)

end
