(* ===== verification/Api_Blocking.thy ===== *)
theory Api_Blocking
  imports Api_Effects Session_Props
begin

text \<open>
  The peer's database as the handlers of the interface see it: only blocking, reporting and unblocking change it, so a
  peer blocked over the interface stays blocked until it is unblocked there.
\<close>

section \<open>Who changes the database\<close>

definition ap_store :: "api_state \<Rightarrow> tx_store" where "ap_store s = ns_store (ap_net s)"

definition untouched :: "api_state \<Rightarrow> api_state \<times> 'a answer \<Rightarrow> bool" where
  "untouched s r = (ap_store (fst r) = ap_store s)"

lemma ap_store_simps [simp]:
  "ap_store (on_config f s) = ap_store s"
  "ap_store (on_ap_app g s) = ap_store s"
  "ap_store (signal xs s) = ap_store s"
  "ap_store (bump_cluster_state s) = ap_store s"
  "ap_store (refresh_swarms w s) = ap_store s"
  "ap_store (notify_clusters_changed s) = ap_store s"
  "ap_store (notify_swarms_changed w s) = ap_store s"
  "ap_store (s\<lparr>ap_registry := reg\<rparr>) = ap_store s"
  "ap_store (s\<lparr>ap_secrets := st\<rparr>) = ap_store s"
  "ap_store (s\<lparr>ap_setup := b\<rparr>) = ap_store s"
  "ap_store (s\<lparr>ap_insecure_tls := b\<rparr>) = ap_store s"
  "ap_store (s\<lparr>ap_net := n\<rparr>) = ns_store n"
  by (simp_all add: ap_store_def on_config_def on_ap_app_def signal_def bump_cluster_state_def refresh_swarms_def
      sync_swarm_status_for_proxy_def notify_clusters_changed_def notify_swarms_changed_def)

lemma ap_store_sync [simp]:
  "ap_store (rebuild_shown w s) = ap_store s" "ap_store (sync_registry_after_config_change w s) = ap_store s"
  by (auto simp: rebuild_shown_def sync_registry_after_config_change_def Let_def case_prod_unfold split: sum.split)

lemma untouched_pair [simp]: "untouched s (t, a) = (ap_store t = ap_store s)"
  by (simp add: untouched_def)

lemma untouched_status_only [simp]: "untouched s (status_only r) = untouched s r" "untouched s (unchanged a s)"
  by (simp_all add: untouched_def status_only_def unchanged_def)

lemma untouched_save:
  assumes "ap_store s1 = ap_store s" "\<And>t. ap_store t = ap_store s \<Longrightarrow> untouched s (k t)"
  shows "untouched s (save_then w s1 k)"
  using assms by (simp add: save_then_def)

lemma untouched_with_servers [simp]:
  "untouched s (with_servers w t) = (ap_store t = ap_store s)" "untouched s (synced w t) = (ap_store t = ap_store s)"
  by (simp_all add: with_servers_def synced_def case_prod_unfold)

lemma untouched_attach:
  assumes "ap_store s1 = ap_store s" "\<And>t. ap_store t = ap_store s \<Longrightarrow> untouched s (k t)"
  shows "untouched s (attach_server w i k s1)"
  using assms
  by (auto simp: attach_server_def Let_def case_prod_unfold intro!: untouched_save split: sum.split)

lemma untouched_register: "untouched s (finish_register w form reg created s)"
  unfolding finish_register_def Let_def by (auto intro!: untouched_save split: sum.split)

lemma untouched_setup: "untouched s (setup_answer w r s)"
  by (cases r) (auto simp: post_register_def Let_def untouched_register split: sum.split prod.split)

lemma untouched_cluster: "untouched s (cluster_answer w r s)"
  by (cases r)
    (auto simp: post_cluster_create_def post_cluster_join_def enter_cluster_def delete_cluster_def edit_cluster_def Let_def
      post_cluster_disconnect_def post_cluster_connect_def post_cluster_maintenance_def put_cluster_schedule_def
      intro!: untouched_save split: option.split sum.split)

lemma untouched_swarm: "untouched s (swarm_answer w r s)"
  by (cases r)
    (auto simp: get_swarms_def post_swarm_create_def post_swarm_join_def delete_swarm_def edit_swarm_def Let_def
      post_swarm_disconnect_def post_swarm_connect_def post_swarm_maintenance_def put_swarm_schedule_def
      post_network_disconnect_all_def post_network_connect_all_def post_network_pause_all_def network_action_def
      case_prod_unfold intro!: untouched_save split: option.split)

lemma add_entry_store [simp]: "ap_store (fst (add_entry w e s)) = ap_store s"
  by (simp add: add_entry_def case_prod_unfold)

lemma untouched_server: "untouched s (server_answer w r s)"
proof -
  have "untouched s (post_llm_select w kind url s)" for kind url
    by (auto simp: post_llm_select_def Let_def case_prod_unfold intro!: untouched_save untouched_attach split: option.split)
  moreover have "untouched s (post_llm_server w form s)" for form
    by (auto simp: post_llm_server_def Let_def case_prod_unfold intro!: untouched_save split: option.split sum.split)
  moreover have "untouched s (post_llm_server_detach w i s)" "untouched s (delete_llm_server w i s)" for i
    by (auto simp: post_llm_server_detach_def delete_llm_server_def Let_def case_prod_unfold intro!: untouched_save split: sum.split)
  moreover have "untouched s (put_llm_server_api_key w i key s)" "untouched s (put_llm_server_admin_token w i key s)" for i key
    by (auto simp: put_llm_server_api_key_def put_llm_server_admin_token_def Let_def split: option.split)
  ultimately show ?thesis
    by (cases r) (auto simp: get_llm_servers_def post_llm_server_attach_def patch_llm_server_def intro!: untouched_attach untouched_save)
qed

lemma untouched_model: "untouched s (model_answer w r s)"
proof -
  have cell: "untouched s (inference_cell_model_action w name action meta s)" for name action meta
    unfolding inference_cell_model_action_def Let_def by (auto split: option.split sum.split prod.split)
  have "untouched s (local_model_action w name action s)" for name action
    unfolding local_model_action_def Let_def by (auto simp: cell split: option.split)
  moreover have on_cell: "untouched s (run_on_cell w form i s)" for form i
    unfolding run_on_cell_def Let_def by (auto split: option.split)
  have "untouched s (post_model_run_local w form s)" for form
    unfolding post_model_run_local_def Let_def by (auto simp: on_cell split: option.split)
  ultimately show ?thesis
    by (cases r)
      (auto simp: hand_on_def post_model_request_def post_model_respond_def post_connection_respond_def
        patch_model_visibility_def post_model_visibility_bulk_def Let_def intro!: untouched_save)
qed

fun moderates :: "peer_request \<Rightarrow> bool" where
  "moderates (PostBlockPeer p r) = True"
| "moderates (DeleteBlockPeer p) = True"
| "moderates (PostReportPeer p r) = True"
| "moderates _ = False"

lemma untouched_peer: "\<not> moderates r \<Longrightarrow> untouched s (peer_answer w r s)"
proof -
  have "untouched s (put_settings w form s)" for form
    by (auto simp: put_settings_def refresh_ollama_tls_client_def Let_def case_prod_unfold intro!: untouched_save
        split: option.split sum.split)
  moreover have "ap_store (fst (get_status w bound port s)) = ap_store s" for bound port
    by (auto simp: get_status_def Let_def case_prod_unfold on_ap_app_def ap_store_def refresh_swarms_def
      sync_swarm_status_for_proxy_def sync_peer_connections_with_store_def sync_peer_connections_def split: option.split)
  moreover assume "\<not> moderates r"
  ultimately show ?thesis by (cases r) auto
qed

text \<open>Every record is kept under its own peer.\<close>

definition blocked_keyed :: "tx_store \<Rightarrow> bool" where
  "blocked_keyed st = (\<forall>k r. hm_get (ts_blocked st) k = Some r \<longrightarrow> bp_peer_id r = k)"

end
