(* ===== verification/Api_Props.thy ===== *)
theory Api_Props
  imports Api_Refusals Api_Blocking Proxy_Routing
begin

text \<open>
  The properties of the interface of the peer's own pages, each with a run of the handlers on small values.
\<close>

section \<open>Values to evaluate on\<close>

definition toy_lobby :: lobby_world where
  "toy_lobby = \<lparr>lw_get = (\<lambda>_ _. Inl ''down''), lw_post = (\<lambda>_ _. Inr (200, [])), lw_status = show_nat, lw_tls = None,
     lw_uuid = Some, lw_attestation = Inr None, lw_public_key = Inr ''pk'', lw_peer_auth = (\<lambda>_. None),
     lw_query_auth = (\<lambda>_. Inl []), lw_registration = (\<lambda>_. Inr sample_registration), lw_cluster = (\<lambda>_. Inr sample_response),
     lw_clusters = (\<lambda>_. Inr []), lw_config = Inl, lw_credits = (\<lambda>_. None), lw_bad_uuid = []\<rparr>"

definition toy_api_world :: "primitives \<Rightarrow> api_world" where
  "toy_api_world P = \<lparr>aw_lobby = toy_lobby, aw_servers = toy_world, aw_http = toy_proxy_world, aw_cell = (\<lambda>_ _ _. Inl []),
     aw_show = (\<lambda>_ _. None), aw_time = toy_manager_world, aw_env = (\<lambda>_. None), aw_prims = P, aw_nonce = Some [],
     aw_overwrites = True, aw_saved = (\<lambda>_. True), aw_save_error = [], aw_store_error = [], aw_sends = True, aw_send_error = [],
     aw_tls_client = True, aw_uuids = (''new'', ''token''), aw_bootnodes = [], aw_catalog = (\<lambda>_ _. Inl []),
     aw_show_error = (\<lambda>_. ''no''), aw_show_entry = (\<lambda>_. []), aw_health_error = (\<lambda>_. []), aw_show_status = show_nat,
     aw_answer_text = (\<lambda>_. []), aw_print_text = (\<lambda>_. [])\<rparr>"

definition toy_api_state :: "client_config \<Rightarrow> api_state" where
  "toy_api_state cfg = \<lparr>ap_net = toy_network\<lparr>ns_config := cfg\<rparr>, ap_registry = registry_new,
     ap_secrets = \<lparr>ss_api_keys = [], ss_admin_tokens = []\<rparr>, ap_setup = False, ap_version = 0, ap_insecure_tls = False,
     ap_lobby_host = ''lobby'', ap_log = []\<rparr>"

lemma toy_api_parts [simp]:
  "ap_config (toy_api_state cfg) = cfg" "ap_app (toy_api_state cfg) = initial_app_state ''me'' [] 0 None"
  "ap_registry (toy_api_state cfg) = registry_new" "ap_log (toy_api_state cfg) = []"
  "aw_saved (toy_api_world P) c" "aw_prims (toy_api_world P) = P" "aw_env (toy_api_world P) = (\<lambda>_. None)"
  "aw_uuids (toy_api_world P) = (''new'', ''token'')" "aw_time (toy_api_world P) = toy_manager_world"
  "aw_lobby (toy_api_world P) = toy_lobby" "aw_show_error (toy_api_world P) e = ''no''"
  "ap_secrets (toy_api_state cfg) = \<lparr>ss_api_keys = [], ss_admin_tokens = []\<rparr>" "ap_lobby_host (toy_api_state cfg) = ''lobby''"
  "ap_store (toy_api_state cfg) = empty_store"
  by (simp_all add: toy_api_state_def toy_api_world_def ap_config_def ap_app_def toy_network_def ap_store_def)

section \<open>Every request\<close>

text \<open>C35: A request that is answered with a client error (a status below 500) changes nothing: not the configuration, the
  servers, the stored secrets, the database, nor does it tell any other task.\<close>

theorem refused_request_changes_nothing:
  assumes "client_error (snd (api_step w r s))"
  shows "fst (api_step w r s) = s"
  using assms
  by (cases r) (simp_all add: refused_setup refused_cluster refused_swarm refused_server refused_model refused_peer)

lemma refused_request_changes_nothing_witness:
  "fst (api_step (toy_api_world toy_primitives) (PeerRequest (PostBlockPeer ''me'' None)) (toy_api_state toy_config))
     = toy_api_state toy_config"
  by (rule refused_request_changes_nothing) (simp add: post_block_peer_def initial_app_state_def)

text \<open>C11: No request changes the peer's clusters or swarms without waking the task that runs them, unless the
  configuration could not be written (status 500).\<close>

theorem membership_change_announced:
  assumes "\<not> not_written (snd (api_step w r s))"
  shows "announced s (fst (api_step w r s))"
  using assms lawful_step [of w s r] by (simp add: lawful_def)

lemma membership_change_announced_witness:
  "announced (toy_api_state toy_config) (fst (api_step (toy_api_world toy_primitives) (SwarmRequest (PostSwarmCreate None None)) (toy_api_state toy_config)))"
  by (rule membership_change_announced)
    (simp add: post_swarm_create_def Let_def save_then_def status_only_def)

interpretation requests_sound: kept_by_requests "\<lambda>s. config_ok (ap_config s)" "\<lambda>w r s. fresh_id w s"
proof
  show "config_ok (ap_config (fst (api_step w r s)))" if "config_ok (ap_config s)" "fresh_id w s" for s w r
    using that lawful_step [of w s r] by (simp add: lawful_def)
qed



section \<open>Blocking\<close>

lemma block_kept:
  assumes "blocked_keyed (ap_store s)" "is_peer_blocked (ap_store s) p" "r \<noteq> PeerRequest (DeleteBlockPeer p)"
  shows "blocked_keyed (ap_store (fst (api_step w r s))) \<and> is_peer_blocked (ap_store (fst (api_step w r s))) p"
proof (cases "\<exists>q. r = PeerRequest q \<and> moderates q")
  case True
  then obtain q where q: "r = PeerRequest q" "moderates q" by blast
  have blocks: "blocked_keyed (block_peer t x l y st) \<and> is_peer_blocked (block_peer t x l y st) p"
    if "blocked_keyed st" "is_peer_blocked st p" for t x l y st
    using that by (auto simp: blocked_keyed_def is_peer_blocked_def load_blocked_peer_def block_peer_def)
  have unblocks: "blocked_keyed (fst (unblock_peer x st)) \<and> is_peer_blocked (fst (unblock_peer x st)) p"
    if "blocked_keyed st" "is_peer_blocked st p" "x \<noteq> p" for x st
    using that by (auto simp: blocked_keyed_def is_peer_blocked_def load_blocked_peer_def unblock_peer_def split: option.split if_splits)
  show ?thesis
    using q assms blocks unblocks
    by (cases q) (auto simp: post_block_peer_def post_report_peer_def delete_block_peer_def block_locally_def case_prod_unfold
        ap_store_def [symmetric] split: option.split)
next
  case False
  then have "untouched s (api_step w r s)"
    by (cases r) (auto simp: untouched_setup untouched_cluster untouched_swarm untouched_server untouched_model untouched_peer)
  with assms show ?thesis by (simp add: untouched_def)
qed

interpretation block: kept_by_requests "\<lambda>s. blocked_keyed (ap_store s) \<and> is_peer_blocked (ap_store s) p"
    "\<lambda>w r s. r \<noteq> PeerRequest (DeleteBlockPeer p)" for p
  by unfold_locales (use block_kept in blast)

text \<open>C12: A peer that was blocked over the interface is cut off at once (its connections are ordered closed), and no
  request that follows, other than its unblocking, makes either network's manager hand it a model request.\<close>

theorem api_block_lasts:
  assumes "api_step w (PeerRequest (PostBlockPeer p reason)) s = (s1, Inr ())"
    and "blocked_keyed (ap_store s)" "PeerRequest (DeleteBlockPeer p) \<notin> snd ` set rs"
    and "prc_target_peer cmd = Some p"
  shows "ap_log s1 = ap_log s @ [ModerationSignal (CloseConnections p)]
    \<and> route_cluster_proxy_cmd w1 (m, ap_net (api_run rs s1)) cmd = Refused (''Peer '' @ p @ '' is blocked'')
    \<and> route_swarm_proxy_cmd w2 (m', ap_net (api_run rs s1)) cmd = Refused (''Peer '' @ p @ '' is blocked'')"
proof (intro conjI)
  from assms(1) have s1: "s1 = signal [ModerationSignal (CloseConnections p)] (block_locally w p reason s)"
    by (simp add: post_block_peer_def split: if_splits)
  then show "ap_log s1 = ap_log s @ [ModerationSignal (CloseConnections p)]" by (simp add: block_locally_def)
  have "blocked_keyed (ap_store s1) \<and> is_peer_blocked (ap_store s1) p"
    using assms(2) unfolding s1
    by (auto simp: block_locally_def blocked_keyed_def is_peer_blocked_def load_blocked_peer_def block_peer_def
        ap_store_def [symmetric])
  moreover have "along (\<lambda>w r s. r \<noteq> PeerRequest (DeleteBlockPeer p)) rs s1"
    using assms(3) by (force simp: along_requests)
  ultimately have "is_peer_blocked (ap_store (api_run rs s1)) p" using block.kept_along by blast
  then show "route_cluster_proxy_cmd w1 (m, ap_net (api_run rs s1)) cmd = Refused (''Peer '' @ p @ '' is blocked'')"
    "route_swarm_proxy_cmd w2 (m', ap_net (api_run rs s1)) cmd = Refused (''Peer '' @ p @ '' is blocked'')"
    using assms(4) by (simp_all add: route_cluster_proxy_cmd_def route_swarm_proxy_cmd_def ap_store_def)
qed

lemma api_block_lasts_witness:
  "ap_log (fst (api_step (toy_api_world toy_primitives) (PeerRequest (PostBlockPeer ''p'' None)) (toy_api_state toy_config)))
     = [ModerationSignal (CloseConnections ''p'')]"
proof -
  let ?s = "toy_api_state toy_config" and ?w = "toy_api_world toy_primitives"
  have "api_step ?w (PeerRequest (PostBlockPeer ''p'' None)) ?s
      = (fst (api_step ?w (PeerRequest (PostBlockPeer ''p'' None)) ?s), Inr ())"
    by (simp add: post_block_peer_def initial_app_state_def)
  from api_block_lasts [OF this, of "[]" "toy_command (Some ''p'')"]
  show ?thesis by (simp add: blocked_keyed_def empty_store_def toy_command_def)
qed

section \<open>Registration and the servers' keys\<close>

lemma save_then_InrD: "save_then w s k = (t, Inr x) \<Longrightarrow> k s = (t, Inr x)"
  by (simp add: save_then_def split: if_splits)

text \<open>Registration leaves the servers and the secrets as they are.\<close>

definition only_identity :: "register_peer_response \<Rightarrow> api_state \<Rightarrow> api_state \<Rightarrow> bool" where
  "only_identity reg s s' =
     (cfg_peer_id (ap_config s') = Some (rr_peer_id reg) \<and> cfg_service_id (ap_config s') = Some (rr_service_id reg)
      \<and> cfg_llm_servers (ap_config s') = cfg_llm_servers (ap_config s) \<and> ap_secrets s' = ap_secrets s
      \<and> ap_registry s' = ap_registry s)"

lemma only_identity_steps [simp]:
  "only_identity reg s (on_config check_setup t) = only_identity reg s t"
  "only_identity reg s (on_config (\<lambda>c. (upsert_cluster m c)\<lparr>cfg_cluster := n\<rparr>) t) = only_identity reg s t"
  "only_identity reg s (on_ap_app f t) = only_identity reg s t"
  "only_identity reg s (notify_clusters_changed t) = only_identity reg s t"
  "only_identity reg s (signal xs (t\<lparr>ap_setup := b\<rparr>)) = only_identity reg s t"
  "only_identity reg s (on_config (\<lambda>c. (apply_register_response reg c)\<lparr>cfg_lobby_host := h\<rparr>) s)"
  by (simp_all add: only_identity_def on_config_def on_ap_app_def signal_def ap_config_def notify_clusters_changed_def
      bump_cluster_state_def check_setup_def upsert_cluster_def apply_register_response_def)

lemma finish_register_identity:
  assumes "finish_register w form reg created s = (s', Inr r)"
  shows "only_identity reg s s' \<and> r = (reg, created)"
  using assms unfolding finish_register_def Let_def
  by (drule_tac save_then_InrD)
    (auto split: sum.splits if_splits dest!: save_then_InrD)

lemma registered:
  assumes "post_register w form s = (s', Inr (reg, created))"
  shows "cfg_peer_id (ap_config s') = Some (rr_peer_id reg)" "cfg_service_id (ap_config s') = Some (rr_service_id reg)"
    "cfg_llm_servers (ap_config s') = cfg_llm_servers (ap_config s)" "ap_secrets s' = ap_secrets s"
    "ap_registry s' = ap_registry s"
proof -
  have "only_identity reg s s'"
    using assms by (auto simp: post_register_def Let_def split: sum.splits prod.splits dest!: finish_register_identity)
  then show "cfg_peer_id (ap_config s') = Some (rr_peer_id reg)" "cfg_service_id (ap_config s') = Some (rr_service_id reg)"
    "cfg_llm_servers (ap_config s') = cfg_llm_servers (ap_config s)" "ap_secrets s' = ap_secrets s"
    "ap_registry s' = ap_registry s"
    by (simp_all add: only_identity_def)
qed


text \<open>A cipher for evaluation that keeps its key: the key's length in unary, the key, the text.\<close>

definition marked :: "string \<Rightarrow> string" where
  "marked k = replicate (length k) (CHR ''1'') @ CHR ''0'' # k"

definition keyed_primitives :: primitives where
  "keyed_primitives = toy_primitives\<lparr>prim_seal := (\<lambda>k n a m. Some (marked k @ m)),
     prim_open := (\<lambda>k n a c. if take (length (marked k)) c = marked k then Some (drop (length (marked k)) c) else None),
     prim_sha256 := (\<lambda>m. m)\<rparr>"

lemma unary_prefix:
  assumes "replicate n (CHR ''1'') @ CHR ''0'' # xs = replicate m (CHR ''1'') @ CHR ''0'' # ys"
  shows "n = m \<and> xs = ys"
  using assms
proof (induction n arbitrary: m)
  case 0
  then show ?case by (cases m) auto
next
  case (Suc n)
  then show ?case by (cases m) auto
qed

lemma marked_apart: "take (length (marked k')) (marked k @ m) = marked k' \<Longrightarrow> k = k'"
proof -
  assume "take (length (marked k')) (marked k @ m) = marked k'"
  then obtain r where "marked k @ m = marked k' @ r" by (metis append_take_drop_id)
  then have "length k = length k' \<and> k @ m = k' @ r"
    by (intro unary_prefix) (simp add: marked_def)
  then show "k = k'" using append_eq_append_conv by blast
qed

definition keyed_config :: client_config where
  "keyed_config = toy_config\<lparr>cfg_peer_id := Some ''old'', cfg_service_id := Some ''old''\<rparr>"

definition keyed_state :: api_state where
  "keyed_state = (toy_api_state keyed_config)\<lparr>ap_secrets :=
     \<lparr>ss_api_keys = [(''a'', \<lparr>sec_nonce = [], sec_ciphertext = marked (machine_secret_key keyed_primitives (\<lambda>_. None) (Some ''old'') (Some ''old'')) @ ''key''\<rparr>)],
      ss_admin_tokens = []\<rparr>\<rparr>"

definition toy_registration :: registration_form where
  "toy_registration = \<lparr>rf_registered = True, rf_has_existing_service = True, rf_service_name = Some ''n'',
     rf_service_password = Some ''p'', rf_peer_id = None, rf_cluster_name = None, rf_contact_email = None,
     rf_terms_accepted = True\<rparr>"

lemma keyed_parts [simp]:
  "ap_config keyed_state = keyed_config" "cfg_peer_id keyed_config = Some ''old''" "cfg_service_id keyed_config = Some ''old''"
  "cfg_llm_servers keyed_config = [toy_server ''a'' 1, toy_server ''b'' 0]" "ap_lobby_host keyed_state = ''lobby''"
  by (simp_all add: keyed_state_def keyed_config_def toy_config_def ap_config_def toy_api_state_def)

lemma toy_registers:
  "\<exists>s1 created. post_register (toy_api_world keyed_primitives) toy_registration keyed_state = (s1, Inr (sample_registration, created))"
proof -
  have f: "fetch_lobby_config toy_lobby h = Inl e" if "e = ''Lobby unreachable at '' @ lobby_url toy_lobby h ''/api/public/config'' @ '': '' @ ''down''" for h e
    using that by (simp add: fetch_lobby_config_def toy_lobby_def Let_def unreachable_def read_answer_def)
  have m: "fetch_lobby_config toy_lobby h = Inl (''Lobby unreachable at '' @ lobby_url toy_lobby h ''/api/public/config'' @ '': '' @ ''down'')" for h
    by (rule f) (rule refl)
  have r: "register_with_lobby toy_lobby h p n pw c e = Inr sample_registration" for h p n pw c e
    by (simp add: register_with_lobby_def toy_lobby_def Let_def unreachable_def read_answer_def lobby_success_def)
  have j: "join_public_cluster_by_name toy_lobby h n p = Inr sample_response" for h n p
    by (simp add: join_public_cluster_by_name_def toy_lobby_def read_answer_def lobby_success_def)
  have q: "registration_request None toy_registration = Inr (None, Some ''n'', Some ''p'', False, None)"
    by code_simp
  show ?thesis
    by (auto simp: post_register_def m r q finish_register_def save_then_def j Let_def)
qed


section \<open>Setup of a peer of swarms\<close>

lemma attach_answered:
  assumes "attach_server w i k s = (s', Inr x)"
  obtains t where "k t = (s', Inr x)" "ap_config t = check_setup (fst (attach (servers_seen w s) i (ap_config s) (ap_registry s)))"
proof -
  let ?r = "attach (servers_seen w s) i (ap_config s) (ap_registry s)"
  let ?t = "sync_registry_after_config_change w (on_config check_setup ((on_config (\<lambda>_. fst ?r) s)\<lparr>ap_registry := fst (snd ?r)\<rparr>))"
  have "k (if cfg_setup_complete (ap_config ?t) then signal [SetupCompleteSignal] ?t else ?t) = (s', Inr x)"
  proof (cases "snd (snd ?r)")
    case (Inl e)
    with assms show ?thesis by (simp add: attach_server_def Let_def case_prod_unfold)
  next
    case (Inr u)
    with assms have "save_then w (on_config check_setup ((on_config (\<lambda>_. fst ?r) s)\<lparr>ap_registry := fst (snd ?r)\<rparr>))
        (\<lambda>s. k (if cfg_setup_complete (ap_config (sync_registry_after_config_change w s))
          then signal [SetupCompleteSignal] (sync_registry_after_config_change w s)
          else sync_registry_after_config_change w s)) = (s', Inr x)"
      by (simp only: attach_server_def Let_def case_prod_unfold sum.case)
    from save_then_InrD [OF this] show ?thesis .
  qed
  then show thesis
    by (rule that) (simp split: if_split)
qed

text \<open>C37: A peer that is in swarms only and whose setup is complete loses that with the next server it attaches: the
  setup page goes back from the last step to the one before, although it counts swarms like clusters.\<close>

theorem attaching_undoes_swarm_setup:
  assumes "api_step w (ServerRequest (PostLlmServerAttach i)) s = (s', Inr ())"
    and "cfg_clusters (ap_config s) = []" "cfg_swarms (ap_config s) \<noteq> []" "cfg_setup_complete (ap_config s)"
    and "cfg_peer_id (ap_config s) \<noteq> None" "cfg_service_id (ap_config s) \<noteq> None"
  shows "st_step (get_setup s) = 4 \<and> st_step (get_setup s') = 3 \<and> \<not> cfg_setup_complete (ap_config s')"
proof (intro conjI)
  show "st_step (get_setup s) = 4" using assms(2-) by (simp add: get_setup_def Let_def)
  let ?c = "fst (attach (servers_seen w s) i (ap_config s) (ap_registry s))"
  have id: "cfg_peer_id ?c = cfg_peer_id (ap_config s)" "cfg_service_id ?c = cfg_service_id (ap_config s)"
    by (auto simp: attach_def Let_def split: option.split sum.split)
  obtain x where "post_llm_server_attach w i s = (s', Inr x)"
    using assms(1) by (cases "post_llm_server_attach w i s"; cases "snd (post_llm_server_attach w i s)") (auto simp: status_only_def)
  then obtain t where "with_servers w t = (s', Inr x)" and t: "ap_config t = check_setup ?c"
    by (auto simp: post_llm_server_attach_def elim: attach_answered)
  then have "ap_config s' = check_setup ?c" using with_servers_effect(1) [of w t] by simp
  with assms(2-) id show "st_step (get_setup s') = 3" "\<not> cfg_setup_complete (ap_config s')"
    by (simp_all add: get_setup_def Let_def check_setup_def)
qed

definition swarm_only :: client_config where
  "swarm_only = toy_config\<lparr>cfg_peer_id := Some ''me'', cfg_service_id := Some ''s'', cfg_setup_complete := True,
     cfg_swarms := [create_swarm_membership (\<lambda>_. None) ''w'' ''t'' None None]\<rparr>"

lemma attaching_undoes_swarm_setup_witness:
  "\<exists>s'. st_step (get_setup (toy_api_state swarm_only)) = 4 \<and> st_step (get_setup s') = 3"
proof -
  let ?w = "toy_api_world toy_primitives" and ?s = "toy_api_state swarm_only"
  let ?r = "api_step ?w (ServerRequest (PostLlmServerAttach ''a'')) ?s"
  have key: "sw_api_key (servers_seen ?w ?s) ''a'' = Inr None"
    by (simp add: servers_seen_def get_server_api_key_def read_secret_def)
  have "\<exists>c g. attach (servers_seen ?w ?s) ''a'' (ap_config ?s) (ap_registry ?s) = (c, g, Inr ())"
  proof -
    have "cfg_llm_servers (ap_config ?s) = [toy_server ''a'' 1, toy_server ''b'' 0]" by (simp add: swarm_only_def toy_config_def)
    moreover have "validate_custom_server_entry (toy_server ''a'' 1) = Inr ()" by code_simp
    moreover have "sw_healthy (servers_seen ?w ?s) b" for b by (simp add: servers_seen_def toy_api_world_def toy_world_def)
    ultimately show ?thesis using key
      by (auto simp: attach_def build_backend_def Let_def toy_server_def case_prod_unfold split: option.split sum.split)
  qed
  then have "snd ?r = Inr ()"
    by (auto simp: post_llm_server_attach_def attach_server_def Let_def save_then_def status_only_def with_servers_def case_prod_unfold)
  then have r: "?r = (fst ?r, Inr ())" by (simp add: prod_eq_iff)
  have c: "cfg_clusters (ap_config ?s) = []" "cfg_swarms (ap_config ?s) \<noteq> []" "cfg_setup_complete (ap_config ?s)"
    "cfg_peer_id (ap_config ?s) \<noteq> None" "cfg_service_id (ap_config ?s) \<noteq> None"
    by (simp_all add: swarm_only_def toy_config_def default_client_config_def)
  from attaching_undoes_swarm_setup [OF r c] show ?thesis by blast
qed

section \<open>Loading models\<close>

definition prescribed :: "load_request \<Rightarrow> (string \<times> json) option" where
  "prescribed r = (case r of EmbedRequest b \<Rightarrow> Some (''/api/embed'', b) | GenerateRequest b \<Rightarrow> Some (''/api/generate'', b)
     | LoadRefused \<Rightarrow> None)"

definition carried_out :: "api_world \<Rightarrow> llm_backend \<Rightarrow> load_request \<Rightarrow> nat option" where
  "carried_out w b r =
     (case prescribed r of
        None \<Rightarrow> Some 400
      | Some (path, body) \<Rightarrow>
          (case forward_post_raw (aw_http w) b path (aw_print_text w body) of
             Inl _ \<Rightarrow> Some 502 | Inr resp \<Rightarrow> if is_success (up_status resp) then None else Some 502))"

text \<open>Loading and unloading a model from the interface, written out once more in its handlers, asks the server exactly
  what the Ollama client's own routines would ask, and fails where they do.\<close>

theorem model_load_as_prescribed:
  "map_option fst (load_on w s b name) = carried_out w b (load_model name (model_show_info w s name))"
  "map_option fst (unload_on w s b name) = carried_out w b (unload_model name (model_show_info w s name))"
proof -
  have body: "load_body name True k = embed_body name k" "load_body name False k = generate_body name k" for k
    by (simp_all add: load_body_def embed_body_def generate_body_def)
  have reply: "map_option fst (server_reply w what r)
      = (case r of Inl _ \<Rightarrow> Some 502 | Inr resp \<Rightarrow> if is_success (up_status resp) then None else Some 502)" for what r
    by (simp add: server_reply_def split: sum.split)
  show "map_option fst (load_on w s b name) = carried_out w b (load_model name (model_show_info w s name))"
    by (simp add: load_on_def load_model_def carried_out_def prescribed_def Let_def reply body)
  show "map_option fst (unload_on w s b name) = carried_out w b (unload_model name (model_show_info w s name))"
    by (simp add: unload_on_def unload_model_def carried_out_def prescribed_def Let_def reply body)
qed

section \<open>Hiding\<close>

text \<open>The part of the peer its model proxy reads.\<close>

definition proxy_part :: "environment \<Rightarrow> bool \<Rightarrow> api_state \<Rightarrow> proxy_state" where
  "proxy_part env ready s =
     \<lparr>px_registry = ap_registry s, px_app = ap_app s, px_config = ap_config s, px_env = env, px_setup_complete = ap_setup s,
      px_llm_ready = ready\<rparr>"

lemma proxy_part_simps [simp]:
  "px_registry (proxy_part env ready s) = ap_registry s" "px_app (proxy_part env ready s) = ap_app s"
  "px_config (proxy_part env ready s) = ap_config s"
  by (simp_all add: proxy_part_def)

text \<open>After all models were hidden at once, a peer without a server of its own lists no model with a name to its
  applications, whatever the networks offer.\<close>

theorem hiding_all_empties_listing:
  assumes "post_model_visibility_bulk w False s = (s', Inr names)" "first_attached_backend (ap_registry s) = None"
    and "\<forall>m\<in>set (app_network_models (ap_app s)). get_str ''name'' m \<noteq> Some []"
  shows "listed_models pw (proxy_part env ready s') = Some []"
proof -
  from assms(1) have s': "s' = on_config (\<lambda>c. c\<lparr>cfg_hidden_models := collect_unified_model_names (ap_app s)\<rparr>) s"
    by (auto simp: post_model_visibility_bulk_def dest!: save_then_InrD)
  have "n \<in> set (collect_unified_model_names (ap_app s))"
    if "m \<in> set (app_network_models (ap_app s))" "get_str ''name'' m = Some n" for m n
    using that assms(3) by (force simp: collect_unified_model_names_def List.map_filter_def)
  then have "filter (\<lambda>m. case get_str ''name'' m of Some n \<Rightarrow> \<not> hidden (proxy_part env ready s') n | None \<Rightarrow> False)
      (app_network_models (ap_app s)) = []"
    by (auto simp: filter_empty_conv hidden_def s' split: option.splits)
  moreover have "ap_app s' = ap_app s" "ap_registry s' = ap_registry s"
    by (simp_all add: s' on_config_def ap_app_def)
  ultimately show ?thesis using assms(2) by (simp add: listed_models_def Let_def)
qed

lemma hiding_all_empties_listing_witness:
  "\<exists>s'. listed_models toy_proxy_world (proxy_part (\<lambda>_. None) True s') = Some []"
proof -
  let ?w = "toy_api_world toy_primitives"
  let ?s = "on_ap_app (\<lambda>a. a\<lparr>app_network_models := [toy_offer 1]\<rparr>) (toy_api_state toy_config)"
  have 1: "post_model_visibility_bulk ?w False ?s
      = (fst (post_model_visibility_bulk ?w False ?s), Inr (cfg_hidden_models (ap_config (fst (post_model_visibility_bulk ?w False ?s)))))"
    by (simp add: post_model_visibility_bulk_def save_then_def)
  have 2: "first_attached_backend (ap_registry ?s) = None"
    by (simp add: on_ap_app_def toy_api_state_def) code_simp
  have "get_str ''name'' (toy_offer 1) \<noteq> Some []" by code_simp
  then have 3: "\<forall>m\<in>set (app_network_models (ap_app ?s)). get_str ''name'' m \<noteq> Some []"
    by (simp add: on_ap_app_def ap_app_def)
  from hiding_all_empties_listing [OF 1 2 3] show ?thesis by blast
qed

end
