(* ===== verification/Spec2Isabelle.thy ===== *)
theory Spec2Isabelle
  imports Client_Bootstrap Lobby_Url Network_Control Connect_Allowance Gpu_Guard Peer_Stats
    Peer_Ranking Cluster_Answer Registry_Props
    Agent_Request_Props Agent_Answer_Props Proxy_Props Proxy_Routing
    Tx_Props Session_Props
    Swarm_Answer Swarm_Catalog_Props Swarm_Wire
    Cluster_Session_Props Cluster_Access Cluster_Traffic
    Api_Props
begin

text \<open>
  Verification library for the mtrxAI peer (\<open>src/peer/src\<close>), a program that shares local language
  models with other peers: it registers with a lobby, joins clusters (over WebRTC) and swarms (over
  libp2p), offers its models there and forwards requests to other peers' models.

  The library models the peer's decisions and the state they change; network, files, clocks, random
  bytes, cryptographic primitives and JSON encoding are arguments of the definitions. A structure
  behind a lock is explicit state; an error or a panic is a value of an option or a sum.

  Theories, bottom up:

  \<^item> \<open>Peer_Prelude\<close>, \<open>Rust_Order\<close>, \<open>Rust_Str\<close>, \<open>Json_Value\<close>: what the peer uses of Rust's library:
    saturating and wrapping integers, hash maps, stable sorting by a comparison closure (the locale
    \<open>comparator\<close>), strings, JSON values. \<open>Peer_Types\<close>: records shared by several components.
  \<^item> \<open>Lobby_Url\<close> (\<open>lobby_url.rs\<close>), \<open>Client_Config\<close> and \<open>Client_Bootstrap\<close> (\<open>client_config.rs\<close>):
    where the lobby is, the stored configuration and how a start-up completes it.
  \<^item> \<open>Network_Control\<close> (\<open>network_scheduler.rs\<close>, \<open>network_actions.rs\<close>): connecting and pausing
    memberships, by hand or by the clock.
  \<^item> \<open>Connect_Allowance\<close> (\<open>connect_allowance.rs\<close>): one-time permissions to connect.
  \<^item> \<open>Gpu_Guard\<close> (\<open>gpu_history.rs\<close>, \<open>gpu_thermal_guard.rs\<close>, \<open>gpu/aggregate.rs\<close>, \<open>gpu/util.rs\<close>): the
    buffers of GPU samples, the guard that pauses a hot peer, the status of a host.
  \<^item> \<open>Peer_Stats\<close> (\<open>peer_stats.rs\<close>), \<open>Token_Usage\<close> (\<open>token_usage.rs\<close>): what is counted per peer, and the
    tokens read off an answer.
  \<^item> \<open>P2p_Protocol\<close> (\<open>p2p_protocol.rs\<close>), \<open>Peer_Ranking\<close> (\<open>peer_ranking.rs\<close>): catalogues, framing, and
    which peer is asked.
  \<^item> \<open>Utf8_Chunks\<close>, \<open>Proxy_Crypto\<close>, \<open>Request_Defaults\<close>, \<open>Cluster_E2ee\<close>, with the properties in
    \<open>Cluster_Flow\<close> and \<open>Cluster_Answer\<close> (\<open>cluster_dc_e2ee.rs\<close>, \<open>proxy_e2ee.rs\<close>, \<open>crypto/\<close>,
    \<open>security/proxy_auth.rs\<close>, \<open>inference_sidecar.rs\<close>, part of \<open>agent_compat.rs\<close>): a proxied request
    from the consumer through encryption, chunking, reassembly, the provider's checks and the model,
    and the answer back.

  \<^item> \<open>Model_Catalog\<close> (\<open>ollama_client.rs\<close>, the listings in \<open>llm_backend/\<close>), \<open>Llm_Registry\<close>
    (\<open>llm_registry.rs\<close>, \<open>llm_backend/mod.rs\<close>), with the properties in \<open>Registry_Props\<close>: the local model
    servers, their merged catalogue, routing a model to a server, and what is advertised.

  \<^item> \<open>Shared_State\<close> (\<open>shared.rs\<close>, \<open>model_run.rs\<close>, \<open>lib.rs\<close>), \<open>Network_Catalog\<close>
    (\<open>network_catalog.rs\<close>): the state all tasks share, and the one list of the models all clusters and
    swarms offer.
  \<^item> \<open>Agent_Request\<close>, \<open>Agent_Answer\<close> (\<open>agent_compat.rs\<close>): an agent's request in the form servers
    understand, and the answer in the form the agent does; properties in \<open>Agent_Request_Props\<close> and
    \<open>Agent_Answer_Props\<close>.
  \<^item> \<open>Llm_Proxy\<close>, \<open>Proxy_Chat\<close> (\<open>llm_proxy.rs\<close>, the requests in \<open>llm_backend/mod.rs\<close>): the proxy's HTTP
    routes. \<open>Proxy_Props\<close> shows what its streams keep whatever the network does, \<open>Proxy_Routing\<close>
    where a request goes.

  \<^item> \<open>Tx_Store\<close> (\<open>tx_db/mod.rs\<close>), properties in \<open>Tx_Props\<close>: the peer's book of transactions and blocked peers.
    \<open>Session_Managers\<close> (\<open>cluster_manager.rs\<close>, \<open>swarm_manager.rs\<close>), properties in \<open>Session_Props\<close>: one session per
    connected membership, commands routed to the session they are for, and the state all sessions share.

  \<^item> \<open>Swarm_Address\<close>, \<open>Swarm_Session\<close>, \<open>Swarm_Catalog\<close>, \<open>Swarm_Proxying\<close>, \<open>Swarm_Messages\<close>, \<open>Swarm_Wire\<close>
    (\<open>p2p_manager.rs\<close>): a swarm's session. Its state is a record, what it does outside is a log of actions, an event
    of libp2p, of a timer or of a local task is a step (\<open>p2p_step\<close>), and a run is a list of events, each with
    the world it meets (connected peers, time, random bytes). \<open>Swarm_Provider\<close> (\<open>p2p_proxy.rs\<close>) is the task that
    answers a request. \<open>Swarm_Clients\<close> shows what every step keeps (the locale \<open>session_inv\<close>) and that an error is the
    last thing a caller hears; \<open>Swarm_Props\<close> what reaches a model and the one step that never ends;
    \<open>Swarm_Stream\<close> and \<open>Swarm_Answer\<close> that an encrypted answer is read as it was sent; \<open>Swarm_Catalog_Props\<close> that
    the list of a swarm's models is what its peers offer.

  \<^item> \<open>Cluster_Session\<close>, \<open>Cluster_Requests\<close>, \<open>Cluster_Channel\<close>, \<open>Cluster_Lobby\<close> (\<open>webrtc_manager.rs\<close>): a cluster's
    session in the same manner. Its state and connections; requests to other peers and the connections made for them;
    what arrives on a data channel; the lobby's messages and the loop (\<open>cluster_step\<close>, \<open>cluster_run\<close>). A handler that
    waits leaves its continuation in the state, and an event of its own goes on with it. \<open>Cluster_Connections\<close> has the
    locale \<open>connection_inv\<close>: what the few places that change connections keep, every step keeps. \<open>Cluster_Session_Props\<close>
    shows that the connections reported are those held, that a channel speaks for the peer it belongs to, and what a
    waiting request comes to; \<open>Cluster_Access\<close> that a connection made from outside uses up an approval of its own, by
    running \<open>Connect_Allowance\<close>'s tokens; \<open>Cluster_Traffic\<close> what a request and an answer in the clear are on the other
    side. \<open>Cluster_Examples\<close> holds the small sessions of the witnesses.

  \<^item> \<open>Server_Secrets\<close> (\<open>tx_db/secrets.rs\<close>): the sealed keys of model servers. \<open>Lobby_Client\<close> (\<open>client_config.rs\<close>): the
    requests to the lobby and how its answers are read.
  \<^item> \<open>Api_State\<close>, \<open>Api_Networks\<close>, \<open>Api_Servers\<close>, \<open>Api_Models\<close>, \<open>Api_Router\<close> (\<open>api/mod.rs\<close>, \<open>api/alias.rs\<close>): the
    interface of the peer's own pages. A handler takes the state and gives the new one with a status or an answer; a
    request is a step (\<open>api_step\<close>), a run a list of requests, each with the outside it meets (\<open>api_run\<close>). The locale
    \<open>kept_by_requests\<close> takes what every request keeps to runs. \<open>Api_Refusals\<close> shows that a refused request changes
    nothing, \<open>Api_Effects\<close> what the handlers do to the configuration and whom they tell, \<open>Api_Blocking\<close> who changes the
    database; \<open>Api_Props\<close> has the properties, among them what registration does to the servers' stored keys.

  Loops are structural recursions or functions with a measure; the wait for the lobby, which may
  never end, is a \<open>partial_function\<close>, and when it returns is a property. No fuel is used. A request waiting for its
  channel looks at it at most sixty times, the code's own bound.

  Not modelled: the operating system's sockets, files and processes, the HTTP server and client, SQL, libp2p and
  WebRTC, the vendor tools that report GPUs, the desktop shell, and log lines; the lobby's protocol is an external
  crate, its messages are the fields the session reads and writes. Channels between tasks always have room.
\<close>

end
